(* ===== verification/Go_Prelude.thy ===== *)
theory Go_Prelude
  imports Main "HOL-Library.Word" "HOL-Library.Signed_Division" "HOL-Library.State_Monad"
    "HOL-Library.AList" "HOL-Library.Multiset"
begin

text \<open>
  Shared vocabulary of the development: the parts of Go and of its standard library that
  the sources under \<^verbatim>\<open>src/\<close> use, and the generic lemmas the component theories rest on.

  \<^item> Go's \<^verbatim>\<open>int64\<close> is \<^typ>\<open>64 word\<close>: \<open>+\<close>, \<open>-\<close>, \<open>*\<close> wrap around, comparisons are signed
    (\<open>\<le>s\<close>, \<open><s\<close>) and division truncates towards zero (\<open>int64_div\<close>).
  \<^item> Go strings are byte strings; \<open>EqualFold\<close>, \<open>Atoi\<close> and \<open>FormatInt\<close> model
    \<^verbatim>\<open>strings.EqualFold\<close> (on ASCII text, which the Kubernetes API requires of names, kinds and
    UIDs), \<^verbatim>\<open>strconv.Atoi\<close> and \<^verbatim>\<open>strconv.FormatInt(_, 10)\<close>.
  \<^item> A Go map is an association list read by \<^const>\<open>map_of\<close> and written by
    \<^const>\<open>AList.update\<close> and \<^const>\<open>AList.delete\<close>; the list order stands for the unspecified
    iteration order, over which every lemma is quantified.
  \<^item> A computation that talks to the outside (API server, event recorder, clock) is a state
    monad over the trace of the calls made so far. What a call returns is a function of that
    trace, so an arbitrary environment, with other writers included, is covered.
\<close>

named_theorems int64_arith \<open>signed readings of 64-bit arithmetic without overflow\<close>
named_theorems does_rules \<open>composition rules for the trace calculus\<close>

section \<open>64-bit integers\<close>

type_synonym int64 = "64 word"
type_synonym int32 = "32 word"

definition int64_div :: "int64 \<Rightarrow> int64 \<Rightarrow> int64" where
  "int64_div a b = word_of_int (sint a sdiv sint b)"

definition MaxInt64 :: int64 where
  "MaxInt64 = 9223372036854775807"

definition int64_range :: "int \<Rightarrow> bool" where
  "int64_range i \<longleftrightarrow> - (2 ^ 63) \<le> i \<and> i < 2 ^ 63"

lemma int64_range_sint [simp]: "int64_range (sint (a :: int64))"
  using sint_range_size [of a] by (simp add: int64_range_def word_size)

lemma sint_word_of_int64 [int64_arith]:
  "int64_range i \<Longrightarrow> sint (word_of_int i :: int64) = i"
  by (simp add: int64_range_def signed_of_int signed_take_bit_int_eq_self_iff)

lemma sint_add64 [int64_arith]:
  "int64_range (sint a + sint b) \<Longrightarrow> sint (a + b :: int64) = sint a + sint b"
  using sint_word_of_int64 [of "sint a + sint b"] by simp

lemma sint_sub64 [int64_arith]:
  "int64_range (sint a - sint b) \<Longrightarrow> sint (a - b :: int64) = sint a - sint b"
  using sint_word_of_int64 [of "sint a - sint b"] by simp

lemma sint_mult64 [int64_arith]:
  "int64_range (sint a * sint b) \<Longrightarrow> sint (a * b :: int64) = sint a * sint b"
  using sint_word_of_int64 [of "sint a * sint b"] by simp

lemma sint_of_nat64: "n < 2 ^ 63 \<Longrightarrow> sint (of_nat n :: int64) = int n"
  using sint_word_of_int64 [of "int n"] by (simp add: int64_range_def)


lemma sint_MaxInt64 [simp]: "sint MaxInt64 = 9223372036854775807"
  by (simp add: MaxInt64_def)

lemma sint_int64_div_nonneg [int64_arith]:
  assumes "0 \<le> sint a" and "0 < sint b"
  shows "sint (int64_div a b) = sint a div sint b"
proof -
  have s: "sint a sdiv sint b = sint a div sint b"
    using assms by (cases "sint a = 0") (simp_all add: signed_divide_int_def)
  have "sint a div sint b \<le> sint a"
    using zdiv_mono2 [of "sint a" 1 "sint b"] assms by simp
  moreover have "0 \<le> sint a div sint b"
    using assms by (simp add: pos_imp_zdiv_nonneg_iff)
  moreover have "sint a < 2 ^ 63"
    using int64_range_sint [of a] by (simp add: int64_range_def)
  ultimately have "int64_range (sint a div sint b)"
    by (simp add: int64_range_def)
  then show ?thesis
    unfolding int64_div_def s by (rule sint_word_of_int64)
qed

lemma sless_sint: "(a <s b) = (sint a < sint (b :: int64))"
  by (simp add: word_sless_alt)

lemma sle_sint: "(a \<le>s b) = (sint a \<le> sint (b :: int64))"
  by (simp add: word_sle_eq)

lemma sint_inject: "sint a = sint b \<longleftrightarrow> a = b"
  by (auto intro: signed_word_eqI)


lemma sint_word_of_int32: "- (2 ^ 31) \<le> i \<Longrightarrow> i < 2 ^ 31 \<Longrightarrow> sint (word_of_int i :: int32) = i"
  by (simp add: signed_of_int signed_take_bit_int_eq_self_iff)

section \<open>Strings\<close>

definition fold_char :: "char \<Rightarrow> char" where
  "fold_char c = (let n = of_char c :: nat in if 65 \<le> n \<and> n \<le> 90 then char_of (n + 32) else c)"

definition EqualFold :: "string \<Rightarrow> string \<Rightarrow> bool" where
  "EqualFold s t = (map fold_char s = map fold_char t)"

lemma EqualFold_refl [simp]: "EqualFold s s"
  by (simp add: EqualFold_def)

lemma EqualFold_sym: "EqualFold s t = EqualFold t s"
  by (auto simp: EqualFold_def)

lemma EqualFold_trans: "EqualFold s t \<Longrightarrow> EqualFold t u \<Longrightarrow> EqualFold s u"
  by (simp add: EqualFold_def)

lemma EqualFold_Nil [simp]: "EqualFold s [] = (s = [])" "EqualFold [] s = (s = [])"
  by (auto simp: EqualFold_def)

definition digit_val :: "char \<Rightarrow> nat option" where
  "digit_val c = (let n = of_char c :: nat in if 48 \<le> n \<and> n \<le> 57 then Some (n - 48) else None)"

fun digits_val :: "nat \<Rightarrow> string \<Rightarrow> nat option" where
  "digits_val acc [] = Some acc"
| "digits_val acc (c # cs) =
     (case digit_val c of None \<Rightarrow> None | Some d \<Rightarrow> digits_val (10 * acc + d) cs)"

definition parse_digits :: "string \<Rightarrow> nat option" where
  "parse_digits s = (if s = [] then None else digits_val 0 s)"

text \<open>\<^verbatim>\<open>strconv.ParseInt(s, 10, bits)\<close>; \<^verbatim>\<open>strconv.Atoi\<close> is the case of 64 bits.\<close>

definition ParseInt :: "nat \<Rightarrow> string \<Rightarrow> int option" where
  "ParseInt bits s =
     (case s of
        [] \<Rightarrow> None
      | c # cs \<Rightarrow>
          if c = CHR ''-'' then
            (case parse_digits cs of
               None \<Rightarrow> None
             | Some n \<Rightarrow> if n \<le> 2 ^ (bits - 1) then Some (- int n) else None)
          else
            (case parse_digits (if c = CHR ''+'' then cs else s) of
               None \<Rightarrow> None
             | Some n \<Rightarrow> if n < 2 ^ (bits - 1) then Some (int n) else None))"

definition Atoi :: "string \<Rightarrow> int64 option" where
  "Atoi s = map_option word_of_int (ParseInt 64 s)"

fun nat_digits :: "nat \<Rightarrow> string" where
  "nat_digits n =
     (if n < 10 then [char_of (48 + n)] else nat_digits (n div 10) @ [char_of (48 + n mod 10)])"

declare nat_digits.simps [simp del]

definition FormatInt :: "int64 \<Rightarrow> string" where
  "FormatInt x =
     (if sint x < 0 then CHR ''-'' # nat_digits (nat (- sint x)) else nat_digits (nat (sint x)))"

lemma digit_val_char_of [simp]: "d < 10 \<Longrightarrow> digit_val (char_of (48 + d)) = Some d"
  by (simp add: digit_val_def)

lemma digits_val_append:
  "digits_val acc (s @ [c]) =
     (case digits_val acc s of
        None \<Rightarrow> None
      | Some n \<Rightarrow> (case digit_val c of None \<Rightarrow> None | Some d \<Rightarrow> Some (10 * n + d)))"
  by (induction acc s rule: digits_val.induct) (auto split: option.splits)

lemma nat_digits_nonempty [simp]: "nat_digits n \<noteq> []"
  by (subst nat_digits.simps) simp

lemma digits_val_nat_digits: "digits_val 0 (nat_digits n) = Some n"
proof (induction n rule: nat_digits.induct)
  case (1 n)
  show ?case
  proof (cases "n < 10")
    case True
    then show ?thesis by (simp add: nat_digits.simps [of n])
  next
    case False
    with 1 have "digits_val 0 (nat_digits (n div 10)) = Some (n div 10)" by simp
    with False show ?thesis
      by (simp add: nat_digits.simps [of n] digits_val_append)
  qed
qed

lemma parse_digits_nat_digits [simp]: "parse_digits (nat_digits n) = Some n"
  by (simp add: parse_digits_def digits_val_nat_digits)

lemma nat_digits_chars: "c \<in> set (nat_digits n) \<Longrightarrow> \<exists>d<(10::nat). c = char_of (48 + d)"
proof (induction n rule: nat_digits.induct)
  case (1 n)
  then show ?case
    by (subst (asm) (2) nat_digits.simps) (auto split: if_splits intro: exI [of _ n] exI [of _ "n mod 10"])
qed

lemma nat_digits_no_sign:
  assumes "nat_digits n = c # cs"
  shows "c \<noteq> CHR ''-'' \<and> c \<noteq> CHR ''+''"
proof -
  have "\<exists>d<(10::nat). c = char_of (48 + d)"
    by (rule nat_digits_chars [of c n]) (simp add: assms)
  then obtain d :: nat where d: "d < 10" "c = char_of (48 + d)" by blast
  then have "(of_char c :: nat) = 48 + d" by simp
  then show ?thesis by auto
qed

lemma Atoi_nat_digits: "n < 2 ^ 63 \<Longrightarrow> Atoi (nat_digits n) = Some (word_of_int (int n))"
  using nat_digits_no_sign [of n] parse_digits_nat_digits [of n]
  by (cases "nat_digits n") (auto simp: Atoi_def ParseInt_def)

text \<open>Printing and reading back a 64-bit integer is the identity.\<close>

lemma Atoi_FormatInt [simp]: "Atoi (FormatInt x) = Some x"
proof (cases "sint x < 0")
  case True
  have "- sint x \<le> 2 ^ 63" using int64_range_sint [of x] by (simp add: int64_range_def)
  with True have "nat (- sint x) \<le> 2 ^ 63" by simp
  with True show ?thesis by (simp add: FormatInt_def Atoi_def ParseInt_def)
next
  case False
  have "sint x < 2 ^ 63" using int64_range_sint [of x] by (simp add: int64_range_def)
  with False have "nat (sint x) < 2 ^ 63" by simp
  with False show ?thesis by (simp add: FormatInt_def Atoi_nat_digits)
qed

section \<open>Maps\<close>

type_synonym ('k, 'v) gomap = "('k \<times> 'v) list"

abbreviation has_key :: "('k, 'v) gomap \<Rightarrow> 'k \<Rightarrow> bool" where
  "has_key m k \<equiv> map_of m k \<noteq> None"

lemma map_of_update [simp]: "map_of (AList.update k v m) = (map_of m)(k \<mapsto> v)"
  by (rule update_conv')

lemma map_of_delete [simp]: "map_of (AList.delete k m) = (map_of m)(k := None)"
  by (rule delete_conv')

text \<open>A new key is appended.\<close>

lemma update_new: "map_of m k = None \<Longrightarrow> AList.update k v m = m @ [(k, v)]"
  by (induction m) (auto split: if_splits)

text \<open>A loop whose body may return an error ends with the first one.\<close>

fun fold_err :: "('a \<Rightarrow> 'b \<Rightarrow> 'e + 'b) \<Rightarrow> 'a list \<Rightarrow> 'b \<Rightarrow> 'e + 'b" where
  "fold_err f [] b = Inr b"
| "fold_err f (x # xs) b = (case f x b of Inl e \<Rightarrow> Inl e | Inr b' \<Rightarrow> fold_err f xs b')"

lemma fold_err_ok: "(\<And>x b. x \<in> set xs \<Longrightarrow> f x b = Inr (g x b)) \<Longrightarrow> fold_err f xs b = Inr (fold g xs b)"
  by (induction xs arbitrary: b) auto


lemma fold_err_Inr:
  "fold_err f xs b = Inr r \<Longrightarrow> (\<And>x b r. x \<in> set xs \<Longrightarrow> f x b = Inr r \<Longrightarrow> r = g x b) \<Longrightarrow> r = fold g xs b"
  by (induction xs arbitrary: b) (auto split: sum.splits)


section \<open>Computations with a trace of external calls\<close>

type_synonym ('e, 'a) io = "('e list, 'a) state"

abbreviation ret :: "'a \<Rightarrow> ('e, 'a) io" where
  "ret \<equiv> State_Monad.return"

text \<open>One external call: it is appended to the trace, and its answer is a function of the trace.\<close>

definition call :: "'e \<Rightarrow> ('e list \<Rightarrow> 'a) \<Rightarrow> ('e, 'a) io" where
  "call e answer = State (\<lambda>tr. (answer tr, tr @ [e]))"

lemma run_call [simp]: "run_state (call e f) tr = (f tr, tr @ [e])"
  by (simp add: call_def)

text \<open>
  \<open>does P m Q\<close>: whatever the trace so far, \<open>m\<close> extends it by calls that all satisfy \<open>P\<close> and
  returns a value that satisfies \<open>Q\<close>.
\<close>

definition does :: "('e \<Rightarrow> bool) \<Rightarrow> ('e, 'a) io \<Rightarrow> ('a \<Rightarrow> bool) \<Rightarrow> bool" where
  "does P m Q \<longleftrightarrow>
     (\<forall>tr. \<exists>evs. snd (run_state m tr) = tr @ evs \<and> (\<forall>e \<in> set evs. P e) \<and> Q (fst (run_state m tr)))"

lemma does_return: "Q a \<Longrightarrow> does P (ret a) Q"
  by (simp add: does_def)

lemma does_call: "P e \<Longrightarrow> (\<And>tr. Q (f tr)) \<Longrightarrow> does P (call e f) Q"
  by (simp add: does_def)

lemma does_bind:
  assumes m: "does P m Q" and f: "\<And>a. Q a \<Longrightarrow> does P (f a) R"
  shows "does P (State_Monad.bind m f) R"
  unfolding does_def
proof
  fix tr
  obtain a tr1 where a: "run_state m tr = (a, tr1)" by (cases "run_state m tr")
  from m obtain evs where evs: "snd (run_state m tr) = tr @ evs" "\<forall>e \<in> set evs. P e"
    "Q (fst (run_state m tr))"
    unfolding does_def by blast
  with a f have "does P (f a) R" by simp
  then obtain evs' where evs': "snd (run_state (f a) tr1) = tr1 @ evs'" "\<forall>e \<in> set evs'. P e"
    "R (fst (run_state (f a) tr1))"
    unfolding does_def by blast
  let ?m = "State_Monad.bind m f"
  have "snd (run_state ?m tr) = tr @ (evs @ evs') \<and> (\<forall>e \<in> set (evs @ evs'). P e) \<and>
      R (fst (run_state ?m tr))"
    using a evs evs' by auto
  then show "\<exists>evs. snd (run_state ?m tr) = tr @ evs \<and> (\<forall>e \<in> set evs. P e) \<and>
      R (fst (run_state ?m tr))"
    by blast
qed

lemma does_bind_call:
  assumes "P e" and "\<And>tr. does P (f (answer tr)) R"
  shows "does P (State_Monad.bind (call e answer) f) R"
  unfolding does_def
proof
  fix tr
  from assms(2) [of tr] obtain evs where evs:
    "snd (run_state (f (answer tr)) (tr @ [e])) = (tr @ [e]) @ evs" "\<forall>x \<in> set evs. P x"
    "R (fst (run_state (f (answer tr)) (tr @ [e])))"
    unfolding does_def by blast
  let ?m = "State_Monad.bind (call e answer) f"
  have "snd (run_state ?m tr) = tr @ (e # evs) \<and> (\<forall>x \<in> set (e # evs). P x) \<and>
      R (fst (run_state ?m tr))"
    using evs assms(1) by simp
  then show "\<exists>evs. snd (run_state ?m tr) = tr @ evs \<and> (\<forall>x \<in> set evs. P x) \<and>
      R (fst (run_state ?m tr))"
    by blast
qed

lemma does_bind_get:
  assumes "\<And>tr. does P (f tr) R"
  shows "does P (State_Monad.bind State_Monad.get f) R"
  using assms unfolding does_def by simp

lemma does_weaken: "does P m Q \<Longrightarrow> (\<And>a. Q a \<Longrightarrow> R a) \<Longrightarrow> does P m R"
  unfolding does_def by blast

lemma does_mono: "does P m Q \<Longrightarrow> (\<And>e. P e \<Longrightarrow> P' e) \<Longrightarrow> (\<And>a. Q a \<Longrightarrow> Q' a) \<Longrightarrow> does P' m Q'"
  unfolding does_def by blast

lemma does_conj: "does P m Q \<Longrightarrow> does P m R \<Longrightarrow> does P m (\<lambda>a. Q a \<and> R a)"
  unfolding does_def by blast

lemma does_True: "does P m Q \<Longrightarrow> does P m (\<lambda>_. True)"
  by (rule does_weaken) simp_all

lemma does_trace:
  assumes "does P m Q" and "run_state m tr = (a, tr')"
  obtains evs where "tr' = tr @ evs" "\<forall>e \<in> set evs. P e" "Q a"
  using assms unfolding does_def by (metis fst_conv snd_conv)

lemmas does_intros = does_return does_bind_call does_call does_bind_get

declare does_intros [does_rules]

text \<open>
  \<open>does_then P P' m R\<close>: the calls of \<open>m\<close> come in two parts, first calls that satisfy \<open>P\<close>, then calls that satisfy \<open>P'\<close>, and
  there are calls of the second kind only if the result satisfies \<open>R\<close>.
\<close>

definition does_then :: "('e \<Rightarrow> bool) \<Rightarrow> ('e \<Rightarrow> bool) \<Rightarrow> ('e, 'a) io \<Rightarrow> ('a \<Rightarrow> bool) \<Rightarrow> bool" where
  "does_then P P' m R \<longleftrightarrow>
     (\<forall>tr. \<exists>es es'. snd (run_state m tr) = tr @ es @ es' \<and> (\<forall>e \<in> set es. P e) \<and> (\<forall>e \<in> set es'. P' e) \<and>
        (es' \<noteq> [] \<longrightarrow> R (fst (run_state m tr))))"

lemma does_then_first: "does P m Q \<Longrightarrow> does_then P P' m R"
  unfolding does_def does_then_def by (metis append_Nil2 empty_iff empty_set)

lemma does_then_return: "does_then P P' (ret a) R"
  by (rule does_then_first [OF does_return [where Q = "\<lambda>_. True"]]) simp

lemma does_then_last: "does P' m R \<Longrightarrow> does_then P P' m R"
  unfolding does_def does_then_def by (metis append_Nil empty_iff empty_set)

lemma does_then_bind:
  assumes m: "does P m Q" and f: "\<And>a. Q a \<Longrightarrow> does_then P P' (f a) R"
  shows "does_then P P' (State_Monad.bind m f) R"
  unfolding does_then_def
proof
  fix tr
  obtain a tr1 where a: "run_state m tr = (a, tr1)" by (cases "run_state m tr")
  with m obtain evs where evs: "tr1 = tr @ evs" "\<forall>e \<in> set evs. P e" "Q a"
    by (auto elim: does_trace)
  from f [OF evs(3)] obtain es es' where es: "snd (run_state (f a) tr1) = tr1 @ es @ es'" "\<forall>e \<in> set es. P e"
    "\<forall>e \<in> set es'. P' e" "es' \<noteq> [] \<longrightarrow> R (fst (run_state (f a) tr1))"
    unfolding does_then_def by blast
  show "\<exists>es es'. snd (run_state (State_Monad.bind m f) tr) = tr @ es @ es' \<and> (\<forall>e \<in> set es. P e) \<and>
      (\<forall>e \<in> set es'. P' e) \<and> (es' \<noteq> [] \<longrightarrow> R (fst (run_state (State_Monad.bind m f) tr)))"
    using a evs es by (intro exI [of _ "evs @ es"] exI [of _ es']) auto
qed

lemma does_then_bind_call:
  assumes "P e" and "\<And>tr. does_then P P' (f (answer tr)) R"
  shows "does_then P P' (State_Monad.bind (call e answer) f) R"
  unfolding does_then_def
proof
  fix tr
  from assms(2) [of tr] obtain es es' where es: "snd (run_state (f (answer tr)) (tr @ [e])) = (tr @ [e]) @ es @ es'"
    "\<forall>x \<in> set es. P x" "\<forall>x \<in> set es'. P' x" "es' \<noteq> [] \<longrightarrow> R (fst (run_state (f (answer tr)) (tr @ [e])))"
    unfolding does_then_def by blast
  then show "\<exists>es es'. snd (run_state (State_Monad.bind (call e answer) f) tr) = tr @ es @ es' \<and> (\<forall>e \<in> set es. P e) \<and>
      (\<forall>e \<in> set es'. P' e) \<and> (es' \<noteq> [] \<longrightarrow> R (fst (run_state (State_Monad.bind (call e answer) f) tr)))"
    using assms(1) by (intro exI [of _ "e # es"] exI [of _ es']) auto
qed

lemma does_then_bind_get: "(\<And>tr. does_then P P' (f tr) R) \<Longrightarrow> does_then P P' (State_Monad.bind State_Monad.get f) R"
  unfolding does_then_def by simp

text \<open>\<open>emits P m\<close>: whatever the trace so far, \<open>m\<close> extends it, and by some call that satisfies \<open>P\<close>.\<close>

definition emits :: "('e \<Rightarrow> bool) \<Rightarrow> ('e, 'a) io \<Rightarrow> bool" where
  "emits P m \<longleftrightarrow> (\<forall>tr. \<exists>evs. snd (run_state m tr) = tr @ evs \<and> (\<exists>e \<in> set evs. P e))"

lemma emits_call: "P e \<Longrightarrow> emits P (call e answer)"
  by (simp add: emits_def)

lemma emits_mono: "emits P m \<Longrightarrow> (\<And>e. P e \<Longrightarrow> P' e) \<Longrightarrow> emits P' m"
  unfolding emits_def by blast

lemma does_any: "does P m Q \<Longrightarrow> does (\<lambda>_. True) m (\<lambda>_. True)"
  unfolding does_def by blast

lemma emits_first:
  assumes m: "emits P m" and f: "\<And>a. does (\<lambda>_. True) (f a) (\<lambda>_. True)"
  shows "emits P (State_Monad.bind m f)"
  unfolding emits_def
proof
  fix tr
  obtain a tr1 where a: "run_state m tr = (a, tr1)" by (cases "run_state m tr")
  with m obtain evs where evs: "tr1 = tr @ evs" "\<exists>e \<in> set evs. P e" unfolding emits_def by (metis snd_conv)
  from f [of a] obtain evs' where "snd (run_state (f a) tr1) = tr1 @ evs'" unfolding does_def by blast
  with a evs show "\<exists>evs. snd (run_state (State_Monad.bind m f) tr) = tr @ evs \<and> (\<exists>e \<in> set evs. P e)"
    by (intro exI [of _ "evs @ evs'"]) auto
qed

lemma emits_bind:
  assumes m: "does Q m R" and f: "\<And>a. R a \<Longrightarrow> emits P (f a)"
  shows "emits P (State_Monad.bind m f)"
  unfolding emits_def
proof
  fix tr
  obtain a tr1 where a: "run_state m tr = (a, tr1)" by (cases "run_state m tr")
  with m obtain evs where evs: "tr1 = tr @ evs" "R a" by (auto elim: does_trace)
  from f [OF evs(2)] obtain evs' where "snd (run_state (f a) tr1) = tr1 @ evs'" "\<exists>e \<in> set evs'. P e" unfolding emits_def by blast
  with a evs show "\<exists>evs. snd (run_state (State_Monad.bind m f) tr) = tr @ evs \<and> (\<exists>e \<in> set evs. P e)"
    by (intro exI [of _ "evs @ evs'"]) auto
qed

lemma emits_bind_call:
  assumes "\<And>tr. emits P (f (answer tr))"
  shows "emits P (State_Monad.bind (call e answer) f)"
  unfolding emits_def
proof
  fix tr
  from assms [of tr] obtain evs where "snd (run_state (f (answer tr)) (tr @ [e])) = (tr @ [e]) @ evs" "\<exists>e \<in> set evs. P e"
    unfolding emits_def by blast
  then show "\<exists>evs. snd (run_state (State_Monad.bind (call e answer) f) tr) = tr @ evs \<and> (\<exists>e \<in> set evs. P e)"
    by (intro exI [of _ "e # evs"]) auto
qed

lemma emits_bind_get: "(\<And>tr. emits P (f tr)) \<Longrightarrow> emits P (State_Monad.bind State_Monad.get f)"
  unfolding emits_def by simp

end
