(* ===== verification/K8s_Objects.thy ===== *)
theory K8s_Objects
  imports Go_Prelude
begin

text \<open>
  The Kubernetes API objects the sources read, with the fields they read: pods with their
  metadata, owner references, resource requests and status, and nodes. A pointer that may be
  nil is an option; a nil-able map the code distinguishes from an empty one (the annotations) is
  an option as well.
\<close>

section \<open>Quantities and resource lists\<close>

text \<open>
  A \<^verbatim>\<open>resource.Quantity\<close> is an exact decimal; it is held here in thousandths, the finest unit
  the sources read (\<^verbatim>\<open>MilliValue\<close>). \<^verbatim>\<open>Value\<close> rounds up to the next integer.
\<close>

type_synonym Quantity = int
type_synonym ResourceList = "(string, Quantity) gomap"

definition NewQuantity :: "int64 \<Rightarrow> Quantity" where
  "NewQuantity v = sint v * 1000"

definition NewMilliQuantity :: "int64 \<Rightarrow> Quantity" where
  "NewMilliQuantity v = sint v"

definition QValue :: "Quantity \<Rightarrow> int64" where
  "QValue q = word_of_int (- ((- q) div 1000))"

definition QMilliValue :: "Quantity \<Rightarrow> int64" where
  "QMilliValue q = word_of_int q"

lemma QValue_NewQuantity [simp]: "QValue (NewQuantity v) = v"
proof -
  have "(- (sint v * 1000)) div 1000 = - sint v"
    by (metis minus_mult_left nonzero_mult_div_cancel_right zero_neq_numeral)
  then show ?thesis by (simp add: QValue_def NewQuantity_def)
qed

lemma QMilliValue_NewMilliQuantity [simp]: "QMilliValue (NewMilliQuantity v) = v"
  by (simp add: QMilliValue_def NewMilliQuantity_def)

text \<open>A resource that a list does not name is not requested.\<close>

definition quantityOf :: "ResourceList \<Rightarrow> string \<Rightarrow> Quantity" where
  "quantityOf rl n = (case map_of rl n of None \<Rightarrow> 0 | Some q \<Rightarrow> q)"

section \<open>Objects\<close>

record OwnerReference =
  orKind :: string
  orName :: string
  orUID :: string
  orController :: "bool option"

datatype PodPhase = PodPending | PodRunning | PodSucceeded | PodFailed | PhaseOther string

text \<open>The seccomp profile of a security context; \<open>None\<close> when the context or the profile is nil.\<close>

record SeccompProfile =
  seccompType :: string
  seccompLocalhostProfile :: "string option"

record PodCondition =
  condType :: string
  condStatus :: string
  condLastTransitionTime :: int

record Container =
  ctrName :: string
  ctrRequests :: ResourceList
  ctrLimits :: ResourceList
  ctrSeccompProfile :: "SeccompProfile option"

record Pod =
  podName :: string
  podNamespace :: string
  podUID :: string
  podAnnotations :: "(string, string) gomap option"
  podLabels :: "(string, string) gomap"
  podOwners :: "OwnerReference list"
  podDeletionTimestamp :: "int option"
  podNodeName :: string
  podContainers :: "Container list"
  podInitContainers :: "Container list"
  podOverhead :: "ResourceList option"
  podPriority :: "int32 option"
  podPreemptionPolicy :: "string option"
  podPhase :: PodPhase
  podNominatedNodeName :: string
  podStartTime :: "int option"
  podQOSClass :: string
  podPriorityClassName :: string
  podConditions :: "PodCondition list"
  podHostIP :: string
  podSeccompProfile :: "SeccompProfile option"
  podSchedulerName :: string

record Node =
  nodeName :: string

text \<open>A pod with no field set, from which examples are built.\<close>

definition zero_pod :: Pod where
  "zero_pod = \<lparr>podName = '''', podNamespace = '''', podUID = '''', podAnnotations = None,
     podLabels = [], podOwners = [], podDeletionTimestamp = None, podNodeName = '''',
     podContainers = [], podInitContainers = [], podOverhead = None, podPriority = None,
     podPreemptionPolicy = None, podPhase = PodPending, podNominatedNodeName = '''',
     podStartTime = None, podQOSClass = '''', podPriorityClassName = '''', podConditions = [],
     podHostIP = '''', podSeccompProfile = None, podSchedulerName = ''''\<rparr>"

definition PodPriority :: "Pod \<Rightarrow> int32" where
  "PodPriority pod = (case podPriority pod of Some p \<Rightarrow> p | None \<Rightarrow> 0)"

text \<open>\<^verbatim>\<open>framework.GetPodKey\<close>\<close>

definition GetPodKey :: "Pod \<Rightarrow> string option" where
  "GetPodKey pod = (if podUID pod = '''' then None else Some (podUID pod))"

text \<open>Reading an annotation: a nil map has no key.\<close>

definition annotation :: "Pod \<Rightarrow> string \<Rightarrow> string option" where
  "annotation pod k = (case podAnnotations pod of None \<Rightarrow> None | Some m \<Rightarrow> map_of m k)"

text \<open>The errors of the API server that the sources tell apart.\<close>

datatype api_error = NotFound | AlreadyExists | Conflict | OtherError string

end
