(* ===== verification/Bandwidth_API.thy ===== *)
theory Bandwidth_API
  imports K8s_Objects
begin

text \<open>
  The \<^verbatim>\<open>Bandwidth\<close> custom resource (\<^verbatim>\<open>bandwidth-operator/api/v1/bandwidth_types.go\<close>; the scheduler
  carries a copy of the same types under \<^verbatim>\<open>scheduler-plugins/apis/networking/v1\<close>) and the client
  through which the operator and the scheduler plugin read and write it.

  The API server is not part of the repository. It is the parameter \<open>client\<close>: each of its
  fields answers one kind of call as a function of the calls made before, which leaves the server,
  its failures and all other writers arbitrary. Each call is recorded in the trace, so theorems
  speak about what is written.
\<close>

section \<open>The resource\<close>

datatype BandwidthDefinition = BandwidthDefinition (UlMbps: int64) (DlMbps: int64)

datatype Capacity = Capacity (Local: BandwidthDefinition) (Network: BandwidthDefinition)

record BandwidthRequest =
  reqPodName :: string
  reqNamespace :: string
  reqPodUid :: string
  reqLinkLocal :: bool
  reqBandwidth :: BandwidthDefinition

record ReservationInfo =
  resPodName :: string
  resNamespace :: string
  resPodUid :: string
  resPodIp :: string
  resDeploymentType :: string
  resDeploymentName :: string
  resDeploymentUid :: string
  resBandwidth :: Capacity

datatype Status = StCreated | StCreating | StDeleted | StDeleting | StError | StNone | StEmpty

datatype EventVaclabNodeBandwidth =
  EvCreated | EvCreating | EvDeleted | EvDeleting | EvFailed | EvOther string

record BandwidthSpec =
  specNode :: string
  specCapacity :: Capacity
  specRequests :: "BandwidthRequest list"
  specStatus :: Status

record BandwidthStatus =
  stStatus :: Status
  stErrorReason :: string
  stUsed :: Capacity
  stRemaining :: Capacity
  stReservations :: "ReservationInfo list"
  stCapacity :: Capacity
  stUpdatedAt :: int

record Bandwidth =
  bwName :: string
  bwResourceVersion :: string
  bwSpec :: BandwidthSpec
  bwStatus :: BandwidthStatus

section \<open>Bandwidth amounts form a commutative group\<close>

text \<open>
  Two's complement addition and subtraction make the amounts a group, so sums over reservations
  and \<open>capacity = used + remaining\<close> are equations of the library's \<^verbatim>\<open>ab_group_add\<close>.
\<close>

instantiation BandwidthDefinition :: ab_group_add
begin

definition zero_BandwidthDefinition :: BandwidthDefinition where
  "zero_BandwidthDefinition = BandwidthDefinition 0 0"

definition plus_BandwidthDefinition :: "BandwidthDefinition \<Rightarrow> BandwidthDefinition \<Rightarrow> BandwidthDefinition" where
  "plus_BandwidthDefinition a b = BandwidthDefinition (UlMbps a + UlMbps b) (DlMbps a + DlMbps b)"

definition minus_BandwidthDefinition :: "BandwidthDefinition \<Rightarrow> BandwidthDefinition \<Rightarrow> BandwidthDefinition" where
  "minus_BandwidthDefinition a b = BandwidthDefinition (UlMbps a - UlMbps b) (DlMbps a - DlMbps b)"

definition uminus_BandwidthDefinition :: "BandwidthDefinition \<Rightarrow> BandwidthDefinition" where
  "uminus_BandwidthDefinition a = BandwidthDefinition (- UlMbps a) (- DlMbps a)"

instance
  by standard
    (simp_all add: zero_BandwidthDefinition_def plus_BandwidthDefinition_def
      minus_BandwidthDefinition_def uminus_BandwidthDefinition_def)

end

instantiation Capacity :: ab_group_add
begin

definition zero_Capacity :: Capacity where
  "zero_Capacity = Capacity 0 0"

definition plus_Capacity :: "Capacity \<Rightarrow> Capacity \<Rightarrow> Capacity" where
  "plus_Capacity a b = Capacity (Local a + Local b) (Network a + Network b)"

definition minus_Capacity :: "Capacity \<Rightarrow> Capacity \<Rightarrow> Capacity" where
  "minus_Capacity a b = Capacity (Local a - Local b) (Network a - Network b)"

definition uminus_Capacity :: "Capacity \<Rightarrow> Capacity" where
  "uminus_Capacity a = Capacity (- Local a) (- Network a)"

instance
  by standard
    (simp_all add: zero_Capacity_def plus_Capacity_def minus_Capacity_def uminus_Capacity_def
      algebra_simps)

end

lemma BandwidthDefinition_simps [simp]:
  "UlMbps 0 = 0" "DlMbps 0 = 0"
  "UlMbps (a + b) = UlMbps a + UlMbps b" "DlMbps (a + b) = DlMbps a + DlMbps b"
  "UlMbps (a - b) = UlMbps a - UlMbps b" "DlMbps (a - b) = DlMbps a - DlMbps b"
  by (simp_all add: zero_BandwidthDefinition_def plus_BandwidthDefinition_def
      minus_BandwidthDefinition_def)

lemma Capacity_simps [simp]:
  "Local 0 = 0" "Network 0 = 0"
  "Local (a + b) = Local a + Local b" "Network (a + b) = Network a + Network b"
  "Local (a - b) = Local a - Local b" "Network (a - b) = Network a - Network b"
  by (simp_all add: zero_Capacity_def plus_Capacity_def minus_Capacity_def)

lemma BandwidthDefinition_add [simp]:
  "BandwidthDefinition a b + BandwidthDefinition c d = BandwidthDefinition (a + c) (b + d)"
  by (simp add: plus_BandwidthDefinition_def)

lemma BandwidthDefinition_diff [simp]:
  "BandwidthDefinition a b - BandwidthDefinition c d = BandwidthDefinition (a - c) (b - d)"
  by (simp add: minus_BandwidthDefinition_def)

lemma Capacity_add [simp]: "Capacity a b + Capacity c d = Capacity (a + c) (b + d)"
  by (simp add: plus_Capacity_def)

lemma Capacity_diff [simp]: "Capacity a b - Capacity c d = Capacity (a - c) (b - d)"
  by (simp add: minus_Capacity_def)

lemma zero_BandwidthDefinition_eq [simp]:
  "(BandwidthDefinition a b = 0) = (a = 0 \<and> b = 0)" "(0 = BandwidthDefinition a b) = (a = 0 \<and> b = 0)"
  by (auto simp: zero_BandwidthDefinition_def)

section \<open>The client\<close>

datatype api_call =
    CGetBandwidth string
  | CGetNode string
  | CGetPod string string
  | CListNodes
  | CListPodsOnNode string
  | CListPodsInNamespace string
  | CListBandwidths
  | CCreate Bandwidth
  | CUpdate Bandwidth
  | CUpdateStatus Bandwidth
  | CDelete Bandwidth
  | CUpdatePod Pod
  | CEvent string string string
  | CNow
  | CSleep int

type_synonym trace = "api_call list"
type_synonym 'a kio = "(api_call, 'a) io"

text \<open>
  \<open>clRange\<close> and \<open>clSchedule\<close> are choices of the Go runtime: the order in which
  \<^verbatim>\<open>range\<close> visits the keys of a map, and the order in which spawned goroutines get the mutex.
\<close>

record client =
  clGetBandwidth :: "trace \<Rightarrow> string \<Rightarrow> api_error + Bandwidth"
  clGetNode :: "trace \<Rightarrow> string \<Rightarrow> api_error + Node"
  clGetPod :: "trace \<Rightarrow> string \<Rightarrow> string \<Rightarrow> api_error + Pod"
  clListNodes :: "trace \<Rightarrow> api_error + Node list"
  clListPodsOnNode :: "trace \<Rightarrow> string \<Rightarrow> api_error + Pod list"
  clListPodsInNamespace :: "trace \<Rightarrow> string \<Rightarrow> api_error + Pod list"
  clListBandwidths :: "trace \<Rightarrow> api_error + Bandwidth list"
  clCreate :: "trace \<Rightarrow> Bandwidth \<Rightarrow> api_error + Bandwidth"
  clUpdate :: "trace \<Rightarrow> Bandwidth \<Rightarrow> api_error + Bandwidth"
  clUpdateStatus :: "trace \<Rightarrow> Bandwidth \<Rightarrow> api_error + Bandwidth"
  clDelete :: "trace \<Rightarrow> Bandwidth \<Rightarrow> api_error option"
  clUpdatePod :: "trace \<Rightarrow> Pod \<Rightarrow> api_error + Pod"
  clNow :: "trace \<Rightarrow> int"
  clRange :: "trace \<Rightarrow> string list \<Rightarrow> string list"
  clSchedule :: "trace \<Rightarrow> string list list \<Rightarrow> string list list"

abbreviation getBandwidth :: "client \<Rightarrow> string \<Rightarrow> (api_error + Bandwidth) kio" where
  "getBandwidth cl n \<equiv> call (CGetBandwidth n) (\<lambda>tr. clGetBandwidth cl tr n)"

abbreviation getNode :: "client \<Rightarrow> string \<Rightarrow> (api_error + Node) kio" where
  "getNode cl n \<equiv> call (CGetNode n) (\<lambda>tr. clGetNode cl tr n)"

abbreviation getPod :: "client \<Rightarrow> string \<Rightarrow> string \<Rightarrow> (api_error + Pod) kio" where
  "getPod cl n ns \<equiv> call (CGetPod n ns) (\<lambda>tr. clGetPod cl tr n ns)"

abbreviation listNodes :: "client \<Rightarrow> (api_error + Node list) kio" where
  "listNodes cl \<equiv> call CListNodes (clListNodes cl)"

abbreviation listPodsOnNode :: "client \<Rightarrow> string \<Rightarrow> (api_error + Pod list) kio" where
  "listPodsOnNode cl n \<equiv> call (CListPodsOnNode n) (\<lambda>tr. clListPodsOnNode cl tr n)"

abbreviation listPodsInNamespace :: "client \<Rightarrow> string \<Rightarrow> (api_error + Pod list) kio" where
  "listPodsInNamespace cl ns \<equiv> call (CListPodsInNamespace ns) (\<lambda>tr. clListPodsInNamespace cl tr ns)"

abbreviation listBandwidths :: "client \<Rightarrow> (api_error + Bandwidth list) kio" where
  "listBandwidths cl \<equiv> call CListBandwidths (clListBandwidths cl)"

abbreviation createBandwidth :: "client \<Rightarrow> Bandwidth \<Rightarrow> (api_error + Bandwidth) kio" where
  "createBandwidth cl bw \<equiv> call (CCreate bw) (\<lambda>tr. clCreate cl tr bw)"

abbreviation updateBandwidth :: "client \<Rightarrow> Bandwidth \<Rightarrow> (api_error + Bandwidth) kio" where
  "updateBandwidth cl bw \<equiv> call (CUpdate bw) (\<lambda>tr. clUpdate cl tr bw)"

abbreviation deleteBandwidth :: "client \<Rightarrow> Bandwidth \<Rightarrow> api_error option kio" where
  "deleteBandwidth cl bw \<equiv> call (CDelete bw) (\<lambda>tr. clDelete cl tr bw)"

abbreviation updatePod :: "client \<Rightarrow> Pod \<Rightarrow> (api_error + Pod) kio" where
  "updatePod cl pod \<equiv> call (CUpdatePod pod) (\<lambda>tr. clUpdatePod cl tr pod)"

abbreviation timeNow :: "client \<Rightarrow> int kio" where
  "timeNow cl \<equiv> call CNow (clNow cl)"

abbreviation timeSleep :: "int \<Rightarrow> unit kio" where
  "timeSleep ms \<equiv> call (CSleep ms) (\<lambda>_. ())"

abbreviation recordEvent :: "string \<Rightarrow> string \<Rightarrow> string \<Rightarrow> unit kio" where
  "recordEvent kind reason msg \<equiv> call (CEvent kind reason msg) (\<lambda>_. ())"

text \<open>The calls that change a \<^verbatim>\<open>Bandwidth\<close> object.\<close>

fun is_write :: "api_call \<Rightarrow> bool" where
  "is_write (CCreate _) = True"
| "is_write (CUpdate _) = True"
| "is_write (CUpdateStatus _) = True"
| "is_write (CDelete _) = True"
| "is_write (CUpdatePod _) = True"
| "is_write _ = False"

definition writes :: "trace \<Rightarrow> trace" where
  "writes tr = filter is_write tr"

lemma writes_simps [simp]:
  "writes [] = []"
  "writes (tr @ tr') = writes tr @ writes tr'"
  "writes (e # tr) = (if is_write e then e # writes tr else writes tr)"
  by (simp_all add: writes_def)

end
