(* ===== verification/Operator_Helpers.thy ===== *)
theory Operator_Helpers
  imports Bandwidth_API
begin

text \<open>
  \<^verbatim>\<open>bandwidth-operator/internal/controller/helpers.go\<close>: events, defaults, the reading of pod
  annotations, workload owners, the sibling search and the bootstrap that creates one
  \<^verbatim>\<open>Bandwidth\<close> per node. \<^verbatim>\<open>resource.ParseQuantity\<close> is a parameter \<open>pq\<close>: the value of the
  quantity a string denotes, if it denotes one.
\<close>

record BandwidthConfig =
  cfgDefaultLocalUL :: int64
  cfgDefaultLocalDL :: int64
  cfgDefaultNetworkUL :: int64
  cfgDefaultNetworkDL :: int64
  cfgEgress :: string
  cfgIngress :: string

type_synonym parse_quantity = "string \<Rightarrow> int64 option"

section \<open>Events\<close>

fun eventName :: "EventVaclabNodeBandwidth \<Rightarrow> string" where
  "eventName EvCreated = ''vaclab_node_bandwidth_created''"
| "eventName EvCreating = ''vaclab_node_bandwidth_creating''"
| "eventName EvDeleted = ''vaclab_node_bandwidth_deleted''"
| "eventName EvDeleting = ''vaclab_node_bandwidth_deleting''"
| "eventName EvFailed = ''vaclab_node_bandwidth_failed''"
| "eventName (EvOther s) = s"

fun statusName :: "Status \<Rightarrow> string" where
  "statusName StCreated = ''Created''"
| "statusName StCreating = ''Creating''"
| "statusName StDeleted = ''Deleted''"
| "statusName StDeleting = ''Deleting''"
| "statusName StError = ''Error''"
| "statusName StNone = ''None''"
| "statusName StEmpty = ''''"

definition generateEvent :: "EventVaclabNodeBandwidth \<Rightarrow> Bandwidth \<Rightarrow> unit kio" where
  "generateEvent event bw =
     (let message =
        (case event of
           EvCreated \<Rightarrow> ''Created vaclab node bandwidth resource''
         | EvCreating \<Rightarrow> ''Creating vaclab node bandwidth resource''
         | EvDeleted \<Rightarrow> ''Deleted vaclab node bandwidth resource''
         | EvFailed \<Rightarrow> ''Error on vaclab node bandwidth resource:'' @ stErrorReason (bwStatus bw)
         | EvDeleting \<Rightarrow> ''Deleting vaclab node bandwidth resource''
         | EvOther _ \<Rightarrow> ''Unknown event'')
      in if event = EvDeleted then recordEvent ''Normal'' (eventName event) (''Deleted:'' @ message)
         else recordEvent ''Normal'' (eventName event)
                (statusName (stStatus (bwStatus bw)) @ '':'' @ message @ '':'' @ bwName bw))"

section \<open>Defaults\<close>

definition setDefaultBandwidthValues :: "BandwidthConfig \<Rightarrow> Bandwidth \<Rightarrow> Bandwidth" where
  "setDefaultBandwidthValues cfg bw =
     (let c = specCapacity (bwSpec bw);
          lul = (if UlMbps (Local c) = 0 then cfgDefaultLocalUL cfg else UlMbps (Local c));
          ldl = (if DlMbps (Local c) = 0 then cfgDefaultLocalDL cfg else DlMbps (Local c));
          nul = (if UlMbps (Network c) = 0 then cfgDefaultNetworkUL cfg else UlMbps (Network c));
          ndl = (if DlMbps (Network c) = 0 then cfgDefaultNetworkDL cfg else DlMbps (Network c))
      in bw\<lparr>bwSpec := (bwSpec bw)\<lparr>specCapacity :=
            Capacity (BandwidthDefinition lul ldl) (BandwidthDefinition nul ndl)\<rparr>\<rparr>)"

definition UpdateBandwidthStatus :: "client \<Rightarrow> Bandwidth \<Rightarrow> (api_error + Bandwidth) kio" where
  "UpdateBandwidthStatus cl bw = call (CUpdateStatus bw) (\<lambda>tr. clUpdateStatus cl tr bw)"

section \<open>Annotations\<close>

definition annotationMbps :: "parse_quantity \<Rightarrow> string \<Rightarrow> int64" where
  "annotationMbps pq s =
     (if s = '''' then 0
      else case Atoi s of
             Some plainValue \<Rightarrow> plainValue
           | None \<Rightarrow> (case pq s of Some q \<Rightarrow> int64_div q 1000000 | None \<Rightarrow> 0))"

definition GetBandwidthFromAnnotation ::
    "parse_quantity \<Rightarrow> BandwidthConfig \<Rightarrow> Pod \<Rightarrow> int64 \<times> int64" where
  "GetBandwidthFromAnnotation pq cfg pod =
     (let egress = (case annotation pod (cfgEgress cfg) of None \<Rightarrow> '''' | Some s \<Rightarrow> s);
          ingress = (case annotation pod (cfgIngress cfg) of None \<Rightarrow> '''' | Some s \<Rightarrow> s)
      in (annotationMbps pq egress, annotationMbps pq ingress))"

section \<open>Workloads and siblings\<close>

record WorkloadRef =
  wrKind :: string
  wrName :: string
  wrUID :: string

definition ownerRef :: "OwnerReference \<Rightarrow> WorkloadRef" where
  "ownerRef o' = \<lparr>wrKind = orKind o', wrName = orName o', wrUID = orUID o'\<rparr>"

definition GetWorkloadRefFromPod :: "Pod \<Rightarrow> WorkloadRef" where
  "GetWorkloadRefFromPod pod =
     (case podOwners pod of
        [] \<Rightarrow> \<lparr>wrKind = ''Pod'', wrName = podName pod, wrUID = podUID pod\<rparr>
      | o0 # _ \<Rightarrow>
          (case List.find (\<lambda>o'. orController o' = Some True) (podOwners pod) of
             Some o' \<Rightarrow> ownerRef o'
           | None \<Rightarrow> ownerRef o0))"

record sibling_acc =
  sibNodesMap :: "(string, string) gomap"
  sibSlice :: "Pod list"
  sibSiblingPods :: nat
  sibLocalPods :: nat

definition sibling_step :: "WorkloadRef \<Rightarrow> string \<Rightarrow> Pod \<Rightarrow> sibling_acc \<Rightarrow> sibling_acc" where
  "sibling_step owner node p acc =
     (let pOwner = GetWorkloadRefFromPod p;
          acc1 = (if EqualFold (wrUID pOwner) (wrUID owner) \<and> \<not> EqualFold (podNodeName p) node
                  then acc\<lparr>sibNodesMap := AList.update (podNodeName p) (podNodeName p) (sibNodesMap acc)\<rparr>
                  else acc)
      in if podDeletionTimestamp p \<noteq> None then acc1
         else if EqualFold (wrUID pOwner) (wrUID owner) \<and> EqualFold (wrKind pOwner) (wrKind owner)
         then acc1\<lparr>sibLocalPods := sibLocalPods acc1 + (if EqualFold (podNodeName p) node then 1 else 0),
                   sibSiblingPods := sibSiblingPods acc1 + 1,
                   sibSlice := sibSlice acc1 @ [p]\<rparr>
         else acc1)"

definition allSiblingsOnCurrentNode ::
    "client \<Rightarrow> Pod \<Rightarrow> string \<Rightarrow> (Pod list \<times> string list \<times> bool) kio" where
  "allSiblingsOnCurrentNode cl pod node =
     (let owner = GetWorkloadRefFromPod pod
      in if EqualFold (wrKind owner) ''Pod'' \<or> EqualFold (wrKind owner) ''''
         then ret ([], [podNodeName pod], False)
         else do {
           r \<leftarrow> listPodsInNamespace cl (podNamespace pod);
           case r of
             Inl _ \<Rightarrow> ret ([], [], False)
           | Inr pods \<Rightarrow>
               (let acc = fold (sibling_step owner node) pods
                      \<lparr>sibNodesMap = [], sibSlice = [], sibSiblingPods = 0, sibLocalPods = 0\<rparr>
                in ret (sibSlice acc, [],
                     0 < sibSiblingPods acc \<and> sibSiblingPods acc = sibLocalPods acc))
         })"

section \<open>Bootstrap\<close>

definition newBandwidth :: "string \<Rightarrow> Bandwidth" where
  "newBandwidth node =
     \<lparr>bwName = node, bwResourceVersion = '''',
      bwSpec = \<lparr>specNode = node, specCapacity = 0, specRequests = [], specStatus = StEmpty\<rparr>,
      bwStatus = \<lparr>stStatus = StEmpty, stErrorReason = '''', stUsed = 0, stRemaining = 0,
        stReservations = [], stCapacity = 0, stUpdatedAt = 0\<rparr>\<rparr>"

text \<open>The status update with retry: \<open>left\<close> counts the attempts that remain after this one.\<close>

fun initStatusRetry :: "client \<Rightarrow> string \<Rightarrow> nat \<Rightarrow> unit kio" where
  "initStatusRetry cl node left = do {
     r \<leftarrow> getBandwidth cl node;
     case r of
       Inl _ \<Rightarrow>
         (case left of
            0 \<Rightarrow> ret ()
          | Suc left' \<Rightarrow> do { timeSleep 100; initStatusRetry cl node left' })
     | Inr bw0 \<Rightarrow> do {
         now \<leftarrow> timeNow cl;
         let bw = bw0\<lparr>bwStatus := (bwStatus bw0)\<lparr>stStatus := StCreated,
                        stCapacity := specCapacity (bwSpec bw0), stUpdatedAt := now\<rparr>\<rparr>;
         u \<leftarrow> UpdateBandwidthStatus cl bw;
         case u of
           Inl e \<Rightarrow>
             (case left of
                0 \<Rightarrow> ret ()
              | Suc left' \<Rightarrow>
                  if e = Conflict then do { timeSleep 100; initStatusRetry cl node left' }
                  else ret ())
         | Inr bw' \<Rightarrow> generateEvent EvCreated bw'
       }
   }"

declare initStatusRetry.simps [simp del]

fun createBandwidthResources :: "client \<Rightarrow> BandwidthConfig \<Rightarrow> Node list \<Rightarrow> api_error option kio" where
  "createBandwidthResources cl cfg [] = ret None"
| "createBandwidthResources cl cfg (n # ns) = do {
     r \<leftarrow> getBandwidth cl (nodeName n);
     case r of
       Inr _ \<Rightarrow> createBandwidthResources cl cfg ns
     | Inl e \<Rightarrow>
         if e \<noteq> NotFound then ret (Some e)
         else do {
           c \<leftarrow> createBandwidth cl (setDefaultBandwidthValues cfg (newBandwidth (nodeName n)));
           case c of
             Inl ce \<Rightarrow>
               if ce = AlreadyExists then createBandwidthResources cl cfg ns else ret (Some ce)
           | Inr _ \<Rightarrow> do {
               initStatusRetry cl (nodeName n) 2;
               createBandwidthResources cl cfg ns
             }
         }
   }"

definition createBandwidthResourcesForAllNodes :: "client \<Rightarrow> BandwidthConfig \<Rightarrow> api_error option kio" where
  "createBandwidthResourcesForAllNodes cl cfg = do {
     r \<leftarrow> listNodes cl;
     case r of Inl e \<Rightarrow> ret (Some e) | Inr nodes \<Rightarrow> createBandwidthResources cl cfg nodes
   }"

end
