(* ===== verification/Operator_Sync.thy ===== *)
theory Operator_Sync
  imports Operator_Helpers
begin

text \<open>
  \<^verbatim>\<open>bandwidth-operator/internal/controller/setup_bandwidth.go\<close>: the recomputation of a node's
  bandwidth accounts from the requests in its spec and the pods on the node.

  Both recomputations (\<open>syncSingleNodeBandwidth\<close>, \<open>SyncFromSpecAndPods\<close>) run one loop over the
  requests. Its local variables are the record \<open>acct\<close>; \<open>sync_acc\<close> adds what only the second one
  keeps. The goroutines that fetch related resources run under a mutex and are all awaited before
  the first write: they are run at the wait, in an arbitrary order (\<^const>\<open>clSchedule\<close>); the
  background synchronisation of affected nodes runs after the result is determined, over the map
  in an arbitrary order (\<^const>\<open>clRange\<close>).
\<close>

section \<open>Accounts\<close>

record 'c acct =
  aClean :: "BandwidthRequest list"
  aReservations :: "ReservationInfo list"
  aUsedUlLocal :: int64
  aUsedDlLocal :: int64
  aUsedUlNetwork :: int64
  aUsedDlNetwork :: int64
  aCache :: "(string, 'c) gomap"

definition reservationFor :: "Pod \<Rightarrow> int64 \<Rightarrow> int64 \<Rightarrow> int64 \<Rightarrow> int64 \<Rightarrow> ReservationInfo" where
  "reservationFor pod ul dl nUl nDl =
     (let w = GetWorkloadRefFromPod pod
      in \<lparr>resPodName = podName pod, resNamespace = podNamespace pod, resPodUid = podUID pod,
          resPodIp = '''', resDeploymentType = wrKind w, resDeploymentName = wrName w,
          resDeploymentUid = wrUID w,
          resBandwidth = Capacity (BandwidthDefinition ul dl) (BandwidthDefinition nUl nDl)\<rparr>)"

definition requestFor :: "Pod \<Rightarrow> bool \<Rightarrow> int64 \<Rightarrow> int64 \<Rightarrow> BandwidthRequest" where
  "requestFor pod linkLocal ul dl =
     \<lparr>reqPodName = podName pod, reqNamespace = podNamespace pod, reqPodUid = podUID pod,
      reqLinkLocal = linkLocal, reqBandwidth = BandwidthDefinition ul dl\<rparr>"

text \<open>What one kept request adds to the accounts: all of it to the local datapath, and to the
  network unless all siblings are on this node.\<close>

definition charge :: "Pod \<Rightarrow> bool \<Rightarrow> int64 \<Rightarrow> int64 \<Rightarrow> ('c, 'z) acct_scheme \<Rightarrow> ('c, 'z) acct_scheme" where
  "charge pod isLocal ul dl acc =
     (let nUl = (if isLocal then 0 else ul); nDl = (if isLocal then 0 else dl)
      in acc\<lparr>aUsedUlLocal := aUsedUlLocal acc + ul,
             aUsedDlLocal := aUsedDlLocal acc + dl,
             aUsedUlNetwork := aUsedUlNetwork acc + nUl,
             aUsedDlNetwork := aUsedDlNetwork acc + nDl,
             aClean := aClean acc @ [requestFor pod isLocal ul dl],
             aReservations := aReservations acc @ [reservationFor pod ul dl nUl nDl]\<rparr>)"

definition usedCapacity :: "('c, 'z) acct_scheme \<Rightarrow> Capacity" where
  "usedCapacity acc =
     Capacity (BandwidthDefinition (aUsedUlLocal acc) (aUsedDlLocal acc))
       (BandwidthDefinition (aUsedUlNetwork acc) (aUsedDlNetwork acc))"

definition remainingCapacity :: "Capacity \<Rightarrow> ('c, 'z) acct_scheme \<Rightarrow> Capacity" where
  "remainingCapacity c acc =
     Capacity
       (BandwidthDefinition (UlMbps (Local c) - aUsedUlLocal acc) (DlMbps (Local c) - aUsedDlLocal acc))
       (BandwidthDefinition (UlMbps (Network c) - aUsedUlNetwork acc)
         (DlMbps (Network c) - aUsedDlNetwork acc))"

section \<open>The pods that carry bandwidth annotations\<close>

definition hasBandwidthAnnotation :: "BandwidthConfig \<Rightarrow> Pod \<Rightarrow> bool" where
  "hasBandwidthAnnotation cfg pod =
     (annotation pod (cfgEgress cfg) \<noteq> None \<or> annotation pod (cfgIngress cfg) \<noteq> None)"

definition podsWithBw_step :: "BandwidthConfig \<Rightarrow> Pod \<Rightarrow> (string, Pod) gomap \<Rightarrow> (string, Pod) gomap" where
  "podsWithBw_step cfg pod m =
     (if podDeletionTimestamp pod \<noteq> None then m
      else if podPhase pod = PodSucceeded \<or> podPhase pod = PodFailed then m
      else if hasBandwidthAnnotation cfg pod then AList.update (podUID pod) pod m
      else m)"

definition podsWithBw :: "BandwidthConfig \<Rightarrow> Pod list \<Rightarrow> (string, Pod) gomap" where
  "podsWithBw cfg pods = fold (podsWithBw_step cfg) pods []"

section \<open>syncSingleNodeBandwidth\<close>

text \<open>The pod behind a request, and whether it was found only by asking for it (still pending).\<close>

definition single_lookup ::
    "client \<Rightarrow> (string, Pod) gomap \<Rightarrow> BandwidthRequest \<Rightarrow> (Pod \<times> bool) option kio" where
  "single_lookup cl pods req =
     (case map_of pods (reqPodUid req) of
        Some pod \<Rightarrow> ret (Some (pod, False))
      | None \<Rightarrow> do {
          r \<leftarrow> getPod cl (reqPodName req) (reqNamespace req);
          case r of
            Inl _ \<Rightarrow> ret None
          | Inr p \<Rightarrow>
              if podUID p \<noteq> reqPodUid req then ret None
              else if podDeletionTimestamp p \<noteq> None \<or> podPhase p = PodSucceeded \<or> podPhase p = PodFailed
              then ret None
              else if podPhase p \<noteq> PodPending then ret None
              else ret (Some (p, True))
        })"

definition single_isLocal ::
    "client \<Rightarrow> string \<Rightarrow> Pod \<Rightarrow> (string, bool) gomap \<Rightarrow> (bool \<times> (string, bool) gomap) kio" where
  "single_isLocal cl node pod cache =
     (let ownerUID = wrUID (GetWorkloadRefFromPod pod)
      in case map_of cache ownerUID of
           Some b \<Rightarrow> ret (b, cache)
         | None \<Rightarrow> do {
             (_, _, b) \<leftarrow> allSiblingsOnCurrentNode cl pod node;
             ret (b, AList.update ownerUID b cache)
           })"

fun single_loop ::
    "client \<Rightarrow> parse_quantity \<Rightarrow> BandwidthConfig \<Rightarrow> string \<Rightarrow> (string, Pod) gomap \<Rightarrow>
     BandwidthRequest list \<Rightarrow> bool acct \<Rightarrow> bool acct kio" where
  "single_loop cl pq cfg node pods [] acc = ret acc"
| "single_loop cl pq cfg node pods (req # reqs) acc = do {
     found \<leftarrow> single_lookup cl pods req;
     case found of
       None \<Rightarrow> single_loop cl pq cfg node pods reqs acc
     | Some (pod, foundUnknown) \<Rightarrow> do {
         let (ul, dl) = (if foundUnknown then (UlMbps (reqBandwidth req), DlMbps (reqBandwidth req))
                         else GetBandwidthFromAnnotation pq cfg pod);
         (isLocal, cache) \<leftarrow> single_isLocal cl node pod (aCache acc);
         single_loop cl pq cfg node pods reqs (charge pod isLocal ul dl (acc\<lparr>aCache := cache\<rparr>))
       }
   }"

definition empty_acct :: "'c acct" where
  "empty_acct = \<lparr>aClean = [], aReservations = [], aUsedUlLocal = 0, aUsedDlLocal = 0,
     aUsedUlNetwork = 0, aUsedDlNetwork = 0, aCache = []\<rparr>"

text \<open>The object with the recomputed requests and status, as both functions assign them.\<close>

definition applyAccount :: "('c, 'z) acct_scheme \<Rightarrow> Bandwidth \<Rightarrow> Bandwidth" where
  "applyAccount acc bw =
     bw\<lparr>bwSpec := (bwSpec bw)\<lparr>specRequests := aClean acc\<rparr>,
        bwStatus := (bwStatus bw)\<lparr>stUsed := usedCapacity acc,
          stRemaining := remainingCapacity (specCapacity (bwSpec bw)) acc,
          stReservations := aReservations acc,
          stCapacity := specCapacity (bwSpec bw),
          stStatus := StCreated, stErrorReason := ''''\<rparr>\<rparr>"

text \<open>
  \<^verbatim>\<open>r.Update\<close> fills the object with the server's answer, and the status is then written from that
  object.
\<close>

definition single_commit :: "client \<Rightarrow> bool acct \<Rightarrow> Bandwidth \<Rightarrow> api_error option kio" where
  "single_commit cl acc bw = do {
     now \<leftarrow> timeNow cl;
     let bw1 = applyAccount acc bw;
     let bw2 = bw1\<lparr>bwStatus := (bwStatus bw1)\<lparr>stUpdatedAt := now\<rparr>\<rparr>;
     u \<leftarrow> updateBandwidth cl bw2;
     case u of
       Inl e \<Rightarrow> ret (Some e)
     | Inr bw3 \<Rightarrow> do {
         s \<leftarrow> UpdateBandwidthStatus cl bw3;
         case s of Inl e \<Rightarrow> ret (Some e) | Inr _ \<Rightarrow> ret None
       }
   }"

definition syncSingleNodeBandwidth ::
    "client \<Rightarrow> parse_quantity \<Rightarrow> BandwidthConfig \<Rightarrow> Bandwidth \<Rightarrow> api_error option kio" where
  "syncSingleNodeBandwidth cl pq cfg bw0 =
     (let node = specNode (bwSpec bw0)
      in do {
        n \<leftarrow> getNode cl node;
        case n of
          Inl e \<Rightarrow>
            if e = NotFound then do { _ \<leftarrow> deleteBandwidth cl bw0; ret None } else ret (Some e)
        | Inr _ \<Rightarrow> do {
            let bw = setDefaultBandwidthValues cfg bw0;
            l \<leftarrow> listPodsOnNode cl node;
            case l of
              Inl e \<Rightarrow> ret (Some e)
            | Inr pods \<Rightarrow> do {
                acc \<leftarrow> single_loop cl pq cfg node (podsWithBw cfg pods)
                         (specRequests (bwSpec bw)) empty_acct;
                single_commit cl acc bw
              }
          }
      })"

section \<open>SyncFromSpecAndPods: the loop\<close>

record siblingCacheEntry =
  ceSiblings :: "Pod list"
  ceNodes :: "string list"
  ceIsLocal :: bool

record sync_acc = "siblingCacheEntry acct" +
  aAffected :: "(string, bool) gomap"
  aFetches :: "string list list"

definition empty_sync_acc :: sync_acc where
  "empty_sync_acc = \<lparr>aClean = [], aReservations = [], aUsedUlLocal = 0, aUsedDlLocal = 0,
     aUsedUlNetwork = 0, aUsedDlNetwork = 0, aCache = [], aAffected = [], aFetches = []\<rparr>"

definition existingRequests :: "BandwidthRequest list \<Rightarrow> (string, BandwidthRequest) gomap" where
  "existingRequests reqs = fold (\<lambda>req. AList.update (reqPodUid req) req) reqs []"

definition markAffected :: "string \<Rightarrow> string list \<Rightarrow> sync_acc \<Rightarrow> sync_acc" where
  "markAffected node nodes acc =
     acc\<lparr>aAffected := fold (\<lambda>n m. if EqualFold n node then m else AList.update n True m) nodes
            (aAffected acc)\<rparr>"

text \<open>The pod behind a request, if the request is kept; a dropped request marks the nodes of its
  siblings.\<close>

definition sync_lookup ::
    "client \<Rightarrow> string \<Rightarrow> (string, Pod) gomap \<Rightarrow> (string, BandwidthRequest) gomap \<Rightarrow>
     BandwidthRequest \<Rightarrow> sync_acc \<Rightarrow> ((Pod \<times> bool) option \<times> sync_acc) kio" where
  "sync_lookup cl node pods existing req acc =
     (case map_of pods (reqPodUid req) of
        Some pod \<Rightarrow> ret (Some (pod, False), acc)
      | None \<Rightarrow> do {
          r \<leftarrow> getPod cl (reqPodName req) (reqNamespace req);
          let pending = (case r of
                Inr p \<Rightarrow> if podUID p = reqPodUid req \<and> podPhase p = PodPending then Some p else None
              | Inl _ \<Rightarrow> None);
          case pending of
            Some p \<Rightarrow> ret (Some (p, True), acc)
          | None \<Rightarrow>
              (case map_of existing (reqPodUid req) of
                 None \<Rightarrow> ret (None, acc)
               | Some oldReq \<Rightarrow> do {
                   o' \<leftarrow> getPod cl (reqPodName oldReq) (reqNamespace oldReq);
                   case o' of
                     Inl _ \<Rightarrow> ret (None, acc)
                   | Inr oldPod \<Rightarrow> do {
                       (_, nodes, _) \<leftarrow> allSiblingsOnCurrentNode cl oldPod node;
                       ret (None, markAffected node nodes acc)
                     }
                 })
        })"

definition sync_siblings ::
    "client \<Rightarrow> string \<Rightarrow> Pod \<Rightarrow> sync_acc \<Rightarrow> (string list \<times> bool \<times> sync_acc) kio" where
  "sync_siblings cl node pod acc =
     (let ownerUID = wrUID (GetWorkloadRefFromPod pod)
      in case map_of (aCache acc) ownerUID of
           Some ce \<Rightarrow> ret (ceNodes ce, ceIsLocal ce, acc)
         | None \<Rightarrow> do {
             (siblings, nodes, isLocal) \<leftarrow> allSiblingsOnCurrentNode cl pod node;
             ret (nodes, isLocal, acc\<lparr>aCache := AList.update ownerUID
                    \<lparr>ceSiblings = siblings, ceNodes = nodes, ceIsLocal = isLocal\<rparr> (aCache acc)\<rparr>)
           })"

definition sync_account ::
    "string \<Rightarrow> (string, BandwidthRequest) gomap \<Rightarrow> BandwidthRequest \<Rightarrow> Pod \<Rightarrow> int64 \<Rightarrow> int64 \<Rightarrow>
     string list \<Rightarrow> bool \<Rightarrow> sync_acc \<Rightarrow> sync_acc" where
  "sync_account node existing req pod ul dl nodes isLocal acc =
     (let newReq = requestFor pod isLocal ul dl;
          acc1 = (if map_of existing (reqPodUid req) \<noteq> Some newReq
                  then markAffected node nodes acc else acc);
          acc2 = acc1\<lparr>aFetches := aFetches acc1 @ [nodes]\<rparr>
      in charge pod isLocal ul dl acc2)"

fun sync_loop ::
    "client \<Rightarrow> parse_quantity \<Rightarrow> BandwidthConfig \<Rightarrow> string \<Rightarrow> (string, Pod) gomap \<Rightarrow>
     (string, BandwidthRequest) gomap \<Rightarrow> BandwidthRequest list \<Rightarrow> sync_acc \<Rightarrow> sync_acc kio" where
  "sync_loop cl pq cfg node pods existing [] acc = ret acc"
| "sync_loop cl pq cfg node pods existing (req # reqs) acc = do {
     (found, acc1) \<leftarrow> sync_lookup cl node pods existing req acc;
     case found of
       None \<Rightarrow> sync_loop cl pq cfg node pods existing reqs acc1
     | Some (pod, isPendingPod) \<Rightarrow> do {
         let (ul, dl) = (if isPendingPod then (UlMbps (reqBandwidth req), DlMbps (reqBandwidth req))
                         else GetBandwidthFromAnnotation pq cfg pod);
         (nodes, isLocal, acc2) \<leftarrow> sync_siblings cl node pod acc1;
         sync_loop cl pq cfg node pods existing reqs
           (sync_account node existing req pod ul dl nodes isLocal acc2)
       }
   }"

section \<open>SyncFromSpecAndPods: fetches, writes, notification\<close>

fun fetch_related ::
    "client \<Rightarrow> string \<Rightarrow> string list \<Rightarrow> (string, Bandwidth) gomap \<Rightarrow> (string, Bandwidth) gomap kio" where
  "fetch_related cl node [] m = ret m"
| "fetch_related cl node (n # ns) m =
     (if EqualFold n node then fetch_related cl node ns m
      else if has_key m n then fetch_related cl node ns m
      else do {
        r \<leftarrow> getBandwidth cl n;
        case r of
          Inl _ \<Rightarrow> fetch_related cl node ns m
        | Inr rbw \<Rightarrow> fetch_related cl node ns (AList.update n rbw m)
      })"

fun fetch_all ::
    "client \<Rightarrow> string \<Rightarrow> string list list \<Rightarrow> (string, Bandwidth) gomap \<Rightarrow> (string, Bandwidth) gomap kio" where
  "fetch_all cl node [] m = ret m"
| "fetch_all cl node (ns # nss) m = do { m' \<leftarrow> fetch_related cl node ns m; fetch_all cl node nss m' }"

definition specChanged ::
    "Bandwidth \<Rightarrow> (string, BandwidthRequest) gomap \<Rightarrow> BandwidthRequest list \<Rightarrow> bool" where
  "specChanged bw existing clean =
     (if length (specRequests (bwSpec bw)) \<noteq> length clean \<or>
         specCapacity (bwSpec bw) \<noteq> stCapacity (bwStatus bw) then True
      else list_ex (\<lambda>newReq. map_of existing (reqPodUid newReq) \<noteq> Some newReq) clean)"

definition statusChanged :: "Bandwidth \<Rightarrow> ('c, 'z) acct_scheme \<Rightarrow> bool" where
  "statusChanged bw acc =
     (stUsed (bwStatus bw) \<noteq> usedCapacity acc \<or>
      stRemaining (bwStatus bw) \<noteq> remainingCapacity (specCapacity (bwSpec bw)) acc \<or>
      stCapacity (bwStatus bw) \<noteq> specCapacity (bwSpec bw) \<or>
      stStatus (bwStatus bw) \<noteq> StCreated \<or>
      stErrorReason (bwStatus bw) \<noteq> '''' \<or>
      length (stReservations (bwStatus bw)) \<noteq> length (aReservations acc))"

text \<open>After the spec update the object is fetched again and the status fields are set again.\<close>

definition reapplyStatus :: "Capacity \<Rightarrow> ('c, 'z) acct_scheme \<Rightarrow> Bandwidth \<Rightarrow> Bandwidth" where
  "reapplyStatus remaining acc bw =
     bw\<lparr>bwStatus := (bwStatus bw)\<lparr>stUsed := usedCapacity acc, stRemaining := remaining,
          stReservations := aReservations acc, stCapacity := specCapacity (bwSpec bw),
          stStatus := StCreated, stErrorReason := ''''\<rparr>\<rparr>"

definition sync_updateSpec ::
    "client \<Rightarrow> bool \<Rightarrow> Capacity \<Rightarrow> sync_acc \<Rightarrow> Bandwidth \<Rightarrow> (api_error + Bandwidth) kio" where
  "sync_updateSpec cl specCh remaining acc bw =
     (if specCh then do {
        u \<leftarrow> updateBandwidth cl bw;
        case u of
          Inl e \<Rightarrow> ret (Inl e)
        | Inr bw1 \<Rightarrow> do {
            g \<leftarrow> getBandwidth cl (bwName bw1);
            case g of
              Inl e \<Rightarrow> ret (Inl e)
            | Inr bw2 \<Rightarrow> ret (Inr (reapplyStatus remaining acc bw2))
          }
      } else ret (Inr bw))"

definition sync_commit ::
    "client \<Rightarrow> bool \<Rightarrow> bool \<Rightarrow> sync_acc \<Rightarrow> Bandwidth \<Rightarrow> api_error option kio" where
  "sync_commit cl specCh statusCh acc bw = do {
     r \<leftarrow> sync_updateSpec cl specCh (remainingCapacity (specCapacity (bwSpec bw)) acc) acc
            (applyAccount acc bw);
     case r of
       Inl e \<Rightarrow> ret (Some e)
     | Inr bw' \<Rightarrow>
         if statusCh then do {
           now \<leftarrow> timeNow cl;
           s \<leftarrow> UpdateBandwidthStatus cl (bw'\<lparr>bwStatus := (bwStatus bw')\<lparr>stUpdatedAt := now\<rparr>\<rparr>);
           case s of Inl e \<Rightarrow> ret (Some e) | Inr _ \<Rightarrow> ret None
         } else ret None
   }"

fun notify_nodes ::
    "client \<Rightarrow> parse_quantity \<Rightarrow> BandwidthConfig \<Rightarrow> (string, Bandwidth) gomap \<Rightarrow> string list \<Rightarrow> unit kio" where
  "notify_nodes cl pq cfg related [] = ret ()"
| "notify_nodes cl pq cfg related (n # ns) =
     (case map_of related n of
        None \<Rightarrow> notify_nodes cl pq cfg related ns
      | Some rbw \<Rightarrow> do {
          _ \<leftarrow> syncSingleNodeBandwidth cl pq cfg rbw;
          notify_nodes cl pq cfg related ns
        })"

record Result =
  resultRequeue :: bool
  resultRequeueAfter :: int

definition noRequeue :: Result where
  "noRequeue = \<lparr>resultRequeue = False, resultRequeueAfter = 0\<rparr>"

text \<open>A status update that reports an error; its own failure is ignored.\<close>

definition reportError :: "client \<Rightarrow> string \<Rightarrow> Bandwidth \<Rightarrow> unit kio" where
  "reportError cl reason bw = do {
     now \<leftarrow> timeNow cl;
     _ \<leftarrow> UpdateBandwidthStatus cl (bw\<lparr>bwStatus := (bwStatus bw)\<lparr>stStatus := StError,
            stErrorReason := reason, stUpdatedAt := now\<rparr>\<rparr>);
     ret ()
   }"

definition sync_write ::
    "client \<Rightarrow> parse_quantity \<Rightarrow> BandwidthConfig \<Rightarrow> string \<Rightarrow> (string, BandwidthRequest) gomap \<Rightarrow>
     sync_acc \<Rightarrow> Bandwidth \<Rightarrow> (Result \<times> api_error option) kio" where
  "sync_write cl pq cfg node existing acc bw = do {
     order \<leftarrow> State_Monad.get;
     related \<leftarrow> fetch_all cl node (clSchedule cl order (aFetches acc)) [];
     e \<leftarrow> sync_commit cl (specChanged bw existing (aClean acc)) (statusChanged bw acc) acc bw;
     case e of
       Some err \<Rightarrow> ret (noRequeue, Some err)
     | None \<Rightarrow> do {
         tr \<leftarrow> State_Monad.get;
         notify_nodes cl pq cfg related (clRange cl tr (map fst (aAffected acc)));
         ret (noRequeue, None)
       }
   }"

definition SyncFromSpecAndPods ::
    "client \<Rightarrow> parse_quantity \<Rightarrow> BandwidthConfig \<Rightarrow> Bandwidth \<Rightarrow> (Result \<times> api_error option) kio" where
  "SyncFromSpecAndPods cl pq cfg bw0 =
     (let node = specNode (bwSpec bw0)
      in do {
        n \<leftarrow> getNode cl node;
        case n of
          Inl e \<Rightarrow>
            if e = NotFound then do { _ \<leftarrow> deleteBandwidth cl bw0; ret (noRequeue, None) }
            else do { reportError cl ''unable to fetch node information'' bw0; ret (noRequeue, Some e) }
        | Inr nd \<Rightarrow>
            if \<not> EqualFold (bwName bw0) (nodeName nd) then do {
              reportError cl ''name mismatch between nodeName and bandwidthName'' bw0;
              ret (noRequeue, None)
            } else do {
              let bw = setDefaultBandwidthValues cfg bw0;
              l \<leftarrow> listPodsOnNode cl node;
              case l of
                Inl e \<Rightarrow> do {
                  reportError cl ''failed to list pods for specified node'' bw;
                  ret (noRequeue, Some e)
                }
              | Inr pods \<Rightarrow> do {
                  let existing = existingRequests (specRequests (bwSpec bw));
                  acc \<leftarrow> sync_loop cl pq cfg node (podsWithBw cfg pods) existing
                           (specRequests (bwSpec bw)) empty_sync_acc;
                  sync_write cl pq cfg node existing acc bw
                }
            }
      })"

end
