(* ===== verification/Operator_Reconcile.thy ===== *)
theory Operator_Reconcile
  imports Operator_Sync
begin

text \<open>
  The entry points of the operator: \<open>Reconcile\<close> and the watch functions of
  \<^verbatim>\<open>bandwidth_controller.go\<close>, and \<open>SetupBandwidthResource\<close> of \<^verbatim>\<open>setup_bandwidth.go\<close>.
\<close>

section \<open>SetupBandwidthResource\<close>

definition setup_podsWithBw :: "BandwidthConfig \<Rightarrow> Pod list \<Rightarrow> (string, Pod) gomap" where
  "setup_podsWithBw cfg pods =
     fold (\<lambda>pod m. if hasBandwidthAnnotation cfg pod then AList.update (podUID pod) pod m else m) pods []"

definition pendingReservation :: "BandwidthRequest \<Rightarrow> ReservationInfo" where
  "pendingReservation req =
     \<lparr>resPodName = reqPodName req, resNamespace = reqNamespace req, resPodUid = reqPodUid req,
      resPodIp = '''', resDeploymentType = '''', resDeploymentName = '''', resDeploymentUid = '''',
      resBandwidth = Capacity (reqBandwidth req) (reqBandwidth req)\<rparr>"

definition setup_step ::
    "parse_quantity \<Rightarrow> BandwidthConfig \<Rightarrow> (string, Pod) gomap \<Rightarrow> BandwidthRequest \<Rightarrow> unit acct \<Rightarrow> unit acct" where
  "setup_step pq cfg pods req acc =
     (case map_of pods (reqPodUid req) of
        Some pod \<Rightarrow>
          (let (ul, dl) = GetBandwidthFromAnnotation pq cfg pod
           in charge pod (reqLinkLocal req) ul dl acc)
      | None \<Rightarrow>
          (let b = reqBandwidth req
           in if reqPodUid req \<noteq> '''' \<and> (0 <s UlMbps b \<or> 0 <s DlMbps b)
              then acc\<lparr>aUsedUlNetwork := aUsedUlNetwork acc + UlMbps b,
                       aUsedDlNetwork := aUsedDlNetwork acc + DlMbps b,
                       aUsedUlLocal := aUsedUlLocal acc + UlMbps b,
                       aUsedDlLocal := aUsedDlLocal acc + DlMbps b,
                       aReservations := aReservations acc @ [pendingReservation req]\<rparr>
              else acc))"

text \<open>Removal of the resource named after a node that is gone or does not match.\<close>

definition cleanupBandwidth :: "client \<Rightarrow> string \<Rightarrow> unit kio" where
  "cleanupBandwidth cl node = do {
     g \<leftarrow> getBandwidth cl node;
     case g of Inl _ \<Rightarrow> ret () | Inr bw \<Rightarrow> do { _ \<leftarrow> deleteBandwidth cl bw; ret () }
   }"

definition withError :: "string \<Rightarrow> Bandwidth \<Rightarrow> Bandwidth" where
  "withError reason bw =
     bw\<lparr>bwStatus := (bwStatus bw)\<lparr>stStatus := StError, stErrorReason := reason\<rparr>\<rparr>"

definition setup_commit :: "client \<Rightarrow> Bandwidth \<Rightarrow> (Result \<times> api_error option) kio" where
  "setup_commit cl bw = do {
     s \<leftarrow> UpdateBandwidthStatus cl bw;
     let bw1 = (case s of Inl _ \<Rightarrow> bw | Inr b \<Rightarrow> b);
     u \<leftarrow> updateBandwidth cl bw1;
     let bw2 = (case u of Inl _ \<Rightarrow> bw1 | Inr b \<Rightarrow> b);
     generateEvent EvCreated bw2;
     ret (\<lparr>resultRequeue = False, resultRequeueAfter = 5000\<rparr>, None)
   }"

definition setup_assign :: "Capacity \<Rightarrow> unit acct \<Rightarrow> int \<Rightarrow> Bandwidth \<Rightarrow> Bandwidth" where
  "setup_assign remaining acc now bw =
     bw\<lparr>bwSpec := (bwSpec bw)\<lparr>specRequests := aClean acc\<rparr>,
        bwStatus := (bwStatus bw)\<lparr>stUsed := usedCapacity acc, stRemaining := remaining,
          stReservations := aReservations acc, stCapacity := specCapacity (bwSpec bw),
          stStatus := StCreated, stUpdatedAt := now\<rparr>\<rparr>"

definition setup_fill ::
    "client \<Rightarrow> parse_quantity \<Rightarrow> BandwidthConfig \<Rightarrow> Bandwidth \<Rightarrow> (Result \<times> api_error option) kio" where
  "setup_fill cl pq cfg bw0 =
     (let bw = setDefaultBandwidthValues cfg bw0; reqs = specRequests (bwSpec bw)
      in if reqs = [] then do {
           now \<leftarrow> timeNow cl;
           setup_commit cl (setup_assign 0 empty_acct now bw)
         } else do {
           l \<leftarrow> listPodsOnNode cl (specNode (bwSpec bw));
           case l of
             Inl e \<Rightarrow> do {
               generateEvent EvFailed (bw\<lparr>bwStatus := (bwStatus bw)\<lparr>stStatus := StError\<rparr>\<rparr>);
               ret (noRequeue, Some e)
             }
           | Inr pods \<Rightarrow> do {
               let acc = fold (setup_step pq cfg (setup_podsWithBw cfg pods)) reqs empty_acct;
               now \<leftarrow> timeNow cl;
               setup_commit cl
                 (setup_assign (remainingCapacity (specCapacity (bwSpec bw)) acc) acc now bw)
             }
         })"

definition SetupBandwidthResource ::
    "client \<Rightarrow> parse_quantity \<Rightarrow> BandwidthConfig \<Rightarrow> Bandwidth \<Rightarrow> (Result \<times> api_error option) kio" where
  "SetupBandwidthResource cl pq cfg bw0 =
     (let bw = bw0\<lparr>bwStatus := (bwStatus bw0)\<lparr>stStatus := StCreating\<rparr>\<rparr>;
          node = specNode (bwSpec bw)
      in do {
        n \<leftarrow> getNode cl node;
        case n of
          Inl e \<Rightarrow>
            if e = NotFound then do {
              cleanupBandwidth cl node;
              generateEvent EvFailed (withError ''node not found'' bw);
              ret (noRequeue, None)
            } else do {
              cleanupBandwidth cl node;
              generateEvent EvFailed (withError ''unable to fetch node information'' bw);
              ret (noRequeue, Some e)
            }
        | Inr nd \<Rightarrow>
            if \<not> EqualFold (bwName bw) (nodeName nd) then do {
              cleanupBandwidth cl node;
              generateEvent EvFailed
                (withError ''name mismatch between nodeName and bandwidthName'' bw);
              ret (noRequeue, None)
            } else do {
              g \<leftarrow> getBandwidth cl (bwName bw);
              case g of
                Inr _ \<Rightarrow> ret (noRequeue, None)
              | Inl _ \<Rightarrow> setup_fill cl pq cfg bw
            }
      })"

section \<open>Reconcile\<close>

definition requeueNow :: Result where
  "requeueNow = \<lparr>resultRequeue = True, resultRequeueAfter = 0\<rparr>"

text \<open>After a successful creation the status is initialised in a second write.\<close>

definition reconcile_initStatus :: "client \<Rightarrow> Bandwidth \<Rightarrow> (Result \<times> api_error option) kio" where
  "reconcile_initStatus cl bw = do {
     g \<leftarrow> getBandwidth cl (bwName bw);
     case g of
       Inl e \<Rightarrow> ret (noRequeue, Some e)
     | Inr bw1 \<Rightarrow> do {
         now \<leftarrow> timeNow cl;
         s \<leftarrow> UpdateBandwidthStatus cl (bw1\<lparr>bwStatus := (bwStatus bw1)\<lparr>stStatus := StCreated,
                stCapacity := specCapacity (bwSpec bw1), stUpdatedAt := now\<rparr>\<rparr>);
         case s of
           Inl e \<Rightarrow> if e = Conflict then ret (requeueNow, None) else ret (noRequeue, Some e)
         | Inr bw2 \<Rightarrow> do { generateEvent EvCreated bw2; ret (requeueNow, None) }
       }
   }"

definition reconcile_create ::
    "client \<Rightarrow> BandwidthConfig \<Rightarrow> string \<Rightarrow> (Result \<times> api_error option) kio" where
  "reconcile_create cl cfg name =
     (let bw = setDefaultBandwidthValues cfg (newBandwidth name)
      in do {
        generateEvent EvCreating bw;
        c \<leftarrow> createBandwidth cl bw;
        case c of
          Inl ce \<Rightarrow>
            if ce \<noteq> AlreadyExists then do {
              g \<leftarrow> getBandwidth cl (bwName bw);
              case g of
                Inl _ \<Rightarrow> ret (noRequeue, Some ce)
              | Inr bw1 \<Rightarrow> do {
                  now \<leftarrow> timeNow cl;
                  let bw2 = bw1\<lparr>bwStatus := (bwStatus bw1)\<lparr>stStatus := StError, stUpdatedAt := now\<rparr>\<rparr>;
                  s \<leftarrow> UpdateBandwidthStatus cl bw2;
                  generateEvent EvFailed (case s of Inl _ \<Rightarrow> bw2 | Inr b \<Rightarrow> b);
                  ret (noRequeue, Some ce)
                }
            } else ret (requeueNow, None)
        | Inr bw1 \<Rightarrow> reconcile_initStatus cl bw1
      })"

definition Reconcile ::
    "client \<Rightarrow> parse_quantity \<Rightarrow> BandwidthConfig \<Rightarrow> string \<Rightarrow> (Result \<times> api_error option) kio" where
  "Reconcile cl pq cfg name = do {
     r \<leftarrow> getBandwidth cl name;
     case r of
       Inl e \<Rightarrow>
         if e = NotFound then do {
           n \<leftarrow> getNode cl name;
           case n of
             Inl ne \<Rightarrow> if ne = NotFound then ret (noRequeue, None) else ret (noRequeue, Some ne)
           | Inr _ \<Rightarrow> reconcile_create cl cfg name
         } else ret (noRequeue, Some e)
     | Inr bw \<Rightarrow>
         (let st = stStatus (bwStatus bw)
          in if st = StNone \<or> st = StEmpty \<or> st = StCreated then SyncFromSpecAndPods cl pq cfg bw
             else ret (noRequeue, None))
   }"

section \<open>Watches\<close>

definition podIndexKeys :: "Pod \<Rightarrow> string list" where
  "podIndexKeys pod = (if podNodeName pod = '''' then [] else [podNodeName pod])"

definition nodeRequests :: "Node \<Rightarrow> string list" where
  "nodeRequests n = [nodeName n]"

definition podRequests :: "Pod \<Rightarrow> string list" where
  "podRequests p = (if podNodeName p = '''' then [] else [podNodeName p])"

end
