(* ===== verification/Operator_Invariants.thy ===== *)
theory Operator_Invariants
  imports Operator_Reconcile
begin

text \<open>
  The accounting invariants of the operator: what every write of a reconciliation carries, what
  the sibling search returns, and which requests survive a synchronisation.
\<close>

section \<open>The ledger\<close>

text \<open>A reservation agrees with the request it was made for.\<close>

definition reservation_of :: "BandwidthRequest \<Rightarrow> ReservationInfo \<Rightarrow> bool" where
  "reservation_of q r \<longleftrightarrow>
     resPodName r = reqPodName q \<and> resNamespace r = reqNamespace q \<and> resPodUid r = reqPodUid q \<and>
     Local (resBandwidth r) = reqBandwidth q \<and>
     Network (resBandwidth r) = (if reqLinkLocal q then 0 else reqBandwidth q)"

definition acct_ok :: "('c, 'z) acct_scheme \<Rightarrow> bool" where
  "acct_ok acc \<longleftrightarrow>
     usedCapacity acc = sum_list (map resBandwidth (aReservations acc)) \<and>
     list_all2 reservation_of (aClean acc) (aReservations acc)"

text \<open>The status is the account of its own reservations.\<close>

definition accounted :: "Capacity \<Rightarrow> BandwidthStatus \<Rightarrow> bool" where
  "accounted cap st \<longleftrightarrow>
     stUsed st = sum_list (map resBandwidth (stReservations st)) \<and>
     stUsed st + stRemaining st = cap \<and>
     stStatus st = StCreated \<and> stErrorReason st = ''''"

definition ledger_ok :: "Bandwidth \<Rightarrow> bool" where
  "ledger_ok bw \<longleftrightarrow>
     accounted (specCapacity (bwSpec bw)) (bwStatus bw) \<and>
     stCapacity (bwStatus bw) = specCapacity (bwSpec bw) \<and>
     list_all2 reservation_of (specRequests (bwSpec bw)) (stReservations (bwStatus bw))"

lemma acct_ok_empty [simp]: "acct_ok empty_acct" "acct_ok empty_sync_acc"
  by (simp_all add: acct_ok_def empty_acct_def empty_sync_acc_def usedCapacity_def zero_Capacity_def
      zero_BandwidthDefinition_def)

lemma remaining_eq: "remainingCapacity cap acc = cap - usedCapacity acc"
  by (cases cap; cases "Local cap"; cases "Network cap")
    (simp add: remainingCapacity_def usedCapacity_def)

lemma charge_fields [simp]:
  "aReservations (charge pod isLocal ul dl acc) =
     aReservations acc @ [reservationFor pod ul dl (if isLocal then 0 else ul) (if isLocal then 0 else dl)]"
  "aClean (charge pod isLocal ul dl acc) = aClean acc @ [requestFor pod isLocal ul dl]"
  "aCache (charge pod isLocal ul dl acc) = aCache acc"
  by (simp_all add: charge_def Let_def)

lemma usedCapacity_charge:
  "usedCapacity (charge pod isLocal ul dl acc) = usedCapacity acc +
     resBandwidth (reservationFor pod ul dl (if isLocal then 0 else ul) (if isLocal then 0 else dl))"
  by (simp add: usedCapacity_def charge_def reservationFor_def Let_def)

lemma reservation_of_charge:
  "reservation_of (requestFor pod isLocal ul dl)
     (reservationFor pod ul dl (if isLocal then 0 else ul) (if isLocal then 0 else dl))"
  by (simp add: reservation_of_def requestFor_def reservationFor_def Let_def)

lemma acct_ok_charge: "acct_ok acc \<Longrightarrow> acct_ok (charge pod isLocal ul dl acc)"
  by (simp add: acct_ok_def usedCapacity_charge reservation_of_charge list_all2_appendI)

lemma acct_ok_cache [simp]: "acct_ok (acc\<lparr>aCache := c\<rparr>) = acct_ok acc"
  by (simp add: acct_ok_def usedCapacity_def)

lemma acct_ok_affected [simp]:
  "acct_ok (acc\<lparr>aAffected := m\<rparr>) = acct_ok acc" "acct_ok (acc\<lparr>aFetches := f\<rparr>) = acct_ok acc"
  "acct_ok (markAffected node nodes acc) = acct_ok acc"
  by (simp_all add: acct_ok_def usedCapacity_def markAffected_def)

lemma ledger_ok_apply: "acct_ok acc \<Longrightarrow> ledger_ok (applyAccount acc bw)"
  by (simp add: ledger_ok_def accounted_def applyAccount_def acct_ok_def remaining_eq)

section \<open>Reads\<close>

abbreviation reads :: "'a kio \<Rightarrow> ('a \<Rightarrow> bool) \<Rightarrow> bool" where
  "reads m Q \<equiv> does (\<lambda>e. \<not> is_write e) m Q"

lemma reads_writes:
  assumes "reads m Q"
  shows "writes (snd (run_state m tr)) = writes tr" and "Q (fst (run_state m tr))"
proof -
  obtain evs where "snd (run_state m tr) = tr @ evs" "\<forall>e \<in> set evs. \<not> is_write e"
    "Q (fst (run_state m tr))"
    using assms unfolding does_def by blast
  then show "writes (snd (run_state m tr)) = writes tr" "Q (fst (run_state m tr))"
    by (simp_all add: writes_def filter_empty_conv)
qed

text \<open>The standalone pods, for which the sibling search answers without a lookup.\<close>

definition standalone :: "Pod \<Rightarrow> bool" where
  "standalone pod =
     (EqualFold (wrKind (GetWorkloadRefFromPod pod)) ''Pod'' \<or> wrKind (GetWorkloadRefFromPod pod) = [])"

lemma siblings_reads:
  "reads (allSiblingsOnCurrentNode cl pod node)
     (\<lambda>(_, nodes, _). nodes = (if standalone pod then [podNodeName pod] else []))"
  unfolding allSiblingsOnCurrentNode_def standalone_def
  by (auto simp: Let_def intro!: does_rules split: sum.splits)

lemma single_lookup_reads: "reads (single_lookup cl pods req) (\<lambda>_. True)"
  unfolding single_lookup_def by (auto intro!: does_rules split: option.splits sum.splits)

lemma single_isLocal_reads: "reads (single_isLocal cl node pod cache) (\<lambda>_. True)"
  unfolding single_isLocal_def
  by (auto simp: Let_def intro!: does_rules does_bind [OF siblings_reads] split: option.splits)

lemma single_loop_reads:
  "acct_ok acc \<Longrightarrow> reads (single_loop cl pq cfg node pods reqs acc) acct_ok"
proof (induction reqs arbitrary: acc)
  case Nil
  then show ?case by (simp add: does_return)
next
  case (Cons req reqs)
  then show ?case
    by (auto intro!: Cons.IH does_bind [OF single_lookup_reads] does_bind [OF single_isLocal_reads]
        acct_ok_charge split: option.splits prod.splits)
qed

lemma sync_lookup_reads:
  "acct_ok acc \<Longrightarrow> reads (sync_lookup cl node pods existing req acc) (\<lambda>(_, a). acct_ok a)"
  unfolding sync_lookup_def
  by (auto intro!: does_rules does_bind [OF siblings_reads] split: option.splits sum.splits)

lemma sync_siblings_reads:
  "acct_ok acc \<Longrightarrow> reads (sync_siblings cl node pod acc) (\<lambda>(_, _, a). acct_ok a)"
  unfolding sync_siblings_def
  by (auto simp: Let_def intro!: does_rules does_bind [OF siblings_reads] split: option.splits)

lemma acct_ok_account:
  "acct_ok acc \<Longrightarrow> acct_ok (sync_account node existing req pod ul dl nodes isLocal acc)"
  by (simp add: sync_account_def Let_def acct_ok_charge)

lemma sync_loop_reads:
  "acct_ok acc \<Longrightarrow> reads (sync_loop cl pq cfg node pods existing reqs acc) acct_ok"
proof (induction reqs arbitrary: acc)
  case Nil
  then show ?case by (simp add: does_return)
next
  case (Cons req reqs)
  show ?case
    by (auto intro!: Cons.IH does_bind [OF sync_lookup_reads [OF Cons.prems]]
        does_bind [OF sync_siblings_reads] acct_ok_account split: option.splits prod.splits)
qed

lemma fetch_related_reads: "reads (fetch_related cl node ns m) (\<lambda>_. True)"
  by (induction ns arbitrary: m) (auto intro!: does_rules split: sum.splits)

lemma fetch_all_reads: "reads (fetch_all cl node nss m) (\<lambda>_. True)"
  by (induction nss arbitrary: m) (auto intro!: does_rules does_bind [OF fetch_related_reads])

section \<open>Writes\<close>

fun update_ok :: "api_call \<Rightarrow> bool" where
  "update_ok (CUpdate bw) = ledger_ok bw"
| "update_ok _ = True"

lemma update_ok_read: "\<not> is_write e \<Longrightarrow> update_ok e"
  by (cases e) auto

lemmas does_read = does_mono [OF _ update_ok_read]

lemma generateEvent_reads: "reads (generateEvent ev bw) (\<lambda>_. True)"
  unfolding generateEvent_def by (auto simp: Let_def intro!: does_rules)

lemma UpdateBandwidthStatus_does:
  "P (CUpdateStatus bw) \<Longrightarrow> does P (UpdateBandwidthStatus cl bw) (\<lambda>_. True)"
  unfolding UpdateBandwidthStatus_def by (auto intro!: does_rules)

lemma does_bind_status:
  assumes "P (CUpdateStatus bw)" and "\<And>r. does P (f r) R"
  shows "does P (State_Monad.bind (UpdateBandwidthStatus cl bw) f) R"
  by (rule does_bind [OF UpdateBandwidthStatus_does]) (use assms in auto)

lemmas does_bind_event = does_bind [OF does_read [OF generateEvent_reads]]

lemma ledger_ok_updatedAt [simp]:
  "ledger_ok (bw\<lparr>bwStatus := (bwStatus bw)\<lparr>stUpdatedAt := t\<rparr>\<rparr>) = ledger_ok bw"
  by (simp add: ledger_ok_def accounted_def)

lemma single_commit_updates: "acct_ok acc \<Longrightarrow> does update_ok (single_commit cl acc bw) (\<lambda>_. True)"
  unfolding single_commit_def
  by (auto simp: Let_def ledger_ok_apply intro!: does_rules does_bind_status split: sum.splits)

lemma syncSingle_updates: "does update_ok (syncSingleNodeBandwidth cl pq cfg bw) (\<lambda>_. True)"
  unfolding syncSingleNodeBandwidth_def
  by (auto simp: Let_def intro!: does_rules single_commit_updates
      does_bind [OF does_read [OF single_loop_reads]] split: sum.splits)

lemma sync_commit_updates: "acct_ok acc \<Longrightarrow> does update_ok (sync_commit cl sc stc acc bw) (\<lambda>_. True)"
  unfolding sync_commit_def sync_updateSpec_def
  by (auto simp: Let_def ledger_ok_apply intro!: does_rules does_bind_status split: sum.splits)

lemma notify_updates: "does update_ok (notify_nodes cl pq cfg related ns) (\<lambda>_. True)"
  by (induction ns) (auto intro!: does_rules does_bind [OF syncSingle_updates] split: option.splits)

lemma reportError_updates: "does update_ok (reportError cl reason bw) (\<lambda>_. True)"
  unfolding reportError_def by (auto intro!: does_rules does_bind_status)

lemma sync_write_updates:
  "acct_ok acc \<Longrightarrow> does update_ok (sync_write cl pq cfg node existing acc bw) (\<lambda>_. True)"
  unfolding sync_write_def
  by (auto intro!: does_rules does_bind [OF does_read [OF fetch_all_reads]]
      does_bind [OF sync_commit_updates] does_bind [OF notify_updates] split: option.splits)

lemma Sync_updates: "does update_ok (SyncFromSpecAndPods cl pq cfg bw) (\<lambda>_. True)"
  unfolding SyncFromSpecAndPods_def
  by (auto simp: Let_def intro!: does_rules does_bind [OF reportError_updates] sync_write_updates
      does_bind [OF does_read [OF sync_loop_reads]] split: sum.splits)

lemma reconcile_create_updates: "does update_ok (reconcile_create cl cfg name) (\<lambda>_. True)"
  unfolding reconcile_create_def reconcile_initStatus_def
  by (auto simp: Let_def intro!: does_rules does_bind_event does_bind_status split: sum.splits)

lemma Reconcile_updates: "does update_ok (Reconcile cl pq cfg name) (\<lambda>_. True)"
  unfolding Reconcile_def
  by (auto simp: Let_def intro!: does_rules Sync_updates reconcile_create_updates split: sum.splits)

end
