(* ===== verification/Operator_Refinement.thy ===== *)
theory Operator_Refinement
  imports Operator_Invariants "HOL-Library.Sublist"
begin

text \<open>
  An abstract specification of one synchronisation on a cluster that does not change meanwhile
  (\<open>quiescent\<close>): the kept requests and their reservations as a function of the requests and the
  pods, without the loop, its accumulators and its sibling cache. The loop refines it
  (\<open>sync_loop_spec\<close>), and a synchronised object is a fixed point of it (\<open>kept_fixpoint\<close>).
\<close>

section \<open>The specification\<close>

definition quiescent :: "client \<Rightarrow> bool" where
  "quiescent cl \<longleftrightarrow>
     (\<forall>tr. clGetNode cl tr = clGetNode cl [] \<and> clGetPod cl tr = clGetPod cl [] \<and>
       clListPodsOnNode cl tr = clListPodsOnNode cl [] \<and>
       clListPodsInNamespace cl tr = clListPodsInNamespace cl [])"

text \<open>The live pods of a workload, as the sibling search selects them.\<close>

definition live_siblings :: "WorkloadRef \<Rightarrow> Pod list \<Rightarrow> Pod list" where
  "live_siblings owner pods =
     filter (\<lambda>p. podDeletionTimestamp p = None \<and>
         EqualFold (wrUID (GetWorkloadRefFromPod p)) (wrUID owner) \<and>
         EqualFold (wrKind (GetWorkloadRefFromPod p)) (wrKind owner)) pods"

definition all_local :: "client \<Rightarrow> string \<Rightarrow> Pod \<Rightarrow> bool" where
  "all_local cl node pod =
     (\<not> standalone pod \<and>
      (case clListPodsInNamespace cl [] (podNamespace pod) of
         Inl _ \<Rightarrow> False
       | Inr pods \<Rightarrow>
           (let sibs = live_siblings (GetWorkloadRefFromPod pod) pods
            in sibs \<noteq> [] \<and> list_all (\<lambda>p. EqualFold (podNodeName p) node) sibs)))"

definition resolve :: "client \<Rightarrow> (string, Pod) gomap \<Rightarrow> BandwidthRequest \<Rightarrow> (Pod \<times> bool) option" where
  "resolve cl pods req =
     (case map_of pods (reqPodUid req) of
        Some pod \<Rightarrow> Some (pod, False)
      | None \<Rightarrow>
          (case clGetPod cl [] (reqPodName req) (reqNamespace req) of
             Inl _ \<Rightarrow> None
           | Inr p \<Rightarrow> if podUID p = reqPodUid req \<and> podPhase p = PodPending then Some (p, True) else None))"

definition amounts :: "parse_quantity \<Rightarrow> BandwidthConfig \<Rightarrow> BandwidthRequest \<Rightarrow> Pod \<Rightarrow> bool \<Rightarrow> int64 \<times> int64" where
  "amounts pq cfg req pod pending =
     (if pending then (UlMbps (reqBandwidth req), DlMbps (reqBandwidth req))
      else GetBandwidthFromAnnotation pq cfg pod)"

fun kept ::
    "client \<Rightarrow> parse_quantity \<Rightarrow> BandwidthConfig \<Rightarrow> string \<Rightarrow> (string, Pod) gomap \<Rightarrow>
     BandwidthRequest list \<Rightarrow> (BandwidthRequest \<times> ReservationInfo) list" where
  "kept cl pq cfg node pods [] = []"
| "kept cl pq cfg node pods (req # reqs) =
     (case resolve cl pods req of
        None \<Rightarrow> kept cl pq cfg node pods reqs
      | Some (pod, pending) \<Rightarrow>
          (let (ul, dl) = amounts pq cfg req pod pending; l = all_local cl node pod
           in (requestFor pod l ul dl,
               reservationFor pod ul dl (if l then 0 else ul) (if l then 0 else dl))
              # kept cl pq cfg node pods reqs))"

section \<open>The sibling search\<close>

lemma sibling_fold:
  "fold (sibling_step owner node) pods acc =
     acc\<lparr>sibNodesMap := sibNodesMap (fold (sibling_step owner node) pods acc),
         sibSlice := sibSlice acc @ live_siblings owner pods,
         sibSiblingPods := sibSiblingPods acc + length (live_siblings owner pods),
         sibLocalPods := sibLocalPods acc +
           length (filter (\<lambda>p. EqualFold (podNodeName p) node) (live_siblings owner pods))\<rparr>"
proof (induction pods arbitrary: acc)
  case Nil
  then show ?case by (simp add: live_siblings_def)
next
  case (Cons p pods)
  show ?case
    unfolding fold_simps comp_def
    by (subst Cons.IH) (simp add: sibling_step_def live_siblings_def Let_def)
qed

lemma sibling_fold_fields [simp]:
  "sibSlice (fold (sibling_step owner node) pods acc) = sibSlice acc @ live_siblings owner pods"
  "sibSiblingPods (fold (sibling_step owner node) pods acc) =
     sibSiblingPods acc + length (live_siblings owner pods)"
  "sibLocalPods (fold (sibling_step owner node) pods acc) = sibLocalPods acc +
     length (filter (\<lambda>p. EqualFold (podNodeName p) node) (live_siblings owner pods))"
  by (subst sibling_fold, simp)+

lemma length_filter_all: "(length xs = length (filter P xs)) = list_all P xs"
proof (cases "list_all P xs")
  case True
  then show ?thesis by (simp add: list_all_iff)
next
  case False
  then obtain x where "x \<in> set xs" "\<not> P x" by (auto simp: list_all_iff)
  then have "length (filter P xs) < length xs" by (rule length_filter_less)
  with False show ?thesis by simp
qed

lemma quiescent_simps:
  assumes "quiescent cl" and "NO_MATCH [] tr"
  shows "clGetNode cl tr = clGetNode cl []" "clGetPod cl tr = clGetPod cl []"
    "clListPodsOnNode cl tr = clListPodsOnNode cl []"
    "clListPodsInNamespace cl tr = clListPodsInNamespace cl []"
  using assms(1) unfolding quiescent_def by blast+

lemma siblings_spec:
  assumes "quiescent cl"
  shows "reads (allSiblingsOnCurrentNode cl pod node)
     (\<lambda>(_, nodes, answer). nodes = (if standalone pod then [podNodeName pod] else []) \<and>
        answer = all_local cl node pod)"
  unfolding allSiblingsOnCurrentNode_def all_local_def standalone_def
  by (auto simp: Let_def quiescent_simps [OF assms] length_filter_all intro!: does_rules
      split: sum.splits)

section \<open>The loop\<close>

text \<open>
  The sibling cache is keyed by the owner's UID. It is transparent because a UID identifies one
  owner: pods with the same owner UID are in one namespace and name the same owner kind
  (\<open>owners_consistent\<close>, on the pods \<open>K\<close> the server knows).
\<close>

definition owners_consistent :: "Pod set \<Rightarrow> bool" where
  "owners_consistent K \<longleftrightarrow>
     (\<forall>p \<in> K. \<forall>q \<in> K. wrUID (GetWorkloadRefFromPod p) = wrUID (GetWorkloadRefFromPod q) \<longrightarrow>
        wrKind (GetWorkloadRefFromPod p) = wrKind (GetWorkloadRefFromPod q) \<and>
        podNamespace p = podNamespace q)"

definition known_pods :: "client \<Rightarrow> (string, Pod) gomap \<Rightarrow> Pod set \<Rightarrow> bool" where
  "known_pods cl pods K \<longleftrightarrow>
     (\<forall>u p. map_of pods u = Some p \<longrightarrow> p \<in> K) \<and>
     (\<forall>n ns p. clGetPod cl [] n ns = Inr p \<longrightarrow> p \<in> K)"

definition cache_ok :: "client \<Rightarrow> string \<Rightarrow> Pod set \<Rightarrow> sync_acc \<Rightarrow> bool" where
  "cache_ok cl node K acc \<longleftrightarrow>
     (\<forall>u ce. map_of (aCache acc) u = Some ce \<longrightarrow>
        (\<forall>p \<in> K. wrUID (GetWorkloadRefFromPod p) = u \<longrightarrow> ceIsLocal ce = all_local cl node p))"

lemma all_local_cong:
  assumes "owners_consistent K" "p \<in> K" "q \<in> K"
    and "wrUID (GetWorkloadRefFromPod p) = wrUID (GetWorkloadRefFromPod q)"
  shows "all_local cl node p = all_local cl node q"
proof -
  have "wrKind (GetWorkloadRefFromPod p) = wrKind (GetWorkloadRefFromPod q)"
    "podNamespace p = podNamespace q"
    using assms unfolding owners_consistent_def by blast+
  moreover from this assms(4) have
    "live_siblings (GetWorkloadRefFromPod p) pods = live_siblings (GetWorkloadRefFromPod q) pods" for pods
    by (simp add: live_siblings_def)
  ultimately show ?thesis
    by (simp add: all_local_def standalone_def split: sum.split)
qed

lemma markAffected_fields [simp]:
  "aClean (markAffected node nodes acc) = aClean acc"
  "aReservations (markAffected node nodes acc) = aReservations acc"
  "aCache (markAffected node nodes acc) = aCache acc"
  by (simp_all add: markAffected_def)

lemma cache_ok_markAffected [simp]:
  "cache_ok cl node K (markAffected node' nodes acc) = cache_ok cl node K acc"
  by (simp add: cache_ok_def)

text \<open>The parts of the accumulator the specification is about.\<close>

definition same_account :: "sync_acc \<Rightarrow> sync_acc \<Rightarrow> bool" where
  "same_account a b \<longleftrightarrow> aClean a = aClean b \<and> aReservations a = aReservations b"

lemma sync_lookup_spec:
  assumes "quiescent cl" "cache_ok cl node K acc"
  shows "reads (sync_lookup cl node pods existing req acc)
     (\<lambda>(found, a). found = resolve cl pods req \<and> same_account a acc \<and> cache_ok cl node K a)"
  unfolding sync_lookup_def resolve_def same_account_def
  using assms
  by (auto simp: quiescent_simps intro!: does_rules does_bind [OF siblings_reads]
      split: option.splits sum.splits)

lemma sync_siblings_spec:
  assumes "quiescent cl" "owners_consistent K" "cache_ok cl node K acc" "pod \<in> K"
  shows "reads (sync_siblings cl node pod acc)
     (\<lambda>(_, isLocal, a). isLocal = all_local cl node pod \<and> same_account a acc \<and> cache_ok cl node K a)"
proof -
  have upd: "cache_ok cl node K (acc\<lparr>aCache := AList.update (wrUID (GetWorkloadRefFromPod pod))
      \<lparr>ceSiblings = s, ceNodes = n, ceIsLocal = all_local cl node pod\<rparr> (aCache acc)\<rparr>)" for s n
    using assms(3) all_local_cong [OF assms(2) _ assms(4)] by (auto simp: cache_ok_def)
  show ?thesis
    unfolding sync_siblings_def same_account_def
    using assms upd
    by (auto simp: Let_def cache_ok_def intro!: does_rules does_bind [OF siblings_spec]
        split: option.splits)
qed

lemma sync_account_fields:
  "aClean (sync_account node existing req pod ul dl nodes l a) = aClean a @ [requestFor pod l ul dl]"
  "aReservations (sync_account node existing req pod ul dl nodes l a) = aReservations a @
     [reservationFor pod ul dl (if l then 0 else ul) (if l then 0 else dl)]"
  "aCache (sync_account node existing req pod ul dl nodes l a) = aCache a"
  by (simp_all add: sync_account_def Let_def)

lemma resolve_known: "known_pods cl pods K \<Longrightarrow> resolve cl pods req = Some (p, b) \<Longrightarrow> p \<in> K"
  by (auto simp: resolve_def known_pods_def split: option.splits sum.splits if_splits)

lemma sync_loop_spec:
  assumes q: "quiescent cl" and K: "owners_consistent K" "known_pods cl pods K"
  shows "cache_ok cl node K acc \<Longrightarrow>
    reads (sync_loop cl pq cfg node pods existing reqs acc)
      (\<lambda>a. aClean a = aClean acc @ map fst (kept cl pq cfg node pods reqs) \<and>
           aReservations a = aReservations acc @ map snd (kept cl pq cfg node pods reqs))"
proof (induction reqs arbitrary: acc)
  case Nil
  then show ?case by (simp add: does_return)
next
  case (Cons req reqs)
  show ?case
  proof (cases "resolve cl pods req")
    case None
    then show ?thesis
      by (auto simp: same_account_def intro!: does_bind [OF sync_lookup_spec [OF q Cons.prems]]
          does_weaken [OF Cons.IH])
  next
    case (Some pb)
    obtain pod b where pb: "pb = (pod, b)" by (cases pb)
    have pod: "pod \<in> K" using resolve_known [OF K(2)] Some pb by simp
    have c: "cache_ok cl node K (sync_account node existing req p ul dl ns l a)"
      if "cache_ok cl node K a" for p ul dl ns l a
      using that by (simp add: cache_ok_def sync_account_fields)
    show ?thesis
      using Some pb pod
      by (auto simp: same_account_def amounts_def sync_account_fields c Let_def
          intro!: does_bind [OF sync_lookup_spec [OF q Cons.prems]]
            does_bind [OF sync_siblings_spec [OF q K(1)]] does_weaken [OF Cons.IH]
          split: prod.splits)
  qed
qed

section \<open>Synchronised objects\<close>

text \<open>The server answers a request for a pod with the pod of that name.\<close>

definition pods_by_name :: "client \<Rightarrow> bool" where
  "pods_by_name cl \<longleftrightarrow>
     (\<forall>n ns p. clGetPod cl [] n ns = Inr p \<longrightarrow> podName p = n \<and> podNamespace p = ns)"

definition keyed_by_uid :: "(string, Pod) gomap \<Rightarrow> bool" where
  "keyed_by_uid pods \<longleftrightarrow> (\<forall>u p. map_of pods u = Some p \<longrightarrow> podUID p = u)"

lemma keyed_podsWithBw_step: "keyed_by_uid m \<Longrightarrow> keyed_by_uid (podsWithBw_step cfg pod m)"
  by (simp add: keyed_by_uid_def podsWithBw_step_def)

lemma keyed_podsWithBw: "keyed_by_uid (podsWithBw cfg pods)"
proof -
  have "keyed_by_uid m \<Longrightarrow> keyed_by_uid (fold (podsWithBw_step cfg) pods m)" for m
    by (induction pods arbitrary: m) (simp_all add: keyed_podsWithBw_step)
  from this [of "[]"] show ?thesis by (simp add: podsWithBw_def keyed_by_uid_def)
qed

lemma resolve_uid: "keyed_by_uid pods \<Longrightarrow> resolve cl pods req = Some (p, b) \<Longrightarrow> podUID p = reqPodUid req"
  by (auto simp: resolve_def keyed_by_uid_def split: option.splits sum.splits if_splits)

lemma resolve_requestFor:
  assumes "keyed_by_uid pods" "pods_by_name cl" "resolve cl pods req = Some (p, b)"
  shows "resolve cl pods (requestFor p l ul dl) = Some (p, b)"
proof (cases "map_of pods (reqPodUid req)")
  case None
  then have g: "clGetPod cl [] (reqPodName req) (reqNamespace req) = Inr p"
    and p: "podUID p = reqPodUid req" "podPhase p = PodPending" and b: b
    using assms(3) by (auto simp: resolve_def split: sum.splits if_splits)
  from g assms(2) have "podName p = reqPodName req" "podNamespace p = reqNamespace req"
    unfolding pods_by_name_def by blast+
  with g p b None show ?thesis by (simp add: resolve_def requestFor_def)
next
  case (Some p')
  with assms(1,3) show ?thesis
    by (simp add: resolve_def requestFor_def keyed_by_uid_def)
qed

lemma amounts_requestFor:
  assumes "amounts pq cfg req p b = (ul, dl)"
  shows "amounts pq cfg (requestFor p l ul dl) p b = (ul, dl)"
  using assms by (simp add: amounts_def requestFor_def split: if_splits)

lemma kept_fixpoint:
  assumes "keyed_by_uid pods" "pods_by_name cl"
  shows "kept cl pq cfg node pods (map fst (kept cl pq cfg node pods reqs)) = kept cl pq cfg node pods reqs"
  by (induction reqs)
    (auto simp: resolve_requestFor [OF assms] amounts_requestFor Let_def split: option.split prod.split)

lemma kept_source:
  "q \<in> set (map fst (kept cl pq cfg node pods reqs)) \<Longrightarrow>
     \<exists>req p b. req \<in> set reqs \<and> resolve cl pods req = Some (p, b) \<and> podUID p = reqPodUid q"
proof (induction reqs)
  case (Cons req reqs)
  then show ?case
    by (cases "resolve cl pods req") (auto simp: requestFor_def Let_def split: prod.splits)
qed simp

lemma distinct_subseq: "subseq xs ys \<Longrightarrow> distinct ys \<Longrightarrow> distinct xs"
  by (induction rule: list_emb.induct) (auto dest: subseq_order.dual_order.trans list_emb_set)

lemma kept_uids:
  assumes "keyed_by_uid pods"
  shows "subseq (map (reqPodUid \<circ> fst) (kept cl pq cfg node pods reqs)) (map reqPodUid reqs)"
  by (induction reqs)
    (auto simp: requestFor_def Let_def dest: resolve_uid [OF assms] split: option.split prod.split)

lemma kept_reservations:
  "list_all2 reservation_of (map fst (kept cl pq cfg node pods reqs)) (map snd (kept cl pq cfg node pods reqs))"
  by (induction reqs)
    (auto simp: Let_def reservation_of_charge split: option.split prod.split)

lemma map_of_existing_fold:
  "u \<notin> reqPodUid ` set reqs \<Longrightarrow>
     map_of (fold (\<lambda>r. AList.update (reqPodUid r) r) reqs m) u = map_of m u"
  by (induction reqs arbitrary: m) auto

lemma map_of_existing:
  assumes "distinct (map reqPodUid reqs)" "q \<in> set reqs"
  shows "map_of (existingRequests reqs) (reqPodUid q) = Some q"
proof -
  have "map_of (fold (\<lambda>r. AList.update (reqPodUid r) r) reqs m) (reqPodUid q) = Some q" for m
    using assms by (induction reqs arbitrary: m) (auto simp: map_of_existing_fold)
  then show ?thesis by (simp add: existingRequests_def)
qed

text \<open>The object a synchronisation computes.\<close>

definition synced_object ::
    "client \<Rightarrow> parse_quantity \<Rightarrow> BandwidthConfig \<Rightarrow> Pod list \<Rightarrow> Bandwidth \<Rightarrow> Bandwidth" where
  "synced_object cl pq cfg pods bw =
     (let k = kept cl pq cfg (specNode (bwSpec bw)) (podsWithBw cfg pods) (specRequests (bwSpec bw));
          cap = specCapacity (bwSpec bw); used = sum_list (map (resBandwidth \<circ> snd) k)
      in bw\<lparr>bwSpec := (bwSpec bw)\<lparr>specRequests := map fst k\<rparr>,
            bwStatus := (bwStatus bw)\<lparr>stUsed := used, stRemaining := cap - used,
              stReservations := map snd k, stCapacity := cap,
              stStatus := StCreated, stErrorReason := ''''\<rparr>\<rparr>)"

text \<open>A request that a synchronisation would leave as it is.\<close>

definition unchanged ::
    "client \<Rightarrow> parse_quantity \<Rightarrow> BandwidthConfig \<Rightarrow> string \<Rightarrow> (string, Pod) gomap \<Rightarrow> BandwidthRequest \<Rightarrow> bool" where
  "unchanged cl pq cfg node pods req \<longleftrightarrow>
     (\<exists>p b ul dl. resolve cl pods req = Some (p, b) \<and> amounts pq cfg req p b = (ul, dl) \<and>
        requestFor p (all_local cl node p) ul dl = req)"

lemma kept_unchanged:
  assumes "keyed_by_uid pods" "pods_by_name cl" "q \<in> set (map fst (kept cl pq cfg node pods reqs))"
  shows "unchanged cl pq cfg node pods q"
  using assms(3)
proof (induction reqs)
  case (Cons req reqs)
  show ?case
  proof (cases "resolve cl pods req")
    case None
    with Cons show ?thesis by simp
  next
    case (Some pb)
    obtain p b where pb: "pb = (p, b)" by (cases pb)
    obtain ul dl where am: "amounts pq cfg req p b = (ul, dl)" by (cases "amounts pq cfg req p b")
    have "unchanged cl pq cfg node pods (requestFor p (all_local cl node p) ul dl)"
      using resolve_requestFor [OF assms(1,2), of req p b] amounts_requestFor [OF am] Some pb
      unfolding unchanged_def by blast
    with Cons Some pb am show ?thesis by (auto simp: Let_def)
  qed
qed simp

lemma sync_lookup_found:
  assumes "quiescent cl" "resolve cl pods req = Some pb"
  shows "reads (sync_lookup cl node pods existing req acc) (\<lambda>r. r = (Some pb, acc))"
  using assms unfolding sync_lookup_def resolve_def
  by (auto simp: quiescent_simps intro!: does_rules split: option.splits sum.splits if_splits)

lemma sync_siblings_affected:
  "reads (sync_siblings cl node pod acc) (\<lambda>(_, _, a). aAffected a = aAffected acc)"
  unfolding sync_siblings_def
  by (auto simp: Let_def intro!: does_rules does_bind [OF siblings_reads] split: option.splits)

text \<open>A request whose new form is the one already recorded for its pod.\<close>

definition recorded ::
    "client \<Rightarrow> parse_quantity \<Rightarrow> BandwidthConfig \<Rightarrow> string \<Rightarrow> (string, Pod) gomap \<Rightarrow> (string, BandwidthRequest) gomap \<Rightarrow>
     BandwidthRequest \<Rightarrow> bool" where
  "recorded cl pq cfg node pods existing req \<longleftrightarrow>
     (\<exists>p b ul dl. resolve cl pods req = Some (p, b) \<and> amounts pq cfg req p b = (ul, dl) \<and>
        map_of existing (reqPodUid req) = Some (requestFor p (all_local cl node p) ul dl))"

lemma unchanged_recorded:
  "unchanged cl pq cfg node pods r \<Longrightarrow> map_of existing (reqPodUid r) = Some r \<Longrightarrow> recorded cl pq cfg node pods existing r"
  unfolding unchanged_def recorded_def by metis

lemma sync_loop_recorded:
  assumes q: "quiescent cl" and K: "owners_consistent K" "known_pods cl pods K"
  shows "cache_ok cl node K acc \<Longrightarrow> \<forall>r \<in> set reqs. recorded cl pq cfg node pods existing r \<Longrightarrow>
    reads (sync_loop cl pq cfg node pods existing reqs acc) (\<lambda>a. aAffected a = aAffected acc)"
proof (induction reqs arbitrary: acc)
  case Nil
  then show ?case by (simp add: does_return)
next
  case (Cons req reqs)
  then obtain p b ul dl where r: "resolve cl pods req = Some (p, b)"
    and am: "amounts pq cfg req p b = (ul, dl)"
    and ex: "map_of existing (reqPodUid req) = Some (requestFor p (all_local cl node p) ul dl)"
    unfolding recorded_def by auto
  have p: "p \<in> K" using resolve_known [OF K(2) r] .
  have c: "cache_ok cl node K (sync_account node existing req p u d ns l a)"
    if "cache_ok cl node K a" for u d ns l a
    using that by (simp add: cache_ok_def sync_account_fields)
  have aff: "aAffected (sync_account node existing req p ul dl ns (all_local cl node p) a) = aAffected a"
    for ns a
    using ex by (simp add: sync_account_def charge_def Let_def)
  have IH: "reads (sync_loop cl pq cfg node pods existing reqs a) (\<lambda>a'. aAffected a' = aAffected a)"
    if "cache_ok cl node K a" for a
    using Cons that by simp
  note am' = am [unfolded amounts_def]
  show ?case
    by (auto simp: am' c aff
        intro!: does_bind [OF sync_lookup_found [OF q r]]
          does_bind [OF does_conj [OF sync_siblings_spec [OF q K(1) Cons.prems(1) p]
            sync_siblings_affected]] does_weaken [OF IH])
qed

section \<open>The steady state\<close>

lemma applyAccount_synced:
  assumes "acct_ok acc"
    and "aClean acc = map fst (kept cl pq cfg (specNode (bwSpec bw)) (podsWithBw cfg pods)
           (specRequests (bwSpec bw)))"
    and "aReservations acc = map snd (kept cl pq cfg (specNode (bwSpec bw)) (podsWithBw cfg pods)
           (specRequests (bwSpec bw)))"
  shows "applyAccount acc bw = synced_object cl pq cfg pods bw"
  using assms by (simp add: applyAccount_def synced_object_def acct_ok_def remaining_eq Let_def)

lemma cache_ok_empty [simp]: "cache_ok cl node K empty_sync_acc"
  by (simp add: cache_ok_def empty_sync_acc_def)

lemma sync_loop_synced:
  assumes "quiescent cl" "owners_consistent K" "known_pods cl (podsWithBw cfg pods) K"
  shows "reads (sync_loop cl pq cfg (specNode (bwSpec bw)) (podsWithBw cfg pods) existing
           (specRequests (bwSpec bw)) empty_sync_acc)
     (\<lambda>acc. applyAccount acc bw = synced_object cl pq cfg pods bw \<and> acct_ok acc \<and>
        aClean acc = map fst (kept cl pq cfg (specNode (bwSpec bw)) (podsWithBw cfg pods)
           (specRequests (bwSpec bw))) \<and>
        aReservations acc = map snd (kept cl pq cfg (specNode (bwSpec bw)) (podsWithBw cfg pods)
           (specRequests (bwSpec bw))))"
  by (rule does_weaken [OF does_conj [OF sync_loop_reads [OF acct_ok_empty(2)]
          sync_loop_spec [OF assms cache_ok_empty]]])
    (auto simp: empty_sync_acc_def intro: applyAccount_synced)

text \<open>Nothing is written when neither the spec nor the status changed and no node is affected.\<close>

lemma sync_write_nothing:
  assumes "\<not> specChanged bw existing (aClean acc)" "\<not> statusChanged bw acc" "aAffected acc = []"
    and "\<And>tr. clRange cl tr [] = []"
  shows "reads (sync_write cl pq cfg node existing acc bw) (\<lambda>r. r = (noRequeue, None))"
  using assms unfolding sync_write_def sync_commit_def sync_updateSpec_def
  by (auto simp: Let_def intro!: does_rules does_bind [OF fetch_all_reads])

lemma setDefault_idem [simp]:
  "setDefaultBandwidthValues cfg (setDefaultBandwidthValues cfg bw) = setDefaultBandwidthValues cfg bw"
  by (simp add: setDefaultBandwidthValues_def Let_def)

lemma setDefault_synced:
  "setDefaultBandwidthValues cfg bw = bw \<Longrightarrow>
     setDefaultBandwidthValues cfg (synced_object cl pq cfg pods bw) = synced_object cl pq cfg pods bw"
  by (cases bw; cases "bwSpec bw")
    (auto simp: setDefaultBandwidthValues_def synced_object_def Let_def)

lemma synced_object_fields [simp]:
  "bwName (synced_object cl pq cfg pods bw) = bwName bw"
  "specNode (bwSpec (synced_object cl pq cfg pods bw)) = specNode (bwSpec bw)"
  "specCapacity (bwSpec (synced_object cl pq cfg pods bw)) = specCapacity (bwSpec bw)"
  "specRequests (bwSpec (synced_object cl pq cfg pods bw)) =
     map fst (kept cl pq cfg (specNode (bwSpec bw)) (podsWithBw cfg pods) (specRequests (bwSpec bw)))"
  by (simp_all add: synced_object_def Let_def)

lemma synced_object_idem:
  assumes "pods_by_name cl"
  shows "synced_object cl pq cfg pods (synced_object cl pq cfg pods bw) = synced_object cl pq cfg pods bw"
  by (simp add: synced_object_def [of cl pq cfg pods "synced_object cl pq cfg pods bw"]
      kept_fixpoint [OF keyed_podsWithBw assms])
    (simp add: synced_object_def Let_def comp_def)

lemma applyAccount_fields:
  "stUsed (bwStatus (applyAccount acc b)) = usedCapacity acc"
  "stRemaining (bwStatus (applyAccount acc b)) = remainingCapacity (specCapacity (bwSpec b)) acc"
  "stReservations (bwStatus (applyAccount acc b)) = aReservations acc"
  "stCapacity (bwStatus (applyAccount acc b)) = specCapacity (bwSpec b)"
  "stStatus (bwStatus (applyAccount acc b)) = StCreated"
  "stErrorReason (bwStatus (applyAccount acc b)) = []"
  "specRequests (bwSpec (applyAccount acc b)) = aClean acc"
  by (simp_all add: applyAccount_def)

lemma applyAccount_fixed:
  assumes "applyAccount acc b = b"
  shows "\<not> statusChanged b acc" and "specRequests (bwSpec b) = aClean acc"
    and "stCapacity (bwStatus b) = specCapacity (bwSpec b)"
proof -
  have "stUsed (bwStatus b) = usedCapacity acc \<and>
      stRemaining (bwStatus b) = remainingCapacity (specCapacity (bwSpec b)) acc \<and>
      stReservations (bwStatus b) = aReservations acc \<and>
      stCapacity (bwStatus b) = specCapacity (bwSpec b) \<and>
      stStatus (bwStatus b) = StCreated \<and> stErrorReason (bwStatus b) = [] \<and>
      specRequests (bwSpec b) = aClean acc"
    using applyAccount_fields [of acc b] unfolding assms by simp
  then show "\<not> statusChanged b acc" "specRequests (bwSpec b) = aClean acc"
    "stCapacity (bwStatus b) = specCapacity (bwSpec b)"
    by (simp_all add: statusChanged_def)
qed

lemma sync_steady:
  assumes q: "quiescent cl" and K: "owners_consistent K" "known_pods cl (podsWithBw cfg pods) K"
    and n: "pods_by_name cl" and rng: "\<And>tr. clRange cl tr [] = []"
    and node: "clGetNode cl [] (specNode (bwSpec bw)) = Inr nd" "EqualFold (bwName bw) (nodeName nd)"
    and pods: "clListPodsOnNode cl [] (specNode (bwSpec bw)) = Inr pods"
    and dflt: "setDefaultBandwidthValues cfg bw = bw"
    and dist: "distinct (map reqPodUid (specRequests (bwSpec bw)))"
  shows "reads (SyncFromSpecAndPods cl pq cfg (synced_object cl pq cfg pods bw))
           (\<lambda>r. r = (noRequeue, None))"
proof -
  let ?b = "synced_object cl pq cfg pods bw"
  let ?node = "specNode (bwSpec bw)" and ?m = "podsWithBw cfg pods"
  let ?k = "kept cl pq cfg ?node ?m (specRequests (bwSpec bw))"
  let ?ex = "existingRequests (map fst ?k)"
  have d: "distinct (map reqPodUid (map fst ?k))"
    using distinct_subseq [OF kept_uids [OF keyed_podsWithBw] dist] by simp
  have rec: "\<forall>r \<in> set (map fst ?k). recorded cl pq cfg ?node ?m ?ex r"
    using kept_unchanged [OF keyed_podsWithBw n] map_of_existing [OF d] unchanged_recorded by blast
  have loop: "reads (sync_loop cl pq cfg ?node ?m ?ex (map fst ?k) empty_sync_acc)
      (\<lambda>acc. applyAccount acc ?b = ?b \<and> aAffected acc = [])"
  proof (rule does_conj)
    show "reads (sync_loop cl pq cfg ?node ?m ?ex (map fst ?k) empty_sync_acc)
        (\<lambda>acc. applyAccount acc ?b = ?b)"
      using sync_loop_synced [OF q K, of pq ?b ?ex]
      by (auto simp: synced_object_idem [OF n] elim: does_weaken)
    show "reads (sync_loop cl pq cfg ?node ?m ?ex (map fst ?k) empty_sync_acc)
        (\<lambda>acc. aAffected acc = [])"
      using sync_loop_recorded [OF q K cache_ok_empty rec] by (simp add: empty_sync_acc_def)
  qed
  have quiet: "reads (sync_write cl pq cfg ?node ?ex acc ?b) (\<lambda>r. r = (noRequeue, None))"
    if "applyAccount acc ?b = ?b" "aAffected acc = []" for acc
  proof -
    have clean: "aClean acc = map fst ?k" using applyAccount_fixed(2) [OF that(1)] by simp
    then have "\<not> specChanged ?b ?ex (aClean acc)"
      using applyAccount_fixed(3) [OF that(1)] map_of_existing [OF d]
      by (auto simp: specChanged_def list_ex_iff)
    then show ?thesis
      using applyAccount_fixed(1) [OF that(1)] that(2) rng by (rule sync_write_nothing)
  qed
  show ?thesis
    unfolding SyncFromSpecAndPods_def
    using node pods
    by (auto simp: Let_def quiescent_simps [OF q] setDefault_synced [OF dflt]
        intro!: does_rules does_bind [OF loop] quiet split: sum.splits)
qed

end
