(* ===== verification/Operator_Effects.thy ===== *)
theory Operator_Effects
  imports Operator_Invariants
begin

text \<open>
  Which objects a synchronisation writes, and in which order: first its own, and only when that has succeeded those of the
  nodes it notifies. The status that \<open>syncSingleNodeBandwidth\<close> writes for such a node is the one the server returned.
\<close>

section \<open>Own and related objects\<close>

text \<open>The documented behaviour of the API server: an object is read under its name, and an update does not change the name.\<close>

definition names_kept :: "client \<Rightarrow> bool" where
  "names_kept cl \<longleftrightarrow>
     (\<forall>tr n b. clGetBandwidth cl tr n = Inr b \<longrightarrow> bwName b = n) \<and>
     (\<forall>tr b b'. clUpdate cl tr b = Inr b' \<longrightarrow> bwName b' = bwName b)"

fun own_write :: "Bandwidth \<Rightarrow> Capacity \<Rightarrow> api_call \<Rightarrow> bool" where
  "own_write bw cap (CUpdate b) = (bwName b = bwName bw \<and> ledger_ok b)"
| "own_write bw cap (CUpdateStatus b) =
     (bwName b = bwName bw \<and> (stStatus (bwStatus b) = StError \<or> accounted cap (bwStatus b)))"
| "own_write bw cap (CDelete b) = (b = bw)"
| "own_write bw cap (CCreate _) = False"
| "own_write bw cap (CUpdatePod _) = False"
| "own_write bw cap _ = True"

fun other_write :: "string \<Rightarrow> api_call \<Rightarrow> bool" where
  "other_write node (CUpdate b) = (\<not> EqualFold (bwName b) node \<and> ledger_ok b)"
| "other_write node (CUpdateStatus b) = (\<not> EqualFold (bwName b) node)"
| "other_write node (CDelete b) = (\<not> EqualFold (bwName b) node)"
| "other_write node (CCreate _) = False"
| "other_write node (CUpdatePod _) = False"
| "other_write node _ = True"

lemma own_write_read: "\<not> is_write e \<Longrightarrow> own_write bw cap e"
  by (cases e) auto

lemma other_write_read: "\<not> is_write e \<Longrightarrow> other_write node e"
  by (cases e) auto

lemmas does_other_read = does_mono [OF _ other_write_read]

section \<open>Notification\<close>

definition related_ok :: "string \<Rightarrow> (string, Bandwidth) gomap \<Rightarrow> bool" where
  "related_ok node m \<longleftrightarrow> (\<forall>n b. map_of m n = Some b \<longrightarrow> \<not> EqualFold (bwName b) node)"

lemma fetch_related_ok:
  "names_kept cl \<Longrightarrow> related_ok node m \<Longrightarrow> reads (fetch_related cl node ns m) (related_ok node)"
  by (induction ns arbitrary: m) (auto simp: related_ok_def names_kept_def intro!: does_rules split: sum.splits)

lemma fetch_all_ok:
  "names_kept cl \<Longrightarrow> related_ok node m \<Longrightarrow> reads (fetch_all cl node nss m) (related_ok node)"
  by (induction nss arbitrary: m) (auto intro!: does_rules does_bind [OF fetch_related_ok])

lemma applyAccount_name [simp]: "bwName (applyAccount acc bw) = bwName bw"
  by (simp add: applyAccount_def)

lemma setDefault_fields [simp]:
  "bwName (setDefaultBandwidthValues cfg bw) = bwName bw"
  "specNode (bwSpec (setDefaultBandwidthValues cfg bw)) = specNode (bwSpec bw)"
  "specRequests (bwSpec (setDefaultBandwidthValues cfg bw)) = specRequests (bwSpec bw)"
  "bwStatus (setDefaultBandwidthValues cfg bw) = bwStatus bw"
  by (simp_all add: setDefaultBandwidthValues_def Let_def)

lemma single_commit_other:
  assumes "names_kept cl" "acct_ok acc" "\<not> EqualFold (bwName bw) node"
  shows "does (other_write node) (single_commit cl acc bw) (\<lambda>_. True)"
  unfolding single_commit_def using assms
  by (auto simp: Let_def ledger_ok_apply names_kept_def intro!: does_rules does_bind_status split: sum.splits)

lemma syncSingle_other:
  assumes "names_kept cl" "\<not> EqualFold (bwName bw) node"
  shows "does (other_write node) (syncSingleNodeBandwidth cl pq cfg bw) (\<lambda>_. True)"
  unfolding syncSingleNodeBandwidth_def using assms
  by (auto simp: Let_def intro!: does_rules single_commit_other
      does_bind [OF does_other_read [OF single_loop_reads]] split: sum.splits)

lemma notify_other:
  "names_kept cl \<Longrightarrow> related_ok node related \<Longrightarrow> does (other_write node) (notify_nodes cl pq cfg related ns) (\<lambda>_. True)"
  by (induction ns) (auto simp: related_ok_def intro!: does_rules does_bind [OF syncSingle_other] split: option.splits)

section \<open>The two parts of a synchronisation\<close>

text \<open>What the first part does (\<open>P\<close>) is left open: it follows from what the loop establishes (\<open>A\<close>) and the writes of the commit.\<close>

lemma sync_write_then:
  assumes "names_kept cl" and P: "\<And>e. \<not> is_write e \<Longrightarrow> P e"
    and commit: "\<And>sc stc. does P (sync_commit cl sc stc acc bw) (\<lambda>_. True)"
  shows "does_then P (other_write node) (sync_write cl pq cfg node existing acc bw) (\<lambda>r. r = (noRequeue, None))"
proof -
  have fetch: "does P (fetch_all cl node nss []) (related_ok node)" for nss
    by (rule does_mono [OF fetch_all_ok [OF assms(1)] P]) (auto simp: related_ok_def)
  have notify: "does_then P (other_write node)
      (State_Monad.bind (notify_nodes cl pq cfg related ns) (\<lambda>_. ret (noRequeue, None))) (\<lambda>r. r = (noRequeue, None))"
    if "related_ok node related" for related ns
    by (intro does_then_last does_bind [OF notify_other [OF assms(1) that]] does_return refl)
  show ?thesis
    unfolding sync_write_def
    by (intro does_then_bind_get does_then_bind [OF fetch] does_then_bind [OF commit])
      (auto intro!: does_then_return does_then_bind_get notify split: option.split)
qed

lemma Sync_then:
  assumes "names_kept cl" and P: "\<And>e. \<not> is_write e \<Longrightarrow> P e" "P (CDelete bw)"
    and err: "\<And>reason b. bwName b = bwName bw \<Longrightarrow> does P (reportError cl reason b) (\<lambda>_. True)"
    and loop: "\<And>tr ps. clListPodsOnNode cl tr (specNode (bwSpec bw)) = Inr ps \<Longrightarrow>
      reads (sync_loop cl pq cfg (specNode (bwSpec bw)) (podsWithBw cfg ps) (existingRequests (specRequests (bwSpec bw)))
        (specRequests (bwSpec bw)) empty_sync_acc) A"
    and commit: "\<And>acc sc stc. A acc \<Longrightarrow> does P (sync_commit cl sc stc acc (setDefaultBandwidthValues cfg bw)) (\<lambda>_. True)"
  shows "does_then P (other_write (specNode (bwSpec bw))) (SyncFromSpecAndPods cl pq cfg bw) (\<lambda>r. r = (noRequeue, None))"
proof -
  let ?node = "specNode (bwSpec bw)"
  have fail: "does_then P Q (State_Monad.bind (reportError cl reason b) (\<lambda>_. ret x)) R"
    if "bwName b = bwName bw" for reason b Q R and x :: "Result \<times> api_error option"
    by (intro does_then_bind [OF err [OF that]] does_then_return)
  have gone: "does_then P Q (State_Monad.bind (deleteBandwidth cl bw) (\<lambda>_. ret x)) R"
    for Q R and x :: "Result \<times> api_error option"
    by (intro does_then_bind_call P(2) does_then_return)
  have run: "does_then P (other_write ?node)
      (State_Monad.bind (sync_loop cl pq cfg ?node (podsWithBw cfg ps) (existingRequests (specRequests (bwSpec bw)))
        (specRequests (bwSpec bw)) empty_sync_acc)
        (\<lambda>acc. sync_write cl pq cfg ?node (existingRequests (specRequests (bwSpec bw))) acc (setDefaultBandwidthValues cfg bw)))
      (\<lambda>r. r = (noRequeue, None))" if "clListPodsOnNode cl tr ?node = Inr ps" for tr ps
    by (rule does_then_bind [OF does_mono [OF loop [OF that] P(1)]]) (auto intro: sync_write_then [OF assms(1) P(1) commit])
  show ?thesis
    unfolding SyncFromSpecAndPods_def
    by (auto simp: Let_def P(1) intro!: does_then_bind_call fail gone run split: sum.splits)
qed

section \<open>The own part\<close>

lemma reapply_accounted:
  "acct_ok acc \<Longrightarrow> accounted cap (bwStatus (reapplyStatus (remainingCapacity cap acc) acc bw))"
  by (simp add: accounted_def reapplyStatus_def acct_ok_def remaining_eq)

lemma apply_accounted:
  "acct_ok acc \<Longrightarrow> accounted (specCapacity (bwSpec bw)) (bwStatus (applyAccount acc bw))"
  using ledger_ok_apply [of acc bw] by (simp add: ledger_ok_def applyAccount_def)

lemma accounted_updatedAt [simp]: "accounted cap (st\<lparr>stUpdatedAt := t\<rparr>) = accounted cap st"
  by (simp add: accounted_def)

lemma sync_commit_own:
  assumes "names_kept cl" "acct_ok acc" "bwName bw = bwName bw0"
  shows "does (own_write bw0 (specCapacity (bwSpec bw))) (sync_commit cl sc stc acc bw) (\<lambda>_. True)"
proof -
  let ?cap = "specCapacity (bwSpec bw)"
  have name: "bwName (reapplyStatus r acc b) = bwName b" for r b by (simp add: reapplyStatus_def)
  have spec: "does (own_write bw0 ?cap)
      (sync_updateSpec cl sc (remainingCapacity ?cap acc) acc (applyAccount acc bw))
      (\<lambda>r. \<forall>b. r = Inr b \<longrightarrow> bwName b = bwName bw0 \<and> accounted ?cap (bwStatus b))"
    unfolding sync_updateSpec_def using assms
    by (auto simp: ledger_ok_apply reapply_accounted apply_accounted name names_kept_def intro!: does_rules
        split: sum.splits)
  show ?thesis
    unfolding sync_commit_def
    by (auto intro!: does_rules does_bind [OF spec] does_bind_status split: sum.splits)
qed

lemma podsWithBw_subset: "map_of (podsWithBw cfg pods) u = Some p \<Longrightarrow> p \<in> set pods"
proof -
  have "map_of (fold (podsWithBw_step cfg) pods m) u = Some p \<Longrightarrow>
      p \<in> set pods \<or> map_of m u = Some p" for m
  proof (induction pods arbitrary: m)
    case (Cons a pods)
    from Cons.IH [of "podsWithBw_step cfg a m"] Cons.prems show ?case
      by (auto simp: podsWithBw_step_def split: if_splits)
  qed simp
  from this [of "[]"] show "map_of (podsWithBw cfg pods) u = Some p \<Longrightarrow> p \<in> set pods"
    by (simp add: podsWithBw_def)
qed

lemma podsWithBw_live:
  assumes "map_of (podsWithBw cfg pods) u = Some p"
  shows "p \<in> set pods \<and> podDeletionTimestamp p = None \<and> podPhase p \<noteq> PodSucceeded \<and>
    podPhase p \<noteq> PodFailed \<and> hasBandwidthAnnotation cfg p"
proof -
  let ?live = "\<lambda>p. podDeletionTimestamp p = None \<and> podPhase p \<noteq> PodSucceeded \<and>
    podPhase p \<noteq> PodFailed \<and> hasBandwidthAnnotation cfg p"
  have "(\<And>u p. map_of m u = Some p \<Longrightarrow> ?live p) \<Longrightarrow>
      map_of (fold (podsWithBw_step cfg) pods m) u = Some p \<Longrightarrow> ?live p" for m
  proof (induction pods arbitrary: m)
    case (Cons a pods)
    have "map_of (podsWithBw_step cfg a m) u = Some p \<Longrightarrow> ?live p" for u p
      using Cons.prems(1) by (auto simp: podsWithBw_step_def split: if_splits)
    then show ?case using Cons.IH [of "podsWithBw_step cfg a m"] Cons.prems(2) by simp
  qed simp
  from this [of "[]"] show ?thesis
    using assms podsWithBw_subset [OF assms] by (simp add: podsWithBw_def)
qed

lemma reportError_own: "bwName b = bwName bw \<Longrightarrow> does (own_write bw cap) (reportError cl reason b) (\<lambda>_. True)"
  unfolding reportError_def by (auto intro!: does_rules does_bind_status)

lemma Sync_own:
  assumes "names_kept cl"
  shows "does_then (own_write bw (specCapacity (bwSpec (setDefaultBandwidthValues cfg bw)))) (other_write (specNode (bwSpec bw)))
     (SyncFromSpecAndPods cl pq cfg bw) (\<lambda>r. r = (noRequeue, None))"
  by (rule Sync_then [OF assms own_write_read _ reportError_own sync_loop_reads [OF acct_ok_empty(2)] sync_commit_own [OF assms]])
    simp_all

section \<open>The status of a related node\<close>

text \<open>
  The documented behaviour of \<^verbatim>\<open>Update\<close> on a resource with a status subresource: the object is
  filled with the server's answer, whose status is the stored one.
\<close>

definition status_subresource :: "client \<Rightarrow> BandwidthStatus \<Rightarrow> bool" where
  "status_subresource cl stored \<longleftrightarrow> (\<forall>tr b b'. clUpdate cl tr b = Inr b' \<longrightarrow> bwStatus b' = stored)"

fun stale_status :: "BandwidthStatus \<Rightarrow> api_call \<Rightarrow> bool" where
  "stale_status stored (CUpdateStatus b) = (bwStatus b = stored)"
| "stale_status stored _ = True"

lemma stale_status_read: "\<not> is_write e \<Longrightarrow> stale_status stored e"
  by (cases e) auto

lemma syncSingle_stale:
  assumes "status_subresource cl stored"
  shows "does (stale_status stored) (syncSingleNodeBandwidth cl pq cfg bw) (\<lambda>_. True)"
  unfolding syncSingleNodeBandwidth_def single_commit_def
  using assms
  by (auto simp: Let_def status_subresource_def intro!: does_rules does_bind_status
      does_bind [OF does_mono [OF single_loop_reads [OF acct_ok_empty(1)] stale_status_read]]
      split: sum.splits)

end
