(* ===== verification/Operator_Writes.thy ===== *)
theory Operator_Writes
  imports Operator_Refinement Operator_Effects
begin

text \<open>
  What a synchronisation writes to its own object, on a cluster that does not change meanwhile: exactly the requests that are
  still needed; and when it writes at all (\<open>differs\<close>).
\<close>

section \<open>Requests that are still needed\<close>

text \<open>The pod of the request is on the node, annotated, not being deleted and not finished, or it is pending.\<close>

definition still_needed :: "client \<Rightarrow> BandwidthConfig \<Rightarrow> Pod list \<Rightarrow> BandwidthRequest \<Rightarrow> bool" where
  "still_needed cl cfg pods req \<longleftrightarrow>
     (\<exists>p \<in> set pods. podUID p = reqPodUid req \<and> podDeletionTimestamp p = None \<and>
        podPhase p \<noteq> PodSucceeded \<and> podPhase p \<noteq> PodFailed \<and> hasBandwidthAnnotation cfg p) \<or>
     (\<exists>p. clGetPod cl [] (reqPodName req) (reqNamespace req) = Inr p \<and> podUID p = reqPodUid req \<and> podPhase p = PodPending)"

lemma podsWithBw_complete:
  assumes "p \<in> set pods" "podDeletionTimestamp p = None" "podPhase p \<noteq> PodSucceeded" "podPhase p \<noteq> PodFailed"
    "hasBandwidthAnnotation cfg p"
  shows "map_of (podsWithBw cfg pods) (podUID p) \<noteq> None"
proof -
  have keep: "map_of m u \<noteq> None \<Longrightarrow> map_of (fold (podsWithBw_step cfg) ps m) u \<noteq> None" for m u ps
    by (induction ps arbitrary: m) (auto simp: podsWithBw_step_def)
  have "map_of (fold (podsWithBw_step cfg) pods m) (podUID p) \<noteq> None" for m
    using assms
  proof (induction pods arbitrary: m)
    case (Cons q pods)
    show ?case
    proof (cases "p = q")
      case True
      then have "map_of (podsWithBw_step cfg q m) (podUID p) \<noteq> None" using assms(2-) by (simp add: podsWithBw_step_def)
      from keep [OF this] show ?thesis by simp
    next
      case False
      with Cons show ?thesis by simp
    qed
  qed simp
  then show ?thesis by (simp add: podsWithBw_def)
qed

lemma resolve_needed: "resolve cl (podsWithBw cfg pods) req \<noteq> None \<longleftrightarrow> still_needed cl cfg pods req"
proof (cases "map_of (podsWithBw cfg pods) (reqPodUid req)")
  case None
  then have "\<not> (\<exists>p \<in> set pods. podUID p = reqPodUid req \<and> podDeletionTimestamp p = None \<and>
      podPhase p \<noteq> PodSucceeded \<and> podPhase p \<noteq> PodFailed \<and> hasBandwidthAnnotation cfg p)"
    using podsWithBw_complete by metis
  with None show ?thesis by (auto simp: resolve_def still_needed_def split: sum.splits)
next
  case (Some p)
  then show ?thesis
    using podsWithBw_live [OF Some] keyed_podsWithBw [of cfg pods] unfolding still_needed_def keyed_by_uid_def
    by (auto simp: resolve_def)
qed

lemma kept_uids_needed:
  fixes cl pq cfg node pods reqs
  defines "k \<equiv> kept cl pq cfg node (podsWithBw cfg pods) reqs"
  shows "reqPodUid ` set (map fst k) = reqPodUid ` {req \<in> set reqs. still_needed cl cfg pods req}"
    and "resPodUid ` set (map snd k) = reqPodUid ` {req \<in> set reqs. still_needed cl cfg pods req}"
proof -
  have "reqPodUid ` set (map fst (kept cl pq cfg node (podsWithBw cfg pods) reqs)) = reqPodUid ` {req \<in> set reqs. still_needed cl cfg pods req} \<and>
    resPodUid ` set (map snd (kept cl pq cfg node (podsWithBw cfg pods) reqs)) = reqPodUid ` {req \<in> set reqs. still_needed cl cfg pods req}"
  proof (induction reqs)
    case (Cons req reqs)
    have split: "{r \<in> set (req # reqs). still_needed cl cfg pods r} =
        (if still_needed cl cfg pods req then insert req else id) {r \<in> set reqs. still_needed cl cfg pods r}" by auto
    show ?case
    proof (cases "resolve cl (podsWithBw cfg pods) req")
      case None
      then have "\<not> still_needed cl cfg pods req" using resolve_needed [of cl cfg pods req] by simp
      with None Cons show ?thesis unfolding split by simp
    next
      case (Some pb)
      obtain p b where pb: "pb = (p, b)" by (cases pb)
      have "podUID p = reqPodUid req" using resolve_uid [OF keyed_podsWithBw] Some pb by blast
      moreover have "still_needed cl cfg pods req" using resolve_needed [of cl cfg pods req] Some by simp
      ultimately show ?thesis
        using Some pb Cons unfolding split by (simp add: Let_def split_beta requestFor_def reservationFor_def)
    qed
  qed simp
  then show "reqPodUid ` set (map fst k) = reqPodUid ` {req \<in> set reqs. still_needed cl cfg pods req}"
    "resPodUid ` set (map snd k) = reqPodUid ` {req \<in> set reqs. still_needed cl cfg pods req}"
    unfolding k_def by blast+
qed

lemma kept_length:
  "length (kept cl pq cfg node pods reqs) \<le> length reqs \<and>
   (length (kept cl pq cfg node pods reqs) = length reqs \<longrightarrow> (\<forall>req \<in> set reqs. resolve cl pods req \<noteq> None))"
  by (induction reqs) (auto simp: Let_def split_beta split: option.split)

lemma kept_member:
  assumes "r \<in> set reqs" "resolve cl pods r = Some (p, b)" "amounts pq cfg r p b = (ul, dl)"
  shows "(requestFor p (all_local cl node p) ul dl,
      reservationFor p ul dl (if all_local cl node p then 0 else ul) (if all_local cl node p then 0 else dl))
    \<in> set (kept cl pq cfg node pods reqs)"
  using assms
proof (induction reqs)
  case (Cons a reqs)
  have sub: "set (kept cl pq cfg node pods reqs) \<subseteq> set (kept cl pq cfg node pods (a # reqs))"
    by (auto simp: Let_def split_beta split: option.split)
  show ?case
  proof (cases "a = r")
    case True
    with Cons.prems(2,3) show ?thesis by (simp add: Let_def)
  next
    case False
    with Cons sub show ?thesis by auto
  qed
qed simp

section \<open>What is written\<close>

fun carries :: "(BandwidthRequest \<times> ReservationInfo) list \<Rightarrow> api_call \<Rightarrow> bool" where
  "carries k (CUpdate b) = (specRequests (bwSpec b) = map fst k)"
| "carries k (CUpdateStatus b) = (stStatus (bwStatus b) = StError \<or> stReservations (bwStatus b) = map snd k)"
| "carries k _ = True"

lemma carries_read: "\<not> is_write e \<Longrightarrow> carries k e"
  by (cases e) auto

lemma sync_commit_carries:
  assumes "aClean acc = map fst k" "aReservations acc = map snd k"
  shows "does (carries k) (sync_commit cl sc stc acc bw) (\<lambda>_. True)"
proof -
  have spec: "does (carries k) (sync_updateSpec cl sc r acc (applyAccount acc bw))
      (\<lambda>r. \<forall>b. r = Inr b \<longrightarrow> stReservations (bwStatus b) = map snd k)" for r
    unfolding sync_updateSpec_def using assms
    by (auto simp: applyAccount_fields reapplyStatus_def intro!: does_rules split: sum.splits)
  show ?thesis
    unfolding sync_commit_def by (auto intro!: does_rules does_bind [OF spec] does_bind_status split: sum.splits)
qed

lemma Sync_carries:
  assumes "quiescent cl" "owners_consistent K" "known_pods cl (podsWithBw cfg pods) K" "names_kept cl"
    and "clListPodsOnNode cl [] (specNode (bwSpec bw)) = Inr pods"
  shows "does_then (carries (kept cl pq cfg (specNode (bwSpec bw)) (podsWithBw cfg pods) (specRequests (bwSpec bw))))
     (other_write (specNode (bwSpec bw))) (SyncFromSpecAndPods cl pq cfg bw) (\<lambda>r. r = (noRequeue, None))"
proof (rule Sync_then [OF assms(4) carries_read])
  let ?k = "kept cl pq cfg (specNode (bwSpec bw)) (podsWithBw cfg pods) (specRequests (bwSpec bw))"
  show "does (carries ?k) (reportError cl reason b) (\<lambda>_. True)" for reason b
    unfolding reportError_def by (auto intro!: does_rules does_bind_status)
  show "reads (sync_loop cl pq cfg (specNode (bwSpec bw)) (podsWithBw cfg ps) (existingRequests (specRequests (bwSpec bw)))
      (specRequests (bwSpec bw)) empty_sync_acc) (\<lambda>acc. aClean acc = map fst ?k \<and> aReservations acc = map snd ?k)"
    if "clListPodsOnNode cl tr (specNode (bwSpec bw)) = Inr ps" for tr ps
  proof -
    have "ps = pods" using that assms(1,5) unfolding quiescent_def by (metis sum.inject(2))
    then show ?thesis using does_weaken [OF sync_loop_synced [OF assms(1-3), of pq bw]] by simp
  qed
qed (auto intro: sync_commit_carries)

section \<open>When something is written\<close>

lemma commit_emits_spec:
  "emits (\<lambda>e. \<exists>b. e = CUpdate b \<and> bwName b = bwName bw) (sync_commit cl True stc acc bw)"
  unfolding sync_commit_def sync_updateSpec_def if_True
  by (rule emits_first [OF emits_first [OF emits_call]]) (auto intro!: does_rules does_bind_status split: sum.splits)

lemma emits_status: "(\<And>r. does (\<lambda>_. True) (f r) (\<lambda>_. True)) \<Longrightarrow> emits is_write (State_Monad.bind (UpdateBandwidthStatus cl b) f)"
  unfolding UpdateBandwidthStatus_def by (rule emits_first [OF emits_call]) simp_all

lemma commit_emits_status: "emits is_write (sync_commit cl False True acc bw)"
  unfolding sync_commit_def sync_updateSpec_def
  by (auto intro!: emits_bind_call emits_status does_rules split: sum.splits)

lemma sync_write_emits:
  assumes "emits P (sync_commit cl (specChanged bw existing (aClean acc)) (statusChanged bw acc) acc bw)"
  shows "emits P (sync_write cl pq cfg node existing acc bw)"
proof -
  have rest: "does update_ok (case e of Some err \<Rightarrow> ret (noRequeue, Some err)
      | None \<Rightarrow> do { tr \<leftarrow> State_Monad.get; notify_nodes cl pq cfg related (clRange cl tr (map fst (aAffected acc))); ret (noRequeue, None) })
      (\<lambda>_. True)" for e :: "api_error option" and related
    by (auto intro!: does_rules does_bind [OF notify_updates] split: option.splits)
  show ?thesis
    unfolding sync_write_def
    by (intro emits_bind_get emits_bind [OF fetch_all_reads] emits_first [OF assms does_any [OF rest]])
qed

text \<open>The object differs from what the synchronisation computes, in a field that is compared.\<close>

definition differs :: "Bandwidth \<Rightarrow> Bandwidth \<Rightarrow> bool" where
  "differs bw s \<longleftrightarrow>
     specChanged bw (existingRequests (specRequests (bwSpec bw))) (specRequests (bwSpec s)) \<or>
     stUsed (bwStatus bw) \<noteq> stUsed (bwStatus s) \<or> stRemaining (bwStatus bw) \<noteq> stRemaining (bwStatus s) \<or>
     stCapacity (bwStatus bw) \<noteq> specCapacity (bwSpec bw) \<or> stStatus (bwStatus bw) \<noteq> StCreated \<or>
     stErrorReason (bwStatus bw) \<noteq> '''' \<or> length (stReservations (bwStatus bw)) \<noteq> length (stReservations (bwStatus s))"

lemma differs_account:
  assumes "applyAccount acc bw = s"
  shows "differs bw s \<longleftrightarrow> specChanged bw (existingRequests (specRequests (bwSpec bw))) (aClean acc) \<or> statusChanged bw acc"
  using assms applyAccount_fields [of acc bw] by (auto simp: differs_def statusChanged_def)

lemma loop_synced:
  assumes "quiescent cl" "owners_consistent K" "known_pods cl (podsWithBw cfg pods) K"
  shows "reads (sync_loop cl pq cfg (specNode (bwSpec bw)) (podsWithBw cfg pods) existing (specRequests (bwSpec bw)) empty_sync_acc)
    (\<lambda>acc. applyAccount acc (setDefaultBandwidthValues cfg bw) = synced_object cl pq cfg pods (setDefaultBandwidthValues cfg bw))"
  using does_weaken [OF sync_loop_synced [OF assms, of pq "setDefaultBandwidthValues cfg bw" existing]] by simp

text \<open>On a cluster that does not change, for a node that exists and has the object's name.\<close>

lemma Sync_emits:
  assumes q: "quiescent cl" and K: "owners_consistent K" "known_pods cl (podsWithBw cfg pods) K"
    and node: "clGetNode cl [] (specNode (bwSpec bw)) = Inr nd" "EqualFold (bwName bw) (nodeName nd)"
    and pods: "clListPodsOnNode cl [] (specNode (bwSpec bw)) = Inr pods"
    and commit: "\<And>acc. applyAccount acc (setDefaultBandwidthValues cfg bw) = synced_object cl pq cfg pods (setDefaultBandwidthValues cfg bw) \<Longrightarrow>
      emits P (sync_commit cl
        (specChanged (setDefaultBandwidthValues cfg bw) (existingRequests (specRequests (bwSpec bw))) (aClean acc))
        (statusChanged (setDefaultBandwidthValues cfg bw) acc) acc (setDefaultBandwidthValues cfg bw))"
  shows "emits P (SyncFromSpecAndPods cl pq cfg bw)"
proof -
  let ?b = "setDefaultBandwidthValues cfg bw"
  have run: "emits P (State_Monad.bind (sync_loop cl pq cfg (specNode (bwSpec bw)) (podsWithBw cfg pods)
      (existingRequests (specRequests (bwSpec bw))) (specRequests (bwSpec bw)) empty_sync_acc)
      (\<lambda>acc. sync_write cl pq cfg (specNode (bwSpec bw)) (existingRequests (specRequests (bwSpec bw))) acc ?b))"
    using commit by (intro emits_bind [OF loop_synced [OF q K]] sync_write_emits) simp
  have list: "clListPodsOnNode cl tr (specNode (bwSpec bw)) = Inr pods" "clGetNode cl tr (specNode (bwSpec bw)) = Inr nd" for tr
    using q node(1) pods unfolding quiescent_def by metis+
  show ?thesis
    unfolding SyncFromSpecAndPods_def
    by (auto simp: Let_def node(2) list intro!: emits_bind_call run)
qed

lemma emits_run: "emits P m \<Longrightarrow> \<exists>e \<in> set (snd (run_state m [])). P e"
  unfolding emits_def by (metis append_Nil)

lemma idle_no_write: "writes (snd (run_state m [])) = [] \<Longrightarrow> \<not> emits is_write m"
  by (auto simp: writes_def filter_empty_conv dest: emits_run)

text \<open>A synchronisation that writes nothing found the node, and the object as it computes it.\<close>

lemma idle_found:
  assumes q: "quiescent cl" and idle: "writes (snd (run_state (SyncFromSpecAndPods cl pq cfg bw) [])) = []"
  obtains nd where "clGetNode cl [] (specNode (bwSpec bw)) = Inr nd" "EqualFold (bwName bw) (nodeName nd)"
proof -
  have err: "emits is_write (State_Monad.bind (reportError cl reason b) (\<lambda>_. ret x))"
    for reason b and x :: "Result \<times> api_error option"
    unfolding reportError_def
    by (intro emits_first emits_bind_call emits_status does_return TrueI)
  have gone: "emits is_write (State_Monad.bind (deleteBandwidth cl bw) (\<lambda>_. ret x))" for x :: "Result \<times> api_error option"
    by (intro emits_first emits_call does_return TrueI) simp
  have "\<exists>nd. clGetNode cl [] (specNode (bwSpec bw)) = Inr nd \<and> EqualFold (bwName bw) (nodeName nd)"
  proof (rule ccontr)
    assume no: "\<not> ?thesis"
    have get: "clGetNode cl tr (specNode (bwSpec bw)) = clGetNode cl [] (specNode (bwSpec bw))" for tr
      using q unfolding quiescent_def by metis
    have "emits is_write (SyncFromSpecAndPods cl pq cfg bw)"
    proof (cases "clGetNode cl [] (specNode (bwSpec bw))")
      case (Inl e)
      then have "clGetNode cl tr (specNode (bwSpec bw)) = Inl e" for tr using get [of tr] by simp
      then show ?thesis unfolding SyncFromSpecAndPods_def Let_def by (auto intro!: emits_bind_call err gone)
    next
      case (Inr nd)
      then have "clGetNode cl tr (specNode (bwSpec bw)) = Inr nd" "\<not> EqualFold (bwName bw) (nodeName nd)" for tr
        using get [of tr] no by simp_all
      then show ?thesis unfolding SyncFromSpecAndPods_def Let_def by (auto intro!: emits_bind_call err)
    qed
    with idle_no_write [OF idle] show False ..
  qed
  with that show ?thesis by blast
qed

lemma idle_same:
  assumes "quiescent cl" "owners_consistent K" "known_pods cl (podsWithBw cfg pods) K"
    and "clListPodsOnNode cl [] (specNode (bwSpec bw)) = Inr pods"
    and idle: "writes (snd (run_state (SyncFromSpecAndPods cl pq cfg bw) [])) = []"
  shows "\<not> differs (setDefaultBandwidthValues cfg bw) (synced_object cl pq cfg pods (setDefaultBandwidthValues cfg bw))"
proof
  let ?b = "setDefaultBandwidthValues cfg bw"
  assume d: "differs ?b (synced_object cl pq cfg pods ?b)"
  obtain nd where nd: "clGetNode cl [] (specNode (bwSpec bw)) = Inr nd" "EqualFold (bwName bw) (nodeName nd)"
    using idle_found [OF assms(1) idle] .
  have upd: "emits is_write (sync_commit cl True stc acc bw')" for stc acc bw'
    by (rule emits_mono [OF commit_emits_spec]) auto
  have "emits is_write (sync_commit cl (specChanged ?b (existingRequests (specRequests (bwSpec bw))) (aClean acc)) (statusChanged ?b acc) acc ?b)"
    if "applyAccount acc ?b = synced_object cl pq cfg pods ?b" for acc
    using d differs_account [OF that] upd commit_emits_status by (cases "specChanged ?b (existingRequests (specRequests (bwSpec bw))) (aClean acc)") auto
  then have "emits is_write (SyncFromSpecAndPods cl pq cfg bw)"
    by (rule Sync_emits [OF assms(1-3) nd assms(4)])
  with idle_no_write [OF idle] show False ..
qed

text \<open>Conversely, nothing is written for such an object.\<close>

lemma same_idle:
  assumes q: "quiescent cl" and K: "owners_consistent K" "known_pods cl (podsWithBw cfg pods) K"
    and rng: "\<And>tr. clRange cl tr [] = []"
    and node: "clGetNode cl [] (specNode (bwSpec bw)) = Inr nd" "EqualFold (bwName bw) (nodeName nd)"
    and pods: "clListPodsOnNode cl [] (specNode (bwSpec bw)) = Inr pods"
    and same: "\<not> differs (setDefaultBandwidthValues cfg bw) (synced_object cl pq cfg pods (setDefaultBandwidthValues cfg bw))"
  shows "reads (SyncFromSpecAndPods cl pq cfg bw) (\<lambda>r. r = (noRequeue, None))"
proof -
  let ?b = "setDefaultBandwidthValues cfg bw" and ?node = "specNode (bwSpec bw)" and ?m = "podsWithBw cfg pods"
  let ?reqs = "specRequests (bwSpec bw)" and ?ex = "existingRequests (specRequests (bwSpec bw))"
  let ?k = "kept cl pq cfg ?node ?m ?reqs"
  have spec: "\<not> specChanged ?b ?ex (map fst ?k)" using same by (simp add: differs_def)
  have all: "\<forall>r \<in> set ?reqs. recorded cl pq cfg ?node ?m ?ex r"
  proof
    fix r assume r: "r \<in> set ?reqs"
    have "length ?k = length ?reqs" using spec by (simp add: specChanged_def split: if_splits)
    then obtain p b where pb: "resolve cl ?m r = Some (p, b)" using kept_length [of cl pq cfg ?node ?m ?reqs] r by force
    obtain ul dl where am: "amounts pq cfg r p b = (ul, dl)" by force
    have "requestFor p (all_local cl ?node p) ul dl \<in> set (map fst ?k)"
      using imageI [OF kept_member [OF r pb am], of fst] by simp
    then have "map_of ?ex (reqPodUid (requestFor p (all_local cl ?node p) ul dl)) = Some (requestFor p (all_local cl ?node p) ul dl)"
      using spec by (auto simp: specChanged_def list_ex_iff split: if_splits)
    moreover have "podUID p = reqPodUid r" using resolve_uid [OF keyed_podsWithBw pb] .
    ultimately show "recorded cl pq cfg ?node ?m ?ex r" unfolding recorded_def using pb am by (auto simp: requestFor_def)
  qed
  have loop: "reads (sync_loop cl pq cfg ?node ?m ?ex ?reqs empty_sync_acc)
      (\<lambda>acc. applyAccount acc ?b = synced_object cl pq cfg pods ?b \<and> aAffected acc = [])"
  proof (rule does_conj)
    show "reads (sync_loop cl pq cfg ?node ?m ?ex ?reqs empty_sync_acc) (\<lambda>acc. applyAccount acc ?b = synced_object cl pq cfg pods ?b)"
      by (rule loop_synced [OF q K])
    show "reads (sync_loop cl pq cfg ?node ?m ?ex ?reqs empty_sync_acc) (\<lambda>acc. aAffected acc = [])"
      using sync_loop_recorded [OF q K cache_ok_empty all] by (simp add: empty_sync_acc_def)
  qed
  have quiet: "reads (sync_write cl pq cfg ?node ?ex acc ?b) (\<lambda>r. r = (noRequeue, None))"
    if "applyAccount acc ?b = synced_object cl pq cfg pods ?b" "aAffected acc = []" for acc
    using differs_account [OF that(1)] same that(2) rng by (intro sync_write_nothing) auto
  have list: "clListPodsOnNode cl tr ?node = Inr pods" "clGetNode cl tr ?node = Inr nd" for tr
    using q node(1) pods unfolding quiescent_def by metis+
  show ?thesis
    unfolding SyncFromSpecAndPods_def
    by (auto simp: Let_def node(2) list intro!: does_rules does_bind [OF loop] quiet)
qed

end
