(* ===== verification/Operator_Properties.thy ===== *)
theory Operator_Properties
  imports Operator_Writes
begin

text \<open>
  The properties of the operator, and a static cluster (\<open>static_client\<close>: fixed objects, every
  write accepted, the status subresource separate from the spec) on which they are exercised.
\<close>

section \<open>A static cluster\<close>

definition static_client :: "Bandwidth list \<Rightarrow> Node list \<Rightarrow> Pod list \<Rightarrow> client" where
  "static_client bws nodes pods =
     (let findBw = (\<lambda>n. case List.find (\<lambda>b. bwName b = n) bws of None \<Rightarrow> Inl NotFound | Some b \<Rightarrow> Inr b)
      in \<lparr>clGetBandwidth = (\<lambda>_. findBw),
          clGetNode = (\<lambda>_ n. case List.find (\<lambda>x. nodeName x = n) nodes of
                               None \<Rightarrow> Inl NotFound | Some x \<Rightarrow> Inr x),
          clGetPod = (\<lambda>_ n ns. case List.find (\<lambda>p. podName p = n \<and> podNamespace p = ns) pods of
                                 None \<Rightarrow> Inl NotFound | Some p \<Rightarrow> Inr p),
          clListNodes = (\<lambda>_. Inr nodes),
          clListPodsOnNode = (\<lambda>_ n. Inr (filter (\<lambda>p. podNodeName p = n) pods)),
          clListPodsInNamespace = (\<lambda>_ ns. Inr (filter (\<lambda>p. podNamespace p = ns) pods)),
          clListBandwidths = (\<lambda>_. Inr bws),
          clCreate = (\<lambda>_ b. case findBw (bwName b) of Inl _ \<Rightarrow> Inr b | Inr _ \<Rightarrow> Inl AlreadyExists),
          clUpdate = (\<lambda>_ b. case findBw (bwName b) of
                              Inl e \<Rightarrow> Inl e | Inr b0 \<Rightarrow> Inr (b\<lparr>bwStatus := bwStatus b0\<rparr>)),
          clUpdateStatus = (\<lambda>_ b. case findBw (bwName b) of
                                    Inl e \<Rightarrow> Inl e | Inr b0 \<Rightarrow> Inr (b\<lparr>bwSpec := bwSpec b0\<rparr>)),
          clDelete = (\<lambda>_ b. None),
          clUpdatePod = (\<lambda>_ p. Inr p),
          clNow = (\<lambda>tr. int (length tr)),
          clRange = (\<lambda>_ xs. xs),
          clSchedule = (\<lambda>_ xs. xs)\<rparr>)"

lemma static_client_simps [simp]:
  "clGetBandwidth (static_client bws nodes pods) tr n =
     (case List.find (\<lambda>b. bwName b = n) bws of None \<Rightarrow> Inl NotFound | Some b \<Rightarrow> Inr b)"
  "clGetNode (static_client bws nodes pods) tr n =
     (case List.find (\<lambda>x. nodeName x = n) nodes of None \<Rightarrow> Inl NotFound | Some x \<Rightarrow> Inr x)"
  "clGetPod (static_client bws nodes pods) tr n ns =
     (case List.find (\<lambda>p. podName p = n \<and> podNamespace p = ns) pods of
        None \<Rightarrow> Inl NotFound | Some p \<Rightarrow> Inr p)"
  "clListPodsOnNode (static_client bws nodes pods) tr n = Inr (filter (\<lambda>p. podNodeName p = n) pods)"
  "clListPodsInNamespace (static_client bws nodes pods) tr ns =
     Inr (filter (\<lambda>p. podNamespace p = ns) pods)"
  "clListBandwidths (static_client bws nodes pods) tr = Inr bws"
  "clListNodes (static_client bws nodes pods) tr = Inr nodes"
  "clUpdate (static_client bws nodes pods) tr b =
     (case List.find (\<lambda>x. bwName x = bwName b) bws of
        None \<Rightarrow> Inl NotFound | Some b0 \<Rightarrow> Inr (b\<lparr>bwStatus := bwStatus b0\<rparr>))"
  "clUpdateStatus (static_client bws nodes pods) tr b =
     (case List.find (\<lambda>x. bwName x = bwName b) bws of
        None \<Rightarrow> Inl NotFound | Some b0 \<Rightarrow> Inr (b\<lparr>bwSpec := bwSpec b0\<rparr>))"
  "clNow (static_client bws nodes pods) tr = int (length tr)"
  "clRange (static_client bws nodes pods) tr xs = xs"
  "clSchedule (static_client bws nodes pods) tr yss = yss"
  by (auto simp: static_client_def Let_def split: option.splits sum.splits)

definition ex_cfg :: BandwidthConfig where
  "ex_cfg = \<lparr>cfgDefaultLocalUL = 20000, cfgDefaultLocalDL = 20000, cfgDefaultNetworkUL = 1000,
     cfgDefaultNetworkDL = 1000, cfgEgress = ''e'', cfgIngress = ''i''\<rparr>"

definition ex_pod :: "string \<Rightarrow> string \<Rightarrow> Pod" where
  "ex_pod uid node = zero_pod\<lparr>podName := uid, podNamespace := ''d'', podUID := uid,
     podAnnotations := Some [(''e'', ''20''), (''i'', ''30'')],
     podOwners := [\<lparr>orKind = ''S'', orName = ''w'', orUID = ''o'', orController = Some True\<rparr>],
     podNodeName := node, podPhase := PodRunning\<rparr>"

definition ex_request :: "string \<Rightarrow> BandwidthRequest" where
  "ex_request uid = \<lparr>reqPodName = uid, reqNamespace = ''d'', reqPodUid = uid, reqLinkLocal = False,
     reqBandwidth = BandwidthDefinition 20 30\<rparr>"

definition ex_bw :: "string \<Rightarrow> BandwidthRequest list \<Rightarrow> Bandwidth" where
  "ex_bw node reqs = (newBandwidth node)\<lparr>bwSpec := (bwSpec (newBandwidth node))\<lparr>specRequests := reqs\<rparr>\<rparr>"

lemmas ex_defs = ex_cfg_def ex_pod_def ex_request_def ex_bw_def newBandwidth_def zero_pod_def

lemmas run_defs = Reconcile_def SyncFromSpecAndPods_def sync_lookup_def sync_siblings_def
  sync_account_def sync_write_def sync_commit_def sync_updateSpec_def allSiblingsOnCurrentNode_def sibling_step_def
  live_siblings_def GetWorkloadRefFromPod_def ownerRef_def podsWithBw_def podsWithBw_step_def
  hasBandwidthAnnotation_def annotation_def GetBandwidthFromAnnotation_def annotationMbps_def
  existingRequests_def markAffected_def setDefaultBandwidthValues_def applyAccount_def
  reapplyStatus_def empty_sync_acc_def charge_def requestFor_def reservationFor_def
  specChanged_def statusChanged_def usedCapacity_def remainingCapacity_def UpdateBandwidthStatus_def
  EqualFold_def fold_char_def Atoi_def ParseInt_def parse_digits_def digit_val_def zero_Capacity_def
  zero_BandwidthDefinition_def noRequeue_def Let_def

lemma static_quiescent [simp]: "quiescent (static_client bws nodes pods)"
  by (simp add: quiescent_def static_client_def Let_def)

lemma static_pods_by_name [simp]: "pods_by_name (static_client bws nodes pods)"
  by (auto simp: pods_by_name_def find_Some_iff split: option.splits)

lemma static_known [simp]:
  "known_pods (static_client bws nodes pods) (podsWithBw cfg (filter P pods)) (set pods)"
  by (auto simp: known_pods_def find_Some_iff dest: podsWithBw_subset split: option.splits)

section \<open>Accounts\<close>

text \<open>
  C1. Whatever the API server answers, every object that one reconciliation sends to
  \<^verbatim>\<open>Update\<close> (its own and those of related nodes) is a balanced ledger: the used bandwidth is the
  sum of its reservations, used plus remaining is the capacity, the capacity of the status is that
  of the spec, and reservations and requests correspond one to one, a link-local request being
  charged to the local datapath only.
\<close>

theorem reconcile_updates_balanced:
  "\<exists>evs. snd (run_state (Reconcile cl pq cfg name) tr) = tr @ evs \<and>
     (\<forall>bw. CUpdate bw \<in> set evs \<longrightarrow> ledger_ok bw)"
proof -
  obtain evs where "snd (run_state (Reconcile cl pq cfg name) tr) = tr @ evs"
    "\<forall>e \<in> set evs. update_ok e"
    using Reconcile_updates [of cl pq cfg name] unfolding does_def by blast
  then show ?thesis by (intro exI [of _ evs]) force
qed

definition ex_balanced :: client where
  "ex_balanced = static_client [ex_bw ''n'' [ex_request ''a'']] [\<lparr>nodeName = ''n''\<rparr>] [ex_pod ''a'' ''n'']"

theorem reconcile_updates_balanced_witness:
  "\<exists>bw. CUpdate bw \<in> set (snd (run_state (Reconcile ex_balanced (\<lambda>_. None) ex_cfg ''n'') [])) \<and>
     ledger_ok bw \<and> specRequests (bwSpec bw) = [(ex_request ''a'')\<lparr>reqLinkLocal := True\<rparr>]"
proof -
  let ?r = "run_state (Reconcile ex_balanced (\<lambda>_. None) ex_cfg ''n'') []"
  have "\<exists>bw. CUpdate bw \<in> set (snd ?r) \<and>
      specRequests (bwSpec bw) = [(ex_request ''a'')\<lparr>reqLinkLocal := True\<rparr>]"
    by (simp add: ex_balanced_def ex_defs run_defs)
  then show ?thesis
    using reconcile_updates_balanced [of ex_balanced "\<lambda>_. None" ex_cfg "''n''" "[]"] by auto
qed

text \<open>
  C2. On a server that keeps the names of objects, whatever else it answers, a synchronisation first writes its own object only: it
  deletes only the object it was given, every spec it sends is a balanced ledger under its own name, and every status it
  sends is under its own name and either reports an error or accounts for exactly the reservations it lists against the capacity of the spec.
  Only when this has succeeded are other nodes notified, whichever they are: whatever is written then belongs to
  objects of other nodes, and every spec is a balanced ledger. Nothing is ever created, and no pod is written.
\<close>

theorem sync_writes_own_object_first:
  assumes "names_kept cl"
  shows "\<exists>own others. snd (run_state (SyncFromSpecAndPods cl pq cfg bw) tr) = tr @ own @ others \<and>
     (\<forall>e \<in> set own. own_write bw (specCapacity (bwSpec (setDefaultBandwidthValues cfg bw))) e) \<and>
     (\<forall>e \<in> set others. other_write (specNode (bwSpec bw)) e) \<and>
     (others \<noteq> [] \<longrightarrow> fst (run_state (SyncFromSpecAndPods cl pq cfg bw) tr) = (noRequeue, None))"
  using Sync_own [OF assms, of bw cfg pq] unfolding does_then_def by blast

lemma static_names_kept [simp]: "names_kept (static_client bws nodes pods)"
  by (auto simp: names_kept_def find_Some_iff split: option.splits)

text \<open>A pod of its own that was just reserved and has no node yet is no exception.\<close>

definition ex_loner :: Pod where
  "ex_loner = (ex_pod ''a'' '''')\<lparr>podOwners := [], podPhase := PodPending\<rparr>"

definition ex_reserved :: client where
  "ex_reserved = static_client [ex_bw ''n'' [ex_request ''a'']] [\<lparr>nodeName = ''n''\<rparr>] [ex_loner]"

theorem sync_writes_own_object_first_witness:
  "\<exists>b. CUpdateStatus b \<in> set (snd (run_state (SyncFromSpecAndPods ex_reserved (\<lambda>_. None) ex_cfg
       (ex_bw ''n'' [ex_request ''a''])) [])) \<and> bwName b = ''n'' \<and>
     accounted (Capacity (BandwidthDefinition 20000 20000) (BandwidthDefinition 1000 1000)) (bwStatus b)"
proof -
  let ?bw = "ex_bw ''n'' [ex_request ''a'']"
  let ?r = "run_state (SyncFromSpecAndPods ex_reserved (\<lambda>_. None) ex_cfg ?bw) []"
  let ?cap = "specCapacity (bwSpec (setDefaultBandwidthValues ex_cfg ?bw))"
  have "\<exists>b. CUpdateStatus b \<in> set (snd ?r) \<and> stStatus (bwStatus b) = StCreated \<and> bwName b = ''n''"
    by (simp add: ex_reserved_def ex_loner_def ex_defs run_defs)
  then obtain b where b: "CUpdateStatus b \<in> set (snd ?r)" "stStatus (bwStatus b) = StCreated" "bwName b = ''n''"
    by blast
  obtain own others where "snd ?r = [] @ own @ others" "\<forall>e \<in> set own. own_write ?bw ?cap e"
    "\<forall>e \<in> set others. other_write (specNode (bwSpec ?bw)) e"
    using sync_writes_own_object_first [of ex_reserved "\<lambda>_. None" ex_cfg ?bw "[]"] by (auto simp: ex_reserved_def)
  then have "own_write ?bw ?cap (CUpdateStatus b) \<or> other_write (specNode (bwSpec ?bw)) (CUpdateStatus b)" using b(1) by auto
  then have "accounted ?cap (bwStatus b)" using b(2,3) by (auto simp: ex_bw_def newBandwidth_def)
  moreover have "?cap = Capacity (BandwidthDefinition 20000 20000) (BandwidthDefinition 1000 1000)"
    by (simp add: setDefaultBandwidthValues_def ex_defs)
  ultimately show ?thesis using b(1,3) by metis
qed

text \<open>
  C3. On a cluster that does not change during the run, the loop of the synchronisation, with its
  accumulators and its cache of sibling lookups, computes exactly the abstract specification: each
  request is kept iff its pod is annotated and live on the node or still pending, it is charged
  with the pod's bandwidth, and it is link-local iff all live pods of its workload are on the node.
\<close>

theorem sync_loop_refines:
  assumes "quiescent cl" "owners_consistent K" "known_pods cl (podsWithBw cfg pods) K"
  shows "applyAccount
     (fst (run_state (sync_loop cl pq cfg (specNode (bwSpec bw)) (podsWithBw cfg pods)
        (existingRequests (specRequests (bwSpec bw))) (specRequests (bwSpec bw)) empty_sync_acc) tr)) bw
     = synced_object cl pq cfg pods bw"
  using reads_writes(2) [OF sync_loop_synced [OF assms]] by blast

definition ex_spread :: client where
  "ex_spread = static_client [ex_bw ''n'' [ex_request ''a'']] [\<lparr>nodeName = ''n''\<rparr>]
     [ex_pod ''a'' ''n'', ex_pod ''b'' ''m'']"

lemma ex_spread_owners: "owners_consistent {ex_pod ''a'' ''n'', ex_pod ''b'' ''m''}"
  by (simp add: owners_consistent_def ex_defs GetWorkloadRefFromPod_def ownerRef_def)

theorem sync_loop_refines_witness:
  "applyAccount
     (fst (run_state (sync_loop ex_spread (\<lambda>_. None) ex_cfg ''n''
        (podsWithBw ex_cfg [ex_pod ''a'' ''n''])
        (existingRequests [ex_request ''a'']) [ex_request ''a''] empty_sync_acc) []))
     (ex_bw ''n'' [ex_request ''a''])
   = synced_object ex_spread (\<lambda>_. None) ex_cfg [ex_pod ''a'' ''n''] (ex_bw ''n'' [ex_request ''a''])"
proof -
  have "known_pods ex_spread (podsWithBw ex_cfg [ex_pod ''a'' ''n''])
      {ex_pod ''a'' ''n'', ex_pod ''b'' ''m''}"
    using static_known [of _ _ "[ex_pod ''a'' ''n'', ex_pod ''b'' ''m'']" ex_cfg "\<lambda>p. podUID p = ''a''"]
    by (simp add: ex_spread_def ex_defs)
  then show ?thesis
    using sync_loop_refines [OF _ ex_spread_owners, of ex_spread ex_cfg "[ex_pod ''a'' ''n'']"
        "\<lambda>_. None" "ex_bw ''n'' [ex_request ''a'']" "[]"]
    by (simp add: ex_spread_def ex_bw_def newBandwidth_def)
qed

section \<open>Convergence\<close>

text \<open>
  C4. The synchronisation converges in one step: on an unchanging cluster, reconciling an object
  that carries what the previous synchronisation computed writes nothing, reports success and
  asks for no requeue, so a reconciliation does not trigger itself for ever. The requests have
  distinct pod UIDs, which the scheduler's reservation maintains.
\<close>

theorem sync_converges:
  assumes "quiescent cl" "owners_consistent K" "known_pods cl (podsWithBw cfg pods) K"
    and "pods_by_name cl" "\<And>tr. clRange cl tr [] = []"
    and "clGetNode cl [] (specNode (bwSpec bw)) = Inr nd" "EqualFold (bwName bw) (nodeName nd)"
    and "clListPodsOnNode cl [] (specNode (bwSpec bw)) = Inr pods"
    and "setDefaultBandwidthValues cfg bw = bw"
    and "distinct (map reqPodUid (specRequests (bwSpec bw)))"
  shows "writes (snd (run_state (SyncFromSpecAndPods cl pq cfg (synced_object cl pq cfg pods bw)) tr))
           = writes tr \<and>
         fst (run_state (SyncFromSpecAndPods cl pq cfg (synced_object cl pq cfg pods bw)) tr)
           = (noRequeue, None)"
  using reads_writes [OF sync_steady [OF assms]] by blast

definition ex_full :: Bandwidth where
  "ex_full = setDefaultBandwidthValues ex_cfg (ex_bw ''n'' [ex_request ''a''])"

theorem sync_converges_witness:
  "writes (snd (run_state (SyncFromSpecAndPods ex_spread (\<lambda>_. None) ex_cfg
      (synced_object ex_spread (\<lambda>_. None) ex_cfg [ex_pod ''a'' ''n''] ex_full)) [])) = [] \<and>
   fst (run_state (SyncFromSpecAndPods ex_spread (\<lambda>_. None) ex_cfg
      (synced_object ex_spread (\<lambda>_. None) ex_cfg [ex_pod ''a'' ''n''] ex_full)) []) = (noRequeue, None)"
proof -
  have k: "known_pods ex_spread (podsWithBw ex_cfg [ex_pod ''a'' ''n''])
      {ex_pod ''a'' ''n'', ex_pod ''b'' ''m''}"
    using static_known [of _ _ "[ex_pod ''a'' ''n'', ex_pod ''b'' ''m'']" ex_cfg "\<lambda>p. podUID p = ''a''"]
    by (simp add: ex_spread_def ex_defs)
  have q: "quiescent ex_spread" "pods_by_name ex_spread" "clRange ex_spread tr [] = []" for tr
    by (simp_all add: ex_spread_def)
  have n: "specNode (bwSpec ex_full) = ''n''" "bwName ex_full = ''n''"
    "distinct (map reqPodUid (specRequests (bwSpec ex_full)))"
    by (simp_all add: ex_full_def ex_bw_def newBandwidth_def)
  have c: "clGetNode ex_spread [] (specNode (bwSpec ex_full)) = Inr \<lparr>nodeName = ''n''\<rparr>"
    "clListPodsOnNode ex_spread [] (specNode (bwSpec ex_full)) = Inr [ex_pod ''a'' ''n'']"
    by (simp_all add: ex_spread_def n ex_pod_def)
  have d: "setDefaultBandwidthValues ex_cfg ex_full = ex_full" by (simp add: ex_full_def)
  have e: "EqualFold (bwName ex_full) (nodeName \<lparr>nodeName = ''n''\<rparr>)" by (simp add: n)
  show ?thesis
    using sync_converges [OF q(1) ex_spread_owners k q(2) q(3) c(1) e c(2) d n(3), of "\<lambda>_. None" "[]"]
    by simp
qed

section \<open>Requests and siblings\<close>

text \<open>
  C5. Bandwidth is held exactly for the pods that still need it. On a cluster that does not change during the run, every spec the
  synchronisation sends for its own object has requests for exactly the pods of the earlier requests that are on the node,
  annotated, not being deleted and not finished, or still pending; every status it sends that does not report an error lists the
  reservations of exactly these pods; and when a request is no longer needed, a spec without it is sent.
\<close>

theorem sync_keeps_live_requests:
  assumes "quiescent cl" "owners_consistent K" "known_pods cl (podsWithBw cfg pods) K" "names_kept cl"
    and "clGetNode cl [] (specNode (bwSpec bw)) = Inr nd" "EqualFold (bwName bw) (nodeName nd)"
    and "EqualFold (bwName bw) (specNode (bwSpec bw))"
    and "clListPodsOnNode cl [] (specNode (bwSpec bw)) = Inr pods"
  shows "\<exists>evs. snd (run_state (SyncFromSpecAndPods cl pq cfg bw) tr) = tr @ evs \<and>
     (\<forall>b. CUpdate b \<in> set evs \<and> bwName b = bwName bw \<longrightarrow>
        reqPodUid ` set (specRequests (bwSpec b)) =
        reqPodUid ` {req \<in> set (specRequests (bwSpec bw)). still_needed cl cfg pods req}) \<and>
     (\<forall>b. CUpdateStatus b \<in> set evs \<and> bwName b = bwName bw \<and> stStatus (bwStatus b) \<noteq> StError \<longrightarrow>
        resPodUid ` set (stReservations (bwStatus b)) =
        reqPodUid ` {req \<in> set (specRequests (bwSpec bw)). still_needed cl cfg pods req}) \<and>
     ((\<exists>req \<in> set (specRequests (bwSpec bw)). \<not> still_needed cl cfg pods req) \<longrightarrow>
        (\<exists>b. CUpdate b \<in> set evs \<and> bwName b = bwName bw))"
proof -
  let ?reqs = "specRequests (bwSpec bw)" and ?b = "setDefaultBandwidthValues cfg bw"
  let ?k = "kept cl pq cfg (specNode (bwSpec bw)) (podsWithBw cfg pods) ?reqs"
  obtain own others where run: "snd (run_state (SyncFromSpecAndPods cl pq cfg bw) tr) = tr @ own @ others"
    "\<forall>e \<in> set own. carries ?k e" "\<forall>e \<in> set others. other_write (specNode (bwSpec bw)) e"
    using Sync_carries [OF assms(1-4,8), of pq] unfolding does_then_def by blast
  have own: "CUpdate b \<in> set own" if "CUpdate b \<in> set (own @ others)" "bwName b = bwName bw" for b
    using that run(3) assms(7) by auto
  have own': "CUpdateStatus b \<in> set own" if "CUpdateStatus b \<in> set (own @ others)" "bwName b = bwName bw" for b
    using that run(3) assms(7) by auto
  have "\<exists>b. CUpdate b \<in> set (own @ others) \<and> bwName b = bwName bw" if gone: "\<exists>req \<in> set ?reqs. \<not> still_needed cl cfg pods req"
  proof -
    from gone have "length ?k \<noteq> length ?reqs"
      using kept_length [of cl pq cfg "specNode (bwSpec bw)" "podsWithBw cfg pods" ?reqs] resolve_needed [of cl cfg pods] by blast
    moreover have "aClean acc = map fst ?k" if "applyAccount acc ?b = synced_object cl pq cfg pods ?b" for acc :: sync_acc
      using applyAccount_fields(7) [of acc ?b] that by simp
    ultimately have "specChanged ?b (existingRequests ?reqs) (aClean acc)"
      if "applyAccount acc ?b = synced_object cl pq cfg pods ?b" for acc :: sync_acc
      using that by (simp add: specChanged_def)
    then have "emits (\<lambda>e. \<exists>b. e = CUpdate b \<and> bwName b = bwName bw) (SyncFromSpecAndPods cl pq cfg bw)"
      using commit_emits_spec [of ?b cl] by (intro Sync_emits [OF assms(1-3,5,6,8)]) simp
    then obtain evs where "snd (run_state (SyncFromSpecAndPods cl pq cfg bw) tr) = tr @ evs" "\<exists>b. CUpdate b \<in> set evs \<and> bwName b = bwName bw"
      unfolding emits_def by blast
    with run(1) show ?thesis by simp
  qed
  moreover have "specRequests (bwSpec b) = map fst ?k" if "CUpdate b \<in> set own" for b using run(2) that by auto
  moreover have "stReservations (bwStatus b) = map snd ?k" if "CUpdateStatus b \<in> set own" "stStatus (bwStatus b) \<noteq> StError" for b
    using run(2) that by auto
  ultimately show ?thesis
    using run(1) own own' kept_uids_needed [of cl pq cfg "specNode (bwSpec bw)" pods ?reqs]
    by (intro exI [of _ "own @ others"]) (metis (no_types, lifting))
qed

theorem sync_keeps_live_requests_witness:
  "\<exists>b. CUpdate b \<in> set (snd (run_state (SyncFromSpecAndPods ex_spread (\<lambda>_. None) ex_cfg
       (ex_bw ''n'' [ex_request ''a'', ex_request ''z''])) [])) \<and>
     reqPodUid ` set (specRequests (bwSpec b)) = {''a''}"
proof -
  let ?bw = "ex_bw ''n'' [ex_request ''a'', ex_request ''z'']"
  have k: "known_pods ex_spread (podsWithBw ex_cfg [ex_pod ''a'' ''n'']) {ex_pod ''a'' ''n'', ex_pod ''b'' ''m''}"
    using static_known [of _ _ "[ex_pod ''a'' ''n'', ex_pod ''b'' ''m'']" ex_cfg "\<lambda>p. podUID p = ''a''"]
    by (simp add: ex_spread_def ex_defs)
  have f: "specNode (bwSpec ?bw) = ''n''" "specRequests (bwSpec ?bw) = [ex_request ''a'', ex_request ''z'']" "bwName ?bw = ''n''"
    by (simp_all add: ex_bw_def newBandwidth_def)
  have q: "quiescent ex_spread" "names_kept ex_spread" "EqualFold (bwName ?bw) (nodeName \<lparr>nodeName = ''n''\<rparr>)"
    "EqualFold (bwName ?bw) (specNode (bwSpec ?bw))" "clGetNode ex_spread [] (specNode (bwSpec ?bw)) = Inr \<lparr>nodeName = ''n''\<rparr>"
    "clListPodsOnNode ex_spread [] (specNode (bwSpec ?bw)) = Inr [ex_pod ''a'' ''n'']"
    by (simp_all add: f) (simp_all add: ex_spread_def ex_pod_def)
  have n: "still_needed ex_spread ex_cfg [ex_pod ''a'' ''n''] (ex_request ''a'')"
    "\<not> still_needed ex_spread ex_cfg [ex_pod ''a'' ''n''] (ex_request ''z'')"
    by (simp_all add: still_needed_def ex_spread_def hasBandwidthAnnotation_def annotation_def ex_defs)
  have uid: "reqPodUid (ex_request ''a'') = ''a''" by (simp add: ex_request_def)
  let ?live = "{req \<in> set (specRequests (bwSpec ?bw)). still_needed ex_spread ex_cfg [ex_pod ''a'' ''n''] req}"
  have "?live = {ex_request ''a''}" using n by (auto simp: f)
  then have live: "reqPodUid ` ?live = {''a''}" using uid by simp
  have gone: "\<exists>req \<in> set (specRequests (bwSpec ?bw)). \<not> still_needed ex_spread ex_cfg [ex_pod ''a'' ''n''] req" using n by (simp add: f)
  obtain evs where run: "snd (run_state (SyncFromSpecAndPods ex_spread (\<lambda>_. None) ex_cfg ?bw) []) = [] @ evs"
    and upd: "\<forall>b. CUpdate b \<in> set evs \<and> bwName b = bwName ?bw \<longrightarrow> reqPodUid ` set (specRequests (bwSpec b)) = reqPodUid ` ?live"
    and ex: "(\<exists>req \<in> set (specRequests (bwSpec ?bw)). \<not> still_needed ex_spread ex_cfg [ex_pod ''a'' ''n''] req) \<longrightarrow>
        (\<exists>b. CUpdate b \<in> set evs \<and> bwName b = bwName ?bw)"
    using sync_keeps_live_requests [OF q(1) ex_spread_owners k q(2,5,3,4,6), of "\<lambda>_. None" "[]"]
    by (elim exE conjE) (rule that, assumption+)
  from ex gone obtain b where "CUpdate b \<in> set evs" "bwName b = bwName ?bw" by blast
  with run upd live show ?thesis by auto
qed

text \<open>
  The sibling search of a workload pod: it answers yes exactly when the workload has a live
  pod and all of its live pods are on the given node (names compared case-insensitively), and it
  lists these pods. It never returns a node: the nodes of siblings elsewhere, which the search
  collects so that they can be told to recompute, are not in the result.
\<close>

theorem siblings_search:
  assumes "\<not> standalone pod" "clListPodsInNamespace cl tr (podNamespace pod) = Inr pods"
  shows "fst (run_state (allSiblingsOnCurrentNode cl pod node) tr) =
    (live_siblings (GetWorkloadRefFromPod pod) pods, [],
     live_siblings (GetWorkloadRefFromPod pod) pods \<noteq> [] \<and>
     (\<forall>p \<in> set (live_siblings (GetWorkloadRefFromPod pod) pods). EqualFold (podNodeName p) node))"
  using assms
  by (simp add: allSiblingsOnCurrentNode_def standalone_def Let_def length_filter_all list_all_iff)

theorem siblings_search_witness:
  "fst (run_state (allSiblingsOnCurrentNode ex_spread (ex_pod ''a'' ''n'') ''n'') []) =
    ([ex_pod ''a'' ''n'', ex_pod ''b'' ''m''], [], False)"
proof -
  have s: "\<not> standalone (ex_pod ''a'' ''n'')"
    by (simp add: standalone_def ex_defs GetWorkloadRefFromPod_def ownerRef_def EqualFold_def fold_char_def)
  have l: "clListPodsInNamespace ex_spread [] (podNamespace (ex_pod ''a'' ''n'')) =
      Inr [ex_pod ''a'' ''n'', ex_pod ''b'' ''m'']"
    by (simp add: ex_spread_def ex_pod_def)
  show ?thesis
    using siblings_search [OF s l, of "''n''"]
    by (simp add: live_siblings_def ex_defs GetWorkloadRefFromPod_def ownerRef_def EqualFold_def
        fold_char_def)
qed

text \<open>
  When a related node is synchronised, the status the operator computed is not what it writes:
  \<^verbatim>\<open>Update\<close> overwrites the object, status included, with the server's answer, so on a resource
  with a status subresource every status sent is the stored one, and the new accounts of the node
  are lost.
\<close>

theorem single_sync_status_stale:
  assumes "status_subresource cl stored"
  shows "\<exists>evs. snd (run_state (syncSingleNodeBandwidth cl pq cfg bw) tr) = tr @ evs \<and>
     (\<forall>b. CUpdateStatus b \<in> set evs \<longrightarrow> bwStatus b = stored)"
proof -
  obtain evs where "snd (run_state (syncSingleNodeBandwidth cl pq cfg bw) tr) = tr @ evs"
    "\<forall>e \<in> set evs. stale_status stored e"
    using syncSingle_stale [OF assms, of pq cfg bw] unfolding does_def by blast
  then show ?thesis by (intro exI [of _ evs]) force
qed

theorem single_sync_status_stale_witness:
  "\<exists>b. CUpdateStatus b \<in> set (snd (run_state (syncSingleNodeBandwidth ex_balanced (\<lambda>_. None) ex_cfg
       (ex_bw ''n'' [ex_request ''a''])) [])) \<and>
     stUsed (bwStatus b) = 0 \<and>
     specRequests (bwSpec b) = [(ex_request ''a'')\<lparr>reqLinkLocal := True\<rparr>]"
proof -
  let ?r = "run_state (syncSingleNodeBandwidth ex_balanced (\<lambda>_. None) ex_cfg
       (ex_bw ''n'' [ex_request ''a''])) []"
  have "\<exists>b. CUpdateStatus b \<in> set (snd ?r) \<and>
      specRequests (bwSpec b) = [(ex_request ''a'')\<lparr>reqLinkLocal := True\<rparr>]"
    by (simp add: syncSingleNodeBandwidth_def single_lookup_def single_isLocal_def single_commit_def
        empty_acct_def ex_balanced_def ex_defs run_defs)
  then obtain b where b: "CUpdateStatus b \<in> set (snd ?r)"
    "specRequests (bwSpec b) = [(ex_request ''a'')\<lparr>reqLinkLocal := True\<rparr>]" by blast
  have sub: "status_subresource ex_balanced (bwStatus (newBandwidth ''n''))"
    by (auto simp: status_subresource_def ex_balanced_def ex_bw_def newBandwidth_def
        split: if_splits)
  obtain evs where "snd ?r = [] @ evs"
    "\<forall>b. CUpdateStatus b \<in> set evs \<longrightarrow> bwStatus b = bwStatus (newBandwidth ''n'')"
    using single_sync_status_stale [OF sub] by blast
  with b show ?thesis by (auto simp: newBandwidth_def)
qed

end
