(* ===== verification/Operator_Lifecycle.thy ===== *)
theory Operator_Lifecycle
  imports Operator_Properties "HOL-Library.Sublist"
begin

text \<open>
  The life of a \<^verbatim>\<open>Bandwidth\<close> object around synchronisation: its creation by \<open>Reconcile\<close> and by the
  bootstrap, the handling of vanished nodes, and the accounts of \<open>SetupBandwidthResource\<close>.
\<close>

section \<open>Creation\<close>

text \<open>
  C8. When a node has no \<^verbatim>\<open>Bandwidth\<close> object, a reconciliation that meets no error creates one with
  the configured default capacities and no requests, then marks the stored object as created with
  the capacity of its spec, and asks to be run again; these two writes are all it does.
\<close>

theorem reconcile_creates:
  assumes missing: "clGetBandwidth cl tr name = Inl NotFound"
    and node: "\<And>t. clGetNode cl t name = Inr nd"
    and created: "\<And>t b. clCreate cl t b = Inr (f b)" "\<And>b. bwName (f b) = bwName b"
    and stored: "\<And>t. t \<noteq> tr \<Longrightarrow> clGetBandwidth cl t name = Inr b1"
    and status: "\<And>t b. clUpdateStatus cl t b = Inr b"
  shows "\<exists>now. writes (snd (run_state (Reconcile cl pq cfg name) tr)) = writes tr @
      [CCreate (setDefaultBandwidthValues cfg (newBandwidth name)),
       CUpdateStatus (b1\<lparr>bwStatus := (bwStatus b1)\<lparr>stStatus := StCreated,
          stCapacity := specCapacity (bwSpec b1), stUpdatedAt := now\<rparr>\<rparr>)] \<and>
     fst (run_state (Reconcile cl pq cfg name) tr) = (requeueNow, None)"
proof -
  have "bwName (f (setDefaultBandwidthValues cfg (newBandwidth name))) = name"
    by (simp add: created newBandwidth_def)
  then show ?thesis
    by (simp add: Reconcile_def reconcile_create_def reconcile_initStatus_def generateEvent_def
        UpdateBandwidthStatus_def Let_def missing node created status stored) (rule exI, rule refl)
qed

text \<open>A server on which the object appears once the first call has been made.\<close>

definition ex_fresh :: client where
  "ex_fresh = (static_client [] [\<lparr>nodeName = ''n''\<rparr>] [])\<lparr>
     clGetBandwidth := (\<lambda>tr n. if tr = [] then Inl NotFound
        else Inr (setDefaultBandwidthValues ex_cfg (newBandwidth n))),
     clGetNode := (\<lambda>_ _. Inr \<lparr>nodeName = ''n''\<rparr>),
     clCreate := (\<lambda>_ b. Inr b), clUpdateStatus := (\<lambda>_ b. Inr b)\<rparr>"

theorem reconcile_creates_witness:
  "\<exists>now. writes (snd (run_state (Reconcile ex_fresh (\<lambda>_. None) ex_cfg ''n'') [])) =
      [CCreate (setDefaultBandwidthValues ex_cfg (newBandwidth ''n'')),
       CUpdateStatus ((setDefaultBandwidthValues ex_cfg (newBandwidth ''n''))
         \<lparr>bwStatus := (bwStatus (newBandwidth ''n''))\<lparr>stStatus := StCreated,
          stCapacity := Capacity (BandwidthDefinition 20000 20000) (BandwidthDefinition 1000 1000),
          stUpdatedAt := now\<rparr>\<rparr>)]"
proof -
  have cap: "specCapacity (bwSpec (setDefaultBandwidthValues ex_cfg (newBandwidth ''n''))) =
      Capacity (BandwidthDefinition 20000 20000) (BandwidthDefinition 1000 1000)"
    by (simp add: setDefaultBandwidthValues_def ex_cfg_def newBandwidth_def)
  show ?thesis
    using reconcile_creates [of ex_fresh "[]" "''n''" "\<lparr>nodeName = ''n''\<rparr>" "\<lambda>b. b"
        "setDefaultBandwidthValues ex_cfg (newBandwidth ''n'')" "\<lambda>_. None" ex_cfg]
    by (simp add: ex_fresh_def cap)
qed

section \<open>Bootstrap\<close>

definition status_writes :: "trace \<Rightarrow> nat" where
  "status_writes evs = length (filter (\<lambda>e. \<exists>b. e = CUpdateStatus b) evs)"

lemma status_writes_simps [simp]:
  "status_writes [] = 0"
  "status_writes (xs @ ys) = status_writes xs + status_writes ys"
  "status_writes (e # xs) = (if \<exists>b. e = CUpdateStatus b then 1 else 0) + status_writes xs"
  by (simp_all add: status_writes_def)

text \<open>Each attempt writes the status at most once, and there are at most \<open>left + 1\<close> attempts.\<close>

lemma initStatusRetry_bound:
  "\<exists>evs. snd (run_state (initStatusRetry cl node left) tr) = tr @ evs \<and>
     status_writes evs \<le> left + 1 \<and> list_all (\<lambda>e. \<forall>b. e \<noteq> CCreate b) evs"
proof (induction left arbitrary: tr)
  case 0
  show ?case
    by (subst initStatusRetry.simps)
      (auto simp: UpdateBandwidthStatus_def generateEvent_def Let_def split: sum.splits)
next
  case (Suc left)
  have ext: "\<exists>evs. snd (run_state (initStatusRetry cl node left) (tr @ pre)) = tr @ evs \<and>
      status_writes evs \<le> left + 2 \<and> list_all (\<lambda>e. \<forall>b. e \<noteq> CCreate b) evs"
    if "status_writes pre \<le> 1" "list_all (\<lambda>e. \<forall>b. e \<noteq> CCreate b) pre" for pre
  proof -
    obtain evs where "snd (run_state (initStatusRetry cl node left) (tr @ pre)) = (tr @ pre) @ evs"
      "status_writes evs \<le> left + 1" "list_all (\<lambda>e. \<forall>b. e \<noteq> CCreate b) evs"
      using Suc.IH [of "tr @ pre"] by blast
    with that show ?thesis by (intro exI [of _ "pre @ evs"]) simp
  qed
  show ?case
    using ext [of "[CGetBandwidth node, CSleep 100]"]
    by (subst initStatusRetry.simps)
      (auto simp: UpdateBandwidthStatus_def generateEvent_def Let_def split: sum.splits
        intro!: ext [where pre = "[CGetBandwidth node, CNow, CUpdateStatus b, CSleep 100]" for b,
          simplified])
qed


definition creates :: "trace \<Rightarrow> Bandwidth list" where
  "creates evs = List.map_filter (\<lambda>e. case e of CCreate b \<Rightarrow> Some b | _ \<Rightarrow> None) evs"

lemma creates_simps [simp]:
  "creates [] = []"
  "creates (xs @ ys) = creates xs @ creates ys"
  "creates (CCreate b # xs) = b # creates xs"
  "(\<And>b. e \<noteq> CCreate b) \<Longrightarrow> creates (e # xs) = creates xs"
  by (auto simp: creates_def List.map_filter_def split: api_call.splits)

lemma creates_none [simp]: "list_all (\<lambda>e. \<forall>b. e \<noteq> CCreate b) evs \<Longrightarrow> creates evs = []"
  by (induction evs) auto

text \<open>What the bootstrap does on a list of nodes, as a predicate on the calls it makes.\<close>

definition bootstrap_ok :: "BandwidthConfig \<Rightarrow> Node list \<Rightarrow> api_error option \<Rightarrow> trace \<Rightarrow> bool" where
  "bootstrap_ok cfg nodes r evs \<longleftrightarrow>
     subseq (creates evs) (map (\<lambda>n. setDefaultBandwidthValues cfg (newBandwidth (nodeName n))) nodes) \<and>
     status_writes evs \<le> 3 * length (creates evs) \<and>
     (r = None \<longrightarrow> (\<forall>n \<in> set nodes. CGetBandwidth (nodeName n) \<in> set evs))"

lemma bootstrap_ok_skip:
  "bootstrap_ok cfg ns r evs \<Longrightarrow>
   bootstrap_ok cfg (n # ns) r (CGetBandwidth (nodeName n) # evs)"
  "bootstrap_ok cfg (n # ns) (Some e) [CGetBandwidth (nodeName n)]"
  by (auto simp: bootstrap_ok_def)

lemma bootstrap_ok_create:
  assumes "bootstrap_ok cfg ns r evs" "status_writes pre \<le> 3" "creates pre = []"
  shows "bootstrap_ok cfg (n # ns) r
    (CGetBandwidth (nodeName n) #
     CCreate (setDefaultBandwidthValues cfg (newBandwidth (nodeName n))) # pre @ evs)"
  using assms by (auto simp: bootstrap_ok_def)

text \<open>
  C9. Whatever the API server answers, the bootstrap over a list of nodes creates only the
  default-valued object of a listed node, in the order of the list and at most once per entry; it
  never makes more than three attempts at a status per created object, and when it reports success
  every listed node has been looked up.
\<close>

theorem bootstrap_creates:
  "\<exists>evs. snd (run_state (createBandwidthResources cl cfg nodes) tr) = tr @ evs \<and>
     bootstrap_ok cfg nodes (fst (run_state (createBandwidthResources cl cfg nodes) tr)) evs"
proof (induction nodes arbitrary: tr)
  case Nil
  show ?case by (simp add: bootstrap_ok_def)
next
  case (Cons n ns)
  let ?run = "\<lambda>t. run_state (createBandwidthResources cl cfg ns) t"
  let ?c = "CCreate (setDefaultBandwidthValues cfg (newBandwidth (nodeName n)))"
  let ?t1 = "tr @ [CGetBandwidth (nodeName n)]"
  show ?case
  proof (cases "clGetBandwidth cl tr (nodeName n)")
    case (Inr b)
    with Cons.IH [of ?t1] show ?thesis by (force intro: bootstrap_ok_skip)
  next
    case (Inl e)
    show ?thesis
    proof (cases "e = NotFound")
      case False
      with Inl show ?thesis by (simp add: bootstrap_ok_skip)
    next
      case True
      obtain ev1 where ev1: "snd (run_state (initStatusRetry cl (nodeName n) 2) (?t1 @ [?c])) = ?t1 @ [?c] @ ev1"
        "status_writes ev1 \<le> 3" "creates ev1 = []"
        using initStatusRetry_bound [of cl "nodeName n" 2 "?t1 @ [?c]"] by force
      obtain ev2 where ev2: "snd (?run (?t1 @ [?c] @ ev1)) = ?t1 @ [?c] @ ev1 @ ev2"
        "bootstrap_ok cfg ns (fst (?run (?t1 @ [?c] @ ev1))) ev2"
        using Cons.IH [of "?t1 @ [?c] @ ev1"] by auto
      obtain ev3 where ev3: "snd (?run (?t1 @ [?c])) = ?t1 @ [?c] @ ev3"
        "bootstrap_ok cfg ns (fst (?run (?t1 @ [?c]))) ev3"
        using Cons.IH [of "?t1 @ [?c]"] by auto
      note c2 = bootstrap_ok_create [OF ev2(2) ev1(2,3), of n]
      note c3 = bootstrap_ok_create [OF ev3(2), of "[]" n]
      have c4: "bootstrap_ok cfg (n # ns) (Some x) [CGetBandwidth (nodeName n), ?c]" for x
        by (simp add: bootstrap_ok_def)
      show ?thesis
        using Inl True ev1 ev2 ev3 c2 c3 c4
        by (auto simp: split_beta split: sum.splits)
    qed
  qed
qed

end
