(* ===== verification/Vaclab_Bandwidth.thy ===== *)
theory Vaclab_Bandwidth
  imports Operator_Helpers
begin

text \<open>
  \<^verbatim>\<open>scheduler-plugins/pkg/vaclabscheduling/bandwidth_resource.go\<close>: the handle through which the
  scheduler plugin reads and writes the \<^verbatim>\<open>Bandwidth\<close> objects and the annotations of pods, with the
  defaults and the validation of the plugin's arguments (\<^verbatim>\<open>apis/config\<close>). A pod the code changes
  through its pointer is returned.
\<close>

section \<open>Arguments\<close>

record VaclabSchedulingArgs =
  argEgress :: string
  argIngress :: string
  argDefaultEgressMbps :: int64
  argDefaultIngressMbps :: int64

definition DefaultEgressBandwidthAnnotation :: string where
  "DefaultEgressBandwidthAnnotation = ''ovn.kubernetes.io/egress_rate''"
definition DefaultIngressBandwidthAnnotation :: string where
  "DefaultIngressBandwidthAnnotation = ''ovn.kubernetes.io/ingress_rate''"
definition KubeOVNEgressBandwidthAnnotation :: string where
  "KubeOVNEgressBandwidthAnnotation = ''ovn.kubernetes.io/egress_rate''"
definition KubeOVNIngressBandwidthAnnotation :: string where
  "KubeOVNIngressBandwidthAnnotation = ''ovn.kubernetes.io/ingress_rate''"
definition CalicoEgressBandwidthAnnotation :: string where
  "CalicoEgressBandwidthAnnotation = ''kubernetes.io/egress-bandwidth''"
definition CalicoIngressBandwidthAnnotation :: string where
  "CalicoIngressBandwidthAnnotation = ''kubernetes.io/ingress-bandwidth''"

lemmas annotation_keys =
  DefaultEgressBandwidthAnnotation_def DefaultIngressBandwidthAnnotation_def
  KubeOVNEgressBandwidthAnnotation_def KubeOVNIngressBandwidthAnnotation_def
  CalicoEgressBandwidthAnnotation_def CalicoIngressBandwidthAnnotation_def

definition SetDefaults_VaclabSchedulingArgs :: "VaclabSchedulingArgs \<Rightarrow> VaclabSchedulingArgs" where
  "SetDefaults_VaclabSchedulingArgs args =
     \<lparr>argEgress = (if argEgress args = '''' then ''ovn.kubernetes.io/egress_rate'' else argEgress args),
      argIngress = (if argIngress args = '''' then ''ovn.kubernetes.io/ingress_rate'' else argIngress args),
      argDefaultEgressMbps = (if argDefaultEgressMbps args = 0 then 20 else argDefaultEgressMbps args),
      argDefaultIngressMbps = (if argDefaultIngressMbps args = 0 then 20 else argDefaultIngressMbps args)\<rparr>"

text \<open>The list of complaints; the arguments are valid when it is empty.\<close>

definition ValidateVaclabSchedulingArgs :: "VaclabSchedulingArgs \<Rightarrow> string list" where
  "ValidateVaclabSchedulingArgs args =
     (if argEgress args = '''' then [''egressBandwidthAnnotation''] else []) @
     (if argIngress args = '''' then [''ingressBandwidthAnnotation''] else []) @
     (if argDefaultEgressMbps args <s 0 then [''defaultEgressMbps''] else []) @
     (if argDefaultIngressMbps args <s 0 then [''defaultIngressMbps''] else [])"

record HandleConfig =
  hcEgress :: string
  hcIngress :: string
  hcDefaultEgressMbps :: int64
  hcDefaultIngressMbps :: int64

section \<open>Reading the resources\<close>

datatype handle_error =
    GetFailed api_error
  | ListFailed api_error
  | UpdateFailed api_error
  | NotCreated Status

definition GetNodeBandwidth :: "client \<Rightarrow> string \<Rightarrow> (handle_error + Bandwidth) kio" where
  "GetNodeBandwidth cl node = do {
     r \<leftarrow> getBandwidth cl node;
     case r of Inl e \<Rightarrow> ret (Inl (GetFailed e)) | Inr bw \<Rightarrow> ret (Inr bw)
   }"

definition ListBandwidths :: "client \<Rightarrow> (handle_error + Bandwidth list) kio" where
  "ListBandwidths cl = do {
     r \<leftarrow> listBandwidths cl;
     case r of Inl e \<Rightarrow> ret (Inl (ListFailed e)) | Inr bws \<Rightarrow> ret (Inr bws)
   }"

definition GetAvailableBandwidth :: "client \<Rightarrow> string \<Rightarrow> (handle_error + Capacity) kio" where
  "GetAvailableBandwidth cl node = do {
     r \<leftarrow> GetNodeBandwidth cl node;
     case r of
       Inl e \<Rightarrow> ret (Inl e)
     | Inr bw \<Rightarrow>
         if stStatus (bwStatus bw) \<noteq> StCreated then ret (Inl (NotCreated (stStatus (bwStatus bw))))
         else ret (Inr (stRemaining (bwStatus bw)))
   }"

definition GetBandwidthStatus :: "client \<Rightarrow> string \<Rightarrow> (handle_error + BandwidthStatus) kio" where
  "GetBandwidthStatus cl node = do {
     r \<leftarrow> GetNodeBandwidth cl node;
     case r of Inl e \<Rightarrow> ret (Inl e) | Inr bw \<Rightarrow> ret (Inr (bwStatus bw))
   }"

text \<open>The two comparisons of a remaining capacity with a requirement.\<close>

definition sufficient :: "Capacity \<Rightarrow> int64 \<Rightarrow> int64 \<Rightarrow> bool" where
  "sufficient remaining ul dl =
     (if UlMbps (Local remaining) <s ul \<or> DlMbps (Local remaining) <s dl then False
      else if UlMbps (Network remaining) <s ul \<or> DlMbps (Network remaining) <s dl then False
      else True)"

definition HasSufficientBandwidth ::
    "client \<Rightarrow> string \<Rightarrow> int64 \<Rightarrow> int64 \<Rightarrow> (handle_error + bool) kio" where
  "HasSufficientBandwidth cl node ul dl = do {
     r \<leftarrow> GetAvailableBandwidth cl node;
     case r of Inl e \<Rightarrow> ret (Inl e) | Inr remaining \<Rightarrow> ret (Inr (sufficient remaining ul dl))
   }"

section \<open>Changing the requests\<close>

definition addRequest :: "BandwidthRequest \<Rightarrow> BandwidthRequest list \<Rightarrow> BandwidthRequest list" where
  "addRequest r reqs = filter (\<lambda>req. reqPodUid req \<noteq> reqPodUid r) reqs @ [r]"

definition removeRequest :: "string \<Rightarrow> BandwidthRequest list \<Rightarrow> BandwidthRequest list" where
  "removeRequest uid reqs = filter (\<lambda>req. reqPodUid req \<noteq> uid) reqs"

definition schedRequest :: "string \<Rightarrow> string \<Rightarrow> string \<Rightarrow> int64 \<Rightarrow> int64 \<Rightarrow> BandwidthRequest" where
  "schedRequest pod ns uid ul dl =
     \<lparr>reqPodName = pod, reqNamespace = ns, reqPodUid = uid, reqLinkLocal = False,
      reqBandwidth = BandwidthDefinition ul dl\<rparr>"

definition withRequests :: "BandwidthRequest list \<Rightarrow> Bandwidth \<Rightarrow> Bandwidth" where
  "withRequests reqs bw = bw\<lparr>bwSpec := (bwSpec bw)\<lparr>specRequests := reqs\<rparr>\<rparr>"

definition AddBandwidthRequest ::
    "client \<Rightarrow> string \<Rightarrow> string \<Rightarrow> string \<Rightarrow> string \<Rightarrow> int64 \<Rightarrow> int64 \<Rightarrow> handle_error option kio" where
  "AddBandwidthRequest cl node pod ns uid ul dl = do {
     r \<leftarrow> getBandwidth cl node;
     case r of
       Inl e \<Rightarrow> ret (Some (GetFailed e))
     | Inr bw \<Rightarrow> do {
         u \<leftarrow> updateBandwidth cl
                (withRequests (addRequest (schedRequest pod ns uid ul dl) (specRequests (bwSpec bw))) bw);
         case u of Inl e \<Rightarrow> ret (Some (UpdateFailed e)) | Inr _ \<Rightarrow> ret None
       }
   }"

definition RemoveBandwidthRequest :: "client \<Rightarrow> string \<Rightarrow> string \<Rightarrow> handle_error option kio" where
  "RemoveBandwidthRequest cl node uid = do {
     r \<leftarrow> getBandwidth cl node;
     case r of
       Inl e \<Rightarrow> ret (Some (GetFailed e))
     | Inr bw \<Rightarrow>
         if \<not> list_ex (\<lambda>req. reqPodUid req = uid) (specRequests (bwSpec bw)) then ret None
         else do {
           u \<leftarrow> updateBandwidth cl (withRequests (removeRequest uid (specRequests (bwSpec bw))) bw);
           case u of Inl e \<Rightarrow> ret (Some (UpdateFailed e)) | Inr _ \<Rightarrow> ret None
         }
   }"

definition UpdateBandwidthCapacity :: "client \<Rightarrow> string \<Rightarrow> Capacity \<Rightarrow> handle_error option kio" where
  "UpdateBandwidthCapacity cl node capacity = do {
     r \<leftarrow> getBandwidth cl node;
     case r of
       Inl e \<Rightarrow> ret (Some (GetFailed e))
     | Inr bw \<Rightarrow> do {
         u \<leftarrow> updateBandwidth cl (bw\<lparr>bwSpec := (bwSpec bw)\<lparr>specCapacity := capacity\<rparr>\<rparr>);
         case u of Inl e \<Rightarrow> ret (Some (UpdateFailed e)) | Inr _ \<Rightarrow> ret None
       }
   }"

section \<open>Locality\<close>

definition controllerOwner :: "OwnerReference list \<Rightarrow> OwnerReference option" where
  "controllerOwner os = List.find (\<lambda>ow. orController ow = Some True) os"

definition CalculateLocalityScore :: "client \<Rightarrow> Pod \<Rightarrow> string \<Rightarrow> (handle_error + int64) kio" where
  "CalculateLocalityScore cl pod node =
     (if podOwners pod = [] then ret (Inr 0)
      else
        (let ownerUID = (case controllerOwner (podOwners pod) of None \<Rightarrow> '''' | Some ow \<Rightarrow> orUID ow)
         in if ownerUID = '''' then ret (Inr 0)
            else do {
              r \<leftarrow> GetNodeBandwidth cl node;
              case r of
                Inl e \<Rightarrow> ret (Inl e)
              | Inr bw \<Rightarrow> ret (Inr (of_nat (length
                  (filter (\<lambda>res. resDeploymentUid res = ownerUID) (stReservations (bwStatus bw))))))
            }))"

section \<open>Annotations of pods\<close>

definition parseBandwidthValue :: "parse_quantity \<Rightarrow> string \<Rightarrow> int64" where
  "parseBandwidthValue pq value =
     (case Atoi value of
        Some plainValue \<Rightarrow> plainValue
      | None \<Rightarrow> (case pq value of Some quantity \<Rightarrow> int64_div quantity 1000000 | None \<Rightarrow> 0))"

definition formatBandwidthValue :: "int64 \<Rightarrow> string \<Rightarrow> string" where
  "formatBandwidthValue mbps annotationKey =
     (if annotationKey = KubeOVNEgressBandwidthAnnotation \<or>
         annotationKey = KubeOVNIngressBandwidthAnnotation
      then FormatInt mbps
      else FormatInt mbps @ ''M'')"

definition GetBandwidthFromPodAnnotations ::
    "parse_quantity \<Rightarrow> HandleConfig \<Rightarrow> Pod \<Rightarrow> int64 \<times> int64 \<times> bool" where
  "GetBandwidthFromPodAnnotations pq hc pod =
     (case podAnnotations pod of
        None \<Rightarrow> (0, 0, False)
      | Some ann \<Rightarrow>
          (let egress = map_of ann (hcEgress hc); ingress = map_of ann (hcIngress hc)
           in if egress = None \<and> ingress = None then (0, 0, False)
              else
                (let value = (\<lambda>x. case x of None \<Rightarrow> 0
                                  | Some s \<Rightarrow> if s \<noteq> '''' then parseBandwidthValue pq s else 0)
                 in (value egress, value ingress, True))))"

definition knownAnnotations :: "(string \<times> string) list" where
  "knownAnnotations =
     [(DefaultEgressBandwidthAnnotation, DefaultIngressBandwidthAnnotation),
      (KubeOVNEgressBandwidthAnnotation, KubeOVNIngressBandwidthAnnotation),
      (CalicoEgressBandwidthAnnotation, CalicoIngressBandwidthAnnotation)]"

text \<open>
  One known key: a positive value is taken over, and the key is deleted unless it is the expected
  one. The state is the value found so far, the annotations, and whether they changed.
\<close>

definition takeAnnotation ::
    "parse_quantity \<Rightarrow> string \<Rightarrow> string \<Rightarrow> int64 \<times> (string, string) gomap \<times> bool \<Rightarrow>
     int64 \<times> (string, string) gomap \<times> bool" where
  "takeAnnotation pq expected key st =
     (case st of (mbps, ann, updated) \<Rightarrow>
        (case map_of ann key of
           None \<Rightarrow> st
         | Some s \<Rightarrow>
             if s \<noteq> '''' \<and> 0 <s parseBandwidthValue pq s then
               (if key \<noteq> expected then (parseBandwidthValue pq s, AList.delete key ann, True)
                else (parseBandwidthValue pq s, ann, updated))
             else st))"

definition normalize_step ::
    "parse_quantity \<Rightarrow> HandleConfig \<Rightarrow> string \<times> string \<Rightarrow>
     int64 \<times> int64 \<times> (string, string) gomap \<times> bool \<Rightarrow>
     int64 \<times> int64 \<times> (string, string) gomap \<times> bool" where
  "normalize_step pq hc keys st =
     (case st of (ul, dl, ann, updated) \<Rightarrow>
        (case takeAnnotation pq (hcEgress hc) (fst keys) (ul, ann, updated) of
           (ul', ann', updated') \<Rightarrow>
             (case takeAnnotation pq (hcIngress hc) (snd keys) (dl, ann', updated') of
                (dl', ann'', updated'') \<Rightarrow> (ul', dl', ann'', updated''))))"

definition putExpected ::
    "int64 \<Rightarrow> string \<Rightarrow> (string, string) gomap \<times> bool \<Rightarrow> (string, string) gomap \<times> bool" where
  "putExpected mbps key st =
     (case st of (ann, updated) \<Rightarrow>
        if 0 <s mbps then
          (let expected = formatBandwidthValue mbps key
           in if (case map_of ann key of None \<Rightarrow> '''' | Some s \<Rightarrow> s) \<noteq> expected
              then (AList.update key expected ann, True) else (ann, updated))
        else (ann, updated))"

definition normalizedAnnotations ::
    "parse_quantity \<Rightarrow> HandleConfig \<Rightarrow> (string, string) gomap \<Rightarrow> (string, string) gomap \<times> bool" where
  "normalizedAnnotations pq hc ann =
     (case fold (normalize_step pq hc) knownAnnotations (0, 0, ann, False) of
        (ul, dl, ann', updated) \<Rightarrow>
          putExpected dl (hcIngress hc) (putExpected ul (hcEgress hc) (ann', updated)))"

definition NormalizePodBandwidthAnnotations ::
    "client \<Rightarrow> parse_quantity \<Rightarrow> HandleConfig \<Rightarrow> Pod \<Rightarrow> ((handle_error + bool) \<times> Pod) kio" where
  "NormalizePodBandwidthAnnotations cl pq hc pod =
     (case podAnnotations pod of
        None \<Rightarrow> ret (Inr False, pod)
      | Some ann \<Rightarrow>
          (case normalizedAnnotations pq hc ann of (ann', updated) \<Rightarrow>
             (let pod' = pod\<lparr>podAnnotations := Some ann'\<rparr>
              in if updated then do {
                   u \<leftarrow> updatePod cl pod';
                   case u of
                     Inl e \<Rightarrow> ret (Inl (UpdateFailed e), pod')
                   | Inr pod'' \<Rightarrow> ret (Inr True, pod'')
                 } else ret (Inr False, pod'))))"

definition setAnnotation :: "string \<Rightarrow> int64 \<Rightarrow> (string, string) gomap \<Rightarrow> (string, string) gomap" where
  "setAnnotation key mbps ann = AList.update key (formatBandwidthValue mbps key) ann"

definition ExtractPodBandwidthRequirement ::
    "parse_quantity \<Rightarrow> HandleConfig \<Rightarrow> Pod \<Rightarrow> int64 \<times> int64 \<times> Pod" where
  "ExtractPodBandwidthRequirement pq hc pod =
     (case GetBandwidthFromPodAnnotations pq hc pod of (ul0, dl0, found) \<Rightarrow>
        (let ann0 = (case podAnnotations pod of None \<Rightarrow> [] | Some m \<Rightarrow> m)
         in if \<not> found then
              (let ul = hcDefaultEgressMbps hc; dl = hcDefaultIngressMbps hc;
                   ann1 = (if 0 <s ul then setAnnotation (hcEgress hc) ul ann0 else ann0);
                   ann2 = (if 0 <s dl then setAnnotation (hcIngress hc) dl ann1 else ann1)
               in (ul, dl, pod\<lparr>podAnnotations := Some ann2\<rparr>))
            else
              (let (ul, ann1) = (if ul0 = 0 \<and> 0 <s hcDefaultEgressMbps hc
                     then (hcDefaultEgressMbps hc, setAnnotation (hcEgress hc) (hcDefaultEgressMbps hc) ann0)
                     else (ul0, ann0));
                   (dl, ann2) = (if dl0 = 0 \<and> 0 <s hcDefaultIngressMbps hc
                     then (hcDefaultIngressMbps hc, setAnnotation (hcIngress hc) (hcDefaultIngressMbps hc) ann1)
                     else (dl0, ann1))
               in (ul, dl, pod\<lparr>podAnnotations := Some ann2\<rparr>))))"

end
