(* ===== verification/Sched_Framework.thy ===== *)
theory Sched_Framework
  imports Go_Prelude
begin

text \<open>
  What the plugins use of the Kubernetes scheduling framework: status codes (their messages are
  only logged and are left out), scores, and the contracts of the plugins that normalise scores.
\<close>

section \<open>Status codes and scores\<close>

datatype Code =
  Success | Error | Unschedulable | UnschedulableAndUnresolvable | Wait | Skip

definition MaxNodeScore :: int64 where
  "MaxNodeScore = 100"

definition MinNodeScore :: int64 where
  "MinNodeScore = 0"

record NodeScore =
  nsName :: string
  nsScore :: int64

type_synonym NodeScoreList = "NodeScore list"

text \<open>Scores read as integers.\<close>

definition score :: "NodeScore \<Rightarrow> int" where
  "score ns = sint (nsScore ns)"

lemma score_update [simp]: "score (ns\<lparr>nsScore := v\<rparr>) = sint v"
  by (simp add: score_def)

text \<open>The running maximum and minimum of the scores, as the plugins compute them.\<close>

lemma score_fold_max:
  fixes h0 :: int64
  defines "f \<equiv> (\<lambda>ns h. if h <s nsScore ns then nsScore ns else h)"
  shows "sint h0 \<le> sint (fold f ss h0) \<and> (\<forall>ns \<in> set ss. score ns \<le> sint (fold f ss h0)) \<and>
     (fold f ss h0 = h0 \<or> (\<exists>ns \<in> set ss. nsScore ns = fold f ss h0))"
proof (induction ss arbitrary: h0)
  case Nil
  then show ?case by simp
next
  case (Cons ns ss)
  have "sint h0 \<le> sint (f ns h0)" "score ns \<le> sint (f ns h0)" "f ns h0 = h0 \<or> f ns h0 = nsScore ns"
    by (auto simp: f_def score_def sless_sint)
  with Cons.IH [of "f ns h0"] show ?case by (auto intro: order_trans)
qed

lemma score_fold_min:
  fixes l0 :: int64
  defines "f \<equiv> (\<lambda>ns l. if nsScore ns <s l then nsScore ns else l)"
  shows "sint (fold f ss l0) \<le> sint l0 \<and> (\<forall>ns \<in> set ss. sint (fold f ss l0) \<le> score ns) \<and>
     (fold f ss l0 = l0 \<or> (\<exists>ns \<in> set ss. nsScore ns = fold f ss l0))"
proof (induction ss arbitrary: l0)
  case Nil
  then show ?case by simp
next
  case (Cons ns ss)
  have "sint (f ns l0) \<le> sint l0" "sint (f ns l0) \<le> score ns" "f ns l0 = l0 \<or> f ns l0 = nsScore ns"
    by (auto simp: f_def score_def sless_sint)
  with Cons.IH [of "f ns l0"] show ?case by (auto intro: order_trans)
qed

lemma score_fold_pair:
  "fold (\<lambda>ns (h, l). (if h <s nsScore ns then nsScore ns else h, if nsScore ns <s l then nsScore ns else l)) ss (a, b) =
   (fold (\<lambda>ns h. if h <s nsScore ns then nsScore ns else h) ss a,
    fold (\<lambda>ns l. if nsScore ns <s l then nsScore ns else l) ss b)"
  by (induction ss arbitrary: a b) auto

text \<open>With starting values beyond all scores the two are the extremes of a non-empty list.\<close>

lemma score_fold_range:
  assumes b: "\<forall>ns \<in> set ss. - B \<le> score ns \<and> score ns \<le> B" and ne: "ss \<noteq> []"
    and s: "sint h0 < - B" "B < sint l0"
  defines "h \<equiv> fold (\<lambda>ns h. if h <s nsScore ns then nsScore ns else h) ss h0"
    and "l \<equiv> fold (\<lambda>ns l. if nsScore ns <s l then nsScore ns else l) ss l0"
  shows "\<forall>ns \<in> set ss. sint l \<le> score ns \<and> score ns \<le> sint h" "- B \<le> sint l" "sint h \<le> B"
    "\<exists>ns \<in> set ss. score ns = sint h" "\<exists>ns \<in> set ss. score ns = sint l"
proof -
  obtain n0 where n0: "n0 \<in> set ss" using ne by (cases ss) auto
  have hs: "\<forall>ns \<in> set ss. score ns \<le> sint h" "h = h0 \<or> (\<exists>ns \<in> set ss. nsScore ns = h)"
    using score_fold_max [of h0 ss] by (auto simp: h_def)
  have ls: "\<forall>ns \<in> set ss. sint l \<le> score ns" "l = l0 \<or> (\<exists>ns \<in> set ss. nsScore ns = l)"
    using score_fold_min [of ss l0] by (auto simp: l_def)
  show "\<forall>ns \<in> set ss. sint l \<le> score ns \<and> score ns \<le> sint h" using hs ls by blast
  have "h \<noteq> h0" "l \<noteq> l0" using hs(1) ls(1) n0 b s by force+
  then show hm: "\<exists>ns \<in> set ss. score ns = sint h" and lm: "\<exists>ns \<in> set ss. score ns = sint l"
    using hs(2) ls(2) by (auto simp: score_def)
  from hm b show "sint h \<le> B" by force
  from lm b show "- B \<le> sint l" by force
qed

section \<open>Normalisation\<close>

text \<open>
  A plugin rescales each score by one function, which depends on the whole list, and maps the
  admissible raw scores (\<open>adm\<close>) into the range of the framework. A normaliser keeps the order of the
  scores; an inverter, whose raw scores are costs, reverses it.
\<close>

locale score_scaler =
  fixes normalize :: "NodeScoreList \<Rightarrow> NodeScoreList"
    and scale :: "NodeScoreList \<Rightarrow> int \<Rightarrow> int"
    and adm :: "NodeScoreList \<Rightarrow> bool"
  assumes names: "map nsName (normalize ss) = map nsName ss"
    and scores: "adm ss \<Longrightarrow> map score (normalize ss) = map (scale ss \<circ> score) ss"
    and scale_range: "adm ss \<Longrightarrow> ns \<in> set ss \<Longrightarrow> 0 \<le> scale ss (score ns) \<and> scale ss (score ns) \<le> 100"
begin

lemma length_normalize: "length (normalize ss) = length ss"
  using names [of ss] by (metis length_map)

lemma score_nth: "adm ss \<Longrightarrow> i < length ss \<Longrightarrow> score (normalize ss ! i) = scale ss (score (ss ! i))"
  using scores [of ss] length_normalize [of ss] by (metis comp_apply nth_map)

lemma name_nth: "i < length ss \<Longrightarrow> nsName (normalize ss ! i) = nsName (ss ! i)"
  using names [of ss] length_normalize [of ss] by (metis nth_map)

lemma normalize_range:
  assumes "adm ss" "ns \<in> set (normalize ss)"
  shows "0 \<le> score ns \<and> score ns \<le> 100"
proof -
  obtain i where i: "i < length ss" "ns = normalize ss ! i"
    using assms(2) by (metis in_set_conv_nth length_normalize)
  then show ?thesis using score_nth [OF assms(1)] scale_range [OF assms(1)] by auto
qed

end

locale score_normalizer = score_scaler +
  assumes scale_mono: "adm ss \<Longrightarrow> x \<le> y \<Longrightarrow> scale ss x \<le> scale ss y"
begin

lemma normalize_mono:
  assumes "adm ss" "i < length ss" "j < length ss" "score (ss ! i) \<le> score (ss ! j)"
  shows "score (normalize ss ! i) \<le> score (normalize ss ! j)"
  using assms by (simp add: score_nth scale_mono)

end

locale score_inverter = score_scaler +
  assumes scale_antimono:
    "adm ss \<Longrightarrow> ns \<in> set ss \<Longrightarrow> ms \<in> set ss \<Longrightarrow> score ns \<le> score ms \<Longrightarrow> scale ss (score ms) \<le> scale ss (score ns)"
begin

lemma normalize_antimono:
  assumes "adm ss" "i < length ss" "j < length ss" "score (ss ! i) \<le> score (ss ! j)"
  shows "score (normalize ss ! j) \<le> score (normalize ss ! i)"
  using assms by (simp add: score_nth scale_antimono)

end

end
