(* ===== verification/Vaclab_Scheduling.thy ===== *)
theory Vaclab_Scheduling
  imports Vaclab_Bandwidth Sched_Framework
begin

text \<open>
  \<^verbatim>\<open>scheduler-plugins/pkg/vaclabscheduling/vaclab_scheduling.go\<close>: the bandwidth-aware scheduling
  plugin. Each extension point is one definition; the cycle state is a map from keys to data, in
  which other plugins keep data of their own (\<open>OtherData\<close>).
\<close>

section \<open>Cycle state\<close>

record preFilterState =
  pfsUlMbps :: int64
  pfsDlMbps :: int64
  pfsOwnerUID :: string
  pfsOwnerKind :: string
  pfsHasWorkload :: bool

datatype state_data = PreFilterData preFilterState | OtherData string

type_synonym CycleState = "(string, state_data) gomap"

definition stateKey :: string where
  "stateKey = ''VaclabScheduling''"

definition getPreFilterState :: "CycleState \<Rightarrow> preFilterState option" where
  "getPreFilterState st =
     (case map_of st stateKey of Some (PreFilterData s) \<Rightarrow> Some s | _ \<Rightarrow> None)"

lemma getPreFilterState_update [simp]:
  "getPreFilterState (AList.update stateKey (PreFilterData s) st) = Some s"
  by (simp add: getPreFilterState_def)

section \<open>Construction\<close>

definition bandwidthConfig :: "VaclabSchedulingArgs \<Rightarrow> HandleConfig" where
  "bandwidthConfig args =
     \<lparr>hcEgress = argEgress args, hcIngress = argIngress args,
      hcDefaultEgressMbps = argDefaultEgressMbps args,
      hcDefaultIngressMbps = argDefaultIngressMbps args\<rparr>"

text \<open>The outcome of \<^verbatim>\<open>NewBandwidthHandle\<close>, which sets up a Kubernetes client, is an argument.\<close>

datatype new_error = InvalidConfiguration "string list" | HandleFailed string

definition New :: "string option \<Rightarrow> VaclabSchedulingArgs \<Rightarrow> new_error + HandleConfig" where
  "New handleError args =
     (let errs = ValidateVaclabSchedulingArgs args
      in if errs \<noteq> [] then Inl (InvalidConfiguration errs)
         else case handleError of
                Some e \<Rightarrow> Inl (HandleFailed e)
              | None \<Rightarrow> Inr (bandwidthConfig args))"

section \<open>PreFilter and Filter\<close>

definition feasibleOn :: "int64 \<Rightarrow> int64 \<Rightarrow> Bandwidth \<Rightarrow> bool" where
  "feasibleOn ul dl bw =
     (let r = stRemaining (bwStatus bw)
      in ul \<le>s UlMbps (Network r) \<and> dl \<le>s DlMbps (Network r) \<and>
         ul \<le>s UlMbps (Local r) \<and> dl \<le>s DlMbps (Local r))"

definition workloadInfo :: "OwnerReference list \<Rightarrow> string \<times> string \<times> bool" where
  "workloadInfo os =
     (case controllerOwner os of
        None \<Rightarrow> ('''', '''', False)
      | Some ow \<Rightarrow> (orUID ow, orKind ow, True))"

definition PreFilter ::
    "client \<Rightarrow> parse_quantity \<Rightarrow> HandleConfig \<Rightarrow> CycleState \<Rightarrow> Pod \<Rightarrow> (Code \<times> CycleState \<times> Pod) kio" where
  "PreFilter cl pq hc st pod =
     (case ExtractPodBandwidthRequirement pq hc pod of (ul, dl, pod') \<Rightarrow>
        (case workloadInfo (podOwners pod') of (ownerUID, ownerKind, hasWorkload) \<Rightarrow>
          (let store = AList.update stateKey
                 (PreFilterData \<lparr>pfsUlMbps = ul, pfsDlMbps = dl, pfsOwnerUID = ownerUID,
                    pfsOwnerKind = ownerKind, pfsHasWorkload = hasWorkload\<rparr>) st
           in if 0 <s ul \<or> 0 <s dl then do {
                l \<leftarrow> ListBandwidths cl;
                case l of
                  Inl _ \<Rightarrow> ret (Error, st, pod')
                | Inr bws \<Rightarrow>
                    if \<not> list_ex (feasibleOn ul dl) bws
                    then ret (UnschedulableAndUnresolvable, st, pod')
                    else ret (Success, store, pod')
              } else ret (Success, store, pod'))))"

definition Filter :: "client \<Rightarrow> CycleState \<Rightarrow> string \<Rightarrow> Code kio" where
  "Filter cl st node =
     (case getPreFilterState st of
        None \<Rightarrow> ret Error
      | Some s \<Rightarrow> do {
          r \<leftarrow> HasSufficientBandwidth cl node (pfsUlMbps s) (pfsDlMbps s);
          case r of
            Inl _ \<Rightarrow> ret Error
          | Inr ok \<Rightarrow> if \<not> ok then ret Unschedulable else ret Success
        })"

section \<open>Score\<close>

definition bandwidthScore :: "Capacity \<Rightarrow> preFilterState \<Rightarrow> int64" where
  "bandwidthScore remaining s =
     (let remainingUL = UlMbps (Network remaining) - pfsUlMbps s;
          remainingDL = DlMbps (Network remaining) - pfsDlMbps s;
          b = (if remainingUL <s remainingDL then remainingUL else remainingDL)
      in if b <s 0 then 0 else b)"

definition Score :: "client \<Rightarrow> CycleState \<Rightarrow> Pod \<Rightarrow> string \<Rightarrow> (int64 \<times> Code) kio" where
  "Score cl st pod node =
     (case getPreFilterState st of
        None \<Rightarrow> ret (0, Error)
      | Some s \<Rightarrow> do {
          r \<leftarrow> GetAvailableBandwidth cl node;
          case r of
            Inl _ \<Rightarrow> ret (0, Error)
          | Inr remaining \<Rightarrow> do {
              localityScore \<leftarrow>
                (if pfsHasWorkload s then do {
                   l \<leftarrow> CalculateLocalityScore cl pod node;
                   ret (case l of Inl _ \<Rightarrow> 0 | Inr v \<Rightarrow> v)
                 } else ret 0);
              ret (localityScore * 7 + bandwidthScore remaining s * 3, Success)
            }
        })"

text \<open>The running maximum starts at 0, the zero value of the variable.\<close>

definition highestScore :: "NodeScoreList \<Rightarrow> int64" where
  "highestScore ss = fold (\<lambda>ns h. if h <s nsScore ns then nsScore ns else h) ss 0"

definition NormalizeScore :: "NodeScoreList \<Rightarrow> NodeScoreList" where
  "NormalizeScore ss =
     (let h = highestScore ss
      in if h = 0 then map (\<lambda>ns. ns\<lparr>nsScore := 0\<rparr>) ss
         else map (\<lambda>ns. ns\<lparr>nsScore := int64_div (nsScore ns * MaxNodeScore) h\<rparr>) ss)"

section \<open>Reserve, Unreserve, PreBind, PostBind\<close>

definition Reserve :: "client \<Rightarrow> CycleState \<Rightarrow> Pod \<Rightarrow> string \<Rightarrow> Code kio" where
  "Reserve cl st pod node =
     (case getPreFilterState st of
        None \<Rightarrow> ret Error
      | Some s \<Rightarrow>
          if pfsUlMbps s = 0 \<and> pfsDlMbps s = 0 then ret Success
          else do {
            e \<leftarrow> AddBandwidthRequest cl node (podName pod) (podNamespace pod) (podUID pod)
                   (pfsUlMbps s) (pfsDlMbps s);
            case e of Some _ \<Rightarrow> ret Error | None \<Rightarrow> ret Success
          })"

definition Unreserve :: "client \<Rightarrow> CycleState \<Rightarrow> Pod \<Rightarrow> string \<Rightarrow> unit kio" where
  "Unreserve cl st pod node =
     (case getPreFilterState st of
        None \<Rightarrow> ret ()
      | Some s \<Rightarrow>
          if pfsUlMbps s = 0 \<and> pfsDlMbps s = 0 then ret ()
          else do { _ \<leftarrow> RemoveBandwidthRequest cl node (podUID pod); ret () })"

definition PreBind :: "CycleState \<Rightarrow> Pod \<Rightarrow> string \<Rightarrow> Code kio" where
  "PreBind st pod node =
     (case getPreFilterState st of
        None \<Rightarrow> ret Success
      | Some s \<Rightarrow> if pfsUlMbps s = 0 \<and> pfsDlMbps s = 0 then ret Success else ret Success)"

definition PostBind :: "CycleState \<Rightarrow> Pod \<Rightarrow> string \<Rightarrow> unit kio" where
  "PostBind st pod node = ret ()"

end
