(* ===== verification/Ledger.thy ===== *)
theory Ledger
  imports Go_Prelude
begin

text \<open>
  The interface of a ledger of entries with unique keys. The scheduler's list of bandwidth
  requests is one; its clients are proved here once, over any history of operations.
\<close>

datatype ('k, 'r) ledger_op = Put 'r | Del 'k

definition ledger_step ::
    "('r \<Rightarrow> 's \<Rightarrow> 's) \<Rightarrow> ('k \<Rightarrow> 's \<Rightarrow> 's) \<Rightarrow> ('k, 'r) ledger_op \<Rightarrow> 's \<Rightarrow> 's" where
  "ledger_step put del op s = (case op of Put r \<Rightarrow> put r s | Del k \<Rightarrow> del k s)"

text \<open>The last operation of a history that concerns a key: its entry, or its removal.\<close>

definition last_step ::
    "('r \<Rightarrow> 'k) \<Rightarrow> 'k \<Rightarrow> ('k, 'r) ledger_op \<Rightarrow> 'r option option \<Rightarrow> 'r option option" where
  "last_step key k op acc =
     (case op of
        Put r \<Rightarrow> if key r = k then Some (Some r) else acc
      | Del k' \<Rightarrow> if k' = k then Some None else acc)"

definition last_op :: "('r \<Rightarrow> 'k) \<Rightarrow> ('k, 'r) ledger_op list \<Rightarrow> 'k \<Rightarrow> 'r option option" where
  "last_op key ops k = fold (last_step key k) ops None"

lemma last_op_snoc: "last_op key (ops @ [op]) k = last_step key k op (last_op key ops k)"
  by (simp add: last_op_def)

lemma last_op_key: "last_op key ops k = Some (Some r) \<Longrightarrow> key r = k"
  by (induction ops rule: rev_induct)
    (auto simp: last_op_snoc last_step_def last_op_def [of _ "[]"] split: ledger_op.splits if_splits)

locale ledger =
  fixes key :: "'r \<Rightarrow> 'k"
    and entries :: "'s \<Rightarrow> 'r list"
    and put :: "'r \<Rightarrow> 's \<Rightarrow> 's"
    and del :: "'k \<Rightarrow> 's \<Rightarrow> 's"
  assumes set_put: "set (entries (put r s)) = insert r {x \<in> set (entries s). key x \<noteq> key r}"
    and set_del: "set (entries (del k s)) = {x \<in> set (entries s). key x \<noteq> k}"
    and keys_put: "distinct (map key (entries s)) \<Longrightarrow> distinct (map key (entries (put r s)))"
    and keys_del: "distinct (map key (entries s)) \<Longrightarrow> distinct (map key (entries (del k s)))"
begin

lemma keys_run:
  "distinct (map key (entries s)) \<Longrightarrow> distinct (map key (entries (fold (ledger_step put del) ops s)))"
  by (induction ops rule: rev_induct)
    (auto simp: ledger_step_def keys_put keys_del split: ledger_op.splits)

text \<open>An entry is present iff the last operation on its key put it there, or there was none and it
  was present at the start.\<close>

lemma entries_run:
  "x \<in> set (entries (fold (ledger_step put del) ops s)) \<longleftrightarrow>
     (case last_op key ops (key x) of
        None \<Rightarrow> x \<in> set (entries s)
      | Some r \<Rightarrow> r = Some x)"
proof (induction ops rule: rev_induct)
  case Nil
  then show ?case by (simp add: last_op_def)
next
  case (snoc op ops)
  then show ?case
    by (cases op) (auto simp: last_op_snoc last_step_def ledger_step_def set_put set_del split: option.splits)
qed

lemma del_put:
  assumes "\<forall>x \<in> set (entries s). key x \<noteq> key r"
  shows "set (entries (del (key r) (put r s))) = set (entries s)"
  using assms by (auto simp: set_put set_del)

end

end
