(* ===== verification/Vaclab_Invariants.thy ===== *)
theory Vaclab_Invariants
  imports Vaclab_Scheduling Ledger Operator_Refinement
begin

text \<open>
  Lemmas about the scheduler plugin: its request list is a ledger, its normalisation a score
  normaliser, its printed bandwidth values read back, and its effect on a server that stores what
  is written.
\<close>

section \<open>Requests\<close>

interpretation requests: ledger reqPodUid "\<lambda>reqs. reqs" addRequest removeRequest
  by unfold_locales
    (auto simp: addRequest_def removeRequest_def distinct_map intro: inj_on_subset)

section \<open>Scores\<close>

lemmas highestScore_facts =
  score_fold_max [of 0, folded highestScore_def, simplified]

definition raw_scores_ok :: "NodeScoreList \<Rightarrow> bool" where
  "raw_scores_ok ss = list_all (\<lambda>ns. 0 \<le> score ns \<and> score ns * 100 < 2 ^ 63) ss"

definition percent_of_highest :: "NodeScoreList \<Rightarrow> int \<Rightarrow> int" where
  "percent_of_highest ss x =
     (let h = sint (highestScore ss) in if h = 0 then 0 else x * 100 div h)"

lemma NormalizeScore_entry:
  assumes "raw_scores_ok ss" "ns \<in> set ss" "highestScore ss \<noteq> 0"
  shows "sint (int64_div (nsScore ns * MaxNodeScore) (highestScore ss)) = score ns * 100 div sint (highestScore ss)"
proof -
  have b: "0 \<le> score ns" "score ns * 100 < 2 ^ 63"
    using assms by (auto simp: raw_scores_ok_def list_all_iff)
  have m: "sint (nsScore ns * MaxNodeScore) = score ns * 100"
    using b sint_mult64 [of "nsScore ns" MaxNodeScore]
    by (simp add: MaxNodeScore_def int64_range_def score_def)
  have "0 < sint (highestScore ss)"
    using highestScore_facts [of ss] assms(3) by (auto simp: order_less_le signed_eq_0_iff)
  then show ?thesis using m b by (simp add: sint_int64_div_nonneg)
qed

lemma NormalizeScore_eq:
  "NormalizeScore ss = map (\<lambda>ns. ns\<lparr>nsScore :=
     (if highestScore ss = 0 then 0 else int64_div (nsScore ns * MaxNodeScore) (highestScore ss))\<rparr>) ss"
  by (simp add: NormalizeScore_def Let_def)

interpretation vaclab_scores: score_normalizer NormalizeScore percent_of_highest raw_scores_ok
proof
  fix ss ns and x y :: int
  show "map nsName (NormalizeScore ss) = map nsName ss"
    by (simp add: NormalizeScore_eq comp_def)
  assume adm: "raw_scores_ok ss"
  show "map score (NormalizeScore ss) = map (percent_of_highest ss \<circ> score) ss"
    by (auto simp: NormalizeScore_eq percent_of_highest_def Let_def NormalizeScore_entry [OF adm])
  have h: "0 \<le> sint (highestScore ss)" using highestScore_facts [of ss] by simp
  {
    assume "x \<le> y"
    with h show "percent_of_highest ss x \<le> percent_of_highest ss y"
      by (auto simp: percent_of_highest_def Let_def intro!: zdiv_mono1)
  }
  assume ns: "ns \<in> set ss"
  with adm have "0 \<le> score ns" by (auto simp: raw_scores_ok_def list_all_iff)
  moreover from ns have "score ns \<le> sint (highestScore ss)" using highestScore_facts [of ss] by blast
  then have "score ns * 100 div sint (highestScore ss) \<le> 100" if "0 < sint (highestScore ss)"
    using that zdiv_mono1 [of "score ns * 100" "sint (highestScore ss) * 100" "sint (highestScore ss)"]
    by simp
  ultimately show "0 \<le> percent_of_highest ss (score ns) \<and> percent_of_highest ss (score ns) \<le> 100"
    using h by (auto simp: percent_of_highest_def Let_def pos_imp_zdiv_nonneg_iff)
qed


lemma NormalizeScore_best:
  assumes "raw_scores_ok ss" "i < length ss" "\<forall>j < length ss. score (ss ! j) \<le> score (ss ! i)" "0 < score (ss ! i)"
  shows "score (NormalizeScore ss ! i) = 100"
proof -
  have "\<exists>j < length ss. score (ss ! j) = sint (highestScore ss)" if "highestScore ss \<noteq> 0"
    using highestScore_facts [of ss] that by (metis in_set_conv_nth score_def)
  moreover have ge: "score (ss ! i) \<le> sint (highestScore ss)"
    using highestScore_facts [of ss] assms(2) by simp
  ultimately have "score (ss ! i) = sint (highestScore ss)"
    using assms by (cases "highestScore ss = 0") (auto intro: order_antisym)
  with assms show ?thesis by (simp add: vaclab_scores.score_nth percent_of_highest_def Let_def)
qed

section \<open>Annotation values\<close>

text \<open>
  What the code relies on of \<^verbatim>\<open>resource.ParseQuantity\<close>: a decimal number followed by \<^verbatim>\<open>M\<close> denotes
  that many millions.
\<close>

definition quantity_M :: "parse_quantity \<Rightarrow> bool" where
  "quantity_M pq \<longleftrightarrow>
     (\<forall>v. 0 < sint v \<and> sint v * 1000000 < 2 ^ 63 \<longrightarrow> pq (FormatInt v @ ''M'') = Some (v * 1000000))"

lemma digits_val_bad: "digit_val c = None \<Longrightarrow> digits_val acc (s @ [c]) = None"
  by (simp add: digits_val_append split: option.split)

lemma parse_digits_bad: "digit_val c = None \<Longrightarrow> parse_digits (s @ [c]) = None"
  by (simp add: parse_digits_def digits_val_bad)

lemma Atoi_bad_suffix: "digit_val c = None \<Longrightarrow> Atoi (s @ [c]) = None"
  using parse_digits_bad [of c "[]"] parse_digits_bad [of c "tl s"] parse_digits_bad [of c s]
  by (cases s) (auto simp: Atoi_def ParseInt_def parse_digits_def)

lemma parse_format:
  assumes "quantity_M pq" "0 < sint v" "sint v * 1000000 < 2 ^ 63"
  shows "parseBandwidthValue pq (formatBandwidthValue v key) = v"
proof -
  have m: "sint (v * 1000000) = sint v * 1000000"
    using assms sint_mult64 [of v 1000000] by (simp add: int64_range_def)
  then have "sint (int64_div (v * 1000000) 1000000) = sint v"
    using assms by (simp add: sint_int64_div_nonneg)
  then have "int64_div (v * 1000000) 1000000 = v" by (simp add: signed_word_eqI)
  moreover have "Atoi (FormatInt v @ ''M'') = None" by (rule Atoi_bad_suffix) (simp add: digit_val_def)
  moreover have "pq (FormatInt v @ ''M'') = Some (v * 1000000)"
    using assms unfolding quantity_M_def by blast
  ultimately show ?thesis by (simp add: parseBandwidthValue_def formatBandwidthValue_def)
qed

lemma FormatInt_nonempty [simp]: "FormatInt v \<noteq> []"
  by (simp add: FormatInt_def)

lemma formatBandwidthValue_nonempty [simp]: "formatBandwidthValue v key \<noteq> []"
  by (simp add: formatBandwidthValue_def)

lemma annotationMbps_parse: "annotationMbps pq s = (if s = '''' then 0 else parseBandwidthValue pq s)"
  by (simp add: annotationMbps_def parseBandwidthValue_def)

text \<open>The annotations of a pod, the nil map read as the empty one.\<close>

definition annotations :: "Pod \<Rightarrow> (string, string) gomap" where
  "annotations pod = (case podAnnotations pod of None \<Rightarrow> [] | Some m \<Rightarrow> m)"

definition annotated :: "parse_quantity \<Rightarrow> (string, string) gomap \<Rightarrow> string \<Rightarrow> int64" where
  "annotated pq ann key =
     (case map_of ann key of None \<Rightarrow> 0 | Some s \<Rightarrow> if s = '''' then 0 else parseBandwidthValue pq s)"

lemma annotated_setAnnotation:
  assumes "quantity_M pq" "0 < sint v" "sint v * 1000000 < 2 ^ 63"
  shows "annotated pq (setAnnotation key v ann) key' = (if key' = key then v else annotated pq ann key')"
  using parse_format [OF assms] by (simp add: annotated_def setAnnotation_def)

lemma GetBandwidth_annotated:
  "GetBandwidthFromPodAnnotations pq hc pod =
     (annotated pq (annotations pod) (hcEgress hc), annotated pq (annotations pod) (hcIngress hc),
      map_of (annotations pod) (hcEgress hc) \<noteq> None \<or> map_of (annotations pod) (hcIngress hc) \<noteq> None)"
  by (auto simp: GetBandwidthFromPodAnnotations_def annotations_def annotated_def Let_def
      split: option.splits)

lemma operator_annotated:
  "GetBandwidthFromAnnotation pq cfg pod =
     (annotated pq (annotations pod) (cfgEgress cfg), annotated pq (annotations pod) (cfgIngress cfg))"
  by (auto simp: GetBandwidthFromAnnotation_def annotation_def annotations_def annotated_def
      annotationMbps_parse Let_def split: option.splits)


text \<open>The defaults that a validated configuration applies: not negative, and in range in bit/s.\<close>

definition defaults_ok :: "HandleConfig \<Rightarrow> bool" where
  "defaults_ok hc \<longleftrightarrow>
     0 \<le> sint (hcDefaultEgressMbps hc) \<and> sint (hcDefaultEgressMbps hc) * 1000000 < 2 ^ 63 \<and>
     0 \<le> sint (hcDefaultIngressMbps hc) \<and> sint (hcDefaultIngressMbps hc) * 1000000 < 2 ^ 63 \<and>
     hcEgress hc \<noteq> hcIngress hc"

lemma sint_nonneg_pos: "0 \<le> sint v \<Longrightarrow> v \<noteq> 0 \<Longrightarrow> 0 < sint (v :: int64)"
  by (auto simp: order_less_le signed_eq_0_iff)

lemma defaults_zero:
  assumes "defaults_ok hc"
  shows "\<not> 0 <s hcDefaultEgressMbps hc \<Longrightarrow> hcDefaultEgressMbps hc = 0"
    and "\<not> 0 <s hcDefaultIngressMbps hc \<Longrightarrow> hcDefaultIngressMbps hc = 0"
  using assms sint_nonneg_pos [of "hcDefaultEgressMbps hc"] sint_nonneg_pos [of "hcDefaultIngressMbps hc"]
  by (auto simp: defaults_ok_def sless_sint)

text \<open>With such defaults both branches of the extraction fill in a missing amount alike.\<close>

lemma extract_eq:
  fixes pod :: Pod
  defines "ul0 \<equiv> \<lambda>pq hc. annotated pq (annotations pod) (hcEgress hc)"
    and "dl0 \<equiv> \<lambda>pq hc. annotated pq (annotations pod) (hcIngress hc)"
  assumes d: "defaults_ok hc"
  shows "ExtractPodBandwidthRequirement pq hc pod =
    (let e = (ul0 pq hc = 0 \<and> 0 <s hcDefaultEgressMbps hc); i = (dl0 pq hc = 0 \<and> 0 <s hcDefaultIngressMbps hc);
         ann1 = (if e then setAnnotation (hcEgress hc) (hcDefaultEgressMbps hc) (annotations pod) else annotations pod);
         ann2 = (if i then setAnnotation (hcIngress hc) (hcDefaultIngressMbps hc) ann1 else ann1)
     in (if e then hcDefaultEgressMbps hc else ul0 pq hc, if i then hcDefaultIngressMbps hc else dl0 pq hc,
         pod\<lparr>podAnnotations := Some ann2\<rparr>))"
proof (cases "map_of (annotations pod) (hcEgress hc) = None \<and> map_of (annotations pod) (hcIngress hc) = None")
  case True
  then have "ul0 pq hc = 0" "dl0 pq hc = 0" by (simp_all add: ul0_def dl0_def annotated_def)
  with True show ?thesis
    using defaults_zero [OF d]
    by (simp add: ExtractPodBandwidthRequirement_def GetBandwidth_annotated Let_def annotations_def [symmetric]
        ul0_def dl0_def)
next
  case False
  then show ?thesis
    by (simp add: ExtractPodBandwidthRequirement_def GetBandwidth_annotated Let_def annotations_def [symmetric]
        ul0_def dl0_def) blast
qed

lemma extract_annotated:
  assumes q: "quantity_M pq" and d: "defaults_ok hc"
    and ex: "ExtractPodBandwidthRequirement pq hc pod = (ul, dl, pod')"
  shows "annotated pq (annotations pod') (hcEgress hc) = ul \<and>
     annotated pq (annotations pod') (hcIngress hc) = dl"
proof -
  have e: "annotated pq (setAnnotation k (hcDefaultEgressMbps hc) ann) k' =
      (if k' = k then hcDefaultEgressMbps hc else annotated pq ann k')" if "0 <s hcDefaultEgressMbps hc" for k ann k'
    using that d by (intro annotated_setAnnotation [OF q]) (auto simp: defaults_ok_def sless_sint)
  have i: "annotated pq (setAnnotation k (hcDefaultIngressMbps hc) ann) k' =
      (if k' = k then hcDefaultIngressMbps hc else annotated pq ann k')" if "0 <s hcDefaultIngressMbps hc" for k ann k'
    using that d by (intro annotated_setAnnotation [OF q]) (auto simp: defaults_ok_def sless_sint)
  have ne: "hcEgress hc \<noteq> hcIngress hc" using d by (simp add: defaults_ok_def)
  have some: "annotations (pod\<lparr>podAnnotations := Some m\<rparr>) = m" for m by (simp add: annotations_def)
  show ?thesis
    using ex ne by (auto simp: extract_eq [OF d] Let_def some e i)
qed

lemma extract_again:
  assumes q: "quantity_M pq" and d: "defaults_ok hc"
    and ex: "ExtractPodBandwidthRequirement pq hc pod = (ul, dl, pod')"
  shows "ExtractPodBandwidthRequirement pq hc pod' = (ul, dl, pod')"
proof -
  obtain ann where ann: "podAnnotations pod' = Some ann"
    using ex by (auto simp: extract_eq [OF d] Let_def)
  have a: "annotated pq ann (hcEgress hc) = ul" "annotated pq ann (hcIngress hc) = dl"
    using extract_annotated [OF assms] by (simp_all add: annotations_def ann)
  note z = defaults_zero [OF d]
  have u: "ul = 0 \<Longrightarrow> \<not> 0 <s hcDefaultEgressMbps hc" "dl = 0 \<Longrightarrow> \<not> 0 <s hcDefaultIngressMbps hc"
    using ex by (auto simp: extract_eq [OF d] Let_def split: if_splits)
  have n: "map_of ann (hcEgress hc) = None \<Longrightarrow> ul = 0" "map_of ann (hcIngress hc) = None \<Longrightarrow> dl = 0"
    using a by (auto simp: annotated_def)
  have "pod'\<lparr>podAnnotations := Some ann\<rparr> = pod'" using ann by (cases pod') simp
  then show ?thesis
    using z u n by (auto simp: ExtractPodBandwidthRequirement_def GetBandwidth_annotated annotations_def ann a Let_def)
qed

section \<open>A server that stores what is written\<close>

text \<open>The object of a node after the updates of a trace, and a client whose server keeps it.\<close>

definition stored_step :: "string \<Rightarrow> api_call \<Rightarrow> Bandwidth \<Rightarrow> Bandwidth" where
  "stored_step node e b = (case e of CUpdate b' \<Rightarrow> if bwName b' = node then b' else b | _ \<Rightarrow> b)"

definition stored :: "string \<Rightarrow> Bandwidth \<Rightarrow> trace \<Rightarrow> Bandwidth" where
  "stored node b0 tr = fold (stored_step node) tr b0"

lemma stored_simps [simp]:
  "stored node b0 [] = b0"
  "stored node b0 (e # tr) = stored node (stored_step node e b0) tr"
  "stored node b0 (tr @ e # tr') = stored node (stored_step node e (stored node b0 tr)) tr'"
  by (simp_all add: stored_def)

definition keeps :: "client \<Rightarrow> string \<Rightarrow> Bandwidth \<Rightarrow> bool" where
  "keeps cl node b0 \<longleftrightarrow>
     bwName b0 = node \<and>
     (\<forall>tr. clGetBandwidth cl tr node = Inr (stored node b0 tr) \<and> (\<forall>b. clUpdate cl tr b = Inr b))"

lemma stored_name: "bwName b0 = node \<Longrightarrow> bwName (stored node b0 tr) = node"
  by (induction tr rule: rev_induct) (auto simp: stored_step_def split: api_call.splits)

lemma bwName_withRequests [simp]: "bwName (withRequests reqs b) = bwName b"
  by (simp add: withRequests_def)

lemma withRequests_simps [simp]:
  "specRequests (bwSpec (withRequests reqs b)) = reqs"
  "withRequests reqs (withRequests reqs' b) = withRequests reqs b"
  "withRequests (specRequests (bwSpec b)) b = b"
  "bwStatus (withRequests reqs b) = bwStatus b"
  by (simp_all add: withRequests_def)

text \<open>One scheduling decision: a pod's state and whether its bandwidth is reserved or released.\<close>

datatype decision = Reserved CycleState Pod | Released CycleState Pod

fun decide :: "client \<Rightarrow> string \<Rightarrow> decision \<Rightarrow> unit kio" where
  "decide cl node (Reserved st pod) = do { _ \<leftarrow> Reserve cl st pod node; ret () }"
| "decide cl node (Released st pod) = Unreserve cl st pod node"

fun decide_all :: "client \<Rightarrow> string \<Rightarrow> decision list \<Rightarrow> unit kio" where
  "decide_all cl node [] = ret ()"
| "decide_all cl node (d # ds) = do { decide cl node d; decide_all cl node ds }"

text \<open>What a decision means for the ledger; a pod without bandwidth means nothing.\<close>

definition needs :: "CycleState \<Rightarrow> (int64 \<times> int64) option" where
  "needs st =
     (case getPreFilterState st of
        None \<Rightarrow> None
      | Some s \<Rightarrow> if pfsUlMbps s = 0 \<and> pfsDlMbps s = 0 then None else Some (pfsUlMbps s, pfsDlMbps s))"

fun ledger_ops :: "decision \<Rightarrow> (string, BandwidthRequest) ledger_op list" where
  "ledger_ops (Reserved st pod) =
     (case needs st of
        None \<Rightarrow> []
      | Some (ul, dl) \<Rightarrow> [Put (schedRequest (podName pod) (podNamespace pod) (podUID pod) ul dl)])"
| "ledger_ops (Released st pod) = (case needs st of None \<Rightarrow> [] | Some _ \<Rightarrow> [Del (podUID pod)])"

lemma removeRequest_absent:
  "\<not> list_ex (\<lambda>req. reqPodUid req = uid) reqs \<Longrightarrow> removeRequest uid reqs = reqs"
  by (auto simp: removeRequest_def list_ex_iff intro: filter_True)

lemma decide_stored:
  assumes "keeps cl node b0"
  shows "specRequests (bwSpec (stored node b0 (snd (run_state (decide cl node d) tr)))) =
    fold (ledger_step addRequest removeRequest) (ledger_ops d) (specRequests (bwSpec (stored node b0 tr)))"
proof -
  have n: "bwName (stored node b0 t) = node" for t
    using assms by (auto simp: keeps_def stored_name)
  have k: "clGetBandwidth cl t node = Inr (stored node b0 t)" "clUpdate cl t b = Inr b" for t b
    using assms by (auto simp: keeps_def)
  show ?thesis
    by (cases d)
      (auto simp: Reserve_def Unreserve_def AddBandwidthRequest_def RemoveBandwidthRequest_def k n
        needs_def ledger_step_def stored_step_def removeRequest_absent
        split: option.splits)
qed

lemma decide_all_stored:
  assumes "keeps cl node b0"
  shows "specRequests (bwSpec (stored node b0 (snd (run_state (decide_all cl node ds) tr)))) =
    fold (ledger_step addRequest removeRequest) (concat (map ledger_ops ds))
      (specRequests (bwSpec (stored node b0 tr)))"
proof (induction ds arbitrary: tr)
  case Nil
  then show ?case by simp
next
  case (Cons d ds)
  then show ?case by (simp add: split_beta decide_stored [OF assms])
qed

end
