(* ===== verification/Vaclab_Properties.thy ===== *)
theory Vaclab_Properties
  imports Vaclab_Invariants Operator_Properties
begin

text \<open>
  The properties of the scheduler plugin, alone and together with the operator: reservations
  follow the scheduling decisions, the bandwidth a pod is charged is the one the plugin announced,
  an admitted pod fits once the operator has accounted for it, and scores are normalised in order.
\<close>

section \<open>Reservations\<close>

text \<open>
  C10. On a server that stores what it is sent, after any sequence of reservations and releases by
  the scheduler a node's object holds at most one request per pod UID (if it did before), and a
  request is held exactly when the last decision about its pod reserved it, or no decision was
  taken about its pod and it was held before.
\<close>

theorem reservations_follow_decisions:
  assumes "keeps cl node b0" and "distinct (map reqPodUid (specRequests (bwSpec (stored node b0 tr))))"
  shows "let ops = concat (map ledger_ops ds);
             reqs = specRequests (bwSpec (stored node b0 (snd (run_state (decide_all cl node ds) tr))))
     in distinct (map reqPodUid reqs) \<and>
        (\<forall>q. q \<in> set reqs \<longleftrightarrow>
           (case last_op reqPodUid ops (reqPodUid q) of
              None \<Rightarrow> q \<in> set (specRequests (bwSpec (stored node b0 tr)))
            | Some r \<Rightarrow> r = Some q))"
  unfolding Let_def decide_all_stored [OF assms(1)]
  using requests.keys_run [OF assms(2)] by (auto simp: requests.entries_run)

definition ex_state :: "int64 \<Rightarrow> int64 \<Rightarrow> CycleState" where
  "ex_state ul dl = [(stateKey, PreFilterData \<lparr>pfsUlMbps = ul, pfsDlMbps = dl, pfsOwnerUID = ''o'',
     pfsOwnerKind = ''S'', pfsHasWorkload = True\<rparr>)]"

definition storing_client :: "string \<Rightarrow> Bandwidth \<Rightarrow> client" where
  "storing_client node b0 = (static_client [] [] [])\<lparr>
     clGetBandwidth := (\<lambda>tr _. Inr (stored node b0 tr)), clUpdate := (\<lambda>_ b. Inr b)\<rparr>"

lemma storing_keeps: "bwName b0 = node \<Longrightarrow> keeps (storing_client node b0) node b0"
  by (simp add: keeps_def storing_client_def)

theorem reservations_follow_decisions_witness:
  "set (specRequests (bwSpec (stored ''n'' (ex_bw ''n'' [ex_request ''a''])
     (snd (run_state (decide_all (storing_client ''n'' (ex_bw ''n'' [ex_request ''a''])) ''n''
       [Reserved (ex_state 20 30) (ex_pod ''b'' ''''), Released (ex_state 20 30) (ex_pod ''a'' ''n'')]) []))))) =
   {ex_request ''b''}"
proof -
  let ?b = "ex_bw ''n'' [ex_request ''a'']"
  let ?ds = "[Reserved (ex_state 20 30) (ex_pod ''b'' ''''), Released (ex_state 20 30) (ex_pod ''a'' ''n'')]"
  have k: "keeps (storing_client ''n'' ?b) ''n'' ?b"
    by (rule storing_keeps) (simp add: ex_defs)
  have ops: "concat (map ledger_ops ?ds) = [Put (ex_request ''b''), Del ''a'']"
    by (simp add: needs_def getPreFilterState_def ex_state_def ex_defs schedRequest_def)
  have last: "last_op reqPodUid [Put (ex_request ''b''), Del ''a''] u =
      (if u = ''a'' then Some None else if u = ''b'' then Some (Some (ex_request ''b'')) else None)" for u
    by (simp add: last_op_def last_step_def ex_request_def)
  have d: "distinct (map reqPodUid (specRequests (bwSpec (stored ''n'' ?b []))))"
    by (simp add: ex_defs)
  have s: "specRequests (bwSpec (stored ''n'' ?b [])) = [ex_request ''a'']"
    by (simp add: ex_bw_def)
  define R where
    "R = specRequests (bwSpec (stored ''n'' ?b (snd (run_state (decide_all (storing_client ''n'' ?b) ''n'' ?ds) []))))"
  have "q \<in> set R \<longleftrightarrow> (case last_op reqPodUid [Put (ex_request ''b''), Del ''a''] (reqPodUid q) of
      None \<Rightarrow> q \<in> set [ex_request ''a''] | Some r \<Rightarrow> r = Some q)" for q
    using reservations_follow_decisions [OF k d, of ?ds] unfolding Let_def ops s R_def by blast
  then have "q \<in> set R \<longleftrightarrow> q = ex_request ''b''" for q
    unfolding last by (auto simp: ex_request_def)
  then show ?thesis unfolding R_def [symmetric] by blast
qed

section \<open>Amounts\<close>

text \<open>
  What the plugin extracts from a pod (applying its defaults) is what the operator reads from
  the annotations of that pod afterwards, so the amount reserved by the scheduler is the amount the
  operator accounts; and extracting again changes nothing. Both parts must use the same two
  distinct annotation keys, and the defaults are the validated ones.
\<close>

theorem operator_reads_reserved_amounts:
  assumes "quantity_M pq" and "defaults_ok hc"
    and "hcEgress hc = cfgEgress cfg" "hcIngress hc = cfgIngress cfg"
    and "ExtractPodBandwidthRequirement pq hc pod = (ul, dl, pod')"
  shows "GetBandwidthFromAnnotation pq cfg pod' = (ul, dl) \<and>
     ExtractPodBandwidthRequirement pq hc pod' = (ul, dl, pod')"
proof -
  note a = extract_annotated [OF assms(1,2,5)]
  then have "GetBandwidthFromAnnotation pq cfg pod' = (ul, dl)"
    by (simp add: operator_annotated assms(3,4) [symmetric])
  moreover have "ExtractPodBandwidthRequirement pq hc pod' = (ul, dl, pod')"
    by (rule extract_again [OF assms(1,2,5)])
  ultimately show ?thesis ..
qed


text \<open>A reading of quantities that knows the suffix \<^verbatim>\<open>M\<close> only.\<close>

definition ex_pq :: parse_quantity where
  "ex_pq s = (if s \<noteq> '''' \<and> last s = CHR ''M'' then map_option (\<lambda>v. v * 1000000) (Atoi (butlast s)) else None)"

lemma ex_pq_M: "quantity_M ex_pq"
  by (simp add: quantity_M_def ex_pq_def)

definition ex_hc :: HandleConfig where
  "ex_hc = \<lparr>hcEgress = ''e'', hcIngress = ''i'', hcDefaultEgressMbps = 20, hcDefaultIngressMbps = 30\<rparr>"

theorem operator_reads_reserved_amounts_witness:
  "\<exists>pod'. ExtractPodBandwidthRequirement ex_pq ex_hc zero_pod = (20, 30, pod') \<and>
     GetBandwidthFromAnnotation ex_pq ex_cfg pod' = (20, 30)"
proof -
  obtain pod' where p: "ExtractPodBandwidthRequirement ex_pq ex_hc zero_pod = (20, 30, pod')"
    by (simp add: ExtractPodBandwidthRequirement_def GetBandwidthFromPodAnnotations_def zero_pod_def ex_hc_def Let_def
        sless_sint)
  have "defaults_ok ex_hc" by (simp add: defaults_ok_def ex_hc_def)
  from operator_reads_reserved_amounts [OF ex_pq_M this _ _ p, of ex_cfg] p show ?thesis
    by (auto simp: ex_hc_def ex_cfg_def)
qed

section \<open>Admission\<close>

definition fits :: "Capacity \<Rightarrow> bool" where
  "fits c \<longleftrightarrow> 0 \<le> sint (UlMbps (Local c)) \<and> 0 \<le> sint (DlMbps (Local c)) \<and>
     0 \<le> sint (UlMbps (Network c)) \<and> 0 \<le> sint (DlMbps (Network c))"




lemma Filter_Success:
  assumes "fst (run_state (Filter cl st node) tr) = Success" "getPreFilterState st = Some s"
    "clGetBandwidth cl tr node = Inr bw"
  shows "sufficient (stRemaining (bwStatus bw)) (pfsUlMbps s) (pfsDlMbps s)"
  using assms
  by (auto simp: Filter_def HasSufficientBandwidth_def GetAvailableBandwidth_def GetNodeBandwidth_def
      split: if_splits)




definition ex_idle :: Bandwidth where
  "ex_idle = (let c = Capacity (BandwidthDefinition 50 50) (BandwidthDefinition 30 30); b = newBandwidth ''n''
     in b\<lparr>bwSpec := (bwSpec b)\<lparr>specCapacity := c\<rparr>,
          bwStatus := (bwStatus b)\<lparr>stStatus := StCreated, stRemaining := c, stCapacity := c\<rparr>\<rparr>)"

definition ex_pending :: "string \<Rightarrow> Pod" where
  "ex_pending uid = (ex_pod uid '''')\<lparr>podPhase := PodPending\<rparr>"

definition ex_cluster :: client where
  "ex_cluster = static_client [ex_idle] [\<lparr>nodeName = ''n''\<rparr>] [ex_pending ''a'', ex_pending ''b'']"

lemma ex_idle_simps [simp]:
  "bwName ex_idle = ''n''" "specNode (bwSpec ex_idle) = ''n''" "specRequests (bwSpec ex_idle) = []"
  "stReservations (bwStatus ex_idle) = []" "stStatus (bwStatus ex_idle) = StCreated"
  "stRemaining (bwStatus ex_idle) = Capacity (BandwidthDefinition 50 50) (BandwidthDefinition 30 30)"
  "ledger_ok ex_idle"
  "specCapacity (bwSpec ex_idle) = Capacity (BandwidthDefinition 50 50) (BandwidthDefinition 30 30)"
  by (simp_all add: ex_idle_def newBandwidth_def Let_def ledger_ok_def accounted_def)

lemma ex_cluster_bw [simp]: "clGetBandwidth ex_cluster tr ''n'' = Inr ex_idle"
  by (simp add: ex_cluster_def)

lemma ex_state_simps [simp]:
  "getPreFilterState (ex_state ul dl) = Some \<lparr>pfsUlMbps = ul, pfsDlMbps = dl, pfsOwnerUID = ''o'',
     pfsOwnerKind = ''S'', pfsHasWorkload = True\<rparr>"
  by (simp add: getPreFilterState_def ex_state_def)

lemma Filter_eq:
  assumes "clGetBandwidth cl tr node = Inr bw" "stStatus (bwStatus bw) = StCreated"
  shows "fst (run_state (Filter cl (ex_state ul dl) node) tr) =
    (if sufficient (stRemaining (bwStatus bw)) ul dl then Success else Unschedulable)"
  using assms
  by (simp add: Filter_def HasSufficientBandwidth_def GetAvailableBandwidth_def GetNodeBandwidth_def)

lemma ex_accepts: "fst (run_state (Filter ex_cluster (ex_state 20 20) ''n'') []) = Success"
  by (simp add: Filter_eq [OF ex_cluster_bw] sufficient_def sless_sint)


section \<open>Back-to-back admissions\<close>

text \<open>
  The verdict of \<open>Filter\<close> does not depend on the requests already reserved in the spec: it
  reads only the status, which the operator refreshes later. Until then a second pod is judged as
  if the first had not been admitted.
\<close>

theorem filter_ignores_reservations:
  assumes "clGetBandwidth cl tr node = Inr bw"
    and "clGetBandwidth cl' tr' node = Inr (withRequests reqs bw)"
  shows "fst (run_state (Filter cl' st node) tr') = fst (run_state (Filter cl st node) tr)"
  using assms
  by (auto simp: Filter_def HasSufficientBandwidth_def GetAvailableBandwidth_def GetNodeBandwidth_def
      split: option.split)

text \<open>
  Two pods of 20 Mbps each on a node with 30 Mbps of network bandwidth: both are accepted, the
  second after the first has been reserved, and the operator's recomputation is negative.
\<close>

theorem filter_ignores_reservations_witness:
  "let bw1 = withRequests [schedRequest ''a'' ''d'' ''a'' 20 20] ex_idle;
       bw2 = withRequests [schedRequest ''a'' ''d'' ''a'' 20 20, schedRequest ''b'' ''d'' ''b'' 20 20] ex_idle
   in fst (run_state (Filter (storing_client ''n'' bw1) (ex_state 20 20) ''n'') []) = Success \<and>
      \<not> fits (stRemaining (bwStatus (synced_object ex_cluster (\<lambda>_. None) ex_cfg [] bw2)))"
proof -
  let ?bw1 = "withRequests [schedRequest ''a'' ''d'' ''a'' 20 20] ex_idle"
  let ?bw2 = "withRequests [schedRequest ''a'' ''d'' ''a'' 20 20, schedRequest ''b'' ''d'' ''b'' 20 20] ex_idle"
  have "fst (run_state (Filter (storing_client ''n'' ?bw1) (ex_state 20 20) ''n'') []) = Success"
    using ex_accepts filter_ignores_reservations [OF ex_cluster_bw [of "[]"], of "storing_client ''n'' ?bw1" "[]"]
    by (simp add: storing_client_def)
  moreover have "resolve ex_cluster [] (schedRequest u ''d'' u 20 20) = Some (ex_pending u, True)"
    if "u = ''a'' \<or> u = ''b''" for u
    using that by (auto simp: resolve_def schedRequest_def ex_cluster_def ex_pending_def ex_pod_def)
  moreover have "all_local ex_cluster ''n'' (ex_pending u) = False" for u
    by (simp add: all_local_def ex_cluster_def ex_pending_def ex_pod_def zero_pod_def live_siblings_def
        GetWorkloadRefFromPod_def ownerRef_def EqualFold_def fold_char_def Let_def)
  ultimately show ?thesis
    by (simp add: Let_def synced_object_def podsWithBw_def amounts_def reservationFor_def fits_def
        withRequests_def schedRequest_def)
qed


section \<open>Scores\<close>

text \<open>
  C14. Normalisation of raw scores that are not negative and small enough to be multiplied by 100:
  the node names keep their places, every result is between 0 and 100, the order of the nodes is
  preserved, and a node with the highest raw score gets 100 unless all raw scores are 0.
\<close>

theorem normalized_scores:
  assumes "raw_scores_ok ss" "i < length ss" "j < length ss"
  shows "map nsName (NormalizeScore ss) = map nsName ss \<and>
     0 \<le> score (NormalizeScore ss ! i) \<and> score (NormalizeScore ss ! i) \<le> 100 \<and>
     (score (ss ! i) \<le> score (ss ! j) \<longrightarrow> score (NormalizeScore ss ! i) \<le> score (NormalizeScore ss ! j)) \<and>
     ((\<forall>k < length ss. score (ss ! k) \<le> score (ss ! i)) \<and> 0 < score (ss ! i) \<longrightarrow>
        score (NormalizeScore ss ! i) = 100)"
  using assms vaclab_scores.names [of ss] vaclab_scores.normalize_mono [OF assms]
    vaclab_scores.normalize_range [OF assms(1), of "NormalizeScore ss ! i"]
    vaclab_scores.length_normalize [of ss] NormalizeScore_best [of ss i]
  by simp

theorem normalized_scores_witness:
  "score (NormalizeScore [\<lparr>nsName = ''a'', nsScore = 7\<rparr>, \<lparr>nsName = ''b'', nsScore = 21\<rparr>] ! 1) = 100"
  using normalized_scores [of "[\<lparr>nsName = ''a'', nsScore = 7\<rparr>, \<lparr>nsName = ''b'', nsScore = 21\<rparr>]" 1 0]
  by (simp add: raw_scores_ok_def score_def less_Suc_eq all_conj_distrib)

text \<open>The number of pods of a workload that a node's status lists.\<close>

definition siblings_on :: "string \<Rightarrow> Bandwidth \<Rightarrow> nat" where
  "siblings_on uid bw = length (filter (\<lambda>res. resDeploymentUid res = uid) (stReservations (bwStatus bw)))"

lemma Score_value:
  assumes s: "getPreFilterState st = Some s" "pfsHasWorkload s"
    and o: "controllerOwner (podOwners pod) = Some ow" "orUID ow \<noteq> ''''"
    and bw: "\<And>t. clGetBandwidth cl t node = Inr bw" "stStatus (bwStatus bw) = StCreated"
    and range: "7 * int (siblings_on (orUID ow) bw) + 3 * sint (bandwidthScore (stRemaining (bwStatus bw)) s) < 2 ^ 63"
  shows "\<exists>v. fst (run_state (Score cl st pod node) tr) = (v, Success) \<and>
     sint v = 7 * int (siblings_on (orUID ow) bw) + 3 * sint (bandwidthScore (stRemaining (bwStatus bw)) s)"
proof -
  let ?b = "bandwidthScore (stRemaining (bwStatus bw)) s" and ?n = "siblings_on (orUID ow) bw"
  have b0: "0 \<le> sint ?b" by (simp add: bandwidthScore_def Let_def sless_sint)
  have b3: "sint (?b * 3) = sint ?b * 3"
    using range b0 sint_mult64 [of ?b 3] by (simp add: int64_range_def)
  have "int ?n < 2 ^ 63" using range b0 by simp
  then have "sint (word_of_int (int ?n) :: int64) = int ?n"
    by (intro sint_word_of_int64) (simp add: int64_range_def)
  then have n: "sint (of_nat ?n :: int64) = int ?n" by simp
  have n7: "sint ((of_nat ?n :: int64) * 7) = int ?n * 7"
    using range b0 sint_mult64 [of "of_nat ?n" 7] by (simp add: int64_range_def n)
  have "sint ((of_nat ?n :: int64) * 7 + ?b * 3) = int ?n * 7 + sint ?b * 3"
    using range b0 sint_add64 [of "of_nat ?n * 7" "?b * 3"] by (simp add: int64_range_def n7 b3)
  moreover have "podOwners pod \<noteq> []" using o by (auto simp: controllerOwner_def)
  ultimately show ?thesis
    using s o bw
    by (simp add: Score_def GetAvailableBandwidth_def GetNodeBandwidth_def CalculateLocalityScore_def
        Let_def siblings_on_def)
qed

text \<open>
  C15. How the plugin weighs locality against bandwidth: for a workload pod and two nodes, the
  second is ranked above the first exactly when three times its advantage in free Mbps exceeds
  seven times the first one's advantage in siblings. The amounts are not normalised before they
  are weighted, so three Mbps outweigh a sibling.
\<close>

theorem locality_bandwidth_tradeoff:
  assumes "getPreFilterState st = Some s" "pfsHasWorkload s"
    and "controllerOwner (podOwners pod) = Some ow" "orUID ow \<noteq> ''''"
    and "\<And>t. clGetBandwidth cl t n1 = Inr bw1" "stStatus (bwStatus bw1) = StCreated"
    and "\<And>t. clGetBandwidth cl t n2 = Inr bw2" "stStatus (bwStatus bw2) = StCreated"
    and "k1 = int (siblings_on (orUID ow) bw1)" "b1 = sint (bandwidthScore (stRemaining (bwStatus bw1)) s)"
    and "k2 = int (siblings_on (orUID ow) bw2)" "b2 = sint (bandwidthScore (stRemaining (bwStatus bw2)) s)"
    and "7 * k1 + 3 * b1 < 2 ^ 63" "7 * k2 + 3 * b2 < 2 ^ 63"
  shows "sint (fst (fst (run_state (Score cl st pod n1) tr))) < sint (fst (fst (run_state (Score cl st pod n2) tr')))
     \<longleftrightarrow> 7 * (k1 - k2) < 3 * (b2 - b1)"
proof -
  obtain v1 where v1: "fst (run_state (Score cl st pod n1) tr) = (v1, Success)" "sint v1 = 7 * k1 + 3 * b1"
    using Score_value [of st s pod ow cl n1 bw1 tr] assms by auto
  obtain v2 where v2: "fst (run_state (Score cl st pod n2) tr') = (v2, Success)" "sint v2 = 7 * k2 + 3 * b2"
    using Score_value [of st s pod ow cl n2 bw2 tr'] assms by auto
  show ?thesis using v1 v2 by (auto simp: algebra_simps)
qed

definition ex_with_sibling :: Bandwidth where
  "ex_with_sibling = ex_idle\<lparr>bwName := ''m'', bwStatus := (bwStatus ex_idle)\<lparr>
     stRemaining := Capacity (BandwidthDefinition 50 50) (BandwidthDefinition 27 27),
     stReservations := [reservationFor (ex_pod ''z'' ''m'') 3 3 3 3]\<rparr>\<rparr>"

theorem locality_bandwidth_tradeoff_witness:
  "let cl = static_client [ex_idle, ex_with_sibling] [] []
   in sint (fst (fst (run_state (Score cl (ex_state 20 20) (ex_pod ''x'' '''') ''m'') []))) <
      sint (fst (fst (run_state (Score cl (ex_state 20 20) (ex_pod ''x'' '''') ''n'') [])))"
proof -
  let ?ow = "\<lparr>orKind = ''S'', orName = ''w'', orUID = ''o'', orController = Some True\<rparr>"
  have o: "controllerOwner (podOwners (ex_pod ''x'' '''')) = Some ?ow"
    by (simp add: controllerOwner_def ex_pod_def)
  have k: "siblings_on ''o'' ex_with_sibling = 1" "siblings_on ''o'' ex_idle = 0"
    by (simp_all add: siblings_on_def ex_with_sibling_def reservationFor_def ex_pod_def
        GetWorkloadRefFromPod_def ownerRef_def Let_def)
  have st: "stStatus (bwStatus ex_with_sibling) = StCreated" "bwName ex_with_sibling = ''m''"
    "stRemaining (bwStatus ex_with_sibling) = Capacity (BandwidthDefinition 50 50) (BandwidthDefinition 27 27)"
    by (simp_all add: ex_with_sibling_def)
  show ?thesis
    using locality_bandwidth_tradeoff [where cl = "static_client [ex_idle, ex_with_sibling] [] []"
        and ?n1.0 = "''m''" and ?n2.0 = "''n''" and tr = "[]" and tr' = "[]",
        OF ex_state_simps [of 20 20] _ o _ _ st(1) _ ex_idle_simps(5) refl refl refl refl]
    by (simp add: st k Let_def bandwidthScore_def sless_sint)
qed


section \<open>PreFilter\<close>

lemma feasibleOn_sufficient: "feasibleOn ul dl bw = sufficient (stRemaining (bwStatus bw)) ul dl"
  by (auto simp: feasibleOn_def sufficient_def Let_def sless_sint sle_sint)

text \<open>
  C16. \<open>PreFilter\<close> announces the requirement that \<open>Filter\<close> checks, and rejects a pod early only when
  \<open>Filter\<close> would reject it on every node: on success the cycle state holds the extracted amounts,
  and on rejection no listed object, however it is read later, passes \<open>Filter\<close> for these amounts.
\<close>

theorem prefilter_agrees_with_filter:
  assumes "ExtractPodBandwidthRequirement pq hc pod = (ul, dl, pod')"
    and "clListBandwidths cl tr = Inr bws"
    and "fst (run_state (PreFilter cl pq hc st pod) tr) = (code, st', pod'')"
  shows "pod'' = pod' \<and> code \<in> {Success, UnschedulableAndUnresolvable} \<and>
     (code = Success \<longrightarrow> (\<exists>s. getPreFilterState st' = Some s \<and> pfsUlMbps s = ul \<and> pfsDlMbps s = dl)) \<and>
     (code = UnschedulableAndUnresolvable \<longrightarrow>
        (\<forall>bw \<in> set bws. \<forall>cl2 t st2 node s2.
           clGetBandwidth cl2 t node = Inr bw \<and> getPreFilterState st2 = Some s2 \<and>
           pfsUlMbps s2 = ul \<and> pfsDlMbps s2 = dl \<longrightarrow>
           fst (run_state (Filter cl2 st2 node) t) \<noteq> Success))"
proof -
  have "fst (run_state (Filter cl2 st2 node) t) \<noteq> Success"
    if "\<not> feasibleOn (pfsUlMbps s2) (pfsDlMbps s2) bw" "clGetBandwidth cl2 t node = Inr bw"
      "getPreFilterState st2 = Some s2" for bw cl2 t node st2 s2
    using that Filter_Success [of cl2 st2 node t s2 bw] by (auto simp: feasibleOn_sufficient)
  then show ?thesis
    using assms
    by (auto simp: PreFilter_def ListBandwidths_def Let_def list_ex_iff split: prod.splits if_splits)
qed

theorem prefilter_agrees_with_filter_witness:
  "fst (fst (run_state (PreFilter (static_client [ex_idle] [] []) ex_pq ex_hc [] zero_pod) [])) = Success \<and>
   fst (run_state (Filter ex_cluster (ex_state 20 40) ''n'') []) \<noteq> Success"
proof -
  obtain pod' where p: "ExtractPodBandwidthRequirement ex_pq ex_hc zero_pod = (20, 30, pod')"
    by (simp add: ExtractPodBandwidthRequirement_def GetBandwidthFromPodAnnotations_def zero_pod_def ex_hc_def Let_def
        sless_sint)
  let ?r = "fst (run_state (PreFilter (static_client [ex_idle] [] []) ex_pq ex_hc [] zero_pod) [])"
  have f: "feasibleOn 20 30 ex_idle" by (simp add: feasibleOn_def Let_def sle_sint)
  then have "fst ?r \<noteq> UnschedulableAndUnresolvable"
    by (simp add: PreFilter_def p ListBandwidths_def Let_def split: prod.split)
  moreover obtain c s q where "?r = (c, s, q)" by (cases ?r)
  ultimately have "fst ?r = Success"
    using prefilter_agrees_with_filter [OF p, of "static_client [ex_idle] [] []" "[]" "[ex_idle]"] by auto
  moreover have "fst (run_state (Filter ex_cluster (ex_state 20 40) ''n'') []) \<noteq> Success"
    by (simp add: Filter_eq [OF ex_cluster_bw] sufficient_def sless_sint)
  ultimately show ?thesis ..
qed

end
