(* ===== verification/Resources.thy ===== *)
theory Resources
  imports K8s_Objects
begin

text \<open>
  Resource vectors as the scheduling plugins use them: \<^verbatim>\<open>framework.Resource\<close> with \<open>Add\<close>,
  \<open>SetScalar\<close> and \<open>SetMaxResource\<close> (vendored, \<^verbatim>\<open>pkg/scheduler/framework/types.go\<close>), and
  \<^verbatim>\<open>pkg/util/resource.go\<close>. Which names denote scalar resources (\<^verbatim>\<open>IsScalarResourceName\<close>) is the
  parameter \<open>sc\<close>.

  The lemmas read a vector one dimension at a time (\<open>amount\<close>), which makes the operations
  pointwise and independent of the order in which a map is visited.
\<close>

named_theorems amounts_of \<open>the amount of each dimension after an operation\<close>

section \<open>The vectors\<close>

record Resource =
  rMilliCPU :: int64
  rMemory :: int64
  rEphemeralStorage :: int64
  rAllowedPodNumber :: int64
  rScalar :: "(string, int64) gomap"

definition emptyResource :: Resource where
  "emptyResource = \<lparr>rMilliCPU = 0, rMemory = 0, rEphemeralStorage = 0, rAllowedPodNumber = 0, rScalar = []\<rparr>"

definition scalar :: "Resource \<Rightarrow> string \<Rightarrow> int64" where
  "scalar r n = (case map_of (rScalar r) n of None \<Rightarrow> 0 | Some v \<Rightarrow> v)"

definition SetScalar :: "string \<Rightarrow> int64 \<Rightarrow> Resource \<Rightarrow> Resource" where
  "SetScalar n v r = r\<lparr>rScalar := AList.update n v (rScalar r)\<rparr>"

definition addEntry :: "(string \<Rightarrow> bool) \<Rightarrow> string \<times> Quantity \<Rightarrow> Resource \<Rightarrow> Resource" where
  "addEntry sc e r =
     (let n = fst e; q = snd e
      in if n = ''cpu'' then r\<lparr>rMilliCPU := rMilliCPU r + QMilliValue q\<rparr>
         else if n = ''memory'' then r\<lparr>rMemory := rMemory r + QValue q\<rparr>
         else if n = ''pods'' then r\<lparr>rAllowedPodNumber := rAllowedPodNumber r + QValue q\<rparr>
         else if n = ''ephemeral-storage'' then r\<lparr>rEphemeralStorage := rEphemeralStorage r + QValue q\<rparr>
         else if sc n then SetScalar n (scalar r n + QValue q) r
         else r)"

definition Add :: "(string \<Rightarrow> bool) \<Rightarrow> ResourceList \<Rightarrow> Resource \<Rightarrow> Resource" where
  "Add sc rl r = fold (addEntry sc) rl r"

definition smax64 :: "int64 \<Rightarrow> int64 \<Rightarrow> int64" where
  "smax64 a b = (if a <s b then b else a)"

definition maxEntry :: "(string \<Rightarrow> bool) \<Rightarrow> string \<times> Quantity \<Rightarrow> Resource \<Rightarrow> Resource" where
  "maxEntry sc e r =
     (let n = fst e; q = snd e
      in if n = ''memory'' then r\<lparr>rMemory := smax64 (rMemory r) (QValue q)\<rparr>
         else if n = ''cpu'' then r\<lparr>rMilliCPU := smax64 (rMilliCPU r) (QMilliValue q)\<rparr>
         else if n = ''ephemeral-storage'' then r\<lparr>rEphemeralStorage := smax64 (rEphemeralStorage r) (QValue q)\<rparr>
         else if sc n then SetScalar n (smax64 (scalar r n) (QValue q)) r
         else r)"

definition SetMaxResource :: "(string \<Rightarrow> bool) \<Rightarrow> ResourceList \<Rightarrow> Resource \<Rightarrow> Resource" where
  "SetMaxResource sc rl r = fold (maxEntry sc) rl r"

definition ResourceListOf :: "Resource \<Rightarrow> ResourceList" where
  "ResourceListOf r =
     fold (\<lambda>(n, v). AList.update n (NewQuantity v)) (rScalar r)
       [(''cpu'', NewMilliQuantity (rMilliCPU r)), (''memory'', NewQuantity (rMemory r)),
        (''pods'', NewQuantity (rAllowedPodNumber r)),
        (''ephemeral-storage'', NewQuantity (rEphemeralStorage r))]"

section \<open>Effective request of a pod\<close>

text \<open>\<^verbatim>\<open>GetPodEffectiveRequest\<close>: the sum over the containers, or the largest init container if that
  is more, for each resource name.\<close>

definition maxQuantity :: "string \<times> Quantity \<Rightarrow> ResourceList \<Rightarrow> ResourceList" where
  "maxQuantity e m =
     (case map_of m (fst e) of
        Some q \<Rightarrow> if snd e \<le> q then m else AList.update (fst e) (snd e) m
      | None \<Rightarrow> AList.update (fst e) (snd e) m)"

definition sumQuantity :: "string \<times> Quantity \<Rightarrow> ResourceList \<Rightarrow> ResourceList" where
  "sumQuantity e m =
     (case map_of m (fst e) of
        Some q \<Rightarrow> AList.update (fst e) (snd e + q) m
      | None \<Rightarrow> AList.update (fst e) (snd e) m)"

definition GetPodEffectiveRequest :: "Pod \<Rightarrow> ResourceList" where
  "GetPodEffectiveRequest pod =
     (let initResources = fold (\<lambda>c. fold maxQuantity (ctrRequests c)) (podInitContainers pod) [];
          resources = fold (\<lambda>c. fold sumQuantity (ctrRequests c)) (podContainers pod) []
      in fold maxQuantity initResources resources)"

section \<open>Dimensions\<close>

datatype dim = CPU | Memory | Ephemeral | PodCount | Scalar string

fun amount :: "Resource \<Rightarrow> dim \<Rightarrow> int64" where
  "amount r CPU = rMilliCPU r"
| "amount r Memory = rMemory r"
| "amount r Ephemeral = rEphemeralStorage r"
| "amount r PodCount = rAllowedPodNumber r"
| "amount r (Scalar n) = scalar r n"

definition dim_of :: "(string \<Rightarrow> bool) \<Rightarrow> string \<Rightarrow> dim option" where
  "dim_of sc n =
     (if n = ''cpu'' then Some CPU else if n = ''memory'' then Some Memory
      else if n = ''pods'' then Some PodCount else if n = ''ephemeral-storage'' then Some Ephemeral
      else if sc n then Some (Scalar n) else None)"

definition in_dim :: "dim \<Rightarrow> Quantity \<Rightarrow> int64" where
  "in_dim d q = (if d = CPU then QMilliValue q else QValue q)"

definition listed :: "(string \<Rightarrow> bool) \<Rightarrow> ResourceList \<Rightarrow> dim \<Rightarrow> int64" where
  "listed sc rl d = sum_list (map (\<lambda>(n, q). if dim_of sc n = Some d then in_dim d q else 0) rl)"

lemma listed_simps [simp]:
  "listed sc [] d = 0"
  "listed sc ((n, q) # rl) d = (if dim_of sc n = Some d then in_dim d q else 0) + listed sc rl d"
  by (simp_all add: listed_def)

lemma scalar_simps [simp]:
  "scalar (SetScalar n v r) m = (if m = n then v else scalar r m)"
  "scalar (r\<lparr>rMilliCPU := a\<rparr>) m = scalar r m" "scalar (r\<lparr>rMemory := a\<rparr>) m = scalar r m"
  "scalar (r\<lparr>rEphemeralStorage := a\<rparr>) m = scalar r m"
  "scalar (r\<lparr>rAllowedPodNumber := a\<rparr>) m = scalar r m" "scalar emptyResource m = 0"
  by (simp_all add: scalar_def SetScalar_def emptyResource_def)

lemma amount_SetScalar [simp]: "amount (SetScalar n v r) d = (if d = Scalar n then v else amount r d)"
  by (cases d) (auto, simp_all add: SetScalar_def)

lemma SetScalar_fields [simp]:
  "rMilliCPU (SetScalar n v r) = rMilliCPU r" "rMemory (SetScalar n v r) = rMemory r"
  "rEphemeralStorage (SetScalar n v r) = rEphemeralStorage r"
  "rAllowedPodNumber (SetScalar n v r) = rAllowedPodNumber r"
  by (simp_all add: SetScalar_def)

lemma amount_empty [simp]: "amount emptyResource d = 0"
  by (cases d) (simp_all add: emptyResource_def scalar_def)

lemma amount_addEntry [amounts_of]:
  "amount (addEntry sc (n, q) r) d = amount r d + (if dim_of sc n = Some d then in_dim d q else 0)"
  by (cases d) (auto simp: addEntry_def dim_of_def in_dim_def Let_def)

lemma amount_Add [amounts_of]: "amount (Add sc rl r) d = amount r d + listed sc rl d"
proof (induction rl arbitrary: r)
  case Nil
  then show ?case by (simp add: Add_def)
next
  case (Cons e rl)
  then show ?case by (cases e) (simp add: Add_def amount_addEntry)
qed

lemma amount_maxEntry [amounts_of]:
  assumes "\<not> sc ''pods''"
  shows "amount (maxEntry sc (n, q) r) d =
     (if dim_of sc n = Some d \<and> d \<noteq> PodCount then smax64 (amount r d) (in_dim d q) else amount r d)"
  using assms by (cases d) (auto simp: maxEntry_def dim_of_def in_dim_def Let_def)

section \<open>Well-formed vectors\<close>

text \<open>Scalar resources are kept once each and only under names that denote scalar resources.\<close>

definition wf_resource :: "(string \<Rightarrow> bool) \<Rightarrow> Resource \<Rightarrow> bool" where
  "wf_resource sc r \<longleftrightarrow>
     distinct (map fst (rScalar r)) \<and> (\<forall>n \<in> fst ` set (rScalar r). dim_of sc n = Some (Scalar n))"

lemma wf_empty [simp]: "wf_resource sc emptyResource"
  by (simp add: wf_resource_def emptyResource_def)

lemma wf_SetScalar: "wf_resource sc r \<Longrightarrow> dim_of sc n = Some (Scalar n) \<Longrightarrow> wf_resource sc (SetScalar n v r)"
  by (auto simp: wf_resource_def SetScalar_def distinct_update dom_update)

lemma dim_of_scalar_name:
  "sc n \<Longrightarrow> n \<notin> {''cpu'', ''memory'', ''pods'', ''ephemeral-storage''} \<Longrightarrow> dim_of sc n = Some (Scalar n)"
  by (simp add: dim_of_def)

lemma wf_fields [simp]:
  "wf_resource sc (r\<lparr>rMilliCPU := a\<rparr>) = wf_resource sc r" "wf_resource sc (r\<lparr>rMemory := a\<rparr>) = wf_resource sc r"
  "wf_resource sc (r\<lparr>rEphemeralStorage := a\<rparr>) = wf_resource sc r"
  "wf_resource sc (r\<lparr>rAllowedPodNumber := a\<rparr>) = wf_resource sc r"
  by (simp_all add: wf_resource_def)

lemma wf_addEntry: "wf_resource sc r \<Longrightarrow> wf_resource sc (addEntry sc e r)"
  by (auto simp: addEntry_def Let_def dim_of_def intro: wf_SetScalar)

lemma wf_Add [simp]: "wf_resource sc r \<Longrightarrow> wf_resource sc (Add sc rl r)"
  unfolding Add_def by (induction rl arbitrary: r) (auto simp: wf_addEntry)

lemma dim_of_Scalar: "dim_of sc n = Some (Scalar m) \<Longrightarrow> n = m"
  by (auto simp: dim_of_def split: if_splits)

lemma listed_absent: "n \<notin> fst ` set rl \<Longrightarrow> listed sc rl (Scalar n) = 0"
  by (induction rl) (auto dest: dim_of_Scalar)

lemma listed_update:
  assumes "dim_of sc n = Some (Scalar n)" "distinct (map fst rl)"
  shows "listed sc (AList.update n (NewQuantity v) rl) d = (if d = Scalar n then v else listed sc rl d)"
  using assms by (induction rl) (auto simp: in_dim_def listed_absent dest: dim_of_Scalar)

lemma listed_update_fold:
  assumes "distinct (map fst ss)" "\<forall>n \<in> fst ` set ss. dim_of sc n = Some (Scalar n)" "distinct (map fst rl)"
  shows "listed sc (fold (\<lambda>(n, v). AList.update n (NewQuantity v)) ss rl) d =
    (case d of Scalar n \<Rightarrow> (case map_of ss n of Some v \<Rightarrow> v | None \<Rightarrow> listed sc rl d) | _ \<Rightarrow> listed sc rl d)"
  using assms
proof (induction ss arbitrary: rl)
  case Nil
  then show ?case by (simp split: dim.split)
next
  case (Cons e ss)
  obtain n v where e: "e = (n, v)" by (cases e)
  have "map_of ss n = None" using Cons.prems(1) e by (simp add: map_of_eq_None_iff)
  moreover have "distinct (map fst (AList.update n (NewQuantity v) rl))"
    using Cons.prems(3) by (rule distinct_update)
  ultimately show ?case
    using Cons.IH [of "AList.update n (NewQuantity v) rl"] Cons.prems e
    by (auto simp: listed_update split: dim.split option.split)
qed

text \<open>Turning a vector into a list and reading the list gives the vector back.\<close>

lemma listed_ResourceListOf [amounts_of]:
  assumes "wf_resource sc r"
  shows "listed sc (ResourceListOf r) d = amount r d"
proof -
  define base where "base = [(''cpu'', NewMilliQuantity (rMilliCPU r)), (''memory'', NewQuantity (rMemory r)),
        (''pods'', NewQuantity (rAllowedPodNumber r)),
        (''ephemeral-storage'', NewQuantity (rEphemeralStorage r))]"
  have b: "listed sc base d = (case d of Scalar n \<Rightarrow> 0 | _ \<Rightarrow> amount r d)" "distinct (map fst base)"
    by (cases d) (auto simp: base_def dim_of_def in_dim_def)
  have "listed sc (ResourceListOf r) d =
      (case d of Scalar n \<Rightarrow> (case map_of (rScalar r) n of Some v \<Rightarrow> v | None \<Rightarrow> listed sc base d) | _ \<Rightarrow> listed sc base d)"
    using assms listed_update_fold [of "rScalar r" sc base d] b(2)
    by (simp add: ResourceListOf_def base_def wf_resource_def)
  then show ?thesis unfolding b(1) by (cases d) (auto simp: scalar_def split: option.split)
qed

lemma amount_Add_ResourceListOf [amounts_of]:
  "wf_resource sc r \<Longrightarrow> amount (Add sc (ResourceListOf r) s) d = amount s d + amount r d"
  by (simp add: amount_Add listed_ResourceListOf)

end
