(* ===== verification/Elastic_Quota.thy ===== *)
theory Elastic_Quota
  imports Resources
begin

text \<open>
  \<^verbatim>\<open>scheduler-plugins/pkg/capacityscheduling/elasticquota.go\<close> and
  \<open>computePodResourceRequest\<close> of \<^verbatim>\<open>capacity_scheduling.go\<close>: the accounts of the elastic quotas. The
  quotas are values here, so \<open>clone\<close> is the identity, and an operation on a quota returns it.
\<close>

section \<open>Pods\<close>

definition computePodResourceRequest :: "(string \<Rightarrow> bool) \<Rightarrow> Pod \<Rightarrow> Resource" where
  "computePodResourceRequest sc pod =
     (let r1 = fold (\<lambda>c. Add sc (ctrRequests c)) (podContainers pod) emptyResource;
          r2 = fold (\<lambda>c. SetMaxResource sc (ctrRequests c)) (podInitContainers pod) r1
      in case podOverhead pod of None \<Rightarrow> r2 | Some ov \<Rightarrow> Add sc ov r2)"

section \<open>Quotas\<close>

definition UpperBoundOfMax :: int64 where "UpperBoundOfMax = MaxInt64"
definition LowerBoundOfMin :: int64 where "LowerBoundOfMin = 0"

record ElasticQuotaInfo =
  eqNamespace :: string
  eqPods :: "string list"
  eqMin :: "Resource option"
  eqMax :: "Resource option"
  eqUsed :: Resource

type_synonym ElasticQuotaInfos = "(string, ElasticQuotaInfo) gomap"

definition makeResourceListForBound :: "int64 \<Rightarrow> ResourceList" where
  "makeResourceListForBound bound =
     [(''cpu'', NewMilliQuantity bound), (''memory'', NewQuantity bound),
      (''ephemeral-storage'', NewQuantity bound)]"

definition NewResource :: "(string \<Rightarrow> bool) \<Rightarrow> ResourceList \<Rightarrow> Resource" where
  "NewResource sc rl = Add sc rl emptyResource"

definition newElasticQuotaInfo ::
    "(string \<Rightarrow> bool) \<Rightarrow> string \<Rightarrow> ResourceList option \<Rightarrow> ResourceList option \<Rightarrow> ResourceList option \<Rightarrow>
     ElasticQuotaInfo" where
  "newElasticQuotaInfo sc ns mn mx used =
     (let mn' = (case mn of None \<Rightarrow> makeResourceListForBound LowerBoundOfMin | Some rl \<Rightarrow> rl);
          mx' = (case mx of None \<Rightarrow> makeResourceListForBound UpperBoundOfMax | Some rl \<Rightarrow> rl)
      in \<lparr>eqNamespace = ns, eqPods = [], eqMin = Some (NewResource sc mn'),
          eqMax = Some (NewResource sc mx'),
          eqUsed = NewResource sc (case used of None \<Rightarrow> [] | Some rl \<Rightarrow> rl)\<rparr>)"

definition reserveResource :: "Resource \<Rightarrow> ElasticQuotaInfo \<Rightarrow> ElasticQuotaInfo" where
  "reserveResource req e =
     (let u = eqUsed e;
          u1 = u\<lparr>rMemory := rMemory u + rMemory req, rMilliCPU := rMilliCPU u + rMilliCPU req,
                 rEphemeralStorage := rEphemeralStorage u + rEphemeralStorage req,
                 rAllowedPodNumber := rAllowedPodNumber u + rAllowedPodNumber req\<rparr>
      in e\<lparr>eqUsed := fold (\<lambda>(n, v) r. SetScalar n (scalar r n + v) r) (rScalar req) u1\<rparr>)"

definition unreserveResource :: "Resource \<Rightarrow> ElasticQuotaInfo \<Rightarrow> ElasticQuotaInfo" where
  "unreserveResource req e =
     (let u = eqUsed e;
          u1 = u\<lparr>rMemory := rMemory u - rMemory req, rMilliCPU := rMilliCPU u - rMilliCPU req,
                 rEphemeralStorage := rEphemeralStorage u - rEphemeralStorage req,
                 rAllowedPodNumber := rAllowedPodNumber u - rAllowedPodNumber req\<rparr>
      in e\<lparr>eqUsed := fold (\<lambda>(n, v) r. SetScalar n (scalar r n - v) r) (rScalar req) u1\<rparr>)"

text \<open>Set operations on the keys of the pods.\<close>

definition insertKey :: "string \<Rightarrow> string list \<Rightarrow> string list" where
  "insertKey k ks = (if k \<in> set ks then ks else ks @ [k])"

definition deleteKey :: "string \<Rightarrow> string list \<Rightarrow> string list" where
  "deleteKey k ks = filter (\<lambda>x. x \<noteq> k) ks"

text \<open>An error leaves the quota as it is.\<close>

definition addPodIfNotPresent :: "(string \<Rightarrow> bool) \<Rightarrow> Pod \<Rightarrow> ElasticQuotaInfo \<Rightarrow> bool \<times> ElasticQuotaInfo" where
  "addPodIfNotPresent sc pod e =
     (case GetPodKey pod of
        None \<Rightarrow> (False, e)
      | Some key \<Rightarrow>
          if key \<in> set (eqPods e) then (True, e)
          else (True, reserveResource (computePodResourceRequest sc pod) (e\<lparr>eqPods := insertKey key (eqPods e)\<rparr>)))"

definition deletePodIfPresent :: "(string \<Rightarrow> bool) \<Rightarrow> Pod \<Rightarrow> ElasticQuotaInfo \<Rightarrow> bool \<times> ElasticQuotaInfo" where
  "deletePodIfPresent sc pod e =
     (case GetPodKey pod of
        None \<Rightarrow> (False, e)
      | Some key \<Rightarrow>
          if key \<notin> set (eqPods e) then (True, e)
          else (True, unreserveResource (computePodResourceRequest sc pod) (e\<lparr>eqPods := deleteKey key (eqPods e)\<rparr>)))"

section \<open>Comparisons\<close>

definition cmp2 :: "Resource \<Rightarrow> Resource \<Rightarrow> Resource \<Rightarrow> int64 \<Rightarrow> bool" where
  "cmp2 x1 x2 y bound =
     (if rMilliCPU y <s rMilliCPU x1 + rMilliCPU x2 then True
      else if rMemory y <s rMemory x1 + rMemory x2 then True
      else if rEphemeralStorage y <s rEphemeralStorage x1 + rEphemeralStorage x2 then True
      else if rAllowedPodNumber y <s rAllowedPodNumber x1 + rAllowedPodNumber x2 then True
      else list_ex (\<lambda>(n, q). (case map_of (rScalar y) n of None \<Rightarrow> bound | Some yq \<Rightarrow> yq) <s q + scalar x2 n)
             (rScalar x1))"

definition cmp :: "Resource \<Rightarrow> Resource \<Rightarrow> int64 \<Rightarrow> bool" where
  "cmp x y bound = cmp2 x emptyResource y bound"

definition usedOverMinWith :: "Resource \<Rightarrow> ElasticQuotaInfo \<Rightarrow> bool" where
  "usedOverMinWith req e =
     (case eqMin e of None \<Rightarrow> True | Some m \<Rightarrow> cmp2 req (eqUsed e) m LowerBoundOfMin)"

definition usedOverMaxWith :: "Resource \<Rightarrow> ElasticQuotaInfo \<Rightarrow> bool" where
  "usedOverMaxWith req e =
     (case eqMax e of None \<Rightarrow> False | Some m \<Rightarrow> cmp2 req (eqUsed e) m UpperBoundOfMax)"

definition usedOverMin :: "ElasticQuotaInfo \<Rightarrow> bool" where
  "usedOverMin e = (case eqMin e of None \<Rightarrow> True | Some m \<Rightarrow> cmp (eqUsed e) m LowerBoundOfMin)"

text \<open>Every quota has a minimum (\<open>newElasticQuotaInfo\<close>); the absent one would be a nil dereference.\<close>

definition minOf :: "ElasticQuotaInfo \<Rightarrow> Resource" where
  "minOf e = (case eqMin e of Some m \<Rightarrow> m | None \<Rightarrow> emptyResource)"

definition aggregatedUsedOverMinWith :: "(string \<Rightarrow> bool) \<Rightarrow> Resource \<Rightarrow> ElasticQuotaInfos \<Rightarrow> bool" where
  "aggregatedUsedOverMinWith sc podRequest es =
     (let (used, mn) = fold (\<lambda>(_, e) (u, m). (Add sc (ResourceListOf (eqUsed e)) u, Add sc (ResourceListOf (minOf e)) m))
                         es (emptyResource, emptyResource)
      in cmp (Add sc (ResourceListOf podRequest) used) mn LowerBoundOfMin)"

end
