(* ===== verification/Preemption_Base.thy ===== *)
theory Preemption_Base
  imports K8s_Objects Sched_Framework "HOL-Library.Multiset" "HOL-Library.Sublist"
begin

text \<open>
  What the plugins that preempt pods share: the removal of a pod from the list of a node
  (\<^verbatim>\<open>NodeInfo.RemovePod\<close> of the scheduling framework), the result of a dry run, and the split of victims by
  disruption budgets, which the plugins carry as identical copies (\<^verbatim>\<open>filterPodsWithPDBViolation\<close>).
\<close>

section \<open>Dry runs\<close>

text \<open>The last pod of the slice takes the place of the removed one.\<close>

definition removeFromSlice :: "Pod list \<Rightarrow> string \<Rightarrow> Pod list option" where
  "removeFromSlice ps k =
     (case List.extract (\<lambda>p. GetPodKey p = Some k) ps of
        None \<Rightarrow> None
      | Some (xs, _, ys) \<Rightarrow> Some (if ys = [] then xs else xs @ last ys # butlast ys))"

datatype run_error = NoKey | NoCorrespondingPod string | ExtensionFailed | ListerFailed api_error

datatype selection = Rejected Code | RunFailed run_error | Victims "Pod list" nat

section \<open>Disruption budgets\<close>

text \<open>\<open>pdbMatches\<close> is the label selector, which matches nothing when it is nil, empty or invalid.\<close>

record PodDisruptionBudget =
  pdbNamespace :: string
  pdbMatches :: "(string, string) gomap \<Rightarrow> bool"
  pdbDisruptedPods :: "string list"
  pdbDisruptionsAllowed :: int32

definition pdbCounts :: "Pod \<Rightarrow> PodDisruptionBudget \<Rightarrow> bool" where
  "pdbCounts pod pdb =
     (podLabels pod \<noteq> [] \<and> pdbNamespace pdb = podNamespace pod \<and> pdbMatches pdb (podLabels pod) \<and>
      podName pod \<notin> set (pdbDisruptedPods pdb))"

fun pdbDecrement :: "Pod \<Rightarrow> (PodDisruptionBudget \<times> int32) list \<Rightarrow> (PodDisruptionBudget \<times> int32) list \<times> bool" where
  "pdbDecrement pod [] = ([], False)"
| "pdbDecrement pod ((pdb, allowed) # rest) =
     (case pdbDecrement pod rest of
        (rest', violated) \<Rightarrow>
          if pdbCounts pod pdb then ((pdb, allowed - 1) # rest', allowed - 1 <s 0 \<or> violated)
          else ((pdb, allowed) # rest', violated))"

fun pdbSplit :: "Pod list \<Rightarrow> (PodDisruptionBudget \<times> int32) list \<Rightarrow> Pod list \<times> Pod list" where
  "pdbSplit [] budget = ([], [])"
| "pdbSplit (p # ps) budget =
     (case pdbDecrement p budget of
        (budget', violated) \<Rightarrow>
          (case pdbSplit ps budget' of
             (vs, ns) \<Rightarrow> if violated then (p # vs, ns) else (vs, p # ns)))"

definition filterPodsWithPDBViolation :: "Pod list \<Rightarrow> PodDisruptionBudget list \<Rightarrow> Pod list \<times> Pod list" where
  "filterPodsWithPDBViolation pods pdbs = pdbSplit pods (map (\<lambda>pdb. (pdb, pdbDisruptionsAllowed pdb)) pdbs)"

lemma pdbSplit_parts:
  "pdbSplit ps b = (vs, ns) \<Longrightarrow> subseq vs ps \<and> subseq ns ps \<and> mset vs + mset ns = mset ps"
  by (induction ps arbitrary: b vs ns) (auto split: prod.splits if_splits)

lemma pdbSplit_set: "pdbSplit ps b = (vs, ns) \<Longrightarrow> set vs \<union> set ns = set ps"
  using pdbSplit_parts [of ps b vs ns] by (metis set_mset_mset set_mset_union)

lemma subseq_mset_subset: "subseq xs ys \<Longrightarrow> mset xs \<subseteq># mset ys"
  by (induction rule: list_emb.induct) (auto simp: subset_mset.add_increasing intro: subset_mset.order_trans)


lemma mset_diff_parts:
  assumes "b \<subseteq># B" "c \<subseteq># C"
  shows "A + (B + C) - (b + c) = A + (B - b) + (C - c)"
proof (rule multiset_eqI)
  fix x
  have "count b x \<le> count B x" "count c x \<le> count C x" using assms by (simp_all add: mset_subset_eq_count)
  then show "count (A + (B + C) - (b + c)) x = count (A + (B - b) + (C - c)) x" by simp
qed


lemma pdbDecrement_member:
  "(pdb, a) \<in> set budget \<Longrightarrow> pdbDecrement pod budget = (budget', violated) \<Longrightarrow>
     (pdb, if pdbCounts pod pdb then a - 1 else a) \<in> set budget' \<and> (pdbCounts pod pdb \<and> a - 1 <s 0 \<longrightarrow> violated)"
  by (induction pod budget arbitrary: budget' violated rule: pdbDecrement.induct)
    (auto split: prod.splits if_splits)

lemma sint_dec32: "- (2 ^ 31) < sint a \<Longrightarrow> sint (a - 1 :: int32) = sint a - 1"
  using sint_word_of_int32 [of "sint a - 1"] sint_range_size [of a] by (simp add: word_size)

lemma pdbSplit_budget:
  assumes "pdbSplit ps budget = (vs, ns)" "(pdb, a) \<in> set budget" "- (2 ^ 31) \<le> sint a - int (length ps)"
  shows "int (length (filter (\<lambda>p. pdbCounts p pdb) ns)) \<le> max 0 (sint a)"
  using assms
proof (induction ps arbitrary: budget vs ns a)
  case (Cons p ps)
  obtain budget' violated where d: "pdbDecrement p budget = (budget', violated)"
    by (cases "pdbDecrement p budget")
  obtain vs' ns' where s: "pdbSplit ps budget' = (vs', ns')" by (cases "pdbSplit ps budget'")
  have ns: "ns = (if violated then ns' else p # ns')"
    using Cons.prems(1) d s by (auto split: if_splits)
  note m = pdbDecrement_member [OF Cons.prems(2) d]
  show ?case
  proof (cases "pdbCounts p pdb")
    case True
    have a1: "sint (a - 1) = sint a - 1" using Cons.prems(3) by (intro sint_dec32) simp
    with Cons.IH [OF s, of "a - 1"] m True Cons.prems(3)
    have "int (length (filter (\<lambda>p. pdbCounts p pdb) ns')) \<le> max 0 (sint a - 1)" by simp
    moreover have "1 \<le> sint a" if "\<not> violated" using m True that a1 by (auto simp: word_sless_alt)
    ultimately show ?thesis using True ns by (auto simp: max_def split: if_splits)
  next
    case False
    with Cons.IH [OF s, of a] m Cons.prems(3) ns show ?thesis by auto
  qed
qed simp

end
