(* ===== verification/Capacity_Scheduling.thy ===== *)
theory Capacity_Scheduling
  imports Elastic_Quota Preemption_Base
begin

text \<open>
  \<^verbatim>\<open>scheduler-plugins/pkg/capacityscheduling/capacity_scheduling.go\<close>: the plugin that admits pods
  against elastic quotas and selects preemption victims. The state is the map of quotas; the
  cycle state holds the snapshot \<open>PreFilter\<close> takes, which \<open>AddPod\<close> and \<open>RemovePod\<close> change during
  a preemption dry run. What the framework supplies is passed in: the node list, the nominated
  pods, the verdict of the filter plugins (\<open>filt\<close>) and the two calls of \<^verbatim>\<open>sort.Slice\<close>, whose
  order among equal elements Go leaves open.
\<close>

section \<open>State\<close>

record PreFilterState =
  podReq :: Resource
  nominatedPodsReqInEQWithPodReq :: Resource
  nominatedPodsReqWithPodReq :: Resource

record CycleState =
  csSnapshot :: "ElasticQuotaInfos option"
  csPreFilter :: "PreFilterState option"

record ElasticQuota =
  quotaNamespace :: string
  quotaMin :: "ResourceList option"
  quotaMax :: "ResourceList option"

record Handle =
  hNodes :: "string list option"
  hNominated :: "string \<Rightarrow> Pod list"

section \<open>PreFilter\<close>

definition nominated_step ::
    "(string \<Rightarrow> bool) \<Rightarrow> ElasticQuotaInfos \<Rightarrow> Pod \<Rightarrow> Pod \<Rightarrow> Resource \<times> Resource \<Rightarrow> Resource \<times> Resource" where
  "nominated_step sc infos pod p acc =
     (if podUID p = podUID pod then acc
      else case map_of infos (podNamespace p) of
             None \<Rightarrow> acc
           | Some info \<Rightarrow>
               (let req = ResourceListOf (computePodResourceRequest sc p)
                in if podNamespace p = podNamespace pod \<and> PodPriority pod \<le>s PodPriority p
                   then (Add sc req (fst acc), Add sc req (snd acc))
                   else if podNamespace p \<noteq> podNamespace pod \<and> \<not> usedOverMin info
                   then (fst acc, Add sc req (snd acc))
                   else acc))"

definition nominatedRequests ::
    "(string \<Rightarrow> bool) \<Rightarrow> ElasticQuotaInfos \<Rightarrow> Handle \<Rightarrow> string list \<Rightarrow> Pod \<Rightarrow> Resource \<times> Resource" where
  "nominatedRequests sc infos h nodes pod =
     fold (\<lambda>node. fold (nominated_step sc infos pod) (hNominated h node)) nodes (emptyResource, emptyResource)"

text \<open>\<open>infos\<close> are the quotas when the snapshot is taken. The quotas of nominated pods are looked up in the plugin's own map,
  without the lock, when the handlers may have changed it: \<open>live\<close>.\<close>

definition PreFilter ::
    "(string \<Rightarrow> bool) \<Rightarrow> Handle \<Rightarrow> ElasticQuotaInfos \<Rightarrow> ElasticQuotaInfos \<Rightarrow> Pod \<Rightarrow> CycleState \<Rightarrow> Code \<times> CycleState" where
  "PreFilter sc h live infos pod cs0 =
     (let cs = cs0\<lparr>csSnapshot := Some infos\<rparr>; req = computePodResourceRequest sc pod
      in case map_of infos (podNamespace pod) of
           None \<Rightarrow>
             (Success, cs\<lparr>csPreFilter := Some \<lparr>podReq = req, nominatedPodsReqInEQWithPodReq = emptyResource,
                nominatedPodsReqWithPodReq = emptyResource\<rparr>\<rparr>)
         | Some eq \<Rightarrow>
             (case hNodes h of
                None \<Rightarrow> (Error, cs)
              | Some nodes \<Rightarrow>
                  (let (inEQ0, all0) = nominatedRequests sc live h nodes pod;
                       inEQ = Add sc (ResourceListOf req) inEQ0;
                       all = Add sc (ResourceListOf req) all0;
                       cs' = cs\<lparr>csPreFilter := Some \<lparr>podReq = req, nominatedPodsReqInEQWithPodReq = inEQ,
                                nominatedPodsReqWithPodReq = all\<rparr>\<rparr>
                   in if usedOverMaxWith inEQ eq then (Unschedulable, cs')
                      else if aggregatedUsedOverMinWith sc all infos then (Unschedulable, cs')
                      else (Success, cs'))))"

section \<open>Dry run and reservation\<close>

definition AddPod :: "(string \<Rightarrow> bool) \<Rightarrow> Pod \<Rightarrow> CycleState \<Rightarrow> Code \<times> CycleState" where
  "AddPod sc podToAdd cs =
     (case csSnapshot cs of
        None \<Rightarrow> (Error, cs)
      | Some infos \<Rightarrow>
          (case map_of infos (podNamespace podToAdd) of
             None \<Rightarrow> (Success, cs)
           | Some e \<Rightarrow>
               (Success, cs\<lparr>csSnapshot :=
                  Some (AList.update (podNamespace podToAdd) (snd (addPodIfNotPresent sc podToAdd e)) infos)\<rparr>)))"

definition RemovePod :: "(string \<Rightarrow> bool) \<Rightarrow> Pod \<Rightarrow> CycleState \<Rightarrow> Code \<times> CycleState" where
  "RemovePod sc podToRemove cs =
     (case csSnapshot cs of
        None \<Rightarrow> (Error, cs)
      | Some infos \<Rightarrow>
          (case map_of infos (podNamespace podToRemove) of
             None \<Rightarrow> (Success, cs)
           | Some e \<Rightarrow>
               (Success, cs\<lparr>csSnapshot :=
                  Some (AList.update (podNamespace podToRemove) (snd (deletePodIfPresent sc podToRemove e)) infos)\<rparr>)))"

definition Reserve :: "(string \<Rightarrow> bool) \<Rightarrow> Pod \<Rightarrow> ElasticQuotaInfos \<Rightarrow> Code \<times> ElasticQuotaInfos" where
  "Reserve sc pod infos =
     (case map_of infos (podNamespace pod) of
        None \<Rightarrow> (Success, infos)
      | Some e \<Rightarrow>
          (case addPodIfNotPresent sc pod e of
             (ok, e') \<Rightarrow> (if ok then Success else Error, AList.update (podNamespace pod) e' infos)))"

definition Unreserve :: "(string \<Rightarrow> bool) \<Rightarrow> Pod \<Rightarrow> ElasticQuotaInfos \<Rightarrow> ElasticQuotaInfos" where
  "Unreserve sc pod infos =
     (case map_of infos (podNamespace pod) of
        None \<Rightarrow> infos
      | Some e \<Rightarrow> AList.update (podNamespace pod) (snd (deletePodIfPresent sc pod e)) infos)"

section \<open>Events\<close>

definition addElasticQuota :: "(string \<Rightarrow> bool) \<Rightarrow> ElasticQuota \<Rightarrow> ElasticQuotaInfos \<Rightarrow> ElasticQuotaInfos" where
  "addElasticQuota sc eq infos =
     (if has_key infos (quotaNamespace eq) then infos
      else AList.update (quotaNamespace eq)
             (newElasticQuotaInfo sc (quotaNamespace eq) (quotaMin eq) (quotaMax eq) None) infos)"

text \<open>The namespace of an object never changes, so the old and the new quota have the same key and
  the pods and the usage that the new record takes over are shared with no other record.\<close>

definition updateElasticQuota ::
    "(string \<Rightarrow> bool) \<Rightarrow> ElasticQuota \<Rightarrow> ElasticQuota \<Rightarrow> ElasticQuotaInfos \<Rightarrow> ElasticQuotaInfos" where
  "updateElasticQuota sc oldEQ newEQ infos =
     (let new = newElasticQuotaInfo sc (quotaNamespace newEQ) (quotaMin newEQ) (quotaMax newEQ) None;
          new' = (case map_of infos (quotaNamespace oldEQ) of
                    None \<Rightarrow> new
                  | Some old \<Rightarrow> new\<lparr>eqPods := eqPods old, eqUsed := eqUsed old\<rparr>)
      in AList.update (quotaNamespace newEQ) new' infos)"

definition deleteElasticQuota :: "ElasticQuota \<Rightarrow> ElasticQuotaInfos \<Rightarrow> ElasticQuotaInfos" where
  "deleteElasticQuota eq infos = AList.delete (quotaNamespace eq) infos"

text \<open>\<open>eqList\<close> is the answer of the API server to the listing of the quotas of the pod's namespace.\<close>

definition addPod ::
    "(string \<Rightarrow> bool) \<Rightarrow> ElasticQuota list option \<Rightarrow> Pod \<Rightarrow> ElasticQuotaInfos \<Rightarrow> ElasticQuotaInfos" where
  "addPod sc eqList pod infos =
     (case map_of infos (podNamespace pod) of
        Some e \<Rightarrow> AList.update (podNamespace pod) (snd (addPodIfNotPresent sc pod e)) infos
      | None \<Rightarrow>
          (case eqList of
             None \<Rightarrow> infos
           | Some [] \<Rightarrow> infos
           | Some (eq # _) \<Rightarrow>
               AList.update (quotaNamespace eq)
                 (snd (addPodIfNotPresent sc pod
                    (newElasticQuotaInfo sc (quotaNamespace eq) (quotaMin eq) (quotaMax eq) None))) infos))"

definition deletePod :: "(string \<Rightarrow> bool) \<Rightarrow> Pod \<Rightarrow> ElasticQuotaInfos \<Rightarrow> ElasticQuotaInfos" where
  "deletePod sc pod infos =
     (case map_of infos (podNamespace pod) of
        None \<Rightarrow> infos
      | Some e \<Rightarrow> AList.update (podNamespace pod) (snd (deletePodIfPresent sc pod e)) infos)"

definition updatePod :: "(string \<Rightarrow> bool) \<Rightarrow> Pod \<Rightarrow> Pod \<Rightarrow> ElasticQuotaInfos \<Rightarrow> ElasticQuotaInfos" where
  "updatePod sc oldPod newPod infos =
     (if podPhase oldPod = PodSucceeded \<or> podPhase oldPod = PodFailed then infos
      else if podPhase newPod \<noteq> PodRunning \<and> podPhase newPod \<noteq> PodPending then deletePod sc newPod infos
      else infos)"

definition assignedPod :: "Pod \<Rightarrow> bool" where
  "assignedPod pod = (podNodeName pod \<noteq> '''')"

section \<open>Preemption\<close>

definition PodEligibleToPreemptOthers ::
    "(string \<Rightarrow> Pod list option) \<Rightarrow> CycleState \<Rightarrow> Pod \<Rightarrow> Code \<Rightarrow> bool" where
  "PodEligibleToPreemptOthers nodeGet cs pod nominatedNodeStatus =
     (if podPreemptionPolicy pod = Some ''Never'' then False
      else (case csPreFilter cs of
        None \<Rightarrow> False
      | Some pfs \<Rightarrow>
          if podNominatedNodeName pod = '''' then True
          else if nominatedNodeStatus = UnschedulableAndUnresolvable then True
          else (case csSnapshot cs of
            None \<Rightarrow> True
          | Some infos \<Rightarrow>
              (case nodeGet (podNominatedNodeName pod) of
                 None \<Rightarrow> True
               | Some pods \<Rightarrow>
                   (case map_of infos (podNamespace pod) of
                      Some eq \<Rightarrow>
                        (let overMin = usedOverMinWith (nominatedPodsReqInEQWithPodReq pfs) eq
                         in \<not> list_ex (\<lambda>p. podDeletionTimestamp p \<noteq> None \<and>
                              (case map_of infos (podNamespace p) of
                                 None \<Rightarrow> False
                               | Some eqInfo \<Rightarrow>
                                   podNamespace p = podNamespace pod \<and> PodPriority p <s PodPriority pod \<or>
                                   podNamespace p \<noteq> podNamespace pod \<and> \<not> overMin \<and> usedOverMin eqInfo)) pods)
                    | None \<Rightarrow>
                        \<not> list_ex (\<lambda>p. \<not> has_key infos (podNamespace p) \<and>
                              podDeletionTimestamp p \<noteq> None \<and> PodPriority p <s PodPriority pod) pods)))))"

text \<open>The node of the dry run: its pods and the cycle state.\<close>

type_synonym dry_run = "Pod list \<times> CycleState"

definition removePod :: "(string \<Rightarrow> bool) \<Rightarrow> Pod \<Rightarrow> dry_run \<Rightarrow> run_error + dry_run" where
  "removePod sc p st =
     (case GetPodKey p of
        None \<Rightarrow> Inl NoKey
      | Some k \<Rightarrow>
          (case removeFromSlice (fst st) k of
             None \<Rightarrow> Inl (NoCorrespondingPod (podName p))
           | Some ps \<Rightarrow>
               (case RemovePod sc p (snd st) of
                  (code, cs) \<Rightarrow> if code = Success then Inr (ps, cs) else Inl ExtensionFailed)))"

definition addPodBack :: "(string \<Rightarrow> bool) \<Rightarrow> Pod \<Rightarrow> dry_run \<Rightarrow> run_error + dry_run" where
  "addPodBack sc p st =
     (case AddPod sc p (snd st) of
        (code, cs) \<Rightarrow> if code = Success then Inr (fst st @ [p], cs) else Inl ExtensionFailed)"

definition snapshotOf :: "CycleState \<Rightarrow> ElasticQuotaInfos" where
  "snapshotOf cs = (case csSnapshot cs of None \<Rightarrow> [] | Some infos \<Rightarrow> infos)"

text \<open>Whether a pod on the node is a potential victim. \<open>overMin\<close> tells whether the preemptor goes over
  the minimum of its quota; the usage of the other quotas is the one after the removals so far.\<close>

definition potentialVictim :: "Pod \<Rightarrow> bool \<Rightarrow> bool \<Rightarrow> ElasticQuotaInfos \<Rightarrow> Pod \<Rightarrow> bool" where
  "potentialVictim pod withQuota overMin infos p =
     (if withQuota then
        (case map_of infos (podNamespace p) of
           None \<Rightarrow> False
         | Some eqInfo \<Rightarrow>
             if overMin then podNamespace p = podNamespace pod \<and> PodPriority p <s PodPriority pod
             else podNamespace p \<noteq> podNamespace pod \<and> usedOverMin eqInfo)
      else \<not> has_key infos (podNamespace p) \<and> PodPriority p <s PodPriority pod)"

fun selectPotential ::
    "(string \<Rightarrow> bool) \<Rightarrow> Pod \<Rightarrow> bool \<Rightarrow> bool \<Rightarrow> Pod list \<Rightarrow> dry_run \<Rightarrow> Pod list \<Rightarrow>
     run_error + (Pod list \<times> dry_run)" where
  "selectPotential sc pod withQuota overMin [] st victims = Inr (victims, st)"
| "selectPotential sc pod withQuota overMin (p # ps) st victims =
     (if potentialVictim pod withQuota overMin (snapshotOf (snd st)) p then
        (case removePod sc p st of
           Inl e \<Rightarrow> Inl e
         | Inr st' \<Rightarrow> selectPotential sc pod withQuota overMin ps st' (victims @ [p]))
      else selectPotential sc pod withQuota overMin ps st victims)"

section \<open>Victims\<close>

definition quotaExceeded ::
    "(string \<Rightarrow> bool) \<Rightarrow> Pod \<Rightarrow> bool \<Rightarrow> Resource \<Rightarrow> Resource \<Rightarrow> CycleState \<Rightarrow> bool" where
  "quotaExceeded sc pod withQuota inEQ all cs =
     (withQuota \<and>
      ((case map_of (snapshotOf cs) (podNamespace pod) of
          None \<Rightarrow> False | Some eq \<Rightarrow> usedOverMaxWith inEQ eq) \<or>
       aggregatedUsedOverMinWith sc all (snapshotOf cs)))"

text \<open>One reprieve: put the pod back, and take it away again when the preemptor does not fit, and
  once more when a quota is exceeded. \<open>filt\<close> is the verdict of the filter plugins on the node.\<close>

definition reprievePod ::
    "(string \<Rightarrow> bool) \<Rightarrow> (dry_run \<Rightarrow> bool) \<Rightarrow> Pod \<Rightarrow> bool \<Rightarrow> PreFilterState \<Rightarrow> Pod \<Rightarrow> dry_run \<Rightarrow>
     run_error + (bool \<times> Pod list \<times> dry_run)" where
  "reprievePod sc filt pod withQuota pfs pi st =
     (case addPodBack sc pi st of
        Inl e \<Rightarrow> Inl e
      | Inr st1 \<Rightarrow>
          (let fits = filt st1
           in case (if fits then Inr ([], st1)
                    else case removePod sc pi st1 of Inl e \<Rightarrow> Inl e | Inr st2 \<Rightarrow> Inr ([pi], st2)) of
                Inl e \<Rightarrow> Inl e
              | Inr (vs, st2) \<Rightarrow>
                  if quotaExceeded sc pod withQuota (nominatedPodsReqInEQWithPodReq pfs)
                       (nominatedPodsReqWithPodReq pfs) (snd st2)
                  then (case removePod sc pi st2 of
                          Inl e \<Rightarrow> Inl e | Inr st3 \<Rightarrow> Inr (fits, vs @ [pi], st3))
                  else Inr (fits, vs, st2)))"

fun reprieveAll ::
    "(string \<Rightarrow> bool) \<Rightarrow> (dry_run \<Rightarrow> bool) \<Rightarrow> Pod \<Rightarrow> bool \<Rightarrow> PreFilterState \<Rightarrow> Pod list \<Rightarrow> dry_run \<Rightarrow>
     Pod list \<Rightarrow> nat \<Rightarrow> run_error + (Pod list \<times> nat \<times> dry_run)" where
  "reprieveAll sc filt pod withQuota pfs [] st victims n = Inr (victims, n, st)"
| "reprieveAll sc filt pod withQuota pfs (pi # pis) st victims n =
     (case reprievePod sc filt pod withQuota pfs pi st of
        Inl e \<Rightarrow> Inl e
      | Inr (fits, vs, st') \<Rightarrow>
          reprieveAll sc filt pod withQuota pfs pis st' (victims @ vs) (if fits then n else n + 1))"

definition select_reprieve ::
    "(string \<Rightarrow> bool) \<Rightarrow> (dry_run \<Rightarrow> bool) \<Rightarrow> Pod \<Rightarrow> bool \<Rightarrow> PreFilterState \<Rightarrow> Pod list \<times> Pod list \<Rightarrow> dry_run \<Rightarrow> selection" where
  "select_reprieve sc filt pod withQuota pfs split st =
     (case reprieveAll sc filt pod withQuota pfs (fst split) st [] 0 of
        Inl e \<Rightarrow> RunFailed e
      | Inr (victims, n, st') \<Rightarrow>
          (case reprieveAll sc filt pod withQuota pfs (snd split) st' victims 0 of
             Inl e \<Rightarrow> RunFailed e
           | Inr (victims', _, _) \<Rightarrow> Victims victims' n))"

definition SelectVictimsOnNode ::
    "(string \<Rightarrow> bool) \<Rightarrow> (Pod list \<Rightarrow> Pod list) \<Rightarrow> (Pod list \<Rightarrow> Pod list) \<Rightarrow> (dry_run \<Rightarrow> Code) \<Rightarrow>
     CycleState \<Rightarrow> Pod \<Rightarrow> Pod list \<Rightarrow> PodDisruptionBudget list \<Rightarrow> selection" where
  "SelectVictimsOnNode sc sortAscending sortImportant filt cs pod nodePods pdbs =
     (case csSnapshot cs of
        None \<Rightarrow> Rejected Unschedulable
      | Some infos \<Rightarrow>
        (case csPreFilter cs of
           None \<Rightarrow> Rejected Unschedulable
         | Some pfs \<Rightarrow>
           (let withQuota = has_key infos (podNamespace pod);
                overMin = (case map_of infos (podNamespace pod) of
                          None \<Rightarrow> False | Some eq \<Rightarrow> usedOverMinWith (nominatedPodsReqInEQWithPodReq pfs) eq);
                sorted = sortAscending nodePods
            in case selectPotential sc pod withQuota overMin sorted (sorted, cs) [] of
                 Inl e \<Rightarrow> RunFailed e
               | Inr (potential, st) \<Rightarrow>
                   if potential = [] then Rejected UnschedulableAndUnresolvable
                   else if filt st \<noteq> Success then Rejected (filt st)
                   else if quotaExceeded sc pod withQuota (podReq pfs) (podReq pfs) (snd st)
                   then Rejected Unschedulable
                   else select_reprieve sc (\<lambda>st. filt st = Success) pod withQuota pfs
                          (filterPodsWithPDBViolation (sortImportant potential) pdbs) st)))"

end
