(* ===== verification/Usage_Account.thy ===== *)
theory Usage_Account
  imports Go_Prelude
begin

text \<open>
  The interface of an account that holds a set of keys and the sum of their weights in every
  dimension, changed by adding a holder if it is absent and deleting it if it is present.
\<close>

locale usage_account =
  fixes key :: "'p \<Rightarrow> 'k option"
    and legit :: "'p \<Rightarrow> bool"
    and weight :: "'k \<Rightarrow> 'd \<Rightarrow> 'v :: ab_group_add"
    and keys :: "'q \<Rightarrow> 'k list"
    and usage :: "'q \<Rightarrow> 'd \<Rightarrow> 'v"
    and add :: "'p \<Rightarrow> 'q \<Rightarrow> 'q"
    and del :: "'p \<Rightarrow> 'q \<Rightarrow> 'q"
  assumes add_new: "legit p \<Longrightarrow> key p = Some k \<Longrightarrow> k \<notin> set (keys q) \<Longrightarrow>
      keys (add p q) = keys q @ [k] \<and> usage (add p q) d = usage q d + weight k d"
    and add_old: "key p = None \<or> (\<exists>k. key p = Some k \<and> k \<in> set (keys q)) \<Longrightarrow> add p q = q"
    and del_old: "legit p \<Longrightarrow> key p = Some k \<Longrightarrow> k \<in> set (keys q) \<Longrightarrow>
      keys (del p q) = filter (\<lambda>x. x \<noteq> k) (keys q) \<and> usage (del p q) d = usage q d - weight k d"
    and del_new: "key p = None \<or> (\<exists>k. key p = Some k \<and> k \<notin> set (keys q)) \<Longrightarrow> del p q = q"
begin

definition balanced :: "'q \<Rightarrow> bool" where
  "balanced q \<longleftrightarrow> distinct (keys q) \<and> (\<forall>d. usage q d = sum_list (map (\<lambda>k. weight k d) (keys q)))"

lemma sum_filter:
  "distinct ks \<Longrightarrow> k \<in> set ks \<Longrightarrow>
     sum_list (map (\<lambda>k. weight k d) (filter (\<lambda>x. x \<noteq> k) ks)) = sum_list (map (\<lambda>k. weight k d) ks) - weight k d"
proof (induction ks)
  case (Cons x ks)
  have "filter (\<lambda>y. y \<noteq> k) ks = ks" if "k \<notin> set ks" using that by (metis (mono_tags, lifting) filter_True)
  with Cons show ?case by (cases "x = k") (auto simp: algebra_simps)
qed simp

lemma balanced_add:
  assumes "balanced q" "legit p"
  shows "balanced (add p q)"
proof (cases "key p = None \<or> (\<exists>k. key p = Some k \<and> k \<in> set (keys q))")
  case True
  with assms show ?thesis by (simp add: add_old)
next
  case False
  then obtain k where "key p = Some k" "k \<notin> set (keys q)" by auto
  with assms add_new [of p k q] show ?thesis by (simp add: balanced_def)
qed

lemma balanced_del:
  assumes "balanced q" "legit p"
  shows "balanced (del p q)"
proof (cases "key p = None \<or> (\<exists>k. key p = Some k \<and> k \<notin> set (keys q))")
  case True
  with assms show ?thesis by (simp add: del_new)
next
  case False
  then obtain k where "key p = Some k" "k \<in> set (keys q)" by auto
  with assms del_old [of p k q] show ?thesis by (simp add: balanced_def sum_filter)
qed

lemma del_add:
  assumes "legit p" "key p = Some k" "k \<notin> set (keys q)"
  shows "keys (del p (add p q)) = keys q \<and> usage (del p (add p q)) d = usage q d"
proof -
  have a: "keys (add p q) = keys q @ [k]" "usage (add p q) d = usage q d + weight k d"
    using add_new [OF assms] by auto
  then have "k \<in> set (keys (add p q))" by simp
  from del_old [OF assms(1,2) this, of d] a assms(3) show ?thesis by (auto intro: filter_True)
qed

end

end
