(* ===== verification/Capacity_Invariants.thy ===== *)
theory Capacity_Invariants
  imports Capacity_Scheduling Usage_Account "HOL-Library.Sublist"
begin

text \<open>
  Lemmas about the quota accounts: each operation read dimension by dimension, the accounts as an
  instance of \<open>usage_account\<close>, and the events of the plugin as a step relation.
\<close>

section \<open>Amounts\<close>

lemma amount_scalar_fold:
  assumes "distinct (map fst ss)"
  shows "amount (fold (\<lambda>(n, v) r. SetScalar n (f (scalar r n) v) r) ss r) d =
    (case d of Scalar n \<Rightarrow> (case map_of ss n of None \<Rightarrow> amount r d | Some v \<Rightarrow> f (amount r d) v) | _ \<Rightarrow> amount r d)"
  using assms
proof (induction ss arbitrary: r)
  case Nil
  then show ?case by (simp split: dim.split)
next
  case (Cons e ss)
  obtain n v where e: "e = (n, v)" by (cases e)
  have "map_of ss n = None" using Cons.prems e by (simp add: map_of_eq_None_iff)
  with Cons e show ?case by (cases d) (auto split: option.split)
qed

lemma amount_four [simp]:
  "d \<noteq> Memory \<Longrightarrow> amount (r\<lparr>rMemory := a\<rparr>) d = amount r d"
  "d \<noteq> CPU \<Longrightarrow> amount (r\<lparr>rMilliCPU := a\<rparr>) d = amount r d"
  "d \<noteq> Ephemeral \<Longrightarrow> amount (r\<lparr>rEphemeralStorage := a\<rparr>) d = amount r d"
  "d \<noteq> PodCount \<Longrightarrow> amount (r\<lparr>rAllowedPodNumber := a\<rparr>) d = amount r d"
  by (cases d; simp)+

lemma amount_reserve [amounts_of]:
  assumes "distinct (map fst (rScalar req))"
  shows "amount (eqUsed (reserveResource req e)) d = amount (eqUsed e) d + amount req d"
  unfolding reserveResource_def Let_def
  by (simp add: amount_scalar_fold [OF assms, of "\<lambda>a v. a + v"], cases d)
    (auto simp: scalar_def [of req] split: option.split)

lemma amount_unreserve [amounts_of]:
  assumes "distinct (map fst (rScalar req))"
  shows "amount (eqUsed (unreserveResource req e)) d = amount (eqUsed e) d - amount req d"
  unfolding unreserveResource_def Let_def
  by (simp add: amount_scalar_fold [OF assms, of "\<lambda>a v. a - v"], cases d)
    (auto simp: scalar_def [of req] split: option.split)

lemma reserve_fields [simp]:
  "eqPods (reserveResource req e) = eqPods e" "eqPods (unreserveResource req e) = eqPods e"
  "eqMax (reserveResource req e) = eqMax e" "eqMin (reserveResource req e) = eqMin e"
  "eqMax (unreserveResource req e) = eqMax e" "eqMin (unreserveResource req e) = eqMin e"
  by (simp_all add: reserveResource_def unreserveResource_def Let_def)

section \<open>Well-formedness\<close>

lemma wf_maxEntry:
  assumes "\<not> sc ''pods''" "wf_resource sc r"
  shows "wf_resource sc (maxEntry sc e r)"
proof -
  have "fst e \<noteq> ''pods''" if "sc (fst e)" using assms(1) that by auto
  with assms show ?thesis by (auto simp: maxEntry_def Let_def intro!: wf_SetScalar dim_of_scalar_name)
qed

lemma wf_SetMax: "\<not> sc ''pods'' \<Longrightarrow> wf_resource sc r \<Longrightarrow> wf_resource sc (SetMaxResource sc rl r)"
  unfolding SetMaxResource_def by (induction rl arbitrary: r) (auto simp: wf_maxEntry)

lemma wf_fold: "(\<And>x r. wf_resource sc r \<Longrightarrow> wf_resource sc (f x r)) \<Longrightarrow> wf_resource sc r \<Longrightarrow> wf_resource sc (fold f xs r)"
  by (induction xs arbitrary: r) auto

lemma wf_computePod: "\<not> sc ''pods'' \<Longrightarrow> wf_resource sc (computePodResourceRequest sc pod)"
  by (auto simp: computePodResourceRequest_def Let_def intro!: wf_fold wf_SetMax wf_Add split: option.split)

lemma wf_scalar_fold:
  "wf_resource sc r \<Longrightarrow> \<forall>n \<in> fst ` set ss. dim_of sc n = Some (Scalar n) \<Longrightarrow>
     wf_resource sc (fold (\<lambda>(n, v) r. SetScalar n (f r n v) r) ss r)"
  by (induction ss arbitrary: r) (auto simp: wf_SetScalar)

lemma wf_reserve:
  assumes "wf_resource sc (eqUsed e)" "wf_resource sc req"
  shows "wf_resource sc (eqUsed (reserveResource req e))" "wf_resource sc (eqUsed (unreserveResource req e))"
  using assms unfolding reserveResource_def unreserveResource_def Let_def
  by (auto intro!: wf_scalar_fold) (auto simp: wf_resource_def)

lemma wf_distinct: "wf_resource sc r \<Longrightarrow> distinct (map fst (rScalar r))"
  by (simp add: wf_resource_def)

section \<open>Quotas as accounts\<close>

text \<open>
  \<open>req\<close> gives the resource request of the pod with a UID: requests do not change over the life of a
  pod. Pods whose request it is are legitimate.
\<close>

definition honest :: "(string \<Rightarrow> bool) \<Rightarrow> (string \<Rightarrow> Resource) \<Rightarrow> Pod \<Rightarrow> bool" where
  "honest sc req pod \<longleftrightarrow> \<not> sc ''pods'' \<and> computePodResourceRequest sc pod = req (podUID pod)"

interpretation quota: usage_account GetPodKey "honest sc req" "\<lambda>k. amount (req k)" eqPods
  "\<lambda>e. amount (eqUsed e)" "\<lambda>p e. snd (addPodIfNotPresent sc p e)" "\<lambda>p e. snd (deletePodIfPresent sc p e)"
  for sc req
proof
  fix p k d and q :: ElasticQuotaInfo
  have r: "distinct (map fst (rScalar (req k)))" if "honest sc req p" "GetPodKey p = Some k"
    using that wf_distinct [OF wf_computePod [of sc p]] by (auto simp: honest_def GetPodKey_def split: if_splits)
  {
    assume h: "honest sc req p" "GetPodKey p = Some k" and "k \<notin> set (eqPods q)"
    with r [OF h] show "eqPods (snd (addPodIfNotPresent sc p q)) = eqPods q @ [k] \<and>
        amount (eqUsed (snd (addPodIfNotPresent sc p q))) d = amount (eqUsed q) d + amount (req k) d"
      by (auto simp: honest_def addPodIfNotPresent_def GetPodKey_def insertKey_def amount_reserve split: if_splits)
  }
  {
    assume h: "honest sc req p" "GetPodKey p = Some k" and "k \<in> set (eqPods q)"
    with r [OF h] show "eqPods (snd (deletePodIfPresent sc p q)) = filter (\<lambda>x. x \<noteq> k) (eqPods q) \<and>
        amount (eqUsed (snd (deletePodIfPresent sc p q))) d = amount (eqUsed q) d - amount (req k) d"
      by (auto simp: honest_def deletePodIfPresent_def GetPodKey_def deleteKey_def amount_unreserve split: if_splits)
  }
qed (auto simp: addPodIfNotPresent_def deletePodIfPresent_def)


definition balanced_quota :: "(string \<Rightarrow> Resource) \<Rightarrow> ElasticQuotaInfo \<Rightarrow> bool" where
  "balanced_quota req e \<longleftrightarrow>
     distinct (eqPods e) \<and> (\<forall>d. amount (eqUsed e) d = sum_list (map (\<lambda>k. amount (req k) d) (eqPods e)))"

definition quota_ok :: "(string \<Rightarrow> bool) \<Rightarrow> (string \<Rightarrow> Resource) \<Rightarrow> ElasticQuotaInfo \<Rightarrow> bool" where
  "quota_ok sc req e \<longleftrightarrow>
     balanced_quota req e \<and> wf_resource sc (eqUsed e) \<and> wf_resource sc (minOf e) \<and>
     eqMin e \<noteq> None \<and> eqMax e \<noteq> None"

lemma minOf_fields [simp]:
  "minOf (reserveResource r e) = minOf e" "minOf (unreserveResource r e) = minOf e"
  "minOf (e\<lparr>eqPods := ks\<rparr>) = minOf e" "minOf (e\<lparr>eqUsed := u\<rparr>) = minOf e"
  by (simp_all add: minOf_def)

lemma quota_ok_add:
  assumes "quota_ok sc req e" "honest sc req p"
  shows "quota_ok sc req (snd (addPodIfNotPresent sc p e))"
proof -
  have "balanced_quota req (snd (addPodIfNotPresent sc p e))"
    using assms quota.balanced_add [of req e sc p]
    by (simp add: quota_ok_def balanced_quota_def quota.balanced_def)
  then show ?thesis
    using assms by (auto simp: quota_ok_def addPodIfNotPresent_def honest_def split: option.split
        intro!: wf_reserve wf_computePod dest: sym)
qed

lemma quota_ok_del:
  assumes "quota_ok sc req e" "honest sc req p"
  shows "quota_ok sc req (snd (deletePodIfPresent sc p e))"
proof -
  have "balanced_quota req (snd (deletePodIfPresent sc p e))"
    using assms quota.balanced_del [of req e sc p]
    by (simp add: quota_ok_def balanced_quota_def quota.balanced_def)
  then show ?thesis
    using assms by (auto simp: quota_ok_def deletePodIfPresent_def honest_def split: option.split
        intro!: wf_reserve wf_computePod dest: sym)
qed

lemma quota_ok_new: "quota_ok sc req (newElasticQuotaInfo sc ns mn mx None)"
  by (auto simp: quota_ok_def balanced_quota_def newElasticQuotaInfo_def NewResource_def amount_Add Let_def minOf_def)

section \<open>Events as steps\<close>

definition quotas_ok :: "(string \<Rightarrow> bool) \<Rightarrow> (string \<Rightarrow> Resource) \<Rightarrow> ElasticQuotaInfos \<Rightarrow> bool" where
  "quotas_ok sc req infos \<longleftrightarrow>
     distinct (map fst infos) \<and> (\<forall>ns e. map_of infos ns = Some e \<longrightarrow> quota_ok sc req e)"

text \<open>
  Every handler of the plugin that changes the quotas, in any order. A quota keeps its namespace,
  and the API server lists the quotas of the namespace it is asked for.
\<close>

inductive cap_step :: "(string \<Rightarrow> bool) \<Rightarrow> (string \<Rightarrow> Resource) \<Rightarrow> ElasticQuotaInfos \<Rightarrow> ElasticQuotaInfos \<Rightarrow> bool"
  for sc req where
  step_addQuota: "cap_step sc req infos (addElasticQuota sc q infos)"
| step_updateQuota: "quotaNamespace q = quotaNamespace q' \<Longrightarrow>
    cap_step sc req infos (updateElasticQuota sc q q' infos)"
| step_deleteQuota: "cap_step sc req infos (deleteElasticQuota q infos)"
| step_addPod: "honest sc req p \<Longrightarrow> cap_step sc req infos (addPod sc eqList p infos)"
| step_updatePod: "honest sc req p' \<Longrightarrow> cap_step sc req infos (updatePod sc p p' infos)"
| step_deletePod: "honest sc req p \<Longrightarrow> cap_step sc req infos (deletePod sc p infos)"
| step_Reserve: "honest sc req p \<Longrightarrow> cap_step sc req infos (snd (Reserve sc p infos))"
| step_Unreserve: "honest sc req p \<Longrightarrow> cap_step sc req infos (Unreserve sc p infos)"

lemma quotas_ok_update:
  "quotas_ok sc req infos \<Longrightarrow> quota_ok sc req e \<Longrightarrow> quotas_ok sc req (AList.update ns e infos)"
  by (simp add: quotas_ok_def distinct_update)

lemma quotas_ok_lookup: "quotas_ok sc req infos \<Longrightarrow> map_of infos ns = Some e \<Longrightarrow> quota_ok sc req e"
  by (auto simp: quotas_ok_def)

lemma quotas_ok_step:
  assumes "cap_step sc req infos infos'" "quotas_ok sc req infos"
  shows "quotas_ok sc req infos'"
  using assms
proof cases
  case (step_updateQuota q q')
  have "quota_ok sc req (new\<lparr>eqPods := eqPods e, eqUsed := eqUsed e\<rparr>)"
    if "quota_ok sc req e" "quota_ok sc req new" for e new
    using that by (simp add: quota_ok_def balanced_quota_def)
  with step_updateQuota assms(2) show ?thesis
    by (auto simp: updateElasticQuota_def Let_def quota_ok_new quotas_ok_lookup
        intro!: quotas_ok_update split: option.split)
next
  case (step_deleteQuota q)
  with assms(2) show ?thesis
    by (auto simp: deleteElasticQuota_def quotas_ok_def distinct_delete)
qed (auto simp: addElasticQuota_def addPod_def updatePod_def deletePod_def Reserve_def Unreserve_def
    quota_ok_new quota_ok_add quota_ok_del quotas_ok_lookup split_beta
    intro!: quotas_ok_update split: option.split list.split)

lemma quotas_ok_reachable:
  assumes "(cap_step sc req)\<^sup>*\<^sup>* [] infos"
  shows "quotas_ok sc req infos"
  using assms
proof (induction rule: rtranclp_induct)
  case base
  show ?case by (simp add: quotas_ok_def)
next
  case (step infos infos')
  then show ?case by (blast intro: quotas_ok_step)
qed

section \<open>Aggregates\<close>

definition totalUsed :: "ElasticQuotaInfos \<Rightarrow> dim \<Rightarrow> int64" where
  "totalUsed es d = sum_list (map (\<lambda>(_, e). amount (eqUsed e) d) es)"

definition totalMin :: "ElasticQuotaInfos \<Rightarrow> dim \<Rightarrow> int64" where
  "totalMin es d = sum_list (map (\<lambda>(_, e). amount (minOf e) d) es)"

definition basic :: "dim \<Rightarrow> bool" where
  "basic d \<longleftrightarrow> d \<in> {CPU, Memory, Ephemeral, PodCount}"

lemma amount_aggregate:
  assumes "\<forall>(ns, e) \<in> set es. wf_resource sc (eqUsed e) \<and> wf_resource sc (minOf e)"
  shows "amount (fst (fold (\<lambda>(_, e) (u, m). (Add sc (ResourceListOf (eqUsed e)) u, Add sc (ResourceListOf (minOf e)) m))
      es (u, m))) d = amount u d + totalUsed es d \<and>
    amount (snd (fold (\<lambda>(_, e) (u, m). (Add sc (ResourceListOf (eqUsed e)) u, Add sc (ResourceListOf (minOf e)) m))
      es (u, m))) d = amount m d + totalMin es d"
  using assms
proof (induction es arbitrary: u m)
  case Nil
  then show ?case by (simp add: totalUsed_def totalMin_def)
next
  case (Cons a es)
  then show ?case by (cases a) (auto simp: totalUsed_def totalMin_def amount_Add_ResourceListOf)
qed

text \<open>What a comparison looks at: the four fixed dimensions, and the scalar resources its first argument lists, against a bound
  where the limit does not list them.\<close>

definition compared :: "Resource \<Rightarrow> dim \<Rightarrow> bool" where
  "compared r d \<longleftrightarrow> basic d \<or> (\<exists>n \<in> fst ` set (rScalar r). d = Scalar n)"

fun limit :: "Resource \<Rightarrow> int64 \<Rightarrow> dim \<Rightarrow> int64" where
  "limit y bound (Scalar n) = (case map_of (rScalar y) n of None \<Rightarrow> bound | Some v \<Rightarrow> v)"
| "limit y bound d = amount y d"

lemma limit_zero [simp]: "limit y 0 d = amount y d"
  by (cases d) (simp_all add: scalar_def)

lemma cmp2_compared:
  assumes "\<not> cmp2 x1 x2 y bound" "wf_resource sc x1" "compared x1 d"
  shows "amount x1 d + amount x2 d \<le>s limit y bound d"
proof (cases "basic d")
  case True
  then show ?thesis using assms(1) by (auto simp: cmp2_def basic_def sless_sint sle_sint split: if_splits)
next
  case False
  then obtain n q where d: "d = Scalar n" "(n, q) \<in> set (rScalar x1)" using assms(3) by (auto simp: compared_def)
  then have "scalar x1 n = q" using assms(2) by (simp add: scalar_def wf_resource_def)
  moreover from assms(1) d(2) have "\<not> (case map_of (rScalar y) n of None \<Rightarrow> bound | Some yq \<Rightarrow> yq) <s q + scalar x2 n"
    by (force simp: cmp2_def list_ex_iff split: if_splits)
  ultimately show ?thesis using d(1) by (simp add: sless_sint sle_sint)
qed

text \<open>A vector that is added keeps its scalar resources listed.\<close>

lemma addEntry_keys:
  "fst ` set (rScalar (addEntry sc (n, q) r)) = fst ` set (rScalar r) \<union> (if dim_of sc n = Some (Scalar n) then {n} else {})"
  by (auto simp: addEntry_def dim_of_def Let_def SetScalar_def dom_update)

lemma Add_keys:
  "fst ` set (rScalar (Add sc rl r)) = fst ` set (rScalar r) \<union> {n \<in> fst ` set rl. dim_of sc n = Some (Scalar n)}"
proof (induction rl arbitrary: r)
  case (Cons e rl)
  obtain n q where "e = (n, q)" by (cases e)
  then show ?case using Cons.IH [of "addEntry sc e r"] by (auto simp: Add_def addEntry_keys)
qed (simp add: Add_def)

lemma ResourceListOf_keys: "fst ` set (rScalar r) \<subseteq> fst ` set (ResourceListOf r)"
proof -
  have "fst ` set ss \<union> fst ` set rl \<subseteq> fst ` set (fold (\<lambda>(n, v). AList.update n (NewQuantity v)) ss rl)"
    for ss :: "(string \<times> int64) list" and rl
  proof (induction ss arbitrary: rl)
    case (Cons a ss)
    obtain n v where a: "a = (n, v)" by (cases a)
    from Cons.IH [of "AList.update n (NewQuantity v) rl"] show ?case by (auto simp: a dom_update)
  qed simp
  then show ?thesis unfolding ResourceListOf_def by blast
qed

lemma compared_added:
  assumes "wf_resource sc r" "compared r d"
  shows "compared (Add sc (ResourceListOf r) s) d"
  using assms ResourceListOf_keys [of r] unfolding compared_def wf_resource_def Add_keys by blast

lemma not_compared: "\<not> compared r d \<Longrightarrow> amount r d = 0"
proof (cases d)
  case (Scalar n)
  assume "\<not> compared r d"
  with Scalar have "map_of (rScalar r) n = None" by (simp add: compared_def map_of_eq_None_iff)
  with Scalar show ?thesis by (simp add: scalar_def)
qed (simp_all add: compared_def basic_def)

lemma not_aggregated:
  assumes "\<not> aggregatedUsedOverMinWith sc r es" "wf_resource sc r" "compared r d"
    and "\<forall>(ns, e) \<in> set es. wf_resource sc (eqUsed e) \<and> wf_resource sc (minOf e)"
  shows "totalUsed es d + amount r d \<le>s totalMin es d"
proof -
  let ?f = "fold (\<lambda>(_, e) (u, m). (Add sc (ResourceListOf (eqUsed e)) u, Add sc (ResourceListOf (minOf e)) m))
      es (emptyResource, emptyResource)"
  have "wf_resource sc (fst (fold (\<lambda>(_, e) (u, m). (Add sc (ResourceListOf (eqUsed e)) u, Add sc (ResourceListOf (minOf e)) m))
      es (u, m)))" if "wf_resource sc u" for u m
    using that by (induction es arbitrary: u m) auto
  then have wf: "wf_resource sc (Add sc (ResourceListOf r) (fst ?f))" by simp
  have "\<not> cmp2 (Add sc (ResourceListOf r) (fst ?f)) emptyResource (snd ?f) LowerBoundOfMin"
    using assms(1) by (simp add: aggregatedUsedOverMinWith_def cmp_def split_beta)
  from cmp2_compared [OF this wf compared_added [OF assms(2,3)]] amount_aggregate [OF assms(4), of emptyResource emptyResource d] assms(2)
  show ?thesis by (simp add: amount_Add_ResourceListOf LowerBoundOfMin_def)
qed

lemma totalUsed_update:
  assumes "distinct (map fst es)" "map_of es ns = Some e"
  shows "totalUsed (AList.update ns e' es) d = totalUsed es d - amount (eqUsed e) d + amount (eqUsed e') d \<and>
    totalMin (AList.update ns e' es) d = totalMin es d - amount (minOf e) d + amount (minOf e') d"
  using assms
proof (induction es)
  case (Cons a es)
  then show ?case
    by (cases a) (auto simp: totalUsed_def totalMin_def algebra_simps)
qed simp

end
