(* ===== verification/Capacity_Properties.thy ===== *)
theory Capacity_Properties
  imports Capacity_Invariants
begin

text \<open>
  The properties of capacity scheduling: the usage of a quota is the sum of the requests of its
  pods in every reachable state, an admitted pod keeps the quotas within their bounds, and which
  pods a preemption may evict.
\<close>

section \<open>Usage\<close>

text \<open>
  C17. Whatever order quota and pod events, reservations and releases come in, the recorded usage
  of every quota is exactly the sum of the resource requests of the pods it holds, in every
  dimension, and it holds each pod once. Pods do not change their requests.
\<close>

theorem quota_usage_exact:
  assumes "(cap_step sc req)\<^sup>*\<^sup>* [] infos" and "map_of infos ns = Some e"
  shows "distinct (eqPods e) \<and> amount (eqUsed e) d = sum_list (map (\<lambda>k. amount (req k) d) (eqPods e))"
  using quotas_ok_lookup [OF quotas_ok_reachable [OF assms(1)] assms(2)]
  by (simp add: quota_ok_def balanced_quota_def)

definition ex_quota_pod :: "string \<Rightarrow> Pod" where
  "ex_quota_pod uid = zero_pod\<lparr>podName := uid, podNamespace := ''d'', podUID := uid,
     podContainers := [\<lparr>ctrName = ''c'', ctrRequests = [(''cpu'', 500), (''g'', 2000)], ctrLimits = [], ctrSeccompProfile = None\<rparr>]\<rparr>"

definition ex_quota :: ElasticQuota where
  "ex_quota = \<lparr>quotaNamespace = ''d'', quotaMin = Some [(''cpu'', 2000), (''memory'', 2000), (''g'', 4000)],
     quotaMax = Some [(''cpu'', 4000), (''memory'', 4000), (''g'', 8000)]\<rparr>"

definition ex_scalar :: "string \<Rightarrow> bool" where
  "ex_scalar n = (n = ''g'')"

definition ex_request_of :: "string \<Rightarrow> Resource" where
  "ex_request_of uid = computePodResourceRequest ex_scalar (ex_quota_pod uid)"

definition ex_infos :: ElasticQuotaInfos where
  "ex_infos = addElasticQuota ex_scalar ex_quota []"

lemma ex_honest: "honest ex_scalar ex_request_of (ex_quota_pod uid)"
  by (simp add: honest_def ex_scalar_def ex_request_of_def ex_quota_pod_def)

lemma ex_request_of: "ex_request_of uid = \<lparr>rMilliCPU = 500, rMemory = 0, rEphemeralStorage = 0,
    rAllowedPodNumber = 0, rScalar = [(''g'', 2)]\<rparr>"
  by (simp add: ex_request_of_def ex_quota_pod_def computePodResourceRequest_def zero_pod_def emptyResource_def
      Add_def addEntry_def ex_scalar_def SetScalar_def scalar_def QMilliValue_def QValue_def Let_def)

theorem quota_usage_exact_witness:
  "\<exists>e. map_of (addPod ex_scalar None (ex_quota_pod ''b'') (snd (Reserve ex_scalar (ex_quota_pod ''a'') ex_infos))) ''d'' = Some e \<and>
     eqPods e = [''a'', ''b''] \<and> amount (eqUsed e) CPU = 1000"
proof -
  let ?s = "addPod ex_scalar None (ex_quota_pod ''b'') (snd (Reserve ex_scalar (ex_quota_pod ''a'') ex_infos))"
  have "cap_step ex_scalar ex_request_of [] ex_infos"
    unfolding ex_infos_def by (rule step_addQuota)
  then have r: "(cap_step ex_scalar ex_request_of)\<^sup>*\<^sup>* [] ?s"
    using step_Reserve [OF ex_honest] step_addPod [OF ex_honest]
    by (meson rtranclp.rtrancl_into_rtrancl rtranclp.rtrancl_refl)
  have ids: "podUID (ex_quota_pod u) = u" "podNamespace (ex_quota_pod u) = ''d''" for u
    by (simp_all add: ex_quota_pod_def)
  obtain e where e: "map_of ?s ''d'' = Some e" "eqPods e = [''a'', ''b'']"
    by (simp add: addPod_def Reserve_def ex_infos_def addElasticQuota_def ex_quota_def ids split_beta
        addPodIfNotPresent_def GetPodKey_def insertKey_def newElasticQuotaInfo_def Let_def)
  with quota_usage_exact [OF r e(1), of CPU] show ?thesis by (auto simp: ex_request_of)
qed

section \<open>Admission\<close>

lemma nominated_none:
  "(\<And>node. hNominated h node = []) \<Longrightarrow> nominatedRequests sc infos h nodes pod = (emptyResource, emptyResource)"
  unfolding nominatedRequests_def by (induction nodes) simp_all

text \<open>
  C18. When no other pod is nominated, a pod that \<open>PreFilter\<close> accepts and \<open>Reserve\<close> records is charged with its request, and
  afterwards its quota is within the maximum and all quotas together within the sum of the minima, in every resource
  that is compared: CPU, memory, ephemeral storage, pod count, and the scalar resources the pod asks for (with no limit for one that the
  maximum does not list). In a scalar resource it does not ask for, which is not compared, the usage stays what it was. Sums are 64-bit, as in the code.
\<close>

theorem admitted_pod_respects_quota:
  assumes ok: "quotas_ok sc req infos" "honest sc req pod" "podUID pod \<noteq> ''''"
    and eq: "map_of infos (podNamespace pod) = Some eq" "podUID pod \<notin> set (eqPods eq)"
    and none: "\<And>node. hNominated h node = []"
    and accepted: "fst (PreFilter sc h live infos pod cs) = Success"
    and reserved: "Reserve sc pod infos = (code, infos')"
  shows "code = Success \<and>
     (\<exists>eq' mx. map_of infos' (podNamespace pod) = Some eq' \<and> eqMax eq' = Some mx \<and>
        (\<forall>d. amount (eqUsed eq') d = amount (eqUsed eq) d + amount (computePodResourceRequest sc pod) d \<and>
           (if compared (computePodResourceRequest sc pod) d
            then amount (eqUsed eq') d \<le>s limit mx UpperBoundOfMax d \<and> totalUsed infos' d \<le>s totalMin infos' d
            else amount (eqUsed eq') d = amount (eqUsed eq) d)))"
proof -
  let ?r = "computePodResourceRequest sc pod"
  let ?n = "Add sc (ResourceListOf ?r) emptyResource"
  have wf: "wf_resource sc ?r" by (rule wf_computePod) (use ok(2) in \<open>simp add: honest_def\<close>)
  have eq_ok: "quota_ok sc req eq" by (rule quotas_ok_lookup [OF ok(1) eq(1)])
  then obtain mx where mx: "eqMax eq = Some mx" by (auto simp: quota_ok_def)
  obtain nodes where nodes: "hNodes h = Some nodes"
    using accepted eq(1) by (auto simp: PreFilter_def Let_def split: option.splits)
  have acc: "\<not> usedOverMaxWith ?n eq" "\<not> aggregatedUsedOverMinWith sc ?n infos"
    using accepted eq(1) nodes nominated_none [OF none, of sc live nodes pod]
    by (auto simp: PreFilter_def Let_def split: if_splits)
  define eq' where "eq' = reserveResource ?r (eq\<lparr>eqPods := insertKey (podUID pod) (eqPods eq)\<rparr>)"
  have res: "code = Success" "infos' = AList.update (podNamespace pod) eq' infos"
    using reserved eq ok(3) by (auto simp: Reserve_def addPodIfNotPresent_def GetPodKey_def eq'_def)
  have used: "amount (eqUsed eq') d = amount (eqUsed eq) d + amount ?r d" "minOf eq' = minOf eq" "eqMax eq' = Some mx" for d
    by (simp_all add: eq'_def amount_reserve [OF wf_distinct [OF wf]] mx)
  have wfs: "\<forall>(ns, e) \<in> set infos. wf_resource sc (eqUsed e) \<and> wf_resource sc (minOf e)"
    using ok(1) by (auto simp: quotas_ok_def quota_ok_def dest!: map_of_is_SomeI [rotated])
  have bounded: "amount (eqUsed eq') d \<le>s limit mx UpperBoundOfMax d \<and> totalUsed infos' d \<le>s totalMin infos' d"
    if "compared ?r d" for d
  proof
    note c = compared_added [OF wf that, of emptyResource]
    have "amount ?n d + amount (eqUsed eq) d \<le>s limit mx UpperBoundOfMax d"
      using acc(1) mx cmp2_compared [OF _ _ c, of "eqUsed eq" mx UpperBoundOfMax sc] by (simp add: usedOverMaxWith_def)
    then show "amount (eqUsed eq') d \<le>s limit mx UpperBoundOfMax d"
      by (simp add: used amount_Add_ResourceListOf [OF wf] add.commute)
    have "totalUsed infos d + amount ?n d \<le>s totalMin infos d" by (intro not_aggregated [OF acc(2) _ c wfs]) simp
    then show "totalUsed infos' d \<le>s totalMin infos' d"
      using totalUsed_update [of infos "podNamespace pod" eq eq' d] ok(1) eq(1)
      by (simp add: res used quotas_ok_def amount_Add_ResourceListOf [OF wf] algebra_simps)
  qed
  show ?thesis
    using res(1) used bounded not_compared [of ?r] by (auto simp: res(2))
qed

theorem admitted_pod_respects_quota_witness:
  "\<exists>eq'. map_of (snd (Reserve ex_scalar (ex_quota_pod ''a'') ex_infos)) ''d'' = Some eq' \<and>
     amount (eqUsed eq') CPU = 500 \<and> amount (eqUsed eq') (Scalar ''g'') = 2 \<and>
     amount (eqUsed eq') (Scalar ''g'') \<le>s 8"
proof -
  let ?h = "\<lparr>hNodes = Some [''n''], hNominated = (\<lambda>_. [])\<rparr>"
  let ?cs = "\<lparr>csSnapshot = None, csPreFilter = None\<rparr>"
  define eq where "eq = newElasticQuotaInfo ex_scalar ''d'' (quotaMin ex_quota) (quotaMax ex_quota) None"
  have ids: "podUID (ex_quota_pod u) = u" "podNamespace (ex_quota_pod u) = ''d''" for u
    by (simp_all add: ex_quota_pod_def)
  have infos: "ex_infos = [(''d'', eq)]"
    by (simp add: ex_infos_def eq_def addElasticQuota_def ex_quota_def)
  have eqv: "eq = \<lparr>eqNamespace = ''d'', eqPods = [],
      eqMin = Some \<lparr>rMilliCPU = 2000, rMemory = 2, rEphemeralStorage = 0, rAllowedPodNumber = 0, rScalar = [(''g'', 4)]\<rparr>,
      eqMax = Some \<lparr>rMilliCPU = 4000, rMemory = 4, rEphemeralStorage = 0, rAllowedPodNumber = 0, rScalar = [(''g'', 8)]\<rparr>,
      eqUsed = emptyResource\<rparr>"
    by (simp add: eq_def newElasticQuotaInfo_def ex_quota_def NewResource_def Add_def addEntry_def emptyResource_def
        QMilliValue_def QValue_def ex_scalar_def SetScalar_def scalar_def Let_def)
  have "quotas_ok ex_scalar ex_request_of ex_infos"
    by (simp add: infos quotas_ok_def eq_def quota_ok_new)
  moreover have "fst (PreFilter ex_scalar ?h [] ex_infos (ex_quota_pod ''a'') ?cs) = Success"
    by (simp add: PreFilter_def infos ids nominatedRequests_def Let_def ex_request_of [unfolded ex_request_of_def]
        usedOverMaxWith_def aggregatedUsedOverMinWith_def cmp_def cmp2_def eqv minOf_def emptyResource_def
        ResourceListOf_def Add_def addEntry_def SetScalar_def scalar_def ex_scalar_def NewQuantity_def
        NewMilliQuantity_def QMilliValue_def QValue_def LowerBoundOfMin_def sless_sint)
  moreover have "map_of ex_infos ''d'' = Some eq" "eqPods eq = []" "amount (eqUsed eq) d = 0" for d
    by (simp_all add: infos) (simp_all add: eqv)
  ultimately obtain eq' mx where e: "map_of (snd (Reserve ex_scalar (ex_quota_pod ''a'') ex_infos)) ''d'' = Some eq'" "eqMax eq' = Some mx"
    and d: "\<forall>d. amount (eqUsed eq') d = amount (ex_request_of ''a'') d \<and>
      (if compared (ex_request_of ''a'') d
       then amount (eqUsed eq') d \<le>s limit mx UpperBoundOfMax d \<and>
         totalUsed (snd (Reserve ex_scalar (ex_quota_pod ''a'') ex_infos)) d \<le>s totalMin (snd (Reserve ex_scalar (ex_quota_pod ''a'') ex_infos)) d
       else amount (eqUsed eq') d = amount (eqUsed eq) d)"
    using admitted_pod_respects_quota [OF _ ex_honest, of ex_infos "''a''" eq ?h "[]" ?cs
        "fst (Reserve ex_scalar (ex_quota_pod ''a'') ex_infos)" "snd (Reserve ex_scalar (ex_quota_pod ''a'') ex_infos)"]
    by (simp add: ids ex_request_of_def) (elim conjE exE, blast)
  have "mx = \<lparr>rMilliCPU = 4000, rMemory = 4, rEphemeralStorage = 0, rAllowedPodNumber = 0, rScalar = [(''g'', 8)]\<rparr>"
    using e by (auto simp: infos Reserve_def ids addPodIfNotPresent_def GetPodKey_def reserveResource_def Let_def eqv)
  with d [THEN spec, of CPU] d [THEN spec, of "Scalar ''g''"] e(1) show ?thesis
    by (simp add: ex_request_of compared_def scalar_def)
qed


text \<open>
  Releasing a pod right after reserving it gives its quota back: the same pods and, in every
  dimension, the same usage, while every other quota is untouched.
\<close>

theorem unreserve_restores_quota:
  assumes "honest sc req pod" "podUID pod \<noteq> ''''" "map_of infos (podNamespace pod) = Some eq"
    and "podUID pod \<notin> set (eqPods eq)"
  shows "let infos' = Unreserve sc pod (snd (Reserve sc pod infos))
     in (\<exists>eq'. map_of infos' (podNamespace pod) = Some eq' \<and> eqPods eq' = eqPods eq \<and>
           (\<forall>d. amount (eqUsed eq') d = amount (eqUsed eq) d)) \<and>
        (\<forall>ns. ns \<noteq> podNamespace pod \<longrightarrow> map_of infos' ns = map_of infos ns)"
  using assms quota.del_add [OF assms(1), of "podUID pod" eq]
  by (auto simp: Unreserve_def Reserve_def split_beta GetPodKey_def)

theorem unreserve_restores_quota_witness:
  "\<exists>eq'. map_of (Unreserve ex_scalar (ex_quota_pod ''a'') (snd (Reserve ex_scalar (ex_quota_pod ''a'') ex_infos))) ''d'' = Some eq' \<and>
     eqPods eq' = []"
proof -
  have "map_of ex_infos ''d'' = Some (newElasticQuotaInfo ex_scalar ''d'' (quotaMin ex_quota) (quotaMax ex_quota) None)"
    by (simp add: ex_infos_def addElasticQuota_def ex_quota_def)
  moreover have "podUID (ex_quota_pod ''a'') = ''a''" "podNamespace (ex_quota_pod ''a'') = ''d''"
    by (simp_all add: ex_quota_pod_def)
  ultimately show ?thesis
    using unreserve_restores_quota [OF ex_honest [of "''a''"], of ex_infos]
    by (auto simp: Let_def newElasticQuotaInfo_def)
qed

section \<open>Requests of pods\<close>

text \<open>All entries of a dimension in the resource lists of a list of containers.\<close>

definition entries_in :: "(string \<Rightarrow> bool) \<Rightarrow> dim \<Rightarrow> ResourceList \<Rightarrow> int64 list" where
  "entries_in sc d rl = map (in_dim d \<circ> snd) (filter (\<lambda>e. dim_of sc (fst e) = Some d) rl)"

lemma amount_SetMax:
  assumes "\<not> sc ''pods''" "d \<noteq> PodCount"
  shows "amount (SetMaxResource sc rl r) d = fold (\<lambda>v m. smax64 m v) (entries_in sc d rl) (amount r d)"
proof (induction rl arbitrary: r)
  case Nil
  then show ?case by (simp add: SetMaxResource_def entries_in_def)
next
  case (Cons e rl)
  then show ?case
    using assms by (cases e) (simp add: SetMaxResource_def entries_in_def amount_maxEntry)
qed

lemma amount_fold_Add:
  "amount (fold (\<lambda>c. Add sc (f c)) cs r) d = amount r d + sum_list (map (\<lambda>c. listed sc (f c) d) cs)"
  by (induction cs arbitrary: r) (simp_all add: amount_Add algebra_simps)

lemma amount_fold_SetMax:
  assumes "\<not> sc ''pods''" "d \<noteq> PodCount"
  shows "amount (fold (\<lambda>c. SetMaxResource sc (f c)) cs r) d =
    fold (\<lambda>v m. smax64 m v) (concat (map (\<lambda>c. entries_in sc d (f c)) cs)) (amount r d)"
  using assms by (induction cs arbitrary: r) (simp_all add: amount_SetMax)

text \<open>
  The request of a pod, as documented, in every dimension but the pod count: the sum over its
  containers, raised to the largest request of any init container, plus the overhead.
\<close>

theorem pod_request_is_effective_request:
  assumes "\<not> sc ''pods''" "d \<noteq> PodCount"
  shows "amount (computePodResourceRequest sc pod) d =
     fold (\<lambda>v m. smax64 m v) (concat (map (\<lambda>c. entries_in sc d (ctrRequests c)) (podInitContainers pod)))
       (sum_list (map (\<lambda>c. listed sc (ctrRequests c) d) (podContainers pod))) +
     (case podOverhead pod of None \<Rightarrow> 0 | Some ov \<Rightarrow> listed sc ov d)"
  using assms
  by (simp add: computePodResourceRequest_def Let_def amount_fold_Add amount_fold_SetMax amount_Add
      split: option.split)

theorem pod_request_is_effective_request_witness:
  "amount (computePodResourceRequest ex_scalar (zero_pod\<lparr>
     podInitContainers := [\<lparr>ctrName = ''i'', ctrRequests = [(''cpu'', 2000), (''memory'', 3000)], ctrLimits = [], ctrSeccompProfile = None\<rparr>],
     podContainers := [\<lparr>ctrName = ''a'', ctrRequests = [(''cpu'', 2000), (''memory'', 1000)], ctrLimits = [], ctrSeccompProfile = None\<rparr>,
                       \<lparr>ctrName = ''b'', ctrRequests = [(''cpu'', 1000), (''memory'', 1000)], ctrLimits = [], ctrSeccompProfile = None\<rparr>]\<rparr>)) CPU = 3000"
  by (subst pod_request_is_effective_request)
    (simp_all add: ex_scalar_def zero_pod_def entries_in_def dim_of_def in_dim_def QMilliValue_def smax64_def sless_sint)


section \<open>Preemption\<close>












definition ex_prio_pod :: "string \<Rightarrow> int32 \<Rightarrow> Pod" where
  "ex_prio_pod uid prio = zero_pod\<lparr>podName := uid, podNamespace := ''x'', podUID := uid, podPriority := Some prio\<rparr>"

definition ex_cycle :: "ElasticQuotaInfos \<Rightarrow> Resource \<Rightarrow> CycleState" where
  "ex_cycle infos r = \<lparr>csSnapshot = Some infos,
     csPreFilter = Some \<lparr>podReq = emptyResource, nominatedPodsReqInEQWithPodReq = r, nominatedPodsReqWithPodReq = r\<rparr>\<rparr>"

lemma ex_prio_simps [simp]:
  "podName (ex_prio_pod u k) = u" "podNamespace (ex_prio_pod u k) = ''x''" "podUID (ex_prio_pod u k) = u"
  "PodPriority (ex_prio_pod u k) = k"
  by (simp_all add: ex_prio_pod_def PodPriority_def)


text \<open>
  The reprieve of a victim takes the pod away twice when the preemptor does not fit with it
  and a quota is exceeded even without it; the second removal does not find the pod, so the
  selection on the node fails with an error instead of returning victims.
\<close>

theorem reprieve_removes_twice:
  assumes "podUID p \<noteq> ''''" "\<forall>x \<in> set (fst st). podUID x \<noteq> podUID p"
    and "AddPod sc p (snd st) = (Success, cs1)" "RemovePod sc p cs1 = (Success, cs2)"
    and "\<not> filt (fst st @ [p], cs1)"
    and "quotaExceeded sc pod withQuota (nominatedPodsReqInEQWithPodReq pfs) (nominatedPodsReqWithPodReq pfs) cs2"
  shows "reprievePod sc filt pod withQuota pfs p st = Inl (NoCorrespondingPod (podName p))"
proof -
  have k: "GetPodKey p = Some (podUID p)" using assms(1) by (simp add: GetPodKey_def)
  have no: "\<forall>x \<in> set (fst st). GetPodKey x \<noteq> Some (podUID p)"
    using assms(2) by (auto simp: GetPodKey_def)
  have "List.extract (\<lambda>x. GetPodKey x = Some (podUID p)) (fst st @ [p]) = Some (fst st, p, [])"
    using no k by (auto simp: extract_Some_iff)
  then have "removeFromSlice (fst st @ [p]) (podUID p) = Some (fst st)"
    by (simp add: removeFromSlice_def)
  moreover have "List.extract (\<lambda>x. GetPodKey x = Some (podUID p)) (fst st) = None"
    using no by (simp add: extract_None_iff)
  then have "removeFromSlice (fst st) (podUID p) = None" by (simp add: removeFromSlice_def)
  ultimately show ?thesis
    using assms k by (simp add: reprievePod_def addPodBack_def removePod_def Let_def)
qed

theorem reprieve_removes_twice_witness:
  "SelectVictimsOnNode ex_scalar (\<lambda>ps. ps) (\<lambda>ps. ps) (\<lambda>st. if fst st = [] then Success else Unschedulable)
     (ex_cycle [(''x'', newElasticQuotaInfo ex_scalar ''x'' None (Some []) None)] (emptyResource\<lparr>rMilliCPU := 1\<rparr>))
     (ex_prio_pod ''p'' 5) [ex_prio_pod ''v'' 1] [] = RunFailed (NoCorrespondingPod ''v'')"
proof -
  define eq where "eq = newElasticQuotaInfo ex_scalar ''x'' None (Some []) None"
  have z: "computePodResourceRequest ex_scalar (ex_prio_pod ''v'' 1) = emptyResource"
    by (simp add: computePodResourceRequest_def ex_prio_pod_def zero_pod_def)
  have eqv: "eq = \<lparr>eqNamespace = ''x'', eqPods = [], eqMin = Some emptyResource, eqMax = Some emptyResource, eqUsed = emptyResource\<rparr>"
    by (simp add: eq_def newElasticQuotaInfo_def makeResourceListForBound_def LowerBoundOfMin_def NewResource_def Add_def
        addEntry_def NewQuantity_def NewMilliQuantity_def QValue_def QMilliValue_def emptyResource_def Let_def)
  let ?eqp = "eq\<lparr>eqPods := [''v'']\<rparr>"
  let ?f = "\<lambda>st :: dry_run. if fst st = [] then Success else Unschedulable"
  let ?r = "emptyResource\<lparr>rMilliCPU := 1\<rparr>"
  have add: "AddPod ex_scalar (ex_prio_pod ''v'' 1) (ex_cycle [(''x'', eq)] ?r) = (Success, ex_cycle [(''x'', ?eqp)] ?r)"
    by (simp add: AddPod_def ex_cycle_def addPodIfNotPresent_def GetPodKey_def eqv insertKey_def z reserveResource_def
        emptyResource_def Let_def)
  have rem: "RemovePod ex_scalar (ex_prio_pod ''v'' 1) (ex_cycle [(''x'', ?eqp)] ?r) = (Success, ex_cycle [(''x'', eq)] ?r)"
    by (simp add: RemovePod_def ex_cycle_def deletePodIfPresent_def GetPodKey_def eqv deleteKey_def z unreserveResource_def
        emptyResource_def Let_def)
  have rem0: "RemovePod ex_scalar (ex_prio_pod ''v'' 1) (ex_cycle [(''x'', eq)] ?r) = (Success, ex_cycle [(''x'', eq)] ?r)"
    by (simp add: RemovePod_def ex_cycle_def deletePodIfPresent_def GetPodKey_def eqv)
  have over: "usedOverMaxWith ?r eq" "usedOverMinWith ?r eq"
    by (simp_all add: usedOverMaxWith_def usedOverMinWith_def eqv cmp2_def emptyResource_def sless_sint)
  have under: "\<not> usedOverMaxWith emptyResource eq" "\<not> aggregatedUsedOverMinWith ex_scalar emptyResource [(''x'', eq)]"
    by (simp_all add: usedOverMaxWith_def aggregatedUsedOverMinWith_def cmp_def eqv cmp2_def emptyResource_def minOf_def
        ResourceListOf_def Add_def addEntry_def NewQuantity_def NewMilliQuantity_def QValue_def QMilliValue_def
        LowerBoundOfMin_def sless_sint)
  let ?pfs = "\<lparr>podReq = emptyResource, nominatedPodsReqInEQWithPodReq = ?r, nominatedPodsReqWithPodReq = ?r\<rparr>"
  have rp: "reprievePod ex_scalar (\<lambda>st. ?f st = Success) (ex_prio_pod ''p'' 5) True ?pfs
      (ex_prio_pod ''v'' 1) ([], ex_cycle [(''x'', eq)] ?r) = Inl (NoCorrespondingPod ''v'')"
    using reprieve_removes_twice [of "ex_prio_pod ''v'' 1" "([], ex_cycle [(''x'', eq)] ?r)" ex_scalar
        "ex_cycle [(''x'', ?eqp)] ?r" "ex_cycle [(''x'', eq)] ?r" "\<lambda>st. ?f st = Success" "ex_prio_pod ''p'' 5" True ?pfs] add rem over
    by (simp add: quotaExceeded_def snapshotOf_def ex_cycle_def)
  show ?thesis
    unfolding eq_def [symmetric]
    using rp rem0 over under
    by (simp add: SelectVictimsOnNode_def ex_cycle_def [of "[(''x'', eq)]" ?r] Let_def potentialVictim_def snapshotOf_def word_sless_alt
        removePod_def GetPodKey_def removeFromSlice_def List.extract_def quotaExceeded_def
        filterPodsWithPDBViolation_def select_reprieve_def)
qed

section \<open>Disruption budgets\<close>

text \<open>
  C23. The split of the victims by disruption budgets is a stable partition, and the victims
  declared harmless respect every budget: for each budget that allows \<open>a\<close> disruptions, at most \<open>a\<close>
  of the pods it counts are among them.
\<close>

theorem pdb_split_respects_budgets:
  assumes "filterPodsWithPDBViolation pods pdbs = (violating, nonViolating)"
    and "pdb \<in> set pdbs" "0 \<le> sint (pdbDisruptionsAllowed pdb)" "length pods < 2 ^ 31"
  shows "subseq violating pods \<and> subseq nonViolating pods \<and> mset violating + mset nonViolating = mset pods \<and>
     int (length (filter (\<lambda>p. pdbCounts p pdb) nonViolating)) \<le> sint (pdbDisruptionsAllowed pdb)"
  using assms pdbSplit_parts [of pods _ violating nonViolating]
    pdbSplit_budget [of pods "map (\<lambda>pdb. (pdb, pdbDisruptionsAllowed pdb)) pdbs" violating nonViolating pdb "pdbDisruptionsAllowed pdb"]
  by (auto simp: filterPodsWithPDBViolation_def max_def)

theorem pdb_split_respects_budgets_witness:
  "let pod = (\<lambda>u. (ex_prio_pod u 1)\<lparr>podLabels := [(''app'', ''w'')]\<rparr>);
       pdb = \<lparr>pdbNamespace = ''x'', pdbMatches = (\<lambda>_. True), pdbDisruptedPods = [], pdbDisruptionsAllowed = 1\<rparr>;
       split = filterPodsWithPDBViolation [pod ''a'', pod ''b''] [pdb]
   in split = ([pod ''b''], [pod ''a'']) \<and>
      int (length (filter (\<lambda>p. pdbCounts p pdb) (snd split))) \<le> sint (pdbDisruptionsAllowed pdb)"
proof -
  let ?pod = "\<lambda>u. (ex_prio_pod u 1)\<lparr>podLabels := [(''app'', ''w'')]\<rparr>"
  let ?pdb = "\<lparr>pdbNamespace = ''x'', pdbMatches = (\<lambda>_. True), pdbDisruptedPods = [], pdbDisruptionsAllowed = 1\<rparr>"
  have s: "filterPodsWithPDBViolation [?pod ''a'', ?pod ''b''] [?pdb] = ([?pod ''b''], [?pod ''a''])"
    by (simp add: filterPodsWithPDBViolation_def pdbCounts_def word_sless_alt ex_prio_pod_def)
  from pdb_split_respects_budgets [OF s, of ?pdb] s show ?thesis by (simp add: Let_def)
qed

end
