(* ===== verification/Queue_Order.thy ===== *)
theory Queue_Order
  imports Go_Prelude "HOL-Library.Product_Lexorder" "HOL-Library.List_Lexorder" "HOL-Library.Char_ord"
begin

text \<open>
  The contract of a queue sort plugin: its \<open>Less\<close> compares pods by a rank in a linear order, so the
  scheduling queue, a heap, is ordered consistently. Strings are compared byte by byte, as Go does.
\<close>

locale queue_order =
  fixes less :: "'p \<Rightarrow> 'p \<Rightarrow> bool"
    and rank :: "'p \<Rightarrow> 'r :: linorder"
  assumes less_rank: "less p q \<longleftrightarrow> rank p < rank q"
begin

lemma irreflexive: "\<not> less p p"
  by (simp add: less_rank)

lemma asymmetric: "less p q \<Longrightarrow> \<not> less q p"
  by (simp add: less_rank)

lemma transitive: "less p q \<Longrightarrow> less q r \<Longrightarrow> less p r"
  by (auto simp: less_rank)

lemma incomparable_iff: "\<not> less p q \<and> \<not> less q p \<longleftrightarrow> rank p = rank q"
  by (auto simp: less_rank)

lemma incomparable_trans:
  "\<not> less p q \<Longrightarrow> \<not> less q p \<Longrightarrow> \<not> less q r \<Longrightarrow> \<not> less r q \<Longrightarrow> \<not> less p r \<and> \<not> less r p"
  by (auto simp: less_rank)

text \<open>In an ordered queue, pods with no other pod ranked between them form one block.\<close>

lemma block:
  assumes sorted: "sorted_wrt less ps"
    and convex: "\<And>a b c. a \<in> set ps \<Longrightarrow> b \<in> set ps \<Longrightarrow> c \<in> set ps \<Longrightarrow> P a \<Longrightarrow> P c \<Longrightarrow> rank a \<le> rank b \<Longrightarrow> rank b \<le> rank c \<Longrightarrow> P b"
  shows "\<exists>xs ys zs. ps = xs @ ys @ zs \<and> (\<forall>p \<in> set ys. P p) \<and> (\<forall>p \<in> set xs \<union> set zs. \<not> P p)"
proof -
  define xs where "xs = takeWhile (\<lambda>p. \<not> P p) ps"
  define vs where "vs = dropWhile (\<lambda>p. \<not> P p) ps"
  define ys where "ys = takeWhile P vs"
  define zs where "zs = dropWhile P vs"
  have ps: "ps = xs @ ys @ zs" by (simp add: xs_def ys_def zs_def vs_def)
  have "\<not> P p" if z: "p \<in> set zs" for p
  proof
    assume p: "P p"
    from z have zs: "zs \<noteq> []" by auto
    then have hd: "\<not> P (hd zs)" unfolding zs_def by (rule hd_dropWhile)
    have "vs \<noteq> []" using zs by (auto simp: zs_def)
    then have "P (hd vs)" unfolding vs_def by (metis hd_dropWhile)
    with \<open>vs \<noteq> []\<close> have "ys \<noteq> []" by (cases vs) (auto simp: ys_def)
    then obtain y where y: "y \<in> set ys" by (cases ys) auto
    have Py: "P y" using y by (auto simp: ys_def dest: set_takeWhileD)
    have "p \<in> set (tl zs)" using z p hd zs by (cases zs) auto
    then have "less (hd zs) p" using sorted zs ps by (cases zs) (auto simp: sorted_wrt_append)
    moreover have "less y (hd zs)" using sorted y zs ps by (simp add: sorted_wrt_append)
    ultimately have "P (hd zs)"
      using convex [of y "hd zs" p] y z zs Py p ps by (auto simp: less_rank)
    with hd show False ..
  qed
  moreover have "\<forall>p \<in> set ys. P p" "\<forall>p \<in> set xs. \<not> P p" by (auto simp: ys_def xs_def dest: set_takeWhileD)
  ultimately show ?thesis using ps by blast
qed

end

end
