(* ===== verification/Go_Float.thy ===== *)
theory Go_Float
  imports Complex_Main "HOL-Library.Log_Nat"
begin

text \<open>
  Go's \<^verbatim>\<open>float32\<close> and \<^verbatim>\<open>float64\<close> on the values the plugins compute: a float is an exact rational, and
  every operation rounds its exact result to the nearest multiple of the unit in the last place,
  ties to even. The precision is 24 or 53 bits. The quotients and products of 64-bit integers
  are far inside the range of the exponents, so overflow and subnormal numbers do not occur.
\<close>

section \<open>Rounding to an integer, ties to even\<close>

definition rne :: "rat \<Rightarrow> int" where
  "rne x = (let f = \<lfloor>x\<rfloor>; d = x - of_int f
            in if d < 1 / 2 then f else if 1 / 2 < d then f + 1 else if even f then f else f + 1)"

lemma rne_bounds: "\<lfloor>x\<rfloor> \<le> rne x" "rne x \<le> \<lfloor>x\<rfloor> + 1"
  by (simp_all add: rne_def Let_def)

lemma rne_of_int [simp]: "rne (of_int i) = i"
  by (simp add: rne_def)

lemma rne_mono: "x \<le> y \<Longrightarrow> rne x \<le> rne y"
proof -
  assume le: "x \<le> y"
  then have "\<lfloor>x\<rfloor> \<le> \<lfloor>y\<rfloor>" by (rule floor_mono)
  then consider "\<lfloor>x\<rfloor> + 1 \<le> \<lfloor>y\<rfloor>" | "\<lfloor>x\<rfloor> = \<lfloor>y\<rfloor>" by linarith
  then show ?thesis
  proof cases
    case 1
    then show ?thesis using rne_bounds [of x] rne_bounds [of y] by linarith
  next
    case 2
    then show ?thesis using le by (auto simp: rne_def Let_def)
  qed
qed

lemma rne_le_int: "x \<le> of_int k \<Longrightarrow> rne x \<le> k"
  using rne_mono [of x "of_int k"] by simp

lemma int_le_rne: "of_int k \<le> x \<Longrightarrow> k \<le> rne x"
  using rne_mono [of "of_int k" x] by simp

section \<open>The binary exponent\<close>

definition rlog2 :: "rat \<Rightarrow> int" where
  "rlog2 x = (case quotient_of x of (a, b) \<Rightarrow>
     (let k = bitlen a - bitlen b in if 2 powi k \<le> x then k else k - 1))"

lemma floorlog2_bounds:
  assumes "0 < i"
  shows "(2 :: rat) powi (int (floorlog 2 (nat i)) - 1) \<le> of_int i" "of_int i < (2 :: rat) powi int (floorlog 2 (nat i))"
proof -
  let ?n = "nat i" and ?l = "floorlog 2 (nat i)"
  have b: "2 ^ (?l - 1) \<le> ?n" "?n < 2 ^ ?l" using floorlog_bounds [of ?n 2] assms by auto
  have l: "0 < ?l" using assms by (auto simp: floorlog_def)
  have i: "(of_int i :: rat) = of_nat ?n" using assms by simp
  have "of_nat (2 ^ (?l - 1)) \<le> (of_nat ?n :: rat)" "(of_nat ?n :: rat) < of_nat (2 ^ ?l)"
    using b by (simp_all only: of_nat_le_iff of_nat_less_iff)
  moreover have "(2 :: rat) powi (int ?l - 1) = 2 ^ (?l - 1)"
    using l by (simp add: power_int_def nat_diff_distrib)
  ultimately show "(2 :: rat) powi (int ?l - 1) \<le> of_int i" "of_int i < (2 :: rat) powi int ?l"
    unfolding i by (simp_all add: power_int_def)
qed

lemma rlog2_bounds:
  assumes "0 < x"
  shows "2 powi rlog2 x \<le> x" "x < 2 powi (rlog2 x + 1)"
proof -
  obtain a b where q: "quotient_of x = (a, b)" by force
  have b: "0 < b" and x: "x = of_int a / of_int b"
    using q quotient_of_denom_pos quotient_of_div by blast+
  have a: "0 < a" using assms b x by (simp add: zero_less_divide_iff)
  define k where "k = int (floorlog 2 (nat a)) - int (floorlog 2 (nat b))"
  note A = floorlog2_bounds [OF a] and B = floorlog2_bounds [OF b]
  have split: "(2 :: rat) powi (u - v - 1) = 2 powi (u - 1) / 2 powi v" for u v :: int
    by (simp add: power_int_diff)
  have split': "(2 :: rat) powi (u - v + 1) = 2 powi u / 2 powi (v - 1)" for u v :: int
    by (simp add: power_int_diff power_int_add)
  have lo: "2 powi (k - 1) \<le> x"
  proof -
    have "(2 :: rat) powi (k - 1) = 2 powi (int (floorlog 2 (nat a)) - 1) / 2 powi int (floorlog 2 (nat b))"
      unfolding k_def by (rule split)
    also have "\<dots> \<le> x" unfolding x using A B a b by (intro frac_le) auto
    finally show ?thesis .
  qed
  have hi: "x < 2 powi (k + 1)"
  proof -
    have "x < 2 powi int (floorlog 2 (nat a)) / 2 powi (int (floorlog 2 (nat b)) - 1)"
      unfolding x using A B a by (intro frac_less) auto
    also have "\<dots> = 2 powi (k + 1)"
      unfolding k_def by (rule split' [symmetric])
    finally show ?thesis .
  qed
  have r: "rlog2 x = (if 2 powi k \<le> x then k else k - 1)" by (simp add: rlog2_def q k_def Let_def bitlen_def)
  show "2 powi rlog2 x \<le> x" "x < 2 powi (rlog2 x + 1)" using lo hi by (simp_all add: r)
qed

lemma rlog2_mono:
  assumes "0 < x" "x \<le> y"
  shows "rlog2 x \<le> rlog2 y"
proof (rule ccontr)
  assume "\<not> ?thesis"
  then have "(2 :: rat) powi (rlog2 y + 1) \<le> 2 powi rlog2 x" by (intro power_int_increasing) auto
  then show False using rlog2_bounds [of x] rlog2_bounds [of y] assms by linarith
qed

section \<open>Rounding to a precision\<close>

text \<open>The unit in the last place of a positive number at precision \<open>p\<close>, and rounding to it.\<close>

definition ulp :: "nat \<Rightarrow> rat \<Rightarrow> rat" where
  "ulp p x = 2 powi (rlog2 x + 1 - int p)"

definition fround :: "nat \<Rightarrow> rat \<Rightarrow> rat" where
  "fround p x =
     (if x = 0 then 0
      else if 0 < x then of_int (rne (x / ulp p x)) * ulp p x
      else - (of_int (rne (- x / ulp p (- x))) * ulp p (- x)))"

definition f64 :: "int \<Rightarrow> rat" where "f64 i = fround 53 (of_int i)"
definition fadd :: "rat \<Rightarrow> rat \<Rightarrow> rat" where "fadd x y = fround 53 (x + y)"
definition fsub :: "rat \<Rightarrow> rat \<Rightarrow> rat" where "fsub x y = fround 53 (x - y)"
definition fmul :: "rat \<Rightarrow> rat \<Rightarrow> rat" where "fmul x y = fround 53 (x * y)"
definition fdiv :: "rat \<Rightarrow> rat \<Rightarrow> rat" where "fdiv x y = fround 53 (x / y)"

text \<open>Conversion to an integer truncates towards zero.\<close>

definition ftrunc :: "rat \<Rightarrow> int" where
  "ftrunc x = (if 0 \<le> x then \<lfloor>x\<rfloor> else \<lceil>x\<rceil>)"

text \<open>\<^verbatim>\<open>math.Round\<close>: to the nearest integer, halves away from zero.\<close>

definition fnearest :: "rat \<Rightarrow> int" where
  "fnearest x = (if 0 \<le> x then \<lfloor>x + 1 / 2\<rfloor> else - \<lfloor>- x + 1 / 2\<rfloor>)"

lemma ulp_pos [simp]: "0 < ulp p x"
  by (simp add: ulp_def)

lemma mantissa_bounds:
  assumes "0 < x"
  shows "2 powi (int p - 1) \<le> x / ulp p x" "x / ulp p x < 2 ^ p"
proof -
  have "2 powi (int p - 1) * ulp p x = 2 powi rlog2 x"
    by (simp add: ulp_def power_int_add [symmetric])
  moreover have "2 ^ p * ulp p x = 2 powi (rlog2 x + 1)"
    by (simp add: ulp_def power_int_of_nat [symmetric] power_int_add [symmetric] del: power_int_of_nat)
  ultimately show "2 powi (int p - 1) \<le> x / ulp p x" "x / ulp p x < 2 ^ p"
    using rlog2_bounds [OF assms] by (simp_all add: le_divide_eq divide_less_eq)
qed

lemma fround_pos: "0 < x \<Longrightarrow> fround p x = of_int (rne (x / ulp p x)) * ulp p x"
  by (simp add: fround_def)

lemma fround_zero [simp]: "fround p 0 = 0"
  by (simp add: fround_def)

lemma fround_minus: "fround p (- x) = - fround p x"
  by (auto simp: fround_def)

lemma fround_binade:
  assumes "0 < x" "0 < p"
  shows "2 powi rlog2 x \<le> fround p x" "fround p x \<le> 2 powi (rlog2 x + 1)"
proof -
  let ?m = "x / ulp p x"
  have e: "(2 :: rat) powi (int p - 1) = of_int (2 ^ (p - 1))"
    using assms(2) by (simp add: power_int_def nat_diff_distrib)
  have "2 ^ (p - 1) \<le> rne ?m" using mantissa_bounds(1) [OF assms(1), of p] unfolding e by (rule int_le_rne)
  moreover have "rne ?m \<le> 2 ^ p" using mantissa_bounds(2) [OF assms(1), of p] by (intro rne_le_int) simp
  ultimately have m: "of_int (2 ^ (p - 1)) \<le> (of_int (rne ?m) :: rat)" "of_int (rne ?m) \<le> (of_int (2 ^ p) :: rat)"
    by (simp_all only: of_int_le_iff)
  have "2 powi rlog2 x = of_int (2 ^ (p - 1)) * ulp p x"
    unfolding e [symmetric] by (simp add: ulp_def power_int_add [symmetric])
  also have "\<dots> \<le> fround p x" using m(1) by (simp add: fround_pos [OF assms(1)])
  finally show "2 powi rlog2 x \<le> fround p x" .
  have "fround p x \<le> of_int (2 ^ p) * ulp p x"
    unfolding fround_pos [OF assms(1)] using m(2) by (intro mult_right_mono) (auto simp: less_imp_le)
  also have "\<dots> = 2 powi (rlog2 x + 1)"
    by (simp add: ulp_def power_int_of_nat [symmetric] power_int_add [symmetric] del: power_int_of_nat)
  finally show "fround p x \<le> 2 powi (rlog2 x + 1)" .
qed

lemma fround_mono_pos:
  assumes "0 < x" "x \<le> y" "0 < p"
  shows "fround p x \<le> fround p y"
proof (cases "rlog2 x = rlog2 y")
  case True
  then have "ulp p x = ulp p y" by (simp add: ulp_def)
  moreover have "rne (x / ulp p y) \<le> rne (y / ulp p y)"
    using assms(2) by (intro rne_mono divide_right_mono) (auto simp: less_imp_le)
  ultimately show ?thesis using assms by (simp add: fround_pos)
next
  case False
  then have "rlog2 x + 1 \<le> rlog2 y" using rlog2_mono [OF assms(1,2)] by simp
  then have "(2 :: rat) powi (rlog2 x + 1) \<le> 2 powi rlog2 y" by (intro power_int_increasing) auto
  then show ?thesis
    using fround_binade(2) [OF assms(1,3)] fround_binade(1) [of y p] assms by linarith
qed

lemma fround_nonneg: "0 \<le> x \<Longrightarrow> 0 < p \<Longrightarrow> 0 \<le> fround p x"
  using fround_binade(1) [of x p] by (cases "x = 0") (auto intro: order_trans [rotated])

lemma fround_mono:
  assumes "x \<le> y" "0 < p"
  shows "fround p x \<le> fround p y"
proof -
  consider "0 < x" | "x \<le> 0" "0 \<le> y" | "y < 0" by linarith
  then show ?thesis
  proof cases
    case 1
    then show ?thesis using assms by (rule fround_mono_pos)
  next
    case 2
    then show ?thesis
      using fround_nonneg [of y p] fround_nonneg [of "- x" p] assms(2) by (simp add: fround_minus)
  next
    case 3
    then show ?thesis using fround_mono_pos [of "- y" "- x" p] assms by (simp add: fround_minus)
  qed
qed

lemma fround_int_pos:
  assumes "0 < i" "i < 2 ^ p"
  shows "fround p (of_int i) = of_int i"
proof -
  have "rlog2 (of_int i) < int p"
  proof (rule ccontr)
    assume "\<not> ?thesis"
    then have "(2 :: rat) powi int p \<le> 2 powi rlog2 (of_int i)" by (intro power_int_increasing) auto
    also have "\<dots> \<le> of_int i" using rlog2_bounds [of "of_int i"] assms(1) by simp
    finally have "(of_int (2 ^ p) :: rat) \<le> of_int i" by simp
    then show False using assms(2) by (simp only: of_int_le_iff)
  qed
  then obtain n where n: "int p - (rlog2 (of_int i) + 1) = int n" by (metis zero_le_imp_eq_int diff_ge_0_iff_ge zless_imp_add1_zle)
  have "ulp p (of_int i) = inverse (2 ^ n)"
    unfolding ulp_def using n by (metis minus_diff_eq power_int_minus power_int_of_nat)
  then have "of_int i / ulp p (of_int i) = of_int (i * 2 ^ n)" by (simp add: divide_inverse)
  then show ?thesis
    using assms(1) by (simp add: fround_pos \<open>ulp p (of_int i) = inverse (2 ^ n)\<close> del: of_int_mult)
      (simp add: divide_inverse)
qed

text \<open>Integers of the precision are exact.\<close>

lemma fround_int:
  assumes "\<bar>i\<bar> < 2 ^ p"
  shows "fround p (of_int i) = of_int i"
  using fround_int_pos [of i p] fround_int_pos [of "- i" p] fround_minus [of p "of_int i"] assms
  by (cases i "0 :: int" rule: linorder_cases) auto

lemma f64_int: "\<bar>i\<bar> < 2 ^ 53 \<Longrightarrow> f64 i = of_int i"
  unfolding f64_def by (rule fround_int)

lemma fround_between:
  assumes "0 < p" "\<bar>i\<bar> < 2 ^ p" "\<bar>j\<bar> < 2 ^ p" "of_int i \<le> x" "x \<le> of_int j"
  shows "of_int i \<le> fround p x" "fround p x \<le> of_int j"
  using fround_mono [OF assms(4,1)] fround_mono [OF assms(5,1)] by (simp_all add: fround_int assms(2,3))

text \<open>The operations are monotone; with integers in range as bounds they stay between them.\<close>

lemma fround53_mono: "x \<le> y \<Longrightarrow> fround 53 x \<le> fround 53 y"
  by (rule fround_mono) simp_all

lemma fadd_mono: "a \<le> b \<Longrightarrow> c \<le> d \<Longrightarrow> fadd a c \<le> fadd b d"
  unfolding fadd_def by (intro fround53_mono) simp

lemma fsub_mono: "a \<le> b \<Longrightarrow> d \<le> c \<Longrightarrow> fsub a c \<le> fsub b d"
  unfolding fsub_def by (intro fround53_mono) simp

lemma fmul_mono: "0 \<le> a \<Longrightarrow> a \<le> b \<Longrightarrow> 0 \<le> c \<Longrightarrow> c \<le> d \<Longrightarrow> fmul a c \<le> fmul b d"
  unfolding fmul_def by (intro fround53_mono mult_mono) simp_all

lemma fdiv_mono: "a \<le> b \<Longrightarrow> 0 < c \<Longrightarrow> fdiv a c \<le> fdiv b c"
  unfolding fdiv_def by (intro fround53_mono divide_right_mono) simp_all

lemma f64_mono: "i \<le> j \<Longrightarrow> f64 i \<le> f64 j"
  unfolding f64_def by (intro fround53_mono) simp

lemma fround53_int: "\<bar>i\<bar> < 2 ^ 53 \<Longrightarrow> fround 53 (of_int i) = of_int i"
  by (rule fround_int)

lemma fround53_idem_numeral [simp]: "numeral n < (2 :: int) ^ 53 \<Longrightarrow> fround 53 (numeral n) = numeral n"
  using fround53_int [of "numeral n"] by simp

lemma fround53_one [simp]: "fround 53 1 = 1"
  using fround53_int [of 1] by simp

lemma fnearest_mono: "x \<le> y \<Longrightarrow> fnearest x \<le> fnearest y"
proof -
  assume le: "x \<le> y"
  consider "0 \<le> x" | "x < 0" "0 \<le> y" | "y < 0" by linarith
  then show ?thesis
  proof cases
    case 1
    then show ?thesis using le by (simp add: fnearest_def floor_mono)
  next
    case 2
    have "0 \<le> \<lfloor>- x + 1 / 2\<rfloor>" "0 \<le> \<lfloor>y + 1 / 2\<rfloor>" using 2 by (simp_all add: le_floor_iff)
    moreover have "fnearest x = - \<lfloor>- x + 1 / 2\<rfloor>" "fnearest y = \<lfloor>y + 1 / 2\<rfloor>" using 2 by (simp_all add: fnearest_def)
    ultimately show ?thesis by linarith
  next
    case 3
    have "\<lfloor>- y + 1 / 2\<rfloor> \<le> \<lfloor>- x + 1 / 2\<rfloor>" using le by (intro floor_mono) simp
    then show ?thesis using le 3 by (simp add: fnearest_def)
  qed
qed

lemma fnearest_of_int [simp]: "fnearest (of_int i) = i"
proof -
  have "\<lfloor>of_int j + (1 / 2 :: rat)\<rfloor> = j" for j by (rule floor_unique) simp_all
  from this [of i] this [of "- i"] show ?thesis by (simp add: fnearest_def)
qed

lemma fnearest_between: "of_int i \<le> x \<Longrightarrow> x \<le> of_int j \<Longrightarrow> i \<le> fnearest x \<and> fnearest x \<le> j"
  using fnearest_mono [of "of_int i" x] fnearest_mono [of x "of_int j"] by simp

lemma ftrunc_mono: "x \<le> y \<Longrightarrow> ftrunc x \<le> ftrunc y"
  by (auto simp: ftrunc_def intro: floor_mono ceiling_mono order_trans [of _ 0])

lemma ftrunc_of_int [simp]: "ftrunc (of_int i) = i"
  by (simp add: ftrunc_def)

end
