(* ===== verification/Coscheduling.thy ===== *)
theory Coscheduling
  imports Resources Sched_Framework Queue_Order Go_Float
begin

text \<open>
  \<^verbatim>\<open>scheduler-plugins/pkg/coscheduling\<close> (\<^verbatim>\<open>core/core.go\<close>, \<^verbatim>\<open>coscheduling.go\<close>) and the pod group helpers of
  \<^verbatim>\<open>pkg/util/podgroup.go\<close>: pods of a group are scheduled together or not at all.

  The manager keeps two expiring caches (\<^verbatim>\<open>go-cache\<close>); times are in nanoseconds and \<open>now\<close> is the
  time of the call. The API server, the pod lister and the snapshot of the nodes are the record
  \<open>cosched_env\<close>. What a plugin does to waiting pods is returned as a list of actions.
\<close>

section \<open>Data\<close>

record PodGroup =
  pgName :: string
  pgNamespace :: string
  pgMinMember :: int32
  pgMinResources :: "ResourceList option"
  pgScheduleTimeoutSeconds :: "int32 option"
  pgCreationTimestamp :: int

record NodeInfo =
  niHasNode :: bool
  niPods :: "Pod list"
  niAllocatable :: Resource
  niRequested :: Resource

record cosched_env =
  ceGetPodGroup :: "string \<Rightarrow> string \<Rightarrow> PodGroup option"
  ceListGroupPods :: "string \<Rightarrow> string \<Rightarrow> Pod list option"
  ceNodeInfos :: "NodeInfo list option"

definition PodGroupLabel :: string where
  "PodGroupLabel = ''scheduling.x-k8s.io/pod-group''"

definition GetPodGroupLabel :: "Pod \<Rightarrow> string" where
  "GetPodGroupLabel pod = (case map_of (podLabels pod) PodGroupLabel of None \<Rightarrow> '''' | Some s \<Rightarrow> s)"

definition GetPodGroupFullName :: "Pod \<Rightarrow> string" where
  "GetPodGroupFullName pod =
     (let n = GetPodGroupLabel pod in if n = '''' then '''' else podNamespace pod @ ''/'' @ n)"

definition seconds :: "int \<Rightarrow> int" where
  "seconds s = s * 1000000000"

definition DefaultWaitTime :: int where
  "DefaultWaitTime = seconds 60"

definition GetWaitTimeDuration :: "PodGroup option \<Rightarrow> int option \<Rightarrow> int" where
  "GetWaitTimeDuration pg scheduleTimeout =
     (case (case pg of None \<Rightarrow> None | Some g \<Rightarrow> pgScheduleTimeoutSeconds g) of
        Some s \<Rightarrow> seconds (sint s)
      | None \<Rightarrow>
          (case scheduleTimeout of
             Some t \<Rightarrow> if t \<noteq> 0 then t else DefaultWaitTime
           | None \<Rightarrow> DefaultWaitTime))"

section \<open>Expiring caches\<close>

record gocache =
  gcDefaultExpiration :: int
  gcItems :: "(string, int) gomap"

definition gcGet :: "int \<Rightarrow> string \<Rightarrow> gocache \<Rightarrow> bool" where
  "gcGet now k c = (case map_of (gcItems c) k of None \<Rightarrow> False | Some e \<Rightarrow> \<not> (0 < e \<and> e < now))"

definition gcAdd :: "int \<Rightarrow> string \<Rightarrow> int \<Rightarrow> gocache \<Rightarrow> gocache" where
  "gcAdd now k d c =
     (if gcGet now k c then c
      else
        (let d' = (if d = 0 then gcDefaultExpiration c else d)
         in c\<lparr>gcItems := AList.update k (if 0 < d' then now + d' else 0) (gcItems c)\<rparr>))"

definition gcDelete :: "string \<Rightarrow> gocache \<Rightarrow> gocache" where
  "gcDelete k c = c\<lparr>gcItems := AList.delete k (gcItems c)\<rparr>"

section \<open>The manager\<close>

record PodGroupManager =
  pmScheduleTimeout :: int
  pmPermitted :: gocache
  pmBackedOff :: gocache

definition NewPodGroupManager :: "int \<Rightarrow> PodGroupManager" where
  "NewPodGroupManager scheduleTimeout =
     \<lparr>pmScheduleTimeout = scheduleTimeout,
      pmPermitted = \<lparr>gcDefaultExpiration = seconds 3, gcItems = []\<rparr>,
      pmBackedOff = \<lparr>gcDefaultExpiration = seconds 10, gcItems = []\<rparr>\<rparr>"

definition BackoffPodGroup :: "int \<Rightarrow> string \<Rightarrow> int \<Rightarrow> PodGroupManager \<Rightarrow> PodGroupManager" where
  "BackoffPodGroup now pg backoff m =
     (if backoff = 0 then m else m\<lparr>pmBackedOff := gcAdd now pg backoff (pmBackedOff m)\<rparr>)"

definition DeletePermittedPodGroup :: "string \<Rightarrow> PodGroupManager \<Rightarrow> PodGroupManager" where
  "DeletePermittedPodGroup pg m = m\<lparr>pmPermitted := gcDelete pg (pmPermitted m)\<rparr>"

definition GetPodGroup :: "cosched_env \<Rightarrow> Pod \<Rightarrow> string \<times> PodGroup option" where
  "GetPodGroup env pod =
     (let n = GetPodGroupLabel pod
      in if n = '''' then ('''', None)
         else (podNamespace pod @ ''/'' @ n, ceGetPodGroup env (podNamespace pod) n))"

definition GetCreationTimestamp :: "cosched_env \<Rightarrow> Pod \<Rightarrow> int \<Rightarrow> int" where
  "GetCreationTimestamp env pod ts =
     (let n = GetPodGroupLabel pod
      in if n = '''' then ts
         else case ceGetPodGroup env (podNamespace pod) n of
                None \<Rightarrow> ts
              | Some pg \<Rightarrow> pgCreationTimestamp pg)"

definition GetNamespacedName :: "Pod \<Rightarrow> string" where
  "GetNamespacedName pod = podNamespace pod @ ''/'' @ podName pod"

definition CalculateAssignedPods :: "cosched_env \<Rightarrow> string \<Rightarrow> string \<Rightarrow> nat" where
  "CalculateAssignedPods env grp ns =
     (case ceNodeInfos env of
        None \<Rightarrow> 0
      | Some infos \<Rightarrow>
          sum_list (map (\<lambda>info. length (filter (\<lambda>p. GetPodGroupLabel p = grp \<and> podNamespace p = ns \<and>
             podNodeName p \<noteq> '''') (niPods info))) infos))"

section \<open>Cluster resources\<close>

text \<open>\<open>calc\<close> is \<^verbatim>\<open>calculateResource\<close> of the framework: what a pod adds to \<open>Requested\<close> of its node.\<close>

definition releasePod :: "Resource \<Rightarrow> Resource \<Rightarrow> Resource" where
  "releasePod res r =
     fold (\<lambda>(n, v) r. SetScalar n (scalar r n - v) r) (rScalar res)
       (r\<lparr>rMilliCPU := rMilliCPU r - rMilliCPU res, rMemory := rMemory r - rMemory res,
          rEphemeralStorage := rEphemeralStorage r - rEphemeralStorage res\<rparr>)"

definition getNodeResource :: "(Pod \<Rightarrow> Resource) \<Rightarrow> NodeInfo \<Rightarrow> string \<Rightarrow> Resource" where
  "getNodeResource calc info grp =
     (let members = filter (\<lambda>p. GetPodGroupFullName p = grp \<and> podUID p \<noteq> '''') (niPods info);
          requested = fold (\<lambda>p. releasePod (calc p)) members (niRequested info);
          left = length (niPods info) - length members;
          alloc = niAllocatable info
      in \<lparr>rMilliCPU = rMilliCPU alloc - rMilliCPU requested, rMemory = rMemory alloc - rMemory requested,
          rEphemeralStorage = rEphemeralStorage alloc - rEphemeralStorage requested,
          rAllowedPodNumber = rAllowedPodNumber alloc - of_nat left,
          rScalar = map (\<lambda>(k, a). (k, a - scalar requested k)) (rScalar alloc)\<rparr>)"

text \<open>What of a request is still missing after one node.\<close>

definition missingAfter :: "ResourceList \<Rightarrow> ResourceList \<Rightarrow> ResourceList" where
  "missingAfter nodeResource request =
     filter (\<lambda>(n, q). 0 < q) (map (\<lambda>(n, q). (n, q - quantityOf nodeResource n)) request)"

fun CheckClusterResource ::
    "(Pod \<Rightarrow> Resource) \<Rightarrow> NodeInfo list \<Rightarrow> ResourceList \<Rightarrow> string \<Rightarrow> ResourceList option" where
  "CheckClusterResource calc [] request grp = Some request"
| "CheckClusterResource calc (info # infos) request grp =
     (if \<not> niHasNode info then CheckClusterResource calc infos request grp
      else
        (let request' = missingAfter (ResourceListOf (getNodeResource calc info grp)) request
         in if request' = [] then None else CheckClusterResource calc infos request' grp))"

section \<open>PreFilter and Permit of the manager\<close>

datatype prefilter_error =
    RecentlyFailed string
  | ListFailed
  | NotEnoughSiblings nat int32
  | NodesFailed
  | ResourceGap ResourceList

definition mgrPreFilter ::
    "cosched_env \<Rightarrow> (Pod \<Rightarrow> Resource) \<Rightarrow> int \<Rightarrow> Pod \<Rightarrow> PodGroupManager \<Rightarrow> prefilter_error option \<times> PodGroupManager" where
  "mgrPreFilter env calc now pod m =
     (case GetPodGroup env pod of (full, pg) \<Rightarrow>
        (case pg of
           None \<Rightarrow> (None, m)
         | Some g \<Rightarrow>
             if gcGet now full (pmBackedOff m) then (Some (RecentlyFailed full), m)
             else
               (case ceListGroupPods env (podNamespace pod) (GetPodGroupLabel pod) of
                  None \<Rightarrow> (Some ListFailed, m)
                | Some pods \<Rightarrow>
                    if int (length pods) < sint (pgMinMember g)
                    then (Some (NotEnoughSiblings (length pods) (pgMinMember g)), m)
                    else
                      (case pgMinResources g of
                         None \<Rightarrow> (None, m)
                       | Some minRes \<Rightarrow>
                           if gcGet now full (pmPermitted m) then (None, m)
                           else
                             (case ceNodeInfos env of
                                None \<Rightarrow> (Some NodesFailed, m)
                              | Some infos \<Rightarrow>
                                  (case CheckClusterResource calc infos
                                          (AList.update ''pods'' (sint (pgMinMember g) * 1000) minRes) full of
                                     Some gap \<Rightarrow> (Some (ResourceGap gap), m)
                                   | None \<Rightarrow>
                                       (None, m\<lparr>pmPermitted := gcAdd now full (pmScheduleTimeout m) (pmPermitted m)\<rparr>)))))))"

datatype permit_status = PodGroupNotSpecified | PodGroupNotFound | PermitSuccess | PermitWait

text \<open>The second component tells whether the siblings are to be activated (\<open>PermitState\<close>).\<close>

definition mgrPermit :: "cosched_env \<Rightarrow> Pod \<Rightarrow> permit_status \<times> bool" where
  "mgrPermit env pod =
     (case GetPodGroup env pod of (full, pg) \<Rightarrow>
        if full = '''' then (PodGroupNotSpecified, False)
        else
          (case pg of
             None \<Rightarrow> (PodGroupNotFound, False)
           | Some g \<Rightarrow>
               (let assigned = CalculateAssignedPods env (pgName g) (pgNamespace g)
                in if pgMinMember g \<le>s of_nat assigned + 1 then (PermitSuccess, False)
                   else (PermitWait, assigned = 0))))"

text \<open>The pods that \<open>ActivateSiblings\<close> puts into the map of pods to activate.\<close>

fun dropPod :: "Pod \<Rightarrow> Pod list \<Rightarrow> Pod list" where
  "dropPod pod [] = []"
| "dropPod pod (p # ps) = (if podUID p = podUID pod then ps else p # dropPod pod ps)"

definition ActivateSiblings :: "cosched_env \<Rightarrow> Pod \<Rightarrow> bool \<Rightarrow> (string, Pod) gomap option \<Rightarrow> (string, Pod) gomap option" where
  "ActivateSiblings env pod activate stash =
     (if GetPodGroupLabel pod = '''' then stash
      else if \<not> activate then stash
      else case ceListGroupPods env (podNamespace pod) (GetPodGroupLabel pod) of
             None \<Rightarrow> stash
           | Some pods \<Rightarrow>
               (case stash of
                  None \<Rightarrow> None
                | Some m \<Rightarrow> Some (fold (\<lambda>p. AList.update (GetNamespacedName p) p) (dropPod pod pods) m)))"

section \<open>The plugin\<close>

record CoschedulingPlugin =
  coManager :: PodGroupManager
  coScheduleTimeout :: int
  coBackoff :: "int option"

record QueuedPodInfo =
  qpPod :: Pod
  qpInitialAttemptTimestamp :: int

definition New :: "int64 \<Rightarrow> int64 \<Rightarrow> CoschedulingPlugin option" where
  "New permitWaitingTimeSeconds podGroupBackoffSeconds =
     (let timeout = seconds (sint permitWaitingTimeSeconds)
      in if podGroupBackoffSeconds <s 0 then None
         else Some \<lparr>coManager = NewPodGroupManager timeout, coScheduleTimeout = timeout,
                coBackoff = (if 0 <s podGroupBackoffSeconds then Some (seconds (sint podGroupBackoffSeconds)) else None)\<rparr>)"

definition Less :: "cosched_env \<Rightarrow> QueuedPodInfo \<Rightarrow> QueuedPodInfo \<Rightarrow> bool" where
  "Less env p1 p2 =
     (let prio1 = PodPriority (qpPod p1); prio2 = PodPriority (qpPod p2)
      in if prio1 \<noteq> prio2 then prio2 <s prio1
         else
           (let t1 = GetCreationTimestamp env (qpPod p1) (qpInitialAttemptTimestamp p1);
                t2 = GetCreationTimestamp env (qpPod p2) (qpInitialAttemptTimestamp p2)
            in if t1 = t2 then GetNamespacedName (qpPod p1) < GetNamespacedName (qpPod p2)
               else t1 < t2))"

definition PreFilter ::
    "cosched_env \<Rightarrow> (Pod \<Rightarrow> Resource) \<Rightarrow> int \<Rightarrow> Pod \<Rightarrow> CoschedulingPlugin \<Rightarrow> Code \<times> CoschedulingPlugin" where
  "PreFilter env calc now pod cs =
     (case mgrPreFilter env calc now pod (coManager cs) of
        (e, m) \<Rightarrow> (if e = None then Success else UnschedulableAndUnresolvable, cs\<lparr>coManager := m\<rparr>))"

datatype waiting_action = Allow Pod | Reject Pod

definition sameGroup :: "Pod \<Rightarrow> PodGroup \<Rightarrow> Pod \<Rightarrow> bool" where
  "sameGroup pod g w \<longleftrightarrow> podNamespace w = podNamespace pod \<and> GetPodGroupLabel w = pgName g"

text \<open>
  The gap test compares \<^verbatim>\<open>float32(min-assigned)/float32(min)\<close> with 0.1, all in \<^verbatim>\<open>float32\<close>. Where it is
  reached the minimum is positive.
\<close>

definition smallGap :: "int \<Rightarrow> int \<Rightarrow> bool" where
  "smallGap minMember assigned \<longleftrightarrow>
     fround 24 (fround 24 (of_int (minMember - assigned)) / fround 24 (of_int minMember)) \<le> fround 24 (1 / 10)"

definition PostFilter ::
    "cosched_env \<Rightarrow> int \<Rightarrow> Pod list \<Rightarrow> Pod \<Rightarrow> CoschedulingPlugin \<Rightarrow> Code \<times> waiting_action list \<times> CoschedulingPlugin" where
  "PostFilter env now waiting pod cs =
     (case GetPodGroup env pod of (full, pg) \<Rightarrow>
        (case pg of
           None \<Rightarrow> (Unschedulable, [], cs)
         | Some g \<Rightarrow>
             (let assigned = int (CalculateAssignedPods env (pgName g) (podNamespace pod));
                  minMember = sint (pgMinMember g)
              in if minMember \<le> assigned then (Unschedulable, [], cs)
                 else if smallGap minMember assigned then (Unschedulable, [], cs)
                 else
                   (let rejected = map Reject (filter (sameGroup pod g) waiting);
                        m1 = (case coBackoff cs of
                                None \<Rightarrow> coManager cs
                              | Some b \<Rightarrow>
                                  (case ceListGroupPods env (podNamespace pod) (GetPodGroupLabel pod) of
                                     None \<Rightarrow> coManager cs
                                   | Some pods \<Rightarrow>
                                       if minMember \<le> int (length pods) then BackoffPodGroup now full b (coManager cs)
                                       else coManager cs))
                    in (Unschedulable, rejected, cs\<lparr>coManager := DeletePermittedPodGroup full m1\<rparr>)))))"

definition Permit ::
    "cosched_env \<Rightarrow> Pod list \<Rightarrow> Pod \<Rightarrow> (string, Pod) gomap option \<Rightarrow> CoschedulingPlugin \<Rightarrow>
     Code \<times> int \<times> waiting_action list \<times> (string, Pod) gomap option" where
  "Permit env waiting pod stash cs =
     (case mgrPermit env pod of (s, activate) \<Rightarrow>
        (case s of
           PodGroupNotSpecified \<Rightarrow> (Success, 0, [], stash)
         | PodGroupNotFound \<Rightarrow> (Unschedulable, 0, [], stash)
         | PermitWait \<Rightarrow>
             (let wait = GetWaitTimeDuration (snd (GetPodGroup env pod)) (Some (coScheduleTimeout cs))
              in (Wait, if wait \<noteq> 0 then wait else coScheduleTimeout cs, [], ActivateSiblings env pod activate stash))
         | PermitSuccess \<Rightarrow>
             (Success, 0, map Allow (filter (\<lambda>w. GetPodGroupFullName w = GetPodGroupFullName pod) waiting), stash)))"

definition Unreserve :: "cosched_env \<Rightarrow> Pod list \<Rightarrow> Pod \<Rightarrow> CoschedulingPlugin \<Rightarrow> waiting_action list \<times> CoschedulingPlugin" where
  "Unreserve env waiting pod cs =
     (case GetPodGroup env pod of (full, pg) \<Rightarrow>
        (case pg of
           None \<Rightarrow> ([], cs)
         | Some g \<Rightarrow>
             (map Reject (filter (sameGroup pod g) waiting),
              cs\<lparr>coManager := DeletePermittedPodGroup full (coManager cs)\<rparr>)))"

end
