(* ===== verification/Coscheduling_Properties.thy ===== *)
theory Coscheduling_Properties
  imports Coscheduling
begin

text \<open>
  The properties of coscheduling: the queue order, the resource check of a group against the
  cluster, the all-or-nothing release of waiting pods, and the back-off of a failed group.
\<close>

section \<open>Queue order\<close>

definition queue_rank :: "cosched_env \<Rightarrow> QueuedPodInfo \<Rightarrow> int \<times> int \<times> string" where
  "queue_rank env p =
     (- sint (PodPriority (qpPod p)),
      GetCreationTimestamp env (qpPod p) (qpInitialAttemptTimestamp p),
      GetNamespacedName (qpPod p))"

interpretation queue: queue_order "Less env" "queue_rank env" for env
proof
  fix p q :: QueuedPodInfo
  have "sint (PodPriority (qpPod p)) = sint (PodPriority (qpPod q)) \<longleftrightarrow> PodPriority (qpPod p) = PodPriority (qpPod q)"
    by (rule sint_inject)
  then show "Less env p q \<longleftrightarrow> queue_rank env p < queue_rank env q"
    by (auto simp: Less_def queue_rank_def Let_def word_sless_alt)
qed

text \<open>A pod of the group, by what the plugin finds for it.\<close>

definition in_group :: "cosched_env \<Rightarrow> PodGroup \<Rightarrow> QueuedPodInfo \<Rightarrow> bool" where
  "in_group env g p \<longleftrightarrow> snd (GetPodGroup env (qpPod p)) = Some g"

lemma in_group_time:
  "in_group env g p \<Longrightarrow> GetCreationTimestamp env (qpPod p) t = pgCreationTimestamp g"
  by (auto simp: in_group_def GetPodGroup_def GetCreationTimestamp_def Let_def split: if_splits)

lemma rank_between:
  assumes "queue_rank env p \<le> queue_rank env r" "queue_rank env r \<le> queue_rank env q"
    and "in_group env g p" "in_group env g q" "PodPriority (qpPod p) = PodPriority (qpPod q)"
  shows "PodPriority (qpPod r) = PodPriority (qpPod p) \<and>
    GetCreationTimestamp env (qpPod r) (qpInitialAttemptTimestamp r) = pgCreationTimestamp g"
  using assms(1,2,5) in_group_time [OF assms(3)] in_group_time [OF assms(4)]
  by (auto simp: queue_rank_def signed_word_eqI)

text \<open>
  C24. \<open>Less\<close> is a strict order in which any two pods with different names are comparable. A pod of higher priority comes first, and among
  pods of equal priority the one whose group (or, without a group, first attempt) is older. So a group stays together: if the queued
  pods of a group have one priority, and no other queued pod of that priority has the group's creation time, the pods of the
  group form one block of the ordered queue. (Groups created at the same time, which is recorded in seconds, may interleave: \<open>same_time_interleaves\<close>.)
\<close>

theorem queue_order_of_groups:
  "\<not> Less env p p \<and>
   (Less env p q \<and> Less env q r \<longrightarrow> Less env p r) \<and>
   (GetNamespacedName (qpPod p) \<noteq> GetNamespacedName (qpPod q) \<longrightarrow> Less env p q \<or> Less env q p) \<and>
   (PodPriority (qpPod q) <s PodPriority (qpPod p) \<longrightarrow> Less env p q) \<and>
   (PodPriority (qpPod p) = PodPriority (qpPod q) \<and>
    GetCreationTimestamp env (qpPod p) (qpInitialAttemptTimestamp p) < GetCreationTimestamp env (qpPod q) (qpInitialAttemptTimestamp q) \<longrightarrow>
    Less env p q) \<and>
   (sorted_wrt (Less env) queue \<and>
    (\<forall>x \<in> set queue. in_group env g x \<longrightarrow> PodPriority (qpPod x) = prio) \<and>
    (\<forall>x \<in> set queue. PodPriority (qpPod x) = prio \<and>
       GetCreationTimestamp env (qpPod x) (qpInitialAttemptTimestamp x) = pgCreationTimestamp g \<longrightarrow> in_group env g x) \<longrightarrow>
    (\<exists>xs ys zs. queue = xs @ ys @ zs \<and> (\<forall>x \<in> set ys. in_group env g x) \<and> (\<forall>x \<in> set xs \<union> set zs. \<not> in_group env g x)))"
proof -
  have "GetNamespacedName (qpPod p) \<noteq> GetNamespacedName (qpPod q) \<longrightarrow> Less env p q \<or> Less env q p"
    using queue.incomparable_iff [of env p q] by (auto simp: queue_rank_def)
  moreover have "PodPriority (qpPod q) <s PodPriority (qpPod p) \<longrightarrow> Less env p q"
    by (auto simp: Less_def sless_sint)
  moreover have "PodPriority (qpPod p) = PodPriority (qpPod q) \<and>
      GetCreationTimestamp env (qpPod p) (qpInitialAttemptTimestamp p) < GetCreationTimestamp env (qpPod q) (qpInitialAttemptTimestamp q) \<longrightarrow>
      Less env p q" by (auto simp: Less_def)
  moreover have "\<exists>xs ys zs. queue = xs @ ys @ zs \<and> (\<forall>x \<in> set ys. in_group env g x) \<and> (\<forall>x \<in> set xs \<union> set zs. \<not> in_group env g x)"
    if "sorted_wrt (Less env) queue" "\<forall>x \<in> set queue. in_group env g x \<longrightarrow> PodPriority (qpPod x) = prio"
      "\<forall>x \<in> set queue. PodPriority (qpPod x) = prio \<and>
         GetCreationTimestamp env (qpPod x) (qpInitialAttemptTimestamp x) = pgCreationTimestamp g \<longrightarrow> in_group env g x"
    using that rank_between by (intro queue.block [of env]) metis+
  ultimately show ?thesis
    using queue.irreflexive [of env p] queue.transitive [of env p q r] by blast
qed

definition ex_group :: PodGroup where
  "ex_group = \<lparr>pgName = ''g'', pgNamespace = ''d'', pgMinMember = 2, pgMinResources = None,
     pgScheduleTimeoutSeconds = None, pgCreationTimestamp = 7\<rparr>"

definition ex_member :: "string \<Rightarrow> string \<Rightarrow> Pod" where
  "ex_member uid node = zero_pod\<lparr>podName := uid, podNamespace := ''d'', podUID := uid, podNodeName := node,
     podLabels := [(PodGroupLabel, ''g'')]\<rparr>"

definition ex_node :: "Pod list \<Rightarrow> NodeInfo" where
  "ex_node pods = \<lparr>niHasNode = True, niPods = pods, niAllocatable = emptyResource\<lparr>rMilliCPU := 4000\<rparr>,
     niRequested = emptyResource\<lparr>rMilliCPU := 500\<rparr>\<rparr>"

definition ex_env :: "Pod list \<Rightarrow> cosched_env" where
  "ex_env pods = \<lparr>ceGetPodGroup = (\<lambda>ns n. if n = ''g'' then Some ex_group else None),
     ceListGroupPods = (\<lambda>_ _. Some [ex_member ''a'' '''', ex_member ''b'' '''']),
     ceNodeInfos = Some [ex_node pods]\<rparr>"


lemma ex_member_group:
  "GetPodGroup (ex_env pods) (ex_member uid node) = (''d/g'', Some ex_group)"
  "GetPodGroupFullName (ex_member uid node) = ''d/g''" "podNamespace (ex_member uid node) = ''d''"
  "GetPodGroupLabel (ex_member uid node) = ''g''" "podNodeName (ex_member uid node) = node"
  by (simp_all add: GetPodGroup_def GetPodGroupFullName_def GetPodGroupLabel_def ex_member_def ex_env_def)

definition ex_queued :: "Pod \<Rightarrow> QueuedPodInfo" where
  "ex_queued p = \<lparr>qpPod = p, qpInitialAttemptTimestamp = 9\<rparr>"

lemma ex_queued_facts:
  "in_group (ex_env pods) g (ex_queued (ex_member u n)) \<longleftrightarrow> g = ex_group"
  "\<not> in_group (ex_env pods) g (ex_queued (zero_pod\<lparr>podName := u\<rparr>))"
  "PodPriority (qpPod (ex_queued (ex_member u n))) = 0" "PodPriority (qpPod (ex_queued (zero_pod\<lparr>podName := u\<rparr>))) = 0"
  "GetCreationTimestamp (ex_env pods) (qpPod (ex_queued (ex_member u n))) t = 7"
  "GetCreationTimestamp (ex_env pods) (qpPod (ex_queued (zero_pod\<lparr>podName := u\<rparr>))) t = t"
  "qpInitialAttemptTimestamp (ex_queued p) = 9"
  by (auto simp: in_group_def ex_queued_def ex_member_group PodPriority_def GetPodGroup_def GetPodGroupLabel_def GetPodGroupFullName_def
      GetCreationTimestamp_def Let_def ex_group_def ex_member_def zero_pod_def ex_env_def)

theorem queue_order_of_groups_witness:
  "let m = (\<lambda>u. ex_queued (ex_member u '''')); other = ex_queued (zero_pod\<lparr>podName := ''x''\<rparr>)
   in sorted_wrt (Less (ex_env [])) [m ''a'', m ''b'', other] \<and>
      (\<exists>xs ys zs. [m ''a'', m ''b'', other] = xs @ ys @ zs \<and> (\<forall>x \<in> set ys. in_group (ex_env []) ex_group x) \<and>
         (\<forall>x \<in> set xs \<union> set zs. \<not> in_group (ex_env []) ex_group x))"
proof -
  let ?m = "\<lambda>u. ex_queued (ex_member u '''')" and ?other = "ex_queued (zero_pod\<lparr>podName := ''x''\<rparr>)"
  let ?q = "[?m ''a'', ?m ''b'', ?other]"
  have "GetNamespacedName (qpPod (?m ''a'')) < GetNamespacedName (qpPod (?m ''b''))"
    by (simp add: ex_queued_def ex_member_def GetNamespacedName_def less_char_def)
  then have s: "sorted_wrt (Less (ex_env [])) ?q" by (simp add: Less_def ex_queued_facts)
  moreover have "\<forall>x \<in> set ?q. in_group (ex_env []) ex_group x \<longrightarrow> PodPriority (qpPod x) = 0" by (simp add: ex_queued_facts)
  moreover have "\<forall>x \<in> set ?q. PodPriority (qpPod x) = 0 \<and>
      GetCreationTimestamp (ex_env []) (qpPod x) (qpInitialAttemptTimestamp x) = pgCreationTimestamp ex_group \<longrightarrow> in_group (ex_env []) ex_group x"
    by (simp add: ex_queued_facts ex_group_def)
  ultimately have "\<exists>xs ys zs. ?q = xs @ ys @ zs \<and> (\<forall>x \<in> set ys. in_group (ex_env []) ex_group x) \<and>
      (\<forall>x \<in> set xs \<union> set zs. \<not> in_group (ex_env []) ex_group x)"
    using queue_order_of_groups [of "ex_env []" _ _ _ ?q ex_group 0] by blast
  with s show ?thesis unfolding Let_def by blast
qed

text \<open>Pods of two groups with the same creation time and priority are ordered by their own names, so one group's pod can stand between two
  of the other group, although the comment on \<open>Less\<close> speaks of the keys of groups or pods.\<close>

lemma same_time_interleaves:
  assumes "in_group env g p" "in_group env g q" "in_group env g' r" "pgCreationTimestamp g' = pgCreationTimestamp g"
    and "PodPriority (qpPod p) = PodPriority (qpPod r)" "PodPriority (qpPod q) = PodPriority (qpPod r)"
    and "GetNamespacedName (qpPod p) < GetNamespacedName (qpPod r)" "GetNamespacedName (qpPod r) < GetNamespacedName (qpPod q)"
  shows "Less env p r \<and> Less env r q"
  using assms(4-) in_group_time [OF assms(1)] in_group_time [OF assms(2)] in_group_time [OF assms(3)] by (simp add: Less_def)

section \<open>Cluster resources\<close>








section \<open>All or nothing\<close>






section \<open>Back-off\<close>






end
