(* ===== verification/Pod_State.thy ===== *)
theory Pod_State
  imports Sched_Framework K8s_Objects
begin

text \<open>
  \<^verbatim>\<open>scheduler-plugins/pkg/podstate/pod_state.go\<close>: nodes with terminating pods are preferred, nodes
  with nominated pods avoided; raw scores may be negative and are mapped onto the framework's range.
\<close>

text \<open>\<open>nominated\<close> is the list of pods nominated for the node, \<open>pods\<close> the pods on it.\<close>

definition podStateScore :: "Pod list \<Rightarrow> Pod list \<Rightarrow> int64" where
  "podStateScore nominated pods =
     of_nat (length (filter (\<lambda>p. podDeletionTimestamp p \<noteq> None) pods)) - of_nat (length nominated)"

definition Score :: "(string \<Rightarrow> Pod list option) \<Rightarrow> (string \<Rightarrow> Pod list) \<Rightarrow> string \<Rightarrow> int64 \<times> Code" where
  "Score nodeInfos nominated node =
     (case nodeInfos node of
        None \<Rightarrow> (0, Error)
      | Some pods \<Rightarrow> (podStateScore (nominated node) pods, Success))"

definition scoreRange :: "NodeScoreList \<Rightarrow> int64 \<times> int64" where
  "scoreRange ss =
     fold (\<lambda>ns (h, l). (if h <s nsScore ns then nsScore ns else h, if nsScore ns <s l then nsScore ns else l))
       ss (- MaxInt64, MaxInt64)"

definition NormalizeScore :: "NodeScoreList \<Rightarrow> NodeScoreList" where
  "NormalizeScore ss =
     (case scoreRange ss of (highest, lowest) \<Rightarrow>
        (let oldRange = highest - lowest; newRange = MaxNodeScore - MinNodeScore
         in map (\<lambda>ns. ns\<lparr>nsScore :=
              (if oldRange = 0 then MinNodeScore
               else int64_div ((nsScore ns - lowest) * newRange) oldRange + MinNodeScore)\<rparr>) ss))"

section \<open>The range of the raw scores\<close>

lemma scoreRange_split:
  "scoreRange ss =
     (fold (\<lambda>ns h. if h <s nsScore ns then nsScore ns else h) ss (- MaxInt64),
      fold (\<lambda>ns l. if nsScore ns <s l then nsScore ns else l) ss MaxInt64)"
  by (simp add: scoreRange_def score_fold_pair)

text \<open>Scores small enough that the spread, times 100, is in range.\<close>

definition spread_ok :: "NodeScoreList \<Rightarrow> bool" where
  "spread_ok ss = list_all (\<lambda>ns. - (2 ^ 55) \<le> score ns \<and> score ns \<le> 2 ^ 55) ss"

lemma sint_minus_MaxInt64 [simp]: "sint (- MaxInt64) = - 9223372036854775807"
  by (simp add: MaxInt64_def)

lemma scoreRange_bounds:
  assumes "scoreRange ss = (h, l)" "spread_ok ss" "ss \<noteq> []"
  shows "\<forall>ns \<in> set ss. sint l \<le> score ns \<and> score ns \<le> sint h" "- (2 ^ 55) \<le> sint l" "sint h \<le> 2 ^ 55"
    "\<exists>ns \<in> set ss. score ns = sint h" "\<exists>ns \<in> set ss. score ns = sint l"
  using score_fold_range [of ss "2 ^ 55" "- MaxInt64" MaxInt64] assms
  by (simp_all add: scoreRange_split spread_ok_def list_all_iff)

definition percent_of_spread :: "NodeScoreList \<Rightarrow> int \<Rightarrow> int" where
  "percent_of_spread ss x =
     (case scoreRange ss of (h, l) \<Rightarrow> if sint h \<le> sint l then 0 else (x - sint l) * 100 div (sint h - sint l))"

lemma PodState_entry:
  assumes r: "scoreRange ss = (h, l)" and ok: "spread_ok ss" and ns: "ns \<in> set ss"
  shows "sint (if h - l = 0 then MinNodeScore
      else int64_div ((nsScore ns - l) * (MaxNodeScore - MinNodeScore)) (h - l) + MinNodeScore) =
    percent_of_spread ss (score ns)"
proof -
  have ne: "ss \<noteq> []" using ns by auto
  note b = scoreRange_bounds [OF r ok ne]
  have m: "sint l \<le> score ns" "score ns \<le> sint h" using b(1) ns by auto
  have d: "sint (h - l) = sint h - sint l"
    using b(2,3) m by (intro sint_sub64) (simp add: int64_range_def)
  have n: "sint (nsScore ns - l) = score ns - sint l"
    using b(2,3) m by (simp add: score_def) (intro sint_sub64, simp add: int64_range_def)
  have "sint ((nsScore ns - l) * 100) = (score ns - sint l) * 100"
    using b(2,3) m sint_mult64 [of "nsScore ns - l" 100] by (simp add: n int64_range_def)
  moreover have "h = l \<longleftrightarrow> sint h \<le> sint l"
    using m sint_inject [of h l] by auto
  ultimately show ?thesis
    using m by (auto simp: percent_of_spread_def r MinNodeScore_def MaxNodeScore_def sint_int64_div_nonneg d)
qed

interpretation pod_state: score_normalizer NormalizeScore percent_of_spread spread_ok
proof
  fix ss ns and x y :: int
  obtain h l where r: "scoreRange ss = (h, l)" by (cases "scoreRange ss")
  show "map nsName (NormalizeScore ss) = map nsName ss"
    by (simp add: NormalizeScore_def r Let_def comp_def)
  assume ok: "spread_ok ss"
  show "map score (NormalizeScore ss) = map (percent_of_spread ss \<circ> score) ss"
    using PodState_entry [OF r ok] by (auto simp: NormalizeScore_def r Let_def)
  {
    assume "x \<le> y"
    then show "percent_of_spread ss x \<le> percent_of_spread ss y"
      by (auto simp: percent_of_spread_def r intro!: zdiv_mono1)
  }
  assume ns: "ns \<in> set ss"
  then have ne: "ss \<noteq> []" by auto
  with scoreRange_bounds [OF r ok ne] ns have m: "sint l \<le> score ns" "score ns \<le> sint h" by auto
  have "(score ns - sint l) * 100 div (sint h - sint l) \<le> 100" if "0 < sint h - sint l"
    using zdiv_mono1 [of "(score ns - sint l) * 100" "100 * (sint h - sint l)" "sint h - sint l"] that m
    by (simp del: right_diff_distrib_numeral left_diff_distrib_numeral)
  then show "0 \<le> percent_of_spread ss (score ns) \<and> percent_of_spread ss (score ns) \<le> 100"
    using m by (auto simp: percent_of_spread_def r pos_imp_zdiv_nonneg_iff)
qed

section \<open>The normalised scores\<close>

lemma PodState_extremes:
  assumes ok: "spread_ok ss" and i: "i < length ss"
    and lt: "\<exists>j < length ss. score (ss ! j) \<noteq> score (ss ! i)"
  shows "(\<forall>j < length ss. score (ss ! j) \<le> score (ss ! i)) \<Longrightarrow> score (NormalizeScore ss ! i) = 100"
    and "(\<forall>j < length ss. score (ss ! i) \<le> score (ss ! j)) \<Longrightarrow> score (NormalizeScore ss ! i) = 0"
proof -
  obtain h l where r: "scoreRange ss = (h, l)" by (cases "scoreRange ss")
  have ne: "ss \<noteq> []" using i by auto
  note b = scoreRange_bounds [OF r ok ne]
  from b(4,5) obtain a c where ac: "a < length ss" "score (ss ! a) = sint h" "c < length ss" "score (ss ! c) = sint l"
    by (auto simp: in_set_conv_nth)
  have lim: "sint l \<le> score (ss ! j)" "score (ss ! j) \<le> sint h" if "j < length ss" for j
    using b(1) that by auto
  have hl: "sint l < sint h" using lt lim lim [OF i] by force
  {
    assume "\<forall>j < length ss. score (ss ! j) \<le> score (ss ! i)"
    then have "score (ss ! i) = sint h" using ac lim [OF i] by (metis order_antisym)
    moreover have "(sint h - sint l) * 100 div (sint h - sint l) = 100"
      using hl nonzero_mult_div_cancel_left [of "sint h - sint l" 100] by linarith
    ultimately show "score (NormalizeScore ss ! i) = 100"
      using hl by (simp add: pod_state.score_nth [OF ok i] percent_of_spread_def r)
  }
  assume "\<forall>j < length ss. score (ss ! i) \<le> score (ss ! j)"
  then have "score (ss ! i) = sint l" using ac lim [OF i] by (metis order_antisym)
  then show "score (NormalizeScore ss ! i) = 0"
    by (simp add: pod_state.score_nth [OF ok i] percent_of_spread_def r)
qed

text \<open>
  Normalising keeps the nodes in place and the order of their scores, and brings every score,
  negative ones too, into the framework's range; the best node gets 100 and the worst 0 unless all
  nodes have the same raw score.
\<close>

theorem pod_state_normalization:
  assumes "spread_ok ss"
  shows "map nsName (NormalizeScore ss) = map nsName ss \<and>
    (\<forall>ns \<in> set (NormalizeScore ss). 0 \<le> score ns \<and> score ns \<le> 100) \<and>
    (\<forall>i < length ss. \<forall>j < length ss. score (ss ! i) \<le> score (ss ! j) \<longrightarrow>
       score (NormalizeScore ss ! i) \<le> score (NormalizeScore ss ! j)) \<and>
    (\<forall>i < length ss. (\<exists>j < length ss. score (ss ! j) \<noteq> score (ss ! i)) \<longrightarrow>
       ((\<forall>j < length ss. score (ss ! j) \<le> score (ss ! i)) \<longrightarrow> score (NormalizeScore ss ! i) = 100) \<and>
       ((\<forall>j < length ss. score (ss ! i) \<le> score (ss ! j)) \<longrightarrow> score (NormalizeScore ss ! i) = 0))"
  using pod_state.names pod_state.normalize_range [OF assms] pod_state.normalize_mono [OF assms]
    PodState_extremes [OF assms] by blast

definition ex_raw_scores :: NodeScoreList where
  "ex_raw_scores = [\<lparr>nsName = ''a'', nsScore = - 2\<rparr>, \<lparr>nsName = ''b'', nsScore = 2\<rparr>, \<lparr>nsName = ''c'', nsScore = 1\<rparr>]"

lemma ex_raw_scores_ok: "spread_ok ex_raw_scores"
  by (simp add: spread_ok_def ex_raw_scores_def score_def)

theorem pod_state_normalization_witness:
  "spread_ok ex_raw_scores \<and> score (NormalizeScore ex_raw_scores ! 1) = 100 \<and>
   score (NormalizeScore ex_raw_scores ! 0) = 0 \<and> map nsName (NormalizeScore ex_raw_scores) = [''a'', ''b'', ''c'']"
proof -
  note p = pod_state_normalization [OF ex_raw_scores_ok]
  have len: "length ex_raw_scores = 3" and ex: "score (ex_raw_scores ! 0) = - 2" "score (ex_raw_scores ! 1) = 2"
      "score (ex_raw_scores ! 2) = 1" "map nsName ex_raw_scores = [''a'', ''b'', ''c'']"
    by (simp_all add: ex_raw_scores_def score_def)
  have all: "(\<forall>j < length ex_raw_scores. P j) \<longleftrightarrow> P 0 \<and> P 1 \<and> P 2" for P
    by (auto simp: len numeral_3_eq_3 less_Suc_eq numeral_2_eq_2)
  have "\<exists>j < length ex_raw_scores. score (ex_raw_scores ! j) \<noteq> score (ex_raw_scores ! 0)"
    "\<exists>j < length ex_raw_scores. score (ex_raw_scores ! j) \<noteq> score (ex_raw_scores ! 1)"
    using ex by (auto simp: len intro: exI [of _ 1] exI [of _ 0])
  with p show ?thesis by (simp add: ex_raw_scores_ok all ex del: One_nat_def)
qed

end
