(* ===== verification/QOS_Sort.thy ===== *)
theory QOS_Sort
  imports K8s_Objects "HOL-Library.Product_Lexorder"
begin

text \<open>
  \<^verbatim>\<open>scheduler-plugins/pkg/qos/queue_sort.go\<close>: the scheduling queue ordered by priority, then by quality of
  service class. The class comes from the pod's status or, when that is empty, from the requests
  and limits of its containers (the vendored \<^verbatim>\<open>apis/core/v1/helper/qos/qos.go\<close>).
\<close>

section \<open>The class of a pod\<close>

definition PodQOSGuaranteed :: string where "PodQOSGuaranteed = ''Guaranteed''"
definition PodQOSBurstable :: string where "PodQOSBurstable = ''Burstable''"
definition PodQOSBestEffort :: string where "PodQOSBestEffort = ''BestEffort''"

lemmas qos_classes = PodQOSGuaranteed_def PodQOSBurstable_def PodQOSBestEffort_def

definition isSupportedQoSComputeResource :: "string \<Rightarrow> bool" where
  "isSupportedQoSComputeResource n \<longleftrightarrow> n = ''cpu'' \<or> n = ''memory''"

definition qosAdd :: "string \<times> Quantity \<Rightarrow> ResourceList \<Rightarrow> ResourceList" where
  "qosAdd = (\<lambda>(name, quantity) acc.
     if isSupportedQoSComputeResource name \<and> 0 < quantity
     then AList.update name (case map_of acc name of None \<Rightarrow> quantity | Some q \<Rightarrow> quantity + q) acc
     else acc)"

definition qosLimitsFound :: "Container \<Rightarrow> string set" where
  "qosLimitsFound c = set (map fst (filter (\<lambda>(n, q). isSupportedQoSComputeResource n \<and> 0 < q) (ctrLimits c)))"

definition qosContainer :: "Container \<Rightarrow> ResourceList \<times> ResourceList \<times> bool \<Rightarrow> ResourceList \<times> ResourceList \<times> bool" where
  "qosContainer c = (\<lambda>(requests, limits, isGuaranteed).
     (fold qosAdd (ctrRequests c) requests, fold qosAdd (ctrLimits c) limits,
      isGuaranteed \<and> {''memory'', ''cpu''} \<subseteq> qosLimitsFound c))"

definition ComputePodQOS :: "Pod \<Rightarrow> string" where
  "ComputePodQOS pod =
     (case fold qosContainer (podContainers pod @ podInitContainers pod) ([], [], True) of
        (requests, limits, isGuaranteed) \<Rightarrow>
          if length requests = 0 \<and> length limits = 0 then PodQOSBestEffort
          else if isGuaranteed \<and> list_all (\<lambda>(n, req). map_of limits n = Some req) requests \<and>
                  length requests = length limits
               then PodQOSGuaranteed else PodQOSBurstable)"

definition GetPodQOS :: "Pod \<Rightarrow> string" where
  "GetPodQOS pod = (if podQOSClass pod \<noteq> '''' then podQOSClass pod else ComputePodQOS pod)"

section \<open>Queue order\<close>

definition compQOS :: "Pod \<Rightarrow> Pod \<Rightarrow> bool" where
  "compQOS p1 p2 =
     (if GetPodQOS p1 = PodQOSGuaranteed then True
      else if GetPodQOS p1 = PodQOSBurstable then GetPodQOS p2 \<noteq> PodQOSGuaranteed
      else GetPodQOS p2 = PodQOSBestEffort)"

definition Less :: "Pod \<Rightarrow> Pod \<Rightarrow> bool" where
  "Less p1 p2 \<longleftrightarrow> PodPriority p2 <s PodPriority p1 \<or> PodPriority p1 = PodPriority p2 \<and> compQOS p1 p2"

section \<open>What the class says\<close>

text \<open>The positive amounts a resource list holds of one resource.\<close>

definition positive_of :: "string \<Rightarrow> ResourceList \<Rightarrow> Quantity" where
  "positive_of n rl = sum_list (map (\<lambda>(n', q). if n' = n \<and> 0 < q then q else 0) rl)"

lemma positive_of_simps [simp]:
  "positive_of n [] = 0"
  "positive_of n ((n', q) # rl) = (if n' = n \<and> 0 < q then q else 0) + positive_of n rl"
  "positive_of n (xs @ ys) = positive_of n xs + positive_of n ys"
  by (simp_all add: positive_of_def)

lemma positive_of_nonneg [simp]: "0 \<le> positive_of n rl"
  by (induction rl) auto

lemma positive_of_pos: "0 < positive_of n rl \<longleftrightarrow> (\<exists>q. (n, q) \<in> set rl \<and> 0 < q)"
proof (induction rl)
  case (Cons e rl)
  obtain n' q where e: "e = (n', q)" by force
  show ?case
  proof (cases "n' = n \<and> 0 < q")
    case True
    then have "0 < positive_of n (e # rl)" by (simp add: e add_pos_nonneg)
    with True show ?thesis by (auto simp: e)
  next
    case False
    then show ?thesis using Cons.IH by (auto simp: e)
  qed
qed simp

text \<open>The accumulated list: its keys are distinct and supported, its entries the positive sums.\<close>

definition qos_sums :: "ResourceList \<Rightarrow> (string \<Rightarrow> Quantity) \<Rightarrow> bool" where
  "qos_sums acc f \<longleftrightarrow> distinct (map fst acc) \<and>
     (\<forall>n. 0 \<le> f n \<and> map_of acc n = (if isSupportedQoSComputeResource n \<and> 0 < f n then Some (f n) else None))"

lemma qosAdd_sums:
  assumes s: "qos_sums acc f"
  shows "qos_sums (qosAdd (n, q) acc) (\<lambda>m. f m + positive_of m [(n, q)])"
proof (cases "isSupportedQoSComputeResource n \<and> 0 < q")
  case True
  have n: "0 \<le> f n" "map_of acc n = (if 0 < f n then Some (f n) else None)"
    using s True by (simp_all add: qos_sums_def)
  have "map_of (qosAdd (n, q) acc) = (map_of acc)(n \<mapsto> f n + q)"
    using n True by (auto simp: qosAdd_def)
  with s n True show ?thesis
    by (simp add: qos_sums_def qosAdd_def distinct_update add_nonneg_pos)
next
  case False
  with s show ?thesis by (auto simp: qos_sums_def qosAdd_def)
qed

lemma fold_qosAdd_sums: "qos_sums acc f \<Longrightarrow> qos_sums (fold qosAdd rl acc) (\<lambda>m. f m + positive_of m rl)"
proof (induction rl arbitrary: acc f)
  case (Cons e rl)
  obtain n q where e: "e = (n, q)" by force
  show ?case using Cons.IH [OF qosAdd_sums [OF Cons.prems, of n q]] by (simp add: e add.assoc)
qed simp

lemma fold_qosContainer:
  "fold qosContainer cs (r, l, g) =
     (fold qosAdd (concat (map ctrRequests cs)) r, fold qosAdd (concat (map ctrLimits cs)) l,
      g \<and> list_all (\<lambda>c. {''memory'', ''cpu''} \<subseteq> qosLimitsFound c) cs)"
  by (induction cs arbitrary: r l g) (auto simp: qosContainer_def)

lemma qos_sums_entry:
  assumes "qos_sums acc f"
  shows "(n, q) \<in> set acc \<longleftrightarrow> isSupportedQoSComputeResource n \<and> 0 < f n \<and> q = f n"
proof -
  have d: "distinct (map fst acc)"
    and m: "map_of acc n = (if isSupportedQoSComputeResource n \<and> 0 < f n then Some (f n) else None)"
    using assms by (auto simp only: qos_sums_def)
  show ?thesis unfolding map_of_eq_Some_iff [OF d, symmetric] m by auto
qed

lemma qos_sums_length:
  assumes "qos_sums acc f"
  shows "length acc = (if 0 < f ''cpu'' then 1 else 0) + (if 0 < f ''memory'' then 1 else 0)"
proof -
  have "length acc = card (fst ` set acc)"
    using assms distinct_card [of "map fst acc"] by (simp add: qos_sums_def)
  also have "fst ` set acc = {n. isSupportedQoSComputeResource n \<and> 0 < f n}"
    using qos_sums_entry [OF assms] by force
  also have "\<dots> = (if 0 < f ''cpu'' then {''cpu''} else {}) \<union> (if 0 < f ''memory'' then {''memory''} else {})"
    by (auto simp: isSupportedQoSComputeResource_def split: if_splits)
  finally show ?thesis by simp
qed

lemma qos_sums_match:
  assumes r: "qos_sums acc f" and l: "qos_sums acc' g"
  shows "list_all (\<lambda>(n, req). map_of acc' n = Some req) acc \<longleftrightarrow>
     (\<forall>n \<in> {''cpu'', ''memory''}. 0 < f n \<longrightarrow> g n = f n)"
proof -
  have m: "map_of acc' n = Some (f n) \<longleftrightarrow> g n = f n" if "isSupportedQoSComputeResource n" "0 < f n" for n
    using l that by (simp add: qos_sums_def)
  have "list_all (\<lambda>(n, req). map_of acc' n = Some req) acc \<longleftrightarrow>
      (\<forall>n. isSupportedQoSComputeResource n \<and> 0 < f n \<longrightarrow> map_of acc' n = Some (f n))"
    by (auto simp: list_all_iff qos_sums_entry [OF r])
  with m show ?thesis by (auto simp: isSupportedQoSComputeResource_def)
qed

lemma qosLimitsFound_positive:
  "n \<in> qosLimitsFound c \<longleftrightarrow> isSupportedQoSComputeResource n \<and> 0 < positive_of n (ctrLimits c)"
  by (force simp: qosLimitsFound_def positive_of_pos)

abbreviation qos_containers :: "Pod \<Rightarrow> Container list" where
  "qos_containers pod \<equiv> podContainers pod @ podInitContainers pod"

abbreviation requested :: "Pod \<Rightarrow> string \<Rightarrow> Quantity" where
  "requested pod n \<equiv> positive_of n (concat (map ctrRequests (qos_containers pod)))"

abbreviation limited :: "Pod \<Rightarrow> string \<Rightarrow> Quantity" where
  "limited pod n \<equiv> positive_of n (concat (map ctrLimits (qos_containers pod)))"

text \<open>
  The computed class: best effort when no container asks for, or limits, a positive amount of
  CPU or memory; guaranteed when there is a container, every container limits both, and for both
  the requests of all containers add up to their limits; burstable in every other case.
\<close>

theorem qos_class_of_pod:
  "ComputePodQOS pod =
     (if \<forall>n \<in> {''cpu'', ''memory''}. requested pod n = 0 \<and> limited pod n = 0 then PodQOSBestEffort
      else if (\<forall>c \<in> set (qos_containers pod). \<forall>n \<in> {''cpu'', ''memory''}. 0 < positive_of n (ctrLimits c)) \<and>
              (\<forall>n \<in> {''cpu'', ''memory''}. requested pod n = limited pod n) then PodQOSGuaranteed
      else PodQOSBurstable)"
proof -
  let ?cs = "qos_containers pod" and ?both = "{''cpu'', ''memory''}"
  define r where "r = fold qosAdd (concat (map ctrRequests ?cs)) []"
  define l where "l = fold qosAdd (concat (map ctrLimits ?cs)) []"
  have r: "qos_sums r (requested pod)" and l: "qos_sums l (limited pod)"
    using fold_qosAdd_sums [of "[]" "\<lambda>_. 0" "concat (map ctrRequests ?cs)"]
      fold_qosAdd_sums [of "[]" "\<lambda>_. 0" "concat (map ctrLimits ?cs)"]
    by (simp_all add: r_def l_def qos_sums_def [of "[]"])
  have g: "list_all (\<lambda>c. {''memory'', ''cpu''} \<subseteq> qosLimitsFound c) ?cs \<longleftrightarrow>
      (\<forall>c \<in> set ?cs. \<forall>n \<in> ?both. 0 < positive_of n (ctrLimits c))"
    by (auto simp: list_all_iff qosLimitsFound_positive isSupportedQoSComputeResource_def)
  have run: "fold qosContainer ?cs ([], [], True) =
      (r, l, \<forall>c \<in> set ?cs. \<forall>n \<in> ?both. 0 < positive_of n (ctrLimits c))"
    unfolding fold_qosContainer g by (simp add: r_def l_def)
  have nn: "0 \<le> requested pod n" "0 \<le> limited pod n" for n by (rule positive_of_nonneg)+
  have m: "list_all (\<lambda>(n, req). map_of l n = Some req) r \<and> length r = length l \<longleftrightarrow>
      (\<forall>n \<in> ?both. requested pod n = limited pod n)"
    unfolding qos_sums_match [OF r l] qos_sums_length [OF r] qos_sums_length [OF l]
    using nn [of "''cpu''"] nn [of "''memory''"] by (auto simp: order_less_le split: if_splits)
  have e: "length r = 0 \<and> length l = 0 \<longleftrightarrow> (\<forall>n \<in> ?both. requested pod n = 0 \<and> limited pod n = 0)"
    unfolding qos_sums_length [OF r] qos_sums_length [OF l]
    using nn [of "''cpu''"] nn [of "''memory''"] by (auto simp: order_less_le split: if_splits)
  show ?thesis
    unfolding ComputePodQOS_def run prod.case e m ..
qed

section \<open>What the order says\<close>

definition class_rank :: "string \<Rightarrow> nat" where
  "class_rank c = (if c = PodQOSGuaranteed then 0 else if c = PodQOSBurstable then 1 else 2)"

definition known_class :: "Pod \<Rightarrow> bool" where
  "known_class pod \<longleftrightarrow> GetPodQOS pod \<in> {PodQOSGuaranteed, PodQOSBurstable, PodQOSBestEffort}"

definition qos_rank :: "Pod \<Rightarrow> int \<times> nat" where
  "qos_rank pod = (- sint (PodPriority pod), class_rank (GetPodQOS pod))"

lemma Less_rank:
  assumes "known_class q"
  shows "Less p q \<longleftrightarrow> qos_rank p \<le> qos_rank q"
proof -
  have "sint (PodPriority p) = sint (PodPriority q) \<longleftrightarrow> PodPriority p = PodPriority q" by (rule sint_inject)
  moreover have "compQOS p q \<longleftrightarrow> class_rank (GetPodQOS p) \<le> class_rank (GetPodQOS q)"
    using assms by (auto simp: compQOS_def class_rank_def known_class_def qos_classes)
  ultimately show ?thesis by (auto simp: Less_def qos_rank_def word_sless_alt)
qed

lemma class_rank_inject:
  "known_class p \<Longrightarrow> known_class q \<Longrightarrow> class_rank (GetPodQOS p) = class_rank (GetPodQOS q) \<longleftrightarrow> GetPodQOS p = GetPodQOS q"
  by (auto simp: class_rank_def known_class_def qos_classes)

text \<open>
  Among pods of the three known classes, \<open>Less\<close> is a total preorder that puts a higher priority
  first and, at equal priority, guaranteed before burstable before best effort. It is not strict:
  two pods come before one another exactly when they agree in priority and class, so a pod comes
  before itself.
\<close>

theorem qos_queue_order:
  assumes "known_class p" "known_class q" "known_class r"
  shows "(Less p q \<or> Less q p) \<and>
    (Less p q \<and> Less q r \<longrightarrow> Less p r) \<and>
    (Less p q \<and> Less q p \<longleftrightarrow> PodPriority p = PodPriority q \<and> GetPodQOS p = GetPodQOS q) \<and>
    (PodPriority q <s PodPriority p \<longrightarrow> Less p q \<and> \<not> Less q p) \<and>
    (PodPriority p = PodPriority q \<and> GetPodQOS p = PodQOSGuaranteed \<and> GetPodQOS q \<noteq> PodQOSGuaranteed \<longrightarrow>
       Less p q \<and> \<not> Less q p) \<and>
    (PodPriority p = PodPriority q \<and> GetPodQOS p = PodQOSBurstable \<and> GetPodQOS q = PodQOSBestEffort \<longrightarrow>
       Less p q \<and> \<not> Less q p)"
proof -
  note ranks = Less_rank [OF assms(1)] Less_rank [OF assms(2)] Less_rank [OF assms(3)]
  have "Less p q \<and> Less q p \<longleftrightarrow> PodPriority p = PodPriority q \<and> GetPodQOS p = GetPodQOS q"
    using class_rank_inject [OF assms(1,2)] sint_inject [of "PodPriority p" "PodPriority q"]
    by (simp add: ranks qos_rank_def order_eq_iff [symmetric]) auto
  moreover have "Less p q \<or> Less q p" "Less p q \<and> Less q r \<longrightarrow> Less p r"
    by (auto simp: ranks)
  moreover have "PodPriority q <s PodPriority p \<longrightarrow> Less p q \<and> \<not> Less q p"
    by (auto simp: ranks qos_rank_def word_sless_alt)
  moreover have "PodPriority p = PodPriority q \<and> GetPodQOS p = PodQOSGuaranteed \<and> GetPodQOS q \<noteq> PodQOSGuaranteed \<longrightarrow>
       Less p q \<and> \<not> Less q p"
    by (auto simp: ranks qos_rank_def class_rank_def)
  moreover have "PodPriority p = PodPriority q \<and> GetPodQOS p = PodQOSBurstable \<and> GetPodQOS q = PodQOSBestEffort \<longrightarrow>
       Less p q \<and> \<not> Less q p"
    by (auto simp: ranks qos_rank_def class_rank_def qos_classes)
  ultimately show ?thesis by blast
qed

definition ex_qos_pod :: "string \<Rightarrow> Quantity \<Rightarrow> Pod" where
  "ex_qos_pod name limit = zero_pod\<lparr>podName := name, podContainers :=
     [\<lparr>ctrName = ''c'', ctrRequests = [(''cpu'', 100), (''memory'', 1000)],
       ctrLimits = [(''cpu'', limit), (''memory'', 1000)], ctrSeccompProfile = None\<rparr>]\<rparr>"

lemma ex_qos_pod_class:
  "GetPodQOS (ex_qos_pod name 100) = PodQOSGuaranteed" "GetPodQOS (ex_qos_pod name 200) = PodQOSBurstable"
  "GetPodQOS zero_pod = PodQOSBestEffort" "PodPriority (ex_qos_pod name q) = 0" "PodPriority zero_pod = 0"
  by (simp_all add: GetPodQOS_def ComputePodQOS_def ex_qos_pod_def zero_pod_def PodPriority_def
      qosContainer_def qosAdd_def isSupportedQoSComputeResource_def qosLimitsFound_def)

theorem qos_queue_order_witness:
  "Less (ex_qos_pod ''a'' 100) (ex_qos_pod ''b'' 200) \<and> \<not> Less (ex_qos_pod ''b'' 200) (ex_qos_pod ''a'' 100) \<and>
   Less (ex_qos_pod ''a'' 100) zero_pod \<and> Less (ex_qos_pod ''a'' 100) (ex_qos_pod ''a'' 100)"
  using qos_queue_order [of "ex_qos_pod ''a'' 100" "ex_qos_pod ''b'' 200" zero_pod]
    qos_queue_order [of "ex_qos_pod ''a'' 100" "ex_qos_pod ''a'' 100" zero_pod]
    qos_queue_order [of "ex_qos_pod ''a'' 100" zero_pod zero_pod]
  by (simp add: known_class_def ex_qos_pod_class) (simp add: qos_classes)

theorem qos_class_of_pod_witness:
  "ComputePodQOS (ex_qos_pod ''a'' 100) = PodQOSGuaranteed \<and> ComputePodQOS (ex_qos_pod ''a'' 200) = PodQOSBurstable \<and>
   ComputePodQOS zero_pod = PodQOSBestEffort"
  unfolding qos_class_of_pod by (simp add: ex_qos_pod_def zero_pod_def)

end
