(* ===== verification/Network_Util.thy ===== *)
theory Network_Util
  imports K8s_Objects "HOL-Library.List_Lexorder" "HOL-Library.Char_ord"
begin

text \<open>
  \<^verbatim>\<open>scheduler-plugins/pkg/networkaware/util/util.go\<close>: what the network-aware plugins read of pods, nodes,
  application groups and network topologies (the types of the vendored \<^verbatim>\<open>diktyo-io\<close> APIs), and
  the binary searches in sorted lists. A search is a loop that might not end or might index out of
  range: \<open>None\<close> stands for both. Strings are compared byte by byte.
\<close>

section \<open>Data\<close>

record CostInfo =
  Destination :: string
  NetworkCost :: int64

record OriginInfo =
  Origin :: string
  CostList :: "CostInfo list"

record TopologyInfo =
  TopologyKey :: string
  OriginList :: "OriginInfo list"

record WeightInfo =
  weightName :: string
  TopologyList :: "TopologyInfo list"

record NetworkTopology =
  ntUID :: string
  ntWeights :: "WeightInfo list"

record DependenciesInfo =
  depSelector :: string
  depMaxNetworkCost :: int64

record AppGroupWorkload =
  wlSelector :: string
  wlDependencies :: "DependenciesInfo list"

record AppGroupTopologyInfo =
  topoSelector :: string
  topoIndex :: int32

record AppGroup =
  agUID :: string
  agWorkloads :: "AppGroupWorkload list"
  agTopologyOrder :: "AppGroupTopologyInfo list"

record ScheduledInfo =
  siName :: string
  siSelector :: string
  siReplicaID :: string
  siHostname :: string

record LabelledNode = Node +
  nodeLabels :: "(string, string) gomap"

type_synonym CostKey = "string \<times> string"

definition AppGroupLabel :: string where
  "AppGroupLabel = ''appgroup.diktyo.x-k8s.io''"

definition AppGroupSelectorLabel :: string where
  "AppGroupSelectorLabel = ''appgroup.diktyo.x-k8s.io.workload''"

definition LabelTopologyRegion :: string where
  "LabelTopologyRegion = ''topology.kubernetes.io/region''"

definition LabelTopologyZone :: string where
  "LabelTopologyZone = ''topology.kubernetes.io/zone''"

definition NetperfCosts :: string where
  "NetperfCosts = ''NetperfCosts''"

text \<open>Reading a key that a map of strings does not have gives the empty string.\<close>

definition strval :: "(string, string) gomap \<Rightarrow> string \<Rightarrow> string" where
  "strval m k = (case map_of m k of None \<Rightarrow> '''' | Some v \<Rightarrow> v)"

definition GetNodeRegion :: "LabelledNode \<Rightarrow> string" where
  "GetNodeRegion node = strval (nodeLabels node) LabelTopologyRegion"

definition GetNodeZone :: "LabelledNode \<Rightarrow> string" where
  "GetNodeZone node = strval (nodeLabels node) LabelTopologyZone"

definition GetPodAppGroupLabel :: "Pod \<Rightarrow> string" where
  "GetPodAppGroupLabel pod = strval (podLabels pod) AppGroupLabel"

definition GetPodAppGroupSelector :: "Pod \<Rightarrow> string" where
  "GetPodAppGroupSelector pod = strval (podLabels pod) AppGroupSelectorLabel"

definition GetDependencyList :: "Pod \<Rightarrow> AppGroup \<Rightarrow> DependenciesInfo list" where
  "GetDependencyList pod ag =
     concat (map wlDependencies (filter (\<lambda>w. wlSelector w = GetPodAppGroupSelector pod) (agWorkloads ag)))"

definition GetScheduledList :: "Pod list \<Rightarrow> ScheduledInfo list" where
  "GetScheduledList pods =
     map (\<lambda>p. \<lparr>siName = podName p, siSelector = GetPodAppGroupSelector p, siReplicaID = podUID p,
                siHostname = podNodeName p\<rparr>)
       (filter (\<lambda>p. podNodeName p \<noteq> '''') pods)"

section \<open>Binary search\<close>

text \<open>The loop the three searches share; it yields the index at which it stops.\<close>

partial_function (option) searchLoop ::
    "('a \<Rightarrow> string) \<Rightarrow> 'a list \<Rightarrow> string \<Rightarrow> int \<Rightarrow> int \<Rightarrow> int option option" where
  "searchLoop key t x low high =
     (if low \<le> high then
        (let mid = (low + high) div 2
         in if mid < 0 \<or> int (length t) \<le> mid then None
            else if key (t ! nat mid) = x then Some (Some mid)
            else if key (t ! nat mid) < x then searchLoop key t x (mid + 1) high
            else if x < key (t ! nat mid) then searchLoop key t x low (mid - 1)
            else searchLoop key t x low high)
      else Some None)"

declare searchLoop.simps [code]


definition searchIndex :: "('a \<Rightarrow> string) \<Rightarrow> 'a list \<Rightarrow> string \<Rightarrow> int option option" where
  "searchIndex key t x = searchLoop key t x 0 (int (length t) - 1)"

definition FindPodOrder :: "AppGroupTopologyInfo list \<Rightarrow> string \<Rightarrow> int32 option" where
  "FindPodOrder t selector =
     map_option (\<lambda>r. case r of None \<Rightarrow> - 1 | Some i \<Rightarrow> topoIndex (t ! nat i)) (searchIndex topoSelector t selector)"

definition FindOriginCosts :: "OriginInfo list \<Rightarrow> string \<Rightarrow> CostInfo list option" where
  "FindOriginCosts originList origin =
     map_option (\<lambda>r. case r of None \<Rightarrow> [] | Some i \<Rightarrow> CostList (originList ! nat i)) (searchIndex Origin originList origin)"

definition FindTopologyKey :: "TopologyInfo list \<Rightarrow> string \<Rightarrow> OriginInfo list option" where
  "FindTopologyKey topologyList key =
     map_option (\<lambda>r. case r of None \<Rightarrow> [] | Some i \<Rightarrow> OriginList (topologyList ! nat i)) (searchIndex TopologyKey topologyList key)"

section \<open>What a search finds\<close>

text \<open>
  An index a search returns holds the key; if the list is sorted, no index means that the key does
  not occur between the bounds.
\<close>

definition search_ok :: "('a \<Rightarrow> string) \<Rightarrow> 'a list \<Rightarrow> string \<Rightarrow> int \<Rightarrow> int \<Rightarrow> int option \<Rightarrow> bool" where
  "search_ok key t x low high r \<longleftrightarrow>
     (case r of
        Some i \<Rightarrow> 0 \<le> i \<and> i < int (length t) \<and> key (t ! nat i) = x
      | None \<Rightarrow> sorted (map key t) \<longrightarrow> (\<forall>i. low \<le> i \<and> i \<le> high \<longrightarrow> key (t ! nat i) \<noteq> x))"

lemma sorted_int_nth:
  "sorted (map key t) \<Longrightarrow> 0 \<le> i \<Longrightarrow> i \<le> j \<Longrightarrow> j < int (length t) \<Longrightarrow> key (t ! nat i) \<le> key (t ! nat j)"
  using sorted_nth_mono [of "map key t" "nat i" "nat j"] by (simp add: nat_le_eq_zle)

lemma search_ok_upper:
  assumes "search_ok key t x (mid + 1) high r" "key (t ! nat mid) < x" "0 \<le> low" "mid < int (length t)"
  shows "search_ok key t x low high r"
proof -
  have "key (t ! nat i) \<noteq> x" if "sorted (map key t)" "low \<le> i" "i \<le> mid" for i
    using sorted_int_nth [of key t i mid] assms that by auto
  moreover have "i \<le> mid \<or> mid + 1 \<le> i" for i by linarith
  ultimately show ?thesis using assms(1) unfolding search_ok_def by (cases r; simp only: option.case) (metis)+
qed

lemma search_ok_lower:
  assumes "search_ok key t x low (mid - 1) r" "x < key (t ! nat mid)" "0 \<le> mid" "high < int (length t)"
  shows "search_ok key t x low high r"
proof -
  have "key (t ! nat i) \<noteq> x" if "sorted (map key t)" "mid \<le> i" "i \<le> high" for i
    using sorted_int_nth [of key t mid i] assms that by auto
  moreover have "mid \<le> i \<or> i \<le> mid - 1" for i by linarith
  ultimately show ?thesis using assms(1) unfolding search_ok_def by (cases r; simp only: option.case) (metis)+
qed

text \<open>From any bounds inside the list the loop ends, whatever the order of the list.\<close>

lemma searchLoop_total:
  assumes "0 \<le> low" "high < int (length t)"
  shows "\<exists>r. searchLoop key t x low high = Some r \<and> search_ok key t x low high r"
  using assms
proof (induction "nat (high - low + 1)" arbitrary: low high rule: less_induct)
  case less
  show ?case
  proof (cases "low \<le> high")
    case False
    then show ?thesis by (subst searchLoop.simps) (auto simp: search_ok_def)
  next
    case True
    define mid where "mid = (low + high) div 2"
    have mid: "low \<le> mid" "mid \<le> high" using True by (auto simp: mid_def)
    have inr: "0 \<le> mid" "mid < int (length t)" using mid less.prems by auto
    have step: "searchLoop key t x low high =
        (if key (t ! nat mid) = x then Some (Some mid)
         else if key (t ! nat mid) < x then searchLoop key t x (mid + 1) high
         else searchLoop key t x low (mid - 1))"
      using True inr by (subst searchLoop.simps) (auto simp: mid_def [symmetric] Let_def)
    consider "key (t ! nat mid) = x" | "key (t ! nat mid) < x" | "x < key (t ! nat mid)" by force
    then show ?thesis
    proof cases
      case 1
      then show ?thesis using inr by (auto simp: step search_ok_def)
    next
      case 2
      then show ?thesis
        using less.hyps [of high "mid + 1"] search_ok_upper [of key t x mid high _ low] less.prems mid inr by (auto simp: step)
    next
      case 3
      then show ?thesis
        using less.hyps [of "mid - 1" low] search_ok_lower [of key t x low mid _ high] less.prems mid inr by (auto simp: step)
    qed
  qed
qed

lemma searchIndex_total:
  obtains r where "searchIndex key t x = Some r" "search_ok key t x 0 (int (length t) - 1) r"
  using searchLoop_total [of 0 "int (length t) - 1" t key x] by (auto simp: searchIndex_def)

text \<open>On a sorted list a search is the lookup of the key; where keys are distinct, the lookup is \<open>map_of\<close>.\<close>

lemma searchIndex_cases:
  assumes "sorted (map key t)"
  shows "(\<exists>i. searchIndex key t x = Some (Some i) \<and> nat i < length t \<and> key (t ! nat i) = x) \<or>
     searchIndex key t x = Some None \<and> x \<notin> key ` set t"
proof -
  obtain r where r: "searchIndex key t x = Some r" "search_ok key t x 0 (int (length t) - 1) r"
    by (rule searchIndex_total)
  show ?thesis
  proof (cases r)
    case (Some i)
    then show ?thesis using r by (auto simp: search_ok_def)
  next
    case None
    have "key y \<noteq> x" if "y \<in> set t" for y
    proof -
      from that obtain n where n: "n < length t" "y = t ! n" by (auto simp: in_set_conv_nth)
      then show ?thesis
        using r(2) assms None spec [of "\<lambda>i. 0 \<le> i \<and> i \<le> int (length t) - 1 \<longrightarrow> key (t ! nat i) \<noteq> x" "int n"]
        by (auto simp: search_ok_def)
    qed
    then show ?thesis using r(1) None by auto
  qed
qed

end
