(* ===== verification/Network_Overhead.thy ===== *)
theory Network_Overhead
  imports Network_Util Sched_Framework Go_Float "HOL-Library.Monad_Syntax"
begin

text \<open>
  \<^verbatim>\<open>scheduler-plugins/pkg/networkaware/networkoverhead/networkoverhead.go\<close>: nodes are filtered and scored by
  the network cost to the pods that a workload depends on. A nil dereference is modelled: where the
  source panics, the result is \<open>None\<close>. Sorting works in place on slices of the network topology, so
  the topology is threaded through; \<^verbatim>\<open>sort.Sort\<close>, which leaves open the order of equal elements, is a
  pair of functions of the environment, next to the API server, the pod lister and the snapshot.
\<close>

section \<open>Data\<close>

record net_env =
  neAppGroup :: "string \<Rightarrow> string \<Rightarrow> AppGroup option"
  neTopology :: "string \<Rightarrow> string \<Rightarrow> NetworkTopology option"
  neListPods :: "string \<Rightarrow> Pod list option"
  neNodes :: "LabelledNode list option"
  neNodeInfo :: "string \<Rightarrow> LabelledNode option"
  neSortTopology :: "TopologyInfo list \<Rightarrow> TopologyInfo list"
  neSortOrigins :: "OriginInfo list \<Rightarrow> OriginInfo list"

record NetworkOverhead =
  noNamespaces :: "string list"
  noWeightsName :: string
  noNtName :: string

type_synonym costMap = "(CostKey, int64) gomap"

record PreFilterState =
  scoreEqually :: bool
  pfAgName :: string
  pfAppGroup :: "AppGroup option"
  pfTopology :: "NetworkTopology option"
  pfDependencies :: "DependenciesInfo list"
  pfScheduled :: "ScheduledInfo list"
  nodeCostMap :: "(string, costMap) gomap"
  satisfiedMap :: "(string, int64) gomap"
  violatedMap :: "(string, int64) gomap"
  finalCostMap :: "(string, int64) gomap"

definition MaxCost :: int64 where "MaxCost = 100"
definition SameHostname :: int64 where "SameHostname = 0"
definition SameZone :: int64 where "SameZone = 1"

definition initialState :: PreFilterState where
  "initialState = \<lparr>scoreEqually = True, pfAgName = '''', pfAppGroup = None, pfTopology = None,
     pfDependencies = [], pfScheduled = [], nodeCostMap = [], satisfiedMap = [], violatedMap = [], finalCostMap = []\<rparr>"

definition int64val :: "(string, int64) gomap \<Rightarrow> string \<Rightarrow> int64" where
  "int64val m k = (case map_of m k of None \<Rightarrow> 0 | Some v \<Rightarrow> v)"

section \<open>Lookups of the custom resources\<close>

fun findAppGroupNetworkOverhead :: "net_env \<Rightarrow> string list \<Rightarrow> string \<Rightarrow> AppGroup option" where
  "findAppGroupNetworkOverhead env [] agName = None"
| "findAppGroupNetworkOverhead env (ns # nss) agName =
     (case neAppGroup env ns agName of
        None \<Rightarrow> findAppGroupNetworkOverhead env nss agName
      | Some ag \<Rightarrow> if agUID ag \<noteq> '''' then Some ag else findAppGroupNetworkOverhead env nss agName)"

fun findNetworkTopologyNetworkOverhead :: "net_env \<Rightarrow> string list \<Rightarrow> string \<Rightarrow> NetworkTopology option" where
  "findNetworkTopologyNetworkOverhead env [] ntName = None"
| "findNetworkTopologyNetworkOverhead env (ns # nss) ntName =
     (case neTopology env ns ntName of
        None \<Rightarrow> findNetworkTopologyNetworkOverhead env nss ntName
      | Some nt \<Rightarrow> if ntUID nt \<noteq> '''' then Some nt else findNetworkTopologyNetworkOverhead env nss ntName)"

section \<open>The costs from a node\<close>

definition sortNetworkTopologyCosts :: "net_env \<Rightarrow> NetworkOverhead \<Rightarrow> NetworkTopology option \<Rightarrow> NetworkTopology option option" where
  "sortNetworkTopologyCosts env no nt =
     (if noWeightsName no \<noteq> NetperfCosts then
        (case nt of
           None \<Rightarrow> None
         | Some t \<Rightarrow> Some (Some (t\<lparr>ntWeights :=
             map (\<lambda>w. w\<lparr>TopologyList := neSortTopology env (TopologyList w)\<rparr>) (ntWeights t)\<rparr>)))
      else Some nt)"

text \<open>The slice a search returned, after it was sorted, is still the one inside the topology.\<close>

definition storeOrigins :: "string \<Rightarrow> OriginInfo list \<Rightarrow> WeightInfo \<Rightarrow> WeightInfo" where
  "storeOrigins key origins w =
     (case searchIndex TopologyKey (TopologyList w) key of
        Some (Some i) \<Rightarrow> w\<lparr>TopologyList := (TopologyList w)[nat i := (TopologyList w ! nat i)\<lparr>OriginList := origins\<rparr>]\<rparr>
      | _ \<Rightarrow> w)"

definition placeCosts ::
    "net_env \<Rightarrow> NetworkOverhead \<Rightarrow> string \<Rightarrow> string \<Rightarrow> WeightInfo \<times> costMap \<Rightarrow> (WeightInfo \<times> costMap) option" where
  "placeCosts env no key place = (\<lambda>(w, cm).
     if place = '''' then Some (w, cm)
     else do {
       found \<leftarrow> FindTopologyKey (TopologyList w) key;
       let origins = (if noWeightsName no \<noteq> NetperfCosts then neSortOrigins env found else found);
       costs \<leftarrow> FindOriginCosts origins place;
       Some (storeOrigins key origins w, fold (\<lambda>c. AList.update (place, Destination c) (NetworkCost c)) costs cm)
     })"

fun populateWeights ::
    "net_env \<Rightarrow> NetworkOverhead \<Rightarrow> string \<Rightarrow> string \<Rightarrow> WeightInfo list \<Rightarrow> costMap \<Rightarrow> (WeightInfo list \<times> costMap) option" where
  "populateWeights env no region zone [] cm = Some ([], cm)"
| "populateWeights env no region zone (w # ws) cm =
     (if weightName w \<noteq> noWeightsName no then do {
        (ws', cm') \<leftarrow> populateWeights env no region zone ws cm;
        Some (w # ws', cm')
      } else do {
        (w1, cm1) \<leftarrow> placeCosts env no LabelTopologyRegion region (w, cm);
        (w2, cm2) \<leftarrow> placeCosts env no LabelTopologyZone zone (w1, cm1);
        (ws', cm') \<leftarrow> populateWeights env no region zone ws cm2;
        Some (w2 # ws', cm')
      })"

definition populateCostMap ::
    "net_env \<Rightarrow> NetworkOverhead \<Rightarrow> NetworkTopology option \<Rightarrow> string \<Rightarrow> string \<Rightarrow> (NetworkTopology option \<times> costMap) option" where
  "populateCostMap env no nt region zone =
     (case nt of
        None \<Rightarrow> None
      | Some t \<Rightarrow> do {
          (ws, cm) \<leftarrow> populateWeights env no region zone (ntWeights t) [];
          Some (Some (t\<lparr>ntWeights := ws\<rparr>), cm)
        })"

section \<open>Dependencies met and their cost\<close>

text \<open>\<open>Inl\<close> is the error of a host that the snapshot does not have.\<close>

definition checkPair ::
    "net_env \<Rightarrow> string \<Rightarrow> string \<Rightarrow> string \<Rightarrow> costMap \<Rightarrow> ScheduledInfo \<Rightarrow> DependenciesInfo \<Rightarrow>
     int64 \<times> int64 \<Rightarrow> unit + int64 \<times> int64" where
  "checkPair env node region zone cm p d = (\<lambda>(satisfied, violated).
     let judge = (\<lambda>cost. case cost of
           None \<Rightarrow> Inr (satisfied, violated)
         | Some c \<Rightarrow> if c \<le>s depMaxNetworkCost d then Inr (satisfied + 1, violated) else Inr (satisfied, violated + 1))
     in if siSelector p \<noteq> depSelector d then Inr (satisfied, violated)
        else if siHostname p = node then Inr (satisfied + 1, violated)
        else case neNodeInfo env (siHostname p) of
               None \<Rightarrow> Inl ()
             | Some host \<Rightarrow>
                 if GetNodeRegion host = '''' \<and> GetNodeZone host = '''' then Inr (satisfied, violated + 1)
                 else if region = GetNodeRegion host then
                   (if zone = GetNodeZone host then Inr (satisfied + 1, violated)
                    else judge (map_of cm (zone, GetNodeZone host)))
                 else judge (map_of cm (region, GetNodeRegion host)))"

definition checkMaxNetworkCostRequirements ::
    "net_env \<Rightarrow> ScheduledInfo list \<Rightarrow> DependenciesInfo list \<Rightarrow> string \<Rightarrow> string \<Rightarrow> string \<Rightarrow> costMap \<Rightarrow>
     unit + int64 \<times> int64" where
  "checkMaxNetworkCostRequirements env scheduled deps node region zone cm =
     fold_err (\<lambda>p acc. if siHostname p \<noteq> '''' then fold_err (checkPair env node region zone cm p) deps acc else Inr acc)
       scheduled (0, 0)"

definition costPair ::
    "net_env \<Rightarrow> string \<Rightarrow> string \<Rightarrow> string \<Rightarrow> costMap \<Rightarrow> ScheduledInfo \<Rightarrow> DependenciesInfo \<Rightarrow> int64 \<Rightarrow> unit + int64" where
  "costPair env node region zone cm p d cost =
     (let listed = (\<lambda>v. case v of None \<Rightarrow> MaxCost | Some c \<Rightarrow> c)
      in if siSelector p \<noteq> depSelector d then Inr cost
         else if siHostname p = node then Inr (cost + SameHostname)
         else case neNodeInfo env (siHostname p) of
                None \<Rightarrow> Inl ()
              | Some host \<Rightarrow>
                  if GetNodeRegion host = '''' \<and> GetNodeZone host = '''' then Inr (cost + MaxCost)
                  else if region = GetNodeRegion host then
                    (if zone = GetNodeZone host then Inr (cost + SameZone)
                     else Inr (cost + listed (map_of cm (zone, GetNodeZone host))))
                  else Inr (cost + listed (map_of cm (region, GetNodeRegion host))))"

definition getAccumulatedCost ::
    "net_env \<Rightarrow> ScheduledInfo list \<Rightarrow> DependenciesInfo list \<Rightarrow> string \<Rightarrow> string \<Rightarrow> string \<Rightarrow> costMap \<Rightarrow> unit + int64" where
  "getAccumulatedCost env scheduled deps node region zone cm =
     fold_err (\<lambda>p. fold_err (costPair env node region zone cm p) deps) scheduled 0"

section \<open>PreFilter\<close>

record net_acc =
  naTopology :: "NetworkTopology option"
  naNodeCost :: "(string, costMap) gomap"
  naSatisfied :: "(string, int64) gomap"
  naViolated :: "(string, int64) gomap"
  naFinal :: "(string, int64) gomap"

text \<open>One node; \<open>None\<close> is a panic, \<open>Some (Inl ())\<close> an error.\<close>

definition nodeStep ::
    "net_env \<Rightarrow> NetworkOverhead \<Rightarrow> ScheduledInfo list \<Rightarrow> DependenciesInfo list \<Rightarrow> LabelledNode \<Rightarrow> net_acc \<Rightarrow>
     (unit + net_acc) option" where
  "nodeStep env no scheduled deps node acc =
     (let region = GetNodeRegion node; zone = GetNodeZone node; name = nodeName node
      in do {
        (nt, cm) \<leftarrow> populateCostMap env no (naTopology acc) region zone;
        Some (case checkMaxNetworkCostRequirements env scheduled deps name region zone cm of
            Inl e \<Rightarrow> Inl e
          | Inr (satisfied, violated) \<Rightarrow>
              (case getAccumulatedCost env scheduled deps name region zone cm of
                 Inl e \<Rightarrow> Inl e
               | Inr cost \<Rightarrow> Inr \<lparr>naTopology = nt, naNodeCost = AList.update name cm (naNodeCost acc),
                   naSatisfied = AList.update name satisfied (naSatisfied acc),
                   naViolated = AList.update name violated (naViolated acc),
                   naFinal = AList.update name cost (naFinal acc)\<rparr>))
      })"

fun nodesLoop ::
    "net_env \<Rightarrow> NetworkOverhead \<Rightarrow> ScheduledInfo list \<Rightarrow> DependenciesInfo list \<Rightarrow> LabelledNode list \<Rightarrow> net_acc \<Rightarrow>
     (unit + net_acc) option" where
  "nodesLoop env no scheduled deps [] acc = Some (Inr acc)"
| "nodesLoop env no scheduled deps (n # ns) acc =
     (case nodeStep env no scheduled deps n acc of
        None \<Rightarrow> None
      | Some (Inl e) \<Rightarrow> Some (Inl e)
      | Some (Inr acc') \<Rightarrow> nodesLoop env no scheduled deps ns acc')"

definition PreFilter :: "net_env \<Rightarrow> NetworkOverhead \<Rightarrow> Pod \<Rightarrow> (Code \<times> PreFilterState) option" where
  "PreFilter env no pod =
     (let agName = GetPodAppGroupLabel pod
      in if agName = '''' then Some (Success, initialState)
         else do {
           let appGroup = findAppGroupNetworkOverhead env (noNamespaces no) agName;
           nt \<leftarrow> sortNetworkTopologyCosts env no
                  (findNetworkTopologyNetworkOverhead env (noNamespaces no) (noNtName no));
           deps \<leftarrow> map_option (GetDependencyList pod) appGroup;
           if deps = [] then Some (Success, initialState)
           else case neListPods env agName of
                  None \<Rightarrow> Some (Success, initialState)
                | Some pods \<Rightarrow>
                    if pods = [] then Some (Success, initialState)
                    else
                      (let scheduled = GetScheduledList pods
                       in if scheduled = [] then Some (Success, initialState)
                          else case neNodes env of
                                 None \<Rightarrow> Some (Error, initialState)
                               | Some nodes \<Rightarrow> do {
                                   r \<leftarrow> nodesLoop env no scheduled deps nodes
                                          \<lparr>naTopology = nt, naNodeCost = [], naSatisfied = [], naViolated = [], naFinal = []\<rparr>;
                                   Some (case r of
                                       Inl _ \<Rightarrow> (Error, initialState)
                                     | Inr acc \<Rightarrow> (Success,
                                         \<lparr>scoreEqually = False, pfAgName = agName, pfAppGroup = appGroup,
                                          pfTopology = naTopology acc, pfDependencies = deps, pfScheduled = scheduled,
                                          nodeCostMap = naNodeCost acc, satisfiedMap = naSatisfied acc,
                                          violatedMap = naViolated acc, finalCostMap = naFinal acc\<rparr>))
                                 })
         })"

section \<open>Filter and Score\<close>

definition Filter :: "PreFilterState option \<Rightarrow> LabelledNode option \<Rightarrow> Code" where
  "Filter state node =
     (case node of
        None \<Rightarrow> Error
      | Some n \<Rightarrow>
          (case state of
             None \<Rightarrow> Error
           | Some s \<Rightarrow>
               if scoreEqually s then Success
               else if int64val (satisfiedMap s) (nodeName n) <s int64val (violatedMap s) (nodeName n) then Unschedulable
               else Success))"

definition Score :: "PreFilterState option \<Rightarrow> string \<Rightarrow> int64 \<times> Code" where
  "Score state node =
     (case state of
        None \<Rightarrow> (MinNodeScore, Error)
      | Some s \<Rightarrow> if scoreEqually s then (MinNodeScore, Success) else (int64val (finalCostMap s) node, Success))"

definition MinInt64 :: int64 where
  "MinInt64 = - 9223372036854775808"

definition getMinMaxScores :: "NodeScoreList \<Rightarrow> int64 \<times> int64" where
  "getMinMaxScores ss =
     (case fold (\<lambda>ns (h, l). (if h <s nsScore ns then nsScore ns else h, if nsScore ns <s l then nsScore ns else l))
        ss (MinInt64, MaxInt64) of (h, l) \<Rightarrow> (l, h))"

definition NormalizeScore :: "NodeScoreList \<Rightarrow> NodeScoreList" where
  "NormalizeScore ss =
     (case getMinMaxScores ss of (minCost, maxCost) \<Rightarrow>
        if minCost = 0 \<and> maxCost = 0 then ss
        else map (\<lambda>ns. ns\<lparr>nsScore :=
          (if maxCost \<noteq> minCost then
             MaxNodeScore - word_of_int (ftrunc
               (fdiv (fmul (f64 (sint MaxNodeScore)) (f64 (sint (nsScore ns - minCost)))) (f64 (sint (maxCost - minCost)))))
           else MaxNodeScore - word_of_int (ftrunc (f64 (sint (nsScore ns - minCost)))))\<rparr>) ss)"

end
