(* ===== verification/Network_Refinement.thy ===== *)
theory Network_Refinement
  imports Network_Overhead
begin

text \<open>
  What the network overhead plugin should compute, stated without sorting, searching and shared slices, and
  the lemmas that the code computes it: the costs listed for a place are a lookup in the topology,
  and filter and score both rest on one classification of the distance between two nodes.
\<close>

section \<open>The specification\<close>

text \<open>The lists are keyed uniquely; measured costs are stored sorted, manual ones in any order.\<close>

definition wf_weight :: "bool \<Rightarrow> WeightInfo \<Rightarrow> bool" where
  "wf_weight manual w \<longleftrightarrow> distinct (map TopologyKey (TopologyList w)) \<and>
     (\<forall>ti \<in> set (TopologyList w). distinct (map Origin (OriginList ti)) \<and> (manual \<or> sorted (map Origin (OriginList ti))))"

definition keyed :: "('a \<Rightarrow> string) \<Rightarrow> 'a list \<Rightarrow> string \<rightharpoonup> 'a" where
  "keyed key t = map_of (map (\<lambda>e. (key e, e)) t)"

definition costs_of :: "string \<Rightarrow> string \<Rightarrow> WeightInfo \<Rightarrow> CostInfo list" where
  "costs_of key place w =
     (case keyed TopologyKey (TopologyList w) key of
        None \<Rightarrow> []
      | Some ti \<Rightarrow> (case keyed Origin (OriginList ti) place of None \<Rightarrow> [] | Some oi \<Rightarrow> CostList oi))"

definition add_costs :: "string \<Rightarrow> string \<Rightarrow> WeightInfo \<Rightarrow> (CostKey \<rightharpoonup> int64) \<Rightarrow> (CostKey \<rightharpoonup> int64)" where
  "add_costs key place w m =
     (if place = '''' then m else fold (\<lambda>c m. m((place, Destination c) \<mapsto> NetworkCost c)) (costs_of key place w) m)"

definition topology_costs :: "string \<Rightarrow> WeightInfo list \<Rightarrow> LabelledNode \<Rightarrow> CostKey \<rightharpoonup> int64" where
  "topology_costs name ws node =
     fold (\<lambda>w m. if weightName w = name
                 then add_costs LabelTopologyZone (GetNodeZone node) w (add_costs LabelTopologyRegion (GetNodeRegion node) w m)
                 else m) ws Map.empty"

datatype distance = OnNode | InZone | Unlabelled | Listed "int64 option"

definition distance_to :: "net_env \<Rightarrow> (CostKey \<rightharpoonup> int64) \<Rightarrow> LabelledNode \<Rightarrow> string \<Rightarrow> distance" where
  "distance_to env m node hostname =
     (if hostname = nodeName node then OnNode
      else case neNodeInfo env hostname of
             None \<Rightarrow> Unlabelled
           | Some host \<Rightarrow>
               if GetNodeRegion host = '''' \<and> GetNodeZone host = '''' then Unlabelled
               else if GetNodeRegion node = GetNodeRegion host then
                 (if GetNodeZone node = GetNodeZone host then InZone else Listed (m (GetNodeZone node, GetNodeZone host)))
               else Listed (m (GetNodeRegion node, GetNodeRegion host)))"

fun meets :: "int64 \<Rightarrow> distance \<Rightarrow> bool option" where
  "meets maxCost OnNode = Some True"
| "meets maxCost InZone = Some True"
| "meets maxCost Unlabelled = Some False"
| "meets maxCost (Listed None) = None"
| "meets maxCost (Listed (Some c)) = Some (c \<le>s maxCost)"

fun distance_cost :: "distance \<Rightarrow> int64" where
  "distance_cost OnNode = 0"
| "distance_cost InZone = 1"
| "distance_cost Unlabelled = 100"
| "distance_cost (Listed None) = 100"
| "distance_cost (Listed (Some c)) = c"

text \<open>The scheduled pods that the workload depends on, each with the dependency.\<close>

definition dependency_pairs :: "ScheduledInfo list \<Rightarrow> DependenciesInfo list \<Rightarrow> (ScheduledInfo \<times> DependenciesInfo) list" where
  "dependency_pairs scheduled deps =
     filter (\<lambda>(p, d). siSelector p = depSelector d) (concat (map (\<lambda>p. map (Pair p) deps) scheduled))"

definition count_meets :: "net_env \<Rightarrow> (CostKey \<rightharpoonup> int64) \<Rightarrow> LabelledNode \<Rightarrow> bool \<Rightarrow> (ScheduledInfo \<times> DependenciesInfo) list \<Rightarrow> nat" where
  "count_meets env m node v pairs =
     length (filter (\<lambda>(p, d). meets (depMaxNetworkCost d) (distance_to env m node (siHostname p)) = Some v) pairs)"

definition total_cost :: "net_env \<Rightarrow> (CostKey \<rightharpoonup> int64) \<Rightarrow> LabelledNode \<Rightarrow> (ScheduledInfo \<times> DependenciesInfo) list \<Rightarrow> int64" where
  "total_cost env m node pairs = sum_list (map (\<lambda>(p, d). distance_cost (distance_to env m node (siHostname p))) pairs)"

section \<open>Lookups\<close>

definition sorts_by :: "('a \<Rightarrow> string) \<Rightarrow> ('a list \<Rightarrow> 'a list) \<Rightarrow> bool" where
  "sorts_by key srt \<longleftrightarrow> (\<forall>xs. mset (srt xs) = mset xs \<and> sorted (map key (srt xs)))"

lemma keyed_member:
  "distinct (map key t) \<Longrightarrow> e \<in> set t \<Longrightarrow> keyed key t (key e) = Some e"
  unfolding keyed_def by (rule map_of_is_SomeI) (auto simp: comp_def)

lemma keyed_None: "x \<notin> key ` set t \<Longrightarrow> keyed key t x = None"
  by (auto simp: keyed_def map_of_eq_None_iff)

lemma keyed_cong:
  assumes "mset t' = mset t" "distinct (map key t)"
  shows "keyed key t' = keyed key t" "distinct (map key t')"
proof -
  have st: "set t' = set t" using assms(1) by (rule mset_eq_setD)
  have "mset (map key t') = mset (map key t)" using assms(1) by simp
  then show d: "distinct (map key t')" using assms(2) by (metis distinct_count_atmost_1 mset_eq_setD)
  show "keyed key t' = keyed key t"
  proof
    fix x
    show "keyed key t' x = keyed key t x"
      using keyed_member [OF d] keyed_member [OF assms(2)] keyed_None [of x key] st by (cases "x \<in> key ` set t") auto
  qed
qed

lemma searchIndex_keyed:
  assumes "sorted (map key t)" "distinct (map key t)"
  obtains (found) i where "searchIndex key t x = Some (Some i)" "nat i < length t" "key (t ! nat i) = x"
      "keyed key t x = Some (t ! nat i)"
    | (absent) "searchIndex key t x = Some None" "keyed key t x = None"
  using searchIndex_cases [OF assms(1), of x] keyed_member [OF assms(2)] keyed_None [of x key t]
  by (metis nth_mem)

section \<open>Costs\<close>

text \<open>A weight list as the loop over the nodes finds it: topology keys are sorted, too.\<close>

definition ready :: "bool \<Rightarrow> WeightInfo \<Rightarrow> bool" where
  "ready manual w \<longleftrightarrow> wf_weight manual w \<and> sorted (map TopologyKey (TopologyList w))"

definition same_costs :: "WeightInfo \<Rightarrow> WeightInfo \<Rightarrow> bool" where
  "same_costs w w' \<longleftrightarrow> weightName w' = weightName w \<and> (\<forall>key place. costs_of key place w' = costs_of key place w)"

abbreviation manual :: "NetworkOverhead \<Rightarrow> bool" where
  "manual no \<equiv> noWeightsName no \<noteq> NetperfCosts"

lemma map_of_fold_costs:
  "map_of (fold (\<lambda>c. AList.update (place, Destination c) (NetworkCost c)) costs cm) =
   fold (\<lambda>c m. m((place, Destination c) \<mapsto> NetworkCost c)) costs (map_of cm)"
  by (induction costs arbitrary: cm) simp_all

lemma keyed_update:
  assumes "distinct (map key t)" "n < length t" "key e = key (t ! n)"
  shows "keyed key (t[n := e]) = (keyed key t)(key e \<mapsto> e)" "map key (t[n := e]) = map key t"
proof -
  show k: "map key (t[n := e]) = map key t" using assms(2,3) by (simp add: map_update list_update_same_conv)
  have d: "distinct (map key (t[n := e]))" using assms(1) by (simp only: k)
  show "keyed key (t[n := e]) = (keyed key t)(key e \<mapsto> e)"
  proof
    fix x
    consider "x = key e" | m where "m < length t" "m \<noteq> n" "x = key (t ! m)" "x \<noteq> key e" | "x \<notin> key ` set t"
      using assms by (metis (no_types, lifting) imageE in_set_conv_nth)
    then show "keyed key (t[n := e]) x = ((keyed key t)(key e \<mapsto> e)) x"
    proof cases
      case 1
      then show ?thesis using keyed_member [OF d, of e] assms(2) by (simp add: set_update_memI)
    next
      case 2
      then have "t ! m \<in> set (t[n := e])" by (metis length_list_update nth_list_update_neq nth_mem)
      then show ?thesis using 2 keyed_member [OF d, of "t ! m"] keyed_member [OF assms(1), of "t ! m"] by simp
    next
      case 3
      then have "x \<notin> key ` set (t[n := e])" "x \<noteq> key e"
        using k assms(2,3) by (metis list.set_map, force)
      then show ?thesis using 3 by (simp add: keyed_None)
    qed
  qed
qed

lemma FindTopologyKey_keyed:
  assumes "ready man w"
  shows "FindTopologyKey (TopologyList w) key =
    Some (case keyed TopologyKey (TopologyList w) key of None \<Rightarrow> [] | Some ti \<Rightarrow> OriginList ti)"
  using assms by (auto simp: FindTopologyKey_def ready_def wf_weight_def
      elim: searchIndex_keyed [where key = TopologyKey and x = key and t = "TopologyList w"])

lemma FindOriginCosts_keyed:
  assumes "sorted (map Origin os)" "distinct (map Origin os)"
  shows "FindOriginCosts os place = Some (case keyed Origin os place of None \<Rightarrow> [] | Some oi \<Rightarrow> CostList oi)"
  using assms by (auto simp: FindOriginCosts_def elim: searchIndex_keyed [where key = Origin and x = place and t = os])

lemma storeOrigins_same:
  assumes r: "ready man w" and t: "keyed TopologyKey (TopologyList w) key = Some ti"
    and o: "mset os = mset (OriginList ti)" "sorted (map Origin os)"
  shows "ready man (storeOrigins key os w)" "same_costs w (storeOrigins key os w)"
proof -
  have d: "distinct (map TopologyKey (TopologyList w))" "sorted (map TopologyKey (TopologyList w))"
    using r by (simp_all add: ready_def wf_weight_def)
  obtain i where i: "searchIndex TopologyKey (TopologyList w) key = Some (Some i)" "nat i < length (TopologyList w)"
      "TopologyKey ti = key" "ti = TopologyList w ! nat i"
    by (rule searchIndex_keyed [OF d(2,1), of key]) (use t in auto)
  let ?ti = "ti\<lparr>OriginList := os\<rparr>"
  have w': "storeOrigins key os w = w\<lparr>TopologyList := (TopologyList w)[nat i := ?ti]\<rparr>"
    using i by (simp add: storeOrigins_def)
  note u = keyed_update [OF d(1) i(2), of ?ti]
  have ti: "ti \<in> set (TopologyList w)" using i(2,4) by simp
  then have od: "distinct (map Origin (OriginList ti))" using r by (simp add: ready_def wf_weight_def)
  note oc = keyed_cong [OF o(1) od]
  have "set ((TopologyList w)[nat i := ?ti]) \<subseteq> insert ?ti (set (TopologyList w))" by (rule set_update_subset_insert)
  then show "ready man (storeOrigins key os w)"
    using r oc(2) o(2) u(2) i(3,4) unfolding ready_def wf_weight_def w' by auto
  show "same_costs w (storeOrigins key os w)"
    using u(1) i(3,4) t oc(1) by (auto simp: same_costs_def costs_of_def w')
qed

lemma storeOrigins_absent:
  assumes "ready man w" "keyed TopologyKey (TopologyList w) key = None"
  shows "storeOrigins key os w = w"
proof -
  have "sorted (map TopologyKey (TopologyList w))" "distinct (map TopologyKey (TopologyList w))"
    using assms(1) by (simp_all add: ready_def wf_weight_def)
  then show ?thesis
    by (rule searchIndex_keyed [of TopologyKey "TopologyList w" key]) (use assms(2) in \<open>auto simp: storeOrigins_def\<close>)
qed

lemma same_costs_refl [simp]: "same_costs w w"
  by (simp add: same_costs_def)

lemma placeCosts_spec:
  assumes r: "ready (manual no) w" and s: "sorts_by Origin (neSortOrigins env)"
  obtains w' cm' where "placeCosts env no key place (w, cm) = Some (w', cm')" "ready (manual no) w'" "same_costs w w'"
    "map_of cm' = add_costs key place w (map_of cm)"
proof (cases "place = ''''")
  case True
  then show ?thesis using that [of w cm] r by (simp add: placeCosts_def add_costs_def)
next
  case False
  define found where "found = (case keyed TopologyKey (TopologyList w) key of None \<Rightarrow> [] | Some ti \<Rightarrow> OriginList ti)"
  define os where "os = (if manual no then neSortOrigins env found else found)"
  have ti: "ti \<in> set (TopologyList w)" if "keyed TopologyKey (TopologyList w) key = Some ti" for ti
    using that by (auto simp: keyed_def dest: map_of_SomeD)
  have f: "distinct (map Origin found)" "\<not> manual no \<Longrightarrow> sorted (map Origin found)"
    using r ti by (auto simp: found_def ready_def wf_weight_def split: option.splits)
  have m: "mset os = mset found" and so: "sorted (map Origin os)"
    using s f(2) by (auto simp: os_def sorts_by_def)
  note oc = keyed_cong [OF m f(1)]
  have costs: "FindOriginCosts os place = Some (costs_of key place w)"
    unfolding FindOriginCosts_keyed [OF so oc(2)] oc(1) by (auto simp: costs_of_def found_def keyed_def split: option.splits)
  have "ready (manual no) (storeOrigins key os w) \<and> same_costs w (storeOrigins key os w)"
    using storeOrigins_absent [OF r, of key os] storeOrigins_same [OF r, of key _ os] m so r
    by (cases "keyed TopologyKey (TopologyList w) key") (auto simp: found_def)
  moreover have "placeCosts env no key place (w, cm) =
      Some (storeOrigins key os w, fold (\<lambda>c. AList.update (place, Destination c) (NetworkCost c)) (costs_of key place w) cm)"
    using False costs by (simp add: placeCosts_def FindTopologyKey_keyed [OF r] found_def [symmetric] os_def [symmetric])
  ultimately show ?thesis using that False by (auto simp: add_costs_def map_of_fold_costs)
qed

lemma add_costs_same: "same_costs w w' \<Longrightarrow> add_costs key place w' = add_costs key place w"
  by (auto simp: add_costs_def same_costs_def)

lemma same_costs_trans: "same_costs u v \<Longrightarrow> same_costs v w \<Longrightarrow> same_costs u w"
  by (simp add: same_costs_def)

text \<open>A topology whose lists were only reordered since the start.\<close>

definition reordered :: "NetworkOverhead \<Rightarrow> WeightInfo list \<Rightarrow> WeightInfo list \<Rightarrow> bool" where
  "reordered no ws ws' \<longleftrightarrow> list_all2 (\<lambda>w w'. same_costs w w' \<and> ready (manual no) w') ws ws'"

definition place_step :: "NetworkOverhead \<Rightarrow> LabelledNode \<Rightarrow> WeightInfo \<Rightarrow> (CostKey \<rightharpoonup> int64) \<Rightarrow> (CostKey \<rightharpoonup> int64)" where
  "place_step no node w m =
     (if weightName w = noWeightsName no
      then add_costs LabelTopologyZone (GetNodeZone node) w (add_costs LabelTopologyRegion (GetNodeRegion node) w m)
      else m)"

lemma populateWeights_spec:
  assumes "reordered no ws ws'" "sorts_by Origin (neSortOrigins env)"
  shows "\<exists>ws'' cm'. populateWeights env no (GetNodeRegion node) (GetNodeZone node) ws' cm = Some (ws'', cm') \<and>
    reordered no ws ws'' \<and> map_of cm' = fold (place_step no node) ws (map_of cm)"
  using assms(1) unfolding reordered_def
proof (induction ws ws' arbitrary: cm rule: list_all2_induct)
  case Nil
  then show ?case by simp
next
  case (Cons w ws w' ws')
  then have w: "same_costs w w'" "ready (manual no) w'" by auto
  obtain w1 cm1 where 1: "placeCosts env no LabelTopologyRegion (GetNodeRegion node) (w', cm) = Some (w1, cm1)"
      "ready (manual no) w1" "same_costs w' w1" "map_of cm1 = add_costs LabelTopologyRegion (GetNodeRegion node) w' (map_of cm)"
    using placeCosts_spec [OF w(2) assms(2)] by blast
  obtain w2 cm2 where 2: "placeCosts env no LabelTopologyZone (GetNodeZone node) (w1, cm1) = Some (w2, cm2)"
      "ready (manual no) w2" "same_costs w1 w2" "map_of cm2 = add_costs LabelTopologyZone (GetNodeZone node) w1 (map_of cm1)"
    using placeCosts_spec [OF 1(2) assms(2)] by blast
  have sc: "same_costs w w1" "same_costs w w2" using w(1) 1(3) 2(3) same_costs_trans by blast+
  have wn: "weightName w' = weightName w" using w(1) by (simp add: same_costs_def)
  show ?case
  proof (cases "weightName w = noWeightsName no")
    case True
    then have "map_of cm2 = place_step no node w (map_of cm)"
      using 1(4) 2(4) by (simp add: place_step_def add_costs_same [OF sc(1)] add_costs_same [OF w(1)])
    then show ?thesis using Cons.IH [of cm2] True wn 1(1) 2(1,2) sc(2) by auto
  next
    case False
    then have "place_step no node w m = m" for m by (simp add: place_step_def)
    then show ?thesis using False Cons.IH [of cm] w wn by auto
  qed
qed

lemma populateCostMap_spec:
  assumes "reordered no ws (ntWeights t)" "sorts_by Origin (neSortOrigins env)"
  obtains t' cm where "populateCostMap env no (Some t) (GetNodeRegion node) (GetNodeZone node) = Some (Some t', cm)"
    "reordered no ws (ntWeights t')" "map_of cm = topology_costs (noWeightsName no) ws node"
proof -
  have "fold (place_step no node) ws Map.empty = topology_costs (noWeightsName no) ws node"
    unfolding topology_costs_def place_step_def ..
  then show ?thesis
    using populateWeights_spec [OF assms, of node "[]"] that by (auto simp: populateCostMap_def)
qed

section \<open>Dependencies\<close>

definition meet_step ::
    "net_env \<Rightarrow> (CostKey \<rightharpoonup> int64) \<Rightarrow> LabelledNode \<Rightarrow> ScheduledInfo \<Rightarrow> DependenciesInfo \<Rightarrow> int64 \<times> int64 \<Rightarrow> int64 \<times> int64" where
  "meet_step env m node p d = (\<lambda>(s, v).
     if siSelector p \<noteq> depSelector d then (s, v)
     else case meets (depMaxNetworkCost d) (distance_to env m node (siHostname p)) of
            None \<Rightarrow> (s, v)
          | Some b \<Rightarrow> if b then (s + 1, v) else (s, v + 1))"

definition cost_step ::
    "net_env \<Rightarrow> (CostKey \<rightharpoonup> int64) \<Rightarrow> LabelledNode \<Rightarrow> ScheduledInfo \<Rightarrow> DependenciesInfo \<Rightarrow> int64 \<Rightarrow> int64" where
  "cost_step env m node p d cost =
     (if siSelector p \<noteq> depSelector d then cost else cost + distance_cost (distance_to env m node (siHostname p)))"

lemma checkPair_step:
  "checkPair env (nodeName node) (GetNodeRegion node) (GetNodeZone node) cm p d acc = Inr r \<Longrightarrow>
   r = meet_step env (map_of cm) node p d acc"
  by (auto simp: checkPair_def meet_step_def distance_to_def Let_def split: prod.splits if_splits option.splits)

lemma costPair_step:
  "costPair env (nodeName node) (GetNodeRegion node) (GetNodeZone node) cm p d cost = Inr r \<Longrightarrow>
   r = cost_step env (map_of cm) node p d cost"
  by (auto simp: costPair_def cost_step_def distance_to_def Let_def MaxCost_def SameHostname_def SameZone_def
      split: if_splits option.splits)

lemma fold_pairs: "fold (\<lambda>p. fold (f p) ds) ps acc = fold (\<lambda>(p, d). f p d) (concat (map (\<lambda>p. map (Pair p) ds) ps)) acc"
  by (induction ps arbitrary: acc) (simp_all add: fold_map comp_def)

lemma meet_steps_count:
  "fold (\<lambda>(p, d). meet_step env m node p d) qs (s, v) =
   (s + of_nat (count_meets env m node True (filter (\<lambda>(p, d). siSelector p = depSelector d) qs)),
    v + of_nat (count_meets env m node False (filter (\<lambda>(p, d). siSelector p = depSelector d) qs)))"
  by (induction qs arbitrary: s v) (auto simp: meet_step_def count_meets_def split: option.splits)

lemma cost_steps_sum:
  "fold (\<lambda>(p, d). cost_step env m node p d) qs c =
   c + total_cost env m node (filter (\<lambda>(p, d). siSelector p = depSelector d) qs)"
  by (induction qs arbitrary: c) (auto simp: cost_step_def total_cost_def)

lemma checkMax_count:
  assumes "checkMaxNetworkCostRequirements env scheduled deps (nodeName node) (GetNodeRegion node) (GetNodeZone node) cm = Inr (s, v)"
    and "\<forall>p \<in> set scheduled. siHostname p \<noteq> ''''"
  shows "s = of_nat (count_meets env (map_of cm) node True (dependency_pairs scheduled deps))"
    "v = of_nat (count_meets env (map_of cm) node False (dependency_pairs scheduled deps))"
proof -
  have "(s, v) = fold (\<lambda>p. fold (meet_step env (map_of cm) node p) deps) scheduled (0, 0)"
    using assms(1) unfolding checkMaxNetworkCostRequirements_def
    by (rule fold_err_Inr) (use assms(2) fold_err_Inr [OF _ checkPair_step] in auto)
  then show "s = of_nat (count_meets env (map_of cm) node True (dependency_pairs scheduled deps))"
    "v = of_nat (count_meets env (map_of cm) node False (dependency_pairs scheduled deps))"
    by (simp_all add: fold_pairs meet_steps_count dependency_pairs_def)
qed

lemma accumulated_total:
  assumes "getAccumulatedCost env scheduled deps (nodeName node) (GetNodeRegion node) (GetNodeZone node) cm = Inr c"
  shows "c = total_cost env (map_of cm) node (dependency_pairs scheduled deps)"
proof -
  have "c = fold (\<lambda>p. fold (cost_step env (map_of cm) node p) deps) scheduled 0"
    using assms unfolding getAccumulatedCost_def
    by (rule fold_err_Inr) (erule fold_err_Inr, erule costPair_step)
  then show ?thesis by (simp add: fold_pairs cost_steps_sum dependency_pairs_def)
qed

section \<open>The loop over the nodes\<close>

text \<open>What the maps hold for a node.\<close>

definition judged :: "net_env \<Rightarrow> (LabelledNode \<Rightarrow> CostKey \<rightharpoonup> int64) \<Rightarrow> (ScheduledInfo \<times> DependenciesInfo) list \<Rightarrow> net_acc \<Rightarrow> LabelledNode \<Rightarrow> bool" where
  "judged env m pairs acc n \<longleftrightarrow>
     map_of (naSatisfied acc) (nodeName n) = Some (of_nat (count_meets env (m n) n True pairs)) \<and>
     map_of (naViolated acc) (nodeName n) = Some (of_nat (count_meets env (m n) n False pairs)) \<and>
     map_of (naFinal acc) (nodeName n) = Some (total_cost env (m n) n pairs)"

lemma nodeStep_spec:
  assumes t: "naTopology acc = Some t" "reordered no ws (ntWeights t)" and s: "sorts_by Origin (neSortOrigins env)"
    and h: "\<forall>p \<in> set scheduled. siHostname p \<noteq> ''''"
    and st: "nodeStep env no scheduled deps n acc = Some (Inr acc')"
  shows "\<exists>t'. naTopology acc' = Some t' \<and> reordered no ws (ntWeights t')"
    and "judged env (topology_costs (noWeightsName no) ws) (dependency_pairs scheduled deps) acc' n"
    and "nodeName n' \<noteq> nodeName n \<Longrightarrow> judged env m pairs acc' n' = judged env m pairs acc n'"
proof -
  obtain t' cm where p: "populateCostMap env no (Some t) (GetNodeRegion n) (GetNodeZone n) = Some (Some t', cm)"
      "reordered no ws (ntWeights t')" "map_of cm = topology_costs (noWeightsName no) ws n"
    by (rule populateCostMap_spec [OF t(2) s])
  obtain sat vio c where c: "checkMaxNetworkCostRequirements env scheduled deps (nodeName n) (GetNodeRegion n) (GetNodeZone n) cm = Inr (sat, vio)"
      "getAccumulatedCost env scheduled deps (nodeName n) (GetNodeRegion n) (GetNodeZone n) cm = Inr c"
      "acc' = \<lparr>naTopology = Some t', naNodeCost = AList.update (nodeName n) cm (naNodeCost acc),
         naSatisfied = AList.update (nodeName n) sat (naSatisfied acc),
         naViolated = AList.update (nodeName n) vio (naViolated acc), naFinal = AList.update (nodeName n) c (naFinal acc)\<rparr>"
    using st p(1) t(1) by (auto simp: nodeStep_def Let_def split: sum.splits prod.splits)
  show "\<exists>t'. naTopology acc' = Some t' \<and> reordered no ws (ntWeights t')" using p(2) c(3) by simp
  show "judged env (topology_costs (noWeightsName no) ws) (dependency_pairs scheduled deps) acc' n"
    using checkMax_count [OF c(1) h] accumulated_total [OF c(2)] by (simp add: judged_def c(3) p(3))
  show "nodeName n' \<noteq> nodeName n \<Longrightarrow> judged env m pairs acc' n' = judged env m pairs acc n'"
    by (simp add: judged_def c(3))
qed

lemma nodesLoop_spec:
  assumes "sorts_by Origin (neSortOrigins env)" "\<forall>p \<in> set scheduled. siHostname p \<noteq> ''''"
    and "naTopology acc = Some t" "reordered no ws (ntWeights t)" "distinct (map nodeName nodes)"
    and "nodesLoop env no scheduled deps nodes acc = Some (Inr acc')"
  defines "m \<equiv> topology_costs (noWeightsName no) ws" and "pairs \<equiv> dependency_pairs scheduled deps"
  shows "(\<forall>n \<in> set nodes. judged env m pairs acc' n) \<and>
    (\<forall>n. nodeName n \<notin> nodeName ` set nodes \<longrightarrow> judged env m pairs acc' n = judged env m pairs acc n)"
  using assms(3-6)
proof (induction nodes arbitrary: acc t)
  case Nil
  then show ?case by simp
next
  case (Cons x nodes)
  then obtain acc1 where 1: "nodeStep env no scheduled deps x acc = Some (Inr acc1)"
      "nodesLoop env no scheduled deps nodes acc1 = Some (Inr acc')"
    by (auto split: option.splits sum.splits)
  note x = nodeStep_spec [OF Cons.prems(1,2) assms(1,2) 1(1)]
  from x(1) obtain t1 where "naTopology acc1 = Some t1" "reordered no ws (ntWeights t1)" by blast
  with Cons.IH Cons.prems(3) 1(2)
  have "(\<forall>n \<in> set nodes. judged env m pairs acc' n) \<and>
    (\<forall>n. nodeName n \<notin> nodeName ` set nodes \<longrightarrow> judged env m pairs acc' n = judged env m pairs acc1 n)" by simp
  with x(2,3) Cons.prems(3) show ?case by (auto simp: m_def pairs_def)
qed

end
