(* ===== verification/Topological_Sort.thy ===== *)
theory Topological_Sort
  imports Network_Overhead
begin

text \<open>
  \<^verbatim>\<open>scheduler-plugins/pkg/networkaware/topologicalsort/topologicalsort.go\<close>: pods of one application group
  are queued in the order of their workloads, other pods by priority and age (the vendored
  \<^verbatim>\<open>PrioritySort\<close>). \<open>None\<close> is the panic on a group that no namespace has.
\<close>

record QueuedPod =
  tqPod :: Pod
  tqTimestamp :: int

definition PrioritySortLess :: "QueuedPod \<Rightarrow> QueuedPod \<Rightarrow> bool" where
  "PrioritySortLess p1 p2 \<longleftrightarrow>
     PodPriority (tqPod p2) <s PodPriority (tqPod p1) \<or>
     PodPriority (tqPod p1) = PodPriority (tqPod p2) \<and> tqTimestamp p1 < tqTimestamp p2"

fun findAppGroupTopologicalSort :: "net_env \<Rightarrow> string list \<Rightarrow> string \<Rightarrow> AppGroup option" where
  "findAppGroupTopologicalSort env [] agName = None"
| "findAppGroupTopologicalSort env (ns # nss) agName =
     (case neAppGroup env ns agName of
        None \<Rightarrow> findAppGroupTopologicalSort env nss agName
      | Some ag \<Rightarrow> Some ag)"

definition Less :: "net_env \<Rightarrow> string list \<Rightarrow> QueuedPod \<Rightarrow> QueuedPod \<Rightarrow> bool option" where
  "Less env namespaces p1 p2 =
     (let g1 = GetPodAppGroupLabel (tqPod p1); g2 = GetPodAppGroupLabel (tqPod p2)
      in if g1 \<noteq> g2 \<or> g1 = '''' then Some (PrioritySortLess p1 p2)
         else do {
           appGroup \<leftarrow> findAppGroupTopologicalSort env namespaces g1;
           order1 \<leftarrow> FindPodOrder (agTopologyOrder appGroup) (GetPodAppGroupSelector (tqPod p1));
           order2 \<leftarrow> FindPodOrder (agTopologyOrder appGroup) (GetPodAppGroupSelector (tqPod p2));
           Some (order1 \<le>s order2)
         })"

end
