(* ===== verification/Network_Properties.thy ===== *)
theory Network_Properties
  imports Network_Refinement Topological_Sort
begin

text \<open>
  The properties of the network-aware plugins: the searches end and find, filter and score rest on the
  distances to the dependencies, costs are turned into scores, and a missing custom resource panics.
\<close>

section \<open>Searches\<close>

text \<open>
  C31. The binary searches end without a panic on every list, sorted or not. On a list that is
  sorted by its key, each returns the data of an entry with the key if there is one, and the
  default of the source (no costs, no origins, index -1) if there is none.
\<close>

theorem binary_searches_end:
  "(\<exists>i costs origins. FindPodOrder t selector = Some i \<and> FindOriginCosts os origin = Some costs \<and>
      FindTopologyKey ts key = Some origins \<and>
      (sorted (map topoSelector t) \<longrightarrow>
        (if selector \<in> topoSelector ` set t then \<exists>e \<in> set t. topoSelector e = selector \<and> i = topoIndex e else i = - 1)) \<and>
      (sorted (map Origin os) \<longrightarrow>
        (if origin \<in> Origin ` set os then \<exists>e \<in> set os. Origin e = origin \<and> costs = CostList e else costs = [])) \<and>
      (sorted (map TopologyKey ts) \<longrightarrow>
        (if key \<in> TopologyKey ` set ts then \<exists>e \<in> set ts. TopologyKey e = key \<and> origins = OriginList e else origins = [])))"
proof -
  have found: "\<exists>v. map_option (\<lambda>r. case r of None \<Rightarrow> dflt | Some i \<Rightarrow> val (xs ! nat i)) (searchIndex k xs x) = Some v \<and>
      (sorted (map k xs) \<longrightarrow> (if x \<in> k ` set xs then \<exists>e \<in> set xs. k e = x \<and> v = val e else v = dflt))"
    for k :: "'x \<Rightarrow> string" and xs x and val :: "'x \<Rightarrow> 'v" and dflt
  proof -
    obtain r where r: "searchIndex k xs x = Some r" by (rule searchIndex_total)
    then show ?thesis using searchIndex_cases [of k xs x] by (cases r) (auto, metis nth_mem)+
  qed
  show ?thesis
    unfolding FindPodOrder_def FindOriginCosts_def FindTopologyKey_def
    using found [of "- 1" topoIndex t topoSelector selector] found [of "[]" CostList os Origin origin]
      found [of "[]" OriginList ts TopologyKey key] by blast
qed

definition ex_order :: "AppGroupTopologyInfo list" where
  "ex_order = [\<lparr>topoSelector = ''a'', topoIndex = 2\<rparr>, \<lparr>topoSelector = ''c'', topoIndex = 1\<rparr>]"

lemma ex_order_sorted: "sorted (map topoSelector ex_order)"
  by (simp add: ex_order_def less_eq_char_def)

theorem binary_searches_end_witness:
  "sorted (map topoSelector ex_order) \<and> FindPodOrder ex_order ''c'' = Some 1 \<and> FindPodOrder ex_order ''b'' = Some (- 1)"
  using binary_searches_end [of ex_order "''c''" "[]" "''z''" "[]" "''k''"]
    binary_searches_end [of ex_order "''b''" "[]" "''z''" "[]" "''k''"] ex_order_sorted
  by (simp add: ex_order_def)

section \<open>Filter and Score\<close>

lemma sorted_ready:
  assumes "sorts_by TopologyKey srt" "wf_weight man w"
  shows "ready man (w\<lparr>TopologyList := srt (TopologyList w)\<rparr>)" "same_costs w (w\<lparr>TopologyList := srt (TopologyList w)\<rparr>)"
proof -
  have m: "mset (srt (TopologyList w)) = mset (TopologyList w)" "sorted (map TopologyKey (srt (TopologyList w)))"
    using assms(1) by (simp_all add: sorts_by_def)
  have d: "distinct (map TopologyKey (TopologyList w))" using assms(2) by (simp add: wf_weight_def)
  note k = keyed_cong [OF m(1) d]
  show "ready man (w\<lparr>TopologyList := srt (TopologyList w)\<rparr>)"
    using assms(2) k(2) m mset_eq_setD [OF m(1)] by (simp add: ready_def wf_weight_def)
  show "same_costs w (w\<lparr>TopologyList := srt (TopologyList w)\<rparr>)"
    by (simp add: same_costs_def costs_of_def k(1))
qed

text \<open>A topology that the plugin can use: measured costs come sorted, manual ones need not be.\<close>

definition usable :: "NetworkOverhead \<Rightarrow> NetworkTopology \<Rightarrow> bool" where
  "usable no nt \<longleftrightarrow> (\<forall>w \<in> set (ntWeights nt). if manual no then wf_weight True w else ready False w)"

lemma sortNetworkTopologyCosts_spec:
  assumes "sorts_by TopologyKey (neSortTopology env)" "usable no nt"
  shows "\<exists>t. sortNetworkTopologyCosts env no (Some nt) = Some (Some t) \<and> reordered no (ntWeights nt) (ntWeights t)"
  using assms sorted_ready [OF assms(1), of True]
  by (auto simp: sortNetworkTopologyCosts_def reordered_def usable_def list_all2_conv_all_nth)

lemma PreFilter_state:
  assumes pf: "PreFilter env no pod = Some (Success, s)" "\<not> scoreEqually s"
    and ag: "findAppGroupNetworkOverhead env (noNamespaces no) (GetPodAppGroupLabel pod) = Some ag"
    and t: "sortNetworkTopologyCosts env no
          (findNetworkTopologyNetworkOverhead env (noNamespaces no) (noNtName no)) = Some (Some t)"
    and n: "neListPods env (GetPodAppGroupLabel pod) = Some pods" "neNodes env = Some nodes"
  shows "\<exists>acc. nodesLoop env no (GetScheduledList pods) (GetDependencyList pod ag) nodes
      \<lparr>naTopology = Some t, naNodeCost = [], naSatisfied = [], naViolated = [], naFinal = []\<rparr> = Some (Inr acc) \<and>
    satisfiedMap s = naSatisfied acc \<and> violatedMap s = naViolated acc \<and> finalCostMap s = naFinal acc"
proof (cases "nodesLoop env no (GetScheduledList pods) (GetDependencyList pod ag) nodes
      \<lparr>naTopology = Some t, naNodeCost = [], naSatisfied = [], naViolated = [], naFinal = []\<rparr>")
  case None
  then show ?thesis using pf by (auto simp: PreFilter_def ag t n Let_def initialState_def split: if_splits)
next
  case (Some r)
  then show ?thesis
    using pf by (cases r) (auto simp: PreFilter_def ag t n Let_def initialState_def split: if_splits)
qed

text \<open>
  C32. When \<open>PreFilter\<close> judges the nodes, a node is filtered out exactly when more of the scheduled pods
  that the workload depends on are too far than near enough, and its raw score is the total distance to
  them. Near and far are those of the specification, a plain lookup in the topology: sorting,
  binary search and the sharing of slices between nodes do not show.
\<close>

theorem network_filter_and_score:
  assumes "sorts_by TopologyKey (neSortTopology env)" "sorts_by Origin (neSortOrigins env)"
    and "findAppGroupNetworkOverhead env (noNamespaces no) (GetPodAppGroupLabel pod) = Some ag"
    and "findNetworkTopologyNetworkOverhead env (noNamespaces no) (noNtName no) = Some nt" "usable no nt"
    and "neListPods env (GetPodAppGroupLabel pod) = Some pods" "neNodes env = Some nodes"
    and "PreFilter env no pod = Some (Success, s)" "\<not> scoreEqually s"
    and "distinct (map nodeName nodes)" "n \<in> set nodes"
  defines "pairs \<equiv> dependency_pairs (GetScheduledList pods) (GetDependencyList pod ag)"
    and "m \<equiv> topology_costs (noWeightsName no) (ntWeights nt) n"
  assumes "length pairs < 2 ^ 63"
  shows "Filter (Some s) (Some n) =
      (if count_meets env m n True pairs < count_meets env m n False pairs then Unschedulable else Success) \<and>
    Score (Some s) (nodeName n) = (total_cost env m n pairs, Success)"
proof -
  obtain t where t: "sortNetworkTopologyCosts env no (Some nt) = Some (Some t)" "reordered no (ntWeights nt) (ntWeights t)"
    using sortNetworkTopologyCosts_spec [OF assms(1,5)] by blast
  let ?acc0 = "\<lparr>naTopology = Some t, naNodeCost = [], naSatisfied = [], naViolated = [], naFinal = []\<rparr>"
  obtain acc where acc: "nodesLoop env no (GetScheduledList pods) (GetDependencyList pod ag) nodes ?acc0 = Some (Inr acc)"
      "satisfiedMap s = naSatisfied acc" "violatedMap s = naViolated acc" "finalCostMap s = naFinal acc"
    using PreFilter_state [OF assms(8,9,3) _ assms(6,7), unfolded assms(4), OF t(1)] by blast
  have "\<forall>p \<in> set (GetScheduledList pods). siHostname p \<noteq> ''''" by (auto simp: GetScheduledList_def)
  from nodesLoop_spec [OF assms(2) this _ t(2) assms(10) acc(1)] assms(11)
  have j: "judged env (topology_costs (noWeightsName no) (ntWeights nt)) pairs acc n" by (simp add: pairs_def)
  have "count_meets env m n v pairs < 2 ^ 63" for v
    using assms(14) length_filter_le [of _ pairs] unfolding count_meets_def by (meson le_less_trans)
  then have c: "sint (of_nat (count_meets env m n v pairs) :: int64) = int (count_meets env m n v pairs)" for v
    by (simp add: sint_of_nat64)
  show ?thesis
    using j assms(9) by (simp add: Filter_def Score_def judged_def acc int64val_def m_def [symmetric] sless_sint c)
qed


definition ex_net_node :: "string \<Rightarrow> string \<Rightarrow> LabelledNode" where
  "ex_net_node name zone = \<lparr>nodeName = name, nodeLabels = [(LabelTopologyZone, zone)]\<rparr>"

definition ex_topology :: NetworkTopology where
  "ex_topology = \<lparr>ntUID = ''t'', ntWeights = [\<lparr>weightName = ''UserDefined'', TopologyList =
     [\<lparr>TopologyKey = LabelTopologyZone, OriginList =
        [\<lparr>Origin = ''z2'', CostList = [\<lparr>Destination = ''z1'', NetworkCost = 5\<rparr>]\<rparr>,
         \<lparr>Origin = ''z1'', CostList = [\<lparr>Destination = ''z2'', NetworkCost = 20\<rparr>]\<rparr>]\<rparr>]\<rparr>]\<rparr>"

definition ex_app_pod :: "string \<Rightarrow> string \<Rightarrow> Pod" where
  "ex_app_pod workload node = zero_pod\<lparr>podName := workload, podNodeName := node,
     podLabels := [(AppGroupLabel, ''g''), (AppGroupSelectorLabel, workload)]\<rparr>"

definition ex_app_group :: AppGroup where
  "ex_app_group = \<lparr>agUID = ''u'',
     agWorkloads = [\<lparr>wlSelector = ''front'', wlDependencies = [\<lparr>depSelector = ''back'', depMaxNetworkCost = 10\<rparr>]\<rparr>],
     agTopologyOrder = []\<rparr>"

definition ex_net :: net_env where
  "ex_net = \<lparr>neAppGroup = (\<lambda>_ n. if n = ''g'' then Some ex_app_group else None), neTopology = (\<lambda>_ _. Some ex_topology),
     neListPods = (\<lambda>_. Some [ex_app_pod ''back'' ''n1'', ex_app_pod ''front'' '''']),
     neNodes = Some [ex_net_node ''n1'' ''z1'', ex_net_node ''n2'' ''z2''],
     neNodeInfo = (\<lambda>n. if n = ''n1'' then Some (ex_net_node ''n1'' ''z1'') else Some (ex_net_node ''n2'' ''z2'')),
     neSortTopology = sort_key TopologyKey, neSortOrigins = sort_key Origin\<rparr>"

definition ex_no :: NetworkOverhead where
  "ex_no = \<lparr>noNamespaces = [''d''], noWeightsName = ''UserDefined'', noNtName = ''t''\<rparr>"

lemma ex_prefilter:
  "case PreFilter ex_net ex_no (ex_app_pod ''front'' '''') of None \<Rightarrow> False | Some (c, s) \<Rightarrow> c = Success \<and> \<not> scoreEqually s"
  by code_simp

lemma ex_net_fields:
  "neListPods ex_net (GetPodAppGroupLabel (ex_app_pod w n)) = Some [ex_app_pod ''back'' ''n1'', ex_app_pod ''front'' '''']"
  "neNodes ex_net = Some [ex_net_node ''n1'' ''z1'', ex_net_node ''n2'' ''z2'']"
  "findAppGroupNetworkOverhead ex_net (noNamespaces ex_no) (GetPodAppGroupLabel (ex_app_pod w n)) = Some ex_app_group"
  "findNetworkTopologyNetworkOverhead ex_net (noNamespaces ex_no) (noNtName ex_no) = Some ex_topology"
  "sorts_by TopologyKey (neSortTopology ex_net)" "sorts_by Origin (neSortOrigins ex_net)"
  by (simp_all add: ex_net_def ex_no_def GetPodAppGroupLabel_def ex_app_pod_def strval_def AppGroupLabel_def
      ex_app_group_def ex_topology_def sorts_by_def)

lemma ex_net_pairs:
  "dependency_pairs (GetScheduledList [ex_app_pod ''back'' ''n1'', ex_app_pod ''front'' ''''])
     (GetDependencyList (ex_app_pod ''front'' '''') ex_app_group) =
   [(\<lparr>siName = ''back'', siSelector = ''back'', siReplicaID = '''', siHostname = ''n1''\<rparr>,
     \<lparr>depSelector = ''back'', depMaxNetworkCost = 10\<rparr>)]"
  by code_simp

lemma ex_net_costs:
  "topology_costs (noWeightsName ex_no) (ntWeights ex_topology) (ex_net_node ''n2'' ''z2'') (''z2'', ''z1'') = Some 5"
  by (simp add: topology_costs_def ex_topology_def ex_no_def add_costs_def costs_of_def keyed_def ex_net_node_def
      GetNodeRegion_def GetNodeZone_def strval_def LabelTopologyRegion_def LabelTopologyZone_def)

theorem network_filter_and_score_witness:
  "\<exists>s. PreFilter ex_net ex_no (ex_app_pod ''front'' '''') = Some (Success, s) \<and>
     Filter (Some s) (Some (ex_net_node ''n2'' ''z2'')) = Success \<and> Score (Some s) ''n2'' = (5, Success)"
proof -
  let ?n = "ex_net_node ''n2'' ''z2''"
  obtain s where s: "PreFilter ex_net ex_no (ex_app_pod ''front'' '''') = Some (Success, s)" "\<not> scoreEqually s"
    using ex_prefilter by (auto split: option.splits)
  have d: "distance_to ex_net (topology_costs (noWeightsName ex_no) (ntWeights ex_topology) ?n) ?n ''n1'' = Listed (Some 5)"
    using ex_net_costs by (simp add: distance_to_def ex_net_node_def ex_net_def GetNodeRegion_def GetNodeZone_def strval_def
        LabelTopologyRegion_def LabelTopologyZone_def)
  have "usable ex_no ex_topology"
    by (simp add: usable_def wf_weight_def ex_no_def ex_topology_def NetperfCosts_def)
  then show ?thesis
    using network_filter_and_score [OF ex_net_fields(5,6,3,4) _ ex_net_fields(1,2) s, of ?n] s d
    by (simp add: ex_net_pairs count_meets_def total_cost_def word_sle_eq) (simp add: ex_net_node_def)
qed


section \<open>Panics\<close>

lemma searches_total:
  "(FindPodOrder t y = None) = False" "(FindOriginCosts os y = None) = False" "(FindTopologyKey ts y = None) = False"
proof -
  have "searchIndex k xs y \<noteq> None" for k :: "'a \<Rightarrow> string" and xs y by (rule searchIndex_total [of k xs y]) simp
  then show "(FindPodOrder t y = None) = False" "(FindOriginCosts os y = None) = False" "(FindTopologyKey ts y = None) = False"
    by (simp_all add: FindPodOrder_def FindOriginCosts_def FindTopologyKey_def)
qed

lemma placeCosts_total: "(placeCosts env no key place wm = None) = False"
  by (cases wm) (simp add: placeCosts_def Let_def bind_eq_None_conv searches_total del: not_None_eq)

lemma populateWeights_total: "(populateWeights env no region zone ws cm = None) = False"
  by (induction ws arbitrary: cm) (simp_all add: bind_eq_None_conv placeCosts_total split: prod.splits del: not_None_eq)

lemma populateCostMap_total: "\<exists>t' cm. populateCostMap env no (Some t) region zone = Some (Some t', cm)"
  using populateWeights_total [of env no region zone "ntWeights t" "[]"] by (auto simp: populateCostMap_def)

lemma nodesLoop_total: "naTopology acc = Some t \<Longrightarrow> (nodesLoop env no scheduled deps nodes acc = None) = False"
proof (induction nodes arbitrary: acc t)
  case (Cons n nodes)
  obtain t' cm where "populateCostMap env no (Some t) (GetNodeRegion n) (GetNodeZone n) = Some (Some t', cm)"
    using populateCostMap_total by blast
  with Cons show ?case by (auto simp: nodeStep_def Let_def split: sum.splits)
qed simp

lemma nodesLoop_no_topology:
  "naTopology acc = None \<Longrightarrow> nodesLoop env no scheduled deps nodes acc = None \<longleftrightarrow> nodes \<noteq> []"
  by (cases nodes) (simp_all add: nodeStep_def populateCostMap_def)

text \<open>
  C20. The scheduler panics on a nil dereference exactly in these cases: \<open>PreFilter\<close>, for a pod with an
  application group label, when no configured namespace has the group, or when there is no network
  topology and either costs are manual or a node is to be judged; the queue order, when two pods
  carry the same group label and no namespace has the group. There is no other panic, and every
  search returns.
\<close>

theorem missing_resources_panic:
  "(PreFilter env no pod = None \<longleftrightarrow>
      GetPodAppGroupLabel pod \<noteq> '''' \<and>
      (case findAppGroupNetworkOverhead env (noNamespaces no) (GetPodAppGroupLabel pod) of
         None \<Rightarrow> True
       | Some ag \<Rightarrow>
           findNetworkTopologyNetworkOverhead env (noNamespaces no) (noNtName no) = None \<and>
           (noWeightsName no \<noteq> NetperfCosts \<or>
            GetDependencyList pod ag \<noteq> [] \<and>
            (\<exists>pods nodes. neListPods env (GetPodAppGroupLabel pod) = Some pods \<and> GetScheduledList pods \<noteq> [] \<and>
              neNodes env = Some nodes \<and> nodes \<noteq> [])))) \<and>
   (Topological_Sort.Less env namespaces p q = None \<longleftrightarrow>
      GetPodAppGroupLabel (tqPod p) = GetPodAppGroupLabel (tqPod q) \<and> GetPodAppGroupLabel (tqPod p) \<noteq> '''' \<and>
      findAppGroupTopologicalSort env namespaces (GetPodAppGroupLabel (tqPod p)) = None)"
proof
  show "Topological_Sort.Less env namespaces p q = None \<longleftrightarrow>
      GetPodAppGroupLabel (tqPod p) = GetPodAppGroupLabel (tqPod q) \<and> GetPodAppGroupLabel (tqPod p) \<noteq> '''' \<and>
      findAppGroupTopologicalSort env namespaces (GetPodAppGroupLabel (tqPod p)) = None"
    by (auto simp: Topological_Sort.Less_def Let_def bind_eq_None_conv searches_total)
next
  have [simp]: "GetScheduledList [] = []" by (simp add: GetScheduledList_def)
  show "PreFilter env no pod = None \<longleftrightarrow>
      GetPodAppGroupLabel pod \<noteq> '''' \<and>
      (case findAppGroupNetworkOverhead env (noNamespaces no) (GetPodAppGroupLabel pod) of
         None \<Rightarrow> True
       | Some ag \<Rightarrow>
           findNetworkTopologyNetworkOverhead env (noNamespaces no) (noNtName no) = None \<and>
           (noWeightsName no \<noteq> NetperfCosts \<or>
            GetDependencyList pod ag \<noteq> [] \<and>
            (\<exists>pods nodes. neListPods env (GetPodAppGroupLabel pod) = Some pods \<and> GetScheduledList pods \<noteq> [] \<and>
              neNodes env = Some nodes \<and> nodes \<noteq> [])))"
    by (auto simp: PreFilter_def sortNetworkTopologyCosts_def Let_def nodesLoop_no_topology nodesLoop_total
        bind_eq_None_conv simp del: not_None_eq split: option.splits if_splits)
qed

definition ex_no_group :: net_env where
  "ex_no_group = ex_net\<lparr>neAppGroup := (\<lambda>_ _. None)\<rparr>"

theorem missing_resources_panic_witness:
  "PreFilter ex_no_group ex_no (ex_app_pod ''front'' '''') = None \<and> PreFilter ex_net ex_no (ex_app_pod ''front'' '''') \<noteq> None \<and>
   Topological_Sort.Less ex_no_group [''d''] \<lparr>tqPod = ex_app_pod ''front'' '''', tqTimestamp = 1\<rparr>
     \<lparr>tqPod = ex_app_pod ''back'' '''', tqTimestamp = 2\<rparr> = None"
proof -
  have l: "GetPodAppGroupLabel (ex_app_pod w n) = ''g''" for w n
    by (simp add: GetPodAppGroupLabel_def ex_app_pod_def strval_def)
  show ?thesis
    using missing_resources_panic [of ex_no_group ex_no "ex_app_pod ''front'' ''''" "[''d'']"
        "\<lparr>tqPod = ex_app_pod ''front'' '''', tqTimestamp = 1\<rparr>" "\<lparr>tqPod = ex_app_pod ''back'' '''', tqTimestamp = 2\<rparr>"]
      missing_resources_panic [of ex_net ex_no "ex_app_pod ''front'' ''''" "[]"
        "\<lparr>tqPod = zero_pod, tqTimestamp = 1\<rparr>" "\<lparr>tqPod = zero_pod, tqTimestamp = 2\<rparr>"]
      ex_net_fields(4) ex_net_fields(3) [of "''front''" "''''"]
    by (simp add: l) (simp add: ex_no_group_def ex_no_def)
qed

text \<open>
  The queue order is not transitive: pods of one group compare by their workloads, all others by
  priority, so a low priority pod of a group comes before a high priority one of the same group,
  which comes before a pod outside the group, which comes before the first.
\<close>

definition ex_queued :: "string \<Rightarrow> string \<Rightarrow> int32 \<Rightarrow> QueuedPod" where
  "ex_queued grp workload prio = \<lparr>tqPod = zero_pod\<lparr>podLabels := [(AppGroupLabel, grp), (AppGroupSelectorLabel, workload)],
     podPriority := Some prio\<rparr>, tqTimestamp = 0\<rparr>"

theorem topological_order_cyclic:
  "\<exists>env nss p q r. Topological_Sort.Less env nss p q = Some True \<and> Topological_Sort.Less env nss q r = Some True \<and>
     Topological_Sort.Less env nss r p = Some True"
proof -
  let ?env = "ex_net\<lparr>neAppGroup := (\<lambda>_ _. Some (ex_app_group\<lparr>agTopologyOrder :=
    [\<lparr>topoSelector = ''a'', topoIndex = 1\<rparr>, \<lparr>topoSelector = ''b'', topoIndex = 2\<rparr>]\<rparr>))\<rparr>"
  have "Topological_Sort.Less ?env [''d''] (ex_queued ''g'' ''a'' 1) (ex_queued ''g'' ''b'' 3) = Some True"
    by code_simp
  moreover have "Topological_Sort.Less ?env [''d''] (ex_queued ''g'' ''b'' 3) (ex_queued '''' '''' 2) = Some True"
    "Topological_Sort.Less ?env [''d''] (ex_queued '''' '''' 2) (ex_queued ''g'' ''a'' 1) = Some True"
    by code_simp+
  ultimately show ?thesis by blast
qed

section \<open>Scores\<close>

lemma getMinMaxScores_split:
  "getMinMaxScores ss =
     (fold (\<lambda>ns l. if nsScore ns <s l then nsScore ns else l) ss MaxInt64,
      fold (\<lambda>ns h. if h <s nsScore ns then nsScore ns else h) ss MinInt64)"
  by (simp add: getMinMaxScores_def score_fold_pair)

text \<open>Costs small enough that differences, times 100, are exact in a float.\<close>

definition costs_ok :: "NodeScoreList \<Rightarrow> bool" where
  "costs_ok ss = list_all (\<lambda>ns. - (2 ^ 44) \<le> score ns \<and> score ns \<le> 2 ^ 44) ss"

lemma sint_MinInt64 [simp]: "sint MinInt64 = - 9223372036854775808"
  by (simp add: MinInt64_def)

lemma getMinMaxScores_bounds:
  assumes "getMinMaxScores ss = (l, h)" "costs_ok ss" "ss \<noteq> []"
  shows "\<forall>ns \<in> set ss. sint l \<le> score ns \<and> score ns \<le> sint h" "- (2 ^ 44) \<le> sint l" "sint h \<le> 2 ^ 44"
    "\<exists>ns \<in> set ss. score ns = sint h" "\<exists>ns \<in> set ss. score ns = sint l"
  using score_fold_range [of ss "2 ^ 44" MinInt64 MaxInt64] assms
  by (simp_all add: getMinMaxScores_split costs_ok_def list_all_iff)

text \<open>The share of a cost in the spread, in percent, as the float operations compute it.\<close>

definition float_percent :: "int \<Rightarrow> int \<Rightarrow> int" where
  "float_percent a b = ftrunc (fdiv (fmul (f64 100) (f64 a)) (f64 b))"

lemma float_percent_eq:
  assumes "0 \<le> a" "a \<le> b" "b \<le> 2 ^ 46"
  shows "float_percent a b = ftrunc (fround 53 (of_int (100 * a) / of_int b))"
proof -
  have "\<bar>100 * a\<bar> < 2 ^ 53" "\<bar>a\<bar> < 2 ^ 53" "\<bar>b\<bar> < 2 ^ 53" using assms by auto
  then have "fround 53 (of_int (100 * a)) = of_int (100 * a)" "f64 a = of_int a" "f64 b = of_int b"
    by (simp_all only: fround_int f64_int)
  then show ?thesis by (simp add: float_percent_def fmul_def fdiv_def f64_int)
qed

lemma float_percent_mono:
  assumes "0 \<le> a" "a \<le> a'" "a' \<le> b" "b \<le> 2 ^ 46"
  shows "float_percent a b \<le> float_percent a' b"
proof -
  have "(of_int (100 * a) / of_int b :: rat) \<le> of_int (100 * a') / of_int b"
    using assms by (intro divide_right_mono) auto
  then show ?thesis
    using assms by (simp only: float_percent_eq order_trans [OF assms(2,3)] order_trans [OF assms(1,2)])
      (intro ftrunc_mono fround_mono, auto)
qed

lemma float_percent_ends:
  assumes "0 < b" "b \<le> 2 ^ 46"
  shows "float_percent 0 b = 0" "float_percent b b = 100"
proof -
  have "fround 53 100 = (100 :: rat)" using fround_int [of 100 53] by simp
  then have "ftrunc (fround 53 (100 :: rat)) = 100" by (simp add: ftrunc_def)
  then show "float_percent 0 b = 0" "float_percent b b = 100"
    using assms by (simp_all add: float_percent_eq) (simp add: ftrunc_def)
qed

definition inverted_cost :: "NodeScoreList \<Rightarrow> int \<Rightarrow> int" where
  "inverted_cost ss x =
     (case getMinMaxScores ss of (l, h) \<Rightarrow>
        if sint l = 0 \<and> sint h = 0 then x
        else if sint h \<le> sint l then 100 - (x - sint l)
        else 100 - float_percent (x - sint l) (sint h - sint l))"

lemma Normalize_entry:
  assumes r: "getMinMaxScores ss = (l, h)" and ok: "costs_ok ss" and ns: "ns \<in> set ss" and nz: "\<not> (l = 0 \<and> h = 0)"
  shows "sint (if h \<noteq> l then MaxNodeScore - word_of_int (ftrunc
            (fdiv (fmul (f64 (sint MaxNodeScore)) (f64 (sint (nsScore ns - l)))) (f64 (sint (h - l)))))
          else MaxNodeScore - word_of_int (ftrunc (f64 (sint (nsScore ns - l))))) = inverted_cost ss (score ns)"
    and "0 \<le> inverted_cost ss (score ns)" "inverted_cost ss (score ns) \<le> 100"
proof -
  have ne: "ss \<noteq> []" using ns by auto
  note b = getMinMaxScores_bounds [OF r ok ne]
  have m: "sint l \<le> score ns" "score ns \<le> sint h" using b(1) ns by auto
  have d: "sint (h - l) = sint h - sint l" using b(2,3) m by (intro sint_sub64) (simp add: int64_range_def)
  have n: "sint (nsScore ns - l) = score ns - sint l"
    using b(2,3) m by (simp add: score_def) (intro sint_sub64, simp add: int64_range_def)
  have z: "sint l = 0 \<longleftrightarrow> l = 0" "sint h = 0 \<longleftrightarrow> h = 0" "h = l \<longleftrightarrow> sint h \<le> sint l"
    using sint_inject [of l 0] sint_inject [of h 0] sint_inject [of h l] m by auto
  have h100: "sint (MaxNodeScore - word_of_int k) = 100 - k" if "0 \<le> k" "k \<le> 100" for k
    using that by (subst sint_sub64) (simp_all add: MaxNodeScore_def int64_range_def sint_word_of_int64)
  let ?p = "float_percent (score ns - sint l) (sint h - sint l)"
  have p: "0 \<le> ?p" "?p \<le> 100" if "sint l < sint h"
    using float_percent_mono [of 0 "score ns - sint l" "sint h - sint l"]
      float_percent_mono [of "score ns - sint l" "sint h - sint l" "sint h - sint l"]
      float_percent_ends [of "sint h - sint l"] that m b(2,3) by auto
  have f0: "f64 0 = 0" by (simp add: f64_def)
  have c: "inverted_cost ss (score ns) = (if sint h \<le> sint l then 100 else 100 - ?p)"
    using m nz by (auto simp: inverted_cost_def r z)
  show "0 \<le> inverted_cost ss (score ns)" "inverted_cost ss (score ns) \<le> 100"
    using p by (auto simp: c)
  show "sint (if h \<noteq> l then MaxNodeScore - word_of_int (ftrunc
            (fdiv (fmul (f64 (sint MaxNodeScore)) (f64 (sint (nsScore ns - l)))) (f64 (sint (h - l)))))
          else MaxNodeScore - word_of_int (ftrunc (f64 (sint (nsScore ns - l))))) = inverted_cost ss (score ns)"
  proof (cases "h = l")
    case True
    then have "score ns - sint l = 0" using m by simp
    then show ?thesis using True h100 [of 0] unfolding c by (simp add: n f0 ftrunc_def)
  next
    case False
    then have "sint l < sint h" using z(3) by simp
    then show ?thesis using False h100 [OF p]
      by (simp add: n d c float_percent_def MaxNodeScore_def)
  qed
qed

interpretation network_costs: score_inverter NormalizeScore inverted_cost costs_ok
proof
  fix ss ns ms
  obtain l h where r: "getMinMaxScores ss = (l, h)" by (cases "getMinMaxScores ss")
  show "map nsName (NormalizeScore ss) = map nsName ss"
    by (simp add: NormalizeScore_def r comp_def)
  have zero: "inverted_cost ss x = x" if "l = 0 \<and> h = 0" for x using that by (simp add: inverted_cost_def r)
  assume ok: "costs_ok ss"
  show "map score (NormalizeScore ss) = map (inverted_cost ss \<circ> score) ss"
    using Normalize_entry(1) [OF r ok] zero by (auto simp: NormalizeScore_def r)
  assume ns: "ns \<in> set ss"
  then have ne: "ss \<noteq> []" by auto
  note b = getMinMaxScores_bounds [OF r ok ne]
  have in_range: "sint l \<le> score e" "score e \<le> sint h" if "e \<in> set ss" for e using b(1) that by auto
  show "0 \<le> inverted_cost ss (score ns) \<and> inverted_cost ss (score ns) \<le> 100"
  proof (cases "l = 0 \<and> h = 0")
    case True
    then show ?thesis using in_range [OF ns] by (simp add: zero)
  qed (use Normalize_entry(2,3) [OF r ok ns] in simp)
  assume ms: "ms \<in> set ss" and le: "score ns \<le> score ms"
  then show "inverted_cost ss (score ms) \<le> inverted_cost ss (score ns)"
    using in_range [OF ns] in_range [OF ms] b(2,3)
      float_percent_mono [of "score ns - sint l" "score ms - sint l" "sint h - sint l"]
    by (auto simp: inverted_cost_def r)
qed

text \<open>
  C34. Normalising turns costs into scores: nodes stay in place, every score lies in the
  framework's range, a node with a lower cost never scores lower, and unless all costs are equal the
  cheapest node gets 100 and the dearest 0, in spite of the rounding of the float operations. If all
  costs are zero the scores stay zero; if they are equal otherwise, all become 100.
\<close>

theorem network_costs_inverted:
  assumes "costs_ok ss" "i < length ss"
  shows "map nsName (NormalizeScore ss) = map nsName ss \<and>
    0 \<le> score (NormalizeScore ss ! i) \<and> score (NormalizeScore ss ! i) \<le> 100 \<and>
    (\<forall>j < length ss. score (ss ! i) \<le> score (ss ! j) \<longrightarrow> score (NormalizeScore ss ! j) \<le> score (NormalizeScore ss ! i)) \<and>
    (if \<forall>j < length ss. score (ss ! j) = score (ss ! i)
     then score (NormalizeScore ss ! i) = (if score (ss ! i) = 0 then 0 else 100)
     else ((\<forall>j < length ss. score (ss ! i) \<le> score (ss ! j)) \<longrightarrow> score (NormalizeScore ss ! i) = 100) \<and>
          ((\<forall>j < length ss. score (ss ! j) \<le> score (ss ! i)) \<longrightarrow> score (NormalizeScore ss ! i) = 0))"
proof -
  obtain l h where r: "getMinMaxScores ss = (l, h)" by (cases "getMinMaxScores ss")
  have ne: "ss \<noteq> []" using assms(2) by auto
  note b = getMinMaxScores_bounds [OF r assms(1) ne]
  from b(4,5) obtain a c where ac: "a < length ss" "score (ss ! a) = sint h" "c < length ss" "score (ss ! c) = sint l"
    by (auto simp: in_set_conv_nth)
  have lim: "sint l \<le> score (ss ! j)" "score (ss ! j) \<le> sint h" if "j < length ss" for j using b(1) that by auto
  have val: "score (NormalizeScore ss ! i) = inverted_cost ss (score (ss ! i))"
    by (rule network_costs.score_nth [OF assms])
  have all_eq: "(\<forall>j < length ss. score (ss ! j) = score (ss ! i)) \<longleftrightarrow> sint h = sint l"
    using ac lim assms(2) by (metis order_antisym)
  have low: "(\<forall>j < length ss. score (ss ! i) \<le> score (ss ! j)) \<Longrightarrow> score (ss ! i) = sint l"
    and high: "(\<forall>j < length ss. score (ss ! j) \<le> score (ss ! i)) \<Longrightarrow> score (ss ! i) = sint h"
    using ac lim [OF assms(2)] by (metis order_antisym)+
  have eq: "score (NormalizeScore ss ! i) = (if score (ss ! i) = 0 then 0 else 100)" if "sint h = sint l"
    using that lim [OF assms(2)] by (simp add: val inverted_cost_def r)
  have ends: "inverted_cost ss (sint l) = 100" "inverted_cost ss (sint h) = 0" if "sint h \<noteq> sint l"
  proof -
    have "sint l < sint h" using that lim [OF assms(2)] by linarith
    then show "inverted_cost ss (sint l) = 100" "inverted_cost ss (sint h) = 0"
      using float_percent_ends [of "sint h - sint l"] b(2,3) by (simp_all add: inverted_cost_def r)
  qed
  have "NormalizeScore ss ! i \<in> set (NormalizeScore ss)"
    using assms(2) network_costs.length_normalize [of ss] by simp
  note range = network_costs.normalize_range [OF assms(1) this]
  have "if \<forall>j < length ss. score (ss ! j) = score (ss ! i)
     then score (NormalizeScore ss ! i) = (if score (ss ! i) = 0 then 0 else 100)
     else ((\<forall>j < length ss. score (ss ! i) \<le> score (ss ! j)) \<longrightarrow> score (NormalizeScore ss ! i) = 100) \<and>
          ((\<forall>j < length ss. score (ss ! j) \<le> score (ss ! i)) \<longrightarrow> score (NormalizeScore ss ! i) = 0)"
    unfolding all_eq using eq ends low high val by metis
  then show ?thesis
    using network_costs.names [of ss] range network_costs.normalize_antimono [OF assms] by blast
qed

definition ex_costs :: NodeScoreList where
  "ex_costs = [\<lparr>nsName = ''a'', nsScore = 30\<rparr>, \<lparr>nsName = ''b'', nsScore = 5\<rparr>]"

theorem network_costs_inverted_witness:
  "costs_ok ex_costs \<and> score (NormalizeScore ex_costs ! 1) = 100 \<and> score (NormalizeScore ex_costs ! 0) = 0"
proof -
  have ok: "costs_ok ex_costs" by (simp add: costs_ok_def ex_costs_def score_def)
  have ex: "length ex_costs = 2" "score (ex_costs ! 0) = 30" "score (ex_costs ! 1) = 5"
    by (simp_all add: ex_costs_def score_def)
  have all: "(\<forall>j < length ex_costs. P j) \<longleftrightarrow> P 0 \<and> P 1" for P
    by (auto simp: ex less_Suc_eq numeral_2_eq_2)
  show ?thesis
    using network_costs_inverted [OF ok, of 0] network_costs_inverted [OF ok, of 1] ok
    unfolding all by (simp add: ex del: One_nat_def)
qed

end
