(* ===== verification/Pod_Group_Controller.thy ===== *)
theory Pod_Group_Controller
  imports Coscheduling
begin

text \<open>
  \<^verbatim>\<open>scheduler-plugins/pkg/controllers/podgroup_controller.go\<close>: the controller that moves a pod group through
  its phases. The answers of the API server are the record \<open>pg_env\<close>; what the controller does is a
  list of actions. \<open>None\<close> is the panic of indexing an empty list of pods.
\<close>

section \<open>Data\<close>

datatype PodGroupPhase =
    PodGroupNew | PodGroupPending | PodGroupScheduling | PodGroupRunning | PodGroupUnknown | PodGroupFinished | PodGroupFailed

record PodGroupStatus =
  pgsPhase :: PodGroupPhase
  pgsOccupiedBy :: string
  pgsRunning :: int32
  pgsSucceeded :: int32
  pgsFailed :: int32
  pgsScheduleStartTime :: int

record PodGroupObject = PodGroup +
  pgStatus :: PodGroupStatus

record pg_env =
  pgeGet :: "string \<Rightarrow> string \<Rightarrow> api_error + PodGroupObject"
  pgeListByLabel :: "string \<Rightarrow> api_error + Pod list"
  pgePatchStatus :: "PodGroupObject \<Rightarrow> api_error option"
  pgePatch :: "PodGroupObject \<Rightarrow> api_error option"

datatype pg_action = TimeoutEvent | PatchStatus PodGroupObject | PatchObject PodGroupObject

section \<open>Operations\<close>

definition getCurrentPodStats :: "Pod list \<Rightarrow> int32 \<times> int32 \<times> int32" where
  "getCurrentPodStats pods =
     fold (\<lambda>pod (running, succeeded, failed).
       (if podPhase pod = PodRunning then (running + 1, succeeded, failed)
        else if podPhase pod = PodSucceeded then (running, succeeded + 1, failed)
        else if podPhase pod = PodFailed then (running, succeeded, failed + 1)
        else (running, succeeded, failed))) pods (0, 0, 0)"

text \<open>\<^verbatim>\<open>strings.Join\<close>\<close>

fun join :: "string \<Rightarrow> string list \<Rightarrow> string" where
  "join sep [] = ''''"
| "join sep [s] = s"
| "join sep (s # ss) = s @ sep @ join sep ss"

definition fillOccupiedObj :: "Pod \<Rightarrow> PodGroupStatus \<Rightarrow> PodGroupStatus" where
  "fillOccupiedObj pod st =
     (if podOwners pod = [] then st
      else st\<lparr>pgsOccupiedBy := join '','' (sort (map (\<lambda>r. podNamespace pod @ ''/'' @ orName r) (podOwners pod)))\<rparr>)"

text \<open>The switch over the phase; \<open>minMember\<close> is the minimum of the spec.\<close>

definition nextStatus :: "int32 \<Rightarrow> Pod list \<Rightarrow> PodGroupStatus \<Rightarrow> PodGroupStatus option" where
  "nextStatus minMember pods st =
     (if pgsPhase st = PodGroupNew then Some (st\<lparr>pgsPhase := PodGroupPending\<rparr>)
      else if pgsPhase st = PodGroupPending then
        (if sint minMember \<le> int (length pods) then
           (case pods of [] \<Rightarrow> None | p # _ \<Rightarrow> Some (fillOccupiedObj p (st\<lparr>pgsPhase := PodGroupScheduling\<rparr>)))
         else Some st)
      else
        (case getCurrentPodStats pods of (running, succeeded, failed) \<Rightarrow>
           let st1 = st\<lparr>pgsRunning := running, pgsSucceeded := succeeded, pgsFailed := failed\<rparr>
           in if int (length pods) < sint minMember then Some (st1\<lparr>pgsPhase := PodGroupPending\<rparr>)
              else
                let st2 = (if succeeded + running <s minMember then st1\<lparr>pgsPhase := PodGroupScheduling\<rparr> else st1);
                    st3 = (if minMember \<le>s succeeded + running then st2\<lparr>pgsPhase := PodGroupRunning\<rparr> else st2);
                    st4 = (if failed \<noteq> 0 \<and> minMember \<le>s failed + running + succeeded then st3\<lparr>pgsPhase := PodGroupFailed\<rparr> else st3);
                    st5 = (if minMember \<le>s succeeded then st4\<lparr>pgsPhase := PodGroupFinished\<rparr> else st4)
                in Some st5))"

definition patchPodGroup :: "pg_env \<Rightarrow> PodGroupObject \<Rightarrow> api_error option \<times> pg_action list" where
  "patchPodGroup env new =
     (case pgePatchStatus env new of
        Some e \<Rightarrow> (Some e, [PatchStatus new])
      | None \<Rightarrow> (pgePatch env new, [PatchStatus new, PatchObject new]))"

definition hours :: "int \<Rightarrow> int" where
  "hours h = h * 3600 * 1000000000"

definition Reconcile :: "pg_env \<Rightarrow> string \<Rightarrow> string \<Rightarrow> (api_error option \<times> pg_action list) option" where
  "Reconcile env ns name =
     (case pgeGet env ns name of
        Inl e \<Rightarrow> Some (if e = NotFound then None else Some e, [])
      | Inr pg \<Rightarrow>
          (let st = pgStatus pg
           in if pgsPhase st = PodGroupFinished \<or> pgsPhase st = PodGroupFailed then Some (None, [])
              else if (pgsPhase st = PodGroupScheduling \<or> pgsPhase st = PodGroupPending) \<and> pgsRunning st = 0 \<and>
                      hours 48 < pgsScheduleStartTime st - pgCreationTimestamp pg then Some (None, [TimeoutEvent])
              else (case pgeListByLabel env (pgName pg) of
                      Inl e \<Rightarrow> Some (Some e, [])
                    | Inr pods \<Rightarrow>
                        map_option (\<lambda>st'. patchPodGroup env (pg\<lparr>pgStatus := st'\<rparr>)) (nextStatus (pgMinMember pg) pods st))))"

definition podToPodGroup :: "Pod \<Rightarrow> (string \<times> string) list" where
  "podToPodGroup pod =
     (if GetPodGroupLabel pod = '''' then [] else [(podNamespace pod, GetPodGroupLabel pod)])"

end
