(* ===== verification/Pod_Group_Properties.thy ===== *)
theory Pod_Group_Properties
  imports Pod_Group_Controller
begin

text \<open>
  The life cycle of a pod group: one reconciliation is a step of a transition relation, whatever
  pods the server lists; invariants hold in every reachable state.
\<close>

section \<open>Counting\<close>

abbreviation in_phase :: "PodPhase \<Rightarrow> Pod list \<Rightarrow> nat" where
  "in_phase ph pods \<equiv> length (filter (\<lambda>p. podPhase p = ph) pods)"

lemma getCurrentPodStats_counts:
  "getCurrentPodStats pods =
     (of_nat (in_phase PodRunning pods), of_nat (in_phase PodSucceeded pods), of_nat (in_phase PodFailed pods))"
proof -
  have "fold (\<lambda>pod (running, succeeded, failed).
       (if podPhase pod = PodRunning then (running + 1, succeeded, failed)
        else if podPhase pod = PodSucceeded then (running, succeeded + 1, failed)
        else if podPhase pod = PodFailed then (running, succeeded, failed + 1)
        else (running, succeeded, failed))) pods (r, s, f) =
     (r + of_nat (in_phase PodRunning pods), s + of_nat (in_phase PodSucceeded pods), f + of_nat (in_phase PodFailed pods))"
    for r s f :: int32
    by (induction pods arbitrary: r s f) (auto simp: add.assoc)
  then show ?thesis by (simp add: getCurrentPodStats_def)
qed

lemma in_phase_sum: "in_phase PodRunning pods + in_phase PodSucceeded pods + in_phase PodFailed pods \<le> length pods"
  by (induction pods) auto

lemma sint_of_nat32: "n < 2 ^ 31 \<Longrightarrow> sint (of_nat n :: int32) = int n"
  using sint_word_of_int32 [of "int n"] by simp

lemma stats_sint:
  assumes "length pods < 2 ^ 31" "n \<le> length pods"
  shows "sint (of_nat n :: int32) = int n" "m \<le>s of_nat n \<longleftrightarrow> sint m \<le> int n" "of_nat n <s (m :: int32) \<longleftrightarrow> int n < sint m"
  using sint_of_nat32 [of n] assms by (simp_all add: word_sle_eq word_sless_alt)

section \<open>The phase of a group that is past pending\<close>

definition phase_of :: "int \<Rightarrow> Pod list \<Rightarrow> PodGroupPhase" where
  "phase_of minMember pods =
     (let running = int (in_phase PodRunning pods); succeeded = int (in_phase PodSucceeded pods);
          failed = int (in_phase PodFailed pods)
      in if int (length pods) < minMember then PodGroupPending
         else if minMember \<le> succeeded then PodGroupFinished
         else if 0 < failed \<and> minMember \<le> failed + running + succeeded then PodGroupFailed
         else if minMember \<le> succeeded + running then PodGroupRunning
         else PodGroupScheduling)"

lemma nextStatus_counted:
  assumes "pgsPhase st \<noteq> PodGroupNew" "pgsPhase st \<noteq> PodGroupPending" "length pods < 2 ^ 31"
  shows "nextStatus m pods st = Some (st\<lparr>pgsRunning := of_nat (in_phase PodRunning pods),
     pgsSucceeded := of_nat (in_phase PodSucceeded pods), pgsFailed := of_nat (in_phase PodFailed pods),
     pgsPhase := phase_of (sint m) pods\<rparr>)"
proof -
  let ?r = "in_phase PodRunning pods" and ?s = "in_phase PodSucceeded pods" and ?f = "in_phase PodFailed pods"
  have sum: "(of_nat ?s :: int32) + of_nat ?r = of_nat (?s + ?r)" "(of_nat ?f :: int32) + of_nat ?r + of_nat ?s = of_nat (?f + ?r + ?s)"
    by simp_all
  note le = in_phase_sum [of pods]
  have le': "?s + ?r \<le> length pods" "?f + ?r + ?s \<le> length pods" "?s \<le> length pods" "?f \<le> length pods" using le by auto
  have f0: "(of_nat ?f :: int32) \<noteq> 0 \<longleftrightarrow> 0 < ?f"
    using stats_sint(1) [OF assms(3) le'(4)] by (cases "?f = 0") auto
  show ?thesis
    unfolding nextStatus_def getCurrentPodStats_counts prod.case sum Let_def f0 phase_of_def
      stats_sint(2,3) [OF assms(3) le'(1)] stats_sint(2,3) [OF assms(3) le'(2)] stats_sint(2,3) [OF assms(3) le'(3)]
    using assms(1,2) by (auto simp: not_le)
qed

section \<open>Runs\<close>

text \<open>One reconciliation of a group whose new status the server stores.\<close>

inductive pg_step :: "PodGroupObject \<Rightarrow> PodGroupObject \<Rightarrow> bool" where
  "pgeGet env ns name = Inr pg \<Longrightarrow> pgeListByLabel env (pgName pg) = Inr pods \<Longrightarrow> length pods < 2 ^ 31 \<Longrightarrow>
   Reconcile env ns name = Some (e, acts) \<Longrightarrow> PatchStatus pg' \<in> set acts \<Longrightarrow> pg_step pg pg'"

inductive_cases pg_stepE: "pg_step pg pg'"

lemma pg_step_status:
  assumes "pg_step pg pg'"
  obtains pods where "length pods < 2 ^ 31" "pgsPhase (pgStatus pg) \<noteq> PodGroupFinished" "pgsPhase (pgStatus pg) \<noteq> PodGroupFailed"
    "nextStatus (pgMinMember pg) pods (pgStatus pg) = Some (pgStatus pg')" "pgMinMember pg' = pgMinMember pg"
proof -
  obtain env ns name pods e acts where "pgeGet env ns name = Inr pg" "pgeListByLabel env (pgName pg) = Inr pods"
      "length pods < 2 ^ 31" "Reconcile env ns name = Some (e, acts)" "PatchStatus pg' \<in> set acts"
    using assms by (elim pg_stepE) auto
  then show thesis
    using that [of pods] by (auto simp: Reconcile_def Let_def patchPodGroup_def split: if_splits option.splits)
qed

text \<open>What a phase says about the counts stored with it.\<close>

definition phase_backed :: "PodGroupObject \<Rightarrow> bool" where
  "phase_backed pg \<longleftrightarrow>
     (let st = pgStatus pg; m = sint (pgMinMember pg); r = sint (pgsRunning st); s = sint (pgsSucceeded st); f = sint (pgsFailed st)
      in pgsPhase st \<noteq> PodGroupUnknown \<and>
         (pgsPhase st = PodGroupRunning \<longrightarrow> m \<le> s + r) \<and>
         (pgsPhase st = PodGroupFinished \<longrightarrow> m \<le> s) \<and>
         (pgsPhase st = PodGroupFailed \<longrightarrow> 0 < f \<and> s < m \<and> m \<le> f + r + s))"

lemma fillOccupied_phase [simp]: "pgsPhase (fillOccupiedObj p st) = pgsPhase st"
  by (simp add: fillOccupiedObj_def)

lemma early_phases:
  "pgsPhase st = PodGroupNew \<Longrightarrow> nextStatus m pods st = Some st' \<Longrightarrow> pgsPhase st' = PodGroupPending"
  "pgsPhase st = PodGroupPending \<Longrightarrow> nextStatus m pods st = Some st' \<Longrightarrow> pgsPhase st' \<in> {PodGroupPending, PodGroupScheduling}"
  by (auto simp: nextStatus_def split: if_splits list.splits)

lemma phase_backed_step:
  assumes "pg_step pg pg'"
  shows "phase_backed pg' \<or> pgsPhase (pgStatus pg) = PodGroupUnknown"
    and "pgsPhase (pgStatus pg') \<in> {PodGroupRunning, PodGroupFinished, PodGroupFailed} \<Longrightarrow>
      pgsPhase (pgStatus pg) \<in> {PodGroupScheduling, PodGroupRunning, PodGroupUnknown}"
proof -
  obtain pods where p: "length pods < 2 ^ 31" "pgsPhase (pgStatus pg) \<noteq> PodGroupFinished" "pgsPhase (pgStatus pg) \<noteq> PodGroupFailed"
    "nextStatus (pgMinMember pg) pods (pgStatus pg) = Some (pgStatus pg')" "pgMinMember pg' = pgMinMember pg"
    by (rule pg_step_status [OF assms])
  show "pgsPhase (pgStatus pg') \<in> {PodGroupRunning, PodGroupFinished, PodGroupFailed} \<Longrightarrow>
      pgsPhase (pgStatus pg) \<in> {PodGroupScheduling, PodGroupRunning, PodGroupUnknown}"
    using p(2,3) early_phases [OF _ p(4)] by (cases "pgsPhase (pgStatus pg)") auto
  show "phase_backed pg' \<or> pgsPhase (pgStatus pg) = PodGroupUnknown"
  proof (cases "pgsPhase (pgStatus pg) = PodGroupNew \<or> pgsPhase (pgStatus pg) = PodGroupPending")
    case True
    then show ?thesis using early_phases [OF _ p(4)] by (auto simp: phase_backed_def Let_def)
  next
    case False
    then have st': "pgStatus pg' = (pgStatus pg)\<lparr>pgsRunning := of_nat (in_phase PodRunning pods),
       pgsSucceeded := of_nat (in_phase PodSucceeded pods), pgsFailed := of_nat (in_phase PodFailed pods),
       pgsPhase := phase_of (sint (pgMinMember pg)) pods\<rparr>"
      using nextStatus_counted [OF _ _ p(1), of "pgStatus pg"] p(4) by simp
    have "in_phase ph pods \<le> length pods" for ph by (rule length_filter_le)
    note n = stats_sint(1) [OF p(1) this]
    show ?thesis unfolding phase_backed_def st' p(5) Let_def by (auto simp: n phase_of_def Let_def split: if_splits)
  qed
qed

lemma reachable_backed:
  assumes "pg_step\<^sup>*\<^sup>* pg0 pg" "pgsPhase (pgStatus pg0) = PodGroupNew"
  shows "phase_backed pg"
  using assms
proof (induction rule: rtranclp_induct)
  case base
  then show ?case by (simp add: phase_backed_def Let_def)
next
  case (step pg1 pg2)
  then show ?case using phase_backed_step(1) [OF step.hyps(2)] by (auto simp: phase_backed_def Let_def)
qed

text \<open>A server with fixed pods that stores what is patched, and repeated reconciliation against it.\<close>

definition pg_server :: "Pod list \<Rightarrow> PodGroupObject \<Rightarrow> pg_env" where
  "pg_server pods pg = \<lparr>pgeGet = (\<lambda>_ _. Inr pg), pgeListByLabel = (\<lambda>_. Inr pods),
     pgePatchStatus = (\<lambda>_. None), pgePatch = (\<lambda>_. None)\<rparr>"

definition stored_by :: "pg_action list \<Rightarrow> PodGroupObject \<Rightarrow> PodGroupObject" where
  "stored_by acts pg = fold (\<lambda>a pg. case a of PatchStatus pg' \<Rightarrow> pg' | _ \<Rightarrow> pg) acts pg"

primrec pg_rounds :: "Pod list \<Rightarrow> nat \<Rightarrow> PodGroupObject \<Rightarrow> PodGroupObject" where
  "pg_rounds pods 0 pg = pg"
| "pg_rounds pods (Suc n) pg =
     (case Reconcile (pg_server pods pg) (pgNamespace pg) (pgName pg) of
        None \<Rightarrow> pg
      | Some (e, acts) \<Rightarrow> pg_rounds pods n (stored_by acts pg))"

lemma round_next:
  assumes "pgsPhase (pgStatus pg) \<notin> {PodGroupFinished, PodGroupFailed}" "pgsScheduleStartTime (pgStatus pg) \<le> pgCreationTimestamp pg"
    and "nextStatus (pgMinMember pg) pods (pgStatus pg) = Some st'"
  shows "pg_rounds pods (Suc n) pg = pg_rounds pods n (pg\<lparr>pgStatus := st'\<rparr>)"
proof -
  have "\<not> hours 48 < pgsScheduleStartTime (pgStatus pg) - pgCreationTimestamp pg"
    using assms(2) by (simp add: hours_def)
  then show ?thesis
    using assms by (simp add: Reconcile_def pg_server_def Let_def patchPodGroup_def stored_by_def)
qed

lemma round_terminal:
  "pgsPhase (pgStatus pg) \<in> {PodGroupFinished, PodGroupFailed} \<Longrightarrow> pg_rounds pods n pg = pg"
  by (induction n) (auto simp: Reconcile_def pg_server_def stored_by_def)

section \<open>The life cycle\<close>

lemma completes:
  assumes "pgsPhase (pgStatus pg) = PodGroupNew" "pgsScheduleStartTime (pgStatus pg) \<le> pgCreationTimestamp pg"
    and "1 \<le> sint (pgMinMember pg)" "sint (pgMinMember pg) \<le> int (in_phase PodSucceeded pods)" "length pods < 2 ^ 31"
  shows "pgsPhase (pgStatus (pg_rounds pods (3 + n) pg)) = PodGroupFinished"
proof -
  let ?m = "pgMinMember pg" and ?st = "pgStatus pg"
  have len: "sint ?m \<le> int (length pods)" using assms(4) length_filter_le [of "\<lambda>p. podPhase p = PodSucceeded" pods] by linarith
  then obtain p ps where pods: "pods = p # ps" using assms(3) by (cases pods) auto
  define st1 where "st1 = ?st\<lparr>pgsPhase := PodGroupPending\<rparr>"
  define st2 where "st2 = fillOccupiedObj p (st1\<lparr>pgsPhase := PodGroupScheduling\<rparr>)"
  define st3 where "st3 = st2\<lparr>pgsRunning := of_nat (in_phase PodRunning pods), pgsSucceeded := of_nat (in_phase PodSucceeded pods),
     pgsFailed := of_nat (in_phase PodFailed pods), pgsPhase := phase_of (sint ?m) pods\<rparr>"
  have n1: "nextStatus ?m pods ?st = Some st1" using assms(1) by (simp add: nextStatus_def st1_def)
  have n2: "nextStatus ?m pods st1 = Some st2" using len by (simp add: nextStatus_def st1_def st2_def pods)
  have n3: "nextStatus ?m pods st2 = Some st3"
    unfolding st3_def by (rule nextStatus_counted [OF _ _ assms(5)]) (simp_all add: st2_def)
  have start: "pgsScheduleStartTime st1 = pgsScheduleStartTime ?st" "pgsScheduleStartTime st2 = pgsScheduleStartTime ?st"
    by (simp_all add: st1_def st2_def fillOccupiedObj_def)
  have "pg_rounds pods (Suc (Suc (Suc n))) pg = pg_rounds pods n (pg\<lparr>pgStatus := st3\<rparr>)"
    using round_next [of pg pods st1 "Suc (Suc n)"] round_next [of "pg\<lparr>pgStatus := st1\<rparr>" pods st2 "Suc n"]
      round_next [of "pg\<lparr>pgStatus := st2\<rparr>" pods st3 n] n1 n2 n3 assms(1,2) start
    by (simp add: st1_def st2_def)
  moreover have "pgsPhase st3 = PodGroupFinished"
    using len assms(4) by (simp add: st3_def phase_of_def Let_def)
  ultimately show ?thesis by (simp add: round_terminal eval_nat_numeral)
qed

text \<open>
  C35. The life cycle of a pod group, whatever pods each reconciliation sees: in every reachable
  state the phases Running, Finished and Failed are backed by the counts stored with them and Unknown does not
  occur; Finished and Failed are final; and a group that runs or ends was scheduling or running before. When at
  least the minimum number of pods have succeeded, a new group is Finished after three reconciliations
  and stays so.
\<close>

theorem pod_group_life_cycle:
  assumes "pgsPhase (pgStatus pg0) = PodGroupNew" "1 \<le> sint (pgMinMember pg0)"
  shows "(pg_step\<^sup>*\<^sup>* pg0 pg \<longrightarrow>
      phase_backed pg \<and>
      (pgsPhase (pgStatus pg) \<in> {PodGroupFinished, PodGroupFailed} \<longrightarrow> \<not> pg_step pg pg') \<and>
      (pg_step pg pg' \<and> pgsPhase (pgStatus pg') \<in> {PodGroupRunning, PodGroupFinished, PodGroupFailed} \<longrightarrow>
         pgsPhase (pgStatus pg) \<in> {PodGroupScheduling, PodGroupRunning})) \<and>
    (sint (pgMinMember pg0) \<le> int (in_phase PodSucceeded pods) \<and> length pods < 2 ^ 31 \<and>
     pgsScheduleStartTime (pgStatus pg0) \<le> pgCreationTimestamp pg0 \<longrightarrow>
       pgsPhase (pgStatus (pg_rounds pods (3 + n) pg0)) = PodGroupFinished)"
proof -
  have "\<not> pg_step pg pg'" if "pgsPhase (pgStatus pg) \<in> {PodGroupFinished, PodGroupFailed}"
    using that by (auto elim: pg_step_status)
  moreover have "pgsPhase (pgStatus pg) \<in> {PodGroupScheduling, PodGroupRunning}"
    if "phase_backed pg" "pg_step pg pg'" "pgsPhase (pgStatus pg') \<in> {PodGroupRunning, PodGroupFinished, PodGroupFailed}"
    using phase_backed_step(2) [OF that(2,3)] that(1) by (auto simp: phase_backed_def Let_def)
  ultimately show ?thesis
    using reachable_backed [of pg0 pg] completes [of pg0 pods n] assms by blast
qed

definition ex_group_object :: PodGroupObject where
  "ex_group_object = \<lparr>pgName = ''g'', pgNamespace = ''d'', pgMinMember = 2, pgMinResources = None,
     pgScheduleTimeoutSeconds = None, pgCreationTimestamp = 7,
     pgStatus = \<lparr>pgsPhase = PodGroupNew, pgsOccupiedBy = '''', pgsRunning = 0, pgsSucceeded = 0, pgsFailed = 0,
       pgsScheduleStartTime = 0\<rparr>\<rparr>"

theorem pod_group_life_cycle_witness:
  "phase_backed ex_group_object \<and>
   pgsPhase (pgStatus (pg_rounds [zero_pod\<lparr>podPhase := PodSucceeded\<rparr>, zero_pod\<lparr>podPhase := PodSucceeded\<rparr>] 3 ex_group_object)) =
     PodGroupFinished"
  using pod_group_life_cycle [of ex_group_object ex_group_object ex_group_object
      "[zero_pod\<lparr>podPhase := PodSucceeded\<rparr>, zero_pod\<lparr>podPhase := PodSucceeded\<rparr>]" 0]
  by (simp add: ex_group_object_def)

text \<open>
  The pods are listed by the label alone: moving all of them to other namespaces does not change
  the phase, although a pod group and its pods are namespaced.
\<close>

theorem phase_ignores_namespace:
  "map_option pgsPhase (nextStatus m (map (podNamespace_update f) pods) st) = map_option pgsPhase (nextStatus m pods st)"
proof -
  have "in_phase ph (map (podNamespace_update f) pods) = in_phase ph pods" for ph by (induction pods) auto
  then show ?thesis by (auto simp: nextStatus_def getCurrentPodStats_counts Let_def split: list.splits)
qed

end
