(* ===== verification/Quota_Controller.thy ===== *)
theory Quota_Controller
  imports Capacity_Scheduling
begin

text \<open>
  \<^verbatim>\<open>scheduler-plugins/pkg/controllers/elasticquota_controller.go\<close>: the controller that records in the status of
  an elastic quota what the running pods of its namespace use, with \<^verbatim>\<open>Add\<close> and \<^verbatim>\<open>Max\<close> of the vendored
  \<^verbatim>\<open>apiserver/pkg/quota/v1\<close>. The answers of the API server are the record \<open>quota_env\<close>.
\<close>

section \<open>Data\<close>

record QuotaObject = ElasticQuota +
  quotaName :: string
  quotaUsed :: ResourceList

record quota_env =
  qeListQuotas :: "string \<Rightarrow> api_error + QuotaObject list"
  qeListPods :: "string \<Rightarrow> api_error + Pod list"
  qePatchStatus :: "QuotaObject \<Rightarrow> api_error option"

datatype quota_action = PatchUsed QuotaObject | SyncedEvent

section \<open>Resource lists\<close>

definition listAdd :: "ResourceList \<Rightarrow> ResourceList \<Rightarrow> ResourceList" where
  "listAdd a b =
     (let result = map (\<lambda>(key, value). (key, case map_of b key of None \<Rightarrow> value | Some other \<Rightarrow> value + other)) a
      in result @ filter (\<lambda>(key, value). map_of result key = None) b)"

definition listMax :: "ResourceList \<Rightarrow> ResourceList \<Rightarrow> ResourceList" where
  "listMax a b =
     (let result = map (\<lambda>(key, value). (key, case map_of b key of
            None \<Rightarrow> value | Some other \<Rightarrow> if value \<le> other then other else value)) a
      in result @ filter (\<lambda>(key, value). map_of result key = None) b)"

text \<open>\<^verbatim>\<open>Semantic.DeepEqual\<close> of two resource lists: a nil list and an empty one are equal.\<close>

definition semanticEqual :: "ResourceList \<Rightarrow> ResourceList \<Rightarrow> bool" where
  "semanticEqual a b \<longleftrightarrow> list_all (\<lambda>(key, value). map_of a key = map_of b key) (a @ b)"

section \<open>Operations\<close>

text \<open>The sum that includes the overhead is computed and dropped.\<close>

definition computePodResourceRequest :: "Pod \<Rightarrow> ResourceList" where
  "computePodResourceRequest pod =
     (let result = fold (\<lambda>c acc. listAdd acc (ctrRequests c)) (podContainers pod) [];
          initRes = fold (\<lambda>c acc. listMax acc (ctrRequests c)) (podInitContainers pod) [];
          dropped = (case podOverhead pod of None \<Rightarrow> result | Some ov \<Rightarrow> listAdd result ov)
      in listMax result initRes)"

definition newZeroUsed :: "QuotaObject \<Rightarrow> ResourceList" where
  "newZeroUsed eq =
     fold (\<lambda>v. AList.update v (NewQuantity 0))
       (map fst (case quotaMin eq of None \<Rightarrow> [] | Some rl \<Rightarrow> rl) @ map fst (case quotaMax eq of None \<Rightarrow> [] | Some rl \<Rightarrow> rl)) []"

definition computeElasticQuotaUsed :: "quota_env \<Rightarrow> string \<Rightarrow> QuotaObject \<Rightarrow> api_error + ResourceList" where
  "computeElasticQuotaUsed env ns eq =
     (case qeListPods env ns of
        Inl e \<Rightarrow> Inl e
      | Inr pods \<Rightarrow>
          Inr (fold (\<lambda>p used. if podPhase p = PodRunning then listAdd used (computePodResourceRequest p) else used)
                 pods (newZeroUsed eq)))"

definition Reconcile :: "quota_env \<Rightarrow> string \<Rightarrow> api_error option \<times> quota_action list" where
  "Reconcile env ns =
     (case qeListQuotas env ns of
        Inl e \<Rightarrow> (if e = NotFound then None else Some e, [])
      | Inr [] \<Rightarrow> (None, [])
      | Inr (eq # _) \<Rightarrow>
          (case computeElasticQuotaUsed env ns eq of
             Inl e \<Rightarrow> (Some e, [])
           | Inr used \<Rightarrow>
               if semanticEqual used (quotaUsed eq) then (None, [])
               else
                 (let newEQ = eq\<lparr>quotaUsed := used\<rparr>
                  in case qePatchStatus env newEQ of
                       Some e \<Rightarrow> (Some e, [PatchUsed newEQ])
                     | None \<Rightarrow> (None, [PatchUsed newEQ, SyncedEvent]))))"

end
