(* ===== verification/Quota_Controller_Properties.thy ===== *)
theory Quota_Controller_Properties
  imports Quota_Controller
begin

text \<open>What the quota controller records: the usage of the running pods, exactly and stably.\<close>

section \<open>Sums and maxima of resource lists\<close>

lemma map_of_listAdd:
  "map_of (listAdd a b) n = (case map_of a n of None \<Rightarrow> map_of b n | Some v \<Rightarrow> Some (v + quantityOf b n))"
proof -
  have r: "map_of (map (\<lambda>(key, value). (key, case map_of b key of None \<Rightarrow> value | Some other \<Rightarrow> value + other)) a) n =
      map_option (\<lambda>v. v + quantityOf b n) (map_of a n)"
    by (induction a) (auto simp: quantityOf_def split: option.splits)
  have f: "map_of (filter (\<lambda>(key, value). m key = None) b) n = (if m n = None then map_of b n else None)"
    for m :: "string \<Rightarrow> Quantity option" by (induction b) auto
  show ?thesis by (auto simp: listAdd_def Let_def map_add_def r f split: option.splits)
qed

lemma map_of_listMax:
  "map_of (listMax a b) n =
     (case map_of a n of
        None \<Rightarrow> map_of b n
      | Some v \<Rightarrow> Some (case map_of b n of None \<Rightarrow> v | Some w \<Rightarrow> max v w))"
proof -
  have r: "map_of (map (\<lambda>(key, value). (key, case map_of b key of
      None \<Rightarrow> value | Some other \<Rightarrow> if value \<le> other then other else value)) a) n =
      map_option (\<lambda>v. case map_of b n of None \<Rightarrow> v | Some w \<Rightarrow> max v w) (map_of a n)"
    by (induction a) (auto simp: max_def split: option.splits)
  have f: "map_of (filter (\<lambda>(key, value). m key = None) b) n = (if m n = None then map_of b n else None)"
    for m :: "string \<Rightarrow> Quantity option" by (induction b) auto
  show ?thesis by (auto simp: listMax_def Let_def map_add_def r f split: option.splits)
qed

lemma quantity_listAdd [simp]: "quantityOf (listAdd a b) n = quantityOf a n + quantityOf b n"
  by (auto simp: quantityOf_def map_of_listAdd split: option.splits)

definition nonneg :: "ResourceList \<Rightarrow> bool" where
  "nonneg rl \<longleftrightarrow> list_all (\<lambda>(n, q). 0 \<le> q) rl"

lemma nonneg_quantity: "nonneg rl \<Longrightarrow> 0 \<le> quantityOf rl n"
  by (auto simp: nonneg_def quantityOf_def list_all_iff dest: map_of_SomeD split: option.splits)

lemma quantity_listMax:
  assumes "0 \<le> quantityOf a n" "0 \<le> quantityOf b n"
  shows "quantityOf (listMax a b) n = max (quantityOf a n) (quantityOf b n)"
  using assms by (auto simp: quantityOf_def map_of_listMax max_def split: option.splits)

section \<open>Usage\<close>

text \<open>The request of a pod by name, as the comment of \<^verbatim>\<open>computePodResourceRequest\<close> describes it: its containers and its
  overhead together, or its largest init container.\<close>

definition pod_quantity :: "Pod \<Rightarrow> string \<Rightarrow> Quantity" where
  "pod_quantity pod n =
     fold (\<lambda>c. max (quantityOf (ctrRequests c) n)) (podInitContainers pod)
       (sum_list (map (\<lambda>c. quantityOf (ctrRequests c) n) (podContainers pod)) +
        (case podOverhead pod of None \<Rightarrow> 0 | Some ov \<Rightarrow> quantityOf ov n))"

text \<open>Requests are not negative, and there is no overhead, which the code leaves out.\<close>

definition requests_ok :: "Pod \<Rightarrow> bool" where
  "requests_ok pod \<longleftrightarrow> podOverhead pod = None \<and> (\<forall>c \<in> set (podContainers pod @ podInitContainers pod). nonneg (ctrRequests c))"

lemma fold_listAdd:
  "quantityOf (fold (\<lambda>c acc. listAdd acc (f c)) cs acc) n = quantityOf acc n + sum_list (map (\<lambda>c. quantityOf (f c) n) cs)"
  by (induction cs arbitrary: acc) simp_all

lemma fold_listMax:
  assumes "\<forall>c \<in> set cs. nonneg (f c)" "0 \<le> quantityOf acc n" "0 \<le> x"
  shows "max x (quantityOf (fold (\<lambda>c acc. listMax acc (f c)) cs acc) n) = fold (\<lambda>c. max (quantityOf (f c) n)) cs (max x (quantityOf acc n)) \<and>
    0 \<le> quantityOf (fold (\<lambda>c acc. listMax acc (f c)) cs acc) n"
  using assms
proof (induction cs arbitrary: acc)
  case (Cons c cs)
  then have "0 \<le> quantityOf (f c) n" using nonneg_quantity by simp
  then have "quantityOf (listMax acc (f c)) n = max (quantityOf acc n) (quantityOf (f c) n)"
    using Cons.prems(2) by (rule quantity_listMax [rotated])
  then show ?case using Cons.IH [of "listMax acc (f c)"] Cons.prems by (simp add: max.assoc max.left_commute max.commute)
qed simp

lemma pod_request_quantity:
  assumes "requests_ok pod"
  shows "quantityOf (computePodResourceRequest pod) n = pod_quantity pod n"
proof -
  let ?s = "sum_list (map (\<lambda>c. quantityOf (ctrRequests c) n) (podContainers pod))"
  have q0: "quantityOf [] n = 0" by (simp add: quantityOf_def)
  have s: "0 \<le> ?s" using assms nonneg_quantity by (intro sum_list_nonneg) (auto simp: requests_ok_def)
  have "\<forall>c \<in> set (podInitContainers pod). nonneg (ctrRequests c)" using assms by (simp add: requests_ok_def)
  from fold_listMax [OF this, of "[]" n ?s] s assms show ?thesis
    by (simp add: requests_ok_def computePodResourceRequest_def Let_def pod_quantity_def quantity_listMax fold_listAdd q0)
qed

lemma zero_used: "quantityOf (newZeroUsed eq) n = 0"
proof -
  have "quantityOf (fold (\<lambda>v. AList.update v (NewQuantity 0)) ns acc) n = 0" if "quantityOf acc n = 0" for ns acc
    using that by (induction ns arbitrary: acc) (auto simp: quantityOf_def NewQuantity_def split: option.splits)
  then show ?thesis by (simp add: newZeroUsed_def quantityOf_def)
qed

lemma used_quantity:
  assumes "qeListPods env ns = Inr pods" "\<forall>p \<in> set pods. podPhase p = PodRunning \<longrightarrow> requests_ok p"
  shows "\<exists>used. computeElasticQuotaUsed env ns eq = Inr used \<and>
    (\<forall>n. quantityOf used n = sum_list (map (\<lambda>p. pod_quantity p n) (filter (\<lambda>p. podPhase p = PodRunning) pods)))"
proof -
  have "quantityOf (fold (\<lambda>p used. if podPhase p = PodRunning then listAdd used (computePodResourceRequest p) else used) pods acc) n =
      quantityOf acc n + sum_list (map (\<lambda>p. pod_quantity p n) (filter (\<lambda>p. podPhase p = PodRunning) pods))" for acc n
    using assms(2) by (induction pods arbitrary: acc) (simp_all add: pod_request_quantity)
  then show ?thesis using assms(1) by (simp add: computeElasticQuotaUsed_def zero_used)
qed

lemma semanticEqual_refl: "semanticEqual rl rl"
  by (simp add: semanticEqual_def list_all_iff split_beta)

lemma semanticEqual_quantity:
  assumes "semanticEqual a b"
  shows "quantityOf a n = quantityOf b n"
proof (cases "n \<in> fst ` set (a @ b)")
  case True
  then have "map_of a n = map_of b n" using assms by (auto simp: semanticEqual_def list_all_iff)
  then show ?thesis by (simp add: quantityOf_def)
next
  case False
  then have "map_of a n = None" "map_of b n = None" by (auto simp: map_of_eq_None_iff)
  then show ?thesis by (simp add: quantityOf_def)
qed

section \<open>Reconciliation\<close>

definition quota_after :: "quota_action list \<Rightarrow> QuotaObject \<Rightarrow> QuotaObject" where
  "quota_after acts eq = (case acts of PatchUsed q # _ \<Rightarrow> q | _ \<Rightarrow> eq)"

lemma used_of_updated: "computeElasticQuotaUsed env ns (eq\<lparr>quotaUsed := u\<rparr>) = computeElasticQuotaUsed env ns eq"
proof -
  have "newZeroUsed (eq\<lparr>quotaUsed := u\<rparr>) = newZeroUsed eq" by (simp add: newZeroUsed_def)
  then show ?thesis by (simp add: computeElasticQuotaUsed_def split: sum.splits)
qed

text \<open>
  C36. In a namespace whose running pods have no overhead, a reconciliation that can read the quota and the pods and whose patch is
  accepted leaves in the status, for every resource name, the sum over the running pods of what each requests as documented
  (its containers and its overhead together, or its largest init container), and the next reconciliation of that object does
  nothing. For pods with an overhead the code departs from its comment (\<open>overhead_not_counted\<close>).
\<close>

theorem quota_status_exact:
  assumes "qeListQuotas env ns = Inr (eq # rest)" "qeListPods env ns = Inr pods" "\<forall>p \<in> set pods. podPhase p = PodRunning \<longrightarrow> requests_ok p"
    and "\<And>q. qePatchStatus env q = None" "Reconcile env ns = (e, acts)"
  shows "e = None \<and>
    quantityOf (quotaUsed (quota_after acts eq)) n =
      sum_list (map (\<lambda>p. pod_quantity p n) (filter (\<lambda>p. podPhase p = PodRunning) pods)) \<and>
    Reconcile (env\<lparr>qeListQuotas := (\<lambda>_. Inr (quota_after acts eq # rest))\<rparr>) ns = (None, [])"
proof -
  obtain used where u: "computeElasticQuotaUsed env ns eq = Inr used"
      "\<And>n. quantityOf used n = sum_list (map (\<lambda>p. pod_quantity p n) (filter (\<lambda>p. podPhase p = PodRunning) pods))"
    using used_quantity [OF assms(2,3)] by blast
  have again: "computeElasticQuotaUsed (env\<lparr>qeListQuotas := qs\<rparr>) ns q = computeElasticQuotaUsed env ns q" for qs q
    by (simp add: computeElasticQuotaUsed_def)
  show ?thesis
  proof (cases "semanticEqual used (quotaUsed eq)")
    case True
    then have "e = None" "acts = []" using assms(1,5) u(1) by (simp_all add: Reconcile_def)
    then show ?thesis
      using True u semanticEqual_quantity [OF True, of n] by (simp add: Reconcile_def quota_after_def again)
  next
    case False
    then have "e = None" "acts = [PatchUsed (eq\<lparr>quotaUsed := used\<rparr>), SyncedEvent]"
      using assms(1,4,5) u(1) by (simp_all add: Reconcile_def Let_def)
    then show ?thesis
      using u by (simp add: Reconcile_def quota_after_def again used_of_updated semanticEqual_refl)
  qed
qed

definition ex_running :: "Quantity \<Rightarrow> Pod" where
  "ex_running cpu = zero_pod\<lparr>podPhase := PodRunning,
     podContainers := [\<lparr>ctrName = ''c'', ctrRequests = [(''cpu'', cpu)], ctrLimits = [], ctrSeccompProfile = None\<rparr>]\<rparr>"

definition ex_quota_env :: quota_env where
  "ex_quota_env = \<lparr>qeListQuotas = (\<lambda>_. Inr [\<lparr>quotaNamespace = ''d'', quotaMin = None, quotaMax = None, quotaName = ''q'', quotaUsed = []\<rparr>]),
     qeListPods = (\<lambda>_. Inr [ex_running 500, zero_pod, ex_running 250]), qePatchStatus = (\<lambda>_. None)\<rparr>"

theorem quota_status_exact_witness:
  "\<exists>acts. Reconcile ex_quota_env ''d'' = (None, acts) \<and>
     quantityOf (quotaUsed (quota_after acts \<lparr>quotaNamespace = ''d'', quotaMin = None, quotaMax = None, quotaName = ''q'', quotaUsed = []\<rparr>)) ''cpu'' = 750"
proof -
  obtain e acts where r: "Reconcile ex_quota_env ''d'' = (e, acts)" by force
  have ok: "\<forall>p \<in> set [ex_running 500, zero_pod, ex_running 250]. podPhase p = PodRunning \<longrightarrow> requests_ok p"
    by (simp add: requests_ok_def ex_running_def zero_pod_def nonneg_def)
  show ?thesis
    using quota_status_exact [OF _ _ ok _ r, of _ "[]" "''cpu''"] r
    by (simp add: ex_quota_env_def) (simp add: pod_quantity_def ex_running_def zero_pod_def quantityOf_def)
qed

text \<open>
  The overhead of a pod is in the scheduler's account of a quota but not in the controller's: the
  controller computes the sum with the overhead and drops it.
\<close>

theorem overhead_not_counted:
  "computePodResourceRequest (pod\<lparr>podOverhead := ov\<rparr>) = computePodResourceRequest pod"
  "amount (Elastic_Quota.computePodResourceRequest sc (pod\<lparr>podOverhead := Some rl\<rparr>)) d =
   amount (Elastic_Quota.computePodResourceRequest sc (pod\<lparr>podOverhead := None\<rparr>)) d + listed sc rl d"
  by (simp_all add: computePodResourceRequest_def Elastic_Quota.computePodResourceRequest_def Let_def amount_Add)

end
