(* ===== verification/Preemption_Toleration.thy ===== *)
theory Preemption_Toleration
  imports Preemption_Base
begin

text \<open>
  \<^verbatim>\<open>scheduler-plugins/pkg/preemptiontoleration\<close>: a preemption plugin whose victims may be exempted by
  annotations of their priority class. The scheduling framework is the record \<open>dry_handle\<close>: the
  extensions that follow the removal and the return of a pod in the cycle state, the verdict of the
  filter plugins, the sort by importance (whose order among equals Go leaves open) and the lister of
  priority classes. The cycle state of the other plugins is the type parameter.
\<close>

section \<open>Policies\<close>

record PriorityClass =
  pclName :: string
  pclValue :: int32
  pclAnnotations :: "(string, string) gomap"

record Policy =
  MinimumPreemptablePriority :: int32
  TolerationSeconds :: int64

definition AnnotationKeyMinimumPreemptablePriority :: string where
  "AnnotationKeyMinimumPreemptablePriority = ''preemption-toleration.scheduling.x-k8s.io/minimum-preemptable-priority''"

definition AnnotationKeyTolerationSeconds :: string where
  "AnnotationKeyTolerationSeconds = ''preemption-toleration.scheduling.x-k8s.io/toleration-seconds''"

text \<open>\<open>None\<close> is the error of an annotation that is not a number of its width.\<close>

definition parsePreemptionTolerationPolicy :: "PriorityClass \<Rightarrow> Policy option" where
  "parsePreemptionTolerationPolicy pc =
     (case (case map_of (pclAnnotations pc) AnnotationKeyMinimumPreemptablePriority of
              None \<Rightarrow> Some (pclValue pc + 1)
            | Some s \<Rightarrow> map_option word_of_int (ParseInt 32 s)) of
        None \<Rightarrow> None
      | Some minimum \<Rightarrow>
          (case (case map_of (pclAnnotations pc) AnnotationKeyTolerationSeconds of
                   None \<Rightarrow> Some 0
                 | Some s \<Rightarrow> map_option word_of_int (ParseInt 64 s)) of
             None \<Rightarrow> None
           | Some secs \<Rightarrow> Some \<lparr>MinimumPreemptablePriority = minimum, TolerationSeconds = secs\<rparr>))"

section \<open>Exemption\<close>

definition GetPodCondition :: "Pod \<Rightarrow> string \<Rightarrow> PodCondition option" where
  "GetPodCondition pod t = find (\<lambda>c. condType c = t) (podConditions pod)"

text \<open>The duration is a 64-bit number of nanoseconds and wraps around.\<close>

definition ExemptedFromPreemption ::
    "Pod \<Rightarrow> Pod \<Rightarrow> (string \<Rightarrow> api_error + PriorityClass) \<Rightarrow> int \<Rightarrow> api_error + bool" where
  "ExemptedFromPreemption victimCandidate preemptor pcGet now =
     (if podPriorityClassName victimCandidate = '''' then Inr False
      else (case pcGet (podPriorityClassName victimCandidate) of
        Inl e \<Rightarrow> Inl e
      | Inr pc \<Rightarrow>
          if (case podPreemptionPolicy preemptor of None \<Rightarrow> ''PreemptLowerPriority'' | Some p \<Rightarrow> p) = ''Never'' then Inr True
          else (case parsePreemptionTolerationPolicy pc of
            None \<Rightarrow> Inr False
          | Some policy \<Rightarrow>
              if MinimumPreemptablePriority policy \<le>s PodPriority preemptor then Inr False
              else if TolerationSeconds policy <s 0 then Inr True
              else (case GetPodCondition victimCandidate ''PodScheduled'' of
                None \<Rightarrow> Inr True
              | Some c \<Rightarrow>
                  if condStatus c \<noteq> ''True'' then Inr True
                  else (let tolerationDuration = TolerationSeconds policy * 1000000000
                        in Inr (now < condLastTransitionTime c + sint tolerationDuration))))))"

section \<open>Victims\<close>

record 's dry_handle =
  dhRemovePod :: "'s \<Rightarrow> Pod \<Rightarrow> Pod \<Rightarrow> Pod list \<Rightarrow> Code \<times> 's"
  dhAddPod :: "'s \<Rightarrow> Pod \<Rightarrow> Pod \<Rightarrow> Pod list \<Rightarrow> Code \<times> 's"
  dhFilter :: "'s \<Rightarrow> Pod \<Rightarrow> Pod list \<Rightarrow> Code"
  dhSort :: "Pod list \<Rightarrow> Pod list"
  dhPriorityClass :: "string \<Rightarrow> api_error + PriorityClass"

text \<open>The node of the dry run: its pods and the cycle state.\<close>

definition removePod :: "'s dry_handle \<Rightarrow> Pod \<Rightarrow> Pod \<Rightarrow> Pod list \<times> 's \<Rightarrow> run_error + Pod list \<times> 's" where
  "removePod h preemptor p st =
     (case GetPodKey p of
        None \<Rightarrow> Inl NoKey
      | Some k \<Rightarrow>
          (case removeFromSlice (fst st) k of
             None \<Rightarrow> Inl (NoCorrespondingPod (podName p))
           | Some ps \<Rightarrow>
               (case dhRemovePod h (snd st) preemptor p ps of
                  (code, s) \<Rightarrow> if code = Success then Inr (ps, s) else Inl ExtensionFailed)))"

definition addPod :: "'s dry_handle \<Rightarrow> Pod \<Rightarrow> Pod \<Rightarrow> Pod list \<times> 's \<Rightarrow> run_error + Pod list \<times> 's" where
  "addPod h preemptor p st =
     (case dhAddPod h (snd st) preemptor p (fst st @ [p]) of
        (code, s) \<Rightarrow> if code = Success then Inr (fst st @ [p], s) else Inl ExtensionFailed)"

text \<open>The first loop. It runs over the pods the node had at its start: a removal overwrites a
  place of the slice that the loop has passed already.\<close>

fun removeVictims ::
    "'s dry_handle \<Rightarrow> int \<Rightarrow> Pod \<Rightarrow> Pod list \<Rightarrow> Pod list \<times> 's \<Rightarrow> Pod list \<Rightarrow> run_error + Pod list \<times> Pod list \<times> 's" where
  "removeVictims h now preemptor [] st potential = Inr (potential, st)"
| "removeVictims h now preemptor (pi # pis) st potential =
     (if PodPriority preemptor \<le>s PodPriority pi then removeVictims h now preemptor pis st potential
      else (case ExemptedFromPreemption pi preemptor (dhPriorityClass h) now of
        Inl e \<Rightarrow> Inl (ListerFailed e)
      | Inr True \<Rightarrow> removeVictims h now preemptor pis st potential
      | Inr False \<Rightarrow>
          (case removePod h preemptor pi st of
             Inl e \<Rightarrow> Inl e
           | Inr st' \<Rightarrow> removeVictims h now preemptor pis st' (potential @ [pi]))))"

definition reprievePod ::
    "'s dry_handle \<Rightarrow> Pod \<Rightarrow> Pod \<Rightarrow> Pod list \<times> 's \<Rightarrow> run_error + bool \<times> Pod list \<times> 's" where
  "reprievePod h preemptor pi st =
     (case addPod h preemptor pi st of
        Inl e \<Rightarrow> Inl e
      | Inr st1 \<Rightarrow>
          if dhFilter h (snd st1) preemptor (fst st1) = Success then Inr (True, st1)
          else (case removePod h preemptor pi st1 of Inl e \<Rightarrow> Inl e | Inr st2 \<Rightarrow> Inr (False, st2)))"

text \<open>The loop over one group of victims: the victims found and how many were not reprieved.\<close>

fun reprieveAll ::
    "'s dry_handle \<Rightarrow> Pod \<Rightarrow> Pod list \<Rightarrow> Pod list \<times> 's \<Rightarrow> Pod list \<Rightarrow> nat \<Rightarrow> run_error + Pod list \<times> nat \<times> Pod list \<times> 's" where
  "reprieveAll h preemptor [] st victims n = Inr (victims, n, st)"
| "reprieveAll h preemptor (pi # pis) st victims n =
     (case reprievePod h preemptor pi st of
        Inl e \<Rightarrow> Inl e
      | Inr (fits, st') \<Rightarrow>
          if fits then reprieveAll h preemptor pis st' victims n
          else reprieveAll h preemptor pis st' (victims @ [pi]) (n + 1))"

definition SelectVictimsOnNode ::
    "'s dry_handle \<Rightarrow> int \<Rightarrow> 's \<Rightarrow> Pod \<Rightarrow> Pod list \<Rightarrow> PodDisruptionBudget list \<Rightarrow> selection" where
  "SelectVictimsOnNode h now s preemptor nodePods pdbs =
     (case removeVictims h now preemptor nodePods (nodePods, s) [] of
        Inl e \<Rightarrow> RunFailed e
      | Inr (potential, st) \<Rightarrow>
          if potential = [] then Rejected UnschedulableAndUnresolvable
          else if dhFilter h (snd st) preemptor (fst st) \<noteq> Success then Rejected (dhFilter h (snd st) preemptor (fst st))
          else
            (case filterPodsWithPDBViolation (dhSort h potential) pdbs of
               (violating, nonViolating) \<Rightarrow>
                 (case reprieveAll h preemptor violating st [] 0 of
                    Inl e \<Rightarrow> RunFailed e
                  | Inr (victims, numViolatingVictim, st') \<Rightarrow>
                      (case reprieveAll h preemptor nonViolating st' victims 0 of
                         Inl e \<Rightarrow> RunFailed e
                       | Inr (victims', _, _) \<Rightarrow> Victims victims' numViolatingVictim))))"

section \<open>Candidates\<close>

record PreemptionTolerationArgs =
  MinCandidateNodesPercentage :: int32
  MinCandidateNodesAbsolute :: int32

definition calculateNumCandidates :: "PreemptionTolerationArgs \<Rightarrow> int32 \<Rightarrow> int32" where
  "calculateNumCandidates args numNodes =
     (let n = word_of_int (sint (numNodes * MinCandidateNodesPercentage args) sdiv 100);
          n1 = (if n <s MinCandidateNodesAbsolute args then MinCandidateNodesAbsolute args else n)
      in if numNodes <s n1 then numNodes else n1)"

text \<open>\<open>rand\<close> is \<^verbatim>\<open>rand.Int31n\<close>.\<close>

definition GetOffsetAndNumCandidates :: "(int32 \<Rightarrow> int32) \<Rightarrow> PreemptionTolerationArgs \<Rightarrow> int32 \<Rightarrow> int32 \<times> int32" where
  "GetOffsetAndNumCandidates rand args numNodes = (rand numNodes, calculateNumCandidates args numNodes)"

definition CandidatesToVictimsMap :: "(string \<times> 'v) list \<Rightarrow> (string, 'v) gomap" where
  "CandidatesToVictimsMap candidates = fold (\<lambda>(name, victims) m. AList.update name victims m) candidates []"

definition PodEligibleToPreemptOthers :: "(string \<Rightarrow> Pod list option) \<Rightarrow> Pod \<Rightarrow> Code \<Rightarrow> bool" where
  "PodEligibleToPreemptOthers nodeGet pod nominatedNodeStatus =
     (if podPreemptionPolicy pod = Some ''Never'' then False
      else if podNominatedNodeName pod \<noteq> '''' then
        (if nominatedNodeStatus = UnschedulableAndUnresolvable then True
         else (case nodeGet (podNominatedNodeName pod) of
           None \<Rightarrow> True
         | Some pods \<Rightarrow> \<not> list_ex (\<lambda>p. podDeletionTimestamp p \<noteq> None \<and> PodPriority p <s PodPriority pod) pods))
      else True)"

end
