(* ===== verification/Preemption_Toleration_Properties.thy ===== *)
theory Preemption_Toleration_Properties
  imports Preemption_Toleration
begin

text \<open>
  The victims the preemption toleration plugin selects: never a pod that tolerates the preemptor,
  enough to make room, and none that could be spared. The contract of the framework is the
  predicate \<open>tracks\<close>.
\<close>

section \<open>The exemption rule\<close>

definition scheduled_at :: "Pod \<Rightarrow> int option" where
  "scheduled_at pod =
     (case GetPodCondition pod ''PodScheduled'' of
        None \<Rightarrow> None
      | Some c \<Rightarrow> if condStatus c = ''True'' then Some (condLastTransitionTime c) else None)"

definition policy_protects :: "Policy \<Rightarrow> int \<Rightarrow> Pod \<Rightarrow> Pod \<Rightarrow> bool" where
  "policy_protects policy now preemptor v \<longleftrightarrow>
     sint (PodPriority preemptor) < sint (MinimumPreemptablePriority policy) \<and>
     (sint (TolerationSeconds policy) < 0 \<or>
      (case scheduled_at v of None \<Rightarrow> True | Some t \<Rightarrow> now < t + sint (TolerationSeconds policy) * 10 ^ 9))"

text \<open>A pod tolerates the preemptor when its priority class exists and the preemptor never preempts or
  the policy of the class protects the pod.\<close>

definition tolerates :: "(string \<Rightarrow> api_error + PriorityClass) \<Rightarrow> int \<Rightarrow> Pod \<Rightarrow> Pod \<Rightarrow> bool" where
  "tolerates pcGet now preemptor v \<longleftrightarrow>
     podPriorityClassName v \<noteq> '''' \<and>
     (podPreemptionPolicy preemptor = Some ''Never'' \<or>
      (case pcGet (podPriorityClassName v) of
         Inl e \<Rightarrow> False
       | Inr pc \<Rightarrow> (case parsePreemptionTolerationPolicy pc of
           None \<Rightarrow> False | Some policy \<Rightarrow> policy_protects policy now preemptor v)))"

text \<open>The class of the pod can be read, and its seconds do not overflow as nanoseconds (292 years).\<close>

definition class_readable :: "(string \<Rightarrow> api_error + PriorityClass) \<Rightarrow> Pod \<Rightarrow> bool" where
  "class_readable pcGet v \<longleftrightarrow> podPriorityClassName v = '''' \<or>
     (case pcGet (podPriorityClassName v) of
        Inl e \<Rightarrow> False
      | Inr pc \<Rightarrow> (case parsePreemptionTolerationPolicy pc of
          None \<Rightarrow> True | Some policy \<Rightarrow> sint (TolerationSeconds policy) \<le> 9223372036))"

lemma exemption_rule:
  assumes "class_readable pcGet v"
  shows "ExemptedFromPreemption v preemptor pcGet now = Inr (tolerates pcGet now preemptor v)"
proof -
  have d: "sint (x * 1000000000 :: int64) = sint x * 10 ^ 9" if "0 \<le> sint x" "sint x \<le> 9223372036" for x :: int64
    using that sint_mult64 [of x 1000000000] by (simp add: int64_range_def)
  show ?thesis
    using assms
    by (auto simp: ExemptedFromPreemption_def tolerates_def class_readable_def policy_protects_def scheduled_at_def
        Let_def word_sle_eq word_sless_alt d split: sum.splits option.splits)
qed

section \<open>The dry run\<close>

text \<open>
  What the plugin relies on in the framework: the cycle state follows the pods of the node (\<open>R\<close>), so that
  the extensions succeed, the filters decide by the pods on the node (\<open>fit\<close>), and the sort permutes.
\<close>

definition tracks :: "'s dry_handle \<Rightarrow> Pod \<Rightarrow> ('s \<Rightarrow> Pod multiset \<Rightarrow> bool) \<Rightarrow> (Pod multiset \<Rightarrow> bool) \<Rightarrow> bool" where
  "tracks h preemptor R fit \<longleftrightarrow>
     (\<forall>s M p ps. R s M \<and> p \<in># M \<longrightarrow>
        fst (dhRemovePod h s preemptor p ps) = Success \<and> R (snd (dhRemovePod h s preemptor p ps)) (M - {#p#})) \<and>
     (\<forall>s M p ps. R s M \<longrightarrow>
        fst (dhAddPod h s preemptor p ps) = Success \<and> R (snd (dhAddPod h s preemptor p ps)) (add_mset p M)) \<and>
     (\<forall>s ps. R s (mset ps) \<longrightarrow> (dhFilter h s preemptor ps = Success) = fit (mset ps)) \<and>
     (\<forall>ps. mset (dhSort h ps) = mset ps)"

definition uids_ok :: "Pod multiset \<Rightarrow> bool" where
  "uids_ok M \<longleftrightarrow> (\<forall>p q. p \<in># M \<and> q \<in># M \<and> podUID p = podUID q \<longrightarrow> p = q) \<and> (\<forall>p \<in># M. count M p = 1 \<and> podUID p \<noteq> '''')"

lemma uids_ok_subset:
  assumes "uids_ok M" "N \<subseteq># M"
  shows "uids_ok N"
proof -
  have s: "x \<in># M" if "x \<in># N" for x using assms(2) that by (rule mset_subset_eqD)
  have "count N x = 1" if "x \<in># N" for x
  proof -
    have "count N x \<le> 1" using assms(1) s [OF that] mset_subset_eq_count [OF assms(2), of x] by (simp add: uids_ok_def)
    then show ?thesis using that by (simp add: le_Suc_eq flip: count_greater_zero_iff)
  qed
  then show ?thesis using assms(1) s by (auto simp: uids_ok_def)
qed

text \<open>A state of the dry run in which the node has the pods \<open>M\<close>.\<close>

definition holds_pods :: "('s \<Rightarrow> Pod multiset \<Rightarrow> bool) \<Rightarrow> Pod multiset \<Rightarrow> Pod list \<times> 's \<Rightarrow> bool" where
  "holds_pods R M st \<longleftrightarrow> mset (fst st) = M \<and> R (snd st) M \<and> uids_ok M"

lemma removeFromSlice_removes:
  assumes "uids_ok (mset ps)" "p \<in> set ps"
  shows "\<exists>ps'. removeFromSlice ps (podUID p) = Some ps' \<and> mset ps' = mset ps - {#p#}"
proof -
  have k: "GetPodKey x = Some (podUID p) \<longleftrightarrow> x = p" if "x \<in> set ps" for x
    using assms that by (auto simp: GetPodKey_def uids_ok_def)
  have "List.extract (\<lambda>x. GetPodKey x = Some (podUID p)) ps \<noteq> None"
    using assms(2) k by (auto simp: extract_None_iff)
  then obtain xs y ys where e: "List.extract (\<lambda>x. GetPodKey x = Some (podUID p)) ps = Some (xs, y, ys)" by auto
  then have ps: "ps = xs @ y # ys" and "GetPodKey y = Some (podUID p)" by (auto simp: extract_Some_iff)
  then have y: "y = p" using k [of y] by simp
  have "mset (if ys = [] then xs else xs @ last ys # butlast ys) = mset xs + mset ys"
    by (cases ys rule: rev_cases) auto
  then show ?thesis using e by (simp add: removeFromSlice_def ps y)
qed

lemma removePod_tracks:
  assumes "tracks h pre R fit" "holds_pods R M st" "p \<in># M"
  shows "\<exists>st'. removePod h pre p st = Inr st' \<and> holds_pods R (M - {#p#}) st'"
proof -
  have m: "mset (fst st) = M" "R (snd st) M" "uids_ok M" using assms(2) by (auto simp: holds_pods_def)
  then have k: "GetPodKey p = Some (podUID p)" using assms(3) by (auto simp: GetPodKey_def uids_ok_def)
  obtain ps' where r: "removeFromSlice (fst st) (podUID p) = Some ps'" "mset ps' = M - {#p#}"
    using removeFromSlice_removes [of "fst st" p] m assms(3) by auto
  obtain c s' where e: "dhRemovePod h (snd st) pre p ps' = (c, s')" by force
  then have "c = Success" "R s' (M - {#p#})" using assms(1,3) m(2) unfolding tracks_def by (metis fst_conv snd_conv)+
  then show ?thesis using uids_ok_subset [OF m(3)] by (simp add: removePod_def k r e holds_pods_def)
qed

lemma addPod_tracks:
  assumes "tracks h pre R fit" "holds_pods R M st" "uids_ok (add_mset p M)"
  shows "\<exists>st'. addPod h pre p st = Inr st' \<and> holds_pods R (add_mset p M) st'"
proof -
  have m: "mset (fst st) = M" "R (snd st) M" using assms(2) by (auto simp: holds_pods_def)
  obtain c s' where e: "dhAddPod h (snd st) pre p (fst st @ [p]) = (c, s')" by force
  then have "c = Success" "R s' (add_mset p M)" using assms(1) m(2) unfolding tracks_def by (metis fst_conv snd_conv)+
  then show ?thesis using assms(3) m by (simp add: addPod_def e holds_pods_def)
qed

lemma filter_tracks:
  "tracks h pre R fit \<Longrightarrow> holds_pods R M st \<Longrightarrow> dhFilter h (snd st) pre (fst st) = Success \<longleftrightarrow> fit M"
  by (auto simp: tracks_def holds_pods_def)

lemma reprievePod_tracks:
  assumes "tracks h pre R fit" "holds_pods R M st" "uids_ok (add_mset p M)"
  shows "\<exists>st'. reprievePod h pre p st = Inr (fit (add_mset p M), st') \<and>
    holds_pods R (if fit (add_mset p M) then add_mset p M else M) st'"
proof -
  obtain st1 where a: "addPod h pre p st = Inr st1" "holds_pods R (add_mset p M) st1"
    using addPod_tracks [OF assms] by blast
  obtain st2 where "removePod h pre p st1 = Inr st2" "holds_pods R M st2"
    using removePod_tracks [OF assms(1) a(2), of p] by auto
  then show ?thesis using a filter_tracks [OF assms(1) a(2)] by (cases st1; cases st2) (simp add: reprievePod_def)
qed

text \<open>Removing a pod from a node never makes the preemptor fit less.\<close>

definition shrinking :: "(Pod multiset \<Rightarrow> bool) \<Rightarrow> bool" where
  "shrinking fit \<longleftrightarrow> (\<forall>p M. fit (add_mset p M) \<longrightarrow> fit M)"

lemma shrinking_up: "shrinking fit \<Longrightarrow> fit (M + N) \<Longrightarrow> fit M"
  by (induction N) (auto simp: shrinking_def)

text \<open>
  Each pod put back either stays or cannot be afforded; as room only shrinks, it cannot be afforded at the end either.
\<close>

lemma reprieveAll_tracks:
  assumes "tracks h pre R fit" "holds_pods R M st" "uids_ok (M + mset ps)" "fit M"
    and mono: "shrinking fit"
  shows "\<exists>vs st'. reprieveAll h pre ps st victims n = Inr (victims @ vs, n + length vs, st') \<and> subseq vs ps \<and>
    holds_pods R (M + (mset ps - mset vs)) st' \<and> fit (M + (mset ps - mset vs)) \<and>
    (\<forall>v \<in> set vs. \<not> fit (add_mset v (M + (mset ps - mset vs))))"
  using assms(2-4)
proof (induction ps arbitrary: M st victims n)
  case (Cons p ps)
  have okp: "uids_ok (add_mset p M)" using Cons.prems(2) by (rule uids_ok_subset) simp
  obtain st1 where r: "reprievePod h pre p st = Inr (fit (add_mset p M), st1)"
      "holds_pods R (if fit (add_mset p M) then add_mset p M else M) st1"
    using reprievePod_tracks [OF assms(1) Cons.prems(1) okp] by blast
  show ?case
  proof (cases "fit (add_mset p M)")
    case True
    then obtain vs st' where ih: "reprieveAll h pre ps st1 victims n = Inr (victims @ vs, n + length vs, st')" "subseq vs ps"
        "holds_pods R (add_mset p M + (mset ps - mset vs)) st'" "fit (add_mset p M + (mset ps - mset vs))"
        "\<forall>v \<in> set vs. \<not> fit (add_mset v (add_mset p M + (mset ps - mset vs)))"
      using Cons.IH [of "add_mset p M" st1 victims n] Cons.prems(2) r(2) by auto
    have "mset vs \<subseteq># mset ps" using ih(2) by (rule subseq_mset_subset)
    then have "M + (mset (p # ps) - mset vs) = add_mset p M + (mset ps - mset vs)"
      by (auto simp: multiset_eq_iff Suc_diff_le mset_subset_eq_count)
    then show ?thesis using ih r(1) True by (auto intro!: exI [of _ vs] exI [of _ st'])
  next
    case False
    have "uids_ok (M + mset ps)" using Cons.prems(2) by (rule uids_ok_subset) simp
    then obtain vs st' where ih: "reprieveAll h pre ps st1 (victims @ [p]) (n + 1) = Inr ((victims @ [p]) @ vs, n + 1 + length vs, st')"
        "subseq vs ps" "holds_pods R (M + (mset ps - mset vs)) st'" "fit (M + (mset ps - mset vs))"
        "\<forall>v \<in> set vs. \<not> fit (add_mset v (M + (mset ps - mset vs)))"
      using Cons.IH [of M st1 "victims @ [p]" "n + 1"] Cons.prems r(2) False by auto
    have "\<not> fit (add_mset p (M + (mset ps - mset vs)))" using False shrinking_up [OF mono, of "add_mset p M" "mset ps - mset vs"] by auto
    then show ?thesis using ih r(1) False by (auto intro!: exI [of _ "p # vs"] exI [of _ st'])
  qed
qed (auto intro!: exI [of _ "[]"])

lemma removeVictims_tracks:
  fixes now :: int
  assumes "tracks h pre R fit" "holds_pods R M st" "mset ps \<subseteq># M" "\<forall>p \<in> set ps. class_readable (dhPriorityClass h) p"
  defines "victim \<equiv> \<lambda>p. PodPriority p <s PodPriority pre \<and> \<not> tolerates (dhPriorityClass h) now pre p"
  shows "\<exists>st'. removeVictims h now pre ps st acc = Inr (acc @ filter victim ps, st') \<and> holds_pods R (M - mset (filter victim ps)) st'"
  using assms(2-4)
proof (induction ps arbitrary: M st acc)
  case (Cons p ps)
  have e: "ExemptedFromPreemption p pre (dhPriorityClass h) now = Inr (tolerates (dhPriorityClass h) now pre p)"
    using Cons.prems(3) by (intro exemption_rule) simp
  have less: "PodPriority p <s PodPriority pre \<longleftrightarrow> \<not> PodPriority pre \<le>s PodPriority p" by (auto simp: word_sle_eq word_sless_alt)
  show ?case
  proof (cases "victim p")
    case True
    have "p \<in># M" using Cons.prems(2) by (auto dest: mset_subset_eqD)
    then obtain st1 where r: "removePod h pre p st = Inr st1" "holds_pods R (M - {#p#}) st1"
      using removePod_tracks [OF assms(1) Cons.prems(1)] by blast
    have "mset ps \<subseteq># M - {#p#}" using Cons.prems(2) by (simp add: insert_subset_eq_iff)
    then obtain st' where "removeVictims h now pre ps st1 (acc @ [p]) = Inr ((acc @ [p]) @ filter victim ps, st')"
        "holds_pods R (M - {#p#} - mset (filter victim ps)) st'"
      using Cons.IH [OF r(2), of "acc @ [p]"] Cons.prems(3) by auto
    then show ?thesis using True r(1) e less by (auto simp: victim_def)
  next
    case False
    have "mset ps \<subseteq># M" using Cons.prems(2) by (metis mset.simps(2) subset_mset.order_trans mset_subset_eq_add_right add_mset_add_single mset_subset_eq_add_left)
    then obtain st' where "removeVictims h now pre ps st acc = Inr (acc @ filter victim ps, st')"
        "holds_pods R (M - mset (filter victim ps)) st'"
      using Cons.IH [OF Cons.prems(1), of acc] Cons.prems(3) by auto
    then show ?thesis using False e less by (cases st') (auto simp: victim_def)
  qed
qed auto


text \<open>The pods of the node the preemptor may remove, and those it must leave.\<close>

definition preemptible :: "'s dry_handle \<Rightarrow> int \<Rightarrow> Pod \<Rightarrow> Pod list \<Rightarrow> Pod list" where
  "preemptible h now preemptor ps =
     filter (\<lambda>p. PodPriority p <s PodPriority preemptor \<and> \<not> tolerates (dhPriorityClass h) now preemptor p) ps"

lemma select_cases:
  fixes now :: int
  assumes "tracks h pre R fit" "R s (mset ps)" "uids_ok (mset ps)" "\<forall>p \<in> set ps. class_readable (dhPriorityClass h) p"
    and mono: "shrinking fit"
  defines "P \<equiv> preemptible h now pre ps"
  shows "(P = [] \<or> \<not> fit (mset ps - mset P)) \<and> (\<exists>c. SelectVictimsOnNode h now s pre ps pdbs = Rejected c \<and> c \<noteq> Success) \<or>
    P \<noteq> [] \<and> fit (mset ps - mset P) \<and>
    (\<exists>vv nv. SelectVictimsOnNode h now s pre ps pdbs = Victims (vv @ nv) (length vv) \<and>
       subseq vv (fst (filterPodsWithPDBViolation (dhSort h P) pdbs)) \<and> subseq nv (snd (filterPodsWithPDBViolation (dhSort h P) pdbs)) \<and>
       mset (vv @ nv) \<subseteq># mset P \<and> fit (mset ps - mset (vv @ nv)) \<and>
       (\<forall>v \<in> set (vv @ nv). \<not> fit (add_mset v (mset ps - mset (vv @ nv)))))"
proof -
  have PM: "mset P \<subseteq># mset ps" by (simp add: P_def preemptible_def multiset_filter_subset)
  have "holds_pods R (mset ps) (ps, s)" using assms(2,3) by (simp add: holds_pods_def)
  then obtain st where r: "removeVictims h now pre ps (ps, s) [] = Inr (P, st)" "holds_pods R (mset ps - mset P) st"
    using removeVictims_tracks [OF assms(1) _ subset_mset.order_refl assms(4), of "(ps, s)" now "[]"] by (auto simp: P_def preemptible_def)
  note flt = filter_tracks [OF assms(1) r(2)]
  show ?thesis
  proof (cases "P \<noteq> [] \<and> fit (mset ps - mset P)")
    case False
    then show ?thesis using flt r(1) by (auto simp: SelectVictimsOnNode_def)
  next
    case True
    let ?M = "mset ps - mset P"
    obtain V N where split: "filterPodsWithPDBViolation (dhSort h P) pdbs = (V, N)" by force
    have VN: "mset V + mset N = mset P"
      using pdbSplit_parts [of "dhSort h P"] split assms(1) by (auto simp: filterPodsWithPDBViolation_def tracks_def)
    have all: "?M + (mset V + mset N) = mset ps" using PM by (simp add: VN)
    have "?M + mset V \<subseteq># ?M + (mset V + mset N)" by simp
    then have okV: "uids_ok (?M + mset V)" unfolding all by (rule uids_ok_subset [OF assms(3)])
    obtain vv st1 where v: "reprieveAll h pre V st [] 0 = Inr (vv, length vv, st1)" "subseq vv V"
        "holds_pods R (?M + (mset V - mset vv)) st1" "fit (?M + (mset V - mset vv))"
        "\<forall>v \<in> set vv. \<not> fit (add_mset v (?M + (mset V - mset vv)))"
      using reprieveAll_tracks [OF assms(1) r(2) okV _ mono, of "[]" 0] True by auto
    have "?M + (mset V - mset vv) + mset N \<subseteq># ?M + (mset V + mset N)" by (simp add: add.assoc)
    then have okN: "uids_ok (?M + (mset V - mset vv) + mset N)" unfolding all by (rule uids_ok_subset [OF assms(3)])
    obtain nv st2 where n: "reprieveAll h pre N st1 vv 0 = Inr (vv @ nv, length nv, st2)" "subseq nv N"
        "fit (?M + (mset V - mset vv) + (mset N - mset nv))"
        "\<forall>v \<in> set nv. \<not> fit (add_mset v (?M + (mset V - mset vv) + (mset N - mset nv)))"
      using reprieveAll_tracks [OF assms(1) v(3) okN v(4) mono, of vv 0] by auto
    have sub: "mset vv \<subseteq># mset V" "mset nv \<subseteq># mset N" using v(2) n(2) by (simp_all add: subseq_mset_subset)
    from mset_diff_parts [OF sub, of ?M] have rest: "mset ps - mset (vv @ nv) = ?M + (mset V - mset vv) + (mset N - mset nv)"
      unfolding all by simp
    have "\<not> fit (add_mset v (mset ps - mset (vv @ nv)))" if "v \<in> set vv" for v
      using v(5) that shrinking_up [OF mono, of "add_mset v (?M + (mset V - mset vv))" "mset N - mset nv"] unfolding rest by auto
    moreover have "mset (vv @ nv) \<subseteq># mset P" using sub by (simp flip: VN add: subset_mset.add_mono)
    moreover have "SelectVictimsOnNode h now s pre ps pdbs = Victims (vv @ nv) (length vv)"
      using True flt v(1) n(1) r(1) by (simp add: SelectVictimsOnNode_def split)
    moreover note n(3,4) [folded rest]
    ultimately show ?thesis using True v(2) n(2) by (intro disjI2 conjI exI [of _ vv] exI [of _ nv]) (auto simp: split)
  qed
qed


text \<open>
  C37. Victim selection on a node whose filters follow its pods and never fit less when pods go, with readable
  priority classes: the preemptor is rejected exactly when no pod may be removed, or when removing
  every lower-priority pod that does not tolerate it makes no room. Otherwise the victims are among those
  pods, the preemptor fits without them, not one of them could stay, and the victims that violate a disruption
  budget come first and are counted. No run ends in an error.
\<close>

theorem select_victims_minimal:
  assumes "tracks h preemptor R fit" "shrinking fit" "R s (mset nodePods)" "uids_ok (mset nodePods)"
    and "\<forall>p \<in> set nodePods. class_readable (dhPriorityClass h) p"
  shows "case SelectVictimsOnNode h now s preemptor nodePods pdbs of
      Rejected c \<Rightarrow> c \<noteq> Success \<and>
        (preemptible h now preemptor nodePods = [] \<or> \<not> fit (mset nodePods - mset (preemptible h now preemptor nodePods)))
    | RunFailed e \<Rightarrow> False
    | Victims vs n \<Rightarrow>
        fit (mset nodePods - mset (preemptible h now preemptor nodePods)) \<and>
        mset vs \<subseteq># mset (preemptible h now preemptor nodePods) \<and>
        fit (mset nodePods - mset vs) \<and>
        (\<forall>v \<in> set vs. \<not> fit (add_mset v (mset nodePods - mset vs))) \<and>
        (case filterPodsWithPDBViolation (dhSort h (preemptible h now preemptor nodePods)) pdbs of
           (violating, harmless) \<Rightarrow> n \<le> length vs \<and> subseq (take n vs) violating \<and> subseq (drop n vs) harmless)"
  using select_cases [OF assms(1,3,4,5,2), of now pdbs] by (auto split: prod.splits)

definition ex_low_pod :: "string \<Rightarrow> string \<Rightarrow> Pod" where
  "ex_low_pod uid cls = zero_pod\<lparr>podUID := uid, podName := uid, podPriorityClassName := cls, podPriority := Some 1,
     podConditions := [\<lparr>condType = ''PodScheduled'', condStatus = ''True'', condLastTransitionTime = 1000\<rparr>]\<rparr>"

text \<open>Filters that admit the preemptor when at most two pods are on the node, and a class that protects for an hour.\<close>

definition ex_class :: "string \<Rightarrow> PriorityClass" where
  "ex_class secs = \<lparr>pclName = ''c'', pclValue = 1, pclAnnotations =
       [(AnnotationKeyMinimumPreemptablePriority, ''100''), (AnnotationKeyTolerationSeconds, secs)]\<rparr>"

lemma ex_policy:
  "parsePreemptionTolerationPolicy (ex_class ''3600'') = Some \<lparr>MinimumPreemptablePriority = 100, TolerationSeconds = 3600\<rparr>"
  "parsePreemptionTolerationPolicy (ex_class ''9223372037'') = Some \<lparr>MinimumPreemptablePriority = 100, TolerationSeconds = 9223372037\<rparr>"
  by (simp_all add: parsePreemptionTolerationPolicy_def ex_class_def ParseInt_def parse_digits_def digit_val_def
      AnnotationKeyMinimumPreemptablePriority_def AnnotationKeyTolerationSeconds_def)

definition ex_dry_handle :: "unit dry_handle" where
  "ex_dry_handle = \<lparr>dhRemovePod = (\<lambda>s _ _ _. (Success, s)), dhAddPod = (\<lambda>s _ _ _. (Success, s)),
     dhFilter = (\<lambda>s _ ps. if length ps \<le> 2 then Success else Unschedulable), dhSort = (\<lambda>ps. ps),
     dhPriorityClass = (\<lambda>_. Inr (ex_class ''3600''))\<rparr>"

lemma ex_low_simps [simp]:
  "PodPriority (ex_low_pod u c) = 1" "PodPriority (zero_pod\<lparr>podPriority := Some k\<rparr>) = k"
  "GetPodKey (ex_low_pod u c) = (if u = '''' then None else Some u)"
  "ExemptedFromPreemption (ex_low_pod u '''') p g t = Inr False"
  by (simp_all add: ex_low_pod_def PodPriority_def GetPodKey_def zero_pod_def ExemptedFromPreemption_def)

lemma ex_dry_tracks:
  "tracks ex_dry_handle pre (\<lambda>_ _. True) (\<lambda>M. size M \<le> 2)" "shrinking (\<lambda>M. size M \<le> 2)"
  by (auto simp: tracks_def shrinking_def ex_dry_handle_def)

theorem select_victims_minimal_witness:
  "SelectVictimsOnNode ex_dry_handle 2000 () (zero_pod\<lparr>podPriority := Some 10\<rparr>)
     [ex_low_pod ''a'' '''', ex_low_pod ''b'' ''c'', ex_low_pod ''d'' ''''] [] = Victims [ex_low_pod ''d'' ''''] 0 \<and>
   size (mset [ex_low_pod ''a'' '''', ex_low_pod ''b'' ''c'', ex_low_pod ''d'' ''''] - mset [ex_low_pod ''d'' '''']) \<le> 2"
proof -
  let ?pre = "zero_pod\<lparr>podPriority := Some 10\<rparr>" and ?ps = "[ex_low_pod ''a'' '''', ex_low_pod ''b'' ''c'', ex_low_pod ''d'' '''']"
  have "uids_ok (mset ?ps)" by (auto simp: uids_ok_def ex_low_pod_def zero_pod_def)
  moreover have "\<forall>p \<in> set ?ps. class_readable (dhPriorityClass ex_dry_handle) p"
    by (simp add: class_readable_def ex_dry_handle_def ex_policy)
  ultimately have c: "case SelectVictimsOnNode ex_dry_handle 2000 () ?pre ?ps [] of
      Rejected c \<Rightarrow> True | RunFailed e \<Rightarrow> False | Victims vs n \<Rightarrow> size (mset ?ps - mset vs) \<le> 2"
    using select_victims_minimal [OF ex_dry_tracks, where nodePods = ?ps and preemptor = ?pre and now = 2000 and s = "()" and pdbs = "[]"] by (auto split: selection.splits)
  have "tolerates (dhPriorityClass ex_dry_handle) 2000 ?pre (ex_low_pod ''b'' ''c'')"
    by (simp add: tolerates_def policy_protects_def scheduled_at_def GetPodCondition_def ex_dry_handle_def ex_policy ex_low_pod_def zero_pod_def PodPriority_def)
  then have t: "ExemptedFromPreemption (ex_low_pod ''b'' ''c'') ?pre (\<lambda>_. Inr (ex_class ''3600'')) 2000 = Inr True"
    by (simp add: exemption_rule class_readable_def ex_dry_handle_def ex_policy)
  have "SelectVictimsOnNode ex_dry_handle 2000 () ?pre ?ps [] = Victims [ex_low_pod ''d'' ''''] 0"
    by (simp add: SelectVictimsOnNode_def t word_sle_eq removePod_def removeFromSlice_def List.extract_def addPod_def reprievePod_def
        filterPodsWithPDBViolation_def ex_dry_handle_def)
  with c show ?thesis by simp
qed

text \<open>
  The duration wraps around: a class that tolerates preemption for 9223372037 seconds, which is meant to
  protect its pods for 292 years, does not protect a pod scheduled a second ago.
\<close>

theorem toleration_overflows:
  "parsePreemptionTolerationPolicy (ex_class ''9223372037'') = Some \<lparr>MinimumPreemptablePriority = 100, TolerationSeconds = 9223372037\<rparr> \<and>
   ExemptedFromPreemption (ex_low_pod ''a'' ''c'') (zero_pod\<lparr>podPriority := Some 10\<rparr>)
     (\<lambda>_. Inr (ex_class ''9223372037'')) 1000001000 = Inr False"
  by (simp add: ex_policy ExemptedFromPreemption_def GetPodCondition_def ex_low_pod_def zero_pod_def PodPriority_def word_sle_eq word_sless_alt)

text \<open>The number of candidates never exceeds the number of nodes, whatever overflows, and reaches the absolute minimum.\<close>

lemma num_candidates_bounds:
  "sint (calculateNumCandidates args n) \<le> sint n"
  "min (sint n) (sint (MinCandidateNodesAbsolute args)) \<le> sint (calculateNumCandidates args n)"
  by (auto simp: calculateNumCandidates_def Let_def word_sless_alt)

end
