(* ===== verification/Sys_Sched.thy ===== *)
theory Sys_Sched
  imports K8s_Objects Sched_Framework Go_Float "HOL-Library.Sublist"
begin

text \<open>
  \<^verbatim>\<open>scheduler-plugins/pkg/sysched/sysched.go\<close>: the plugin that places pods where they add few system calls to
  what the pods of a node can use. Its state is a map from nodes to pods and one from nodes to the
  system calls of these pods. The record \<open>sys_env\<close> is what a call reads from outside: the seccomp profiles
  of the API server, the existence of nodes, and the order in which Go runs over a map of annotations.
\<close>

section \<open>Data\<close>

record sys_env =
  seProfile :: "string \<Rightarrow> string \<Rightarrow> api_error + (string \<times> string list) list"
  seNode :: "string \<Rightarrow> bool"
  seRange :: "(string, string) gomap \<Rightarrow> (string \<times> string) list"

record SySched =
  HostToPods :: "(string, Pod list) gomap"
  HostSyscalls :: "(string, string set) gomap"
  ExSAvg :: rat
  ExSAvgCount :: int64
  DefaultProfileNamespace :: string
  DefaultProfileName :: string

definition SPO_ANNOTATION :: string where
  "SPO_ANNOTATION = ''seccomp.security.alpha.kubernetes.io''"

section \<open>Paths\<close>

text \<open>\<^verbatim>\<open>strings.Split\<close> by a character, \<^verbatim>\<open>path.Ext\<close> of a name without a slash, \<^verbatim>\<open>strings.TrimSuffix\<close>.\<close>

fun splitAt :: "char \<Rightarrow> string \<Rightarrow> string list" where
  "splitAt c [] = [[]]"
| "splitAt c (x # xs) =
     (if x = c then [] # splitAt c xs
      else (case splitAt c xs of [] \<Rightarrow> [[x]] | w # ws \<Rightarrow> (x # w) # ws))"

definition Ext :: "string \<Rightarrow> string" where
  "Ext s = (if CHR ''.'' \<in> set s then CHR ''.'' # rev (takeWhile (\<lambda>c. c \<noteq> CHR ''.'') (rev s)) else [])"

definition TrimSuffix :: "string \<Rightarrow> string \<Rightarrow> string" where
  "TrimSuffix s t = (if drop (length s - length t) s = t then take (length s - length t) s else s)"

definition parseNameNS :: "string \<Rightarrow> string \<times> string" where
  "parseNameNS profilePath =
     (if profilePath = [] then ([], [])
      else (let parts = splitAt (CHR ''/'') profilePath
            in if length parts < 2 then ([], [])
               else (parts ! (length parts - 2), TrimSuffix (last parts) (Ext (last parts)))))"

section \<open>System calls of a pod\<close>

definition readSPOProfileCR :: "sys_env \<Rightarrow> string \<Rightarrow> string \<Rightarrow> api_error + string set" where
  "readSPOProfileCR env name namespace =
     (if name = [] \<or> namespace = [] then Inr {}
      else (case seProfile env namespace name of
        Inl e \<Rightarrow> Inl e
      | Inr categories \<Rightarrow>
          Inr (fold (\<lambda>(action, names) syscalls.
                 if action = ''SCMP_ACT_ALLOW'' \<or> action = ''SCMP_ACT_LOG'' then syscalls \<union> set names else syscalls)
               categories {})))"

text \<open>The calls of the profile at a path; none when the path names no profile or reading fails.\<close>

definition profileSyscalls :: "sys_env \<Rightarrow> string \<Rightarrow> string set" where
  "profileSyscalls env profilePath =
     (case parseNameNS profilePath of
        (ns, name) \<Rightarrow>
          if ns \<noteq> [] \<and> name \<noteq> [] then (case readSPOProfileCR env name ns of Inl e \<Rightarrow> {} | Inr s \<Rightarrow> s) else {})"

definition contextSyscalls :: "sys_env \<Rightarrow> SeccompProfile option \<Rightarrow> string set" where
  "contextSyscalls env sp =
     (case sp of
        None \<Rightarrow> {}
      | Some p \<Rightarrow>
          if seccompType p = ''Localhost'' then
            (case seccompLocalhostProfile p of None \<Rightarrow> {} | Some path \<Rightarrow> profileSyscalls env path)
          else {})"

text \<open>The loop over the annotations ends at the first seccomp annotation whose profile can be read
  or which names none.\<close>

fun annotationSyscalls :: "sys_env \<Rightarrow> (string \<times> string) list \<Rightarrow> string set" where
  "annotationSyscalls env [] = {}"
| "annotationSyscalls env ((k, v) # rest) =
     (if sublist SPO_ANNOTATION k then
        (case parseNameNS v of
           (ns, name) \<Rightarrow>
             if ns \<noteq> [] \<and> name \<noteq> [] then
               (case readSPOProfileCR env name ns of Inl e \<Rightarrow> annotationSyscalls env rest | Inr s \<Rightarrow> s)
             else {})
      else annotationSyscalls env rest)"

definition getSyscalls :: "sys_env \<Rightarrow> SySched \<Rightarrow> Pod \<Rightarrow> string set" where
  "getSyscalls env sc pod =
     (let r = contextSyscalls env (podSeccompProfile pod);
          r1 = fold (\<lambda>c r. r \<union> contextSyscalls env (ctrSeccompProfile c)) (podContainers pod) r;
          r2 = (case podAnnotations pod of None \<Rightarrow> r1 | Some m \<Rightarrow> r1 \<union> annotationSyscalls env (seRange env m))
      in if r2 = {} then
           (case readSPOProfileCR env (DefaultProfileName sc) (DefaultProfileNamespace sc) of Inl e \<Rightarrow> {} | Inr s \<Rightarrow> s)
         else r2)"

section \<open>Scores\<close>

definition calcScore :: "string set \<Rightarrow> int64" where
  "calcScore syscalls =
     (let totCrit = 0; W = 1; s = of_nat (card syscalls) - totCrit in s + W * totCrit)"

definition getHostSyscalls :: "SySched \<Rightarrow> string \<Rightarrow> nat \<times> string set option" where
  "getHostSyscalls sc node =
     (case map_of (HostSyscalls sc) node of None \<Rightarrow> (0, None) | Some h \<Rightarrow> (card h, Some h))"

definition podsOf :: "SySched \<Rightarrow> string \<Rightarrow> Pod list" where
  "podsOf sc node = (case map_of (HostToPods sc) node of None \<Rightarrow> [] | Some ps \<Rightarrow> ps)"

definition Score :: "sys_env \<Rightarrow> Pod \<Rightarrow> string \<Rightarrow> SySched \<Rightarrow> int64 \<times> SySched" where
  "Score env pod node sc =
     (if \<not> seNode env node then (0, sc)
      else
        (let podSyscalls = getSyscalls env sc pod
         in if podSyscalls = {} then (MaxInt64, sc)
            else (case snd (getHostSyscalls sc node) of
              None \<Rightarrow> (0, sc)
            | Some hostSyscalls \<Rightarrow>
                (let newHostSyscalls = hostSyscalls \<union> podSyscalls;
                     totalDiffs =
                       fold (\<lambda>p t. t + calcScore (newHostSyscalls - getSyscalls env sc p)) (podsOf sc node)
                         (calcScore (hostSyscalls - podSyscalls));
                     avg = fround 53 (ExSAvg sc + fdiv (fround 53 (f64 (sint totalDiffs) - ExSAvg sc)) (f64 (sint (ExSAvgCount sc))))
                 in (totalDiffs, sc\<lparr>ExSAvg := avg, ExSAvgCount := ExSAvgCount sc + 1\<rparr>)))))"

text \<open>\<^verbatim>\<open>helper.DefaultNormalizeScore(MaxNodeScore, true, scores)\<close>\<close>

definition maxCount :: "NodeScoreList \<Rightarrow> int64" where
  "maxCount scores = fold (\<lambda>ns h. if h <s nsScore ns then nsScore ns else h) scores 0"

definition NormalizeScore :: "NodeScoreList \<Rightarrow> NodeScoreList" where
  "NormalizeScore scores =
     (if maxCount scores = 0 then map (\<lambda>ns. ns\<lparr>nsScore := MaxNodeScore\<rparr>) scores
      else map (\<lambda>ns. ns\<lparr>nsScore := MaxNodeScore - int64_div (MaxNodeScore * nsScore ns) (maxCount scores)\<rparr>) scores)"

section \<open>Pods of a node\<close>

definition removeAt :: "Pod list \<Rightarrow> nat \<Rightarrow> Pod list" where
  "removeAt s i = (if s = [] then [] else butlast (s[i := last s]))"

definition updateHostSyscalls :: "sys_env \<Rightarrow> Pod \<Rightarrow> SySched \<Rightarrow> SySched" where
  "updateHostSyscalls env pod sc =
     (let old = (case map_of (HostSyscalls sc) (podNodeName pod) of None \<Rightarrow> {} | Some s \<Rightarrow> s)
      in sc\<lparr>HostSyscalls := AList.update (podNodeName pod) (old \<union> getSyscalls env sc pod) (HostSyscalls sc)\<rparr>)"

definition addPod :: "sys_env \<Rightarrow> Pod \<Rightarrow> SySched \<Rightarrow> SySched" where
  "addPod env pod sc =
     (let node = podNodeName pod
      in case map_of (HostToPods sc) node of
           None \<Rightarrow>
             updateHostSyscalls env pod
               (sc\<lparr>HostToPods := AList.update node [pod] (HostToPods sc),
                   HostSyscalls := AList.update node {} (HostSyscalls sc)\<rparr>)
         | Some ps \<Rightarrow>
             if list_ex (\<lambda>p. podName p = podName pod) ps then sc
             else updateHostSyscalls env pod (sc\<lparr>HostToPods := AList.update node (ps @ [pod]) (HostToPods sc)\<rparr>))"

definition recomputeHostSyscalls :: "sys_env \<Rightarrow> SySched \<Rightarrow> Pod list \<Rightarrow> string set" where
  "recomputeHostSyscalls env sc pods = fold (\<lambda>p syscalls. syscalls \<union> getSyscalls env sc p) pods {}"

definition removePod :: "sys_env \<Rightarrow> Pod \<Rightarrow> SySched \<Rightarrow> SySched" where
  "removePod env pod sc =
     (let node = podNodeName pod
      in case map_of (HostToPods sc) node of
           None \<Rightarrow> sc
         | Some ps \<Rightarrow>
             (case List.find (\<lambda>i. podName (ps ! i) = podName pod) [0..<length ps] of
                None \<Rightarrow> sc
              | Some i \<Rightarrow>
                  sc\<lparr>HostToPods := AList.update node (removeAt ps i) (HostToPods sc),
                     HostSyscalls := AList.update node (recomputeHostSyscalls env sc (removeAt ps i)) (HostSyscalls sc)\<rparr>))"

section \<open>Events\<close>

definition podAdded :: "sys_env \<Rightarrow> Pod \<Rightarrow> SySched \<Rightarrow> SySched" where
  "podAdded env pod sc = (if podPhase pod = PodRunning then addPod env pod sc else sc)"

definition podUpdated :: "sys_env \<Rightarrow> Pod \<Rightarrow> Pod \<Rightarrow> SySched \<Rightarrow> SySched" where
  "podUpdated env old new sc = (if podPhase old = PodPending \<and> podHostIP old \<noteq> '''' then addPod env old sc else sc)"

text \<open>What the informer hands to the deletion handler: the pod, or a tombstone for a pod whose deletion it missed, on which the type
  assertion of the handler panics.\<close>

datatype deleted_pod = DeletedPod Pod | DeletedFinalStateUnknown Pod

definition podDeleted :: "sys_env \<Rightarrow> deleted_pod \<Rightarrow> SySched \<Rightarrow> SySched option" where
  "podDeleted env obj sc = (case obj of DeletedPod pod \<Rightarrow> Some (removePod env pod sc) | DeletedFinalStateUnknown _ \<Rightarrow> None)"

definition New :: "string \<Rightarrow> string \<Rightarrow> SySched" where
  "New ns name = \<lparr>HostToPods = [], HostSyscalls = [], ExSAvg = 0, ExSAvgCount = 1,
     DefaultProfileNamespace = ns, DefaultProfileName = name\<rparr>"

end
