(* ===== verification/Sys_Sched_Properties.thy ===== *)
theory Sys_Sched_Properties
  imports Sys_Sched "HOL-Library.Multiset"
begin

text \<open>
  The account of the system call plugin is exact in every reachable state, and its scores prefer the
  nodes on which the pods together are exposed to the fewest system calls they do not need.
\<close>

section \<open>The account\<close>

lemma mset_removeAt:
  assumes "i < length ps"
  shows "mset (removeAt ps i) = mset ps - {#ps ! i#}"
proof -
  have b: "mset (butlast xs) = mset xs - {#last xs#}" if "xs \<noteq> []" for xs :: "Pod list"
    using that by (cases xs rule: rev_cases) auto
  have "last (ps[i := last ps]) = last ps" using assms by (cases "ps = []") (auto simp: last_conv_nth nth_list_update)
  then have "mset (removeAt ps i) = mset (ps[i := last ps]) - {#last ps#}"
    using assms b [of "ps[i := last ps]"] by (auto simp: removeAt_def)
  also have "\<dots> = mset ps - {#ps ! i#}" using assms by (simp add: mset_update)
  finally show ?thesis .
qed

lemma distinct_submset:
  assumes "distinct xs" "mset ys \<subseteq># mset xs"
  shows "distinct ys"
proof -
  obtain zs where "mset xs = mset (ys @ zs)"
    using assms(2) by (metis ex_mset mset_append mset_subset_eq_exists_conv)
  then have "distinct (ys @ zs)" using assms(1) mset_eq_imp_distinct_iff by blast
  then show ?thesis by simp
qed

lemma recompute_union: "recomputeHostSyscalls env sc ps = (\<Union>p \<in> set ps. getSyscalls env sc p)"
proof -
  have "fold (\<lambda>p s. s \<union> f p) ps a = a \<union> (\<Union>p \<in> set ps. f p)" for f :: "Pod \<Rightarrow> string set" and a
    by (induction ps arbitrary: a) auto
  then show ?thesis by (simp add: recomputeHostSyscalls_def)
qed

text \<open>The calls recorded for a node are those of its pods, which have different names. \<open>g\<close> gives the calls of a pod.\<close>

definition sys_ok :: "(Pod \<Rightarrow> string set) \<Rightarrow> SySched \<Rightarrow> bool" where
  "sys_ok g sc \<longleftrightarrow>
     (\<forall>n. map_of (HostSyscalls sc) n = map_option (\<lambda>ps. \<Union>p \<in> set ps. g p) (map_of (HostToPods sc) n)) \<and>
     (\<forall>n ps. map_of (HostToPods sc) n = Some ps \<longrightarrow> distinct (map podName ps) \<and> (\<forall>p \<in> set ps. podNodeName p = n))"

text \<open>
  The profiles read in an environment are stable when every call sees the same calls for a pod, which
  depend on the state only by the name of the default profile.
\<close>

definition reads :: "sys_env \<Rightarrow> SySched \<Rightarrow> (Pod \<Rightarrow> string set) \<Rightarrow> bool" where
  "reads env sc g \<longleftrightarrow> getSyscalls env sc = g"

lemma getSyscalls_cong:
  "DefaultProfileName sc = DefaultProfileName sc' \<Longrightarrow> DefaultProfileNamespace sc = DefaultProfileNamespace sc' \<Longrightarrow>
   getSyscalls env sc = getSyscalls env sc'"
  by (rule ext) (simp add: getSyscalls_def Let_def)

inductive sys_step :: "(Pod \<Rightarrow> string set) \<Rightarrow> SySched \<Rightarrow> SySched \<Rightarrow> bool" for g where
  added: "reads env sc g \<Longrightarrow> sys_step g sc (podAdded env pod sc)"
| updated: "reads env sc g \<Longrightarrow> sys_step g sc (podUpdated env old new sc)"
| deleted: "reads env sc g \<Longrightarrow> podDeleted env obj sc = Some sc' \<Longrightarrow> sys_step g sc sc'"
| scored: "reads env sc g \<Longrightarrow> sys_step g sc (snd (Score env pod node sc))"

lemma addPod_ok:
  assumes "sys_ok g sc" "reads env sc g"
  shows "sys_ok g (addPod env pod sc)"
proof -
  have g: "getSyscalls env (sc\<lparr>HostToPods := a\<rparr>) = g" "getSyscalls env (sc\<lparr>HostToPods := a, HostSyscalls := b\<rparr>) = g" for a b
    using assms(2) getSyscalls_cong [of sc "sc\<lparr>HostToPods := a\<rparr>"] getSyscalls_cong [of sc "sc\<lparr>HostToPods := a, HostSyscalls := b\<rparr>"]
    by (simp_all add: reads_def)
  show ?thesis
    using assms(1)
    by (auto simp: addPod_def updateHostSyscalls_def Let_def g sys_ok_def list_ex_iff split: option.splits if_splits)
qed

lemma removePod_ok:
  assumes "sys_ok g sc" "reads env sc g"
  shows "sys_ok g (removePod env pod sc)"
proof (cases "map_of (HostToPods sc) (podNodeName pod)")
  case (Some ps)
  show ?thesis
  proof (cases "List.find (\<lambda>i. podName (ps ! i) = podName pod) [0..<length ps]")
    case (Some i)
    let ?qs = "removeAt ps i"
    have "i < length ps" using Some by (auto simp: find_Some_iff)
    then have m: "mset ?qs \<subseteq># mset ps" by (simp add: mset_removeAt)
    have d: "distinct (map podName ps)" "\<forall>p \<in> set ps. podNodeName p = podNodeName pod"
      using assms(1) \<open>map_of (HostToPods sc) (podNodeName pod) = Some ps\<close> by (auto simp: sys_ok_def)
    have "mset (map podName ?qs) \<subseteq># mset (map podName ps)" using m by (simp add: image_mset_subseteq_mono)
    then have "distinct (map podName ?qs)" "set ?qs \<subseteq> set ps"
      using distinct_submset [OF d(1)] set_mset_mono [OF m] by auto
    then show ?thesis
      using assms \<open>map_of (HostToPods sc) (podNodeName pod) = Some ps\<close> Some d(2)
      by (auto simp: removePod_def sys_ok_def recompute_union reads_def Let_def)
  qed (use assms Some in \<open>simp add: removePod_def\<close>)
qed (use assms in \<open>simp add: removePod_def\<close>)

lemma Score_keeps: "sys_ok g (snd (Score env pod node sc)) = sys_ok g sc"
  by (auto simp: Score_def Let_def sys_ok_def split: option.splits)

lemma sys_step_ok: "sys_step g sc sc' \<Longrightarrow> sys_ok g sc \<Longrightarrow> sys_ok g sc'"
  by (induction rule: sys_step.induct)
    (auto simp: podAdded_def podUpdated_def podDeleted_def addPod_ok removePod_ok Score_keeps split: deleted_pod.splits)

lemma reachable_sys_ok:
  assumes "(sys_step g)\<^sup>*\<^sup>* (New ns name) sc"
  shows "sys_ok g sc"
  using assms
proof (induction rule: rtranclp_induct)
  case base
  then show ?case by (simp add: sys_ok_def New_def)
next
  case (step sc sc')
  then show ?case by (blast intro: sys_step_ok)
qed

section \<open>Exposure\<close>

text \<open>The system calls that pods sharing a node can reach and do not need, added up over the pods.\<close>

definition exposure :: "(Pod \<Rightarrow> string set) \<Rightarrow> Pod list \<Rightarrow> nat" where
  "exposure g ps = sum_list (map (\<lambda>q. card ((\<Union>p \<in> set ps. g p) - g q)) ps)"

lemma Score_exposure:
  assumes "sys_ok g sc" "reads env sc g" "seNode env node" "g pod \<noteq> {}"
  shows "fst (Score env pod node sc) = of_nat (exposure g (pod # podsOf sc node))"
proof (cases "map_of (HostToPods sc) node")
  case None
  then have "map_of (HostSyscalls sc) node = None" using assms(1) by (simp add: sys_ok_def)
  then show ?thesis using assms None by (simp add: Score_def reads_def Let_def getHostSyscalls_def podsOf_def exposure_def)
next
  case (Some ps)
  let ?H = "\<Union>p \<in> set ps. g p"
  have h: "map_of (HostSyscalls sc) node = Some ?H" using assms(1) Some by (simp add: sys_ok_def)
  have f: "fold (\<lambda>p t. t + c p) qs (t0 :: int64) = t0 + sum_list (map c qs)" for c qs t0
    by (induction qs arbitrary: t0) (simp_all add: add.assoc)
  have s: "sum_list (map (\<lambda>q. of_nat (c q)) qs) = (of_nat (sum_list (map c qs)) :: int64)" for c and qs :: "Pod list"
    by (induction qs) simp_all
  have "?H - g pod = (g pod \<union> ?H) - g pod" by blast
  then show ?thesis
    using assms Some h
    by (simp add: Score_def reads_def Let_def getHostSyscalls_def podsOf_def exposure_def f calcScore_def Un_commute s)
qed


section \<open>Normalisation\<close>

text \<open>Raw scores for which the multiplication by the maximal score does not overflow.\<close>

definition counts_ok :: "NodeScoreList \<Rightarrow> bool" where
  "counts_ok ss \<longleftrightarrow> (\<forall>ns \<in> set ss. 0 \<le> score ns \<and> score ns \<le> 92233720368547758)"

definition inverted_count :: "NodeScoreList \<Rightarrow> int \<Rightarrow> int" where
  "inverted_count ss x = (if maxCount ss = 0 then 100 else 100 - 100 * x div sint (maxCount ss))"

lemma maxCount_bounds:
  assumes "counts_ok ss"
  shows "0 \<le> sint (maxCount ss)" "ns \<in> set ss \<Longrightarrow> score ns \<le> sint (maxCount ss)" "maxCount ss \<noteq> 0 \<Longrightarrow> 0 < sint (maxCount ss)"
proof -
  show m: "0 \<le> sint (maxCount ss)" "ns \<in> set ss \<Longrightarrow> score ns \<le> sint (maxCount ss)"
    using score_fold_max [of 0 ss] by (auto simp: maxCount_def)
  show "maxCount ss \<noteq> 0 \<Longrightarrow> 0 < sint (maxCount ss)"
    using m(1) sint_inject [of "maxCount ss" 0] by fastforce
qed

lemma NormalizeCount_entry:
  assumes "counts_ok ss" "ns \<in> set ss" "maxCount ss \<noteq> 0"
  shows "sint (MaxNodeScore - int64_div (MaxNodeScore * nsScore ns) (maxCount ss)) = 100 - 100 * score ns div sint (maxCount ss)"
    "0 \<le> 100 * score ns div sint (maxCount ss)" "100 * score ns div sint (maxCount ss) \<le> 100"
proof -
  note b = maxCount_bounds(2) [OF assms(1,2)] maxCount_bounds(3) [OF assms(1,3)]
  have s: "0 \<le> score ns" "score ns \<le> 92233720368547758" using assms(1,2) by (auto simp: counts_ok_def)
  show q: "0 \<le> 100 * score ns div sint (maxCount ss)" using s b by (simp add: pos_imp_zdiv_nonneg_iff)
  have "100 * score ns div sint (maxCount ss) \<le> 100 * sint (maxCount ss) div sint (maxCount ss)"
    using b by (intro zdiv_mono1) auto
  then show r: "100 * score ns div sint (maxCount ss) \<le> 100" using b by simp
  have m: "sint (MaxNodeScore * nsScore ns) = 100 * score ns"
    using s by (subst sint_mult64) (auto simp: MaxNodeScore_def score_def int64_range_def)
  have d: "sint (int64_div (MaxNodeScore * nsScore ns) (maxCount ss)) = 100 * score ns div sint (maxCount ss)"
    using s b q r unfolding int64_div_def m
    by (subst sint_word_of_int64) (auto simp: signed_divide_int_def int64_range_def sgn_if)
  show "sint (MaxNodeScore - int64_div (MaxNodeScore * nsScore ns) (maxCount ss)) = 100 - 100 * score ns div sint (maxCount ss)"
    using q r d by (subst sint_sub64) (auto simp: MaxNodeScore_def int64_range_def)
qed

interpretation sys_counts: score_inverter NormalizeScore inverted_count counts_ok
proof
  fix ss ns ms
  show "map nsName (NormalizeScore ss) = map nsName ss" by (simp add: NormalizeScore_def comp_def)
  assume ok: "counts_ok ss"
  show "map score (NormalizeScore ss) = map (inverted_count ss \<circ> score) ss"
    using NormalizeCount_entry(1) [OF ok] by (auto simp: NormalizeScore_def inverted_count_def MaxNodeScore_def)
  assume ns: "ns \<in> set ss"
  then show "0 \<le> inverted_count ss (score ns) \<and> inverted_count ss (score ns) \<le> 100"
    using NormalizeCount_entry(2,3) [OF ok ns] by (auto simp: inverted_count_def)
  assume "ms \<in> set ss" "score ns \<le> score ms"
  then show "inverted_count ss (score ms) \<le> inverted_count ss (score ns)"
    using maxCount_bounds(3) [OF ok] by (auto simp: inverted_count_def intro!: zdiv_mono1)
qed

text \<open>
  C38. In every state the plugin can reach while the profiles of pods do not change, the calls recorded for a node are
  exactly those of the pods recorded there, and after scoring and normalising the
  nodes for a pod with a profile, a node on which all pods together would be exposed to fewer system calls they do
  not need is rated at least as high as one with more; ratings are between 0 and 100.
\<close>

theorem sysched_prefers_less_exposure:
  assumes "(sys_step g)\<^sup>*\<^sup>* (New ns name) sc" "reads env sc g" "g pod \<noteq> {}"
    and "\<forall>n \<in> set nodes. seNode env n \<and> exposure g (pod # podsOf sc n) \<le> 92233720368547758"
    and "i < length nodes" "j < length nodes"
  defines "rated \<equiv> NormalizeScore (map (\<lambda>n. \<lparr>nsName = n, nsScore = fst (Score env pod n sc)\<rparr>) nodes)"
  shows "(map_of (HostSyscalls sc) n = map_option (\<lambda>ps. \<Union>p \<in> set ps. g p) (map_of (HostToPods sc) n)) \<and>
    distinct (map podName (podsOf sc n)) \<and>
    0 \<le> score (rated ! i) \<and> score (rated ! i) \<le> 100 \<and>
    (exposure g (pod # podsOf sc (nodes ! i)) \<le> exposure g (pod # podsOf sc (nodes ! j)) \<longrightarrow>
       score (rated ! j) \<le> score (rated ! i))"
proof -
  let ?raw = "map (\<lambda>n. \<lparr>nsName = n, nsScore = fst (Score env pod n sc)\<rparr>) nodes"
  have ok: "sys_ok g sc" using assms(1) by (rule reachable_sys_ok)
  have e: "score (?raw ! k) = int (exposure g (pod # podsOf sc (nodes ! k)))" if "k < length nodes" for k
  proof -
    have n: "seNode env (nodes ! k)" "exposure g (pod # podsOf sc (nodes ! k)) \<le> 92233720368547758"
      using assms(4) that by simp_all
    then have "exposure g (pod # podsOf sc (nodes ! k)) < 2 ^ 63" by simp
    then show ?thesis using that Score_exposure [OF ok assms(2) n(1) assms(3)] by (simp add: score_def sint_of_nat64)
  qed
  have le: "int (exposure g (pod # podsOf sc (nodes ! k))) \<le> 92233720368547758" if "k < length nodes" for k
    using assms(4) that by (metis nth_mem of_nat_le_iff of_nat_numeral)
  have "counts_ok ?raw" unfolding counts_ok_def
  proof
    fix ns assume "ns \<in> set ?raw"
    then obtain k where "k < length nodes" "ns = ?raw ! k" unfolding in_set_conv_nth length_map by blast
    then show "0 \<le> score ns \<and> score ns \<le> 92233720368547758" using e [of k] le [of k] by (simp del: nth_map)
  qed
  note adm = this
  have "0 \<le> score (rated ! i) \<and> score (rated ! i) \<le> 100"
    unfolding rated_def using assms(5) by (intro sys_counts.normalize_range [OF adm] nth_mem) (simp add: sys_counts.length_normalize)
  moreover have "score (rated ! j) \<le> score (rated ! i)"
    if "exposure g (pod # podsOf sc (nodes ! i)) \<le> exposure g (pod # podsOf sc (nodes ! j))"
    unfolding rated_def using that assms(5,6) by (intro sys_counts.normalize_antimono [OF adm]) (simp_all add: e del: nth_map)
  ultimately show ?thesis using ok by (auto simp: sys_ok_def podsOf_def split: option.splits)
qed


definition ex_profiles :: sys_env where
  "ex_profiles = \<lparr>seProfile = (\<lambda>ns name. Inr [(''SCMP_ACT_ALLOW'', if name = ''small'' then [''read''] else [''read'', ''mount''])]),
     seNode = (\<lambda>_. True), seRange = (\<lambda>m. m)\<rparr>"

definition ex_confined :: "string \<Rightarrow> string \<Rightarrow> string \<Rightarrow> Pod" where
  "ex_confined name node profile = zero_pod\<lparr>podName := name, podNodeName := node, podPhase := PodRunning,
     podSeccompProfile := Some \<lparr>seccompType = ''Localhost'', seccompLocalhostProfile = Some (''operator/d/'' @ profile @ ''.json'')\<rparr>\<rparr>"

text \<open>A node with a pod that needs two calls and one with a pod that needs a single call.\<close>

definition ex_sys_state :: SySched where
  "ex_sys_state = podAdded ex_profiles (ex_confined ''q'' ''n2'' ''small'')
     (podAdded ex_profiles (ex_confined ''p'' ''n1'' ''large'') (New ''d'' ''all''))"


lemma ex_sys_reachable: "(sys_step (getSyscalls ex_profiles (New ''d'' ''all'')))\<^sup>*\<^sup>* (New ''d'' ''all'') ex_sys_state"
proof -
  let ?g = "getSyscalls ex_profiles (New ''d'' ''all'')" and ?s1 = "podAdded ex_profiles (ex_confined ''p'' ''n1'' ''large'') (New ''d'' ''all'')"
  have n: "DefaultProfileName ?s1 = ''all''" "DefaultProfileNamespace ?s1 = ''d''"
    by (simp_all add: podAdded_def addPod_def updateHostSyscalls_def Let_def New_def)
  have "reads ex_profiles ?s1 ?g" unfolding reads_def by (rule getSyscalls_cong) (simp_all add: n, simp_all add: New_def)
  then have "sys_step ?g ?s1 ex_sys_state" unfolding ex_sys_state_def by (rule sys_step.added)
  moreover have "sys_step ?g (New ''d'' ''all'') ?s1" by (rule sys_step.added) (simp add: reads_def)
  ultimately show ?thesis by (rule converse_rtranclp_into_rtranclp [rotated, OF r_into_rtranclp])
qed

theorem sysched_prefers_less_exposure_witness:
  "let raw = map (\<lambda>n. \<lparr>nsName = n, nsScore = fst (Score ex_profiles (ex_confined ''x'' '''' ''small'') n ex_sys_state)\<rparr>) [''n2'', ''n1'']
   in map score raw = [0, 1] \<and> score (NormalizeScore raw ! 1) \<le> score (NormalizeScore raw ! 0)"
proof -
  let ?g = "getSyscalls ex_profiles (New ''d'' ''all'')" and ?x = "ex_confined ''x'' '''' ''small''"
  have c: "map (\<lambda>n. exposure ?g (?x # podsOf ex_sys_state n)) [''n2'', ''n1''] = [0, 1] \<and> ?g ?x \<noteq> {} \<and>
      DefaultProfileName ex_sys_state = ''all'' \<and> DefaultProfileNamespace ex_sys_state = ''d''" by code_simp
  have "reads ex_profiles ex_sys_state ?g"
    unfolding reads_def by (rule getSyscalls_cong) (use c in \<open>simp_all add: New_def\<close>)
  note p = sysched_prefers_less_exposure [OF ex_sys_reachable this, where pod = ?x and nodes = "[''n2'', ''n1'']" and i = 0 and j = 1]
  have r: "map score (map (\<lambda>n. \<lparr>nsName = n, nsScore = fst (Score ex_profiles ?x n ex_sys_state)\<rparr>) [''n2'', ''n1'']) = [0, 1]" by code_simp
  have "seNode ex_profiles n" for n by (simp add: ex_profiles_def)
  with p c r show ?thesis by (simp add: Let_def)
qed

section \<open>Findings\<close>

text \<open>The annotations of a pod are not merged, as a comment promises: the first one the map yields decides.\<close>

theorem annotations_not_merged:
  "getSyscalls ex_profiles (New ''d'' ''all'') (zero_pod\<lparr>podAnnotations := Some
     [(''seccomp.security.alpha.kubernetes.io/a'', ''d/small.json''), (''seccomp.security.alpha.kubernetes.io/b'', ''d/large.json'')]\<rparr>) = {''read''} \<and>
   getSyscalls ex_profiles (New ''d'' ''all'') (zero_pod\<lparr>podAnnotations := Some
     [(''seccomp.security.alpha.kubernetes.io/b'', ''d/large.json''), (''seccomp.security.alpha.kubernetes.io/a'', ''d/small.json'')]\<rparr>) = {''read'', ''mount''}"
  by code_simp

text \<open>Pods are told apart by name only: a pod of another namespace with the same name is not recorded, and its deletion
  removes the other one.\<close>

theorem pods_confused_by_name:
  assumes "podName q = podName p" "podNodeName q = podNodeName p" "map_of (HostToPods sc) (podNodeName p) = None"
  shows "addPod env q (addPod env p sc) = addPod env p sc" "podsOf (removePod env q (addPod env p sc)) (podNodeName p) = []"
  using assms by (simp_all add: addPod_def removePod_def updateHostSyscalls_def Let_def podsOf_def removeAt_def)

text \<open>The largest score, which a pod without a profile gets on every node, wraps around and becomes the best rating.\<close>

theorem unconfined_rated_best: "map score (NormalizeScore [\<lparr>nsName = n, nsScore = MaxInt64\<rparr>]) = [100]"
  by (simp add: NormalizeScore_def maxCount_def MaxInt64_def MaxNodeScore_def word_sless_alt int64_div_def signed_divide_int_def score_def)

text \<open>The informer's tombstone for a pod whose deletion was missed panics the scheduler.\<close>

lemma sysched_tombstone_panics: "podDeleted env (DeletedFinalStateUnknown pod) sc = None"
  by (simp add: podDeleted_def)

end
