(* ===== verification/Node_Resources.thy ===== *)
theory Node_Resources
  imports Resources Pod_State
begin

text \<open>
  \<^verbatim>\<open>scheduler-plugins/pkg/noderesources\<close>: nodes are scored by the weighted sum of their allocatable resources,
  negated when small nodes are preferred. \<open>None\<close> is the panic of a division by zero. Which names denote scalar
  resources (\<^verbatim>\<open>IsScalarResourceName\<close>) is the parameter \<open>isScalar\<close>.
\<close>

section \<open>Requests of a pod\<close>

definition DefaultMilliCPURequest :: int64 where "DefaultMilliCPURequest = 100"
definition DefaultMemoryRequest :: int64 where "DefaultMemoryRequest = 200 * 1024 * 1024"

text \<open>\<^verbatim>\<open>schedutil.GetRequestForResource\<close> with defaults for what is not set.\<close>

definition GetRequestForResource :: "string \<Rightarrow> ResourceList \<Rightarrow> Quantity" where
  "GetRequestForResource name requests =
     (if name = ''cpu'' \<and> map_of requests ''cpu'' = None then NewMilliQuantity DefaultMilliCPURequest
      else if name = ''memory'' \<and> map_of requests ''memory'' = None then NewQuantity DefaultMemoryRequest
      else quantityOf requests name)"

definition calculatePodResourceRequest :: "Pod \<Rightarrow> string \<Rightarrow> int64" where
  "calculatePodResourceRequest pod res =
     (let r1 = fold (\<lambda>c r. r + QValue (GetRequestForResource res (ctrRequests c))) (podContainers pod) 0;
          r2 = fold (\<lambda>c r. let v = QValue (GetRequestForResource res (ctrRequests c)) in if r <s v then v else r)
                 (podInitContainers pod) r1
      in case podOverhead pod of
           None \<Rightarrow> r2
         | Some ov \<Rightarrow> (case map_of ov res of None \<Rightarrow> r2 | Some q \<Rightarrow> r2 + QValue q))"

section \<open>Scores\<close>

record NodeInfo =
  niAllocatable :: Resource
  niRequested :: Resource
  niNonZeroRequested :: Resource

definition calculateResourceAllocatableRequest ::
    "(string \<Rightarrow> bool) \<Rightarrow> NodeInfo \<Rightarrow> Pod \<Rightarrow> string \<Rightarrow> int64 \<times> int64" where
  "calculateResourceAllocatableRequest isScalar ni pod res =
     (let podRequest = calculatePodResourceRequest pod res
      in if res = ''cpu'' then (rMilliCPU (niAllocatable ni), rMilliCPU (niNonZeroRequested ni) + podRequest)
         else if res = ''memory'' then (rMemory (niAllocatable ni), rMemory (niNonZeroRequested ni) + podRequest)
         else if res = ''ephemeral-storage'' then
           (rEphemeralStorage (niAllocatable ni), rEphemeralStorage (niRequested ni) + podRequest)
         else if isScalar res then (scalar (niAllocatable ni) res, scalar (niRequested ni) res + podRequest)
         else (0, 0))"

definition modeScore :: "int64 \<Rightarrow> string \<Rightarrow> int64" where
  "modeScore capacity mode = (if mode = ''Least'' then - 1 * capacity else if mode = ''Most'' then capacity else 0)"

definition resourceScorer ::
    "(string, int64) gomap \<Rightarrow> string \<Rightarrow> (string \<Rightarrow> int64) \<Rightarrow> int64 option" where
  "resourceScorer resToWeightMap mode allocable =
     (case fold (\<lambda>(res, weight) (nodeScore, weightSum).
             (nodeScore + modeScore (allocable res) mode * weight, weightSum + weight)) resToWeightMap (0, 0) of
        (nodeScore, weightSum) \<Rightarrow> if weightSum = 0 then None else Some (int64_div nodeScore weightSum))"

record Allocatable =
  alWeights :: "(string, int64) gomap"
  alMode :: string

text \<open>The scorer reads the allocatable amounts only. \<open>Some (Inl c)\<close> is an error status.\<close>

definition allocationScore :: "(string \<Rightarrow> bool) \<Rightarrow> Allocatable \<Rightarrow> Pod \<Rightarrow> NodeInfo \<Rightarrow> int64 option" where
  "allocationScore isScalar alloc pod ni =
     (let amounts = (\<lambda>res. calculateResourceAllocatableRequest isScalar ni pod res)
      in resourceScorer (alWeights alloc) (alMode alloc) (\<lambda>res. fst (amounts res)))"

definition Score ::
    "(string \<Rightarrow> bool) \<Rightarrow> (string \<Rightarrow> NodeInfo option) \<Rightarrow> Allocatable \<Rightarrow> Pod \<Rightarrow> string \<Rightarrow> (Code + int64) option" where
  "Score isScalar nodeInfos alloc pod node =
     (case nodeInfos node of
        None \<Rightarrow> Some (Inl Error)
      | Some ni \<Rightarrow> map_option Inr (allocationScore isScalar alloc pod ni))"

definition NormalizeScore :: "NodeScoreList \<Rightarrow> NodeScoreList" where
  "NormalizeScore scores =
     (let (highest, lowest) =
            fold (\<lambda>ns (h, l). (if h <s nsScore ns then nsScore ns else h, if nsScore ns <s l then nsScore ns else l))
              scores (- MaxInt64, MaxInt64);
          oldRange = highest - lowest;
          newRange = MaxNodeScore - MinNodeScore
      in map (\<lambda>ns. ns\<lparr>nsScore :=
           (if oldRange = 0 then MinNodeScore
            else int64_div ((nsScore ns - lowest) * newRange) oldRange + MinNodeScore)\<rparr>) scores)"

section \<open>Configuration\<close>

definition validateResources :: "(string \<times> int64) list \<Rightarrow> bool" where
  "validateResources resources = list_all (\<lambda>(name, weight). \<not> weight \<le>s 0) resources"

definition defaultResourcesToWeightMap :: "(string, int64) gomap" where
  "defaultResourcesToWeightMap = [(''memory'', 1), (''cpu'', push_bit 20 1)]"

text \<open>The arguments are a mode, possibly empty, and resources with weights; \<open>None\<close> is an error.\<close>

definition NewAllocatable :: "(string \<times> (string \<times> int64) list) option \<Rightarrow> Allocatable option" where
  "NewAllocatable args =
     (case args of
        None \<Rightarrow> Some \<lparr>alWeights = defaultResourcesToWeightMap, alMode = ''Least''\<rparr>
      | Some (mode, resources) \<Rightarrow>
          if mode \<noteq> '''' \<and> mode \<noteq> ''Least'' \<and> mode \<noteq> ''Most'' then None
          else if resources \<noteq> [] \<and> \<not> validateResources resources then None
          else Some \<lparr>alWeights =
                      (if resources = [] then defaultResourcesToWeightMap
                       else fold (\<lambda>(name, weight). AList.update name weight) resources []),
                     alMode = (if mode = '''' then ''Least'' else mode)\<rparr>)"


section \<open>Ratings\<close>

text \<open>The algorithm of normalisation is the one of the pod state plugin.\<close>

lemma NormalizeScore_same: "NormalizeScore = Pod_State.NormalizeScore"
  by (rule ext) (simp add: NormalizeScore_def Pod_State.NormalizeScore_def scoreRange_def Let_def split_beta)

interpretation allocatable: score_normalizer NormalizeScore percent_of_spread spread_ok
  unfolding NormalizeScore_same by (rule pod_state.score_normalizer_axioms)

definition allocatableOf :: "(string \<Rightarrow> bool) \<Rightarrow> NodeInfo \<Rightarrow> string \<Rightarrow> int64" where
  "allocatableOf isScalar ni res = fst (calculateResourceAllocatableRequest isScalar ni zero_pod res)"

lemma allocatable_fst: "fst (calculateResourceAllocatableRequest isScalar ni pod res) = allocatableOf isScalar ni res"
  by (simp add: allocatableOf_def calculateResourceAllocatableRequest_def Let_def)

text \<open>The weighted sum of the allocatable resources, and the sum of the weights, over the integers.\<close>

definition weighted :: "(string, int64) gomap \<Rightarrow> (string \<Rightarrow> int64) \<Rightarrow> int" where
  "weighted ws cap = sum_list (map (\<lambda>(res, w). sint (cap res) * sint w) ws)"

definition total_weight :: "(string, int64) gomap \<Rightarrow> int" where
  "total_weight ws = sum_list (map (\<lambda>(res, w). sint w) ws)"

definition weights_ok :: "(string, int64) gomap \<Rightarrow> bool" where
  "weights_ok ws \<longleftrightarrow> ws \<noteq> [] \<and> list_all (\<lambda>(res, w). 0 < sint w) ws \<and> total_weight ws < 2 ^ 63"

definition capacity_ok :: "(string, int64) gomap \<Rightarrow> (string \<Rightarrow> int64) \<Rightarrow> bool" where
  "capacity_ok ws cap \<longleftrightarrow> (\<forall>res. 0 \<le> sint (cap res)) \<and> weighted ws cap < 2 ^ 63 \<and> weighted ws cap div total_weight ws \<le> 2 ^ 55"

lemma scorer_fold:
  "fold (\<lambda>(res, weight) (a, b). (a + f res * weight, b + weight)) ws (a0, b0 :: int64) =
   (a0 + word_of_int (weighted ws f), b0 + word_of_int (total_weight ws))"
  by (induction ws arbitrary: a0 b0) (auto simp: weighted_def total_weight_def algebra_simps)

lemma weighted_minus: "weighted ws (\<lambda>r. - 1 * f r) = - weighted ws f" if "\<forall>res. 0 \<le> sint (f res)" for f :: "string \<Rightarrow> int64"
proof -
  have "sint (- f r) = - sint (f r)" for r
    using sint_sub64 [of 0 "f r"] spec [OF that, of r] int64_range_sint [of "f r"] by (simp add: int64_range_def)
  then show ?thesis by (induction ws) (auto simp: weighted_def)
qed

lemma total_weight_pos: "weights_ok ws \<Longrightarrow> 0 < total_weight ws"
proof -
  assume ok: "weights_ok ws"
  have "0 \<le> total_weight vs" if "list_all (\<lambda>(res, w). 0 < sint w) vs" for vs
    using that by (induction vs) (auto simp: total_weight_def)
  moreover obtain r w vs where "ws = (r, w) # vs" using ok by (cases ws) (auto simp: weights_ok_def)
  ultimately show ?thesis using ok by (fastforce simp: weights_ok_def total_weight_def)
qed

lemma weighted_nonneg: "weights_ok ws \<Longrightarrow> \<forall>res. 0 \<le> sint (cap res) \<Longrightarrow> 0 \<le> weighted ws cap"
  unfolding weighted_def weights_ok_def by (intro sum_list_nonneg) (auto simp: list_all_iff intro!: mult_nonneg_nonneg intro: less_imp_le)

lemma scorer_value:
  assumes w: "weights_ok ws" and c: "capacity_ok ws cap"
  shows "\<exists>s. resourceScorer ws ''Most'' cap = Some s \<and> sint s = weighted ws cap div total_weight ws"
    "\<exists>s. resourceScorer ws ''Least'' cap = Some s \<and> sint s = - (weighted ws cap div total_weight ws)"
proof -
  have nn: "\<forall>res. 0 \<le> sint (cap res)" using c by (simp add: capacity_ok_def)
  note p = total_weight_pos [OF w] weighted_nonneg [OF w nn]
  have t: "sint (word_of_int (total_weight ws) :: int64) = total_weight ws"
    using p w by (intro sint_word_of_int64) (simp add: int64_range_def weights_ok_def)
  then have nz: "word_of_int (total_weight ws) \<noteq> (0 :: int64)" using p by auto
  have "weighted ws cap < 2 ^ 63" using c by (simp add: capacity_ok_def)
  then have s: "sint (word_of_int (weighted ws cap) :: int64) = weighted ws cap" "sint (word_of_int (- weighted ws cap) :: int64) = - weighted ws cap"
    using p by (intro sint_word_of_int64; simp add: int64_range_def)+
  have d: "(- weighted ws cap) sdiv total_weight ws = - (weighted ws cap div total_weight ws)"
    using p by (auto simp: signed_divide_int_def sgn_if)
  have r: "int64_range (- (weighted ws cap div total_weight ws))"
  proof -
    have "0 \<le> weighted ws cap div total_weight ws" using p by (simp add: pos_imp_zdiv_nonneg_iff)
    then show ?thesis using c by (simp add: int64_range_def capacity_ok_def)
  qed
  have "sint (int64_div (word_of_int (- weighted ws cap)) (word_of_int (total_weight ws))) = - (weighted ws cap div total_weight ws)"
    unfolding int64_div_def s t d using r by (rule sint_word_of_int64)
  moreover have "(\<lambda>r. modeScore (cap r) ''Least'') = (\<lambda>r. - 1 * cap r)" "(\<lambda>r. modeScore (cap r) ''Most'') = cap"
    by (auto simp: modeScore_def)
  ultimately show "\<exists>s. resourceScorer ws ''Least'' cap = Some s \<and> sint s = - (weighted ws cap div total_weight ws)"
      "\<exists>s. resourceScorer ws ''Most'' cap = Some s \<and> sint s = weighted ws cap div total_weight ws"
    using nz p s(1) t scorer_fold [of "\<lambda>r. modeScore (cap r) ''Least''" ws 0 0] scorer_fold [of "\<lambda>r. modeScore (cap r) ''Most''" ws 0 0]
      weighted_minus [OF nn, of ws]
    by (simp_all add: resourceScorer_def sint_int64_div_nonneg)
qed


text \<open>
  The nodes are rated by their weighted allocatable resources: in mode Most a node with no less of them is rated
  no lower, in mode Least no higher.
\<close>

theorem allocatable_rating_order:
  assumes "weights_ok (alWeights alloc)" "alMode alloc = ''Most'' \<or> alMode alloc = ''Least''"
    and "\<forall>node \<in> set nodes. \<exists>ni. nodeInfos node = Some ni \<and> capacity_ok (alWeights alloc) (allocatableOf isScalar ni)"
    and "i < length nodes" "j < length nodes" "nodeInfos (nodes ! i) = Some ni" "nodeInfos (nodes ! j) = Some nj"
    and le: "weighted (alWeights alloc) (allocatableOf isScalar ni) \<le> weighted (alWeights alloc) (allocatableOf isScalar nj)"
    and raw: "\<forall>k < length nodes. nsName (raw ! k) = nodes ! k \<and>
      Score isScalar nodeInfos alloc pod (nodes ! k) = Some (Inr (nsScore (raw ! k)))" "length raw = length nodes"
  shows "if alMode alloc = ''Most'' then score (NormalizeScore raw ! i) \<le> score (NormalizeScore raw ! j)
    else score (NormalizeScore raw ! j) \<le> score (NormalizeScore raw ! i)"
proof -
  let ?ws = "alWeights alloc"
  let ?q = "\<lambda>ni. weighted ?ws (allocatableOf isScalar ni) div total_weight ?ws"
  note tw = total_weight_pos [OF assms(1)]
  have sc: "score (raw ! k) = (if alMode alloc = ''Most'' then ?q ni else - ?q ni) \<and> 0 \<le> ?q ni \<and> ?q ni \<le> 2 ^ 55"
    if k: "k < length nodes" "nodeInfos (nodes ! k) = Some ni" for k ni
  proof -
    have c: "capacity_ok ?ws (allocatableOf isScalar ni)" using assms(3) k by (metis nth_mem option.inject)
    have "resourceScorer ?ws (alMode alloc) (allocatableOf isScalar ni) = Some (nsScore (raw ! k))"
      using raw(1) k by (auto simp: Score_def allocationScore_def allocatable_fst)
    moreover have "0 \<le> ?q ni" "?q ni \<le> 2 ^ 55"
      using c tw weighted_nonneg [OF assms(1)] by (auto simp: capacity_ok_def pos_imp_zdiv_nonneg_iff)
    ultimately show ?thesis
      using scorer_value [OF assms(1) c] assms(2) by (auto simp: score_def)
  qed
  have "spread_ok raw" unfolding spread_ok_def list_all_length
  proof (intro allI impI)
    fix k assume k: "k < length raw"
    then obtain n where "nodeInfos (nodes ! k) = Some n" using assms(3) raw(2) by (metis nth_mem)
    then show "- (2 ^ 55) \<le> score (raw ! k) \<and> score (raw ! k) \<le> 2 ^ 55" using sc [of k n] k raw(2) by (simp split: if_splits)
  qed
  moreover have "?q ni \<le> ?q nj" using le tw by (intro zdiv_mono1) auto
  ultimately show ?thesis
    using allocatable.normalize_mono [of raw i j] allocatable.normalize_mono [of raw j i] sc assms(4-7) raw(2) by auto
qed

text \<open>Weights are validated one by one: three positive weights can add up to zero, and the score panics.\<close>

theorem weights_overflow_panic:
  "let ws = [(''cpu'', MaxInt64), (''memory'', MaxInt64), (''ephemeral-storage'', 2)]
   in NewAllocatable (Some (''Most'', ws)) = Some \<lparr>alWeights = ws, alMode = ''Most''\<rparr> \<and> resourceScorer ws ''Most'' cap = None"
  by (simp add: NewAllocatable_def validateResources_def resourceScorer_def MaxInt64_def Let_def word_sle_eq)

end
