(* ===== verification/Numa_Resources.thy ===== *)
theory Numa_Resources
  imports Resources QOS_Sort "HOL-Library.Sublist"
begin

text \<open>
  The data of the NUMA topology plugin (\<^verbatim>\<open>scheduler-plugins/pkg/noderesourcetopology\<close>): the custom resource that
  reports the zones of a node, the configuration of the kubelet's topology manager read from it
  (\<^verbatim>\<open>nodeconfig/topologymanager.go\<close>), exclusive requests (\<^verbatim>\<open>resourcerequests/exclusive.go\<close>) and the list of NUMA
  nodes with the operations on it (\<^verbatim>\<open>pluginhelpers.go\<close>, \<^verbatim>\<open>numaresources.go\<close>). \<open>None\<close> is a panic.
\<close>

section \<open>The custom resource\<close>

record ResourceInfo =
  riName :: string
  riAvailable :: Quantity

record Zone =
  zoneName :: string
  zoneType :: string
  zoneCosts :: "(string \<times> int64) list"
  zoneResources :: "ResourceInfo list"

record NodeResourceTopology =
  nrtName :: string
  nrtTopologyPolicies :: "string list"
  nrtAttributes :: "(string \<times> string) list"
  nrtAnnotations :: "(string, string) gomap option"
  nrtZones :: "Zone list"

section \<open>Configuration of the topology manager\<close>

record TopologyManager =
  tmScope :: string
  tmPolicy :: string

definition IsValidScope :: "string \<Rightarrow> bool" where
  "IsValidScope scope = (scope = ''container'' \<or> scope = ''pod'')"

definition IsValidPolicy :: "string \<Rightarrow> bool" where
  "IsValidPolicy policy = (policy = ''none'' \<or> policy = ''best-effort'' \<or> policy = ''restricted'' \<or> policy = ''single-numa-node'')"

definition TopologyManagerDefaults :: TopologyManager where
  "TopologyManagerDefaults = \<lparr>tmScope = ''container'', tmPolicy = ''none''\<rparr>"

definition updateFromAttributes :: "(string \<times> string) list \<Rightarrow> TopologyManager \<Rightarrow> TopologyManager" where
  "updateFromAttributes attrs conf =
     fold (\<lambda>(name, value) conf.
       if name = ''topologyManagerScope'' \<and> IsValidScope value then conf\<lparr>tmScope := value\<rparr>
       else if name = ''topologyManagerPolicy'' \<and> IsValidPolicy value then conf\<lparr>tmPolicy := value\<rparr>
       else conf) attrs conf"

definition updateFromPolicies :: "string list \<Rightarrow> TopologyManager \<Rightarrow> TopologyManager" where
  "updateFromPolicies policies conf =
     (case policies of
        [] \<Rightarrow> conf
      | p # _ \<Rightarrow>
          if p = ''SingleNUMANodePodLevel'' then conf\<lparr>tmPolicy := ''single-numa-node'', tmScope := ''pod''\<rparr>
          else if p = ''SingleNUMANodeContainerLevel'' then conf\<lparr>tmPolicy := ''single-numa-node'', tmScope := ''container''\<rparr>
          else if p = ''BestEffortPodLevel'' then conf\<lparr>tmPolicy := ''best-effort'', tmScope := ''pod''\<rparr>
          else if p = ''BestEffortContainerLevel'' then conf\<lparr>tmPolicy := ''best-effort'', tmScope := ''container''\<rparr>
          else if p = ''RestrictedPodLevel'' then conf\<lparr>tmPolicy := ''restricted'', tmScope := ''pod''\<rparr>
          else if p = ''RestrictedContainerLevel'' then conf\<lparr>tmPolicy := ''restricted'', tmScope := ''container''\<rparr>
          else conf)"

definition TopologyManagerFromNodeResourceTopology :: "NodeResourceTopology \<Rightarrow> TopologyManager" where
  "TopologyManagerFromNodeResourceTopology nrt =
     updateFromAttributes (nrtAttributes nrt) (updateFromPolicies (nrtTopologyPolicies nrt) TopologyManagerDefaults)"

section \<open>Kinds of resources\<close>

definition IsNativeResource :: "string \<Rightarrow> bool" where
  "IsNativeResource name \<longleftrightarrow> CHR ''/'' \<notin> set name \<or> sublist ''kubernetes.io/'' name"

definition IsHugePageResourceName :: "string \<Rightarrow> bool" where
  "IsHugePageResourceName name = prefix ''hugepages-'' name"

definition isHostLevelResource :: "string \<Rightarrow> bool" where
  "isHostLevelResource res = (res = ''ephemeral-storage'' \<or> res = ''storage'' \<or> \<not> IsNativeResource res)"

definition isNUMAAffineResource :: "string \<Rightarrow> bool" where
  "isNUMAAffineResource res = (res = ''cpu'' \<or> res = ''memory'' \<or> IsHugePageResourceName res)"

definition isResourceSetSuitable :: "string \<Rightarrow> string \<Rightarrow> Quantity \<Rightarrow> Quantity \<Rightarrow> bool" where
  "isResourceSetSuitable qos res quantity numaQuantity =
     (if qos \<noteq> PodQOSGuaranteed \<and> isNUMAAffineResource res then True else quantity \<le> numaQuantity)"

definition IsExclusive :: "string \<Rightarrow> string \<Rightarrow> Quantity \<Rightarrow> bool" where
  "IsExclusive qos res quantity =
     (if \<not> IsNativeResource res then True
      else if qos \<noteq> PodQOSGuaranteed then False
      else if res = ''cpu'' \<and> QValue quantity * 1000 = QMilliValue quantity \<and> 0 <s QValue quantity then True
      else if (res = ''memory'' \<or> IsHugePageResourceName res) \<and> 0 <s QValue quantity then True
      else False)"

definition areExclusiveForAnyContainer :: "string \<Rightarrow> Container list \<Rightarrow> bool" where
  "areExclusiveForAnyContainer qos ctrs =
     list_ex (\<lambda>c. list_ex (\<lambda>(res, quantity). IsExclusive qos res quantity) (ctrRequests c)) ctrs"

definition AreExclusiveForPod :: "Pod \<Rightarrow> bool" where
  "AreExclusiveForPod pod = areExclusiveForAnyContainer (GetPodQOS pod) (podInitContainers pod @ podContainers pod)"

definition IncludeNonNative :: "Pod \<Rightarrow> bool" where
  "IncludeNonNative pod =
     (list_ex (\<lambda>c. list_ex (\<lambda>(res, _). \<not> IsNativeResource res) (ctrRequests c)) (podInitContainers pod) \<or>
      list_ex (\<lambda>c. list_ex (\<lambda>(res, _). \<not> IsNativeResource res) (ctrRequests c)) (podContainers pod))"

section \<open>NUMA nodes\<close>

record NUMANode =
  NUMAID :: int
  nnResources :: ResourceList
  nnCosts :: "(int, int) gomap"

type_synonym NUMANodeList = "NUMANode list"

definition maxNUMAId :: int where "maxNUMAId = 64"

text \<open>\<^verbatim>\<open>numanode.NameToID\<close>\<close>

definition NameToID :: "string \<Rightarrow> int option" where
  "NameToID name =
     (if prefix ''node-'' name then
        (case Atoi (drop 5 name) of None \<Rightarrow> None | Some i \<Rightarrow> if sint i < 0 then None else Some (sint i))
      else None)"

definition extractResources :: "Zone \<Rightarrow> ResourceList" where
  "extractResources zone = fold (\<lambda>ri. AList.update (riName ri) (riAvailable ri)) (zoneResources zone) []"

definition extractCosts :: "(string \<times> int64) list \<Rightarrow> (int, int) gomap" where
  "extractCosts costs =
     fold (\<lambda>(name, value) m.
       case NameToID name of None \<Rightarrow> m | Some i \<Rightarrow> if maxNUMAId < i then m else AList.update i (sint value) m) costs []"

text \<open>The first loop: the index of the zone of each NUMA node and the nodes in the order of the zones. The
  lookup array has \<open>maxNUMAId\<close> places, so the id \<open>maxNUMAId\<close>, which passes the check, is out of range.\<close>

fun collectZones :: "nat \<Rightarrow> Zone list \<Rightarrow> (int, nat) gomap \<Rightarrow> NUMANodeList \<Rightarrow> ((int, nat) gomap \<times> NUMANodeList) option" where
  "collectZones i [] idx nodes = Some (idx, nodes)"
| "collectZones i (zone # zones) idx nodes =
     (if zoneType zone \<noteq> ''Node'' then collectZones (Suc i) zones idx nodes
      else (case NameToID (zoneName zone) of
        None \<Rightarrow> collectZones (Suc i) zones idx nodes
      | Some numaID \<Rightarrow>
          if maxNUMAId < numaID then collectZones (Suc i) zones idx nodes
          else if numaID = maxNUMAId then None
          else collectZones (Suc i) zones (AList.update numaID i idx)
                 (nodes @ [\<lparr>NUMAID = numaID, nnResources = extractResources zone, nnCosts = []\<rparr>])))"

definition createNUMANodeList :: "Zone list \<Rightarrow> NUMANodeList option" where
  "createNUMANodeList zones =
     map_option (\<lambda>(idx, nodes).
       map (\<lambda>node. node\<lparr>nnCosts :=
         extractCosts (zoneCosts (zones ! (case map_of idx (NUMAID node) of None \<Rightarrow> 0 | Some i \<Rightarrow> i)))\<rparr>) nodes)
       (collectZones 0 zones [] [])"

definition onlyNonNUMAResources :: "NUMANodeList \<Rightarrow> ResourceList \<Rightarrow> bool" where
  "onlyNonNUMAResources numaNodes resources =
     (\<not> list_ex (\<lambda>(res, _). list_ex (\<lambda>node. has_key (nnResources node) res) numaNodes) resources)"

text \<open>Taking the request of a container from one node; \<open>None\<close> is the error of a negative amount.\<close>

fun subtractRequest :: "string \<Rightarrow> (string \<times> Quantity) list \<Rightarrow> ResourceList \<Rightarrow> ResourceList option" where
  "subtractRequest qos [] rl = Some rl"
| "subtractRequest qos ((res, q) # rest) rl =
     (if qos \<noteq> PodQOSGuaranteed \<and> isNUMAAffineResource res then subtractRequest qos rest rl
      else if q = 0 then subtractRequest qos rest rl
      else (case map_of rl res of
        None \<Rightarrow> subtractRequest qos rest rl
      | Some nq \<Rightarrow> if nq - q < 0 then None else subtractRequest qos rest (AList.update res (nq - q) rl)))"

fun subtractResourcesFromNUMANodeList :: "NUMANodeList \<Rightarrow> int \<Rightarrow> string \<Rightarrow> ResourceList \<Rightarrow> NUMANodeList option" where
  "subtractResourcesFromNUMANodeList [] numaID qos containerRes = Some []"
| "subtractResourcesFromNUMANodeList (node # nodes) numaID qos containerRes =
     (case (if NUMAID node \<noteq> numaID then Some (nnResources node) else subtractRequest qos containerRes (nnResources node)) of
        None \<Rightarrow> None
      | Some rl \<Rightarrow>
          map_option ((#) (node\<lparr>nnResources := rl\<rparr>)) (subtractResourcesFromNUMANodeList nodes numaID qos containerRes))"

text \<open>Taking one resource from several nodes in turn. The places are positions in the list, although the
  callers pass NUMA ids.\<close>

fun subtractQuantity :: "string \<Rightarrow> Quantity \<Rightarrow> nat list \<Rightarrow> NUMANodeList \<Rightarrow> NUMANodeList option" where
  "subtractQuantity res quantity [] numaNodes = Some numaNodes"
| "subtractQuantity res quantity (node # rest) numaNodes =
     (if quantity = 0 then Some numaNodes
      else if length numaNodes \<le> node then None
      else (case map_of (nnResources (numaNodes ! node)) res of
        None \<Rightarrow> subtractQuantity res quantity rest numaNodes
      | Some available \<Rightarrow>
          if available \<le> quantity then
            subtractQuantity res (quantity - available) rest
              (numaNodes[node := (numaNodes ! node)\<lparr>nnResources := AList.update res 0 (nnResources (numaNodes ! node))\<rparr>])
          else
            subtractQuantity res 0 rest
              (numaNodes[node := (numaNodes ! node)\<lparr>nnResources := AList.update res (available - quantity) (nnResources (numaNodes ! node))\<rparr>])))"

definition subtractFromNUMAs :: "ResourceList \<Rightarrow> NUMANodeList \<Rightarrow> nat list \<Rightarrow> NUMANodeList option" where
  "subtractFromNUMAs resources numaNodes nodes =
     fold (\<lambda>(res, q) r. case r of None \<Rightarrow> None | Some nn \<Rightarrow> subtractQuantity res q nodes nn) resources (Some numaNodes)"

end
