(* ===== verification/Numa_Filter.thy ===== *)
theory Numa_Filter
  imports Numa_Resources Sched_Framework
begin

unbundle bit_operations_syntax

text \<open>
  \<^verbatim>\<open>filter.go\<close> of the NUMA topology plugin: whether the containers of a pod, or the pod as a whole, can each be
  placed on a single NUMA node. Sets of NUMA nodes are bit masks of 64 bits, as in the kubelet
  (\<^verbatim>\<open>cm/topologymanager/bitmask\<close>). A nil status is \<open>Success\<close>, and \<open>None\<close> is a panic.
\<close>

section \<open>Bit masks\<close>

type_synonym bitMask = "64 word"

definition maskAdd :: "int \<Rightarrow> bitMask \<Rightarrow> bitMask" where
  "maskAdd i s = (if i < 0 \<or> 64 \<le> i then s else s OR push_bit (nat i) 1)"

definition maskFill :: bitMask where
  "maskFill = NOT 0"

definition GetBits :: "bitMask \<Rightarrow> nat list" where
  "GetBits s = filter (\<lambda>i. 0 < s AND push_bit i 1) [0..<64]"

section \<open>Nodes with enough resources\<close>

definition highestNUMAID :: int where "highestNUMAID = 8"

text \<open>The nodes that fit one resource, and the loop over the requested resources; its result \<open>None\<close> is an early
  negative verdict.\<close>

definition resourceMask :: "string \<Rightarrow> string \<Rightarrow> Quantity \<Rightarrow> NUMANodeList \<Rightarrow> bitMask" where
  "resourceMask qos res quantity numaNodes =
     fold (\<lambda>node m. case map_of (nnResources node) res of
         None \<Rightarrow> m
       | Some numaQuantity \<Rightarrow> if isResourceSetSuitable qos res quantity numaQuantity then maskAdd (NUMAID node) m else m)
       numaNodes 0"

fun resourceLoop :: "string \<Rightarrow> NUMANodeList \<Rightarrow> ResourceList \<Rightarrow> (string \<times> Quantity) list \<Rightarrow> bitMask \<Rightarrow> bitMask option" where
  "resourceLoop qos numaNodes nodeResources [] bitmask = Some bitmask"
| "resourceLoop qos numaNodes nodeResources ((res, quantity) # rest) bitmask =
     (if quantity = 0 then resourceLoop qos numaNodes nodeResources rest bitmask
      else if \<not> has_key nodeResources res then None
      else
        (let hasNUMAAffinity = list_ex (\<lambda>node. has_key (nnResources node) res) numaNodes
         in if \<not> hasNUMAAffinity \<and> isHostLevelResource res then resourceLoop qos numaNodes nodeResources rest bitmask
            else (let bitmask' = bitmask AND resourceMask qos res quantity numaNodes
                  in if bitmask' = 0 then None else resourceLoop qos numaNodes nodeResources rest bitmask')))"

definition resourcesAvailableInAnyNUMANodes ::
    "NUMANodeList \<Rightarrow> ResourceList \<Rightarrow> string \<Rightarrow> Resource \<Rightarrow> (int \<times> bool) option" where
  "resourcesAvailableInAnyNUMANodes numaNodes resources qos allocatable =
     (case resourceLoop qos numaNodes (ResourceListOf allocatable) resources maskFill of
        None \<Rightarrow> Some (highestNUMAID, False)
      | Some bitmask \<Rightarrow> (case GetBits bitmask of [] \<Rightarrow> None | i # _ \<Rightarrow> Some (int i, bitmask \<noteq> 0)))"

section \<open>Handlers\<close>

fun alignInit :: "NUMANodeList \<Rightarrow> string \<Rightarrow> Resource \<Rightarrow> Container list \<Rightarrow> Code option" where
  "alignInit nodes qos allocatable [] = Some Success"
| "alignInit nodes qos allocatable (c # cs) =
     (case resourcesAvailableInAnyNUMANodes nodes (ctrRequests c) qos allocatable of
        None \<Rightarrow> None
      | Some (_, match) \<Rightarrow> if \<not> match then Some Unschedulable else alignInit nodes qos allocatable cs)"

fun alignContainers :: "NUMANodeList \<Rightarrow> string \<Rightarrow> Resource \<Rightarrow> Container list \<Rightarrow> Code option" where
  "alignContainers nodes qos allocatable [] = Some Success"
| "alignContainers nodes qos allocatable (c # cs) =
     (case resourcesAvailableInAnyNUMANodes nodes (ctrRequests c) qos allocatable of
        None \<Rightarrow> None
      | Some (numaID, match) \<Rightarrow>
          if \<not> match then Some Unschedulable
          else (case subtractResourcesFromNUMANodeList nodes numaID qos (ctrRequests c) of
            None \<Rightarrow> Some Error
          | Some nodes' \<Rightarrow> alignContainers nodes' qos allocatable cs))"

definition singleNUMAContainerLevelHandler :: "Pod \<Rightarrow> Zone list \<Rightarrow> Resource \<Rightarrow> Code option" where
  "singleNUMAContainerLevelHandler pod zones allocatable =
     (case createNUMANodeList zones of
        None \<Rightarrow> None
      | Some nodes \<Rightarrow>
          (let qos = GetPodQOS pod
           in case alignInit nodes qos allocatable (podInitContainers pod) of
                None \<Rightarrow> None
              | Some c \<Rightarrow> if c \<noteq> Success then Some c else alignContainers nodes qos allocatable (podContainers pod)))"

definition singleNUMAPodLevelHandler :: "Pod \<Rightarrow> Zone list \<Rightarrow> Resource \<Rightarrow> Code option" where
  "singleNUMAPodLevelHandler pod zones allocatable =
     (case createNUMANodeList zones of
        None \<Rightarrow> None
      | Some nodes \<Rightarrow>
          (case resourcesAvailableInAnyNUMANodes nodes (GetPodEffectiveRequest pod) (GetPodQOS pod) allocatable of
             None \<Rightarrow> None
           | Some (_, match) \<Rightarrow> Some (if match then Success else Unschedulable)))"

definition filterHandlerFromTopologyManager :: "TopologyManager \<Rightarrow> (Pod \<Rightarrow> Zone list \<Rightarrow> Resource \<Rightarrow> Code option) option" where
  "filterHandlerFromTopologyManager conf =
     (if tmPolicy conf \<noteq> ''single-numa-node'' then None
      else if tmScope conf = ''pod'' then Some singleNUMAPodLevelHandler
      else if tmScope conf = ''container'' then Some singleNUMAContainerLevelHandler
      else None)"

text \<open>\<open>get\<close> is the read of the cache, \<open>Some topology\<close> if there is one, with its freshness; the second result tells
  whether the node is reported to the cache as perhaps over-reserved.\<close>

definition Filter ::
    "(string \<Rightarrow> NodeResourceTopology option \<times> bool) \<Rightarrow> Pod \<Rightarrow> (string \<times> Resource) option \<Rightarrow> (Code \<times> bool) option" where
  "Filter get pod nodeInfo =
     (case nodeInfo of
        None \<Rightarrow> Some (Error, False)
      | Some (node, allocatable) \<Rightarrow>
          if GetPodQOS pod = PodQOSBestEffort \<and> \<not> IncludeNonNative pod then Some (Success, False)
          else (case get node of
            (nodeTopology, fresh) \<Rightarrow>
              if \<not> fresh then Some (Unschedulable, False)
              else (case nodeTopology of
                None \<Rightarrow> Some (Success, False)
              | Some nrt \<Rightarrow>
                  (case filterHandlerFromTopologyManager (TopologyManagerFromNodeResourceTopology nrt) of
                     None \<Rightarrow> Some (Success, False)
                   | Some handler \<Rightarrow>
                       map_option (\<lambda>code. (code, code \<noteq> Success)) (handler pod (nrtZones nrt) allocatable)))))"

end
