(* ===== verification/Numa_Filter_Properties.thy ===== *)
theory Numa_Filter_Properties
  imports Numa_Filter
begin

text \<open>
  What the NUMA filter decides: its bit masks find the lowest node that can host a request, and a pod it
  admits can be placed container by container without exceeding any NUMA node.
\<close>

section \<open>Masks\<close>

lemma bit_maskAdd: "bit (maskAdd i s) n \<longleftrightarrow> bit s n \<or> (n < 64 \<and> int n = i)"
  by (auto simp: maskAdd_def bit_simps dest: bit_imp_le_length)

lemma mask_test: "0 < (s :: bitMask) AND push_bit i 1 \<longleftrightarrow> bit s i"
  unfolding word_gt_0 bit_iff_and_push_bit_not_eq_0 by (rule neq_commute)

lemma GetBits_set: "set (GetBits s) = {i. bit s i}"
  unfolding GetBits_def mask_test by (auto dest: bit_imp_le_length)

lemma mask_zero: "(s :: bitMask) = 0 \<longleftrightarrow> (\<forall>i. \<not> bit s i)"
  by (auto intro: bit_word_eqI)

lemma GetBits_Nil: "GetBits s = [] \<longleftrightarrow> s = 0"
  using GetBits_set [of s] by (simp add: mask_zero flip: set_empty)

lemma GetBits_least:
  assumes "GetBits s = i # js"
  shows "bit s i" "bit s j \<Longrightarrow> i \<le> j"
proof -
  have "sorted (GetBits s)" by (simp add: GetBits_def sorted_wrt_filter)
  then show "bit s i" "bit s j \<Longrightarrow> i \<le> j" using assms GetBits_set [of s] by auto
qed

text \<open>A node of the list can serve the amount of one resource.\<close>

definition serves :: "string \<Rightarrow> NUMANodeList \<Rightarrow> int \<Rightarrow> string \<Rightarrow> Quantity \<Rightarrow> bool" where
  "serves qos nodes i res q \<longleftrightarrow>
     (\<exists>node \<in> set nodes. NUMAID node = i \<and> (\<exists>nq. map_of (nnResources node) res = Some nq \<and> isResourceSetSuitable qos res q nq))"

lemma bit_resourceMask: "bit (resourceMask qos res q nodes) n \<longleftrightarrow> n < 64 \<and> serves qos nodes (int n) res q"
proof -
  have "bit (fold (\<lambda>node m. case map_of (nnResources node) res of None \<Rightarrow> m
      | Some nq \<Rightarrow> if isResourceSetSuitable qos res q nq then maskAdd (NUMAID node) m else m) nodes m0) n \<longleftrightarrow>
      bit m0 n \<or> (n < 64 \<and> serves qos nodes (int n) res q)" for m0
    by (induction nodes arbitrary: m0) (auto simp: serves_def bit_maskAdd split: option.splits)
  then show ?thesis by (simp add: resourceMask_def)
qed

text \<open>The node \<open>i\<close> can host a request: every resource asked for exists on the machine, and is either not bound
  to NUMA nodes or served by this one.\<close>

definition hosts :: "string \<Rightarrow> NUMANodeList \<Rightarrow> ResourceList \<Rightarrow> (string \<times> Quantity) list \<Rightarrow> int \<Rightarrow> bool" where
  "hosts qos nodes nodeResources rs i \<longleftrightarrow>
     (\<forall>(res, q) \<in> set rs. q \<noteq> 0 \<longrightarrow> has_key nodeResources res \<and>
        ((isHostLevelResource res \<and> (\<forall>node \<in> set nodes. \<not> has_key (nnResources node) res)) \<or> serves qos nodes i res q))"

lemma hosts_Cons:
  "hosts qos nodes nr ((res, q) # rs) i \<longleftrightarrow>
     (q \<noteq> 0 \<longrightarrow> has_key nr res \<and>
        ((isHostLevelResource res \<and> (\<forall>node \<in> set nodes. \<not> has_key (nnResources node) res)) \<or> serves qos nodes i res q)) \<and>
     hosts qos nodes nr rs i"
  by (auto simp: hosts_def)

lemma resourceLoop_spec:
  assumes "m \<noteq> 0"
  shows "case resourceLoop qos nodes nr rs m of
      None \<Rightarrow> \<not> (\<exists>i. bit m i \<and> hosts qos nodes nr rs (int i))
    | Some m' \<Rightarrow> m' \<noteq> 0 \<and> (\<forall>i. bit m' i \<longleftrightarrow> bit m i \<and> hosts qos nodes nr rs (int i))"
  using assms
proof (induction rs arbitrary: m)
  case Nil
  then show ?case by (simp add: hosts_def)
next
  case (Cons r rs)
  obtain res q where r: "r = (res, q)" by (cases r)
  let ?free = "isHostLevelResource res \<and> (\<forall>node \<in> set nodes. \<not> has_key (nnResources node) res)"
  let ?m' = "m AND resourceMask qos res q nodes"
  have b: "bit ?m' i \<longleftrightarrow> bit m i \<and> serves qos nodes (int i) res q" for i
    by (auto simp: bit_simps bit_resourceMask dest: bit_imp_le_length)
  consider "q = 0" | "q \<noteq> 0" "\<not> has_key nr res" | "q \<noteq> 0" "has_key nr res" ?free
    | "q \<noteq> 0" "has_key nr res" "\<not> ?free" "?m' = 0" | "q \<noteq> 0" "has_key nr res" "\<not> ?free" "?m' \<noteq> 0" by blast
  then show ?case
  proof cases
    case 1
    then show ?thesis using Cons.IH [OF Cons.prems] by (simp add: hosts_Cons r split: option.splits)
  next
    case 2
    then show ?thesis by (simp add: hosts_Cons r)
  next
    case 3
    then show ?thesis using Cons.IH [OF Cons.prems] by (auto simp: hosts_Cons r list_ex_iff split: option.splits)
  next
    case 4
    then have "\<not> (bit m i \<and> serves qos nodes (int i) res q)" for i using b [of i] by simp
    then show ?thesis using 4 by (auto simp: hosts_Cons r list_ex_iff Let_def)
  next
    case 5
    then show ?thesis using Cons.IH [OF 5(4)] b by (auto simp: hosts_Cons r list_ex_iff Let_def split: option.splits)
  qed
qed

lemma bit_maskFill: "bit maskFill i \<longleftrightarrow> i < 64"
  by (auto simp: maskFill_def bit_simps dest: bit_imp_le_length)

text \<open>The search never panics, succeeds exactly when some node can host the request, and finds the lowest one.\<close>

lemma available_spec:
  "\<exists>i match. resourcesAvailableInAnyNUMANodes nodes rs qos al = Some (i, match) \<and>
     (match \<longleftrightarrow> (\<exists>k<64. hosts qos nodes (ResourceListOf al) rs (int k))) \<and>
     (match \<longrightarrow> 0 \<le> i \<and> i < 64 \<and> hosts qos nodes (ResourceListOf al) rs i \<and>
        (\<forall>k<64. hosts qos nodes (ResourceListOf al) rs (int k) \<longrightarrow> i \<le> int k))"
proof -
  have "bit maskFill 0" by (simp add: bit_maskFill)
  then have ne: "maskFill \<noteq> 0" by auto
  note s = resourceLoop_spec [OF ne, of qos nodes "ResourceListOf al" rs]
  show ?thesis
  proof (cases "resourceLoop qos nodes (ResourceListOf al) rs maskFill")
    case None
    then show ?thesis using s by (auto simp: resourcesAvailableInAnyNUMANodes_def bit_maskFill)
  next
    case (Some m)
    then have m: "m \<noteq> 0" "\<And>i. bit m i \<longleftrightarrow> i < 64 \<and> hosts qos nodes (ResourceListOf al) rs (int i)" using s by (auto simp: bit_maskFill)
    then obtain i js where g: "GetBits m = i # js" using GetBits_Nil [of m] by (cases "GetBits m") auto
    then have "i < 64" "hosts qos nodes (ResourceListOf al) rs (int i)"
        "\<forall>k<64. hosts qos nodes (ResourceListOf al) rs (int k) \<longrightarrow> i \<le> k"
      using GetBits_least [OF g] m(2) by auto
    then show ?thesis using Some m(1) g by (auto simp: resourcesAvailableInAnyNUMANodes_def)
  qed
qed

section \<open>Accounting\<close>

text \<open>Requests on CPU, memory and huge pages are only charged to a NUMA node for guaranteed pods.\<close>

definition charged :: "string \<Rightarrow> string \<Rightarrow> bool" where
  "charged qos res \<longleftrightarrow> qos = PodQOSGuaranteed \<or> \<not> isNUMAAffineResource res"

definition request_ok :: "ResourceList \<Rightarrow> bool" where
  "request_ok rs \<longleftrightarrow> distinct (map fst rs) \<and> list_all (\<lambda>(res, q). 0 \<le> q) rs"

definition takes :: "string \<Rightarrow> ResourceList \<Rightarrow> string \<Rightarrow> Quantity" where
  "takes qos rs res = (if charged qos res then quantityOf rs res else 0)"

lemma subtractRequest_spec:
  assumes "request_ok rs" "\<forall>(res, q) \<in> set rs. \<forall>nq. q \<noteq> 0 \<and> charged qos res \<and> map_of rl res = Some nq \<longrightarrow> q \<le> nq"
  shows "\<exists>rl'. subtractRequest qos rs rl = Some rl' \<and> (\<forall>res. map_of rl' res = map_option (\<lambda>nq. nq - takes qos rs res) (map_of rl res))"
  using assms
proof (induction rs arbitrary: rl)
  case Nil
  then show ?case by (auto simp: takes_def quantityOf_def option.map_ident)
next
  case (Cons r rs)
  obtain res q where r: "r = (res, q)" by (cases r)
  have ok: "request_ok rs" and new: "map_of rs res = None"
    using Cons.prems(1) by (auto simp: request_ok_def r map_of_eq_None_iff)
  have t: "takes qos (r # rs) x = (if x = res then (if charged qos res then q else 0) else takes qos rs x)" for x
    by (auto simp: takes_def quantityOf_def r)
  have t0: "takes qos rs res = 0" by (simp add: takes_def quantityOf_def new)
  have keep: "\<exists>rl'. subtractRequest qos rs rl = Some rl' \<and> (\<forall>x. map_of rl' x = map_option (\<lambda>nq. nq - takes qos rs x) (map_of rl x))"
    using Cons.prems(2) by (intro Cons.IH [OF ok]) auto
  show ?case
  proof (cases "charged qos res \<and> q \<noteq> 0 \<and> has_key rl res")
    case False
    then have "takes qos (r # rs) x = takes qos rs x \<or> map_of rl x = None" for x by (auto simp: t t0)
    then have "map_option (\<lambda>nq. nq - takes qos (r # rs) x) (map_of rl x) = map_option (\<lambda>nq. nq - takes qos rs x) (map_of rl x)" for x
      by (metis option.map_disc_iff)
    then show ?thesis using False keep by (auto simp: r charged_def split: option.splits)
  next
    case True
    then obtain nq where nq: "map_of rl res = Some nq" by auto
    have le: "q \<le> nq" using Cons.prems(2) True nq by (auto simp: r)
    have ne: "x \<noteq> res" if "(x, p) \<in> set rs" for x p using new that by (force simp: map_of_eq_None_iff)
    let ?rl = "AList.update res (nq - q) rl"
    have "\<forall>(x, p) \<in> set rs. \<forall>m. p \<noteq> 0 \<and> charged qos x \<and> map_of ?rl x = Some m \<longrightarrow> p \<le> m"
      using Cons.prems(2) ne by (auto split: if_splits dest: ne)
    then obtain rl' where rl': "subtractRequest qos rs ?rl = Some rl'"
        "\<And>x. map_of rl' x = map_option (\<lambda>m. m - takes qos rs x) (map_of ?rl x)" using Cons.IH [OF ok] by blast
    have "map_of rl' x = map_option (\<lambda>nq. nq - takes qos (r # rs) x) (map_of rl x)" for x
      using True nq by (auto simp: rl'(2) t t0)
    then show ?thesis using True nq le rl'(1) by (auto simp: r charged_def)
  qed
qed

text \<open>The amounts of the nodes before and after one container is placed on node \<open>i\<close>.\<close>

definition amount_at :: "NUMANodeList \<Rightarrow> int \<Rightarrow> string \<Rightarrow> Quantity option" where
  "amount_at nodes i res =
     (case map_of (map (\<lambda>n. (NUMAID n, nnResources n)) nodes) i of None \<Rightarrow> None | Some rl \<Rightarrow> map_of rl res)"

lemma amount_at_node: "distinct (map NUMAID nodes) \<Longrightarrow> node \<in> set nodes \<Longrightarrow> amount_at nodes (NUMAID node) = map_of (nnResources node)"
  by (induction nodes) (auto simp: amount_at_def fun_eq_iff image_iff)

lemma amount_at_Cons: "amount_at (n # nodes) i = (if NUMAID n = i then map_of (nnResources n) else amount_at nodes i)"
  by (auto simp: amount_at_def fun_eq_iff)

lemma serves_amount:
  assumes "distinct (map NUMAID nodes)"
  shows "serves qos nodes i res q \<longleftrightarrow> (\<exists>nq. amount_at nodes i res = Some nq \<and> isResourceSetSuitable qos res q nq)"
proof
  assume "serves qos nodes i res q"
  then show "\<exists>nq. amount_at nodes i res = Some nq \<and> isResourceSetSuitable qos res q nq"
    using amount_at_node [OF assms] by (auto simp: serves_def)
next
  assume "\<exists>nq. amount_at nodes i res = Some nq \<and> isResourceSetSuitable qos res q nq"
  then obtain nq rl where "map_of (map (\<lambda>n. (NUMAID n, nnResources n)) nodes) i = Some rl" "map_of rl res = Some nq" "isResourceSetSuitable qos res q nq"
    by (auto simp: amount_at_def split: option.splits)
  moreover from this(1) have "(i, rl) \<in> set (map (\<lambda>n. (NUMAID n, nnResources n)) nodes)" by (rule map_of_SomeD)
  ultimately show "serves qos nodes i res q" by (auto simp: serves_def)
qed

lemma subtractNodes_spec:
  assumes "distinct (map NUMAID nodes)" "request_ok rs"
    and "\<forall>(res, q) \<in> set rs. \<forall>nq. q \<noteq> 0 \<and> charged qos res \<and> amount_at nodes i res = Some nq \<longrightarrow> q \<le> nq"
  shows "\<exists>nodes'. subtractResourcesFromNUMANodeList nodes i qos rs = Some nodes' \<and> map NUMAID nodes' = map NUMAID nodes \<and>
    (\<forall>j res. amount_at nodes' j res = map_option (\<lambda>nq. nq - (if j = i then takes qos rs res else 0)) (amount_at nodes j res))"
  using assms(1,3)
proof (induction nodes)
  case Nil
  then show ?case by (simp add: amount_at_def)
next
  case (Cons n nodes)
  obtain rl where rl: "(if NUMAID n \<noteq> i then Some (nnResources n) else subtractRequest qos rs (nnResources n)) = Some rl"
      "\<And>res. map_of rl res = map_option (\<lambda>nq. nq - (if NUMAID n = i then takes qos rs res else 0)) (map_of (nnResources n) res)"
    using subtractRequest_spec [OF assms(2), of qos "nnResources n"] Cons.prems(2)
    by (cases "NUMAID n = i") (auto simp: amount_at_Cons option.map_ident)
  have "\<forall>(res, q) \<in> set rs. \<forall>nq. q \<noteq> 0 \<and> charged qos res \<and> amount_at nodes i res = Some nq \<longrightarrow> q \<le> nq"
  proof (cases "NUMAID n = i")
    case True
    then have "amount_at nodes i = Map.empty" using Cons.prems(1)
      by (auto simp: amount_at_def fun_eq_iff map_of_eq_None_iff image_iff split: option.splits dest!: map_of_SomeD)
    then show ?thesis by simp
  qed (use Cons.prems(2) in \<open>auto simp: amount_at_Cons\<close>)
  then obtain nodes' where n': "subtractResourcesFromNUMANodeList nodes i qos rs = Some nodes'" "map NUMAID nodes' = map NUMAID nodes"
      "\<And>j res. amount_at nodes' j res = map_option (\<lambda>nq. nq - (if j = i then takes qos rs res else 0)) (amount_at nodes j res)"
    using Cons.IH Cons.prems(1) by auto
  have "subtractResourcesFromNUMANodeList (n # nodes) i qos rs = Some (n\<lparr>nnResources := rl\<rparr> # nodes')" using rl(1) n'(1) by simp
  then show ?case using n'(2,3) rl(2) by (auto simp: amount_at_Cons)
qed

lemma affinity_amount:
  assumes "distinct (map NUMAID nodes)"
  shows "(\<forall>node \<in> set nodes. \<not> has_key (nnResources node) res) \<longleftrightarrow> (\<forall>j. amount_at nodes j res = None)"
proof
  assume "\<forall>node \<in> set nodes. \<not> has_key (nnResources node) res"
  then show "\<forall>j. amount_at nodes j res = None"
    by (fastforce simp: amount_at_def split: option.splits dest: map_of_SomeD)
next
  assume "\<forall>j. amount_at nodes j res = None"
  then show "\<forall>node \<in> set nodes. \<not> has_key (nnResources node) res" using amount_at_node [OF assms] by metis
qed

lemma takes_nonneg: "request_ok rs \<Longrightarrow> 0 \<le> takes qos rs res"
  by (auto simp: takes_def quantityOf_def request_ok_def list_all_iff dest: map_of_SomeD split: option.splits)

text \<open>A node that can host a request after others were charged could host it before.\<close>

lemma hosts_before:
  assumes "distinct (map NUMAID nodes)" "map NUMAID nodes' = map NUMAID nodes"
    and "\<And>j res. amount_at nodes' j res = map_option (\<lambda>nq. nq - d j res) (amount_at nodes j res)" "\<And>j res. 0 \<le> d j res"
    and "hosts qos nodes' nr rs i"
  shows "hosts qos nodes nr rs i"
proof -
  have d': "distinct (map NUMAID nodes')" using assms(1,2) by simp
  have "serves qos nodes i res q" if sv: "serves qos nodes' i res q" for res q
  proof -
    obtain nq where "amount_at nodes i res = Some nq" "isResourceSetSuitable qos res q (nq - d i res)"
      using sv by (auto simp: serves_amount [OF d'] assms(3))
    then show ?thesis using assms(4) [of i res] by (auto simp: serves_amount [OF assms(1)] isResourceSetSuitable_def split: if_splits)
  qed
  moreover have "(\<forall>node \<in> set nodes. \<not> has_key (nnResources node) res) \<longleftrightarrow> (\<forall>node \<in> set nodes'. \<not> has_key (nnResources node) res)" for res
    unfolding affinity_amount [OF assms(1)] affinity_amount [OF d'] by (simp add: assms(3))
  ultimately show ?thesis using assms(5) unfolding hosts_def by blast
qed

definition load_on :: "string \<Rightarrow> Container list \<Rightarrow> int list \<Rightarrow> int \<Rightarrow> string \<Rightarrow> Quantity" where
  "load_on qos cs ids i res = sum_list (map (\<lambda>(c, j). if j = i then takes qos (ctrRequests c) res else 0) (zip cs ids))"

lemma alignContainers_spec:
  assumes "distinct (map NUMAID nodes)" "\<forall>c \<in> set cs. request_ok (ctrRequests c)"
  shows "\<exists>code. alignContainers nodes qos al cs = Some code \<and> code \<in> {Success, Unschedulable} \<and>
    (code = Success \<longrightarrow> (\<exists>ids. list_all2 (\<lambda>c i. hosts qos nodes (ResourceListOf al) (ctrRequests c) i) cs ids \<and>
       (\<forall>i res nq. amount_at nodes i res = Some nq \<longrightarrow> load_on qos cs ids i res \<le> max 0 nq)))"
  using assms
proof (induction cs arbitrary: nodes)
  case Nil
  then show ?case by (auto simp: load_on_def intro!: exI [of _ "[]"])
next
  case (Cons c cs)
  let ?rs = "ctrRequests c"
  have rok: "request_ok ?rs" using Cons.prems(2) by simp
  obtain i match where a: "resourcesAvailableInAnyNUMANodes nodes ?rs qos al = Some (i, match)"
      "match \<Longrightarrow> hosts qos nodes (ResourceListOf al) ?rs i"
    using available_spec [of nodes ?rs qos al] by auto
  show ?case
  proof (cases match)
    case False
    then show ?thesis using a(1) by auto
  next
    case True
    have fit: "\<forall>(res, q) \<in> set ?rs. \<forall>nq. q \<noteq> 0 \<and> charged qos res \<and> amount_at nodes i res = Some nq \<longrightarrow> q \<le> nq"
    proof clarify
      fix res q nq assume r: "(res, q) \<in> set ?rs" "q \<noteq> 0" "charged qos res" and n: "amount_at nodes i res = Some nq"
      have "(\<forall>node \<in> set nodes. \<not> has_key (nnResources node) res) \<or> serves qos nodes i res q"
        using a(2) [OF True] r(1,2) unfolding hosts_def by blast
      then have "serves qos nodes i res q" using n affinity_amount [OF Cons.prems(1)] by force
      then show "q \<le> nq" using n r(3) by (auto simp: serves_amount [OF Cons.prems(1)] isResourceSetSuitable_def charged_def split: if_splits)
    qed
    obtain nodes' where n: "subtractResourcesFromNUMANodeList nodes i qos ?rs = Some nodes'" "map NUMAID nodes' = map NUMAID nodes"
        "\<And>j res. amount_at nodes' j res = map_option (\<lambda>nq. nq - (if j = i then takes qos ?rs res else 0)) (amount_at nodes j res)"
      using subtractNodes_spec [OF Cons.prems(1) rok fit] by blast
    obtain code where ih: "alignContainers nodes' qos al cs = Some code" "code \<in> {Success, Unschedulable}"
        "code = Success \<longrightarrow> (\<exists>ids. list_all2 (\<lambda>c i. hosts qos nodes' (ResourceListOf al) (ctrRequests c) i) cs ids \<and>
           (\<forall>i res nq. amount_at nodes' i res = Some nq \<longrightarrow> load_on qos cs ids i res \<le> max 0 nq))"
      using Cons.IH [of nodes'] Cons.prems n(2) by auto
    have "\<exists>ids. list_all2 (\<lambda>c i. hosts qos nodes (ResourceListOf al) (ctrRequests c) i) (c # cs) ids \<and>
       (\<forall>j res nq. amount_at nodes j res = Some nq \<longrightarrow> load_on qos (c # cs) ids j res \<le> max 0 nq)" if ok: "code = Success"
    proof -
      obtain ids where ids: "list_all2 (\<lambda>c i. hosts qos nodes' (ResourceListOf al) (ctrRequests c) i) cs ids"
          "\<And>i res nq. amount_at nodes' i res = Some nq \<Longrightarrow> load_on qos cs ids i res \<le> max 0 nq" using ih(3) ok by blast
      have "list_all2 (\<lambda>c i. hosts qos nodes (ResourceListOf al) (ctrRequests c) i) cs ids"
        using ids(1) by (rule list_all2_mono) (rule hosts_before [OF Cons.prems(1) n(2,3)], simp_all add: takes_nonneg [OF rok])
      moreover have "load_on qos (c # cs) (i # ids) j res \<le> max 0 nq" if "amount_at nodes j res = Some nq" for j res nq
      proof -
        have l: "load_on qos (c # cs) (i # ids) j res = (if j = i then takes qos ?rs res else 0) + load_on qos cs ids j res"
          by (simp add: load_on_def)
        have "takes qos ?rs res \<le> nq" if "j = i" "takes qos ?rs res \<noteq> 0"
          using that \<open>amount_at nodes j res = Some nq\<close> fit
          by (force simp: takes_def quantityOf_def split: if_splits option.splits dest: map_of_SomeD)
        then show ?thesis using ids(2) [of j res] n(3) [of j res] that takes_nonneg [OF rok, of qos res]
          by (cases "takes qos ?rs res = 0") (auto simp: l max_def split: if_splits)
      qed
      ultimately show ?thesis using a(2) [OF True] by (intro exI [of _ "i # ids"]) simp
    qed
    then show ?thesis using a(1) True n(1) ih(1,2) by (intro exI [of _ code]) simp
  qed
qed


lemma alignInit_spec:
  "alignInit nodes qos al cs =
     Some (if \<forall>c \<in> set cs. \<exists>k<64. hosts qos nodes (ResourceListOf al) (ctrRequests c) (int k) then Success else Unschedulable)"
proof (induction cs)
  case (Cons c cs)
  obtain i match where "resourcesAvailableInAnyNUMANodes nodes (ctrRequests c) qos al = Some (i, match)"
      "match \<longleftrightarrow> (\<exists>k<64. hosts qos nodes (ResourceListOf al) (ctrRequests c) (int k))"
    using available_spec [of nodes "ctrRequests c" qos al] by blast
  then show ?case using Cons.IH by simp
qed simp

section \<open>The filter\<close>

text \<open>The requests of every container name each resource once, with an amount that is not negative.\<close>

definition pod_requests_ok :: "Pod \<Rightarrow> bool" where
  "pod_requests_ok pod \<longleftrightarrow> (\<forall>c \<in> set (podInitContainers pod @ podContainers pod). request_ok (ctrRequests c))"

text \<open>
  C39. On a node whose fresh topology asks for alignment to a single NUMA node and names each NUMA node once, the
  filter neither panics nor reports inconsistent accounts. With the scope pod it admits exactly the
  pods whose whole request fits one NUMA node. With the scope container an admitted pod has a placement: each init
  container fits some node, each container is assigned to a node that can host it, and the requests charged to a node
  do not exceed what it reports. A rejected node is reported to the cache.
\<close>

theorem numa_filter_places_containers:
  fixes al :: Resource
  assumes "get node = (Some nrt, True)" "\<not> (GetPodQOS pod = PodQOSBestEffort \<and> \<not> IncludeNonNative pod)"
    and "tmPolicy (TopologyManagerFromNodeResourceTopology nrt) = ''single-numa-node''"
    and "createNUMANodeList (nrtZones nrt) = Some nodes" "distinct (map NUMAID nodes)" "pod_requests_ok pod"
  defines "scope \<equiv> tmScope (TopologyManagerFromNodeResourceTopology nrt)"
    and "fits \<equiv> hosts (GetPodQOS pod) nodes (ResourceListOf al)"
  shows "\<exists>code. Filter get pod (Some (node, al)) = Some (code, code \<noteq> Success) \<and> code \<in> {Success, Unschedulable} \<and>
    (scope = ''pod'' \<longrightarrow> (code = Success \<longleftrightarrow> (\<exists>k<64. fits (GetPodEffectiveRequest pod) (int k)))) \<and>
    (scope = ''container'' \<and> code = Success \<longrightarrow>
       (\<forall>c \<in> set (podInitContainers pod). \<exists>k<64. fits (ctrRequests c) (int k)) \<and>
       (\<exists>ids. list_all2 (\<lambda>c i. fits (ctrRequests c) i) (podContainers pod) ids \<and>
          (\<forall>n \<in> set nodes. \<forall>res nq. map_of (nnResources n) res = Some nq \<longrightarrow>
             load_on (GetPodQOS pod) (podContainers pod) ids (NUMAID n) res \<le> max 0 nq)))"
proof -
  let ?conf = "TopologyManagerFromNodeResourceTopology nrt"
  consider "scope = ''pod''" | "scope = ''container''" | "scope \<noteq> ''pod''" "scope \<noteq> ''container''" by blast
  then show ?thesis
  proof cases
    case 1
    obtain i match where "resourcesAvailableInAnyNUMANodes nodes (GetPodEffectiveRequest pod) (GetPodQOS pod) al = Some (i, match)"
        "match \<longleftrightarrow> (\<exists>k<64. fits (GetPodEffectiveRequest pod) (int k))"
      unfolding fits_def using available_spec [of nodes "GetPodEffectiveRequest pod" "GetPodQOS pod" al] by blast
    moreover have "filterHandlerFromTopologyManager ?conf = Some singleNUMAPodLevelHandler"
      using 1 assms(3) by (simp add: filterHandlerFromTopologyManager_def scope_def)
    ultimately show ?thesis using 1 assms(1,2,4) by (auto simp: Filter_def singleNUMAPodLevelHandler_def)
  next
    case 2
    obtain code where c: "alignContainers nodes (GetPodQOS pod) al (podContainers pod) = Some code" "code \<in> {Success, Unschedulable}"
        "code = Success \<longrightarrow> (\<exists>ids. list_all2 (\<lambda>c i. fits (ctrRequests c) i) (podContainers pod) ids \<and>
           (\<forall>i res nq. amount_at nodes i res = Some nq \<longrightarrow> load_on (GetPodQOS pod) (podContainers pod) ids i res \<le> max 0 nq))"
      unfolding fits_def using alignContainers_spec [OF assms(5), of "podContainers pod" "GetPodQOS pod" al] assms(6)
      by (auto simp: pod_requests_ok_def)
    have "filterHandlerFromTopologyManager ?conf = Some singleNUMAContainerLevelHandler"
      using 2 assms(3) by (simp add: filterHandlerFromTopologyManager_def scope_def)
    moreover obtain ic where "alignInit nodes (GetPodQOS pod) al (podInitContainers pod) = Some ic" "ic \<in> {Success, Unschedulable}"
        "ic = Success \<longleftrightarrow> (\<forall>c \<in> set (podInitContainers pod). \<exists>k<64. fits (ctrRequests c) (int k))"
      unfolding fits_def by (simp add: alignInit_spec)
    ultimately have f: "Filter get pod (Some (node, al)) = Some (if ic = Success then code else ic, (if ic = Success then code else ic) \<noteq> Success)"
      using assms(1,2,4) c(1) by (auto simp: Filter_def singleNUMAContainerLevelHandler_def)
    show ?thesis
      using f c(2,3) 2 \<open>ic \<in> _\<close> \<open>(ic = Success) = _\<close> amount_at_node [OF assms(5)]
      by (intro exI [of _ "if ic = Success then code else ic"]) (auto; metis)
  next
    case 3
    then have "filterHandlerFromTopologyManager ?conf = None" by (simp add: filterHandlerFromTopologyManager_def scope_def)
    then show ?thesis using 3 assms(1,2) by (auto simp: Filter_def)
  qed
qed


definition ex_zone :: "string \<Rightarrow> Zone" where
  "ex_zone name = \<lparr>zoneName = name, zoneType = ''Node'', zoneCosts = [], zoneResources = [\<lparr>riName = ''cpu'', riAvailable = 4000\<rparr>, \<lparr>riName = ''memory'', riAvailable = 9000\<rparr>]\<rparr>"

definition ex_nrt :: NodeResourceTopology where
  "ex_nrt = \<lparr>nrtName = ''n'', nrtTopologyPolicies = [], nrtAttributes = [(''topologyManagerPolicy'', ''single-numa-node'')],
     nrtAnnotations = None, nrtZones = [ex_zone ''node-0'', ex_zone ''node-1'']\<rparr>"

definition ex_numa_node :: "int \<Rightarrow> NUMANode" where
  "ex_numa_node i = \<lparr>NUMAID = i, nnResources = [(''cpu'', 4000), (''memory'', 9000)], nnCosts = []\<rparr>"

definition ex_numa_pod :: Pod where
  "ex_numa_pod = (let c = \<lparr>ctrName = ''c'', ctrRequests = [(''cpu'', 3000), (''memory'', 1000)], ctrLimits = [(''cpu'', 3000), (''memory'', 1000)], ctrSeccompProfile = None\<rparr>
     in zero_pod\<lparr>podContainers := [c, c]\<rparr>)"

lemma ex_numa_facts:
  "createNUMANodeList (nrtZones ex_nrt) = Some [ex_numa_node 0, ex_numa_node 1]"
  "TopologyManagerFromNodeResourceTopology ex_nrt = \<lparr>tmScope = ''container'', tmPolicy = ''single-numa-node''\<rparr>"
  by (simp_all add: ex_nrt_def ex_zone_def ex_numa_node_def createNUMANodeList_def NameToID_def Atoi_def ParseInt_def parse_digits_def digit_val_def
      maxNUMAId_def extractResources_def extractCosts_def TopologyManagerFromNodeResourceTopology_def TopologyManagerDefaults_def
      updateFromPolicies_def updateFromAttributes_def IsValidPolicy_def)

theorem numa_filter_places_containers_witness:
  "let al = \<lparr>rMilliCPU = 8000, rMemory = 0, rEphemeralStorage = 0, rAllowedPodNumber = 0, rScalar = []\<rparr>
   in Filter (\<lambda>_. (Some ex_nrt, True)) ex_numa_pod (Some (''n'', al)) = Some (Success, False) \<and>
     (\<exists>ids. length ids = 2 \<and>
        (\<forall>n \<in> set [ex_numa_node 0, ex_numa_node 1].
           load_on (GetPodQOS ex_numa_pod) (podContainers ex_numa_pod) ids (NUMAID n) ''cpu'' \<le> 4000))"
proof -
  let ?al = "\<lparr>rMilliCPU = 8000, rMemory = 0, rEphemeralStorage = 0, rAllowedPodNumber = 0, rScalar = []\<rparr> :: Resource"
  let ?nodes = "[ex_numa_node 0, ex_numa_node 1]"
  have q: "GetPodQOS ex_numa_pod = PodQOSGuaranteed" by code_simp
  have al: "alignContainers ?nodes PodQOSGuaranteed ?al (podContainers ex_numa_pod) = Some Success" by code_simp
  then have f: "Filter (\<lambda>_. (Some ex_nrt, True)) ex_numa_pod (Some (''n'', ?al)) = Some (Success, False)"
    using q
    by (simp add: Filter_def ex_numa_facts filterHandlerFromTopologyManager_def singleNUMAContainerLevelHandler_def
        PodQOSGuaranteed_def PodQOSBestEffort_def) (simp add: ex_numa_pod_def zero_pod_def Let_def)
  have "pod_requests_ok ex_numa_pod" by (simp add: pod_requests_ok_def ex_numa_pod_def zero_pod_def request_ok_def Let_def)
  moreover have "distinct (map NUMAID ?nodes)" "length (podContainers ex_numa_pod) = 2"
    by (simp_all add: ex_numa_node_def ex_numa_pod_def Let_def)
  moreover have "\<not> (GetPodQOS ex_numa_pod = PodQOSBestEffort \<and> \<not> IncludeNonNative ex_numa_pod)"
    by (simp add: q PodQOSGuaranteed_def PodQOSBestEffort_def)
  ultimately obtain ids where "length ids = 2"
      "\<forall>n \<in> set ?nodes. \<forall>res nq. map_of (nnResources n) res = Some nq \<longrightarrow>
         load_on (GetPodQOS ex_numa_pod) (podContainers ex_numa_pod) ids (NUMAID n) res \<le> max 0 nq"
    using numa_filter_places_containers [of "\<lambda>_. (Some ex_nrt, True)" "''n''" ex_nrt ex_numa_pod ?nodes ?al] f
    by (auto simp: ex_numa_facts dest: list_all2_lengthD)
  moreover have "\<forall>n \<in> set ?nodes. map_of (nnResources n) ''cpu'' = Some 4000" by (simp add: ex_numa_node_def)
  ultimately have "length ids = 2 \<and> (\<forall>n \<in> set ?nodes. load_on (GetPodQOS ex_numa_pod) (podContainers ex_numa_pod) ids (NUMAID n) ''cpu'' \<le> max 0 4000)"
    by blast
  then show ?thesis using f by (auto simp: Let_def)
qed

text \<open>A zone with the name \<^verbatim>\<open>node-64\<close> passes the check of its id and is out of the range of the lookup array.\<close>

theorem node_64_panics: "createNUMANodeList [ex_zone ''node-64''] = None"
  by (simp add: ex_zone_def createNUMANodeList_def NameToID_def Atoi_def ParseInt_def parse_digits_def digit_val_def maxNUMAId_def)

end
