(* ===== verification/Combin.thy ===== *)
theory Combin
  imports Main
begin

text \<open>
  \<^verbatim>\<open>combin.Combinations\<close> of the vendored \<^verbatim>\<open>gonum\<close>, which the NUMA scores enumerate subsets of nodes with: the number of
  combinations is computed first, then each is made from the one before. Shown to be the lexicographic list of all
  increasing sequences (\<open>combs\<close>). The callers pass \<open>k \<le> n\<close>, so that the panics are out of reach; a count that
  overflows would belong to a list that no memory holds, so counts are not reduced.
\<close>

section \<open>The enumeration\<close>

definition Binomial :: "nat \<Rightarrow> nat \<Rightarrow> nat" where
  "Binomial n k = (let k' = (if n div 2 < k then n - k else k) in fold (\<lambda>i b. (n - k' + i) * b div i) [1..<Suc k'] 1)"

fun nextLoop :: "nat \<Rightarrow> nat list \<Rightarrow> nat \<Rightarrow> nat list" where
  "nextLoop n s 0 = s"
| "nextLoop n s (Suc j) =
     (if s ! j = n + j - length s then nextLoop n s j
      else take j s @ map (\<lambda>l. s ! j + 1 + (l - j)) [j..<length s])"

definition nextCombination :: "nat \<Rightarrow> nat list \<Rightarrow> nat list" where
  "nextCombination n s = nextLoop n s (length s)"

fun combinsFrom :: "nat \<Rightarrow> nat \<Rightarrow> nat list \<Rightarrow> nat list list" where
  "combinsFrom n 0 s = []"
| "combinsFrom n (Suc c) s = s # combinsFrom n c (nextCombination n s)"

definition Combinations :: "nat \<Rightarrow> nat \<Rightarrow> nat list list" where
  "Combinations n k = combinsFrom n (Binomial n k) [0..<k]"

section \<open>The lexicographic list\<close>

function combs :: "nat \<Rightarrow> nat \<Rightarrow> nat \<Rightarrow> nat list list" where
  "combs lo n 0 = [[]]"
| "combs lo n (Suc k) = (if lo < n then map ((#) lo) (combs (Suc lo) n k) @ combs (Suc lo) n (Suc k) else [])"
  by pat_completeness auto
termination by (relation "measure (\<lambda>(lo, n, k). n - lo + k)") auto

declare combs.simps(2) [simp del]

lemma set_combs: "set (combs lo n k) = {s. length s = k \<and> sorted_wrt (<) s \<and> set s \<subseteq> {lo..<n}}"
proof (induction lo n k rule: combs.induct)
  case (2 lo n k)
  show ?case
  proof (cases "lo < n")
    case True
    have "s \<in> set (combs lo n (Suc k)) \<longleftrightarrow> length s = Suc k \<and> sorted_wrt (<) s \<and> set s \<subseteq> {lo..<n}" for s
    proof (cases s)
      case (Cons a x)
      have "s \<in> set (combs lo n (Suc k)) \<longleftrightarrow>
          a = lo \<and> length x = k \<and> sorted_wrt (<) x \<and> set x \<subseteq> {Suc lo..<n} \<or>
          length s = Suc k \<and> sorted_wrt (<) s \<and> set s \<subseteq> {Suc lo..<n}"
        using True 2 by (auto simp: Cons combs.simps(2) [of lo n k])
      also have "\<dots> \<longleftrightarrow> length s = Suc k \<and> sorted_wrt (<) s \<and> set s \<subseteq> {lo..<n}"
        using True by (cases "a = lo") (fastforce simp: Cons)+
      finally show ?thesis .
    qed (use True 2 in \<open>auto simp: combs.simps(2) [of lo n k]\<close>)
    then show ?thesis by blast
  next
    case False
    then show ?thesis by (auto simp: length_Suc_conv combs.simps(2) [of lo n k])
  qed
qed auto

lemma length_combs: "lo \<le> n \<Longrightarrow> length (combs lo n k) = (n - lo) choose k"
proof (induction lo n k rule: combs.induct)
  case (2 lo n k)
  show ?case
  proof (cases "lo < n")
    case True
    then have "n - lo = Suc (n - Suc lo)" by simp
    then show ?thesis using True 2 by (simp add: combs.simps(2) [of lo n k])
  next
    case False
    then show ?thesis using 2 by (simp add: combs.simps(2))
  qed
qed simp

lemma combs_empty: "lo \<le> n \<Longrightarrow> n < lo + k \<Longrightarrow> combs lo n k = []"
  using length_combs [of lo n k] binomial_eq_0 [of "n - lo" k] by simp

lemma combs_ends:
  "lo + k \<le> n \<Longrightarrow> combs lo n k \<noteq> [] \<and> hd (combs lo n k) = [lo..<lo + k] \<and> last (combs lo n k) = [n - k..<n]"
proof (induction lo n k rule: combs.induct)
  case (2 lo n k)
  have fst: "combs (Suc lo) n k \<noteq> []" "hd (combs (Suc lo) n k) = [Suc lo..<Suc lo + k]" "last (combs (Suc lo) n k) = [n - k..<n]"
    using 2 by auto
  show ?case
  proof (cases "Suc lo + Suc k \<le> n")
    case True
    then have "combs (Suc lo) n (Suc k) \<noteq> []" "last (combs (Suc lo) n (Suc k)) = [n - Suc k..<n]" using 2(2,3) by auto
    then show ?thesis using fst 2(3) by (simp add: combs.simps(2) [of lo n k] hd_map upt_conv_Cons)
  next
    case False
    then have "lo + Suc k = n" "combs (Suc lo) n (Suc k) = []"
      using 2(3) combs_empty [of "Suc lo" n "Suc k"] by auto
    then show ?thesis using fst 2(3) by (auto simp: combs.simps(2) [of lo n k] hd_map last_map upt_conv_Cons)
  qed
qed simp

section \<open>The successor\<close>

lemma nextLoop_Cons:
  "i < j \<Longrightarrow> x ! i \<noteq> n + i - length x \<Longrightarrow> j \<le> length x \<Longrightarrow> nextLoop n (a # x) (Suc j) = a # nextLoop n x j"
proof (induction j)
  case (Suc j)
  show ?case
  proof (cases "x ! j = n + j - length x")
    case True
    then have "i < j" using Suc.prems by (cases "i = j") auto
    then show ?thesis using Suc True by simp
  next
    case False
    have "map (\<lambda>l. x ! j + 1 + (l - Suc j)) [Suc j..<Suc (length x)] = map (\<lambda>l. x ! j + 1 + (l - j)) [j..<length x]"
      by (simp add: map_Suc_upt [symmetric] del: upt_Suc)
    then show ?thesis using False by (simp del: upt_Suc)
  qed
qed simp

lemma nextLoop_top: "\<forall>i < j. x ! i = n + i - length x \<Longrightarrow> nextLoop n (a # x) (Suc j) = nextLoop n (a # x) 1"
  by (induction j) auto

text \<open>A combination that is not the last one, and the one after it.\<close>

definition follows :: "nat \<Rightarrow> nat list \<Rightarrow> nat list \<Rightarrow> bool" where
  "follows n x y \<longleftrightarrow> x \<noteq> [n - length x..<n] \<and> nextCombination n x = y"

lemma follows_Cons:
  assumes "follows n x y" "length x < n"
  shows "follows n (a # x) (a # y)"
proof -
  have "\<exists>i < length x. x ! i \<noteq> n + i - length x"
  proof (rule ccontr)
    assume "\<not> ?thesis"
    then have "x = [n - length x..<n]" using assms(2) by (intro nth_equalityI) auto
    then show False using assms(1) by (simp add: follows_def)
  qed
  then have "nextCombination n (a # x) = a # nextCombination n x"    by (auto simp: nextCombination_def nextLoop_Cons simp del: nextLoop.simps)
  moreover have "a # x \<noteq> [n - length (a # x)..<n]"
    using assms by (auto simp: follows_def upt_rec [of "n - Suc (length x)"] Suc_diff_Suc)
  ultimately show ?thesis using assms(1) by (simp add: follows_def)
qed

lemma follows_step:
  assumes "Suc lo + Suc k \<le> n"
  shows "follows n (lo # [n - k..<n]) [Suc lo..<Suc lo + Suc k]"
proof -
  have "nextCombination n (lo # [n - k..<n]) = nextLoop n (lo # [n - k..<n]) 1"
    unfolding nextCombination_def using assms nextLoop_top [of k "[n - k..<n]" n lo] by simp
  also have "\<dots> = map (\<lambda>l. lo + 1 + l) [0..<Suc k]" using assms by (simp del: upt_Suc)
  also have "\<dots> = [Suc lo..<Suc lo + Suc k]" by (intro nth_equalityI) (simp_all del: upt_Suc)
  finally show ?thesis using assms by (auto simp: follows_def upt_rec [of "n - Suc k"])
qed

lemma combs_follow: "lo + k \<le> n \<Longrightarrow> successively (follows n) (combs lo n k)"
proof (induction lo n k rule: combs.induct)
  case (2 lo n k)
  have "successively (\<lambda>x y. follows n (lo # x) (lo # y)) (combs (Suc lo) n k)"
  proof (rule successively_mono)
    show "successively (\<lambda>x y. follows n x y) (combs (Suc lo) n k)" using 2 by auto
    show "follows n x y \<Longrightarrow> follows n (lo # x) (lo # y)" if "x \<in> set (combs (Suc lo) n k)" for x y
      using that set_combs [of "Suc lo" n k] 2(3) by (intro follows_Cons) auto
  qed
  moreover have "successively (follows n) (combs (Suc lo) n (Suc k))"
    using 2 combs_empty [of "Suc lo" n "Suc k"] by (cases "Suc lo + Suc k \<le> n") auto
  moreover have "follows n (last (map ((#) lo) (combs (Suc lo) n k))) (hd (combs (Suc lo) n (Suc k)))"
    if "combs (Suc lo) n (Suc k) \<noteq> []"
  proof -
    have "Suc lo + Suc k \<le> n" using that 2(3) combs_empty [of "Suc lo" n "Suc k"] by (auto simp: not_le [symmetric])
    then show ?thesis using combs_ends [of "Suc lo" k n] combs_ends [of "Suc lo" "Suc k" n] follows_step [of lo k n]
      by (simp add: last_map del: upt_Suc)
  qed
  ultimately show ?case using 2(3) by (auto simp: combs.simps(2) [of lo n k] successively_append_iff successively_map)
qed simp

lemma combinsFrom_follow: "xs \<noteq> [] \<Longrightarrow> successively (follows n) xs \<Longrightarrow> combinsFrom n (length xs) (hd xs) = xs"
proof (induction xs)
  case (Cons x xs)
  then show ?case by (cases xs) (auto simp: follows_def)
qed simp

section \<open>The count\<close>

lemma binomial_fold:
  assumes "k \<le> n"
  shows "fold (\<lambda>i b. (n - k + i) * b div i) [1..<Suc k] 1 = n choose k"
proof -
  have "fold (\<lambda>i b. (n - k + i) * b div i) [1..<Suc j] 1 = (n - k + j) choose j" for j
  proof (induction j)
    case (Suc j)
    have "Suc j * ((n - k + Suc j) choose Suc j) = (n - k + Suc j) * ((n - k + j) choose j)"
      using Suc_times_binomial [of j "n - k + j"] by simp
    then have "(n - k + Suc j) * ((n - k + j) choose j) div Suc j = (n - k + Suc j) choose Suc j"
      by (metis nonzero_mult_div_cancel_left nat.distinct(2))
    then show ?case using Suc by simp
  qed simp
  then show ?thesis using assms by simp
qed

lemma Binomial_choose:
  assumes "k \<le> n"
  shows "Binomial n k = n choose k"
proof -
  have "Binomial n k = n choose (if n div 2 < k then n - k else k)"
    unfolding Binomial_def Let_def using assms by (intro binomial_fold) simp
  then show ?thesis using binomial_symmetric [OF assms] by simp
qed

theorem Combinations_lex:
  assumes "k \<le> n"
  shows "Combinations n k = combs 0 n k"
  using assms combinsFrom_follow [of "combs 0 n k" n] combs_follow [of 0 k n] combs_ends [of 0 k n] length_combs [of 0 n k]
  by (simp add: Combinations_def Binomial_choose)

text \<open>Every \<open>k\<close>-element set of indices is enumerated, as an increasing list.\<close>

lemma set_Combinations: "k \<le> n \<Longrightarrow> set (Combinations n k) = {s. length s = k \<and> sorted_wrt (<) s \<and> set s \<subseteq> {..<n}}"
  by (simp add: Combinations_lex set_combs lessThan_atLeast0)

end
