(* ===== verification/Numa_Score.thy ===== *)
theory Numa_Score
  imports Numa_Filter Combin Go_Float
begin

text \<open>
  The scores of the NUMA topology plugin: \<^verbatim>\<open>score.go\<close> with the strategies of \<^verbatim>\<open>least_allocated.go\<close>, \<^verbatim>\<open>most_allocated.go\<close> and
  \<^verbatim>\<open>balanced_allocation.go\<close>, and \<^verbatim>\<open>least_numa.go\<close>. \<open>None\<close> is a panic: an index out of range or a division by zero. What
  an architecture makes of the conversion of a NaN to an integer, which Go leaves open, is the argument \<open>nan\<close>.
\<close>

section \<open>Strategies over one NUMA node\<close>

type_synonym resourceToWeightMap = "(string, int64) gomap"
type_synonym scoreStrategyFn = "ResourceList \<Rightarrow> ResourceList \<Rightarrow> resourceToWeightMap \<Rightarrow> int64 option"

definition resWeight :: "resourceToWeightMap \<Rightarrow> string \<Rightarrow> int64" where
  "resWeight rw r = (case map_of rw r of None \<Rightarrow> 1 | Some w \<Rightarrow> if w <s 1 then 1 else w)"

definition quotient64 :: "int64 \<Rightarrow> int64 \<Rightarrow> int64 option" where
  "quotient64 a b = (if b = 0 then None else Some (int64_div a b))"

definition leastAllocatedScore :: "Quantity \<Rightarrow> Quantity \<Rightarrow> int64 option" where
  "leastAllocatedScore req numaCapacity =
     (if numaCapacity = 0 then Some 0
      else if numaCapacity < req then Some 0
      else quotient64 ((QValue numaCapacity - QValue req) * MaxNodeScore) (QValue numaCapacity))"

definition mostAllocatedScore :: "Quantity \<Rightarrow> Quantity \<Rightarrow> int64 option" where
  "mostAllocatedScore req numaCapacity =
     (if numaCapacity = 0 then Some 0
      else if numaCapacity < req then Some 0
      else quotient64 (QValue req * MaxNodeScore) (QValue numaCapacity))"

text \<open>The loop that the two strategies share, over the requested resources.\<close>

fun weightedScore :: "(Quantity \<Rightarrow> Quantity \<Rightarrow> int64 option) \<Rightarrow> (string \<times> Quantity) list \<Rightarrow> ResourceList \<Rightarrow> resourceToWeightMap \<Rightarrow>
    int64 \<Rightarrow> int64 \<Rightarrow> int64 option" where
  "weightedScore f [] allocatable rw numaNodeScore weightSum = quotient64 numaNodeScore weightSum"
| "weightedScore f ((name, q) # rest) allocatable rw numaNodeScore weightSum =
     (case f q (quantityOf allocatable name) of
        None \<Rightarrow> None
      | Some resourceScore \<Rightarrow>
          weightedScore f rest allocatable rw (numaNodeScore + resourceScore * resWeight rw name) (weightSum + resWeight rw name))"

definition leastAllocatedScoreStrategy :: scoreStrategyFn where
  "leastAllocatedScoreStrategy req allocatable rw = weightedScore leastAllocatedScore req allocatable rw 0 0"

definition mostAllocatedScoreStrategy :: scoreStrategyFn where
  "mostAllocatedScoreStrategy req allocatable rw = weightedScore mostAllocatedScore req allocatable rw 0 0"

definition fractionOfCapacity :: "Quantity \<Rightarrow> Quantity \<Rightarrow> rat" where
  "fractionOfCapacity req capacity =
     (if QValue capacity = 0 then 1 else fdiv (f64 (sint (QValue req))) (f64 (sint (QValue capacity))))"

text \<open>\<^verbatim>\<open>stat.Mean\<close> and \<^verbatim>\<open>stat.Variance\<close> without weights; \<open>None\<close> is a NaN, the quotient of zero by zero.\<close>

definition stat_Mean :: "rat list \<Rightarrow> rat option" where
  "stat_Mean xs = (if xs = [] then None else Some (fdiv (foldl fadd 0 xs) (f64 (int (length xs)))))"

definition stat_Variance :: "rat list \<Rightarrow> rat option" where
  "stat_Variance xs =
     (case stat_Mean xs of
        None \<Rightarrow> None
      | Some mean \<Rightarrow>
          (let (ss, cmp) = foldl (\<lambda>(ss, cmp) v. let d = fadd v (- mean) in (fadd ss (fmul d d), fadd cmp d)) (0, 0) xs;
               unnormalised = fadd ss (- fdiv (fmul cmp cmp) (f64 (int (length xs))))
           in if length xs = 1 then None else Some (fdiv unnormalised (fadd (f64 (int (length xs))) (- 1)))))"

definition balancedAllocationScoreStrategy :: "int64 \<Rightarrow> scoreStrategyFn" where
  "balancedAllocationScoreStrategy nan req allocatable rw =
     (let fractions = map (\<lambda>(name, q). fractionOfCapacity q (quantityOf allocatable name)) req
      in if list_ex (\<lambda>f. 1 < f) fractions then Some 0
         else (case stat_Variance fractions of
           None \<Rightarrow> Some nan
         | Some variance \<Rightarrow> Some (word_of_int (ftrunc (fmul (fadd 1 (- variance)) (f64 (sint MaxNodeScore)))))))"

section \<open>Scores over the NUMA nodes of a node\<close>

text \<open>The loop records the score of a node at the place of its id in an array as long as the list.\<close>

fun scoreLoop :: "ResourceList \<Rightarrow> nat \<Rightarrow> scoreStrategyFn \<Rightarrow> resourceToWeightMap \<Rightarrow> NUMANodeList \<Rightarrow> int64 \<Rightarrow> int64 option" where
  "scoreLoop req len scorer rw [] minScore = Some minScore"
| "scoreLoop req len scorer rw (numa # rest) minScore =
     (case scorer req (nnResources numa) rw of
        None \<Rightarrow> None
      | Some numaScore \<Rightarrow>
          (let minScore' = (if minScore = 0 \<or> (numaScore \<noteq> 0 \<and> numaScore <s minScore) then numaScore else minScore)
           in if NUMAID numa < 0 \<or> int len \<le> NUMAID numa then None else scoreLoop req len scorer rw rest minScore'))"

definition scoreForEachNUMANode :: "ResourceList \<Rightarrow> NUMANodeList \<Rightarrow> scoreStrategyFn \<Rightarrow> resourceToWeightMap \<Rightarrow> int64 option" where
  "scoreForEachNUMANode req numaList scorer rw = scoreLoop req (length numaList) scorer rw numaList 0"

definition podScopeScore :: "scoreStrategyFn \<Rightarrow> resourceToWeightMap \<Rightarrow> Pod \<Rightarrow> Zone list \<Rightarrow> int64 option" where
  "podScopeScore scorerFn rw pod zones =
     (case createNUMANodeList zones of
        None \<Rightarrow> None
      | Some nodes \<Rightarrow> scoreForEachNUMANode (GetPodEffectiveRequest pod) nodes scorerFn rw)"

fun containerScores :: "scoreStrategyFn \<Rightarrow> resourceToWeightMap \<Rightarrow> NUMANodeList \<Rightarrow> Container list \<Rightarrow> rat list option" where
  "containerScores scorerFn rw nodes [] = Some []"
| "containerScores scorerFn rw nodes (c # cs) =
     (case scoreForEachNUMANode (ctrRequests c) nodes scorerFn rw of
        None \<Rightarrow> None
      | Some s \<Rightarrow> map_option ((#) (f64 (sint s))) (containerScores scorerFn rw nodes cs))"

definition containerScopeScore :: "int64 \<Rightarrow> scoreStrategyFn \<Rightarrow> resourceToWeightMap \<Rightarrow> Pod \<Rightarrow> Zone list \<Rightarrow> int64 option" where
  "containerScopeScore nan scorerFn rw pod zones =
     (case createNUMANodeList zones of
        None \<Rightarrow> None
      | Some nodes \<Rightarrow>
          (case containerScores scorerFn rw nodes (podInitContainers pod @ podContainers pod) of
             None \<Rightarrow> None
           | Some contScore \<Rightarrow>
               Some (case stat_Mean contScore of None \<Rightarrow> nan | Some m \<Rightarrow> word_of_int (ftrunc m))))"

section \<open>Fewest NUMA nodes\<close>

definition maxDistanceValue :: int64 where "maxDistanceValue = 255"

text \<open>\<^verbatim>\<open>float32\<close> arithmetic\<close>

definition f32 :: "int \<Rightarrow> rat" where "f32 i = fround 24 (of_int i)"
definition fdiv32 :: "rat \<Rightarrow> rat \<Rightarrow> rat" where "fdiv32 x y = fround 24 (x / y)"

definition nodeCost :: "NUMANodeList \<Rightarrow> nat \<Rightarrow> nat \<Rightarrow> int64" where
  "nodeCost numaNodes node1 node2 =
     (case map_of (nnCosts (numaNodes ! node1)) (NUMAID (numaNodes ! node2)) of
        None \<Rightarrow> maxDistanceValue
      | Some cost \<Rightarrow> word_of_int cost)"

definition nodesAvgDistance :: "NUMANodeList \<Rightarrow> nat list \<Rightarrow> rat" where
  "nodesAvgDistance numaNodes nodes =
     (if nodes = [] then f32 (sint maxDistanceValue)
      else (let accu = (\<Sum>node1\<leftarrow>nodes. \<Sum>node2\<leftarrow>nodes. nodeCost numaNodes node1 node2)
            in fdiv32 (f32 (sint accu)) (f32 (int (length nodes * length nodes)))))"

definition minAvgDistanceInCombinations :: "NUMANodeList \<Rightarrow> nat list list \<Rightarrow> rat" where
  "minAvgDistanceInCombinations numaNodes cs =
     foldl (\<lambda>minDistance c. if nodesAvgDistance numaNodes c < minDistance then nodesAvgDistance numaNodes c else minDistance)
       (f32 (sint maxDistanceValue)) cs"

definition combineResources :: "NUMANodeList \<Rightarrow> nat list \<Rightarrow> ResourceList" where
  "combineResources numaNodes combination =
     foldl (\<lambda>resources nodeIndex.
       foldl (\<lambda>resources (res, quantity).
         case map_of resources res of
           Some value \<Rightarrow> AList.update res (value + quantity) resources
         | None \<Rightarrow> AList.update res quantity resources) resources (nnResources (numaNodes ! nodeIndex))) [] combination"

definition checkResourcesFit :: "string \<Rightarrow> ResourceList \<Rightarrow> ResourceList \<Rightarrow> bool" where
  "checkResourcesFit qos resources combinationResources =
     list_all (\<lambda>(res, quantity). quantity = 0 \<or> isResourceSetSuitable qos res quantity (quantityOf combinationResources res)) resources"

definition isValidCombineResources :: "NUMANodeList \<Rightarrow> ResourceList \<Rightarrow> nat list \<Rightarrow> bool" where
  "isValidCombineResources numaNodes resources combination =
     list_all (\<lambda>nodeIndex. list_all (\<lambda>(res, _). has_key (nnResources (numaNodes ! nodeIndex)) res) resources) combination"

fun findLoop :: "string \<Rightarrow> NUMANodeList \<Rightarrow> ResourceList \<Rightarrow> rat \<Rightarrow> nat list list \<Rightarrow> nat list option \<Rightarrow> rat \<Rightarrow> nat list option \<times> bool" where
  "findLoop qos numaNodes resources minAvgDistance [] minDistanceCombination minDistance = (minDistanceCombination, False)"
| "findLoop qos numaNodes resources minAvgDistance (combination # rest) minDistanceCombination minDistance =
     (if isValidCombineResources numaNodes resources combination \<and>
         checkResourcesFit qos resources (combineResources numaNodes combination) then
        (let distance = nodesAvgDistance numaNodes combination
         in if distance = minAvgDistance then (Some combination, True)
            else if distance < minDistance then
              findLoop qos numaNodes resources minAvgDistance rest (Some combination) distance
            else findLoop qos numaNodes resources minAvgDistance rest minDistanceCombination minDistance)
      else findLoop qos numaNodes resources minAvgDistance rest minDistanceCombination minDistance)"

definition findSuitableCombination :: "string \<Rightarrow> NUMANodeList \<Rightarrow> ResourceList \<Rightarrow> nat list list \<Rightarrow> nat list option \<times> bool" where
  "findSuitableCombination qos numaNodes resources cs =
     findLoop qos numaNodes resources (minAvgDistanceInCombinations numaNodes cs) cs None (f32 256)"

text \<open>The loop over the size \<open>bitmaskLen\<close> of the combinations; the fuel is the number of sizes left.\<close>

fun requiredLoop :: "string \<Rightarrow> NUMANodeList \<Rightarrow> ResourceList \<Rightarrow> nat \<Rightarrow> nat \<Rightarrow> (bitMask \<times> bool) option" where
  "requiredLoop qos numaNodes resources 0 bitmaskLen = None"
| "requiredLoop qos numaNodes resources (Suc left) bitmaskLen =
     (case findSuitableCombination qos numaNodes resources (Combinations (length numaNodes) bitmaskLen) of
        (Some combination, isMinDistance) \<Rightarrow>
          Some (foldl (\<lambda>bm nodeIdx. maskAdd (NUMAID (numaNodes ! nodeIdx)) bm) 0 combination, isMinDistance)
      | (None, _) \<Rightarrow> requiredLoop qos numaNodes resources left (Suc bitmaskLen))"

definition numaNodesRequired :: "string \<Rightarrow> NUMANodeList \<Rightarrow> ResourceList \<Rightarrow> (bitMask \<times> bool) option" where
  "numaNodesRequired qos numaNodes resources = requiredLoop qos numaNodes resources (length numaNodes) 1"

definition maskCount :: "bitMask \<Rightarrow> nat" where
  "maskCount s = length (GetBits s)"

definition normalizeScore :: "nat \<Rightarrow> bool \<Rightarrow> int64" where
  "normalizeScore numaNodesCount isMinAvgDistance =
     (let numaNodeScore = int64_div MaxNodeScore (word_of_int highestNUMAID);
          score = MaxNodeScore - of_nat numaNodesCount * numaNodeScore
      in if isMinAvgDistance then score + int64_div numaNodeScore 2 else score)"

definition leastNUMAPodScopeScore :: "Pod \<Rightarrow> Zone list \<Rightarrow> int64 option" where
  "leastNUMAPodScopeScore pod zones =
     (case createNUMANodeList zones of
        None \<Rightarrow> None
      | Some nodes \<Rightarrow>
          (let resources = GetPodEffectiveRequest pod
           in if onlyNonNUMAResources nodes resources then Some MaxNodeScore
              else (case numaNodesRequired (GetPodQOS pod) nodes resources of
                None \<Rightarrow> Some MinNodeScore
              | Some (numaNodes, isMinAvgDistance) \<Rightarrow> Some (normalizeScore (maskCount numaNodes) isMinAvgDistance))))"

fun leastNUMALoop :: "string \<Rightarrow> Container list \<Rightarrow> NUMANodeList \<Rightarrow> nat \<Rightarrow> bool \<Rightarrow> int64 option" where
  "leastNUMALoop qos [] nodes maxCount allMin = Some (if maxCount = 0 then MaxNodeScore else normalizeScore maxCount allMin)"
| "leastNUMALoop qos (c # cs) nodes maxCount allMin =
     (if onlyNonNUMAResources nodes (ctrRequests c) then leastNUMALoop qos cs nodes maxCount allMin
      else (case numaNodesRequired qos nodes (ctrRequests c) of
        None \<Rightarrow> Some MinNodeScore
      | Some (numaNodes, isMinAvgDistance) \<Rightarrow>
          (case subtractFromNUMAs (ctrRequests c) nodes (GetBits numaNodes) of
             None \<Rightarrow> None
           | Some nodes' \<Rightarrow> leastNUMALoop qos cs nodes' (max maxCount (maskCount numaNodes)) (allMin \<and> isMinAvgDistance))))"

definition leastNUMAContainerScopeScore :: "Pod \<Rightarrow> Zone list \<Rightarrow> int64 option" where
  "leastNUMAContainerScopeScore pod zones =
     (case createNUMANodeList zones of
        None \<Rightarrow> None
      | Some nodes \<Rightarrow> leastNUMALoop (GetPodQOS pod) (podInitContainers pod @ podContainers pod) nodes 0 True)"

section \<open>The score extension\<close>

text \<open>The strategy function of a strategy; the outer \<open>None\<close> is the error of an unknown one, the inner one the special case.\<close>

definition getScoringStrategyFunction :: "int64 \<Rightarrow> string \<Rightarrow> scoreStrategyFn option option" where
  "getScoringStrategyFunction nan strategy =
     (if strategy = ''MostAllocated'' then Some (Some mostAllocatedScoreStrategy)
      else if strategy = ''LeastAllocated'' then Some (Some leastAllocatedScoreStrategy)
      else if strategy = ''BalancedAllocation'' then Some (Some (balancedAllocationScoreStrategy nan))
      else if strategy = ''LeastNUMANodes'' then Some None
      else None)"

record TopologyMatch =
  tmResourceToWeightMap :: resourceToWeightMap
  tmScoreStrategyFunc :: "scoreStrategyFn option"
  tmScoreStrategyType :: string

definition NewTopologyMatch :: "int64 \<Rightarrow> string \<Rightarrow> (string \<times> int64) list \<Rightarrow> TopologyMatch option" where
  "NewTopologyMatch nan strategy resources =
     map_option (\<lambda>f. \<lparr>tmResourceToWeightMap = fold (\<lambda>(name, w). AList.update name w) resources [],
       tmScoreStrategyFunc = f, tmScoreStrategyType = strategy\<rparr>) (getScoringStrategyFunction nan strategy)"

text \<open>A handler, when there is one; calling the nil strategy function would panic.\<close>

definition scoringHandlerFromTopologyManagerConfig ::
    "int64 \<Rightarrow> TopologyMatch \<Rightarrow> TopologyManager \<Rightarrow> (Pod \<Rightarrow> Zone list \<Rightarrow> int64 option) option" where
  "scoringHandlerFromTopologyManagerConfig nan tm conf =
     (let scorerFn = (case tmScoreStrategyFunc tm of None \<Rightarrow> (\<lambda>_ _ _. None) | Some f \<Rightarrow> f)
      in if tmScoreStrategyType tm = ''LeastNUMANodes'' then
           (if tmScope conf = ''pod'' then Some leastNUMAPodScopeScore
            else if tmScope conf = ''container'' then Some leastNUMAContainerScopeScore
            else None)
         else if tmPolicy conf \<noteq> ''single-numa-node'' then None
         else if tmScope conf = ''pod'' then Some (podScopeScore scorerFn (tmResourceToWeightMap tm))
         else if tmScope conf = ''container'' then Some (containerScopeScore nan scorerFn (tmResourceToWeightMap tm))
         else None)"

definition Score ::
    "int64 \<Rightarrow> TopologyMatch \<Rightarrow> (string \<Rightarrow> NodeResourceTopology option \<times> bool) \<Rightarrow> Pod \<Rightarrow> string \<Rightarrow> int64 option" where
  "Score nan tm get pod node =
     (if GetPodQOS pod \<noteq> PodQOSGuaranteed then Some MaxNodeScore
      else (case get node of
        (nodeTopology, fresh) \<Rightarrow>
          if \<not> fresh then Some 0
          else (case nodeTopology of
            None \<Rightarrow> Some 0
          | Some nrt \<Rightarrow>
              (case scoringHandlerFromTopologyManagerConfig nan tm (TopologyManagerFromNodeResourceTopology nrt) of
                 None \<Rightarrow> Some 0
               | Some handler \<Rightarrow> handler pod (nrtZones nrt)))))"

end
