(* ===== verification/Numa_Score_Properties.thy ===== *)
theory Numa_Score_Properties
  imports Numa_Score Numa_Filter_Properties
begin

text \<open>
  What the strategy \<^verbatim>\<open>LeastNUMANodes\<close> computes: the search over combinations finds a smallest set of NUMA nodes that
  together hold a request, of least average distance among those, and the score falls with its size.
\<close>

section \<open>Combined resources\<close>

lemma combine_one:
  assumes "distinct (map fst rl)"
  shows "quantityOf (foldl (\<lambda>resources (res, quantity).
         case map_of resources res of
           Some value \<Rightarrow> AList.update res (value + quantity) resources
         | None \<Rightarrow> AList.update res quantity resources) acc rl) name = quantityOf acc name + quantityOf rl name"
  using assms
proof (induction rl arbitrary: acc)
  case (Cons e rl)
  obtain res q where e: "e = (res, q)" by (cases e)
  have "map_of rl res = None" using Cons.prems by (auto simp: e map_of_eq_None_iff)
  then show ?case using Cons by (auto simp: e quantityOf_def update_conv' split: option.splits)
qed (simp add: quantityOf_def)

lemma combineResources_sum:
  assumes "\<forall>node \<in> set nodes. distinct (map fst (nnResources node))" "set c \<subseteq> {..<length nodes}"
  shows "quantityOf (combineResources nodes c) name = (\<Sum>i\<leftarrow>c. quantityOf (nnResources (nodes ! i)) name)"
  using assms(2)
proof (induction c rule: rev_induct)
  case (snoc i c)
  then show ?case using assms(1) by (simp add: combineResources_def combine_one)
qed (simp add: combineResources_def quantityOf_def)

text \<open>The NUMA nodes with indices in a set have all resources of a request, and together enough of each.\<close>

definition fits_on :: "string \<Rightarrow> NUMANodeList \<Rightarrow> ResourceList \<Rightarrow> nat set \<Rightarrow> bool" where
  "fits_on qos nodes resources S \<longleftrightarrow> S \<subseteq> {..<length nodes} \<and>
     (\<forall>i \<in> S. \<forall>(res, q) \<in> set resources. has_key (nnResources (nodes ! i)) res) \<and>
     (\<forall>(res, q) \<in> set resources. q = 0 \<or> isResourceSetSuitable qos res q (\<Sum>i \<in> S. quantityOf (nnResources (nodes ! i)) res))"

lemma combination_fits:
  assumes "\<forall>node \<in> set nodes. distinct (map fst (nnResources node))" "sorted_wrt (<) c" "set c \<subseteq> {..<length nodes}"
  shows "isValidCombineResources nodes resources c \<and> checkResourcesFit qos resources (combineResources nodes c) \<longleftrightarrow>
    fits_on qos nodes resources (set c)"
proof -
  have "distinct c" using assms(2) by (simp add: strict_sorted_iff)
  then have "(\<Sum>i\<leftarrow>c. quantityOf (nnResources (nodes ! i)) name) = (\<Sum>i \<in> set c. quantityOf (nnResources (nodes ! i)) name)" for name
    by (simp add: sum_list_distinct_conv_sum_set)
  then show ?thesis using assms(3) combineResources_sum [OF assms(1,3)]
    by (auto simp: isValidCombineResources_def checkResourcesFit_def fits_on_def list_all_iff split_def)
qed

section \<open>The search among combinations of one size\<close>

lemma minAvg_bounds:
  "minAvgDistanceInCombinations nodes cs \<le> 255" "c \<in> set cs \<Longrightarrow> minAvgDistanceInCombinations nodes cs \<le> nodesAvgDistance nodes c"
  "minAvgDistanceInCombinations nodes cs = 255 \<or> (\<exists>c \<in> set cs. minAvgDistanceInCombinations nodes cs = nodesAvgDistance nodes c)"
proof -
  have f: "f32 (sint maxDistanceValue) = 255" using fround_int [of 255 24] by (simp add: f32_def maxDistanceValue_def)
  have "minAvgDistanceInCombinations nodes cs \<le> 255 \<and> (\<forall>c \<in> set cs. minAvgDistanceInCombinations nodes cs \<le> nodesAvgDistance nodes c) \<and>
    (minAvgDistanceInCombinations nodes cs = 255 \<or> (\<exists>c \<in> set cs. minAvgDistanceInCombinations nodes cs = nodesAvgDistance nodes c))"
    by (induction cs rule: rev_induct) (auto simp: minAvgDistanceInCombinations_def f)
  then show "minAvgDistanceInCombinations nodes cs \<le> 255" "c \<in> set cs \<Longrightarrow> minAvgDistanceInCombinations nodes cs \<le> nodesAvgDistance nodes c"
    "minAvgDistanceInCombinations nodes cs = 255 \<or> (\<exists>c \<in> set cs. minAvgDistanceInCombinations nodes cs = nodesAvgDistance nodes c)" by auto
qed

lemma findLoop_spec:
  defines "fit nodes resources qos c \<equiv> isValidCombineResources nodes resources c \<and> checkResourcesFit qos resources (combineResources nodes c)"
  assumes "findLoop qos nodes resources m cs best d = (r, flag)"
    and "\<forall>c \<in> set cs. nodesAvgDistance nodes c < 256 \<and> m \<le> nodesAvgDistance nodes c"
    and "case best of None \<Rightarrow> d = 256 | Some b \<Rightarrow> d = nodesAvgDistance nodes b \<and> m < d"
  shows "(r = None \<longleftrightarrow> best = None \<and> \<not> (\<exists>c \<in> set cs. fit nodes resources qos c)) \<and>
    (\<forall>c. r = Some c \<longrightarrow> (best = Some c \<or> c \<in> set cs \<and> fit nodes resources qos c) \<and> nodesAvgDistance nodes c \<le> d \<and>
       (\<forall>c' \<in> set cs. fit nodes resources qos c' \<longrightarrow> nodesAvgDistance nodes c \<le> nodesAvgDistance nodes c') \<and>
       (flag \<longleftrightarrow> nodesAvgDistance nodes c = m))"
  using assms(2-4)
proof (induction cs arbitrary: best d)
  case Nil
  then show ?case by (auto split: option.splits)
next
  case (Cons c cs)
  consider "\<not> fit nodes resources qos c" | "fit nodes resources qos c" "nodesAvgDistance nodes c = m"
    | "fit nodes resources qos c" "m < nodesAvgDistance nodes c" "nodesAvgDistance nodes c < d"
    | "fit nodes resources qos c" "m < nodesAvgDistance nodes c" "d \<le> nodesAvgDistance nodes c" using Cons.prems(2) by force
  then show ?case
  proof cases
    case 1
    then have "findLoop qos nodes resources m cs best d = (r, flag)" using Cons.prems(1) by (auto simp: fit_def)
    then show ?thesis using 1 Cons.IH [of best d] Cons.prems by auto
  next
    case 2
    then have "r = Some c" "flag" using Cons.prems(1) by (auto simp: fit_def)
    then show ?thesis using 2 Cons.prems(2,3) by (auto split: option.splits)
  next
    case 3
    then have "findLoop qos nodes resources m cs (Some c) (nodesAvgDistance nodes c) = (r, flag)" using Cons.prems(1) by (auto simp: fit_def)
    then show ?thesis using 3 Cons.IH [of "Some c" "nodesAvgDistance nodes c"] Cons.prems by auto
  next
    case 4
    then have "findLoop qos nodes resources m cs best d = (r, flag)" using Cons.prems(1) by (auto simp: fit_def)
    then show ?thesis using 4 Cons.IH [of best d] Cons.prems by (auto split: option.splits)
  qed
qed

section \<open>Distances\<close>

definition costs_ok :: "NUMANodeList \<Rightarrow> bool" where
  "costs_ok nodes \<longleftrightarrow> (\<forall>node \<in> set nodes. \<forall>(i, cost) \<in> set (nnCosts node). 0 \<le> cost \<and> cost \<le> 255)"

lemma sum_words_bound:
  fixes f :: "'a \<Rightarrow> int64"
  assumes "\<forall>x \<in> set xs. 0 \<le> sint (f x) \<and> sint (f x) \<le> B" "0 \<le> B" "int (length xs) * B < 2 ^ 63"
  shows "0 \<le> sint (\<Sum>x\<leftarrow>xs. f x) \<and> sint (\<Sum>x\<leftarrow>xs. f x) \<le> int (length xs) * B"
  using assms
proof (induction xs)
  case (Cons x xs)
  then have ih: "0 \<le> sint (\<Sum>x\<leftarrow>xs. f x)" "sint (\<Sum>x\<leftarrow>xs. f x) \<le> int (length xs) * B" by (auto simp: algebra_simps)
  moreover have "0 \<le> sint (f x)" "sint (f x) \<le> B" using Cons.prems(1) by auto
  ultimately have "int64_range (sint (f x) + sint (\<Sum>x\<leftarrow>xs. f x))"
    using Cons.prems(3) by (auto simp: int64_range_def algebra_simps)
  then have "sint (\<Sum>x\<leftarrow>x # xs. f x) = sint (f x) + sint (\<Sum>x\<leftarrow>xs. f x)" by (simp add: sint_add64)
  then show ?case using ih \<open>0 \<le> sint (f x)\<close> \<open>sint (f x) \<le> B\<close> by (simp add: algebra_simps)
qed simp

lemma nodeCost_bound: "costs_ok nodes \<Longrightarrow> i < length nodes \<Longrightarrow> 0 \<le> sint (nodeCost nodes i j) \<and> sint (nodeCost nodes i j) \<le> 255"
proof -
  assume ok: "costs_ok nodes" "i < length nodes"
  have "0 \<le> cost \<and> cost \<le> 255" if "map_of (nnCosts (nodes ! i)) k = Some cost" for k cost
    using ok map_of_SomeD [OF that] nth_mem [OF ok(2)] by (auto simp: costs_ok_def)
  then have "sint (word_of_int cost :: int64) = cost" "0 \<le> cost" "cost \<le> 255" if "map_of (nnCosts (nodes ! i)) k = Some cost" for k cost
    using that by (force simp: int64_range_def intro!: sint_word_of_int64)+
  then show ?thesis by (auto simp: nodeCost_def maxDistanceValue_def split: option.split)
qed

text \<open>The sums are exact in 24 bits; only the quotient is rounded, and not above the largest distance.\<close>

lemma distance_bound:
  assumes "costs_ok nodes" "set c \<subseteq> {..<length nodes}" "length c \<le> 64"
  shows "nodesAvgDistance nodes c \<le> 255"
proof (cases "c = []")
  case True
  then show ?thesis using fround_int [of 255 24] by (simp add: nodesAvgDistance_def f32_def maxDistanceValue_def)
next
  case False
  let ?k = "int (length c)" and ?a = "sint (\<Sum>i\<leftarrow>c. \<Sum>j\<leftarrow>c. nodeCost nodes i j)"
  have k: "0 < ?k" "?k \<le> 64" using False assms(3) by auto
  then have kk: "0 < ?k * ?k" "?k * ?k \<le> 4096" using mult_mono [of ?k 64 ?k 64] by auto
  have "0 \<le> sint (\<Sum>j\<leftarrow>c. nodeCost nodes i j) \<and> sint (\<Sum>j\<leftarrow>c. nodeCost nodes i j) \<le> ?k * 255" if "i \<in> set c" for i
    using that assms k by (intro sum_words_bound) (auto intro!: nodeCost_bound)
  then have "0 \<le> ?a \<and> ?a \<le> ?k * (?k * 255)" using kk by (intro sum_words_bound) auto
  then have a: "0 \<le> ?a" "?a \<le> 255 * (?k * ?k)" by (auto simp: algebra_simps)
  then have "\<bar>?a\<bar> < 2 ^ 24" "\<bar>?k * ?k\<bar> < 2 ^ 24" using kk by auto
  then have f: "f32 ?a = of_int ?a" "f32 (?k * ?k) = of_int (?k * ?k)" unfolding f32_def by (simp_all only: fround_int)
  have "(of_int ?a :: rat) \<le> of_int (255 * (?k * ?k))" using a(2) by (simp only: of_int_le_iff)
  then have "(of_int ?a :: rat) / of_int (?k * ?k) \<le> 255" using k by (simp add: divide_le_eq)
  moreover have "0 \<le> (of_int ?a :: rat) / of_int (?k * ?k)" using a(1) kk(1) by (intro divide_nonneg_pos) (simp_all only: of_int_0_le_iff of_int_0_less_iff)
  ultimately have "fdiv32 (f32 ?a) (f32 (?k * ?k)) \<le> 255"
    using fround_between(2) [of 24 0 255 "of_int ?a / of_int (?k * ?k)"] unfolding f fdiv32_def by simp
  then show ?thesis using False by (simp add: nodesAvgDistance_def)
qed

section \<open>Smallest sets of nodes\<close>

definition distance_of :: "NUMANodeList \<Rightarrow> nat set \<Rightarrow> rat" where
  "distance_of nodes S = nodesAvgDistance nodes (sorted_list_of_set S)"

definition nodes_ok :: "NUMANodeList \<Rightarrow> bool" where
  "nodes_ok nodes \<longleftrightarrow> costs_ok nodes \<and> length nodes \<le> 64 \<and> (\<forall>node \<in> set nodes. distinct (map fst (nnResources node)))"

lemma sorted_list_of_subset:
  assumes "S \<subseteq> {..<length nodes}"
  shows "sorted_list_of_set S \<in> set (Combinations (length nodes) (card S))" "set (sorted_list_of_set S) = S"
proof -
  have "finite S" "card S \<le> length nodes" using assms finite_subset card_mono [OF _ assms] by auto
  then show "sorted_list_of_set S \<in> set (Combinations (length nodes) (card S))" "set (sorted_list_of_set S) = S"
    using assms by (simp_all add: set_Combinations)
qed

lemma find_spec:
  assumes ok: "nodes_ok nodes" and k: "k \<le> length nodes"
    and find: "findSuitableCombination qos nodes resources (Combinations (length nodes) k) = (r, flag)"
  shows "(r = None \<longleftrightarrow> \<not> (\<exists>S. fits_on qos nodes resources S \<and> card S = k)) \<and>
    (\<forall>c. r = Some c \<longrightarrow> sorted_wrt (<) c \<and> length c = k \<and> fits_on qos nodes resources (set c) \<and>
      (flag \<longleftrightarrow> (\<exists>S. fits_on qos nodes resources S \<and> card S = k \<and>
        (\<forall>U. U \<subseteq> {..<length nodes} \<longrightarrow> card U = k \<longrightarrow> distance_of nodes S \<le> distance_of nodes U))))"
proof -
  let ?cs = "Combinations (length nodes) k" and ?m = "minAvgDistanceInCombinations nodes (Combinations (length nodes) k)"
  let ?fit = "\<lambda>c. isValidCombineResources nodes resources c \<and> checkResourcesFit qos resources (combineResources nodes c)"
  have cs: "length c = k \<and> sorted_wrt (<) c \<and> set c \<subseteq> {..<length nodes}" if "c \<in> set ?cs" for c using that by (simp add: set_Combinations [OF k])
  have fit: "?fit c \<longleftrightarrow> fits_on qos nodes resources (set c)" if "c \<in> set ?cs" for c
    using cs [OF that] ok by (intro combination_fits) (auto simp: nodes_ok_def)
  have dist: "nodesAvgDistance nodes c = distance_of nodes (set c)" "card (set c) = k" if "c \<in> set ?cs" for c
    using cs [OF that] by (simp_all add: distance_of_def strict_sorted_iff distinct_card sorted_list_of_set.idem_if_sorted_distinct)
  have le255: "nodesAvgDistance nodes c \<le> 255" if "c \<in> set ?cs" for c
    using cs [OF that] ok k by (intro distance_bound) (auto simp: nodes_ok_def)
  have sub: "\<exists>c \<in> set ?cs. set c = S" if "S \<subseteq> {..<length nodes}" "card S = k" for S using sorted_list_of_subset [OF that(1)] that(2) by auto
  have f256: "f32 256 = 256" using fround_int [of 256 24] by (simp add: f32_def)
  have "\<forall>c \<in> set ?cs. nodesAvgDistance nodes c < 256 \<and> ?m \<le> nodesAvgDistance nodes c" using le255 minAvg_bounds(2) by fastforce
  from findLoop_spec [OF find [unfolded findSuitableCombination_def] this]
  have none: "r = None \<longleftrightarrow> \<not> (\<exists>c \<in> set ?cs. ?fit c)"
    and some: "\<And>c. r = Some c \<Longrightarrow> c \<in> set ?cs \<and> ?fit c \<and> (\<forall>c' \<in> set ?cs. ?fit c' \<longrightarrow> nodesAvgDistance nodes c \<le> nodesAvgDistance nodes c') \<and>
      (flag \<longleftrightarrow> nodesAvgDistance nodes c = ?m)"
    by (auto simp: f256)
  have "r = None \<longleftrightarrow> \<not> (\<exists>S. fits_on qos nodes resources S \<and> card S = k)" unfolding none using fit sub dist(2) by (metis fits_on_def)
  moreover have "sorted_wrt (<) c \<and> length c = k \<and> fits_on qos nodes resources (set c) \<and>
      (flag \<longleftrightarrow> (\<exists>S. fits_on qos nodes resources S \<and> card S = k \<and>
        (\<forall>U. U \<subseteq> {..<length nodes} \<longrightarrow> card U = k \<longrightarrow> distance_of nodes S \<le> distance_of nodes U)))" if r: "r = Some c" for c
  proof -
    note c = some [OF r]
    have "nodesAvgDistance nodes c = ?m \<longleftrightarrow> (\<exists>S. fits_on qos nodes resources S \<and> card S = k \<and>
        (\<forall>U. U \<subseteq> {..<length nodes} \<longrightarrow> card U = k \<longrightarrow> distance_of nodes S \<le> distance_of nodes U))" (is "?l \<longleftrightarrow> ?r")
    proof
      assume ?l
      then have "distance_of nodes (set c) \<le> distance_of nodes U" if "U \<subseteq> {..<length nodes}" "card U = k" for U
        using sub [OF that] dist c minAvg_bounds(2) by metis
      moreover have "fits_on qos nodes resources (set c)" "card (set c) = k" using c fit [of c] dist(2) [of c] by simp_all
      ultimately show ?r by (intro exI [of _ "set c"]) simp
    next
      assume ?r
      then obtain c' where c': "c' \<in> set ?cs" "?fit c'" and least: "\<forall>U. U \<subseteq> {..<length nodes} \<longrightarrow> card U = k \<longrightarrow> nodesAvgDistance nodes c' \<le> distance_of nodes U"
      proof -
        from \<open>?r\<close> obtain S where S: "fits_on qos nodes resources S" "card S = k"
            "\<forall>U. U \<subseteq> {..<length nodes} \<longrightarrow> card U = k \<longrightarrow> distance_of nodes S \<le> distance_of nodes U" by blast
        then obtain c' where "c' \<in> set ?cs" "set c' = S" using sub [of S] by (auto simp: fits_on_def)
        then show ?thesis using that S fit [of c'] dist(1) [of c'] by simp
      qed
      have "nodesAvgDistance nodes c \<le> nodesAvgDistance nodes u" if "u \<in> set ?cs" for u
      proof -
        have "nodesAvgDistance nodes c \<le> nodesAvgDistance nodes c'" using c c' by blast
        also have "\<dots> \<le> nodesAvgDistance nodes u" using least cs [OF that] dist [OF that] by simp
        finally show ?thesis .
      qed
      moreover have "?m \<le> nodesAvgDistance nodes c" "nodesAvgDistance nodes c \<le> 255" using c le255 minAvg_bounds(2) by blast+
      ultimately show ?l using minAvg_bounds(3) [of nodes ?cs] by fastforce
    qed
    moreover have "sorted_wrt (<) c \<and> length c = k \<and> fits_on qos nodes resources (set c)" using c fit [of c] cs [of c] by simp
    ultimately show ?thesis using c by simp
  qed
  ultimately show ?thesis by blast
qed

section \<open>The smallest size\<close>

abbreviation ids_mask :: "NUMANodeList \<Rightarrow> nat list \<Rightarrow> bitMask" where
  "ids_mask nodes c \<equiv> foldl (\<lambda>bm i. maskAdd (NUMAID (nodes ! i)) bm) 0 c"

lemma bit_ids_mask: "bit (ids_mask nodes c) n \<longleftrightarrow> n < 64 \<and> (\<exists>i \<in> set c. NUMAID (nodes ! i) = int n)"
  by (induction c rule: rev_induct) (auto simp: bit_maskAdd)

lemma maskCount_ids:
  assumes "distinct (map NUMAID nodes)" "\<forall>node \<in> set nodes. 0 \<le> NUMAID node \<and> NUMAID node < 64"
    and "set c \<subseteq> {..<length nodes}" "distinct c"
  shows "maskCount (ids_mask nodes c) = length c"
proof -
  have range: "0 \<le> NUMAID (nodes ! i) \<and> NUMAID (nodes ! i) < 64" if "i \<in> set c" for i using assms(2,3) that by force
  have "{n. bit (ids_mask nodes c) n} = (\<lambda>i. nat (NUMAID (nodes ! i))) ` set c"
    using range by (force simp: bit_ids_mask image_iff)
  moreover have "inj_on (\<lambda>i. nat (NUMAID (nodes ! i))) (set c)"
  proof (rule inj_onI)
    fix i j assume ij: "i \<in> set c" "j \<in> set c" "nat (NUMAID (nodes ! i)) = nat (NUMAID (nodes ! j))"
    then have "NUMAID (nodes ! i) = NUMAID (nodes ! j)" using range [OF ij(1)] range [OF ij(2)] by linarith
    then show "i = j" using ij assms(1,3) nth_eq_iff_index_eq [OF assms(1), of i j] by auto
  qed
  moreover have "distinct (GetBits s)" for s by (simp add: GetBits_def)
  ultimately show ?thesis
    using assms(4) by (simp add: maskCount_def GetBits_set card_image distinct_card flip: distinct_card [of "GetBits _"])
qed

text \<open>A set of nodes that fits, none smaller (but not below a given size) fitting.\<close>

definition smallest_fit :: "string \<Rightarrow> NUMANodeList \<Rightarrow> ResourceList \<Rightarrow> nat \<Rightarrow> nat \<Rightarrow> bool" where
  "smallest_fit qos nodes resources b k \<longleftrightarrow>
     b \<le> k \<and> (\<exists>S. fits_on qos nodes resources S \<and> card S = k) \<and> (\<forall>S. fits_on qos nodes resources S \<and> b \<le> card S \<longrightarrow> k \<le> card S)"

definition nearest_fit :: "string \<Rightarrow> NUMANodeList \<Rightarrow> ResourceList \<Rightarrow> nat \<Rightarrow> bool" where
  "nearest_fit qos nodes resources k \<longleftrightarrow>
     (\<exists>S. fits_on qos nodes resources S \<and> card S = k \<and>
        (\<forall>U. U \<subseteq> {..<length nodes} \<longrightarrow> card U = k \<longrightarrow> distance_of nodes S \<le> distance_of nodes U))"

lemma fits_card: "fits_on qos nodes resources S \<Longrightarrow> card S \<le> length nodes"
  using card_mono [of "{..<length nodes}" S] by (simp add: fits_on_def)

lemma requiredLoop_spec:
  assumes "nodes_ok nodes" "left + b = Suc (length nodes)"
  shows "case requiredLoop qos nodes resources left b of
      None \<Rightarrow> \<not> (\<exists>S. fits_on qos nodes resources S \<and> b \<le> card S)
    | Some (bm, flag) \<Rightarrow> \<exists>c. bm = ids_mask nodes c \<and> sorted_wrt (<) c \<and> fits_on qos nodes resources (set c) \<and>
        smallest_fit qos nodes resources b (length c) \<and> flag = nearest_fit qos nodes resources (length c)"
  using assms(2)
proof (induction left arbitrary: b)
  case 0
  then show ?case using fits_card [of qos nodes resources] by fastforce
next
  case (Suc left)
  obtain r flag where find: "findSuitableCombination qos nodes resources (Combinations (length nodes) b) = (r, flag)" by fastforce
  have b: "b \<le> length nodes" using Suc.prems by simp
  note spec = find_spec [OF assms(1) b find]
  show ?case
  proof (cases r)
    case None
    then have "card S \<noteq> b" if "fits_on qos nodes resources S" for S using spec that by auto
    then have "(fits_on qos nodes resources S \<and> b \<le> card S) = (fits_on qos nodes resources S \<and> Suc b \<le> card S)" for S
      by (auto simp: Suc_le_eq le_less)
    then show ?thesis using Suc.IH [of "Suc b"] Suc.prems find None
      by (auto simp: smallest_fit_def Suc_le_eq split: option.splits)
  next
    case (Some c)
    then have "sorted_wrt (<) c" "length c = b" "fits_on qos nodes resources (set c)" "flag = nearest_fit qos nodes resources b"
      using spec by (simp_all add: nearest_fit_def)
    moreover from this have "smallest_fit qos nodes resources b (length c)"
      by (auto simp: smallest_fit_def strict_sorted_iff distinct_card intro!: exI [of _ "set c"])
    ultimately show ?thesis using find Some by auto
  qed
qed

section \<open>The score\<close>

lemma NameToID_nonneg: "NameToID s = Some i \<Longrightarrow> 0 \<le> i"
  by (auto simp: NameToID_def split: if_splits option.splits)

lemma createNUMANodeList_ok:
  assumes "createNUMANodeList zones = Some nodes" "node \<in> set nodes"
  shows "0 \<le> NUMAID node" "NUMAID node < 64" "distinct (map fst (nnResources node))"
proof -
  let ?ok = "\<lambda>node. 0 \<le> NUMAID node \<and> NUMAID node < 64 \<and> distinct (map fst (nnResources node))"
  have ext: "distinct (map fst (extractResources z))" for z
  proof -
    have "distinct (map fst (fold (\<lambda>ri. AList.update (riName ri) (riAvailable ri)) rs acc))" if "distinct (map fst acc)"
      for rs :: "ResourceInfo list" and acc :: ResourceList
      using that by (induction rs arbitrary: acc) (simp_all add: distinct_update)
    then show ?thesis by (simp add: extractResources_def)
  qed
  have "collectZones i zs idx acc = Some (idx', ns) \<Longrightarrow> \<forall>n \<in> set acc. ?ok n \<Longrightarrow> \<forall>n \<in> set ns. ?ok n" for i zs idx acc idx' ns
  proof (induction zs arbitrary: i idx acc)
    case (Cons z zs)
    show ?case
    proof (cases "NameToID (zoneName z)")
      case None
      then show ?thesis using Cons.IH [of "Suc i" idx acc] Cons.prems by (simp split: if_splits)
    next
      case (Some k)
      then consider "collectZones (Suc i) zs idx acc = Some (idx', ns)"
        | "k < 64" "collectZones (Suc i) zs (AList.update k i idx) (acc @ [\<lparr>NUMAID = k, nnResources = extractResources z, nnCosts = []\<rparr>]) = Some (idx', ns)"
        using Cons.prems(1) by (simp add: maxNUMAId_def split: if_splits)
      then show ?thesis
      proof cases
        case 1
        then show ?thesis using Cons.prems(2) by (rule Cons.IH)
      next
        case 2
        show ?thesis using Cons.IH [OF 2(2)] Cons.prems(2) NameToID_nonneg [OF Some] 2(1) ext [of z] by simp
      qed
    qed
  qed simp
  note collected = this
  obtain idx ns n c where "collectZones 0 zones [] [] = Some (idx, ns)" "n \<in> set ns" "node = n\<lparr>nnCosts := c\<rparr>"
    using assms by (auto simp: createNUMANodeList_def)
  then have "?ok node" using collected [of 0 zones "[]" "[]" idx ns] by auto
  then show "0 \<le> NUMAID node" "NUMAID node < 64" "distinct (map fst (nnResources node))" by auto
qed

lemma created_nodes_ok:
  assumes "createNUMANodeList zones = Some nodes" "distinct (map NUMAID nodes)" "costs_ok nodes"
  shows "nodes_ok nodes"
proof -
  have "length nodes = card (set (map NUMAID nodes))" using assms(2) by (metis distinct_card length_map)
  also have "\<dots> \<le> card {0 :: int..<64}" using createNUMANodeList_ok [OF assms(1)] by (intro card_mono) auto
  finally show ?thesis using createNUMANodeList_ok(3) [OF assms(1)] assms(3) by (simp add: nodes_ok_def)
qed

lemma normalizeScore_value: "normalizeScore k flag = word_of_int ((if flag then 106 else 100) - 12 * int k)"
  by (simp add: normalizeScore_def Let_def MaxNodeScore_def highestNUMAID_def int64_div_def)

text \<open>\<^bold>\<open>C7\<close> The strategy \<^verbatim>\<open>LeastNUMANodes\<close> at pod scope scores a node by the smallest number \<open>k\<close> of NUMA nodes that
  together hold the pod's request: \<open>100 - 12 * k\<close>, and \<open>6\<close> more exactly if some set of that size holds it whose
  average distance is the least of all sets of \<open>k\<close> nodes. A node on which no set of NUMA nodes holds the request scores 0.
  The ids of the NUMA nodes are distinct and distances are at most 255, the largest the firmware can report.\<close>

theorem least_numa_pod_score:
  assumes "createNUMANodeList zones = Some nodes" "distinct (map NUMAID nodes)" "costs_ok nodes"
    and "\<not> onlyNonNUMAResources nodes (GetPodEffectiveRequest pod)"
  defines "fits \<equiv> \<lambda>S. S \<noteq> {} \<and> fits_on (GetPodQOS pod) nodes (GetPodEffectiveRequest pod) S"
  shows "leastNUMAPodScopeScore pod zones =
    (if \<exists>S. fits S then
       (let k = (LEAST k. \<exists>S. fits S \<and> card S = k)
        in Some (word_of_int
          ((if \<exists>T. fits T \<and> card T = k \<and> (\<forall>U \<subseteq> {..<length nodes}. card U = k \<longrightarrow> distance_of nodes T \<le> distance_of nodes U)
            then 106 else 100) - 12 * int k)))
     else Some 0)"
proof -
  let ?q = "GetPodQOS pod" and ?r = "GetPodEffectiveRequest pod"
  have ok: "nodes_ok nodes" using assms(1-3) by (rule created_nodes_ok)
  have fits: "fits T \<longleftrightarrow> fits_on ?q nodes ?r T \<and> 1 \<le> card T" for T
    using finite_subset [of T "{..<length nodes}"] by (auto simp: fits_def fits_on_def Suc_le_eq card_gt_0_iff)
  have score: "leastNUMAPodScopeScore pod zones = (case requiredLoop ?q nodes ?r (length nodes) 1 of
      None \<Rightarrow> Some 0 | Some (bm, flag) \<Rightarrow> Some (normalizeScore (maskCount bm) flag))"
    using assms(1,4) by (simp add: leastNUMAPodScopeScore_def numaNodesRequired_def MinNodeScore_def split: option.split)
  note spec = requiredLoop_spec [OF ok, of "length nodes" 1 ?q ?r]
  show ?thesis
  proof (cases "requiredLoop ?q nodes ?r (length nodes) 1")
    case None
    then show ?thesis using spec by (auto simp: score fits)
  next
    case (Some res)
    then obtain c flag where c: "res = (ids_mask nodes c, flag)" "sorted_wrt (<) c" "fits_on ?q nodes ?r (set c)"
        "smallest_fit ?q nodes ?r 1 (length c)" "flag = nearest_fit ?q nodes ?r (length c)"
      using spec by (cases res) auto
    have least: "(LEAST k. \<exists>S. fits S \<and> card S = k) = length c"
      using c(4) by (intro Least_equality) (auto simp: fits smallest_fit_def)
    have count: "maskCount (ids_mask nodes c) = length c"
      using assms(2) createNUMANodeList_ok [OF assms(1)] c(2,3) by (intro maskCount_ids) (auto simp: fits_on_def strict_sorted_iff)
    have pos: "1 \<le> length c" "\<exists>S. fits S" using c(4) by (auto simp: smallest_fit_def fits)
    then have "(fits T \<and> card T = length c) = (fits_on ?q nodes ?r T \<and> card T = length c)" for T by (auto simp: fits)
    then have "flag \<longleftrightarrow> (\<exists>T. fits T \<and> card T = length c \<and>
        (\<forall>U \<subseteq> {..<length nodes}. card U = length c \<longrightarrow> distance_of nodes T \<le> distance_of nodes U))"
      unfolding c(5) nearest_fit_def by (metis (no_types, lifting))
    then show ?thesis unfolding score Some c(1) option.case prod.case normalizeScore_value count least Let_def
      by (simp only: pos(2) if_True)
  qed
qed

definition ex_wide_pod :: Pod where
  "ex_wide_pod = zero_pod\<lparr>podContainers := [\<lparr>ctrName = ''c'', ctrRequests = [(''cpu'', 6000), (''memory'', 1000)],
     ctrLimits = [(''cpu'', 6000), (''memory'', 1000)], ctrSeccompProfile = None\<rparr>]\<rparr>"

lemma ex_wide_fits:
  "S \<noteq> {} \<and> fits_on (GetPodQOS ex_wide_pod) [ex_numa_node 0, ex_numa_node 1] (GetPodEffectiveRequest ex_wide_pod) S \<longleftrightarrow> S = {0, 1}"
proof -
  have q: "GetPodQOS ex_wide_pod = PodQOSGuaranteed" by code_simp
  have r: "GetPodEffectiveRequest ex_wide_pod = [(''cpu'', 6000), (''memory'', 1000)]" by code_simp
  let ?fits = "fits_on PodQOSGuaranteed [ex_numa_node 0, ex_numa_node 1] [(''cpu'', 6000), (''memory'', 1000)]"
  have "S \<in> {{}, {0}, {1}, {0, 1}}" if "S \<subseteq> {..<2}" for S :: "nat set"
  proof -
    have "{..<2 :: nat} = {0, 1}" by auto
    then have "S \<in> Pow {0, 1}" using that by simp
    then show ?thesis by (simp add: Pow_insert) blast
  qed
  moreover have "?fits S \<Longrightarrow> S \<subseteq> {..<2}" by (simp add: fits_on_def numeral_2_eq_2)
  moreover have "\<not> ?fits {0}" "\<not> ?fits {1}" "?fits {0, 1}"
    by (simp_all add: fits_on_def ex_numa_node_def quantityOf_def isResourceSetSuitable_def)
  ultimately show ?thesis unfolding q r by blast
qed

theorem least_numa_pod_score_witness:
  "costs_ok [ex_numa_node 0, ex_numa_node 1] \<and> leastNUMAPodScopeScore ex_wide_pod (nrtZones ex_nrt) = Some 82"
proof -
  let ?nodes = "[ex_numa_node 0, ex_numa_node 1]"
  have hyps: "distinct (map NUMAID ?nodes)" "costs_ok ?nodes" by (simp_all add: ex_numa_node_def costs_ok_def)
  have "\<not> onlyNonNUMAResources ?nodes (GetPodEffectiveRequest ex_wide_pod)" by code_simp
  note score = least_numa_pod_score [OF ex_numa_facts(1) hyps this, unfolded ex_wide_fits]
  have least: "(LEAST k. \<exists>S. S = {0 :: nat, 1} \<and> card S = k) = 2" by (intro Least_equality) auto
  have "U = {0, 1}" if "U \<subseteq> {..<length ?nodes}" "card U = 2" for U
    using that by (intro card_subset_eq) auto
  then have "\<exists>T. T = {0 :: nat, 1} \<and> card T = 2 \<and> (\<forall>U \<subseteq> {..<length ?nodes}. card U = 2 \<longrightarrow> distance_of ?nodes T \<le> distance_of ?nodes U)"
    by auto
  then show ?thesis using hyps(2) unfolding score least Let_def by simp
qed

section \<open>Out of range\<close>

text \<open>More than eight NUMA nodes make a score below the minimum, which the framework refuses.\<close>

lemma many_nodes_negative:
  assumes "9 \<le> k" "k \<le> 64"
  shows "sint (normalizeScore k flag) < 0"
proof -
  have "int64_range ((if flag then 106 else 100) - 12 * int k)" using assms by (auto simp: int64_range_def)
  then have "sint (normalizeScore k flag) = (if flag then 106 else 100) - 12 * int k" unfolding normalizeScore_value by (rule sint_word_of_int64)
  then show ?thesis using assms by auto
qed

text \<open>The scores per NUMA node are stored by id in an array as long as the list: ids that are not the first numbers panic.\<close>

lemma scoreLoop_panics: "node \<in> set nodes \<Longrightarrow> int len \<le> NUMAID node \<Longrightarrow> scoreLoop req len scorer rw nodes m = None"
  by (induction nodes arbitrary: m) (auto simp: Let_def split: option.split)

lemma sparse_ids_panic:
  "node \<in> set nodes \<Longrightarrow> int (length nodes) \<le> NUMAID node \<Longrightarrow> scoreForEachNUMANode req nodes scorer rw = None"
  by (simp add: scoreForEachNUMANode_def scoreLoop_panics)

end
