(* ===== verification/Numa_Cache.thy ===== *)
theory Numa_Cache
  imports Numa_Resources
begin

text \<open>
  The caches of the NUMA topology plugin (\<^verbatim>\<open>noderesourcetopology/cache\<close>): \<open>OverReserve\<close> takes the requests of pods
  scheduled since the last report from every zone of their node, \<open>DiscardReserved\<close> gives no data for a node with a
  reservation, \<open>Passthrough\<close> reads the API server. What a resynchronisation reads is the record \<open>resync_env\<close>; the
  fingerprint of a set of pods (\<^verbatim>\<open>podfingerprint\<close>) is its function \<open>reFingerprint\<close>, which compares.
\<close>

section \<open>Stores and counters\<close>

type_synonym nrtStore = "(string, NodeResourceTopology) gomap"
type_synonym resourceStore = "(string, ResourceList) gomap"
type_synonym counter = "(string, int64) gomap"

definition newNrtStore :: "NodeResourceTopology list \<Rightarrow> nrtStore" where
  "newNrtStore nrts = fold (\<lambda>nrt. AList.update (nrtName nrt) nrt) nrts []"

definition storeUpdate :: "NodeResourceTopology \<Rightarrow> nrtStore \<Rightarrow> nrtStore" where
  "storeUpdate nrt = AList.update (nrtName nrt) nrt"

definition podKey :: "Pod \<Rightarrow> string" where
  "podKey pod = podNamespace pod @ ''/'' @ podName pod"

definition AddPod :: "Pod \<Rightarrow> resourceStore \<Rightarrow> resourceStore" where
  "AddPod pod rs = AList.update (podKey pod) (GetPodEffectiveRequest pod) rs"

definition DeletePod :: "Pod \<Rightarrow> resourceStore \<Rightarrow> resourceStore" where
  "DeletePod pod rs = AList.delete (podKey pod) rs"

definition decrement :: "ResourceList \<Rightarrow> ResourceInfo \<Rightarrow> ResourceInfo" where
  "decrement res zr =
     (case map_of res (riName zr) of
        None \<Rightarrow> zr
      | Some qty \<Rightarrow> if riAvailable zr < qty then zr\<lparr>riAvailable := 0\<rparr> else zr\<lparr>riAvailable := riAvailable zr - qty\<rparr>)"

definition UpdateNRT :: "resourceStore \<Rightarrow> NodeResourceTopology \<Rightarrow> NodeResourceTopology" where
  "UpdateNRT rs nrt =
     fold (\<lambda>(key, res) nrt. nrt\<lparr>nrtZones := map (\<lambda>z. z\<lparr>zoneResources := map (decrement res) (zoneResources z)\<rparr>) (nrtZones nrt)\<rparr>) rs nrt"

definition Incr :: "string \<Rightarrow> counter \<Rightarrow> counter" where
  "Incr key cnt = AList.update key ((case map_of cnt key of None \<Rightarrow> 0 | Some v \<Rightarrow> v) + 1) cnt"

definition IsSet :: "string \<Rightarrow> counter \<Rightarrow> bool" where
  "IsSet key cnt = has_key cnt key"

definition CounterKeys :: "counter \<Rightarrow> string list" where
  "CounterKeys cnt = remdups (map fst cnt)"

section \<open>Over-reserving cache\<close>

record OverReserve =
  ovGeneration :: "64 word"
  ovNrts :: nrtStore
  ovAssumed :: "(string, resourceStore) gomap"
  ovMaybeOverreserved :: counter
  ovForeignPods :: counter
  ovAttrUpdate :: counter
  ovResyncMethod :: string

definition NewOverReserve :: "string option \<Rightarrow> NodeResourceTopology list \<Rightarrow> OverReserve" where
  "NewOverReserve method nrts = \<lparr>ovGeneration = 0, ovNrts = newNrtStore nrts, ovAssumed = [], ovMaybeOverreserved = [],
     ovForeignPods = [], ovAttrUpdate = [], ovResyncMethod = (case method of None \<Rightarrow> ''Autodetect'' | Some m \<Rightarrow> m)\<rparr>"

text \<open>The copy, whether it is fresh, and its generation.\<close>

definition GetCachedNRTCopy :: "OverReserve \<Rightarrow> string \<Rightarrow> NodeResourceTopology option \<times> bool \<times> 64 word" where
  "GetCachedNRTCopy ov node =
     (if IsSet node (ovForeignPods ov) then (None, False, 0)
      else (case map_of (ovNrts ov) node of
        None \<Rightarrow> (None, True, 0)
      | Some nrt \<Rightarrow>
          (case map_of (ovAssumed ov) node of
             None \<Rightarrow> (Some nrt, True, ovGeneration ov)
           | Some rs \<Rightarrow> (Some (UpdateNRT rs nrt), True, ovGeneration ov))))"

definition NodeMaybeOverReserved :: "string \<Rightarrow> OverReserve \<Rightarrow> OverReserve" where
  "NodeMaybeOverReserved node ov = ov\<lparr>ovMaybeOverreserved := Incr node (ovMaybeOverreserved ov)\<rparr>"

definition NodeHasForeignPods :: "string \<Rightarrow> OverReserve \<Rightarrow> OverReserve" where
  "NodeHasForeignPods node ov =
     (if has_key (ovNrts ov) node then ov\<lparr>ovForeignPods := Incr node (ovForeignPods ov)\<rparr> else ov)"

definition ReserveNodeResources :: "string \<Rightarrow> Pod \<Rightarrow> OverReserve \<Rightarrow> OverReserve" where
  "ReserveNodeResources node pod ov =
     (let rs = (case map_of (ovAssumed ov) node of None \<Rightarrow> [] | Some rs \<Rightarrow> rs)
      in ov\<lparr>ovAssumed := AList.update node (AddPod pod rs) (ovAssumed ov),
            ovMaybeOverreserved := AList.delete node (ovMaybeOverreserved ov)\<rparr>)"

definition UnreserveNodeResources :: "string \<Rightarrow> Pod \<Rightarrow> OverReserve \<Rightarrow> OverReserve" where
  "UnreserveNodeResources node pod ov =
     (case map_of (ovAssumed ov) node of
        None \<Rightarrow> ov
      | Some rs \<Rightarrow> ov\<lparr>ovAssumed := AList.update node (DeletePod pod rs) (ovAssumed ov)\<rparr>)"

definition flushNode :: "NodeResourceTopology \<Rightarrow> OverReserve \<Rightarrow> OverReserve" where
  "flushNode nrt ov =
     ov\<lparr>ovNrts := storeUpdate nrt (ovNrts ov), ovAssumed := AList.delete (nrtName nrt) (ovAssumed ov),
        ovMaybeOverreserved := AList.delete (nrtName nrt) (ovMaybeOverreserved ov),
        ovForeignPods := AList.delete (nrtName nrt) (ovForeignPods ov),
        ovAttrUpdate := AList.delete (nrtName nrt) (ovAttrUpdate ov)\<rparr>"

definition FlushNodes :: "NodeResourceTopology list \<Rightarrow> OverReserve \<Rightarrow> OverReserve" where
  "FlushNodes nrts ov =
     (if nrts = [] then ov else (let ov' = fold flushNode nrts ov in ov'\<lparr>ovGeneration := ovGeneration ov' + 1\<rparr>))"

section \<open>Resynchronisation\<close>

record DesyncedNodes =
  DesyncedGeneration :: "64 word"
  MaybeOverReserved :: "string list"
  ConfigChanged :: "string list"

definition GetDesyncedNodes :: "OverReserve \<Rightarrow> DesyncedNodes" where
  "GetDesyncedNodes ov =
     \<lparr>DesyncedGeneration = ovGeneration ov, MaybeOverReserved = CounterKeys (fold Incr (CounterKeys (ovMaybeOverreserved ov)) (ovForeignPods ov)),
      ConfigChanged = CounterKeys (ovAttrUpdate ov)\<rparr>"

record podData =
  pdNamespace :: string
  pdName :: string
  pdHasExclusiveResources :: bool

record resync_env =
  rePods :: "Pod list option"
  reRelevant :: "Pod \<Rightarrow> bool"
  reGet :: "string \<Rightarrow> NodeResourceTopology option"
  reFingerprint :: "(string \<times> string) list \<Rightarrow> string \<Rightarrow> bool"

definition makeNodeToPodDataMap :: "Pod list \<Rightarrow> (Pod \<Rightarrow> bool) \<Rightarrow> (string, podData list) gomap" where
  "makeNodeToPodDataMap pods isPodRelevant =
     fold (\<lambda>pod m.
       if \<not> isPodRelevant pod then m
       else AList.update (podNodeName pod)
              ((case map_of m (podNodeName pod) of None \<Rightarrow> [] | Some l \<Rightarrow> l) @
                [\<lparr>pdNamespace = podNamespace pod, pdName = podName pod, pdHasExclusiveResources = AreExclusiveForPod pod\<rparr>]) m) pods []"

definition podFingerprintForNodeTopology :: "NodeResourceTopology \<Rightarrow> string \<Rightarrow> string \<times> bool" where
  "podFingerprintForNodeTopology nrt method =
     (case map_of (nrtAttributes nrt) ''nodeTopologyPodsFingerprint'' of
        Some value \<Rightarrow>
          (value, method = ''OnlyExclusiveResources'' \<or>
             (method = ''Autodetect'' \<and> map_of (nrtAttributes nrt) ''nodeTopologyPodsFingerprintMethod'' = Some ''with-exclusive-resources''))
      | None \<Rightarrow>
          (case nrtAnnotations nrt of
             None \<Rightarrow> ('''', False)
           | Some m \<Rightarrow> ((case map_of m ''topology.node.k8s.io/fingerprint'' of None \<Rightarrow> '''' | Some v \<Rightarrow> v), False)))"

definition checkPodFingerprintForNode :: "resync_env \<Rightarrow> podData list \<Rightarrow> string \<Rightarrow> bool \<Rightarrow> bool" where
  "checkPodFingerprintForNode env objs pfpExpected onlyExclRes =
     reFingerprint env (map (\<lambda>d. (pdNamespace d, pdName d)) (filter (\<lambda>d. \<not> (onlyExclRes \<and> \<not> pdHasExclusiveResources d)) objs)) pfpExpected"

text \<open>The topology to store for a node that may be over-reserved, when its fingerprint matches the pods of the node.\<close>

definition resyncCandidate :: "resync_env \<Rightarrow> string \<Rightarrow> (string, podData list) gomap \<Rightarrow> string \<Rightarrow> NodeResourceTopology option" where
  "resyncCandidate env method nodeToObjsMap node =
     (case reGet env node of
        None \<Rightarrow> None
      | Some nrt \<Rightarrow>
          (case map_of nodeToObjsMap node of
             None \<Rightarrow> None
           | Some objs \<Rightarrow>
               (case podFingerprintForNodeTopology nrt method of
                  (pfpExpected, onlyExclRes) \<Rightarrow>
                    if pfpExpected = '''' then None
                    else if checkPodFingerprintForNode env objs pfpExpected onlyExclRes then Some nrt else None)))"

text \<open>What a resynchronisation that starts in a state will flush; other operations may happen before it does.\<close>

definition resyncUpdates :: "resync_env \<Rightarrow> OverReserve \<Rightarrow> NodeResourceTopology list" where
  "resyncUpdates env ov =
     (let nodes = GetDesyncedNodes ov
      in if MaybeOverReserved nodes = [] \<and> ConfigChanged nodes = [] then []
         else (case rePods env of
           None \<Rightarrow> []
         | Some pods \<Rightarrow>
             List.map_filter (resyncCandidate env (ovResyncMethod ov) (makeNodeToPodDataMap pods (reRelevant env))) (MaybeOverReserved nodes) @
             List.map_filter (reGet env) (ConfigChanged nodes)))"

definition Resync :: "resync_env \<Rightarrow> OverReserve \<Rightarrow> OverReserve" where
  "Resync env ov = FlushNodes (resyncUpdates env ov) ov"

section \<open>Watching attributes and foreign pods\<close>

definition areAttrsChanged :: "NodeResourceTopology \<Rightarrow> NodeResourceTopology \<Rightarrow> bool" where
  "areAttrsChanged oldNrt newNrt = (TopologyManagerFromNodeResourceTopology oldNrt \<noteq> TopologyManagerFromNodeResourceTopology newNrt)"

definition ProcessEvent :: "bool \<Rightarrow> NodeResourceTopology \<Rightarrow> OverReserve \<Rightarrow> bool \<times> OverReserve" where
  "ProcessEvent modified nrt ov =
     (if \<not> modified then (False, ov)
      else (case map_of (ovNrts ov) (nrtName nrt) of
        None \<Rightarrow> (False, ov)
      | Some cur \<Rightarrow>
          if \<not> areAttrsChanged cur nrt then (False, ov)
          else (True, ov\<lparr>ovAttrUpdate := Incr (nrtName nrt) (ovAttrUpdate ov)\<rparr>)))"

definition IsForeignPod :: "string list \<Rightarrow> bool \<Rightarrow> Pod \<Rightarrow> bool" where
  "IsForeignPod schedProfileNames onlyExclusiveResources pod =
     (if podNodeName pod = '''' then False
      else if podSchedulerName pod \<in> set schedProfileNames then False
      else if \<not> onlyExclusiveResources then True
      else AreExclusiveForPod pod)"

definition foreignCache :: "string list \<Rightarrow> bool \<Rightarrow> Pod \<Rightarrow> OverReserve \<Rightarrow> OverReserve" where
  "foreignCache names only pod ov = (if IsForeignPod names only pod then NodeHasForeignPods (podNodeName pod) ov else ov)"

definition IsPodRelevantShared :: "Pod \<Rightarrow> bool" where
  "IsPodRelevantShared pod = (podPhase pod = PodRunning)"

definition IsPodRelevantDedicated :: "Pod \<Rightarrow> bool" where
  "IsPodRelevantDedicated pod = (podPhase pod \<noteq> PodPending \<and> podNodeName pod \<noteq> '''')"

section \<open>The other caches\<close>

text \<open>The reservations by node and UID; \<open>client\<close> is the read of the API server.\<close>

type_synonym DiscardReserved = "(string, (string, bool) gomap) gomap"

definition discardGet :: "(string \<Rightarrow> NodeResourceTopology option) \<Rightarrow> DiscardReserved \<Rightarrow> string \<Rightarrow> NodeResourceTopology option \<times> bool \<times> 64 word" where
  "discardGet client pt node =
     (case map_of pt node of
        Some (_ # _) \<Rightarrow> (None, False, 0)
      | _ \<Rightarrow> (client node, True, 0))"

definition discardReserve :: "string \<Rightarrow> Pod \<Rightarrow> DiscardReserved \<Rightarrow> DiscardReserved" where
  "discardReserve node pod pt =
     AList.update node (AList.update (podUID pod) True (case map_of pt node of None \<Rightarrow> [] | Some t \<Rightarrow> t)) pt"

definition removeReservationForNode :: "string \<Rightarrow> Pod \<Rightarrow> DiscardReserved \<Rightarrow> DiscardReserved" where
  "removeReservationForNode node pod pt =
     (case map_of pt node of None \<Rightarrow> pt | Some t \<Rightarrow> AList.update node (AList.delete (podUID pod) t) pt)"

definition passthroughGet :: "(string \<Rightarrow> NodeResourceTopology option) \<Rightarrow> string \<Rightarrow> NodeResourceTopology option \<times> bool \<times> 64 word" where
  "passthroughGet client node = (client node, True, 0)"

end
