(* ===== verification/Numa_Cache_Properties.thy ===== *)
theory Numa_Cache_Properties
  imports Numa_Cache Numa_Filter
begin

text \<open>
  What the caches promise to the filter and the reserve extension (locale \<open>nrt_cache\<close>), fulfilled by all three, and
  the exactness of the over-reserving one: a topology it hands out never offers more than what is left, wherever
  the pods it has assumed end up.
\<close>

section \<open>Decrementing zones\<close>

lemma UpdateNRT_map:
  "UpdateNRT rs nrt =
     nrt\<lparr>nrtZones := map (\<lambda>z. z\<lparr>zoneResources := map (fold (\<lambda>(key, res). decrement res) rs) (zoneResources z)\<rparr>) (nrtZones nrt)\<rparr>"
proof (induction rs arbitrary: nrt)
  case (Cons r rs)
  then show ?case by (cases r) (simp add: UpdateNRT_def comp_def)
qed (simp add: UpdateNRT_def id_def)

definition nonneg_list :: "ResourceList \<Rightarrow> bool" where
  "nonneg_list rl \<longleftrightarrow> (\<forall>n. 0 \<le> quantityOf rl n)"

lemma decrement_value:
  "nonneg_list res \<Longrightarrow> 0 \<le> riAvailable zr \<Longrightarrow>
   decrement res zr = zr\<lparr>riAvailable := max 0 (riAvailable zr - quantityOf res (riName zr))\<rparr>"
  by (auto simp: decrement_def quantityOf_def max_def split: option.splits)

lemma fold_decrement:
  assumes "\<forall>(key, res) \<in> set rs. nonneg_list res" "0 \<le> riAvailable zr"
  shows "fold (\<lambda>(key, res). decrement res) rs zr =
    zr\<lparr>riAvailable := max 0 (riAvailable zr - sum_list (map (\<lambda>(key, res). quantityOf res (riName zr)) rs))\<rparr>"
  using assms
proof (induction rs arbitrary: zr)
  case (Cons r rs)
  obtain key res where r: "r = (key, res)" by (cases r)
  let ?s = "sum_list (map (\<lambda>(key, res). quantityOf res (riName zr)) rs)"
  have q: "0 \<le> quantityOf res (riName zr)" using Cons.prems(1) by (auto simp: r nonneg_list_def)
  have s: "0 \<le> ?s" using Cons.prems(1) by (intro sum_list_nonneg) (auto simp: nonneg_list_def)
  have "fold (\<lambda>(key, res). decrement res) (r # rs) zr =
      fold (\<lambda>(key, res). decrement res) rs (zr\<lparr>riAvailable := max 0 (riAvailable zr - quantityOf res (riName zr))\<rparr>)"
    using Cons.prems by (simp add: r decrement_value)
  also have "\<dots> = zr\<lparr>riAvailable := max 0 (max 0 (riAvailable zr - quantityOf res (riName zr)) - ?s)\<rparr>"
    using Cons.prems by (subst Cons.IH) auto
  finally show ?case using q s by (simp add: r max_def)
qed simp

section \<open>The contract of a cache\<close>

text \<open>Topologies that differ in the available amounts only, of which the first offers no more.\<close>

definition amounts_le :: "NodeResourceTopology \<Rightarrow> NodeResourceTopology \<Rightarrow> bool" where
  "amounts_le a b \<longleftrightarrow>
     list_all2 (\<lambda>y z. zoneName y = zoneName z \<and> zoneType y = zoneType z \<and>
       list_all2 (\<lambda>r s. riName r = riName s \<and> riAvailable r \<le> riAvailable s) (zoneResources y) (zoneResources z)) (nrtZones a) (nrtZones b)"

definition no_more :: "NodeResourceTopology option \<times> bool \<times> 64 word \<Rightarrow> NodeResourceTopology option \<times> bool \<times> 64 word \<Rightarrow> bool" where
  "no_more a b \<longleftrightarrow> \<not> fst (snd a) \<or> (fst (snd b) \<and> rel_option amounts_le (fst a) (fst b))"

lemma amounts_le_refl: "amounts_le a a"
  by (auto simp: amounts_le_def intro!: list_all2_refl)

lemma no_more_refl: "no_more a a"
  by (auto simp: no_more_def amounts_le_refl option.rel_refl)

definition pod_nonneg :: "Pod \<Rightarrow> bool" where
  "pod_nonneg p \<longleftrightarrow> nonneg_list (GetPodEffectiveRequest p)"

locale nrt_cache =
  fixes get :: "'s \<Rightarrow> string \<Rightarrow> NodeResourceTopology option \<times> bool \<times> 64 word"
    and reserve :: "string \<Rightarrow> Pod \<Rightarrow> 's \<Rightarrow> 's"
    and unreserve :: "string \<Rightarrow> Pod \<Rightarrow> 's \<Rightarrow> 's"
    and pending :: "'s \<Rightarrow> string \<Rightarrow> Pod \<Rightarrow> bool"
    and ok :: "'s \<Rightarrow> bool"
  assumes reserve_other: "m \<noteq> n \<Longrightarrow> get (reserve n p s) m = get s m"
    and unreserve_other: "m \<noteq> n \<Longrightarrow> get (unreserve n p s) m = get s m"
    and undo: "\<not> pending s n p \<Longrightarrow> get (unreserve n p (reserve n p s)) n = get s n"
    and pessimistic: "ok s \<Longrightarrow> pod_nonneg p \<Longrightarrow> \<not> pending s n p \<Longrightarrow> no_more (get (reserve n p s) n) (get s n)"
begin

lemma undo_all: "\<not> pending s n p \<Longrightarrow> get (unreserve n p (reserve n p s)) = get s"
  by (rule ext) (metis undo reserve_other unreserve_other)

lemma verdict_restored:
  "\<not> pending s n p \<Longrightarrow>
   Filter (\<lambda>m. case get (unreserve n p (reserve n p s)) m of (t, fresh, _) \<Rightarrow> (t, fresh)) pod ni =
   Filter (\<lambda>m. case get s m of (t, fresh, _) \<Rightarrow> (t, fresh)) pod ni"
  by (simp add: undo_all)

lemma reserve_no_more:
  assumes "ok s" "pod_nonneg p" "\<not> pending s n p"
  shows "no_more (get (reserve n p s) m) (get s m)"
proof (cases "m = n")
  case True
  then show ?thesis using pessimistic [OF assms] by simp
next
  case False
  then show ?thesis using reserve_other [of m n p s] by (simp add: no_more_refl)
qed

end

definition assumed :: "OverReserve \<Rightarrow> string \<Rightarrow> resourceStore" where
  "assumed ov n = (case map_of (ovAssumed ov) n of None \<Rightarrow> [] | Some rs \<Rightarrow> rs)"

text \<open>The amounts stored and assumed are not negative.\<close>

definition ov_ok :: "OverReserve \<Rightarrow> bool" where
  "ov_ok ov \<longleftrightarrow>
     (\<forall>n nrt. map_of (ovNrts ov) n = Some nrt \<longrightarrow> (\<forall>z \<in> set (nrtZones nrt). \<forall>r \<in> set (zoneResources z). 0 \<le> riAvailable r)) \<and>
     (\<forall>n. \<forall>(key, res) \<in> set (assumed ov n). nonneg_list res)"

lemma get_assumed:
  "GetCachedNRTCopy ov n =
     (if IsSet n (ovForeignPods ov) then (None, False, 0)
      else (case map_of (ovNrts ov) n of None \<Rightarrow> (None, True, 0) | Some nrt \<Rightarrow> (Some (UpdateNRT (assumed ov n) nrt), True, ovGeneration ov)))"
  by (auto simp: GetCachedNRTCopy_def assumed_def UpdateNRT_def split: option.splits)

lemma assumed_reserve: "assumed (ReserveNodeResources n p ov) m = (if m = n then AddPod p (assumed ov n) else assumed ov m)"
  by (auto simp: assumed_def ReserveNodeResources_def Let_def)

lemma assumed_unreserve: "assumed (UnreserveNodeResources n p ov) m = (if m = n then DeletePod p (assumed ov n) else assumed ov m)"
  by (auto simp: assumed_def UnreserveNodeResources_def DeletePod_def split: option.splits)

lemma cache_ops_fields [simp]:
  "ovNrts (ReserveNodeResources n p ov) = ovNrts ov" "ovForeignPods (ReserveNodeResources n p ov) = ovForeignPods ov"
  "ovGeneration (ReserveNodeResources n p ov) = ovGeneration ov"
  "ovNrts (UnreserveNodeResources n p ov) = ovNrts ov" "ovForeignPods (UnreserveNodeResources n p ov) = ovForeignPods ov"
  "ovGeneration (UnreserveNodeResources n p ov) = ovGeneration ov"
  by (auto simp: ReserveNodeResources_def UnreserveNodeResources_def Let_def split: option.splits)

definition ov_pending :: "OverReserve \<Rightarrow> string \<Rightarrow> Pod \<Rightarrow> bool" where
  "ov_pending ov n p \<longleftrightarrow> has_key (assumed ov n) (podKey p)"

lemma delete_new: "map_of rs k = None \<Longrightarrow> AList.delete k (rs @ [(k, v)]) = rs"
  by (induction rs) (auto split: if_splits)

interpretation over_reserve: nrt_cache GetCachedNRTCopy ReserveNodeResources UnreserveNodeResources ov_pending ov_ok
proof
  fix m n p s
  show "m \<noteq> n \<Longrightarrow> GetCachedNRTCopy (ReserveNodeResources n p s) m = GetCachedNRTCopy s m"
    by (simp add: get_assumed assumed_reserve split: option.split)
  show "m \<noteq> n \<Longrightarrow> GetCachedNRTCopy (UnreserveNodeResources n p s) m = GetCachedNRTCopy s m"
    by (simp add: get_assumed assumed_unreserve split: option.split)
  assume new: "\<not> ov_pending s n p"
  then have k: "AddPod p (assumed s n) = assumed s n @ [(podKey p, GetPodEffectiveRequest p)]"
    by (simp add: ov_pending_def AddPod_def update_new)
  show "GetCachedNRTCopy (UnreserveNodeResources n p (ReserveNodeResources n p s)) n = GetCachedNRTCopy s n"
    using new by (simp add: get_assumed assumed_unreserve assumed_reserve k DeletePod_def ov_pending_def delete_new split: option.split)
  assume ok: "ov_ok s" "pod_nonneg p"
  have "amounts_le (UpdateNRT (AddPod p (assumed s n)) nrt) (UpdateNRT (assumed s n) nrt)" if nrt: "map_of (ovNrts s) n = Some nrt" for nrt
  proof -
    let ?f = "fold (\<lambda>(key, res). decrement res) (assumed s n)"
    have less: "riName (decrement (GetPodEffectiveRequest p) (?f r)) = riName (?f r)"
        "riAvailable (decrement (GetPodEffectiveRequest p) (?f r)) \<le> riAvailable (?f r)"
      if "z \<in> set (nrtZones nrt)" "r \<in> set (zoneResources z)" for r z
    proof -
      have "0 \<le> riAvailable r" "\<forall>(key, res) \<in> set (assumed s n). nonneg_list res" using ok(1) nrt that by (auto simp: ov_ok_def)
      then have "0 \<le> riAvailable (?f r)" by (simp add: fold_decrement)
      moreover have "0 \<le> quantityOf (GetPodEffectiveRequest p) (riName (?f r))" using ok(2) by (simp add: pod_nonneg_def nonneg_list_def)
      ultimately show "riName (decrement (GetPodEffectiveRequest p) (?f r)) = riName (?f r)"
          "riAvailable (decrement (GetPodEffectiveRequest p) (?f r)) \<le> riAvailable (?f r)"
        using ok(2) by (simp_all add: decrement_value pod_nonneg_def)
    qed
    show ?thesis by (auto simp: amounts_le_def UpdateNRT_map k list_all2_conv_all_nth intro: less nth_mem)
  qed
  then show "no_more (GetCachedNRTCopy (ReserveNodeResources n p s) n) (GetCachedNRTCopy s n)"
    by (auto simp: no_more_def get_assumed assumed_reserve split: option.splits)
qed

interpretation discard_reserved: nrt_cache "discardGet client" discardReserve removeReservationForNode
  "\<lambda>pt n p. \<exists>t. map_of pt n = Some t \<and> has_key t (podUID p)" "\<lambda>_. True" for client
proof
  fix m n p and s :: DiscardReserved
  show "m \<noteq> n \<Longrightarrow> discardGet client (discardReserve n p s) m = discardGet client s m"
    by (simp add: discardGet_def discardReserve_def)
  show "m \<noteq> n \<Longrightarrow> discardGet client (removeReservationForNode n p s) m = discardGet client s m"
    by (auto simp: discardGet_def removeReservationForNode_def split: option.splits)
  assume "\<not> (\<exists>t. map_of s n = Some t \<and> has_key t (podUID p))"
  then show "discardGet client (removeReservationForNode n p (discardReserve n p s)) n = discardGet client s n"
    by (auto simp: discardGet_def removeReservationForNode_def discardReserve_def update_new delete_new split: option.splits)
  show "no_more (discardGet client (discardReserve n p s) n) (discardGet client s n)"
    by (auto simp: no_more_def discardGet_def discardReserve_def split: option.splits list.splits)
qed

interpretation passthrough: nrt_cache "\<lambda>s :: unit. passthroughGet client" "\<lambda>_ _ s. s" "\<lambda>_ _ s. s" "\<lambda>_ _ _. False" "\<lambda>_. True" for client
  by unfold_locales (simp_all add: no_more_refl)

section \<open>What the over-reserving cache holds\<close>

text \<open>The operations that hold the lock of the cache, in the order they take it. A resynchronisation takes it twice, to
  collect the nodes to check and to flush (\<open>EFlush\<close>), so that others may come between.\<close>

datatype cache_event =
    EReserve string Pod
  | EUnreserve string Pod
  | EMaybeOverReserved string
  | EForeign string
  | EWatch bool NodeResourceTopology
  | EFlush "NodeResourceTopology list"

fun cache_step :: "cache_event \<Rightarrow> OverReserve \<Rightarrow> OverReserve" where
  "cache_step (EReserve n p) ov = ReserveNodeResources n p ov"
| "cache_step (EUnreserve n p) ov = UnreserveNodeResources n p ov"
| "cache_step (EMaybeOverReserved n) ov = NodeMaybeOverReserved n ov"
| "cache_step (EForeign n) ov = NodeHasForeignPods n ov"
| "cache_step (EWatch modified nrt) ov = snd (ProcessEvent modified nrt ov)"
| "cache_step (EFlush nrts) ov = FlushNodes nrts ov"

definition cache_run :: "string option \<Rightarrow> NodeResourceTopology list \<Rightarrow> cache_event list \<Rightarrow> OverReserve" where
  "cache_run method nrts evs = fold cache_step evs (NewOverReserve method nrts)"

text \<open>Read off the history of a node, latest event first: its last reported topology, the pods reserved since and not given
  back, and whether a foreign pod was seen since.\<close>

definition last_report :: "string \<Rightarrow> NodeResourceTopology list \<Rightarrow> NodeResourceTopology option" where
  "last_report n nrts = List.find (\<lambda>nrt. nrtName nrt = n) (rev nrts)"

fun reported :: "NodeResourceTopology list \<Rightarrow> string \<Rightarrow> cache_event list \<Rightarrow> NodeResourceTopology option" where
  "reported nrts n [] = last_report n nrts"
| "reported nrts n (EFlush us # evs) = (case last_report n us of None \<Rightarrow> reported nrts n evs | Some nrt \<Rightarrow> Some nrt)"
| "reported nrts n (_ # evs) = reported nrts n evs"

fun outstanding :: "string \<Rightarrow> cache_event list \<Rightarrow> Pod list" where
  "outstanding n [] = []"
| "outstanding n (EReserve m p # evs) =
     (if m = n then p # filter (\<lambda>q. podKey q \<noteq> podKey p) (outstanding n evs) else outstanding n evs)"
| "outstanding n (EUnreserve m p # evs) =
     (if m = n then filter (\<lambda>q. podKey q \<noteq> podKey p) (outstanding n evs) else outstanding n evs)"
| "outstanding n (EFlush us # evs) = (if last_report n us = None then outstanding n evs else [])"
| "outstanding n (_ # evs) = outstanding n evs"

fun foreign_seen :: "NodeResourceTopology list \<Rightarrow> string \<Rightarrow> cache_event list \<Rightarrow> bool" where
  "foreign_seen nrts n [] = False"
| "foreign_seen nrts n (EForeign m # evs) = (m = n \<and> reported nrts n evs \<noteq> None \<or> foreign_seen nrts n evs)"
| "foreign_seen nrts n (EFlush us # evs) = (last_report n us = None \<and> foreign_seen nrts n evs)"
| "foreign_seen nrts n (_ # evs) = foreign_seen nrts n evs"

text \<open>A topology with what the pods request taken from each of its zones.\<close>

definition charged_nrt :: "Pod list \<Rightarrow> NodeResourceTopology \<Rightarrow> NodeResourceTopology" where
  "charged_nrt pods nrt =
     nrt\<lparr>nrtZones := map (\<lambda>z. z\<lparr>zoneResources := map (\<lambda>r. r\<lparr>riAvailable :=
       max 0 (riAvailable r - (\<Sum>p\<leftarrow>pods. quantityOf (GetPodEffectiveRequest p) (riName r)))\<rparr>) (zoneResources z)\<rparr>) (nrtZones nrt)\<rparr>"

definition nrt_nonneg :: "NodeResourceTopology \<Rightarrow> bool" where
  "nrt_nonneg nrt \<longleftrightarrow> (\<forall>z \<in> set (nrtZones nrt). \<forall>r \<in> set (zoneResources z). 0 \<le> riAvailable r)"

definition event_nonneg :: "cache_event \<Rightarrow> bool" where
  "event_nonneg e \<longleftrightarrow> (case e of EReserve n p \<Rightarrow> pod_nonneg p | EFlush us \<Rightarrow> list_all nrt_nonneg us | _ \<Rightarrow> True)"

lemma map_of_fold_update:
  "map_of (fold (\<lambda>nrt. AList.update (nrtName nrt) nrt) us m) n = (case last_report n us of None \<Rightarrow> map_of m n | Some nrt \<Rightarrow> Some nrt)"
  by (induction us rule: rev_induct) (auto simp: last_report_def update_conv')

lemma flush_node_fields:
  "map_of (ovNrts (fold flushNode us ov)) n = (case last_report n us of None \<Rightarrow> map_of (ovNrts ov) n | Some nrt \<Rightarrow> Some nrt)"
  "map_of (ovAssumed (fold flushNode us ov)) n = (if last_report n us = None then map_of (ovAssumed ov) n else None)"
  "map_of (ovForeignPods (fold flushNode us ov)) n = (if last_report n us = None then map_of (ovForeignPods ov) n else None)"
  by (induction us rule: rev_induct)
    (auto simp: last_report_def flushNode_def storeUpdate_def update_conv' delete_conv')

lemma stored_run: "map_of (ovNrts (cache_run method nrts (rev evs))) n = reported nrts n evs"
  unfolding cache_run_def
proof (induction nrts n evs rule: reported.induct)
  case (1 nrts n)
  then show ?case by (simp add: NewOverReserve_def newNrtStore_def map_of_fold_update split: option.split)
next
  case (2 nrts n us evs)
  then show ?case by (auto simp: FlushNodes_def Let_def flush_node_fields last_report_def split: option.split)
qed (auto simp: NodeMaybeOverReserved_def NodeHasForeignPods_def ProcessEvent_def split: option.split)

lemma foreign_run: "IsSet n (ovForeignPods (cache_run method nrts (rev evs))) = foreign_seen nrts n evs"
  using stored_run [unfolded cache_run_def] unfolding cache_run_def
proof (induction nrts n evs rule: foreign_seen.induct)
  case (1 nrts n)
  then show ?case by (simp add: NewOverReserve_def IsSet_def)
next
  case (2 nrts n m evs)
  then show ?case by (auto simp: NodeHasForeignPods_def IsSet_def Incr_def update_conv')
next
  case (3 nrts n us evs)
  then show ?case by (auto simp: FlushNodes_def Let_def flush_node_fields last_report_def IsSet_def)
qed (auto simp: NodeMaybeOverReserved_def ProcessEvent_def IsSet_def split: option.split)

text \<open>The assumed requests of a node are those of the outstanding pods, in some order.\<close>

abbreviation assumed_entry :: "Pod \<Rightarrow> string \<times> ResourceList" where
  "assumed_entry p \<equiv> (podKey p, GetPodEffectiveRequest p)"

lemma mset_delete: "mset (AList.delete k rs) = filter_mset (\<lambda>e. fst e \<noteq> k) (mset rs)"
  by (induction rs) auto

lemma mset_update: "distinct (map fst rs) \<Longrightarrow> mset (AList.update k v rs) = add_mset (k, v) (mset (AList.delete k rs))"
proof (induction rs)
  case (Cons r rs)
  then show ?case by (cases r) auto
qed simp

lemma mset_entries_filter:
  "mset (map assumed_entry (filter (\<lambda>q. podKey q \<noteq> k) pods)) = filter_mset (\<lambda>e. fst e \<noteq> k) (mset (map assumed_entry pods))"
  by (induction pods) auto

lemma assumed_flush: "assumed (FlushNodes us ov) n = (if last_report n us = None then assumed ov n else [])"
  by (auto simp: assumed_def FlushNodes_def Let_def flush_node_fields last_report_def)

lemma assumed_fields [simp]:
  "assumed (NodeMaybeOverReserved m ov) n = assumed ov n" "assumed (NodeHasForeignPods m ov) n = assumed ov n"
  "assumed (snd (ProcessEvent b nrt ov)) n = assumed ov n"
  by (auto simp: assumed_def NodeMaybeOverReserved_def NodeHasForeignPods_def ProcessEvent_def split: option.split)

lemma assumed_run:
  "distinct (map fst (assumed (cache_run method nrts (rev evs)) n)) \<and>
   mset (assumed (cache_run method nrts (rev evs)) n) = mset (map assumed_entry (outstanding n evs))"
  unfolding cache_run_def
proof (induction n evs rule: outstanding.induct)
  case (1 n)
  then show ?case by (simp add: NewOverReserve_def assumed_def)
next
  case (2 n m p evs)
  then show ?case
    by (auto simp: assumed_reserve AddPod_def mset_update mset_delete mset_entries_filter distinct_update simp del: mset_map)
next
  case (3 n m p evs)
  then show ?case
    by (auto simp: assumed_unreserve DeletePod_def mset_delete mset_entries_filter distinct_delete simp del: mset_map)
next
  case (4 n us evs)
  then show ?case by (simp add: assumed_flush)
qed auto

lemma outstanding_nonneg: "list_all event_nonneg evs \<Longrightarrow> p \<in> set (outstanding n evs) \<Longrightarrow> pod_nonneg p"
  by (induction n evs rule: outstanding.induct) (auto simp: event_nonneg_def split: if_splits)

lemma last_report_nonneg: "list_all nrt_nonneg us \<Longrightarrow> last_report n us = Some nrt \<Longrightarrow> nrt_nonneg nrt"
  by (metis (no_types, lifting) last_report_def list_all_iff find_Some_iff nth_mem set_rev)

lemma reported_nonneg: "list_all nrt_nonneg nrts \<Longrightarrow> list_all event_nonneg evs \<Longrightarrow> reported nrts n evs = Some nrt \<Longrightarrow> nrt_nonneg nrt"
  by (induction nrts n evs rule: reported.induct)
    (auto simp: event_nonneg_def last_report_nonneg split: option.splits)

lemma UpdateNRT_charged:
  assumes "mset rs = mset (map assumed_entry pods)" "list_all pod_nonneg pods" "nrt_nonneg nrt"
  shows "UpdateNRT rs nrt = charged_nrt pods nrt"
proof -
  have "set rs = set (map assumed_entry pods)" using assms(1) by (metis mset_eq_setD)
  then have nonneg: "\<forall>(key, res) \<in> set rs. nonneg_list res" using assms(2) by (auto simp: list_all_iff pod_nonneg_def)
  have sums: "(\<Sum>(key, res)\<leftarrow>rs. quantityOf res name) = (\<Sum>p\<leftarrow>pods. quantityOf (GetPodEffectiveRequest p) name)" for name
  proof -
    have "mset (map (\<lambda>(key, res). quantityOf res name) rs) = mset (map (\<lambda>(key, res). quantityOf res name) (map assumed_entry pods))"
      unfolding mset_map [of "\<lambda>(key, res). quantityOf res name"] using assms(1) by (rule arg_cong)
    then have "(\<Sum>(key, res)\<leftarrow>rs. quantityOf res name) = sum_list (map (\<lambda>(key, res). quantityOf res name) (map assumed_entry pods))"
      by (simp only: flip: sum_mset_sum_list)
    then show ?thesis by (simp add: comp_def)
  qed
  show ?thesis using assms(3) nonneg
    by (auto simp: UpdateNRT_map charged_nrt_def fold_decrement sums nrt_nonneg_def intro!: arg_cong [where f = "\<lambda>z. nrt\<lparr>nrtZones := z\<rparr>"])
qed

text \<open>\<^bold>\<open>C40\<close> After any sequence of reservations, releases, sightings of foreign pods, topology events and flushes, in any
  interleaving with resynchronisations, the copy of a node that the over-reserving cache hands out is exactly the last
  topology flushed or loaded for it, with the requests of all pods reserved on it since then and not given back
  taken from every zone, down to zero. No copy is given, and the data is marked stale, exactly from the sighting of a
  foreign pod until the next flush of the node.\<close>

theorem cached_copy_charged:
  assumes "list_all nrt_nonneg nrts" "list_all event_nonneg evs"
  shows "\<exists>generation. GetCachedNRTCopy (cache_run method nrts (rev evs)) n =
    (if foreign_seen nrts n evs then (None, False, 0)
     else (map_option (charged_nrt (outstanding n evs)) (reported nrts n evs), True, generation))"
proof (cases "reported nrts n evs")
  case None
  then show ?thesis by (simp add: get_assumed foreign_run stored_run)
next
  case (Some nrt)
  have "UpdateNRT (assumed (cache_run method nrts (rev evs)) n) nrt = charged_nrt (outstanding n evs) nrt"
    using assumed_run outstanding_nonneg [OF assms(2)] reported_nonneg [OF assms Some]
    by (intro UpdateNRT_charged) (auto simp: list_all_iff)
  then show ?thesis using Some by (auto simp: get_assumed foreign_run stored_run)
qed

definition ex_cache_nrt :: "int \<Rightarrow> NodeResourceTopology" where
  "ex_cache_nrt cpus = \<lparr>nrtName = ''n'', nrtTopologyPolicies = [], nrtAttributes = [(''nodeTopologyPodsFingerprint'', ''pfp'')], nrtAnnotations = None,
     nrtZones = map (\<lambda>name. \<lparr>zoneName = name, zoneType = ''Node'', zoneCosts = [],
       zoneResources = [\<lparr>riName = ''cpu'', riAvailable = cpus\<rparr>]\<rparr>) [''node-0'', ''node-1'']\<rparr>"

definition ex_cache_pod :: "string \<Rightarrow> int \<Rightarrow> Pod" where
  "ex_cache_pod name cpus = zero_pod\<lparr>podName := name,
     podContainers := [\<lparr>ctrName = ''c'', ctrRequests = [(''cpu'', cpus)], ctrLimits = [], ctrSeccompProfile = None\<rparr>]\<rparr>"

lemma ex_cache_request: "GetPodEffectiveRequest (ex_cache_pod name cpus) = [(''cpu'', cpus)]"
  by (simp add: ex_cache_pod_def zero_pod_def GetPodEffectiveRequest_def sumQuantity_def)

theorem cached_copy_charged_witness:
  "\<exists>generation. GetCachedNRTCopy (cache_run None [ex_cache_nrt 4000]
     [EReserve ''n'' (ex_cache_pod ''a'' 1000), EReserve ''n'' (ex_cache_pod ''b'' 2000),
      EMaybeOverReserved ''n'', EUnreserve ''n'' (ex_cache_pod ''a'' 1000)]) ''n'' = (Some (ex_cache_nrt 2000), True, generation)"
proof -
  let ?evs = "[EUnreserve ''n'' (ex_cache_pod ''a'' 1000), EMaybeOverReserved ''n'',
    EReserve ''n'' (ex_cache_pod ''b'' 2000), EReserve ''n'' (ex_cache_pod ''a'' 1000)]"
  have "outstanding ''n'' ?evs = [ex_cache_pod ''b'' 2000]" "\<not> foreign_seen [ex_cache_nrt 4000] ''n'' ?evs"
      "reported [ex_cache_nrt 4000] ''n'' ?evs = Some (ex_cache_nrt 4000)"
    by (simp_all add: ex_cache_pod_def podKey_def zero_pod_def last_report_def ex_cache_nrt_def)
  moreover have "charged_nrt [ex_cache_pod ''b'' 2000] (ex_cache_nrt 4000) = ex_cache_nrt 2000"
    by (simp add: charged_nrt_def ex_cache_request quantityOf_def) (simp add: ex_cache_nrt_def)
  moreover have "list_all nrt_nonneg [ex_cache_nrt 4000]" "list_all event_nonneg ?evs"
    by (auto simp: nrt_nonneg_def ex_cache_nrt_def event_nonneg_def pod_nonneg_def nonneg_list_def ex_cache_request quantityOf_def)
  ultimately show ?thesis using cached_copy_charged [of "[ex_cache_nrt 4000]" ?evs None "''n''"] by simp
qed

section \<open>What a flush forgets\<close>

text \<open>A reservation made while a resynchronisation is between its two critical sections is dropped by the flush.\<close>

lemma flush_forgets_reserve:
  "nrt \<in> set us \<Longrightarrow> assumed (FlushNodes us (ReserveNodeResources (nrtName nrt) p ov)) (nrtName nrt) = []"
  by (auto simp: assumed_flush last_report_def find_None_iff)

text \<open>A pod that is reserved but does not run yet takes no part in the fingerprint, neither here nor in the report: the two match and
  the flush drops what is assumed for it, so that the node again offers all it has.\<close>

definition ex_resync_env :: resync_env where
  "ex_resync_env = \<lparr>rePods = Some [(ex_cache_pod ''r'' 500)\<lparr>podPhase := PodRunning, podNodeName := ''n''\<rparr>, (ex_cache_pod ''p'' 3000)\<lparr>podNodeName := ''n''\<rparr>],
     reRelevant = IsPodRelevantShared, reGet = (\<lambda>_. Some (ex_cache_nrt 4000)), reFingerprint = (\<lambda>objs pfp. objs = [('''', ''r'')] \<and> pfp = ''pfp'')\<rparr>"

lemma resync_forgets_pending_pod:
  "let ov = cache_run None [ex_cache_nrt 4000] [EReserve ''n'' (ex_cache_pod ''p'' 3000), EMaybeOverReserved ''n'']
   in GetCachedNRTCopy ov ''n'' = (Some (ex_cache_nrt 1000), True, 0) \<and>
      GetCachedNRTCopy (Resync ex_resync_env ov) ''n'' = (Some (ex_cache_nrt 4000), True, 1)"
  by code_simp

end
