(* ===== verification/Numa_Plugin.thy ===== *)
theory Numa_Plugin
  imports Numa_Score Numa_Cache_Properties
begin

text \<open>
  The plugin put together (\<^verbatim>\<open>plugin.go\<close>, \<^verbatim>\<open>reserve.go\<close>, \<^verbatim>\<open>postbind.go\<close>, \<^verbatim>\<open>pluginhelpers.go\<close>): the cache the configuration selects
  behind the interface of \<^verbatim>\<open>cache.go\<close>, and the extension points, which read and change it. \<open>client\<close> reads a topology from the API
  server.
\<close>

section \<open>Configuration\<close>

record NodeResourceTopologyCache =
  cfgForeignPodsDetect :: "string option"
  cfgResyncMethod :: "string option"
  cfgInformerMode :: "string option"
  cfgResyncScope :: "string option"

record NodeResourceTopologyMatchArgs =
  argScoringStrategyType :: string
  argScoringResources :: "(string \<times> int64) list"
  argCacheResyncPeriodSeconds :: int64
  argDiscardReservedNodes :: bool
  argCache :: "NodeResourceTopologyCache option"

definition getCacheResyncMethod :: "NodeResourceTopologyCache option \<Rightarrow> string" where
  "getCacheResyncMethod cfg =
     (case cfg of None \<Rightarrow> ''Autodetect'' | Some c \<Rightarrow> (case cfgResyncMethod c of None \<Rightarrow> ''Autodetect'' | Some m \<Rightarrow> m))"

definition getCacheResyncScope :: "NodeResourceTopologyCache option \<Rightarrow> string" where
  "getCacheResyncScope cfg =
     (case cfg of None \<Rightarrow> ''All'' | Some c \<Rightarrow> (case cfgResyncScope c of None \<Rightarrow> ''All'' | Some m \<Rightarrow> m))"

definition getForeignPodsDetectMode :: "NodeResourceTopologyCache option \<Rightarrow> string" where
  "getForeignPodsDetectMode cfg =
     (case cfg of None \<Rightarrow> ''All'' | Some c \<Rightarrow> (case cfgForeignPodsDetect c of None \<Rightarrow> ''All'' | Some m \<Rightarrow> m))"

definition wantsDedicatedInformer :: "NodeResourceTopologyCache option \<Rightarrow> bool" where
  "wantsDedicatedInformer cacheConf =
     (case cacheConf of None \<Rightarrow> False | Some c \<Rightarrow> (case cfgInformerMode c of None \<Rightarrow> False | Some m \<Rightarrow> m = ''Dedicated''))"

definition podFilterFromHandle :: "NodeResourceTopologyCache option \<Rightarrow> Pod \<Rightarrow> bool" where
  "podFilterFromHandle cacheConf = (if wantsDedicatedInformer cacheConf then IsPodRelevantDedicated else IsPodRelevantShared)"

text \<open>The profile names registered and whether only pods with exclusive resources count, as the detection leaves them;
  \<open>profile\<close> is \<open>None\<close> when the handle does not know its profile.\<close>

definition initNodeTopologyForeignPodsDetection ::
    "NodeResourceTopologyCache option \<Rightarrow> string option \<Rightarrow> string list \<times> bool \<Rightarrow> (string list \<times> bool) option" where
  "initNodeTopologyForeignPodsDetection cfg profile globals =
     (if getForeignPodsDetectMode cfg = ''None'' then None
      else (case profile of
        None \<Rightarrow> None
      | Some name \<Rightarrow> Some (List.insert name (fst globals), getForeignPodsDetectMode cfg = ''OnlyExclusiveResources'')))"

section \<open>The cache behind its interface\<close>

datatype nrtCache =
    OverReserveCache OverReserve
  | DiscardReservedCache DiscardReserved
  | PassthroughCache

definition initNodeTopologyInformer :: "NodeResourceTopologyMatchArgs \<Rightarrow> NodeResourceTopology list option \<Rightarrow> nrtCache option" where
  "initNodeTopologyInformer tcfg nrtObjs =
     (if argDiscardReservedNodes tcfg then Some (DiscardReservedCache [])
      else if argCacheResyncPeriodSeconds tcfg \<le>s 0 then Some PassthroughCache
      else map_option (\<lambda>nrts. OverReserveCache (NewOverReserve (Some (getCacheResyncMethod (argCache tcfg))) nrts)) nrtObjs)"

fun cacheGet :: "(string \<Rightarrow> NodeResourceTopology option) \<Rightarrow> nrtCache \<Rightarrow> string \<Rightarrow> NodeResourceTopology option \<times> bool \<times> 64 word" where
  "cacheGet client (OverReserveCache ov) node = GetCachedNRTCopy ov node"
| "cacheGet client (DiscardReservedCache pt) node = discardGet client pt node"
| "cacheGet client PassthroughCache node = passthroughGet client node"

fun cacheReserve :: "string \<Rightarrow> Pod \<Rightarrow> nrtCache \<Rightarrow> nrtCache" where
  "cacheReserve node pod (OverReserveCache ov) = OverReserveCache (ReserveNodeResources node pod ov)"
| "cacheReserve node pod (DiscardReservedCache pt) = DiscardReservedCache (discardReserve node pod pt)"
| "cacheReserve node pod PassthroughCache = PassthroughCache"

fun cacheUnreserve :: "string \<Rightarrow> Pod \<Rightarrow> nrtCache \<Rightarrow> nrtCache" where
  "cacheUnreserve node pod (OverReserveCache ov) = OverReserveCache (UnreserveNodeResources node pod ov)"
| "cacheUnreserve node pod (DiscardReservedCache pt) = DiscardReservedCache (removeReservationForNode node pod pt)"
| "cacheUnreserve node pod PassthroughCache = PassthroughCache"

fun cachePostBind :: "string \<Rightarrow> Pod \<Rightarrow> nrtCache \<Rightarrow> nrtCache" where
  "cachePostBind node pod (OverReserveCache ov) = OverReserveCache ov"
| "cachePostBind node pod (DiscardReservedCache pt) = DiscardReservedCache (removeReservationForNode node pod pt)"
| "cachePostBind node pod PassthroughCache = PassthroughCache"

fun cacheMaybeOverReserved :: "string \<Rightarrow> nrtCache \<Rightarrow> nrtCache" where
  "cacheMaybeOverReserved node (OverReserveCache ov) = OverReserveCache (NodeMaybeOverReserved node ov)"
| "cacheMaybeOverReserved node c = c"

section \<open>Extension points\<close>

record NumaPlugin =
  npMatch :: TopologyMatch
  npCache :: nrtCache

text \<open>The check of the arguments (\<^verbatim>\<open>apis/config/validation\<close>): the list of complaints, empty when they are valid.\<close>

definition validScoringStrategy :: "string list" where
  "validScoringStrategy = [''MostAllocated'', ''BalancedAllocation'', ''LeastAllocated'', ''LeastNUMANodes'']"

definition ValidateNodeResourceTopologyMatchArgs :: "NodeResourceTopologyMatchArgs \<Rightarrow> string list" where
  "ValidateNodeResourceTopologyMatchArgs args =
     (if argScoringStrategyType args \<in> set validScoringStrategy then [] else [''scoringStrategy.type''])"

text \<open>\<open>nrtObjs\<close> is the list read at the start, \<open>None\<close> if reading fails.\<close>

definition NewNumaPlugin ::
    "int64 \<Rightarrow> NodeResourceTopologyMatchArgs \<Rightarrow> NodeResourceTopology list option \<Rightarrow> NumaPlugin option" where
  "NewNumaPlugin nan tcfg nrtObjs =
     (if ValidateNodeResourceTopologyMatchArgs tcfg \<noteq> [] then None
      else (case initNodeTopologyInformer tcfg nrtObjs of
        None \<Rightarrow> None
      | Some c \<Rightarrow>
          map_option (\<lambda>tm. \<lparr>npMatch = tm, npCache = c\<rparr>) (NewTopologyMatch nan (argScoringStrategyType tcfg) (argScoringResources tcfg))))"

definition topologyOf :: "(string \<Rightarrow> NodeResourceTopology option) \<Rightarrow> nrtCache \<Rightarrow> string \<Rightarrow> NodeResourceTopology option \<times> bool" where
  "topologyOf client c node = (case cacheGet client c node of (t, fresh, _) \<Rightarrow> (t, fresh))"

text \<open>A negative verdict is reported to the cache; \<open>None\<close> is a panic.\<close>

definition numaFilter ::
    "(string \<Rightarrow> NodeResourceTopology option) \<Rightarrow> Pod \<Rightarrow> (string \<times> Resource) option \<Rightarrow> NumaPlugin \<Rightarrow> (Code \<times> NumaPlugin) option" where
  "numaFilter client pod nodeInfo tm =
     map_option (\<lambda>(code, report).
       (code, if report then tm\<lparr>npCache := cacheMaybeOverReserved (fst (the nodeInfo)) (npCache tm)\<rparr> else tm))
       (Filter (topologyOf client (npCache tm)) pod nodeInfo)"

definition numaScore :: "int64 \<Rightarrow> (string \<Rightarrow> NodeResourceTopology option) \<Rightarrow> Pod \<Rightarrow> string \<Rightarrow> NumaPlugin \<Rightarrow> int64 option" where
  "numaScore nan client pod node tm = Score nan (npMatch tm) (topologyOf client (npCache tm)) pod node"

definition numaReserve :: "Pod \<Rightarrow> string \<Rightarrow> NumaPlugin \<Rightarrow> Code \<times> NumaPlugin" where
  "numaReserve pod node tm = (Success, tm\<lparr>npCache := cacheReserve node pod (npCache tm)\<rparr>)"

definition numaUnreserve :: "Pod \<Rightarrow> string \<Rightarrow> NumaPlugin \<Rightarrow> NumaPlugin" where
  "numaUnreserve pod node tm = tm\<lparr>npCache := cacheUnreserve node pod (npCache tm)\<rparr>"

definition numaPostBind :: "Pod \<Rightarrow> string \<Rightarrow> NumaPlugin \<Rightarrow> NumaPlugin" where
  "numaPostBind pod node tm = tm\<lparr>npCache := cachePostBind node pod (npCache tm)\<rparr>"

section \<open>The cache of the plugin keeps the contract\<close>

fun cache_pending :: "nrtCache \<Rightarrow> string \<Rightarrow> Pod \<Rightarrow> bool" where
  "cache_pending (OverReserveCache ov) n p = ov_pending ov n p"
| "cache_pending (DiscardReservedCache pt) n p = (\<exists>t. map_of pt n = Some t \<and> has_key t (podUID p))"
| "cache_pending PassthroughCache n p = False"

fun cache_ok :: "nrtCache \<Rightarrow> bool" where
  "cache_ok (OverReserveCache ov) = ov_ok ov"
| "cache_ok _ = True"

interpretation plugin_cache: nrt_cache "cacheGet client" cacheReserve cacheUnreserve cache_pending cache_ok for client
proof
  fix m n p s
  show "m \<noteq> n \<Longrightarrow> cacheGet client (cacheReserve n p s) m = cacheGet client s m"
    by (cases s) (simp_all add: over_reserve.reserve_other discard_reserved.reserve_other)
  show "m \<noteq> n \<Longrightarrow> cacheGet client (cacheUnreserve n p s) m = cacheGet client s m"
    by (cases s) (simp_all add: over_reserve.unreserve_other discard_reserved.unreserve_other)
  show "\<not> cache_pending s n p \<Longrightarrow> cacheGet client (cacheUnreserve n p (cacheReserve n p s)) n = cacheGet client s n"
    by (cases s) (simp_all add: over_reserve.undo discard_reserved.undo)
  show "cache_ok s \<Longrightarrow> pod_nonneg p \<Longrightarrow> \<not> cache_pending s n p \<Longrightarrow> no_more (cacheGet client (cacheReserve n p s) n) (cacheGet client s n)"
    by (cases s) (simp_all add: over_reserve.pessimistic discard_reserved.pessimistic no_more_refl)
qed

text \<open>A reservation that is undone leaves every later verdict and score as it was, whichever cache is configured.\<close>

theorem reserve_undone:
  assumes "\<not> cache_pending (npCache tm) node pod"
  shows "map_option fst (numaFilter client q ni (numaUnreserve pod node (snd (numaReserve pod node tm)))) = map_option fst (numaFilter client q ni tm)"
    and "numaScore nan client q m (numaUnreserve pod node (snd (numaReserve pod node tm))) = numaScore nan client q m tm"
proof -
  have "topologyOf client (cacheUnreserve node pod (cacheReserve node pod (npCache tm))) = topologyOf client (npCache tm)"
    using plugin_cache.undo_all [OF assms] by (simp add: topologyOf_def fun_eq_iff)
  then show "map_option fst (numaFilter client q ni (numaUnreserve pod node (snd (numaReserve pod node tm)))) = map_option fst (numaFilter client q ni tm)"
    and "numaScore nan client q m (numaUnreserve pod node (snd (numaReserve pod node tm))) = numaScore nan client q m tm"
    by (simp_all add: numaFilter_def numaScore_def numaUnreserve_def numaReserve_def option.map_comp comp_def split_def)
qed

end
