(* ===== verification/Trimaran.thy ===== *)
theory Trimaran
  imports Resources Sched_Framework Go_Float
begin

text \<open>
  What the load-aware plugins share (\<^verbatim>\<open>pkg/trimaran\<close>): statistics of a resource of a node (\<^verbatim>\<open>resourcestats.go\<close>), the pods
  bound recently (\<^verbatim>\<open>handler.go\<close>) and the metrics of the load watcher (\<^verbatim>\<open>collector.go\<close>), whose client is a parameter. The value of
  a metric is a finite float. Times are integers in nanoseconds. \<open>None\<close> is a panic unless said otherwise.
\<close>

section \<open>Metrics\<close>

record Metric =
  metType :: string
  metOperator :: string
  metValue :: rat

text \<open>The metrics by node, \<open>None\<close> as long as there are none, and the end of their window in seconds.\<close>

record WatcherMetrics =
  wmNodeMetrics :: "(string, Metric list) gomap option"
  wmWindowEnd :: int64

definition noMetrics :: WatcherMetrics where
  "noMetrics = \<lparr>wmNodeMetrics = None, wmWindowEnd = 0\<rparr>"

record TrimaranSpec =
  tsWatcherAddress :: string
  tsMetricProviderType :: string

text \<open>The result is whether the specification is rejected.\<close>

definition checkSpecs :: "TrimaranSpec \<Rightarrow> bool" where
  "checkSpecs spec =
     (tsWatcherAddress spec = '''' \<and>
      \<not> (tsMetricProviderType spec = ''KubernetesMetricsServer'' \<or> tsMetricProviderType spec = ''Prometheus'' \<or>
         tsMetricProviderType spec = ''SignalFx''))"

definition updateMetrics :: "WatcherMetrics option \<Rightarrow> WatcherMetrics \<Rightarrow> WatcherMetrics" where
  "updateMetrics latest metrics = (case latest of None \<Rightarrow> metrics | Some m \<Rightarrow> m)"

text \<open>\<open>None\<close> is the error; a failing first read is only logged.\<close>

definition NewCollector :: "TrimaranSpec \<Rightarrow> WatcherMetrics option \<Rightarrow> WatcherMetrics option" where
  "NewCollector spec latest = (if checkSpecs spec then None else Some (updateMetrics latest noMetrics))"

text \<open>The metrics of a node, \<open>None\<close> for nil.\<close>

definition GetNodeMetrics :: "WatcherMetrics \<Rightarrow> string \<Rightarrow> Metric list option" where
  "GetNodeMetrics collector node = (case wmNodeMetrics collector of None \<Rightarrow> None | Some m \<Rightarrow> map_of m node)"

section \<open>Statistics of a resource\<close>

definition MegaFactor :: rat where "MegaFactor = 1 / 1048576"

record ResourceStats =
  UsedAvg :: rat
  UsedStdev :: rat
  Req :: rat
  Capacity :: rat

text \<open>The average, the deviation and whether any metric of the type was found; the fourth component is \<open>avgFound\<close>.\<close>

definition dataStep :: "string \<Rightarrow> Metric \<Rightarrow> rat \<times> rat \<times> bool \<times> bool \<Rightarrow> rat \<times> rat \<times> bool \<times> bool" where
  "dataStep resourceType m s =
     (case s of (avg, stDev, isValid, avgFound) \<Rightarrow>
        if metType m \<noteq> resourceType then s
        else if metOperator m = ''AVG'' then (metValue m, stDev, True, True)
        else if metOperator m = ''STD'' then (avg, metValue m, True, avgFound)
        else if (metOperator m = '''' \<or> metOperator m = ''Latest'') \<and> \<not> avgFound then (metValue m, stDev, True, avgFound)
        else (avg, stDev, True, avgFound))"

definition GetResourceData :: "Metric list \<Rightarrow> string \<Rightarrow> rat \<times> rat \<times> bool" where
  "GetResourceData metrics resourceType =
     (case fold (dataStep resourceType) metrics (0, 0, False, False) of (avg, stDev, isValid, _) \<Rightarrow> (avg, stDev, isValid))"

text \<open>\<open>None\<close> when there is no valid data.\<close>

definition CreateResourceStats :: "Metric list \<Rightarrow> ResourceList \<Rightarrow> Resource \<Rightarrow> string \<Rightarrow> string \<Rightarrow> ResourceStats option" where
  "CreateResourceStats metrics allocatable podRequest resourceName watcherType =
     (case GetResourceData metrics watcherType of
        (nodeUtil, nodeStd, metricFound) \<Rightarrow>
          if \<not> metricFound then None
          else
            (let am = quantityOf allocatable resourceName;
                 capacity = (if resourceName = ''cpu'' then f64 (sint (QMilliValue am)) else fmul (f64 (sint (QValue am))) MegaFactor);
                 req = (if resourceName = ''cpu'' then f64 (sint (rMilliCPU podRequest)) else fmul (f64 (sint (rMemory podRequest))) MegaFactor)
             in Some \<lparr>UsedAvg = fdiv (fmul nodeUtil capacity) 100, UsedStdev = fdiv (fmul nodeStd capacity) 100,
                      Req = req, Capacity = capacity\<rparr>))"

definition GetMuSigma :: "ResourceStats \<Rightarrow> rat \<times> rat" where
  "GetMuSigma rs =
     (if Capacity rs \<le> 0 then (0, 0)
      else (max (min (fdiv (fadd (UsedAvg rs) (Req rs)) (Capacity rs)) 1) 0, max (min (fdiv (UsedStdev rs) (Capacity rs)) 1) 0))"

section \<open>Requests and limits\<close>

definition setMin :: "int64 \<Rightarrow> int64 \<Rightarrow> int64" where
  "setMin x y = (if y <s x then y else x)"

definition setMax :: "int64 \<Rightarrow> int64 \<Rightarrow> int64" where
  "setMax x y = (if x <s y then y else x)"

definition effectiveEntry :: "string \<times> Quantity \<Rightarrow> Resource \<Rightarrow> Resource" where
  "effectiveEntry e r =
     (if fst e = ''cpu'' then r\<lparr>rMilliCPU := setMax (rMilliCPU r) (QMilliValue (snd e))\<rparr>
      else if fst e = ''memory'' then r\<lparr>rMemory := setMax (rMemory r) (QValue (snd e))\<rparr>
      else r)"

definition GetEffectiveResource :: "(string \<Rightarrow> bool) \<Rightarrow> (Container \<Rightarrow> ResourceList) \<Rightarrow> Pod \<Rightarrow> Resource" where
  "GetEffectiveResource sc fn pod =
     (let sum = fold (\<lambda>c. Add sc (fn c)) (podContainers pod) emptyResource;
          result = fold (\<lambda>c. fold effectiveEntry (fn c)) (podInitContainers pod) sum
      in case podOverhead pod of None \<Rightarrow> result | Some o' \<Rightarrow> Add sc o' result)"

definition GetResourceRequested :: "(string \<Rightarrow> bool) \<Rightarrow> Pod \<Rightarrow> Resource" where
  "GetResourceRequested sc pod = GetEffectiveResource sc ctrRequests pod"

definition GetResourceLimits :: "(string \<Rightarrow> bool) \<Rightarrow> Pod \<Rightarrow> Resource" where
  "GetResourceLimits sc pod = GetEffectiveResource sc ctrLimits pod"

text \<open>The loop over the scalar resources writes to the map of the limits, which is nil as long as there are none.\<close>

fun maxScalars :: "(string \<times> int64) list \<Rightarrow> (string, int64) gomap \<Rightarrow> (string, int64) gomap option" where
  "maxScalars [] limits = Some limits"
| "maxScalars ((k, v) # rest) limits =
     (if (case map_of limits k of None \<Rightarrow> 0 | Some l \<Rightarrow> l) <s v then
        (if limits = [] then None else maxScalars rest (AList.update k v limits))
      else maxScalars rest limits)"

definition SetMaxLimits :: "Resource \<Rightarrow> Resource \<Rightarrow> Resource option" where
  "SetMaxLimits requests limits =
     map_option (\<lambda>s. \<lparr>rMilliCPU = setMax (rMilliCPU limits) (rMilliCPU requests), rMemory = setMax (rMemory limits) (rMemory requests),
        rEphemeralStorage = setMax (rEphemeralStorage limits) (rEphemeralStorage requests),
        rAllowedPodNumber = setMax (rAllowedPodNumber limits) (rAllowedPodNumber requests), rScalar = s\<rparr>)
       (maxScalars (rScalar requests) (rScalar limits))"

record NodeRequestsAndLimits =
  NodeRequest :: Resource
  NodeLimit :: Resource
  NodeRequestMinusPod :: Resource
  NodeLimitMinusPod :: Resource
  NodeCapacity :: Resource

definition accumulate :: "Resource \<Rightarrow> Resource \<Rightarrow> Resource" where
  "accumulate r t = t\<lparr>rMilliCPU := rMilliCPU t + rMilliCPU r, rMemory := rMemory t + rMemory r\<rparr>"

fun sumPods :: "(string \<Rightarrow> bool) \<Rightarrow> Pod list \<Rightarrow> Resource \<Rightarrow> Resource \<Rightarrow> (Resource \<times> Resource) option" where
  "sumPods sc [] nodeRequest nodeLimit = Some (nodeRequest, nodeLimit)"
| "sumPods sc (p # ps) nodeRequest nodeLimit =
     (case SetMaxLimits (GetResourceRequested sc p) (GetResourceLimits sc p) of
        None \<Rightarrow> None
      | Some limits \<Rightarrow> sumPods sc ps (accumulate (GetResourceRequested sc p) nodeRequest) (accumulate limits nodeLimit))"

definition capRequests :: "int64 \<Rightarrow> int64 \<Rightarrow> Resource \<Rightarrow> Resource" where
  "capRequests capCpu capMem r = r\<lparr>rMilliCPU := setMin (rMilliCPU r) capCpu, rMemory := setMin (rMemory r) capMem\<rparr>"

text \<open>The pods of the node come first, the pending pod last.\<close>

definition GetNodeRequestsAndLimits ::
    "(string \<Rightarrow> bool) \<Rightarrow> Pod list \<Rightarrow> ResourceList \<Rightarrow> Resource \<Rightarrow> Resource \<Rightarrow> NodeRequestsAndLimits option" where
  "GetNodeRequestsAndLimits sc podsOnNode allocatable podRequests podLimits =
     (let capCpu = QMilliValue (quantityOf allocatable ''cpu''); capMem = QValue (quantityOf allocatable ''memory'')
      in map_option (\<lambda>(nodeRequestMinusPod, nodeLimitMinusPod).
           \<lparr>NodeRequest = capRequests capCpu capMem (accumulate podRequests nodeRequestMinusPod),
            NodeLimit = accumulate podLimits nodeLimitMinusPod,
            NodeRequestMinusPod = capRequests capCpu capMem nodeRequestMinusPod,
            NodeLimitMinusPod = nodeLimitMinusPod,
            NodeCapacity = emptyResource\<lparr>rMilliCPU := capCpu, rMemory := capMem\<rparr>\<rparr>)
         (sumPods sc podsOnNode emptyResource emptyResource))"

section \<open>Pods bound recently\<close>

text \<open>\<^verbatim>\<open>cacheCleanupIntervalMinutes\<close> only sets how often the clean-up runs.\<close>

definition metricsAgentReportingInterval :: int where
  "metricsAgentReportingInterval = 60 * 1000000000"

record podInfo =
  Timestamp :: int
  infoPod :: Pod

type_synonym PodAssignEventHandler = "(string, podInfo list) gomap"

definition cachedPods :: "PodAssignEventHandler \<Rightarrow> string \<Rightarrow> podInfo list" where
  "cachedPods h node = (case map_of h node of None \<Rightarrow> [] | Some c \<Rightarrow> c)"

definition isAssigned :: "Pod \<Rightarrow> bool" where
  "isAssigned pod = (podNodeName pod \<noteq> '''')"

definition updateCache :: "int \<Rightarrow> Pod \<Rightarrow> PodAssignEventHandler \<Rightarrow> PodAssignEventHandler" where
  "updateCache now pod h =
     (if podNodeName pod = '''' then h
      else AList.update (podNodeName pod) (cachedPods h (podNodeName pod) @ [\<lparr>Timestamp = now, infoPod = pod\<rparr>]) h)"

definition OnAdd :: "int \<Rightarrow> Pod \<Rightarrow> PodAssignEventHandler \<Rightarrow> PodAssignEventHandler" where
  "OnAdd now pod h = updateCache now pod h"

definition OnUpdate :: "int \<Rightarrow> Pod \<Rightarrow> Pod \<Rightarrow> PodAssignEventHandler \<Rightarrow> PodAssignEventHandler" where
  "OnUpdate now oldPod newPod h = (if podNodeName oldPod \<noteq> podNodeName newPod then updateCache now newPod h else h)"

fun removeFirst :: "string \<Rightarrow> podInfo list \<Rightarrow> podInfo list" where
  "removeFirst uid [] = []"
| "removeFirst uid (v # vs) = (if podUID (infoPod v) = uid then vs else v # removeFirst uid vs)"

definition OnDelete :: "Pod \<Rightarrow> PodAssignEventHandler \<Rightarrow> PodAssignEventHandler" where
  "OnDelete pod h =
     (case map_of h (podNodeName pod) of
        None \<Rightarrow> h
      | Some c \<Rightarrow> AList.update (podNodeName pod) (removeFirst (podUID pod) c) h)"

text \<open>What an informer delivers: a pod, or a tombstone in place of a pod whose deletion was missed. The filter of \<^verbatim>\<open>AddToHandle\<close> lets both
  through; the handlers assert that they are given a pod.\<close>

datatype informer_obj = PodObj Pod | DeletedFinalStateUnknown Pod | OtherObj

fun filterFunc :: "informer_obj \<Rightarrow> bool" where
  "filterFunc (PodObj p) = isAssigned p"
| "filterFunc (DeletedFinalStateUnknown p) = isAssigned p"
| "filterFunc OtherObj = False"

fun deliverDelete :: "informer_obj \<Rightarrow> PodAssignEventHandler \<Rightarrow> PodAssignEventHandler option" where
  "deliverDelete obj h =
     (if \<not> filterFunc obj then Some h else (case obj of PodObj p \<Rightarrow> Some (OnDelete p h) | _ \<Rightarrow> None))"

text \<open>\<^verbatim>\<open>sort.Search\<close>: binary search for the least index from which the predicate holds.\<close>

function searchFrom :: "(nat \<Rightarrow> bool) \<Rightarrow> nat \<Rightarrow> nat \<Rightarrow> nat" where
  "searchFrom f i j =
     (if i < j then (let h = (i + j) div 2 in if \<not> f h then searchFrom f (Suc h) j else searchFrom f i h) else i)"
  by pat_completeness auto
termination by (relation "measure (\<lambda>(f, i, j). j - i)") auto

definition sortSearch :: "nat \<Rightarrow> (nat \<Rightarrow> bool) \<Rightarrow> nat" where
  "sortSearch n f = searchFrom f 0 n"

definition cleanupNode :: "int \<Rightarrow> podInfo list \<Rightarrow> podInfo list option" where
  "cleanupNode curTime c =
     (let idx = sortSearch (length c) (\<lambda>i. curTime < Timestamp (c ! i) + metricsAgentReportingInterval)
      in if idx = length c then Some c
         else (let c' = drop idx c in if c' = [] then None else Some c'))"

text \<open>\<open>clock\<close> gives the readings of the clock, one per node.\<close>

definition cleanupCache :: "(string \<Rightarrow> int) \<Rightarrow> PodAssignEventHandler \<Rightarrow> PodAssignEventHandler" where
  "cleanupCache clock h =
     fold (\<lambda>node h. case cleanupNode (clock node) (cachedPods h node) of
         None \<Rightarrow> AList.delete node h | Some c \<Rightarrow> AList.update node c h) (remdups (map fst h)) h"

end
