(* ===== verification/Trimaran_Plugins.thy ===== *)
theory Trimaran_Plugins
  imports Trimaran
begin

text \<open>
  The scores of the three load-aware plugins: \<^verbatim>\<open>targetloadpacking\<close>, \<^verbatim>\<open>loadvariationriskbalancing\<close> and \<^verbatim>\<open>lowriskovercommitment\<close>. A score
  comes with its status code; \<open>None\<close> is a panic. \<^verbatim>\<open>math.Pow\<close>, the square root and the regularised incomplete beta function of
  \<^verbatim>\<open>gonum\<close> are parameters.
\<close>

text \<open>What a plugin reads of a node in the snapshot.\<close>

record tri_node =
  tnPods :: "Pod list"
  tnAllocatable :: ResourceList
  tnCapacity :: ResourceList

section \<open>Target load packing\<close>

record TargetLoadPacking =
  tlpTarget :: int64
  tlpRequestsMilliCores :: int64
  tlpMultiplier :: rat
  tlpMetrics :: WatcherMetrics
  tlpHandler :: PodAssignEventHandler

text \<open>The arguments: target, default requests and multiplier, as read; \<open>None\<close> is an error. The code keeps the three settings in package
  variables, so that the instance created last decides for all; the record is the state of a scheduler with one instance.\<close>

definition NewTargetLoadPacking :: "TrimaranSpec \<Rightarrow> WatcherMetrics option \<Rightarrow> int64 \<Rightarrow> ResourceList \<Rightarrow> rat option \<Rightarrow> TargetLoadPacking option" where
  "NewTargetLoadPacking spec latest target defaultRequests multiplier =
     (case NewCollector spec latest of
        None \<Rightarrow> None
      | Some metrics \<Rightarrow>
          map_option (\<lambda>m. \<lparr>tlpTarget = target, tlpRequestsMilliCores = QMilliValue (quantityOf defaultRequests ''cpu''), tlpMultiplier = m,
            tlpMetrics = metrics, tlpHandler = []\<rparr>) multiplier)"

definition PredictUtilisation :: "TargetLoadPacking \<Rightarrow> Container \<Rightarrow> int64" where
  "PredictUtilisation pl c =
     (if has_key (ctrLimits c) ''cpu'' then QMilliValue (quantityOf (ctrLimits c) ''cpu'')
      else if has_key (ctrRequests c) ''cpu'' then
        word_of_int (fnearest (fmul (f64 (sint (QMilliValue (quantityOf (ctrRequests c) ''cpu'')))) (tlpMultiplier pl)))
      else tlpRequestsMilliCores pl)"

definition overheadCpu :: "Pod \<Rightarrow> int64" where
  "overheadCpu pod = (case podOverhead pod of None \<Rightarrow> 0 | Some rl \<Rightarrow> QMilliValue (quantityOf rl ''cpu''))"

definition podUsage :: "TargetLoadPacking \<Rightarrow> Pod \<Rightarrow> int64" where
  "podUsage pl pod = fold (\<lambda>c u. u + PredictUtilisation pl c) (podContainers pod) 0 + overheadCpu pod"

definition cpuMetric :: "Metric list \<Rightarrow> rat option" where
  "cpuMetric metrics =
     fold (\<lambda>m r. if metType m = ''CPU'' \<and> (metOperator m = ''AVG'' \<or> metOperator m = ''Latest'') then Some (metValue m) else r) metrics None"

text \<open>The seconds of a time stamp.\<close>

definition unixTime :: "int \<Rightarrow> int64" where
  "unixTime t = word_of_int (t div 1000000000)"

definition missesPod :: "int64 \<Rightarrow> podInfo \<Rightarrow> bool" where
  "missesPod windowEnd info =
     (windowEnd <s unixTime (Timestamp info) \<or>
      (unixTime (Timestamp info) \<le>s windowEnd \<and> windowEnd - unixTime (Timestamp info) <s 60))"

definition missingUtil :: "TargetLoadPacking \<Rightarrow> string \<Rightarrow> int64" where
  "missingUtil pl node =
     fold (\<lambda>info u. if missesPod (wmWindowEnd (tlpMetrics pl)) info then u + podUsage pl (infoPod info) else u) (cachedPods (tlpHandler pl) node) 0"

text \<open>The predicted usage in percent, and the score it gives.\<close>

definition predictedUsage :: "TargetLoadPacking \<Rightarrow> Pod \<Rightarrow> string \<Rightarrow> tri_node \<Rightarrow> rat \<Rightarrow> rat" where
  "predictedUsage pl pod node ni util =
     (let cap = f64 (sint (QMilliValue (quantityOf (tnCapacity ni) ''cpu'')));
          utilMillis = fmul (fdiv util 100) cap
      in if cap = 0 then 0
         else fdiv (fmul 100 (fadd (fadd utilMillis (f64 (sint (podUsage pl pod)))) (f64 (sint (missingUtil pl node))))) cap)"

definition packingScore :: "int64 \<Rightarrow> rat \<Rightarrow> int64" where
  "packingScore target predicted =
     (let t = f64 (sint target)
      in if t < predicted then
           (if 100 < predicted then MinNodeScore
            else word_of_int (fnearest (fdiv (fmul t (fsub 100 predicted)) (fsub 100 t))))
         else word_of_int (fnearest (fadd (fdiv (fmul (fsub 100 t) predicted) t) t)))"

definition tlpScore :: "TargetLoadPacking \<Rightarrow> (string \<Rightarrow> tri_node option) \<Rightarrow> Pod \<Rightarrow> string \<Rightarrow> int64 \<times> Code" where
  "tlpScore pl snapshot pod node =
     (case snapshot node of
        None \<Rightarrow> (MinNodeScore, Error)
      | Some ni \<Rightarrow>
          (case GetNodeMetrics (tlpMetrics pl) node of
             None \<Rightarrow> (MinNodeScore, Success)
           | Some metrics \<Rightarrow>
               (case cpuMetric metrics of
                  None \<Rightarrow> (MinNodeScore, Success)
                | Some util \<Rightarrow> (packingScore (tlpTarget pl) (predictedUsage pl pod node ni util), Success))))"

section \<open>Load variation risk balancing\<close>

text \<open>\<open>powInv s x\<close> is \<^verbatim>\<open>math.Pow(x, 1/s)\<close>.\<close>

definition computeScore :: "(rat \<Rightarrow> rat \<Rightarrow> rat) \<Rightarrow> ResourceStats \<Rightarrow> rat \<Rightarrow> rat \<Rightarrow> rat" where
  "computeScore powInv rs margin sensitivity =
     (if Capacity rs \<le> 0 then 0
      else
        (let rs' = rs\<lparr>Req := max (Req rs) 0, UsedAvg := max (min (UsedAvg rs) (Capacity rs)) 0,
                     UsedStdev := max (min (UsedStdev rs) (Capacity rs)) 0\<rparr>;
             (mu, sigma) = GetMuSigma rs';
             sigma' = (if 0 \<le> sensitivity then powInv sensitivity sigma else sigma);
             sigma'' = max (min (fmul sigma' margin) 1) 0;
             risk = fdiv (fadd mu sigma'') 2
         in fmul (fsub 1 risk) (f64 (sint MaxNodeScore))))"

definition lvrbScore ::
    "(string \<Rightarrow> bool) \<Rightarrow> (rat \<Rightarrow> rat \<Rightarrow> rat) \<Rightarrow> rat \<Rightarrow> rat \<Rightarrow> WatcherMetrics \<Rightarrow> (string \<Rightarrow> tri_node option) \<Rightarrow> Pod \<Rightarrow> string \<Rightarrow> int64 \<times> Code" where
  "lvrbScore sc powInv margin sensitivity collector snapshot pod node =
     (case snapshot node of
        None \<Rightarrow> (MinNodeScore, Error)
      | Some ni \<Rightarrow>
          (case GetNodeMetrics collector node of
             None \<Rightarrow> (MinNodeScore, Success)
           | Some metrics \<Rightarrow>
               (let podRequest = GetResourceRequested sc pod;
                    cpuStats = CreateResourceStats metrics (tnAllocatable ni) podRequest ''cpu'' ''CPU'';
                    memoryStats = CreateResourceStats metrics (tnAllocatable ni) podRequest ''memory'' ''Memory'';
                    cpuScore = (case cpuStats of None \<Rightarrow> 0 | Some rs \<Rightarrow> computeScore powInv rs margin sensitivity);
                    memoryScore = (case memoryStats of None \<Rightarrow> 0 | Some rs \<Rightarrow> computeScore powInv rs margin sensitivity);
                    totalScore = (if memoryStats \<noteq> None \<and> cpuStats \<noteq> None then min memoryScore cpuScore else max memoryScore cpuScore)
                in (word_of_int (fnearest totalScore), Success))))"

section \<open>Floats with infinities and NaN\<close>

text \<open>Where a division by zero can happen: a finite float, an infinity or NaN. Zeros are not signed, which the code below does
  not observe.\<close>

datatype xfloat = Fin rat | PInf | NInf | NaN

fun xdiv :: "xfloat \<Rightarrow> xfloat \<Rightarrow> xfloat" where
  "xdiv (Fin a) (Fin b) =
     (if b \<noteq> 0 then Fin (fdiv a b) else if a = 0 then NaN else if 0 < a then PInf else NInf)"
| "xdiv (Fin a) PInf = Fin 0"
| "xdiv (Fin a) NInf = Fin 0"
| "xdiv PInf (Fin b) = (if 0 \<le> b then PInf else NInf)"
| "xdiv NInf (Fin b) = (if 0 \<le> b then NInf else PInf)"
| "xdiv x y = NaN"

fun xmul :: "rat \<Rightarrow> xfloat \<Rightarrow> xfloat" where
  "xmul a (Fin b) = Fin (fmul a b)"
| "xmul a PInf = (if a = 0 then NaN else if 0 < a then PInf else NInf)"
| "xmul a NInf = (if a = 0 then NaN else if 0 < a then NInf else PInf)"
| "xmul a NaN = NaN"

fun xadd :: "xfloat \<Rightarrow> rat \<Rightarrow> xfloat" where
  "xadd (Fin a) b = Fin (fadd a b)"
| "xadd x b = x"

fun xpositive :: "xfloat \<Rightarrow> bool" where
  "xpositive (Fin a) = (0 < a)"
| "xpositive PInf = True"
| "xpositive _ = False"

text \<open>\<^verbatim>\<open>math.Max\<close> and \<^verbatim>\<open>math.Min\<close> with a finite bound.\<close>

fun xmax :: "xfloat \<Rightarrow> rat \<Rightarrow> xfloat" where
  "xmax (Fin a) b = Fin (max a b)"
| "xmax NInf b = Fin b"
| "xmax x b = x"

fun xmin :: "xfloat \<Rightarrow> rat \<Rightarrow> xfloat" where
  "xmin (Fin a) b = Fin (min a b)"
| "xmin PInf b = Fin b"
| "xmin x b = x"

section \<open>Beta distributions\<close>

text \<open>The shape; the moments are kept for printing only.\<close>

record BetaDistribution =
  bdAlpha :: xfloat
  bdBeta :: xfloat

definition checkValidity :: "xfloat \<Rightarrow> xfloat \<Rightarrow> bool" where
  "checkValidity a b = (xpositive a \<and> xpositive b)"

definition NewBetaDistribution :: "xfloat \<Rightarrow> xfloat \<Rightarrow> BetaDistribution option" where
  "NewBetaDistribution a b = (if checkValidity a b then Some \<lparr>bdAlpha = a, bdBeta = b\<rparr> else None)"

definition SmallestNonzeroFloat64 :: rat where
  "SmallestNonzeroFloat64 = 1 / 2 ^ 1074"

definition MatchMoments :: "rat \<Rightarrow> rat \<Rightarrow> BetaDistribution option" where
  "MatchMoments m1 m2 =
     (let variance = fsub m2 (fmul m1 m1)
      in if m1 < 0 \<or> 1 < m1 \<or> variance < 0 \<or> fmul m1 (fsub 1 m1) \<le> variance then None
         else (let temp = xmax (xadd (xdiv (Fin (fmul m1 (fsub 1 m1))) (Fin variance)) (- 1)) SmallestNonzeroFloat64
               in Some \<lparr>bdAlpha = xmul m1 temp, bdBeta = xmul (fsub 1 m1) temp\<rparr>))"

definition GetMaxVariance :: "rat \<Rightarrow> rat" where
  "GetMaxVariance m1 = (if 0 < m1 \<and> m1 < 1 then fmul m1 (fsub 1 m1) else 0)"

text \<open>\<open>inc a b x\<close> is \<^verbatim>\<open>gonum.RegIncBeta\<close>.\<close>

definition RegularizedIncomplete :: "(xfloat \<Rightarrow> xfloat \<Rightarrow> rat \<Rightarrow> xfloat) \<Rightarrow> rat \<Rightarrow> xfloat \<Rightarrow> xfloat \<Rightarrow> xfloat" where
  "RegularizedIncomplete inc x a b =
     (if \<not> xpositive a \<and> a \<noteq> NaN \<or> \<not> xpositive b \<and> b \<noteq> NaN \<or> x < 0 \<or> 1 < x then NaN
      else if x = 0 then Fin 0
      else if x = 1 then Fin 1
      else inc a b x)"

definition DistributionFunction :: "(xfloat \<Rightarrow> xfloat \<Rightarrow> rat \<Rightarrow> xfloat) \<Rightarrow> BetaDistribution \<Rightarrow> rat \<Rightarrow> rat" where
  "DistributionFunction inc b x =
     (case RegularizedIncomplete inc x (bdAlpha b) (bdBeta b) of Fin p \<Rightarrow> if p < 0 \<or> 1 < p then 0 else p | _ \<Rightarrow> 0)"

text \<open>The threshold is NaN on a node without capacity; it is not looked at then.\<close>

definition ComputeProbability ::
    "(xfloat \<Rightarrow> xfloat \<Rightarrow> rat \<Rightarrow> xfloat) \<Rightarrow> rat \<Rightarrow> rat \<Rightarrow> xfloat \<Rightarrow> rat \<times> BetaDistribution option" where
  "ComputeProbability inc mu sigma threshold =
     (let le = (case threshold of Fin t \<Rightarrow> mu \<le> t | PInf \<Rightarrow> True | _ \<Rightarrow> False);
          gt = (case threshold of Fin t \<Rightarrow> t < mu | NInf \<Rightarrow> True | _ \<Rightarrow> False)
      in if mu = 0 \<or> (sigma = 0 \<and> le) then (1, None)
         else if sigma = 0 \<and> gt then (0, None)
         else (case MatchMoments mu (fadd (fmul sigma sigma) (fmul mu mu)) of
           None \<Rightarrow> (0, None)
         | Some betaDist \<Rightarrow>
             (case threshold of
                Fin t \<Rightarrow> (DistributionFunction inc betaDist t, Some betaDist)
              | _ \<Rightarrow> (0, Some betaDist))))"

section \<open>Low risk over-commitment\<close>

record PodResourcesStateData =
  podRequests :: Resource
  podLimits :: Resource

definition CreatePodResourcesStateData :: "(string \<Rightarrow> bool) \<Rightarrow> Pod \<Rightarrow> PodResourcesStateData option" where
  "CreatePodResourcesStateData sc pod =
     map_option (\<lambda>limits. \<lparr>podRequests = GetResourceRequested sc pod, podLimits = limits\<rparr>)
       (SetMaxLimits (GetResourceRequested sc pod) (GetResourceLimits sc pod))"

record LowRiskOverCommitment =
  lrSmoothingWindowSize :: int64
  lrRiskLimitWeights :: "(string, rat) gomap"
  lrMetrics :: WatcherMetrics

definition riskLimitWeightsMap :: "(string \<times> rat) list \<Rightarrow> (string, rat) gomap" where
  "riskLimitWeightsMap weights = fold (\<lambda>(r, w). AList.update r w) weights [(''cpu'', 1 / 2), (''memory'', 1 / 2)]"

definition NewLowRiskOverCommitment :: "TrimaranSpec \<Rightarrow> WatcherMetrics option \<Rightarrow> int64 \<Rightarrow> (string \<times> rat) list \<Rightarrow> LowRiskOverCommitment option" where
  "NewLowRiskOverCommitment spec latest window weights =
     map_option (\<lambda>metrics. \<lparr>lrSmoothingWindowSize = window, lrRiskLimitWeights = riskLimitWeightsMap weights, lrMetrics = metrics\<rparr>)
       (NewCollector spec latest)"

text \<open>The functions the risk is computed with: the square root and the incomplete beta function.\<close>

record math_fns =
  mSqrt :: "rat \<Rightarrow> rat"
  mIncBeta :: "xfloat \<Rightarrow> xfloat \<Rightarrow> rat \<Rightarrow> xfloat"

definition MaxVarianceAllowance :: rat where
  "MaxVarianceAllowance = fround 53 (99 / 100)"

definition resourceOf :: "string \<Rightarrow> Resource \<Rightarrow> int64" where
  "resourceOf resourceName r = (if resourceName = ''cpu'' then rMilliCPU r else rMemory r)"

definition riskOfLimit :: "int64 \<Rightarrow> int64 \<Rightarrow> int64 \<Rightarrow> xfloat" where
  "riskOfLimit request limit capacity =
     (if capacity <s limit then xdiv (Fin (f64 (sint (limit - capacity)))) (Fin (f64 (sint (limit - request)))) else Fin 0)"

text \<open>The probability that the load stays within what is allocated, conditioned when the limits are below the capacity.\<close>

definition allocProbability :: "math_fns \<Rightarrow> LowRiskOverCommitment \<Rightarrow> ResourceStats \<Rightarrow> int64 \<Rightarrow> int64 \<Rightarrow> int64 \<Rightarrow> rat" where
  "allocProbability fns pl stats requestMinusPod limitMinusPod capacity =
     (let (mu, sigma0) = GetMuSigma stats;
          sigma1 = fmul sigma0 (mSqrt fns (f64 (sint (lrSmoothingWindowSize pl))));
          sigma = min sigma1 (mSqrt fns (fmul (GetMaxVariance mu) MaxVarianceAllowance));
          allocThreshold = xmin (xmax (xdiv (Fin (f64 (sint requestMinusPod))) (Fin (f64 (sint capacity)))) 0) 1;
          (allocProb, fit) = ComputeProbability (mIncBeta fns) mu sigma allocThreshold
      in if limitMinusPod <s capacity \<and> requestMinusPod \<le>s limitMinusPod then
           (let limitThreshold = xdiv (Fin (f64 (sint limitMinusPod))) (Fin (f64 (sint capacity)))
            in if limitThreshold = Fin 0 then 1
               else (case fit of
                 None \<Rightarrow> allocProb
               | Some fitted \<Rightarrow>
                   (let limitProb = (case limitThreshold of Fin t \<Rightarrow> DistributionFunction (mIncBeta fns) fitted t | _ \<Rightarrow> 0)
                    in if 0 < limitProb then min (max (fdiv allocProb limitProb) 0) 1 else allocProb)))
         else allocProb)"

definition computeRisk ::
    "math_fns \<Rightarrow> LowRiskOverCommitment \<Rightarrow> Metric list \<Rightarrow> string \<Rightarrow> string \<Rightarrow> ResourceList \<Rightarrow> NodeRequestsAndLimits \<Rightarrow> xfloat" where
  "computeRisk fns pl metrics resourceName resourceType allocatable nrl =
     (if resourceName \<noteq> ''cpu'' \<and> resourceName \<noteq> ''memory'' then Fin 0
      else
        (let riskLimit = riskOfLimit (resourceOf resourceName (NodeRequest nrl)) (resourceOf resourceName (NodeLimit nrl)) (resourceOf resourceName (NodeCapacity nrl));
             riskLoad = (case CreateResourceStats metrics allocatable emptyResource resourceName resourceType of
               None \<Rightarrow> 0
             | Some stats \<Rightarrow>
                 fsub 1 (allocProbability fns pl stats (resourceOf resourceName (NodeRequestMinusPod nrl))
                   (resourceOf resourceName (NodeLimitMinusPod nrl)) (resourceOf resourceName (NodeCapacity nrl))));
             w = (case map_of (lrRiskLimitWeights pl) resourceName of None \<Rightarrow> 0 | Some w \<Rightarrow> w)
         in xmin (xmax (xadd (xmul w riskLimit) (fmul (fsub 1 w) riskLoad)) 0) 1))"

text \<open>The larger of two risks, NaN if one is, and the rank. What an architecture makes of a NaN as an integer is \<open>nan\<close>.\<close>

fun worstRisk :: "xfloat \<Rightarrow> xfloat \<Rightarrow> xfloat" where
  "worstRisk (Fin a) (Fin b) = Fin (max a b)"
| "worstRisk NaN _ = NaN"
| "worstRisk _ NaN = NaN"
| "worstRisk a _ = a"

definition computeRank ::
    "(string \<Rightarrow> bool) \<Rightarrow> math_fns \<Rightarrow> LowRiskOverCommitment \<Rightarrow> Metric list \<Rightarrow> tri_node \<Rightarrow> PodResourcesStateData \<Rightarrow> xfloat option" where
  "computeRank sc fns pl metrics ni res =
     map_option (\<lambda>nrl.
       (case worstRisk (computeRisk fns pl metrics ''cpu'' ''CPU'' (tnAllocatable ni) nrl)
                       (computeRisk fns pl metrics ''memory'' ''Memory'' (tnAllocatable ni) nrl) of
          Fin r \<Rightarrow> Fin (fsub 1 r) | _ \<Rightarrow> NaN))
       (GetNodeRequestsAndLimits sc (tnPods ni) (tnAllocatable ni) (podRequests res) (podLimits res))"

text \<open>\<open>preScore\<close> is the cycle state; a missing entry is computed again.\<close>

definition lrocPreScore :: "(string \<Rightarrow> bool) \<Rightarrow> Pod \<Rightarrow> PodResourcesStateData option" where
  "lrocPreScore sc pod = CreatePodResourcesStateData sc pod"

definition lrocScore ::
    "int64 \<Rightarrow> (string \<Rightarrow> bool) \<Rightarrow> math_fns \<Rightarrow> LowRiskOverCommitment \<Rightarrow> (string \<Rightarrow> tri_node option) \<Rightarrow> PodResourcesStateData option \<Rightarrow>
     Pod \<Rightarrow> string \<Rightarrow> (int64 \<times> Code) option" where
  "lrocScore nan sc fns pl snapshot preScore pod node =
     (case (case preScore of None \<Rightarrow> CreatePodResourcesStateData sc pod | Some r \<Rightarrow> Some r) of
        None \<Rightarrow> None
      | Some res \<Rightarrow>
          if rMilliCPU (podRequests res) = 0 \<and> rMemory (podRequests res) = 0 \<and> rMilliCPU (podLimits res) = 0 \<and> rMemory (podLimits res) = 0 then
            Some (MinNodeScore, Success)
          else (case snapshot node of
            None \<Rightarrow> Some (MinNodeScore, Error)
          | Some ni \<Rightarrow>
              (case GetNodeMetrics (lrMetrics pl) node of
                 None \<Rightarrow> Some (MinNodeScore, Success)
               | Some metrics \<Rightarrow>
                   map_option (\<lambda>rank. (case rank of Fin r \<Rightarrow> word_of_int (fnearest (fmul r (f64 (sint MaxNodeScore)))) | _ \<Rightarrow> nan, Success))
                     (computeRank sc fns pl metrics ni res))))"

end
