(* ===== verification/Trimaran_Properties.thy ===== *)
theory Trimaran_Properties
  imports Trimaran_Plugins
begin

text \<open>
  The scores of the load-aware plugins stay in range and are ordered as intended, in spite of rounding, and the cache of pods bound
  recently keeps what the metrics do not show yet.
\<close>

section \<open>Packing to a target\<close>

lemma sint_small_word: "0 \<le> i \<Longrightarrow> i \<le> 100 \<Longrightarrow> sint (word_of_int i :: int64) = i"
  by (rule sint_word_of_int64) (simp add: int64_range_def)

lemma nearest_range:
  assumes "of_int i \<le> x" "x \<le> of_int j" "0 \<le> i" "j \<le> 100"
  shows "i \<le> sint (word_of_int (fnearest x) :: int64)" "sint (word_of_int (fnearest x) :: int64) \<le> j"
  using fnearest_between [OF assms(1,2)] assms(3,4) by (simp_all add: sint_small_word)

lemma fsub_int: "\<bar>i - j\<bar> < 2 ^ 53 \<Longrightarrow> fsub (of_int i) (of_int j) = of_int (i - j)"
  unfolding fsub_def by (metis fround53_int of_int_diff)

lemma fmul_int: "\<bar>i * j\<bar> < 2 ^ 53 \<Longrightarrow> fmul (of_int i) (of_int j) = of_int (i * j)"
  unfolding fmul_def by (metis fround53_int of_int_mult)

lemma fadd_int: "\<bar>i + j\<bar> < 2 ^ 53 \<Longrightarrow> fadd (of_int i) (of_int j) = of_int (i + j)"
  unfolding fadd_def by (metis fround53_int of_int_add)

lemma fdiv_int: "b \<noteq> 0 \<Longrightarrow> \<bar>i\<bar> < 2 ^ 53 \<Longrightarrow> fdiv (of_int (i * b)) (of_int b) = of_int i"
  unfolding fdiv_def using fround53_int [of i] by simp

lemma fzero [simp]: "fmul a 0 = 0" "fmul 0 a = 0" "fdiv 0 a = 0"
  by (simp_all add: fmul_def fdiv_def)

text \<open>The two branches of the score before it is rounded to an integer.\<close>

definition below_target :: "rat \<Rightarrow> rat \<Rightarrow> rat" where
  "below_target t p = fadd (fdiv (fmul (fsub 100 t) p) t) t"

definition above_target :: "rat \<Rightarrow> rat \<Rightarrow> rat" where
  "above_target t p = fdiv (fmul t (fsub 100 p)) (fsub 100 t)"

lemma below_ends:
  assumes t: "0 < t" "t \<le> 100"
  shows "below_target (of_int t) 0 = of_int t" "below_target (of_int t) (of_int t) = 100"
proof -
  have m: "\<bar>(100 - t) * t\<bar> < 2 ^ 53" using mult_mono [of "100 - t" 100 t 100] t by auto
  have s: "fsub 100 (of_int t) = of_int (100 - t)" using fsub_int [of 100 t] t by simp
  show "below_target (of_int t) 0 = of_int t" using fadd_int [of 0 t] t by (simp add: below_target_def)
  show "below_target (of_int t) (of_int t) = 100"
    unfolding below_target_def s fmul_int [OF m] using t fdiv_int [of t "100 - t"] fadd_int [of "100 - t" t] by simp
qed

lemma below_mono:
  "0 < t \<Longrightarrow> t \<le> 100 \<Longrightarrow> 0 \<le> p \<Longrightarrow> p \<le> q \<Longrightarrow> below_target (of_int t) p \<le> below_target (of_int t) q"
  unfolding below_target_def using fsub_int [of 100 t] by (intro fadd_mono fdiv_mono fmul_mono) simp_all

lemma above_ends:
  assumes t: "0 < t" "t \<le> 100"
  shows "t < 100 \<Longrightarrow> above_target (of_int t) (of_int t) = of_int t" "above_target (of_int t) 100 = 0"
proof -
  have m: "\<bar>t * (100 - t)\<bar> < 2 ^ 53" using mult_mono [of t 100 "100 - t" 100] t by auto
  have s: "fsub 100 (of_int t) = of_int (100 - t)" using fsub_int [of 100 t] t by simp
  show "above_target (of_int t) (of_int t) = of_int t" if "t < 100"
    unfolding above_target_def s fmul_int [OF m] using t that fdiv_int [of "100 - t" t] by simp
  show "above_target (of_int t) 100 = 0" by (simp add: above_target_def fsub_def)
qed

lemma above_antimono:
  assumes t: "0 < t" and h: "t < 100" "p \<le> q" "q \<le> 100"
  shows "above_target (of_int t) q \<le> above_target (of_int t) p"
proof -
  have "0 \<le> fsub 100 q" using h(3) fround53_mono [of 0 "100 - q"] by (simp add: fsub_def)
  moreover have "0 < fsub 100 (of_int t)" using fsub_int [of 100 t] t h(1) by simp
  ultimately show ?thesis
    unfolding above_target_def using h t by (intro fdiv_mono fmul_mono fsub_mono) simp_all
qed

lemma packingScore_cases:
  assumes "0 < sint target" "sint target \<le> 100"
  shows "packingScore target p =
    (if p \<le> of_int (sint target) then word_of_int (fnearest (below_target (of_int (sint target)) p))
     else if 100 < p then 0 else word_of_int (fnearest (above_target (of_int (sint target)) p)))"
proof -
  have "f64 (sint target) = of_int (sint target)" using assms by (intro f64_int) simp
  then show ?thesis by (simp add: packingScore_def Let_def below_target_def above_target_def MinNodeScore_def)
qed

lemma packing_below:
  assumes t: "0 < sint target" "sint target \<le> 100" and p: "0 \<le> p" "p \<le> q" "q \<le> of_int (sint target)"
  shows "sint target \<le> sint (packingScore target p)" "sint (packingScore target p) \<le> sint (packingScore target q)"
    "sint (packingScore target q) \<le> 100"
proof -
  let ?b = "below_target (of_int (sint target))"
  have b: "of_int (sint target) \<le> ?b p" "?b p \<le> ?b q" "?b q \<le> of_int 100"
    using below_mono [OF t order_refl p(1)] below_mono [OF t p(1,2)] below_mono [OF t _ p(3)] p below_ends [OF t] by simp_all
  have "fnearest (?b p) \<le> fnearest (?b q)" using b(2) by (rule fnearest_mono)
  moreover note fnearest_between [OF b(1) order_trans [OF b(2,3)]] fnearest_between [OF order_trans [OF b(1,2)] b(3)]
  moreover have "p \<le> of_int (sint target)" using p by simp
  ultimately show "sint target \<le> sint (packingScore target p)" "sint (packingScore target p) \<le> sint (packingScore target q)"
      "sint (packingScore target q) \<le> 100"
    using t p by (simp_all add: packingScore_cases sint_small_word)
qed

lemma packing_at_target: "0 < sint target \<Longrightarrow> sint target \<le> 100 \<Longrightarrow> packingScore target (of_int (sint target)) = 100"
  using below_ends(2) [of "sint target"] fnearest_of_int [of 100] by (simp add: packingScore_cases)

lemma packing_above:
  assumes t: "0 < sint target" "sint target \<le> 100" and p: "of_int (sint target) < p" "p \<le> q"
  shows "sint (packingScore target p) \<le> sint target" "sint (packingScore target q) \<le> sint (packingScore target p)"
    "0 \<le> sint (packingScore target q)"
proof -
  let ?a = "above_target (of_int (sint target))"
  have range: "0 \<le> fnearest (?a r) \<and> fnearest (?a r) \<le> sint target" if r: "of_int (sint target) < r" "r \<le> 100" for r
  proof -
    have t': "sint target < 100" using r by linarith
    have "of_int 0 \<le> ?a r" "?a r \<le> of_int (sint target)"
      using above_antimono [OF t(1) t' r(2) order_refl] above_antimono [OF t(1) t' less_imp_le [OF r(1)] r(2)] above_ends [OF t] t' by simp_all
    then show ?thesis by (rule fnearest_between)
  qed
  have val: "sint (packingScore target r) = (if 100 < r then 0 else fnearest (?a r))" if r: "of_int (sint target) < r" for r
    using range [OF r] t r by (auto simp: packingScore_cases [OF t] sint_small_word)
  have q: "of_int (sint target) < q" using p by simp
  show "sint (packingScore target p) \<le> sint target" "0 \<le> sint (packingScore target q)"
    using range [OF p(1)] range [OF q] t by (auto simp: val [OF p(1)] val [OF q])
  show "sint (packingScore target q) \<le> sint (packingScore target p)"
  proof (cases "100 < q")
    case True
    then show ?thesis using range [OF p(1)] by (auto simp: val [OF p(1)] val [OF q])
  next
    case False
    have "sint target < 100" using False p by linarith
    then have "?a q \<le> ?a p" using False by (intro above_antimono [OF t(1) _ p(2)]) auto
    then show ?thesis using False p fnearest_mono by (simp add: val [OF p(1)] val [OF q])
  qed
qed

text \<open>A node whose load is known, with the usage predicted for it if the pod is placed there.\<close>

definition load_known :: "TargetLoadPacking \<Rightarrow> (string \<Rightarrow> tri_node option) \<Rightarrow> Pod \<Rightarrow> string \<Rightarrow> rat \<Rightarrow> bool" where
  "load_known pl snapshot pod node p \<longleftrightarrow>
     (\<exists>ni metrics util. snapshot node = Some ni \<and> GetNodeMetrics (tlpMetrics pl) node = Some metrics \<and> cpuMetric metrics = Some util \<and>
        p = predictedUsage pl pod node ni util)"

lemma tlpScore_known: "load_known pl snapshot pod node p \<Longrightarrow> tlpScore pl snapshot pod node = (packingScore (tlpTarget pl) p, Success)"
  by (auto simp: load_known_def tlpScore_def)

text \<open>\<^bold>\<open>C13\<close> Target load packing fills nodes up to the target and no further. Scores are in the range of the framework; of two nodes
  whose predicted usage is at most the target the fuller scores no less, of two above it the fuller scores no more, and a node
  at or below the target scores at least the target while one above scores at most the target. A node predicted at
  exactly the target scores 100 and one beyond its capacity 0. Rounding does not disturb the order.\<close>

theorem packing_prefers_target:
  assumes target: "0 < sint (tlpTarget pl)" "sint (tlpTarget pl) \<le> 100"
    and n: "load_known pl snapshot pod n p" "0 \<le> p" and m: "load_known pl snapshot pod m q" "p \<le> q"
  defines "rating \<equiv> \<lambda>node. sint (fst (tlpScore pl snapshot pod node))" and "t \<equiv> of_int (sint (tlpTarget pl))"
  shows "0 \<le> rating n \<and> rating n \<le> 100 \<and> 0 \<le> rating m \<and> rating m \<le> 100 \<and>
    (q \<le> t \<longrightarrow> sint (tlpTarget pl) \<le> rating n \<and> rating n \<le> rating m) \<and>
    (t < p \<longrightarrow> rating m \<le> rating n \<and> rating n \<le> sint (tlpTarget pl)) \<and>
    (p \<le> t \<and> t < q \<longrightarrow> rating m \<le> sint (tlpTarget pl) \<and> sint (tlpTarget pl) \<le> rating n) \<and>
    (p = t \<longrightarrow> rating n = 100) \<and> (100 < q \<longrightarrow> rating m = 0)"
proof -
  have s: "rating n = sint (packingScore (tlpTarget pl) p)" "rating m = sint (packingScore (tlpTarget pl) q)"
    using tlpScore_known [OF n(1)] tlpScore_known [OF m(1)] by (simp_all add: rating_def)
  have eq: "p = t \<Longrightarrow> rating n = 100" using packing_at_target [OF target] by (simp add: s t_def)
  have over: "100 < q \<Longrightarrow> rating m = 0"
  proof -
    assume "100 < q"
    moreover from this have "\<not> q \<le> of_int (sint (tlpTarget pl))" using target(2) by linarith
    ultimately show ?thesis using packingScore_cases [OF target, of q] by (simp only: s if_False if_True) simp
  qed
  consider "q \<le> t" | "t < p" | "p \<le> t" "t < q" by linarith
  then show ?thesis
  proof cases
    case 1
    then show ?thesis using packing_below [OF target n(2) m(2)] target eq over m(2) by (auto simp: s t_def)
  next
    case 2
    then show ?thesis using packing_above [OF target _ m(2)] target eq over m(2) by (auto simp: s t_def)
  next
    case 3
    then show ?thesis
      using packing_below [OF target n(2) order_refl] packing_above [OF target _ order_refl, of q] target eq over by (auto simp: s t_def)
  qed
qed

definition ex_packing :: TargetLoadPacking where
  "ex_packing = \<lparr>tlpTarget = 40, tlpRequestsMilliCores = 1000, tlpMultiplier = 3 / 2,
     tlpMetrics = \<lparr>wmNodeMetrics = Some [(''a'', [\<lparr>metType = ''CPU'', metOperator = ''AVG'', metValue = 10\<rparr>]),
       (''b'', [\<lparr>metType = ''CPU'', metOperator = ''Latest'', metValue = 20\<rparr>])], wmWindowEnd = 0\<rparr>, tlpHandler = []\<rparr>"

definition ex_tri_node :: tri_node where
  "ex_tri_node = \<lparr>tnPods = [], tnAllocatable = [], tnCapacity = [(''cpu'', 10000)]\<rparr>"

lemma ex_packing_loads:
  "load_known ex_packing (\<lambda>_. Some ex_tri_node) (zero_pod\<lparr>podContainers := [\<lparr>ctrName = ''c'', ctrRequests = [], ctrLimits = [], ctrSeccompProfile = None\<rparr>]\<rparr>) ''a'' 20"
  "load_known ex_packing (\<lambda>_. Some ex_tri_node) (zero_pod\<lparr>podContainers := [\<lparr>ctrName = ''c'', ctrRequests = [], ctrLimits = [], ctrSeccompProfile = None\<rparr>]\<rparr>) ''b'' 30"
proof -
  have tenth: "fmul (fdiv 10 100) 10000 = 1000" "fmul (fdiv 20 100) 10000 = 2000" by code_simp+
  have cap: "f64 10000 = 10000" "f64 1000 = 1000" "f64 0 = 0" using f64_int [of 10000] f64_int [of 1000] f64_int [of 0] by simp_all
  have sums: "fadd 1000 1000 = 2000" "fadd 2000 1000 = 3000" "fadd 2000 0 = 2000" "fadd 3000 0 = 3000"
    using fadd_int [of 1000 1000] fadd_int [of 2000 1000] fadd_int [of 2000 0] fadd_int [of 3000 0] by simp_all
  have percent: "fdiv (fmul 100 2000) 10000 = 20" "fdiv (fmul 100 3000) 10000 = 30"
    using fmul_int [of 100 2000] fmul_int [of 100 3000] fdiv_int [of 10000 20] fdiv_int [of 10000 30] by simp_all
  show "load_known ex_packing (\<lambda>_. Some ex_tri_node) (zero_pod\<lparr>podContainers := [\<lparr>ctrName = ''c'', ctrRequests = [], ctrLimits = [], ctrSeccompProfile = None\<rparr>]\<rparr>) ''a'' 20"
    "load_known ex_packing (\<lambda>_. Some ex_tri_node) (zero_pod\<lparr>podContainers := [\<lparr>ctrName = ''c'', ctrRequests = [], ctrLimits = [], ctrSeccompProfile = None\<rparr>]\<rparr>) ''b'' 30"
    by (simp_all add: load_known_def ex_packing_def ex_tri_node_def GetNodeMetrics_def cpuMetric_def predictedUsage_def quantityOf_def QMilliValue_def
        podUsage_def PredictUtilisation_def zero_pod_def overheadCpu_def missingUtil_def cachedPods_def tenth cap sums percent)
qed

theorem packing_prefers_target_witness:
  "let pod = zero_pod\<lparr>podContainers := [\<lparr>ctrName = ''c'', ctrRequests = [], ctrLimits = [], ctrSeccompProfile = None\<rparr>]\<rparr>
   in 40 \<le> sint (fst (tlpScore ex_packing (\<lambda>_. Some ex_tri_node) pod ''a'')) \<and>
      sint (fst (tlpScore ex_packing (\<lambda>_. Some ex_tri_node) pod ''a'')) \<le> sint (fst (tlpScore ex_packing (\<lambda>_. Some ex_tri_node) pod ''b''))"
  using packing_prefers_target [OF _ _ ex_packing_loads(1) _ ex_packing_loads(2)] by (simp add: ex_packing_def)

section \<open>Pods bound recently\<close>

declare searchFrom.simps [simp del]

text \<open>The binary search on a predicate that, once true, stays true.\<close>

lemma searchFrom_spec:
  assumes mono: "\<And>k l. k \<le> l \<Longrightarrow> l < n \<Longrightarrow> f k \<Longrightarrow> f l"
    and "i \<le> j" "j \<le> n" "\<forall>k < i. \<not> f k" "\<forall>k. j \<le> k \<and> k < n \<longrightarrow> f k"
  shows "searchFrom f i j \<le> n \<and> (\<forall>k < searchFrom f i j. \<not> f k) \<and> (\<forall>k. searchFrom f i j \<le> k \<and> k < n \<longrightarrow> f k)"
  using assms(2-5)
proof (induction "j - i" arbitrary: i j rule: less_induct)
  case less
  show ?case
  proof (cases "i < j")
    case True
    let ?h = "(i + j) div 2"
    have h: "i \<le> ?h" "?h < j" using True by auto
    show ?thesis
    proof (cases "f ?h")
      case fh: True
      have "\<forall>k. ?h \<le> k \<and> k < n \<longrightarrow> f k" using mono fh by blast
      then have "searchFrom f i ?h \<le> n \<and> (\<forall>k < searchFrom f i ?h. \<not> f k) \<and> (\<forall>k. searchFrom f i ?h \<le> k \<and> k < n \<longrightarrow> f k)"
        using h less.prems(1,2,3) by (intro less.hyps) (linarith | assumption)+
      moreover have "searchFrom f i j = searchFrom f i ?h" using True fh by (subst searchFrom.simps) (simp add: Let_def)
      ultimately show ?thesis by simp
    next
      case fh: False
      have "?h < n" using h less.prems(2) by simp
      then have "\<forall>k < Suc ?h. \<not> f k" using mono [of _ ?h] fh by (auto simp: less_Suc_eq_le)
      then have "searchFrom f (Suc ?h) j \<le> n \<and> (\<forall>k < searchFrom f (Suc ?h) j. \<not> f k) \<and> (\<forall>k. searchFrom f (Suc ?h) j \<le> k \<and> k < n \<longrightarrow> f k)"
        using h less.prems(1,2,4) by (intro less.hyps) (linarith | assumption)+
      moreover have "searchFrom f i j = searchFrom f (Suc ?h) j" using True fh by (subst searchFrom.simps) (simp add: Let_def)
      ultimately show ?thesis by simp
    qed
  next
    case False
    then have "searchFrom f i j = i" by (subst searchFrom.simps) simp
    then show ?thesis using False less.prems by simp
  qed
qed

lemma drop_filter:
  assumes "r \<le> length c" "\<forall>k < r. \<not> P (c ! k)" "\<forall>k. r \<le> k \<and> k < length c \<longrightarrow> P (c ! k)"
  shows "drop r c = filter P c"
proof -
  have "filter P (take r c) = []" using assms by (auto simp: filter_empty_conv in_set_conv_nth)
  moreover have "filter P (drop r c) = drop r c" using assms by (auto simp: filter_id_conv in_set_conv_nth)
  ultimately show ?thesis by (metis append_take_drop_id filter_append append_Nil)
qed

definition fresh :: "int \<Rightarrow> podInfo \<Rightarrow> bool" where
  "fresh now info \<longleftrightarrow> now < Timestamp info + metricsAgentReportingInterval"

definition cleaned :: "int \<Rightarrow> podInfo list \<Rightarrow> podInfo list" where
  "cleaned now c = (if filter (fresh now) c = [] then c else filter (fresh now) c)"

lemma cleanupNode_sorted:
  assumes "sorted (map Timestamp c)"
  shows "cleanupNode now c = Some (cleaned now c)"
proof -
  let ?r = "sortSearch (length c) (\<lambda>i. now < Timestamp (c ! i) + metricsAgentReportingInterval)"
  have "now < Timestamp (c ! l) + metricsAgentReportingInterval"
    if "k \<le> l" "l < length c" "now < Timestamp (c ! k) + metricsAgentReportingInterval" for k l
    using sorted_nth_mono [OF assms, of k l] that by simp
  then have "?r \<le> length c \<and> (\<forall>k < ?r. \<not> fresh now (c ! k)) \<and> (\<forall>k. ?r \<le> k \<and> k < length c \<longrightarrow> fresh now (c ! k))"
    unfolding sortSearch_def fresh_def by (intro searchFrom_spec) (assumption | simp)+
  then have r: "?r \<le> length c" "\<forall>k < ?r. \<not> fresh now (c ! k)" "\<forall>k. ?r \<le> k \<and> k < length c \<longrightarrow> fresh now (c ! k)" by blast+
  then have "drop ?r c = filter (fresh now) c" by (intro drop_filter)
  moreover from this [symmetric] have "?r = length c \<longleftrightarrow> filter (fresh now) c = []" using r(1) by auto
  ultimately show ?thesis using r(1) by (auto simp: cleanupNode_def Let_def cleaned_def)
qed

lemma cachedPods_update [simp]: "cachedPods (AList.update n c h) m = (if m = n then c else cachedPods h m)"
  by (simp add: cachedPods_def update_conv')

lemma cachedPods_cleanup:
  assumes "\<And>node. sorted (map Timestamp (cachedPods h node))"
  shows "cachedPods (cleanupCache clock h) node = cleaned (clock node) (cachedPods h node)"
proof -
  have "cachedPods (fold (\<lambda>node h. case cleanupNode (clock node) (cachedPods h node) of
      None \<Rightarrow> AList.delete node h | Some c \<Rightarrow> AList.update node c h) ns h) node =
    (if node \<in> set ns then cleaned (clock node) (cachedPods h node) else cachedPods h node)"
    if "distinct ns" "\<And>node. sorted (map Timestamp (cachedPods h node))" for ns h
    using that
  proof (induction ns arbitrary: h)
    case (Cons n ns)
    have "sorted (map Timestamp (cleaned (clock n) (cachedPods h n)))"
      using Cons.prems(2) [of n] by (simp add: cleaned_def sorted_filter)
    then have "sorted (map Timestamp (cachedPods (AList.update n (cleaned (clock n) (cachedPods h n)) h) m))" for m
      using Cons.prems(2) by simp
    then show ?case using Cons.IH [of "AList.update n (cleaned (clock n) (cachedPods h n)) h"] Cons.prems
      by (auto simp: cleanupNode_sorted)
  qed simp
  from this [OF distinct_remdups assms] have "cachedPods (cleanupCache clock h) node =
      (if node \<in> fst ` set h then cleaned (clock node) (cachedPods h node) else cachedPods h node)"
    by (simp add: cleanupCache_def)
  moreover have "cachedPods h node = []" if "node \<notin> fst ` set h" using that by (simp add: cachedPods_def map_of_eq_None_iff [symmetric])
  ultimately show ?thesis by (auto simp: cleaned_def)
qed

text \<open>The handler from its start, with the time of the last event.\<close>

inductive handler_run :: "int \<Rightarrow> PodAssignEventHandler \<Rightarrow> bool" where
  start: "handler_run now []"
| add: "handler_run t h \<Longrightarrow> t \<le> now \<Longrightarrow> handler_run now (OnAdd now pod h)"
| update: "handler_run t h \<Longrightarrow> t \<le> now \<Longrightarrow> handler_run now (OnUpdate now oldPod newPod h)"
| delete: "handler_run t h \<Longrightarrow> t \<le> now \<Longrightarrow> handler_run now (OnDelete pod h)"
| cleanup: "handler_run t h \<Longrightarrow> (\<And>node. t \<le> clock node \<and> clock node \<le> now) \<Longrightarrow> handler_run now (cleanupCache clock h)"

definition list_ordered :: "int \<Rightarrow> string \<Rightarrow> podInfo list \<Rightarrow> bool" where
  "list_ordered now node c \<longleftrightarrow>
     sorted (map Timestamp c) \<and> (\<forall>info \<in> set c. Timestamp info \<le> now \<and> podNodeName (infoPod info) = node)"

definition cache_ordered :: "int \<Rightarrow> PodAssignEventHandler \<Rightarrow> bool" where
  "cache_ordered now h \<longleftrightarrow> (\<forall>node. list_ordered now node (cachedPods h node))"

lemma list_ordered_later: "list_ordered t node c \<Longrightarrow> t \<le> now \<Longrightarrow> list_ordered now node c"
  by (auto simp: list_ordered_def intro: order_trans)

lemma cache_ordered_later: "cache_ordered t h \<Longrightarrow> t \<le> now \<Longrightarrow> cache_ordered now h"
  by (auto simp: cache_ordered_def intro: list_ordered_later)

lemma removeFirst_sub: "\<exists>xs ys. c = xs @ ys \<and> (removeFirst uid c = c \<or> (\<exists>v zs. ys = v # zs \<and> removeFirst uid c = xs @ zs))"
proof (induction c)
  case (Cons v c)
  then obtain xs ys where "c = xs @ ys" "removeFirst uid c = c \<or> (\<exists>v zs. ys = v # zs \<and> removeFirst uid c = xs @ zs)" by blast
  then show ?case
  proof (cases "podUID (infoPod v) = uid")
    case True
    then show ?thesis by (intro exI [of _ "[]"] exI [of _ "v # c"]) simp
  next
    case False
    then show ?thesis using \<open>c = xs @ ys\<close> \<open>removeFirst uid c = c \<or> _\<close> by (intro exI [of _ "v # xs"] exI [of _ ys]) auto
  qed
qed simp

lemma removeFirst_ordered: "list_ordered now node c \<Longrightarrow> list_ordered now node (removeFirst uid c)"
  using removeFirst_sub [of c uid] by (auto simp: list_ordered_def sorted_append)

lemma cleaned_ordered: "list_ordered now node c \<Longrightarrow> list_ordered now node (cleaned t c)"
  by (auto simp: list_ordered_def cleaned_def sorted_filter)

lemma updateCache_ordered:
  assumes "cache_ordered t h" "t \<le> now"
  shows "cache_ordered now (updateCache now pod h)"
proof (cases "podNodeName pod = ''''")
  case True
  then show ?thesis using cache_ordered_later [OF assms] by (simp add: updateCache_def)
next
  case False
  have "list_ordered now (podNodeName pod) (cachedPods h (podNodeName pod) @ [\<lparr>Timestamp = now, infoPod = pod\<rparr>])"
    using assms by (auto simp: cache_ordered_def list_ordered_def sorted_append intro: order_trans)
  then show ?thesis using False cache_ordered_later [OF assms] by (simp add: updateCache_def cache_ordered_def)
qed

lemma handler_run_ordered: "handler_run now h \<Longrightarrow> cache_ordered now h"
proof (induction rule: handler_run.induct)
  case (start now)
  then show ?case by (simp add: cache_ordered_def cachedPods_def list_ordered_def)
next
  case (add t h now pod)
  then show ?case by (simp add: OnAdd_def updateCache_ordered)
next
  case (update t h now oldPod newPod)
  then show ?case by (simp add: OnUpdate_def updateCache_ordered cache_ordered_later)
next
  case (delete t h now pod)
  then have o: "cache_ordered now h" by (simp add: cache_ordered_later)
  then have "list_ordered now (podNodeName pod) c" if "map_of h (podNodeName pod) = Some c" for c
    using that by (simp add: cache_ordered_def cachedPods_def split: option.splits)
  then show ?case using o by (auto simp: cache_ordered_def OnDelete_def removeFirst_ordered split: option.split)
next
  case (cleanup t h clock now)
  then have s: "\<And>node. sorted (map Timestamp (cachedPods h node))" by (auto simp: cache_ordered_def list_ordered_def)
  have "t \<le> now" using cleanup(2) order_trans by blast
  then have "cache_ordered now h" using cleanup(3) by (rule cache_ordered_later [rotated])
  then show ?case unfolding cache_ordered_def cachedPods_cleanup [OF s] by (simp add: cleaned_ordered)
qed

text \<open>\<^bold>\<open>C22\<close> In every reachable state the cache of a node lists pods bound to that node in the order they were bound, none in the
  future, a pod just added is in it, and the clean-up, which searches by bisection, keeps exactly the entries younger than the
  reporting interval of the metrics, or everything if there are none: no pod that the metrics may not show yet is forgotten.\<close>

theorem recent_pods_kept:
  assumes "handler_run now h"
  shows "(\<forall>node. sorted (map Timestamp (cachedPods h node)) \<and>
      (\<forall>info \<in> set (cachedPods h node). Timestamp info \<le> now \<and> podNodeName (infoPod info) = node)) \<and>
    (\<forall>later pod. podNodeName pod \<noteq> '''' \<longrightarrow>
      \<lparr>Timestamp = later, infoPod = pod\<rparr> \<in> set (cachedPods (OnAdd later pod h) (podNodeName pod))) \<and>
    (\<forall>clock node. let young = filter (\<lambda>info. clock node < Timestamp info + metricsAgentReportingInterval) (cachedPods h node)
      in cachedPods (cleanupCache clock h) node = (if young = [] then cachedPods h node else young))"
proof -
  have ordered: "cache_ordered now h" using assms by (rule handler_run_ordered)
  then have "\<And>node. sorted (map Timestamp (cachedPods h node))" by (auto simp: cache_ordered_def list_ordered_def)
  then have "cachedPods (cleanupCache clock h) node = cleaned (clock node) (cachedPods h node)" for clock node by (rule cachedPods_cleanup)
  moreover have "fresh t = (\<lambda>info. t < Timestamp info + metricsAgentReportingInterval)" for t by (auto simp: fresh_def)
  ultimately show ?thesis using ordered by (auto simp: cache_ordered_def list_ordered_def cleaned_def OnAdd_def updateCache_def Let_def)
qed

theorem recent_pods_kept_witness:
  "let pod = (\<lambda>u. zero_pod\<lparr>podUID := u, podNodeName := ''n''\<rparr>);
       h = OnAdd 50000000000 (pod ''b'') (OnAdd 0 (pod ''a'') [])
   in cachedPods (cleanupCache (\<lambda>_. 70000000000) h) ''n'' = [\<lparr>Timestamp = 50000000000, infoPod = pod ''b''\<rparr>]"
proof -
  let ?pod = "\<lambda>u. zero_pod\<lparr>podUID := u, podNodeName := ''n''\<rparr>"
  let ?h = "OnAdd 50000000000 (?pod ''b'') (OnAdd 0 (?pod ''a'') [])"
  have "handler_run 50000000000 ?h" by (intro handler_run.add [of 0] handler_run.start [of 0]) simp_all
  moreover have "cachedPods ?h ''n'' = [\<lparr>Timestamp = 0, infoPod = ?pod ''a''\<rparr>, \<lparr>Timestamp = 50000000000, infoPod = ?pod ''b''\<rparr>]"
    by (simp add: OnAdd_def updateCache_def cachedPods_def)
  ultimately show ?thesis
    using recent_pods_kept [of 50000000000 ?h] unfolding Let_def by (simp add: metricsAgentReportingInterval_def)
qed

section \<open>Risk\<close>

lemma fround53_between:
  assumes "\<bar>i\<bar> < 2 ^ 53" "\<bar>j\<bar> < 2 ^ 53" "of_int i \<le> x" "x \<le> of_int j"
  shows "of_int i \<le> fround 53 x" "fround 53 x \<le> of_int j"
  using fround_between [of 53 i j x] assms by simp_all

lemma fround53_unit: "0 \<le> x \<Longrightarrow> x \<le> 1 \<Longrightarrow> 0 \<le> fround 53 x \<and> fround 53 x \<le> 1"
  using fround53_between [of 0 1 x] by simp

lemma fsub_unit: "0 \<le> x \<Longrightarrow> x \<le> 1 \<Longrightarrow> 0 \<le> fsub 1 x \<and> fsub 1 x \<le> 1"
  unfolding fsub_def by (rule fround53_unit) simp_all

lemma fmul_hundred: "0 \<le> x \<Longrightarrow> x \<le> 1 \<Longrightarrow> 0 \<le> fmul x 100 \<and> fmul x 100 \<le> 100"
  using fround53_between [of 0 100 "x * 100"] by (simp add: fmul_def)

lemma half_unit: "0 \<le> x \<Longrightarrow> x \<le> 1 \<Longrightarrow> 0 \<le> y \<Longrightarrow> y \<le> 1 \<Longrightarrow> 0 \<le> fdiv (fadd x y) 2 \<and> fdiv (fadd x y) 2 \<le> 1"
proof -
  assume h: "0 \<le> x" "x \<le> 1" "0 \<le> y" "y \<le> 1"
  then have "0 \<le> fadd x y" "fadd x y \<le> 2" using fround53_between [of 0 2 "x + y"] by (simp_all add: fadd_def)
  then show ?thesis unfolding fdiv_def by (intro fround53_unit) simp_all
qed

lemma GetMuSigma_unit: "GetMuSigma rs = (mu, sigma) \<Longrightarrow> 0 \<le> mu \<and> mu \<le> 1 \<and> 0 \<le> sigma \<and> sigma \<le> 1"
  by (auto simp: GetMuSigma_def split: if_splits)

text \<open>What is used of the power function: roots of numbers between zero and one stay there, in the same order.\<close>

definition unit_root :: "(rat \<Rightarrow> rat \<Rightarrow> rat) \<Rightarrow> bool" where
  "unit_root powInv \<longleftrightarrow> (\<forall>s x y. 0 \<le> s \<and> 0 \<le> x \<and> x \<le> y \<and> y \<le> 1 \<longrightarrow> 0 \<le> powInv s x \<and> powInv s x \<le> powInv s y \<and> powInv s y \<le> 1)"

text \<open>The statistics after clamping, and the score they give.\<close>

definition clamped :: "ResourceStats \<Rightarrow> ResourceStats" where
  "clamped rs = rs\<lparr>Req := max (Req rs) 0, UsedAvg := max (min (UsedAvg rs) (Capacity rs)) 0, UsedStdev := max (min (UsedStdev rs) (Capacity rs)) 0\<rparr>"

definition deviation_risk :: "(rat \<Rightarrow> rat \<Rightarrow> rat) \<Rightarrow> rat \<Rightarrow> rat \<Rightarrow> rat \<Rightarrow> rat" where
  "deviation_risk powInv margin sensitivity sigma = max (min (fmul (if 0 \<le> sensitivity then powInv sensitivity sigma else sigma) margin) 1) 0"

lemma computeScore_eq:
  "0 < Capacity rs \<Longrightarrow> computeScore powInv rs margin sensitivity =
     fmul (fsub 1 (fdiv (fadd (fst (GetMuSigma (clamped rs))) (deviation_risk powInv margin sensitivity (snd (GetMuSigma (clamped rs))))) 2)) 100"
  using f64_int [of 100] by (simp add: computeScore_def Let_def clamped_def deviation_risk_def MaxNodeScore_def split: prod.split)

lemma computeScore_range: "0 \<le> computeScore powInv rs margin sensitivity \<and> computeScore powInv rs margin sensitivity \<le> 100"
proof (cases "0 < Capacity rs")
  case True
  obtain mu sigma where ms: "GetMuSigma (clamped rs) = (mu, sigma)" by fastforce
  have "0 \<le> deviation_risk powInv margin sensitivity sigma" "deviation_risk powInv margin sensitivity sigma \<le> 1" by (auto simp: deviation_risk_def)
  then have "0 \<le> fdiv (fadd mu (deviation_risk powInv margin sensitivity sigma)) 2 \<and> fdiv (fadd mu (deviation_risk powInv margin sensitivity sigma)) 2 \<le> 1"
    using GetMuSigma_unit [OF ms] by (intro half_unit) auto
  then show ?thesis using fmul_hundred fsub_unit unfolding computeScore_eq [OF True] ms by auto
qed (simp add: computeScore_def)

lemma computeScore_antimono:
  assumes pow: "unit_root powInv" and m: "0 \<le> margin" and cap: "Capacity rs = Capacity rs'" "0 < Capacity rs"
    and le: "UsedAvg rs \<le> UsedAvg rs'" "UsedStdev rs \<le> UsedStdev rs'" "Req rs \<le> Req rs'"
  shows "computeScore powInv rs' margin sensitivity \<le> computeScore powInv rs margin sensitivity"
proof -
  obtain mu sigma mu' sigma' where ms: "GetMuSigma (clamped rs) = (mu, sigma)" "GetMuSigma (clamped rs') = (mu', sigma')" by fastforce
  have cl: "Capacity (clamped rs) = Capacity rs" "Capacity (clamped rs') = Capacity rs" using cap by (simp_all add: clamped_def)
  have stats: "UsedAvg (clamped rs) \<le> UsedAvg (clamped rs')" "UsedStdev (clamped rs) \<le> UsedStdev (clamped rs')" "Req (clamped rs) \<le> Req (clamped rs')"
    using le cap by (auto simp: clamped_def)
  have "fdiv (fadd (UsedAvg (clamped rs)) (Req (clamped rs))) (Capacity rs) \<le> fdiv (fadd (UsedAvg (clamped rs')) (Req (clamped rs'))) (Capacity rs)"
      "fdiv (UsedStdev (clamped rs)) (Capacity rs) \<le> fdiv (UsedStdev (clamped rs')) (Capacity rs)"
    using stats cap(2) by (auto intro!: fdiv_mono fadd_mono)
  then have le': "mu \<le> mu'" "sigma \<le> sigma'" using ms cl cap by (auto simp: GetMuSigma_def intro!: max.mono min.mono)
  have unit: "0 \<le> sigma" "sigma' \<le> 1" "0 \<le> mu'" "mu' \<le> 1" using GetMuSigma_unit ms by blast+
  have "(if 0 \<le> sensitivity then powInv sensitivity sigma else sigma) \<le> (if 0 \<le> sensitivity then powInv sensitivity sigma' else sigma')"
      "0 \<le> (if 0 \<le> sensitivity then powInv sensitivity sigma else sigma)"
    using pow le' unit by (auto simp: unit_root_def)
  then have "deviation_risk powInv margin sensitivity sigma \<le> deviation_risk powInv margin sensitivity sigma'"
    using m fmul_mono [of "if 0 \<le> sensitivity then powInv sensitivity sigma else sigma" "if 0 \<le> sensitivity then powInv sensitivity sigma' else sigma'" margin margin]
    unfolding deviation_risk_def by (intro max.mono min.mono) simp_all
  then have risk: "fdiv (fadd mu (deviation_risk powInv margin sensitivity sigma)) 2 \<le> fdiv (fadd mu' (deviation_risk powInv margin sensitivity sigma')) 2"
    using le'(1) by (intro fdiv_mono fadd_mono) simp_all
  have "fdiv (fadd mu' (deviation_risk powInv margin sensitivity sigma')) 2 \<le> 1"
    using half_unit unit(3,4) by (simp add: deviation_risk_def)
  then have "0 \<le> fsub 1 (fdiv (fadd mu' (deviation_risk powInv margin sensitivity sigma')) 2)"
    using fround53_mono [of 0] by (simp add: fsub_def)
  then show ?thesis
    using risk cap by (simp add: computeScore_eq ms) (intro fmul_mono fsub_mono, simp_all)
qed

text \<open>The statistics of the two resources of a node, as the plugin reads them.\<close>

definition node_stats ::
    "(string \<Rightarrow> bool) \<Rightarrow> WatcherMetrics \<Rightarrow> (string \<Rightarrow> tri_node option) \<Rightarrow> Pod \<Rightarrow> string \<Rightarrow> ResourceStats \<Rightarrow> ResourceStats \<Rightarrow> bool" where
  "node_stats sc collector snapshot pod node cpu mem \<longleftrightarrow>
     (\<exists>ni metrics. snapshot node = Some ni \<and> GetNodeMetrics collector node = Some metrics \<and>
        CreateResourceStats metrics (tnAllocatable ni) (GetResourceRequested sc pod) ''cpu'' ''CPU'' = Some cpu \<and>
        CreateResourceStats metrics (tnAllocatable ni) (GetResourceRequested sc pod) ''memory'' ''Memory'' = Some mem)"

definition less_loaded :: "ResourceStats \<Rightarrow> ResourceStats \<Rightarrow> bool" where
  "less_loaded rs rs' \<longleftrightarrow>
     Capacity rs = Capacity rs' \<and> 0 < Capacity rs \<and> UsedAvg rs \<le> UsedAvg rs' \<and> UsedStdev rs \<le> UsedStdev rs' \<and> Req rs \<le> Req rs'"

lemma lvrbScore_stats:
  "node_stats sc collector snapshot pod node cpu mem \<Longrightarrow> lvrbScore sc powInv margin sensitivity collector snapshot pod node =
     (word_of_int (fnearest (min (computeScore powInv mem margin sensitivity) (computeScore powInv cpu margin sensitivity))), Success)"
  by (auto simp: node_stats_def lvrbScore_def Let_def)

lemma lvrbScore_range: "lvrbScore sc powInv margin sensitivity collector snapshot pod node = (s, c) \<Longrightarrow> 0 \<le> sint s \<and> sint s \<le> 100"
proof -
  have "0 \<le> sint (word_of_int (fnearest x) :: int64) \<and> sint (word_of_int (fnearest x) :: int64) \<le> 100" if "0 \<le> x" "x \<le> 100" for x
    using nearest_range [of 0 x 100] that by simp
  then show "lvrbScore sc powInv margin sensitivity collector snapshot pod node = (s, c) \<Longrightarrow> 0 \<le> sint s \<and> sint s \<le> 100"
    using computeScore_range by (auto simp: lvrbScore_def Let_def MinNodeScore_def min_def max_def split: option.splits if_splits)
qed

text \<open>The risk of over-commitment is a number: a limit above the capacity is above the request too, which is capped.\<close>

lemma f64_nonzero: "i \<noteq> 0 \<Longrightarrow> f64 i \<noteq> 0"
  using f64_mono [of 1 i] f64_mono [of i "- 1"] f64_int [of 1] f64_int [of "- 1"] by (cases "0 < i") auto

lemma riskOfLimit_finite: "request \<le>s capacity \<Longrightarrow> \<exists>r. riskOfLimit request limit capacity = Fin r"
proof -
  assume "request \<le>s capacity"
  then have "capacity <s limit \<Longrightarrow> limit - request \<noteq> 0" by (auto simp: word_sless_alt word_sle_eq)
  then have "capacity <s limit \<Longrightarrow> f64 (sint (limit - request)) \<noteq> 0" using f64_nonzero signed_eq_0_iff by blast
  then show ?thesis by (auto simp: riskOfLimit_def)
qed

lemma computeRisk_unit:
  assumes "resourceOf resourceName (NodeRequest nrl) \<le>s resourceOf resourceName (NodeCapacity nrl)"
  shows "\<exists>r. computeRisk fns pl metrics resourceName resourceType allocatable nrl = Fin r \<and> 0 \<le> r \<and> r \<le> 1"
proof -
  obtain r where "riskOfLimit (resourceOf resourceName (NodeRequest nrl)) (resourceOf resourceName (NodeLimit nrl)) (resourceOf resourceName (NodeCapacity nrl)) = Fin r"
    using riskOfLimit_finite [OF assms] by blast
  then show ?thesis by (auto simp: computeRisk_def Let_def)
qed

lemma requests_capped:
  "GetNodeRequestsAndLimits sc pods allocatable requests limits = Some nrl \<Longrightarrow> resourceOf r (NodeRequest nrl) \<le>s resourceOf r (NodeCapacity nrl)"
  by (auto simp: GetNodeRequestsAndLimits_def Let_def resourceOf_def capRequests_def setMin_def word_sless_alt word_sle_eq)

lemma computeRank_unit: "computeRank sc fns pl metrics ni res = Some rank \<Longrightarrow> \<exists>r. rank = Fin r \<and> 0 \<le> r \<and> r \<le> 1"
proof -
  assume "computeRank sc fns pl metrics ni res = Some rank"
  then obtain nrl where nrl: "GetNodeRequestsAndLimits sc (tnPods ni) (tnAllocatable ni) (podRequests res) (podLimits res) = Some nrl"
    and rank: "rank = (case worstRisk (computeRisk fns pl metrics ''cpu'' ''CPU'' (tnAllocatable ni) nrl)
        (computeRisk fns pl metrics ''memory'' ''Memory'' (tnAllocatable ni) nrl) of Fin r \<Rightarrow> Fin (fsub 1 r) | _ \<Rightarrow> NaN)"
    by (auto simp: computeRank_def)
  obtain a b where ab: "computeRisk fns pl metrics ''cpu'' ''CPU'' (tnAllocatable ni) nrl = Fin a" "0 \<le> a" "a \<le> 1"
      "computeRisk fns pl metrics ''memory'' ''Memory'' (tnAllocatable ni) nrl = Fin b" "0 \<le> b" "b \<le> 1"
    using computeRisk_unit [OF requests_capped [OF nrl]] by metis
  then show ?thesis using fsub_unit [of "max a b"] rank by auto
qed

lemma lrocScore_range:
  "lrocScore nan sc fns pl snapshot preScore pod node = Some (s, c) \<Longrightarrow>
     0 \<le> sint s \<and> sint s \<le> 100 \<and> lrocScore nan' sc fns pl snapshot preScore pod node = Some (s, c)"
proof -
  assume score: "lrocScore nan sc fns pl snapshot preScore pod node = Some (s, c)"
  have unit: "0 \<le> sint (word_of_int (fnearest (fmul r 100)) :: int64) \<and> sint (word_of_int (fnearest (fmul r 100)) :: int64) \<le> 100"
    if "0 \<le> r" "r \<le> 1" for r
    using nearest_range [of 0 "fmul r 100" 100] fmul_hundred that by simp
  have hundred: "f64 (sint MaxNodeScore) = 100" using f64_int [of 100] by (simp add: MaxNodeScore_def)
  then have "0 \<le> sint s \<and> sint s \<le> 100"
    using score by (auto simp: lrocScore_def MinNodeScore_def unit dest!: computeRank_unit split: option.splits if_splits)
  moreover have "lrocScore nan' sc fns pl snapshot preScore pod node = lrocScore nan sc fns pl snapshot preScore pod node"
    unfolding lrocScore_def
    by (intro option.case_cong refl if_cong option.map_cong) (auto dest!: computeRank_unit)
  ultimately show ?thesis using score by simp
qed

text \<open>\<^bold>\<open>C33\<close> The scores of the two risk plugins lie between 0 and 100, whatever the metrics say and whatever the mathematical
  functions return; no division by zero reaches the score of the over-commitment plugin, so that it does not depend on what the
  architecture makes of a NaN. Load variation risk balancing never prefers the node with the higher average use, deviation and
  request of two of the same capacity, in spite of rounding, if the margin is not negative and roots of numbers up to one are
  ordered as they are.\<close>

theorem risk_scores:
  assumes "unit_root powInv" and "0 \<le> margin"
  shows "(\<forall>collector snapshot pod node. 0 \<le> sint (fst (lvrbScore sc powInv margin sensitivity collector snapshot pod node)) \<and>
      sint (fst (lvrbScore sc powInv margin sensitivity collector snapshot pod node)) \<le> 100) \<and>
    (\<forall>collector snapshot pod a b cpuA memA cpuB memB.
      node_stats sc collector snapshot pod a cpuA memA \<and> node_stats sc collector snapshot pod b cpuB memB \<and> less_loaded cpuA cpuB \<and> less_loaded memA memB \<longrightarrow>
      sint (fst (lvrbScore sc powInv margin sensitivity collector snapshot pod b)) \<le> sint (fst (lvrbScore sc powInv margin sensitivity collector snapshot pod a))) \<and>
    (\<forall>nan nan' fns pl snapshot preScore pod node s c. lrocScore nan sc fns pl snapshot preScore pod node = Some (s, c) \<longrightarrow>
      0 \<le> sint s \<and> sint s \<le> 100 \<and> lrocScore nan' sc fns pl snapshot preScore pod node = Some (s, c))"
proof (intro conjI allI impI)
  fix collector snapshot pod node
  show "0 \<le> sint (fst (lvrbScore sc powInv margin sensitivity collector snapshot pod node))"
    "sint (fst (lvrbScore sc powInv margin sensitivity collector snapshot pod node)) \<le> 100"
    using lvrbScore_range by (metis prod.collapse)+
next
  fix collector snapshot pod a b cpuA memA cpuB memB
  assume h: "node_stats sc collector snapshot pod a cpuA memA \<and> node_stats sc collector snapshot pod b cpuB memB \<and> less_loaded cpuA cpuB \<and> less_loaded memA memB"
  let ?f = "\<lambda>rs. computeScore powInv rs margin sensitivity"
  have "?f cpuB \<le> ?f cpuA" "?f memB \<le> ?f memA" using h assms by (auto simp: less_loaded_def intro!: computeScore_antimono)
  then have "fnearest (min (?f memB) (?f cpuB)) \<le> fnearest (min (?f memA) (?f cpuA))" by (intro fnearest_mono min.mono)
  moreover have "0 \<le> fnearest (min (?f mem) (?f cpu)) \<and> fnearest (min (?f mem) (?f cpu)) \<le> 100" for mem cpu
    using fnearest_between [of 0 _ 100] computeScore_range by (simp add: min_def)
  ultimately show "sint (fst (lvrbScore sc powInv margin sensitivity collector snapshot pod b)) \<le> sint (fst (lvrbScore sc powInv margin sensitivity collector snapshot pod a))"
    using h by (auto simp: lvrbScore_stats sint_small_word)
qed (use lrocScore_range in blast)+


definition ex_load :: "rat \<Rightarrow> Metric list" where
  "ex_load v = [\<lparr>metType = ''CPU'', metOperator = ''AVG'', metValue = v\<rparr>, \<lparr>metType = ''Memory'', metOperator = ''AVG'', metValue = v\<rparr>]"

definition ex_risk_node :: tri_node where
  "ex_risk_node = \<lparr>tnPods = [], tnAllocatable = [(''cpu'', 1000), (''memory'', 1048576000 * 100)], tnCapacity = []\<rparr>"

lemma ex_risk_stats:
  "v \<in> {10, 20} \<Longrightarrow> n = (if v = 10 then ''a'' else ''b'') \<Longrightarrow>
   node_stats (\<lambda>_. False) \<lparr>wmNodeMetrics = Some [(''a'', ex_load 10), (''b'', ex_load 20)], wmWindowEnd = 0\<rparr> (\<lambda>_. Some ex_risk_node) zero_pod n
     \<lparr>UsedAvg = v * 10, UsedStdev = 0, Req = 0, Capacity = 1000\<rparr> \<lparr>UsedAvg = v, UsedStdev = 0, Req = 0, Capacity = 100\<rparr>"
proof -
  have "GetNodeMetrics \<lparr>wmNodeMetrics = Some [(''a'', ex_load 10), (''b'', ex_load 20)], wmWindowEnd = 0\<rparr> ''a'' = Some (ex_load 10)"
    "GetNodeMetrics \<lparr>wmNodeMetrics = Some [(''a'', ex_load 10), (''b'', ex_load 20)], wmWindowEnd = 0\<rparr> ''b'' = Some (ex_load 20)"
    by (simp_all add: GetNodeMetrics_def)
  moreover have "CreateResourceStats (ex_load 10) (tnAllocatable ex_risk_node) (GetResourceRequested (\<lambda>_. False) zero_pod) ''cpu'' ''CPU'' = Some \<lparr>UsedAvg = 100, UsedStdev = 0, Req = 0, Capacity = 1000\<rparr>"
    "CreateResourceStats (ex_load 20) (tnAllocatable ex_risk_node) (GetResourceRequested (\<lambda>_. False) zero_pod) ''cpu'' ''CPU'' = Some \<lparr>UsedAvg = 200, UsedStdev = 0, Req = 0, Capacity = 1000\<rparr>"
    "CreateResourceStats (ex_load 10) (tnAllocatable ex_risk_node) (GetResourceRequested (\<lambda>_. False) zero_pod) ''memory'' ''Memory'' = Some \<lparr>UsedAvg = 10, UsedStdev = 0, Req = 0, Capacity = 100\<rparr>"
    "CreateResourceStats (ex_load 20) (tnAllocatable ex_risk_node) (GetResourceRequested (\<lambda>_. False) zero_pod) ''memory'' ''Memory'' = Some \<lparr>UsedAvg = 20, UsedStdev = 0, Req = 0, Capacity = 100\<rparr>"
    by code_simp+
  ultimately show "v \<in> {10, 20} \<Longrightarrow> n = (if v = 10 then ''a'' else ''b'') \<Longrightarrow> ?thesis" by (auto simp: node_stats_def)
qed

theorem risk_scores_witness:
  "let collector = \<lparr>wmNodeMetrics = Some [(''a'', ex_load 10), (''b'', ex_load 20)], wmWindowEnd = 0\<rparr>;
       risk = (\<lambda>n. sint (fst (lvrbScore (\<lambda>_. False) (\<lambda>_ x. x) 1 1 collector (\<lambda>_. Some ex_risk_node) zero_pod n)))
   in 0 \<le> risk ''b'' \<and> risk ''b'' \<le> risk ''a'' \<and> risk ''a'' \<le> 100"
proof -
  have root1: "unit_root (\<lambda>_ x. x)" by (auto simp: unit_root_def)
  note range = risk_scores [OF root1 zero_le_one, of "\<lambda>_. False" 1, THEN conjunct1, rule_format]
  note order = risk_scores [OF root1 zero_le_one, of "\<lambda>_. False" 1, THEN conjunct2, THEN conjunct1, rule_format]
  have "sint (fst (lvrbScore (\<lambda>_. False) (\<lambda>_ x. x) 1 1 \<lparr>wmNodeMetrics = Some [(''a'', ex_load 10), (''b'', ex_load 20)], wmWindowEnd = 0\<rparr> (\<lambda>_. Some ex_risk_node) zero_pod ''b''))
      \<le> sint (fst (lvrbScore (\<lambda>_. False) (\<lambda>_ x. x) 1 1 \<lparr>wmNodeMetrics = Some [(''a'', ex_load 10), (''b'', ex_load 20)], wmWindowEnd = 0\<rparr> (\<lambda>_. Some ex_risk_node) zero_pod ''a''))"
    by (rule order, intro conjI, rule ex_risk_stats [of 10], simp, simp, rule ex_risk_stats [of 20]) (simp_all add: less_loaded_def)
  then show ?thesis unfolding Let_def using range by blast
qed


section \<open>Defects\<close>

text \<open>When all entries of a node are stale the clean-up keeps them all, so that a node that gets no new pods is never cleaned.\<close>

lemma stale_entries_kept:
  "handler_run now h \<Longrightarrow> \<forall>info \<in> set (cachedPods h node). \<not> fresh (clock node) info \<Longrightarrow> cachedPods (cleanupCache clock h) node = cachedPods h node"
  using handler_run_ordered [of now h] cachedPods_cleanup [of h clock node]
  by (auto simp: cache_ordered_def list_ordered_def cleaned_def filter_empty_conv)

text \<open>A tombstone of an assigned pod passes the filter and fails the type assertion of the handler.\<close>

lemma tombstone_panics: "isAssigned p \<Longrightarrow> deliverDelete (DeletedFinalStateUnknown p) h = None"
  by simp

text \<open>A target above 100 percent, which is not rejected, gives scores above the maximum.\<close>

lemma target_above_100: "sint (packingScore 150 0) = 150"
proof -
  have "f64 150 = 150" "fadd 0 150 = 150" using f64_int [of 150] fadd_int [of 0 150] by simp_all
  then show ?thesis using fnearest_of_int [of 150] sint_word_of_int64 [of 150] by (simp add: packingScore_def int64_range_def)
qed

text \<open>A request for a scalar resource without any scalar limit is written into a nil map.\<close>

lemma scalar_without_limit_panics: "0 <s v \<Longrightarrow> SetMaxLimits (r\<lparr>rScalar := [(n, v)]\<rparr>) (l\<lparr>rScalar := []\<rparr>) = None"
  by (simp add: SetMaxLimits_def)

text \<open>A deviation that is lost when its square is added to the square of the mean gives a distribution of infinite shape, while no
  deviation at all is handled apart.\<close>

lemma tiny_deviation_infinite_shape:
  "ComputeProbability inc (1 / 2) (1 / 2 ^ 40) (Fin (3 / 4)) =
     (DistributionFunction inc \<lparr>bdAlpha = PInf, bdBeta = PInf\<rparr> (3 / 4), Some \<lparr>bdAlpha = PInf, bdBeta = PInf\<rparr>)"
  "ComputeProbability inc (1 / 2) 0 (Fin (3 / 4)) = (1, None)"
proof -
  have "MatchMoments (1 / 2) (fadd (fmul (1 / 2 ^ 40) (1 / 2 ^ 40)) (fmul (1 / 2) (1 / 2))) = Some \<lparr>bdAlpha = PInf, bdBeta = PInf\<rparr>" by code_simp
  then show "ComputeProbability inc (1 / 2) (1 / 2 ^ 40) (Fin (3 / 4)) =
     (DistributionFunction inc \<lparr>bdAlpha = PInf, bdBeta = PInf\<rparr> (3 / 4), Some \<lparr>bdAlpha = PInf, bdBeta = PInf\<rparr>)"
    by (simp add: ComputeProbability_def Let_def)
  show "ComputeProbability inc (1 / 2) 0 (Fin (3 / 4)) = (1, None)" by (simp add: ComputeProbability_def Let_def)
qed

end
