(* ===== verification/Plugin_Config.thy ===== *)
theory Plugin_Config
  imports Vaclab_Scheduling Preemption_Toleration Numa_Plugin Trimaran_Plugins
begin

text \<open>
  The arguments of the plugins (\<^verbatim>\<open>scheduler-plugins/apis/config\<close>): the versioned form as it is written in a configuration file, in
  which \<open>None\<close> is a field that is not set, the internal form the plugins are given, the defaults that are filled in, and the
  conversions between the two. Integers and floats of the file are words and rationals.
\<close>

section \<open>Arguments\<close>

record v1_CoschedulingArgs =
  v1PermitWaitingTimeSeconds :: "int64 option"
  v1PodGroupBackoffSeconds :: "int64 option"

record config_CoschedulingArgs =
  PermitWaitingTimeSeconds :: int64
  PodGroupBackoffSeconds :: int64

text \<open>The same in both forms.\<close>

record NodeResourcesAllocatableArgs =
  nraResources :: "(string \<times> int64) list"
  nraMode :: string

record v1_MetricProviderSpec =
  v1Type :: string
  v1Address :: "string option"
  v1Token :: "string option"
  v1InsecureSkipVerify :: "bool option"

record config_MetricProviderSpec =
  mpType :: string
  mpAddress :: string
  mpToken :: string
  mpInsecureSkipVerify :: bool

record v1_TrimaranSpec =
  v1MetricProvider :: v1_MetricProviderSpec
  v1WatcherAddress :: "string option"

record config_TrimaranSpec =
  MetricProvider :: config_MetricProviderSpec
  WatcherAddress :: string

text \<open>A resource list is nil or a map.\<close>

record v1_TargetLoadPackingArgs =
  v1TlpSpec :: v1_TrimaranSpec
  v1DefaultRequests :: "ResourceList option"
  v1DefaultRequestsMultiplier :: "string option"
  v1TargetUtilization :: "int64 option"

record config_TargetLoadPackingArgs =
  TlpSpec :: config_TrimaranSpec
  DefaultRequests :: "ResourceList option"
  DefaultRequestsMultiplier :: string
  TargetUtilization :: int64

record v1_LoadVariationRiskBalancingArgs =
  v1LvrbSpec :: v1_TrimaranSpec
  v1SafeVarianceMargin :: "rat option"
  v1SafeVarianceSensitivity :: "rat option"

record config_LoadVariationRiskBalancingArgs =
  LvrbSpec :: config_TrimaranSpec
  SafeVarianceMargin :: rat
  SafeVarianceSensitivity :: rat

record v1_LowRiskOverCommitmentArgs =
  v1LrocSpec :: v1_TrimaranSpec
  v1SmoothingWindowSize :: "int64 option"
  v1RiskLimitWeights :: "(string, rat) gomap"

record config_LowRiskOverCommitmentArgs =
  LrocSpec :: config_TrimaranSpec
  SmoothingWindowSize :: int64
  RiskLimitWeights :: "(string, rat) gomap"

text \<open>The internal form of the next two is \<^typ>\<open>NodeResourceTopologyMatchArgs\<close> and \<^typ>\<open>PreemptionTolerationArgs\<close>.\<close>

record ScoringStrategy =
  ssType :: string
  ssResources :: "(string \<times> int64) list"

record v1_NodeResourceTopologyMatchArgs =
  v1ScoringStrategy :: "ScoringStrategy option"
  v1CacheResyncPeriodSeconds :: "int64 option"
  v1DiscardReservedNodes :: bool
  v1Cache :: "NodeResourceTopologyCache option"

record v1_PreemptionTolerationArgs =
  v1MinCandidateNodesPercentage :: "int32 option"
  v1MinCandidateNodesAbsolute :: "int32 option"

record TopologicalSortArgs =
  tsNamespaces :: "string list"

record v1_NetworkOverheadArgs =
  v1Namespaces :: "string list"
  v1WeightsName :: "string option"
  v1NetworkTopologyName :: "string option"

record config_NetworkOverheadArgs =
  Namespaces :: "string list"
  WeightsName :: string
  NetworkTopologyName :: string

record v1_SySchedArgs =
  v1DefaultProfileNamespace :: "string option"
  v1DefaultProfileName :: "string option"

record config_SySchedArgs =
  DefaultProfileNamespace :: string
  DefaultProfileName :: string

section \<open>Defaults\<close>

definition setIfNil :: "'a \<Rightarrow> 'a option \<Rightarrow> 'a option" where
  "setIfNil d x = (case x of None \<Rightarrow> Some d | Some v \<Rightarrow> Some v)"

text \<open>\<open>bad\<close> is what the code replaces besides nil.\<close>

definition setUnless :: "('a \<Rightarrow> bool) \<Rightarrow> 'a \<Rightarrow> 'a option \<Rightarrow> 'a option" where
  "setUnless bad d x = (case x of None \<Rightarrow> Some d | Some v \<Rightarrow> Some (if bad v then d else v))"

definition SetDefaults_CoschedulingArgs :: "v1_CoschedulingArgs \<Rightarrow> v1_CoschedulingArgs" where
  "SetDefaults_CoschedulingArgs obj =
     \<lparr>v1PermitWaitingTimeSeconds = setIfNil 60 (v1PermitWaitingTimeSeconds obj),
      v1PodGroupBackoffSeconds = setIfNil 0 (v1PodGroupBackoffSeconds obj)\<rparr>"

definition SetDefaults_NodeResourcesAllocatableArgs :: "NodeResourcesAllocatableArgs \<Rightarrow> NodeResourcesAllocatableArgs" where
  "SetDefaults_NodeResourcesAllocatableArgs obj =
     \<lparr>nraResources = (if nraResources obj = [] then [(''cpu'', 2 ^ 20), (''memory'', 1)] else nraResources obj),
      nraMode = (if nraMode obj = '''' then ''Least'' else nraMode obj)\<rparr>"

definition SetDefaultTrimaranSpec :: "v1_TrimaranSpec \<Rightarrow> v1_TrimaranSpec" where
  "SetDefaultTrimaranSpec args =
     (let mp = v1MetricProvider args;
          mp1 = (if v1WatcherAddress args = None \<and> v1Type mp = '''' then mp\<lparr>v1Type := ''KubernetesMetricsServer''\<rparr> else mp);
          mp2 = (if v1Type mp1 = ''Prometheus'' \<and> v1InsecureSkipVerify mp1 = None then mp1\<lparr>v1InsecureSkipVerify := Some True\<rparr> else mp1)
      in args\<lparr>v1MetricProvider := mp2\<rparr>)"

definition SetDefaults_TargetLoadPackingArgs :: "v1_TargetLoadPackingArgs \<Rightarrow> v1_TargetLoadPackingArgs" where
  "SetDefaults_TargetLoadPackingArgs args =
     \<lparr>v1TlpSpec = SetDefaultTrimaranSpec (v1TlpSpec args),
      v1DefaultRequests = setIfNil [(''cpu'', 1000)] (v1DefaultRequests args),
      v1DefaultRequestsMultiplier = setIfNil ''1.5'' (v1DefaultRequestsMultiplier args),
      v1TargetUtilization = setUnless (\<lambda>v. v \<le>s 0) 40 (v1TargetUtilization args)\<rparr>"

definition SetDefaults_LoadVariationRiskBalancingArgs :: "v1_LoadVariationRiskBalancingArgs \<Rightarrow> v1_LoadVariationRiskBalancingArgs" where
  "SetDefaults_LoadVariationRiskBalancingArgs args =
     \<lparr>v1LvrbSpec = SetDefaultTrimaranSpec (v1LvrbSpec args),
      v1SafeVarianceMargin = setUnless (\<lambda>v. v < 0) 1 (v1SafeVarianceMargin args),
      v1SafeVarianceSensitivity = setUnless (\<lambda>v. v < 0) 1 (v1SafeVarianceSensitivity args)\<rparr>"

definition SetDefaults_LowRiskOverCommitmentArgs :: "v1_LowRiskOverCommitmentArgs \<Rightarrow> v1_LowRiskOverCommitmentArgs" where
  "SetDefaults_LowRiskOverCommitmentArgs args =
     \<lparr>v1LrocSpec = SetDefaultTrimaranSpec (v1LrocSpec args),
      v1SmoothingWindowSize = setUnless (\<lambda>v. v \<le>s 0) 5 (v1SmoothingWindowSize args),
      v1RiskLimitWeights =
        (if v1RiskLimitWeights args = [] then [(''cpu'', 1 / 2), (''memory'', 1 / 2)]
         else map (\<lambda>(r, w). (r, if w < 0 \<or> 1 < w then 1 / 2 else w)) (v1RiskLimitWeights args))\<rparr>"

definition defaultStrategy :: "ScoringStrategy option \<Rightarrow> ScoringStrategy" where
  "defaultStrategy s =
     (let s1 = (case s of None \<Rightarrow> \<lparr>ssType = ''LeastAllocated'', ssResources = [(''cpu'', 1), (''memory'', 1)]\<rparr> | Some s \<Rightarrow> s);
          s2 = (if ssResources s1 = [] then s1\<lparr>ssResources := [(''cpu'', 1), (''memory'', 1)]\<rparr> else s1)
      in s2\<lparr>ssResources := map (\<lambda>(n, w). (n, if w = 0 then 1 else w)) (ssResources s2)\<rparr>)"

definition defaultCache :: "NodeResourceTopologyCache option \<Rightarrow> NodeResourceTopologyCache" where
  "defaultCache c =
     (let c1 = (case c of None \<Rightarrow> \<lparr>cfgForeignPodsDetect = None, cfgResyncMethod = None, cfgInformerMode = None, cfgResyncScope = None\<rparr> | Some c \<Rightarrow> c)
      in c1\<lparr>cfgForeignPodsDetect := setIfNil ''All'' (cfgForeignPodsDetect c1), cfgResyncMethod := setIfNil ''Autodetect'' (cfgResyncMethod c1),
            cfgInformerMode := setIfNil ''Dedicated'' (cfgInformerMode c1)\<rparr>)"

definition SetDefaults_NodeResourceTopologyMatchArgs :: "v1_NodeResourceTopologyMatchArgs \<Rightarrow> v1_NodeResourceTopologyMatchArgs" where
  "SetDefaults_NodeResourceTopologyMatchArgs obj =
     obj\<lparr>v1ScoringStrategy := Some (defaultStrategy (v1ScoringStrategy obj)), v1Cache := Some (defaultCache (v1Cache obj))\<rparr>"

text \<open>The defaults of the preemption plugin of Kubernetes.\<close>

definition SetDefaults_PreemptionTolerationArgs :: "v1_PreemptionTolerationArgs \<Rightarrow> v1_PreemptionTolerationArgs" where
  "SetDefaults_PreemptionTolerationArgs obj =
     \<lparr>v1MinCandidateNodesPercentage = setIfNil 10 (v1MinCandidateNodesPercentage obj),
      v1MinCandidateNodesAbsolute = setIfNil 100 (v1MinCandidateNodesAbsolute obj)\<rparr>"

definition SetDefaults_TopologicalSortArgs :: "TopologicalSortArgs \<Rightarrow> TopologicalSortArgs" where
  "SetDefaults_TopologicalSortArgs obj = (if tsNamespaces obj = [] then \<lparr>tsNamespaces = [''default'']\<rparr> else obj)"

definition SetDefaults_NetworkOverheadArgs :: "v1_NetworkOverheadArgs \<Rightarrow> v1_NetworkOverheadArgs" where
  "SetDefaults_NetworkOverheadArgs obj =
     \<lparr>v1Namespaces = (if v1Namespaces obj = [] then [''default''] else v1Namespaces obj),
      v1WeightsName = setIfNil ''UserDefined'' (v1WeightsName obj),
      v1NetworkTopologyName = setIfNil ''nt-default'' (v1NetworkTopologyName obj)\<rparr>"

definition SetDefaults_SySchedArgs :: "v1_SySchedArgs \<Rightarrow> v1_SySchedArgs" where
  "SetDefaults_SySchedArgs obj =
     \<lparr>v1DefaultProfileNamespace = setIfNil ''default'' (v1DefaultProfileNamespace obj),
      v1DefaultProfileName = setIfNil ''all-syscalls'' (v1DefaultProfileName obj)\<rparr>"

text \<open>The objects of the scheme, and the defaults that are registered for them: none for the arguments of the bandwidth plugin.\<close>

datatype v1_args =
    V1Coscheduling v1_CoschedulingArgs
  | V1LoadVariationRiskBalancing v1_LoadVariationRiskBalancingArgs
  | V1LowRiskOverCommitment v1_LowRiskOverCommitmentArgs
  | V1NetworkOverhead v1_NetworkOverheadArgs
  | V1NodeResourceTopologyMatch v1_NodeResourceTopologyMatchArgs
  | V1NodeResourcesAllocatable NodeResourcesAllocatableArgs
  | V1PreemptionToleration v1_PreemptionTolerationArgs
  | V1SySched v1_SySchedArgs
  | V1TargetLoadPacking v1_TargetLoadPackingArgs
  | V1TopologicalSort TopologicalSortArgs
  | V1VaclabScheduling VaclabSchedulingArgs

fun RegisterDefaults :: "v1_args \<Rightarrow> v1_args" where
  "RegisterDefaults (V1Coscheduling a) = V1Coscheduling (SetDefaults_CoschedulingArgs a)"
| "RegisterDefaults (V1LoadVariationRiskBalancing a) = V1LoadVariationRiskBalancing (SetDefaults_LoadVariationRiskBalancingArgs a)"
| "RegisterDefaults (V1LowRiskOverCommitment a) = V1LowRiskOverCommitment (SetDefaults_LowRiskOverCommitmentArgs a)"
| "RegisterDefaults (V1NetworkOverhead a) = V1NetworkOverhead (SetDefaults_NetworkOverheadArgs a)"
| "RegisterDefaults (V1NodeResourceTopologyMatch a) = V1NodeResourceTopologyMatch (SetDefaults_NodeResourceTopologyMatchArgs a)"
| "RegisterDefaults (V1NodeResourcesAllocatable a) = V1NodeResourcesAllocatable (SetDefaults_NodeResourcesAllocatableArgs a)"
| "RegisterDefaults (V1PreemptionToleration a) = V1PreemptionToleration (SetDefaults_PreemptionTolerationArgs a)"
| "RegisterDefaults (V1SySched a) = V1SySched (SetDefaults_SySchedArgs a)"
| "RegisterDefaults (V1TargetLoadPacking a) = V1TargetLoadPacking (SetDefaults_TargetLoadPackingArgs a)"
| "RegisterDefaults (V1TopologicalSort a) = V1TopologicalSort (SetDefaults_TopologicalSortArgs a)"
| "RegisterDefaults (V1VaclabScheduling a) = V1VaclabScheduling a"


section \<open>Conversions\<close>

text \<open>The conversions of pointers of \<^verbatim>\<open>metav1\<close>: nil becomes the zero value.\<close>

definition fromPointer :: "'a \<Rightarrow> 'a option \<Rightarrow> 'a" where
  "fromPointer zero x = (case x of None \<Rightarrow> zero | Some v \<Rightarrow> v)"

definition Convert_v1_CoschedulingArgs_To_config_CoschedulingArgs :: "v1_CoschedulingArgs \<Rightarrow> config_CoschedulingArgs" where
  "Convert_v1_CoschedulingArgs_To_config_CoschedulingArgs a =
     \<lparr>PermitWaitingTimeSeconds = fromPointer 0 (v1PermitWaitingTimeSeconds a), PodGroupBackoffSeconds = fromPointer 0 (v1PodGroupBackoffSeconds a)\<rparr>"

definition Convert_config_CoschedulingArgs_To_v1_CoschedulingArgs :: "config_CoschedulingArgs \<Rightarrow> v1_CoschedulingArgs" where
  "Convert_config_CoschedulingArgs_To_v1_CoschedulingArgs a =
     \<lparr>v1PermitWaitingTimeSeconds = Some (PermitWaitingTimeSeconds a), v1PodGroupBackoffSeconds = Some (PodGroupBackoffSeconds a)\<rparr>"

definition Convert_v1_MetricProviderSpec_To_config_MetricProviderSpec :: "v1_MetricProviderSpec \<Rightarrow> config_MetricProviderSpec" where
  "Convert_v1_MetricProviderSpec_To_config_MetricProviderSpec a =
     \<lparr>mpType = v1Type a, mpAddress = fromPointer '''' (v1Address a), mpToken = fromPointer '''' (v1Token a),
      mpInsecureSkipVerify = fromPointer False (v1InsecureSkipVerify a)\<rparr>"

definition Convert_config_MetricProviderSpec_To_v1_MetricProviderSpec :: "config_MetricProviderSpec \<Rightarrow> v1_MetricProviderSpec" where
  "Convert_config_MetricProviderSpec_To_v1_MetricProviderSpec a =
     \<lparr>v1Type = mpType a, v1Address = Some (mpAddress a), v1Token = Some (mpToken a), v1InsecureSkipVerify = Some (mpInsecureSkipVerify a)\<rparr>"

definition Convert_v1_TrimaranSpec_To_config_TrimaranSpec :: "v1_TrimaranSpec \<Rightarrow> config_TrimaranSpec" where
  "Convert_v1_TrimaranSpec_To_config_TrimaranSpec a =
     \<lparr>MetricProvider = Convert_v1_MetricProviderSpec_To_config_MetricProviderSpec (v1MetricProvider a),
      WatcherAddress = fromPointer '''' (v1WatcherAddress a)\<rparr>"

definition Convert_config_TrimaranSpec_To_v1_TrimaranSpec :: "config_TrimaranSpec \<Rightarrow> v1_TrimaranSpec" where
  "Convert_config_TrimaranSpec_To_v1_TrimaranSpec a =
     \<lparr>v1MetricProvider = Convert_config_MetricProviderSpec_To_v1_MetricProviderSpec (MetricProvider a), v1WatcherAddress = Some (WatcherAddress a)\<rparr>"

definition Convert_v1_TargetLoadPackingArgs_To_config_TargetLoadPackingArgs :: "v1_TargetLoadPackingArgs \<Rightarrow> config_TargetLoadPackingArgs" where
  "Convert_v1_TargetLoadPackingArgs_To_config_TargetLoadPackingArgs a =
     \<lparr>TlpSpec = Convert_v1_TrimaranSpec_To_config_TrimaranSpec (v1TlpSpec a), DefaultRequests = v1DefaultRequests a,
      DefaultRequestsMultiplier = fromPointer '''' (v1DefaultRequestsMultiplier a), TargetUtilization = fromPointer 0 (v1TargetUtilization a)\<rparr>"

definition Convert_config_TargetLoadPackingArgs_To_v1_TargetLoadPackingArgs :: "config_TargetLoadPackingArgs \<Rightarrow> v1_TargetLoadPackingArgs" where
  "Convert_config_TargetLoadPackingArgs_To_v1_TargetLoadPackingArgs a =
     \<lparr>v1TlpSpec = Convert_config_TrimaranSpec_To_v1_TrimaranSpec (TlpSpec a), v1DefaultRequests = DefaultRequests a,
      v1DefaultRequestsMultiplier = Some (DefaultRequestsMultiplier a), v1TargetUtilization = Some (TargetUtilization a)\<rparr>"

definition Convert_v1_LoadVariationRiskBalancingArgs_To_config_LoadVariationRiskBalancingArgs ::
    "v1_LoadVariationRiskBalancingArgs \<Rightarrow> config_LoadVariationRiskBalancingArgs" where
  "Convert_v1_LoadVariationRiskBalancingArgs_To_config_LoadVariationRiskBalancingArgs a =
     \<lparr>LvrbSpec = Convert_v1_TrimaranSpec_To_config_TrimaranSpec (v1LvrbSpec a), SafeVarianceMargin = fromPointer 0 (v1SafeVarianceMargin a),
      SafeVarianceSensitivity = fromPointer 0 (v1SafeVarianceSensitivity a)\<rparr>"

definition Convert_config_LoadVariationRiskBalancingArgs_To_v1_LoadVariationRiskBalancingArgs ::
    "config_LoadVariationRiskBalancingArgs \<Rightarrow> v1_LoadVariationRiskBalancingArgs" where
  "Convert_config_LoadVariationRiskBalancingArgs_To_v1_LoadVariationRiskBalancingArgs a =
     \<lparr>v1LvrbSpec = Convert_config_TrimaranSpec_To_v1_TrimaranSpec (LvrbSpec a), v1SafeVarianceMargin = Some (SafeVarianceMargin a),
      v1SafeVarianceSensitivity = Some (SafeVarianceSensitivity a)\<rparr>"

definition Convert_v1_LowRiskOverCommitmentArgs_To_config_LowRiskOverCommitmentArgs :: "v1_LowRiskOverCommitmentArgs \<Rightarrow> config_LowRiskOverCommitmentArgs" where
  "Convert_v1_LowRiskOverCommitmentArgs_To_config_LowRiskOverCommitmentArgs a =
     \<lparr>LrocSpec = Convert_v1_TrimaranSpec_To_config_TrimaranSpec (v1LrocSpec a), SmoothingWindowSize = fromPointer 0 (v1SmoothingWindowSize a),
      RiskLimitWeights = v1RiskLimitWeights a\<rparr>"

definition Convert_config_LowRiskOverCommitmentArgs_To_v1_LowRiskOverCommitmentArgs :: "config_LowRiskOverCommitmentArgs \<Rightarrow> v1_LowRiskOverCommitmentArgs" where
  "Convert_config_LowRiskOverCommitmentArgs_To_v1_LowRiskOverCommitmentArgs a =
     \<lparr>v1LrocSpec = Convert_config_TrimaranSpec_To_v1_TrimaranSpec (LrocSpec a), v1SmoothingWindowSize = Some (SmoothingWindowSize a),
      v1RiskLimitWeights = RiskLimitWeights a\<rparr>"

text \<open>The manual conversion dereferences the strategy: \<open>None\<close> is a panic.\<close>

definition Convert_v1_NodeResourceTopologyMatchArgs_To_config_NodeResourceTopologyMatchArgs ::
    "v1_NodeResourceTopologyMatchArgs \<Rightarrow> NodeResourceTopologyMatchArgs option" where
  "Convert_v1_NodeResourceTopologyMatchArgs_To_config_NodeResourceTopologyMatchArgs a =
     map_option (\<lambda>s. \<lparr>argScoringStrategyType = ssType s, argScoringResources = ssResources s,
        argCacheResyncPeriodSeconds = fromPointer 0 (v1CacheResyncPeriodSeconds a), argDiscardReservedNodes = v1DiscardReservedNodes a, argCache = v1Cache a\<rparr>)
       (v1ScoringStrategy a)"

definition Convert_config_NodeResourceTopologyMatchArgs_To_v1_NodeResourceTopologyMatchArgs ::
    "NodeResourceTopologyMatchArgs \<Rightarrow> v1_NodeResourceTopologyMatchArgs" where
  "Convert_config_NodeResourceTopologyMatchArgs_To_v1_NodeResourceTopologyMatchArgs a =
     \<lparr>v1ScoringStrategy = Some \<lparr>ssType = argScoringStrategyType a, ssResources = argScoringResources a\<rparr>,
      v1CacheResyncPeriodSeconds = Some (argCacheResyncPeriodSeconds a), v1DiscardReservedNodes = argDiscardReservedNodes a, v1Cache = argCache a\<rparr>"

definition Convert_v1_PreemptionTolerationArgs_To_config_PreemptionTolerationArgs :: "v1_PreemptionTolerationArgs \<Rightarrow> PreemptionTolerationArgs" where
  "Convert_v1_PreemptionTolerationArgs_To_config_PreemptionTolerationArgs a =
     \<lparr>MinCandidateNodesPercentage = fromPointer 0 (v1MinCandidateNodesPercentage a), MinCandidateNodesAbsolute = fromPointer 0 (v1MinCandidateNodesAbsolute a)\<rparr>"

definition Convert_config_PreemptionTolerationArgs_To_v1_PreemptionTolerationArgs :: "PreemptionTolerationArgs \<Rightarrow> v1_PreemptionTolerationArgs" where
  "Convert_config_PreemptionTolerationArgs_To_v1_PreemptionTolerationArgs a =
     \<lparr>v1MinCandidateNodesPercentage = Some (MinCandidateNodesPercentage a), v1MinCandidateNodesAbsolute = Some (MinCandidateNodesAbsolute a)\<rparr>"

definition Convert_v1_NetworkOverheadArgs_To_config_NetworkOverheadArgs :: "v1_NetworkOverheadArgs \<Rightarrow> config_NetworkOverheadArgs" where
  "Convert_v1_NetworkOverheadArgs_To_config_NetworkOverheadArgs a =
     \<lparr>Namespaces = v1Namespaces a, WeightsName = fromPointer '''' (v1WeightsName a), NetworkTopologyName = fromPointer '''' (v1NetworkTopologyName a)\<rparr>"

definition Convert_config_NetworkOverheadArgs_To_v1_NetworkOverheadArgs :: "config_NetworkOverheadArgs \<Rightarrow> v1_NetworkOverheadArgs" where
  "Convert_config_NetworkOverheadArgs_To_v1_NetworkOverheadArgs a =
     \<lparr>v1Namespaces = Namespaces a, v1WeightsName = Some (WeightsName a), v1NetworkTopologyName = Some (NetworkTopologyName a)\<rparr>"

definition Convert_v1_SySchedArgs_To_config_SySchedArgs :: "v1_SySchedArgs \<Rightarrow> config_SySchedArgs" where
  "Convert_v1_SySchedArgs_To_config_SySchedArgs a =
     \<lparr>DefaultProfileNamespace = fromPointer '''' (v1DefaultProfileNamespace a), DefaultProfileName = fromPointer '''' (v1DefaultProfileName a)\<rparr>"

definition Convert_config_SySchedArgs_To_v1_SySchedArgs :: "config_SySchedArgs \<Rightarrow> v1_SySchedArgs" where
  "Convert_config_SySchedArgs_To_v1_SySchedArgs a =
     \<lparr>v1DefaultProfileNamespace = Some (DefaultProfileNamespace a), v1DefaultProfileName = Some (DefaultProfileName a)\<rparr>"

datatype config_args =
    Coscheduling config_CoschedulingArgs
  | LoadVariationRiskBalancing config_LoadVariationRiskBalancingArgs
  | LowRiskOverCommitmentCfg config_LowRiskOverCommitmentArgs
  | NetworkOverheadCfg config_NetworkOverheadArgs
  | NodeResourceTopologyMatch NodeResourceTopologyMatchArgs
  | NodeResourcesAllocatable NodeResourcesAllocatableArgs
  | PreemptionToleration PreemptionTolerationArgs
  | SySchedCfg config_SySchedArgs
  | TargetLoadPackingCfg config_TargetLoadPackingArgs
  | TopologicalSort TopologicalSortArgs
  | VaclabScheduling VaclabSchedulingArgs

fun RegisterConversions :: "v1_args \<Rightarrow> config_args option" where
  "RegisterConversions (V1Coscheduling a) = Some (Coscheduling (Convert_v1_CoschedulingArgs_To_config_CoschedulingArgs a))"
| "RegisterConversions (V1LoadVariationRiskBalancing a) =
     Some (LoadVariationRiskBalancing (Convert_v1_LoadVariationRiskBalancingArgs_To_config_LoadVariationRiskBalancingArgs a))"
| "RegisterConversions (V1LowRiskOverCommitment a) =
     Some (LowRiskOverCommitmentCfg (Convert_v1_LowRiskOverCommitmentArgs_To_config_LowRiskOverCommitmentArgs a))"
| "RegisterConversions (V1NetworkOverhead a) = Some (NetworkOverheadCfg (Convert_v1_NetworkOverheadArgs_To_config_NetworkOverheadArgs a))"
| "RegisterConversions (V1NodeResourceTopologyMatch a) =
     map_option NodeResourceTopologyMatch (Convert_v1_NodeResourceTopologyMatchArgs_To_config_NodeResourceTopologyMatchArgs a)"
| "RegisterConversions (V1NodeResourcesAllocatable a) = Some (NodeResourcesAllocatable a)"
| "RegisterConversions (V1PreemptionToleration a) = Some (PreemptionToleration (Convert_v1_PreemptionTolerationArgs_To_config_PreemptionTolerationArgs a))"
| "RegisterConversions (V1SySched a) = Some (SySchedCfg (Convert_v1_SySchedArgs_To_config_SySchedArgs a))"
| "RegisterConversions (V1TargetLoadPacking a) = Some (TargetLoadPackingCfg (Convert_v1_TargetLoadPackingArgs_To_config_TargetLoadPackingArgs a))"
| "RegisterConversions (V1TopologicalSort a) = Some (TopologicalSort a)"
| "RegisterConversions (V1VaclabScheduling a) = Some (VaclabScheduling a)"

text \<open>The conversions back.\<close>

fun versioned :: "config_args \<Rightarrow> v1_args" where
  "versioned (Coscheduling a) = V1Coscheduling (Convert_config_CoschedulingArgs_To_v1_CoschedulingArgs a)"
| "versioned (LoadVariationRiskBalancing a) =
     V1LoadVariationRiskBalancing (Convert_config_LoadVariationRiskBalancingArgs_To_v1_LoadVariationRiskBalancingArgs a)"
| "versioned (LowRiskOverCommitmentCfg a) = V1LowRiskOverCommitment (Convert_config_LowRiskOverCommitmentArgs_To_v1_LowRiskOverCommitmentArgs a)"
| "versioned (NetworkOverheadCfg a) = V1NetworkOverhead (Convert_config_NetworkOverheadArgs_To_v1_NetworkOverheadArgs a)"
| "versioned (NodeResourceTopologyMatch a) =
     V1NodeResourceTopologyMatch (Convert_config_NodeResourceTopologyMatchArgs_To_v1_NodeResourceTopologyMatchArgs a)"
| "versioned (NodeResourcesAllocatable a) = V1NodeResourcesAllocatable a"
| "versioned (PreemptionToleration a) = V1PreemptionToleration (Convert_config_PreemptionTolerationArgs_To_v1_PreemptionTolerationArgs a)"
| "versioned (SySchedCfg a) = V1SySched (Convert_config_SySchedArgs_To_v1_SySchedArgs a)"
| "versioned (TargetLoadPackingCfg a) = V1TargetLoadPacking (Convert_config_TargetLoadPackingArgs_To_v1_TargetLoadPackingArgs a)"
| "versioned (TopologicalSort a) = V1TopologicalSort a"
| "versioned (VaclabScheduling a) = V1VaclabScheduling a"

text \<open>What the codecs of the scheme make of an object of a configuration file: defaults first, then the internal form.\<close>

definition decodeArgs :: "v1_args \<Rightarrow> config_args option" where
  "decodeArgs a = RegisterConversions (RegisterDefaults a)"

section \<open>Properties\<close>

text \<open>What the defaults guarantee of decoded arguments; nothing where no default repairs a value.\<close>

fun filled_in :: "config_args \<Rightarrow> bool" where
  "filled_in (Coscheduling a) = True"
| "filled_in (LoadVariationRiskBalancing a) = (0 \<le> SafeVarianceMargin a \<and> 0 \<le> SafeVarianceSensitivity a)"
| "filled_in (LowRiskOverCommitmentCfg a) =
     (0 <s SmoothingWindowSize a \<and> RiskLimitWeights a \<noteq> [] \<and> (\<forall>(r, w) \<in> set (RiskLimitWeights a). 0 \<le> w \<and> w \<le> 1))"
| "filled_in (NetworkOverheadCfg a) = (Namespaces a \<noteq> [])"
| "filled_in (NodeResourceTopologyMatch a) =
     (argScoringResources a \<noteq> [] \<and> (\<forall>(r, w) \<in> set (argScoringResources a). w \<noteq> 0) \<and>
      (case argCache a of None \<Rightarrow> False | Some c \<Rightarrow> cfgForeignPodsDetect c \<noteq> None \<and> cfgResyncMethod c \<noteq> None \<and> cfgInformerMode c \<noteq> None))"
| "filled_in (NodeResourcesAllocatable a) = (nraResources a \<noteq> [] \<and> nraMode a \<noteq> '''')"
| "filled_in (PreemptionToleration a) = True"
| "filled_in (SySchedCfg a) = True"
| "filled_in (TargetLoadPackingCfg a) = (0 <s TargetUtilization a \<and> DefaultRequests a \<noteq> None)"
| "filled_in (TopologicalSort a) = (tsNamespaces a \<noteq> [])"
| "filled_in (VaclabScheduling a) = True"

lemmas defaults_defs =
  SetDefaults_CoschedulingArgs_def SetDefaults_NodeResourcesAllocatableArgs_def SetDefaultTrimaranSpec_def SetDefaults_TargetLoadPackingArgs_def
  SetDefaults_LoadVariationRiskBalancingArgs_def SetDefaults_LowRiskOverCommitmentArgs_def SetDefaults_NodeResourceTopologyMatchArgs_def
  SetDefaults_PreemptionTolerationArgs_def SetDefaults_TopologicalSortArgs_def SetDefaults_NetworkOverheadArgs_def SetDefaults_SySchedArgs_def

lemmas convert_defs =
  Convert_v1_CoschedulingArgs_To_config_CoschedulingArgs_def Convert_config_CoschedulingArgs_To_v1_CoschedulingArgs_def
  Convert_v1_MetricProviderSpec_To_config_MetricProviderSpec_def Convert_config_MetricProviderSpec_To_v1_MetricProviderSpec_def
  Convert_v1_TrimaranSpec_To_config_TrimaranSpec_def Convert_config_TrimaranSpec_To_v1_TrimaranSpec_def
  Convert_v1_TargetLoadPackingArgs_To_config_TargetLoadPackingArgs_def Convert_config_TargetLoadPackingArgs_To_v1_TargetLoadPackingArgs_def
  Convert_v1_LoadVariationRiskBalancingArgs_To_config_LoadVariationRiskBalancingArgs_def
  Convert_config_LoadVariationRiskBalancingArgs_To_v1_LoadVariationRiskBalancingArgs_def
  Convert_v1_LowRiskOverCommitmentArgs_To_config_LowRiskOverCommitmentArgs_def Convert_config_LowRiskOverCommitmentArgs_To_v1_LowRiskOverCommitmentArgs_def
  Convert_v1_NodeResourceTopologyMatchArgs_To_config_NodeResourceTopologyMatchArgs_def
  Convert_config_NodeResourceTopologyMatchArgs_To_v1_NodeResourceTopologyMatchArgs_def
  Convert_v1_PreemptionTolerationArgs_To_config_PreemptionTolerationArgs_def Convert_config_PreemptionTolerationArgs_To_v1_PreemptionTolerationArgs_def
  Convert_v1_NetworkOverheadArgs_To_config_NetworkOverheadArgs_def Convert_config_NetworkOverheadArgs_To_v1_NetworkOverheadArgs_def
  Convert_v1_SySchedArgs_To_config_SySchedArgs_def Convert_config_SySchedArgs_To_v1_SySchedArgs_def

lemma setIfNil_simps [simp]: "setIfNil d (Some v) = Some v" "setIfNil d (setIfNil d' x) = setIfNil d' x" "setIfNil d x \<noteq> None"
  by (simp_all add: setIfNil_def split: option.split)

lemma setUnless_Some [simp]: "setUnless bad d (Some v) = Some (if bad v then d else v)"
  by (simp add: setUnless_def)

lemma setUnless_twice: "\<not> bad d \<Longrightarrow> setUnless bad d (setUnless bad d x) = setUnless bad d x"
  by (simp add: setUnless_def split: option.split)

lemma fromPointer_Some [simp]: "fromPointer z (Some v) = v"
  by (simp add: fromPointer_def)

lemma fromPointer_setUnless: "\<not> bad d \<Longrightarrow> \<not> bad (fromPointer z (setUnless bad d x))"
  by (simp add: fromPointer_def setUnless_def split: option.split)

lemma strategy_weights: "ssResources (defaultStrategy s) \<noteq> [] \<and> (\<forall>(r, w) \<in> set (ssResources (defaultStrategy s)). w \<noteq> 0)"
  by (auto simp: defaultStrategy_def Let_def split: option.split if_splits)

lemma strategy_fixed: "rs \<noteq> [] \<Longrightarrow> \<forall>(r, w) \<in> set rs. w \<noteq> 0 \<Longrightarrow> defaultStrategy (Some \<lparr>ssType = t, ssResources = rs\<rparr>) = \<lparr>ssType = t, ssResources = rs\<rparr>"
proof -
  assume h: "rs \<noteq> []" "\<forall>(r, w) \<in> set rs. w \<noteq> 0"
  then have "map (\<lambda>(n, w). (n, if w = 0 then 1 else w)) rs = rs" by (intro map_idI) auto
  then show ?thesis using h by (simp add: defaultStrategy_def Let_def)
qed

lemma strategy_twice: "defaultStrategy (Some (defaultStrategy s)) = defaultStrategy s"
  using strategy_weights [of s] by (cases "defaultStrategy s") (simp add: strategy_fixed)

lemma cache_fixed:
  "cfgForeignPodsDetect c \<noteq> None \<Longrightarrow> cfgResyncMethod c \<noteq> None \<Longrightarrow> cfgInformerMode c \<noteq> None \<Longrightarrow> defaultCache (Some c) = c"
  by (auto simp: defaultCache_def Let_def)

lemma cache_complete: "cfgForeignPodsDetect (defaultCache c) \<noteq> None" "cfgResyncMethod (defaultCache c) \<noteq> None" "cfgInformerMode (defaultCache c) \<noteq> None"
  by (simp_all add: defaultCache_def Let_def)

lemma trimaran_spec_fixed:
  "SetDefaultTrimaranSpec (Convert_config_TrimaranSpec_To_v1_TrimaranSpec s) = Convert_config_TrimaranSpec_To_v1_TrimaranSpec s"
  "Convert_v1_TrimaranSpec_To_config_TrimaranSpec (Convert_config_TrimaranSpec_To_v1_TrimaranSpec s) = s"
  by (simp_all add: SetDefaultTrimaranSpec_def Let_def convert_defs)

lemma trimaran_spec_twice: "SetDefaultTrimaranSpec (SetDefaultTrimaranSpec s) = SetDefaultTrimaranSpec s"
  by (simp add: SetDefaultTrimaranSpec_def Let_def)

lemma decodeArgs_ok: "\<exists>c. decodeArgs a = Some c \<and> filled_in c"
proof (cases a)
  case (V1NodeResourceTopologyMatch x)
  then show ?thesis using strategy_weights [of "v1ScoringStrategy x"] cache_complete [of "v1Cache x"]
    by (simp add: decodeArgs_def SetDefaults_NodeResourceTopologyMatchArgs_def Convert_v1_NodeResourceTopologyMatchArgs_To_config_NodeResourceTopologyMatchArgs_def)
next
  case (V1LowRiskOverCommitment x)
  then show ?thesis using fromPointer_setUnless [of "\<lambda>v. v \<le>s 0" 5 0 "v1SmoothingWindowSize x"]
    by (auto simp: decodeArgs_def SetDefaults_LowRiskOverCommitmentArgs_def Convert_v1_LowRiskOverCommitmentArgs_To_config_LowRiskOverCommitmentArgs_def
        word_sless_alt word_sle_eq)
next
  case (V1TargetLoadPacking x)
  then show ?thesis using fromPointer_setUnless [of "\<lambda>v. v \<le>s 0" 40 0 "v1TargetUtilization x"]
    by (auto simp: decodeArgs_def SetDefaults_TargetLoadPackingArgs_def Convert_v1_TargetLoadPackingArgs_To_config_TargetLoadPackingArgs_def
        word_sless_alt word_sle_eq)
next
  case (V1LoadVariationRiskBalancing x)
  moreover have "0 \<le> fromPointer 0 (setUnless (\<lambda>v. v < 0) 1 y)" for y :: "rat option"
    using fromPointer_setUnless [of "\<lambda>v. v < 0" 1 0 y] by auto
  ultimately show ?thesis
    by (simp add: decodeArgs_def SetDefaults_LoadVariationRiskBalancingArgs_def Convert_v1_LoadVariationRiskBalancingArgs_To_config_LoadVariationRiskBalancingArgs_def)
qed (simp_all add: decodeArgs_def defaults_defs Convert_v1_NetworkOverheadArgs_To_config_NetworkOverheadArgs_def)

lemma decodeArgs_versioned: "filled_in c \<Longrightarrow> decodeArgs (versioned c) = Some c"
proof (cases c)
  case (NodeResourceTopologyMatch x)
  assume "filled_in c"
  then obtain k where "argCache x = Some k" "defaultCache (Some k) = k"
    using NodeResourceTopologyMatch cache_fixed by (auto split: option.splits)
  then show ?thesis using NodeResourceTopologyMatch \<open>filled_in c\<close>
    by (simp add: decodeArgs_def SetDefaults_NodeResourceTopologyMatchArgs_def strategy_fixed
        Convert_v1_NodeResourceTopologyMatchArgs_To_config_NodeResourceTopologyMatchArgs_def Convert_config_NodeResourceTopologyMatchArgs_To_v1_NodeResourceTopologyMatchArgs_def)
next
  case (LowRiskOverCommitmentCfg x)
  assume ok: "filled_in c"
  then have "map (\<lambda>(r, w). (r, if w < 0 \<or> 1 < w then 1 / 2 else w)) (RiskLimitWeights x) = RiskLimitWeights x"
    using LowRiskOverCommitmentCfg by (intro map_idI) auto
  then show ?thesis using LowRiskOverCommitmentCfg ok
    by (simp add: decodeArgs_def SetDefaults_LowRiskOverCommitmentArgs_def trimaran_spec_fixed word_sless_alt word_sle_eq
        Convert_v1_LowRiskOverCommitmentArgs_To_config_LowRiskOverCommitmentArgs_def Convert_config_LowRiskOverCommitmentArgs_To_v1_LowRiskOverCommitmentArgs_def)
next
  case (TargetLoadPackingCfg x)
  assume "filled_in c"
  then obtain r where "DefaultRequests x = Some r" "0 < sint (TargetUtilization x)" using TargetLoadPackingCfg by (auto simp: word_sless_alt)
  then show ?thesis using TargetLoadPackingCfg
    by (auto simp: decodeArgs_def SetDefaults_TargetLoadPackingArgs_def trimaran_spec_fixed word_sle_eq
        Convert_v1_TargetLoadPackingArgs_To_config_TargetLoadPackingArgs_def Convert_config_TargetLoadPackingArgs_To_v1_TargetLoadPackingArgs_def)
qed (simp_all add: decodeArgs_def defaults_defs convert_defs word_sless_alt word_sle_eq Let_def)

lemma defaults_twice: "RegisterDefaults (RegisterDefaults a) = RegisterDefaults a"
proof (cases a)
  case (V1LowRiskOverCommitment x)
  then show ?thesis
    by (simp add: SetDefaults_LowRiskOverCommitmentArgs_def trimaran_spec_twice setUnless_twice word_sle_eq comp_def split_beta)
next
  case (V1NodeResourceTopologyMatch x)
  then show ?thesis
    using cache_fixed [OF cache_complete] by (simp add: SetDefaults_NodeResourceTopologyMatchArgs_def strategy_twice)
next
  case (V1TargetLoadPacking x)
  then show ?thesis by (simp add: SetDefaults_TargetLoadPackingArgs_def trimaran_spec_twice setUnless_twice word_sle_eq)
next
  case (V1LoadVariationRiskBalancing x)
  then show ?thesis by (simp add: SetDefaults_LoadVariationRiskBalancingArgs_def trimaran_spec_twice setUnless_twice)
qed (simp_all add: defaults_defs)

lemma trimaran_ranges:
  "\<exists>c. decodeArgs (V1TargetLoadPacking x) = Some (TargetLoadPackingCfg c) \<and> 0 <s TargetUtilization c"
  "\<exists>c. decodeArgs (V1LoadVariationRiskBalancing y) = Some (LoadVariationRiskBalancing c) \<and> 0 \<le> SafeVarianceMargin c \<and> 0 \<le> SafeVarianceSensitivity c"
  "\<exists>c. decodeArgs (V1LowRiskOverCommitment z) = Some (LowRiskOverCommitmentCfg c) \<and> 0 <s SmoothingWindowSize c \<and>
     RiskLimitWeights c \<noteq> [] \<and> (\<forall>(r, w) \<in> set (RiskLimitWeights c). 0 \<le> w \<and> w \<le> 1)"
  using decodeArgs_ok [of "V1TargetLoadPacking x"] decodeArgs_ok [of "V1LoadVariationRiskBalancing y"] decodeArgs_ok [of "V1LowRiskOverCommitment z"]
  by (auto simp: decodeArgs_def)

lemma strategy_type: "ssType (defaultStrategy s) = (case s of None \<Rightarrow> ''LeastAllocated'' | Some s \<Rightarrow> ssType s)"
  by (simp add: defaultStrategy_def Let_def split: option.split)

lemma topology_args_valid:
  "\<exists>c. decodeArgs (V1NodeResourceTopologyMatch x) = Some (NodeResourceTopologyMatch c) \<and>
     (ValidateNodeResourceTopologyMatchArgs c = [] \<longleftrightarrow>
        (case v1ScoringStrategy x of None \<Rightarrow> True | Some s \<Rightarrow> ssType s \<in> set validScoringStrategy))"
  by (simp add: decodeArgs_def SetDefaults_NodeResourceTopologyMatchArgs_def ValidateNodeResourceTopologyMatchArgs_def strategy_type
      Convert_v1_NodeResourceTopologyMatchArgs_To_config_NodeResourceTopologyMatchArgs_def split: option.split)
    (simp add: validScoringStrategy_def)

lemma vaclab_args_valid:
  "decodeArgs (V1VaclabScheduling x) = Some (VaclabScheduling x) \<and>
   (ValidateVaclabSchedulingArgs x = [] \<longleftrightarrow>
      argEgress x \<noteq> '''' \<and> argIngress x \<noteq> '''' \<and> 0 \<le>s argDefaultEgressMbps x \<and> 0 \<le>s argDefaultIngressMbps x)"
  by (simp add: decodeArgs_def ValidateVaclabSchedulingArgs_def sless_sint sle_sint not_less)

text \<open>
  C29. Decoding the arguments of a plugin never panics, and what it gives survives being written back as an object of the
  configuration file and decoded again; filling in defaults twice is the same as once. For the load-aware plugins values out of range are replaced:
  the target utilisation and the smoothing window are positive, margin and sensitivity are not negative, the weights of risk are between zero and one. Of
  the two validators of the repository, that of the topology plugin accepts decoded arguments exactly if the file names no scoring strategy or a
  known one, that of the bandwidth plugin exactly if the file itself gives both annotation keys and no negative rate, since no
  defaults are registered for it.
\<close>

theorem plugin_args_round_trip:
  "(\<forall>a. \<exists>c. decodeArgs a = Some c \<and> decodeArgs (versioned c) = Some c) \<and>
   (\<forall>a. RegisterDefaults (RegisterDefaults a) = RegisterDefaults a) \<and>
   (\<forall>x. \<exists>c. decodeArgs (V1TargetLoadPacking x) = Some (TargetLoadPackingCfg c) \<and> 0 <s TargetUtilization c) \<and>
   (\<forall>x. \<exists>c. decodeArgs (V1LoadVariationRiskBalancing x) = Some (LoadVariationRiskBalancing c) \<and>
      0 \<le> SafeVarianceMargin c \<and> 0 \<le> SafeVarianceSensitivity c) \<and>
   (\<forall>x. \<exists>c. decodeArgs (V1LowRiskOverCommitment x) = Some (LowRiskOverCommitmentCfg c) \<and> 0 <s SmoothingWindowSize c \<and>
      RiskLimitWeights c \<noteq> [] \<and> (\<forall>(r, w) \<in> set (RiskLimitWeights c). 0 \<le> w \<and> w \<le> 1)) \<and>
   (\<forall>x. \<exists>c. decodeArgs (V1NodeResourceTopologyMatch x) = Some (NodeResourceTopologyMatch c) \<and>
      (ValidateNodeResourceTopologyMatchArgs c = [] \<longleftrightarrow>
         (case v1ScoringStrategy x of None \<Rightarrow> True | Some s \<Rightarrow> ssType s \<in> set validScoringStrategy))) \<and>
   (\<forall>x. \<exists>c. decodeArgs (V1VaclabScheduling x) = Some (VaclabScheduling c) \<and>
      (ValidateVaclabSchedulingArgs c = [] \<longleftrightarrow>
         argEgress x \<noteq> '''' \<and> argIngress x \<noteq> '''' \<and> 0 \<le>s argDefaultEgressMbps x \<and> 0 \<le>s argDefaultIngressMbps x))"
proof (intro conjI allI)
  show "\<exists>c. decodeArgs a = Some c \<and> decodeArgs (versioned c) = Some c" for a
    using decodeArgs_ok [of a] decodeArgs_versioned by blast
  show "\<exists>c. decodeArgs (V1VaclabScheduling x) = Some (VaclabScheduling c) \<and>
      (ValidateVaclabSchedulingArgs c = [] \<longleftrightarrow>
         argEgress x \<noteq> '''' \<and> argIngress x \<noteq> '''' \<and> 0 \<le>s argDefaultEgressMbps x \<and> 0 \<le>s argDefaultIngressMbps x)" for x
    using vaclab_args_valid [of x] by blast
qed (fact defaults_twice trimaran_ranges topology_args_valid)+

theorem plugin_args_round_trip_witness:
  "\<exists>c. decodeArgs (V1NetworkOverhead \<lparr>v1Namespaces = [], v1WeightsName = None, v1NetworkTopologyName = Some ''nt''\<rparr>) = Some c \<and>
     decodeArgs (versioned c) = Some c \<and>
     c = NetworkOverheadCfg \<lparr>Namespaces = [''default''], WeightsName = ''UserDefined'', NetworkTopologyName = ''nt''\<rparr>"
proof -
  let ?a = "V1NetworkOverhead \<lparr>v1Namespaces = [], v1WeightsName = None, v1NetworkTopologyName = Some ''nt''\<rparr>"
  obtain c where "decodeArgs ?a = Some c" "decodeArgs (versioned c) = Some c" using plugin_args_round_trip by blast
  moreover have "decodeArgs ?a = Some (NetworkOverheadCfg \<lparr>Namespaces = [''default''], WeightsName = ''UserDefined'', NetworkTopologyName = ''nt''\<rparr>)"
    by (simp add: decodeArgs_def SetDefaults_NetworkOverheadArgs_def setIfNil_def Convert_v1_NetworkOverheadArgs_To_config_NetworkOverheadArgs_def)
  ultimately show ?thesis by simp
qed

section \<open>Defects\<close>

text \<open>The defaults of the bandwidth plugin are not registered: arguments that leave them out are rejected when the plugin is created,
  though the defaults would make them valid.\<close>

lemma vaclab_defaults_not_applied:
  fixes args :: VaclabSchedulingArgs
  defines "args \<equiv> \<lparr>argEgress = '''', argIngress = '''', argDefaultEgressMbps = 0, argDefaultIngressMbps = 0\<rparr>"
  shows "decodeArgs (V1VaclabScheduling args) = Some (VaclabScheduling args)"
    and "New None args = Inl (InvalidConfiguration [''egressBandwidthAnnotation'', ''ingressBandwidthAnnotation''])"
    and "New None (SetDefaults_VaclabSchedulingArgs args) = Inr (bandwidthConfig (SetDefaults_VaclabSchedulingArgs args))"
  by (simp_all add: args_def decodeArgs_def New_def ValidateVaclabSchedulingArgs_def SetDefaults_VaclabSchedulingArgs_def word_sless_alt)

end
