(* ===== verification/Health_Plugin.thy ===== *)
theory Health_Plugin
  imports K8s_Objects Go_Float "HOL-Library.List_Lexorder" "HOL-Library.Char_ord" "HOL-Library.Sublist"
begin

text \<open>
  The plugin \<^verbatim>\<open>kubectl health\<close> (\<^verbatim>\<open>kubectl-plugins/health/k3sutils\<close>): it runs network benchmarks in the cluster, stores their results in
  config maps and lists them. A command is a computation over the trace of its calls to the API server and the clock. Output goes to
  the terminal only; what is listed is returned. Times are in nanoseconds. Sorting (\<^verbatim>\<open>sort.Slice\<close>, which is not stable), JSON and the
  formats of times are parameters. Fields of a result that are never read are left out. \<^verbatim>\<open>strings.ToLower\<close> is read on ASCII text.
\<close>

section \<open>Data\<close>

record BenchmarkConfig =
  NumberOfConnections :: int64
  DurationSeconds :: int64
  ExcludeNodes :: string

record IperfTestResult =
  itDestination :: string
  itDestNode :: string
  itProtocol :: string
  itDirection :: string
  itThroughputBps :: rat
  itRetransmits :: int64
  itRTTAvg :: rat
  itJitterMs :: rat
  itPacketLossPct :: rat

record BenchmarkReport =
  brTimestamp :: string
  brSourceNode :: string
  brBenchmarkMode :: string
  brParallel :: int64
  brDuration :: int64
  brResults :: "IperfTestResult list"

record DestNodeTestResult =
  trTimestamp :: int
  trSourceNode :: string
  trDestNode :: string
  trBenchmarkMode :: string
  trProtocol :: string
  trDirection :: string
  trThroughputBps :: rat
  trRTTAvg :: rat
  trJitterMs :: rat
  trPacketLossPct :: rat
  trRetransmits :: int64

record ListFilter =
  lfLatest :: bool
  lfToday :: bool
  lfMode :: string
  lfNode :: string
  lfLimit :: int64

section \<open>Strings\<close>

fun splitOn :: "char \<Rightarrow> string \<Rightarrow> string list" where
  "splitOn c [] = [[]]"
| "splitOn c (x # xs) =
     (if x = c then [] # splitOn c xs else (case splitOn c xs of [] \<Rightarrow> [[x]] | w # ws \<Rightarrow> (x # w) # ws))"

definition isSpace :: "char \<Rightarrow> bool" where
  "isSpace c = (of_char c \<in> {9 :: nat, 10, 11, 12, 13, 32})"

definition trimSpace :: "string \<Rightarrow> string" where
  "trimSpace s = rev (dropWhile isSpace (rev (dropWhile isSpace s)))"

definition toLower :: "string \<Rightarrow> string" where
  "toLower s = map fold_char s"

definition containsStr :: "string \<Rightarrow> string \<Rightarrow> bool" where
  "containsStr s part = sublist part s"

section \<open>Logs\<close>

text \<open>\<open>unmarshal\<close> is \<^verbatim>\<open>json.Unmarshal\<close>, \<open>None\<close> for an error. The error result is always nil.\<close>

definition parseLine :: "(string \<Rightarrow> IperfTestResult option) \<Rightarrow> string \<Rightarrow> IperfTestResult option" where
  "parseLine unmarshal line0 =
     (let line = trimSpace line0
      in if line = '''' \<or> \<not> prefix ''{'' line then None
         else (case unmarshal line of None \<Rightarrow> None | Some result \<Rightarrow> if itDestination result \<noteq> '''' then Some result else None))"

definition ParseBenchmarkLogs ::
    "(string \<Rightarrow> IperfTestResult option) \<Rightarrow> string \<Rightarrow> string \<Rightarrow> BenchmarkConfig \<Rightarrow> string \<Rightarrow> string \<Rightarrow> BenchmarkReport" where
  "ParseBenchmarkLogs unmarshal timestamp logs config benchmarkMode sourceNode =
     \<lparr>brTimestamp = timestamp, brSourceNode = sourceNode, brBenchmarkMode = benchmarkMode, brParallel = NumberOfConnections config,
      brDuration = DurationSeconds config, brResults = List.map_filter (parseLine unmarshal) (splitOn (CHR 0x0A) logs)\<rparr>"

section \<open>Listing\<close>

record result_map =
  rmName :: string
  rmCreated :: int
  rmReport :: "string option"

definition CONFIG_MAP_PREFIX :: string where
  "CONFIG_MAP_PREFIX = ''iperf-result-''"

definition reportResults :: "(string \<Rightarrow> BenchmarkReport option) \<Rightarrow> (string \<Rightarrow> int option) \<Rightarrow> result_map \<Rightarrow> DestNodeTestResult list" where
  "reportResults unmarshal parseTime cm =
     (if \<not> prefix CONFIG_MAP_PREFIX (rmName cm) then []
      else (case rmReport cm of
        None \<Rightarrow> []
      | Some reportJSON \<Rightarrow>
          (case unmarshal reportJSON of
             None \<Rightarrow> []
           | Some report \<Rightarrow>
               (let timestamp = (case parseTime (brTimestamp report) of None \<Rightarrow> rmCreated cm | Some t \<Rightarrow> t)
                in map (\<lambda>r. \<lparr>trTimestamp = timestamp, trSourceNode = brSourceNode report, trDestNode = itDestNode r,
                      trBenchmarkMode = brBenchmarkMode report, trProtocol = itProtocol r, trDirection = itDirection r,
                      trThroughputBps = itThroughputBps r, trRTTAvg = itRTTAvg r, trJitterMs = itJitterMs r,
                      trPacketLossPct = itPacketLossPct r, trRetransmits = itRetransmits r\<rparr>) (brResults report)))))"

definition getAllDestNodeResults ::
    "(string \<Rightarrow> BenchmarkReport option) \<Rightarrow> (string \<Rightarrow> int option) \<Rightarrow> api_error + result_map list \<Rightarrow> api_error + DestNodeTestResult list" where
  "getAllDestNodeResults unmarshal parseTime configMaps =
     (case configMaps of Inl e \<Rightarrow> Inl e | Inr cms \<Rightarrow> Inr (concat (map (reportResults unmarshal parseTime) cms)))"

definition modeMatches :: "string \<Rightarrow> string \<Rightarrow> bool" where
  "modeMatches mode benchmarkMode =
     (\<not> (mode = ''host'' \<and> benchmarkMode \<noteq> ''host_network'') \<and> \<not> (mode = ''pod'' \<and> benchmarkMode \<noteq> ''pod_network'') \<and>
      \<not> (mode = ''intra'' \<and> benchmarkMode \<noteq> ''intra_node''))"

text \<open>\<open>startOfDay\<close> is the last midnight.\<close>

definition filterMatches :: "int \<Rightarrow> ListFilter \<Rightarrow> DestNodeTestResult \<Rightarrow> bool" where
  "filterMatches startOfDay flt r =
     (\<not> (lfToday flt \<and> trTimestamp r < startOfDay) \<and>
      \<not> (lfMode flt \<noteq> '''' \<and> \<not> modeMatches (lfMode flt) (trBenchmarkMode r)) \<and>
      \<not> (lfNode flt \<noteq> '''' \<and> \<not> containsStr (toLower (trDestNode r)) (toLower (lfNode flt))))"

definition newerFirst :: "DestNodeTestResult \<Rightarrow> DestNodeTestResult \<Rightarrow> bool" where
  "newerFirst a b = (trTimestamp b < trTimestamp a)"

definition latestKey :: "DestNodeTestResult \<Rightarrow> string" where
  "latestKey r = trDestNode r @ ''|'' @ trBenchmarkMode r @ ''|'' @ trProtocol r @ ''|'' @ trDirection r"

fun latestOnly :: "(string, bool) gomap \<Rightarrow> DestNodeTestResult list \<Rightarrow> DestNodeTestResult list" where
  "latestOnly seen [] = []"
| "latestOnly seen (r # rs) =
     (if map_of seen (latestKey r) = Some True then latestOnly seen rs else r # latestOnly (AList.update (latestKey r) True seen) rs)"

definition groupedLess :: "DestNodeTestResult \<Rightarrow> DestNodeTestResult \<Rightarrow> bool" where
  "groupedLess a b =
     (if trDestNode a \<noteq> trDestNode b then trDestNode a < trDestNode b
      else if trBenchmarkMode a \<noteq> trBenchmarkMode b then trBenchmarkMode a < trBenchmarkMode b
      else if trProtocol a \<noteq> trProtocol b then trProtocol a < trProtocol b
      else trDirection a < trDirection b)"

text \<open>\<open>sortSlice less\<close> is \<^verbatim>\<open>sort.Slice\<close>. The rows that are printed; none when there is nothing to list.\<close>

definition ListBenchmarksWithFilter ::
    "((DestNodeTestResult \<Rightarrow> DestNodeTestResult \<Rightarrow> bool) \<Rightarrow> DestNodeTestResult list \<Rightarrow> DestNodeTestResult list) \<Rightarrow>
     int \<Rightarrow> ListFilter \<Rightarrow> DestNodeTestResult list \<Rightarrow> DestNodeTestResult list" where
  "ListBenchmarksWithFilter sortSlice startOfDay flt results =
     (let filtered = sortSlice newerFirst (filter (filterMatches startOfDay flt) results);
          latest = (if lfLatest flt then latestOnly [] filtered else filtered);
          grouped = sortSlice groupedLess latest
      in if 0 <s lfLimit flt \<and> sint (lfLimit flt) < int (length grouped) then take (nat (sint (lfLimit flt))) grouped else grouped)"

text \<open>The age of a result, from a duration in nanoseconds.\<close>

definition humanDuration :: "int \<Rightarrow> string" where
  "humanDuration d =
     (let sec = ftrunc (fadd (f64 (d sdiv 1000000000)) (fdiv (f64 (d smod 1000000000)) 1000000000));
          num = (\<lambda>i. FormatInt (word_of_int i))
      in if sec < 60 then num sec @ ''s''
         else if sec < 3600 then num (sec sdiv 60) @ ''m'' @ num (sec smod 60) @ ''s''
         else if sec < 86400 then num (sec sdiv 3600) @ ''h'' @ num ((sec smod 3600) sdiv 60) @ ''m''
         else num (sec sdiv 86400) @ ''d'' @ num ((sec smod 86400) sdiv 3600) @ ''h'')"

text \<open>The number that is printed, and its unit.\<close>

definition formatThroughput :: "rat \<Rightarrow> rat \<times> string" where
  "formatThroughput bps =
     (if 1000000000 \<le> bps then (fdiv bps 1000000000, ''Gbps'')
      else if 1000000 \<le> bps then (fdiv bps 1000000, ''Mbps'')
      else if 1000 \<le> bps then (fdiv bps 1000, ''Kbps'')
      else (bps, ''bps''))"

section \<open>Summaries\<close>

record DestNodeSummary =
  dsDestNode :: string
  dsLatestRun :: "int option"
  dsTotalTests :: int64
  dsHostModeTests :: int64
  dsPodModeTests :: int64
  dsAvgThroughput :: rat
  dsAvgRTT :: rat
  dsTotalRetrans :: int64

definition emptySummary :: "string \<Rightarrow> DestNodeSummary" where
  "emptySummary node =
     \<lparr>dsDestNode = node, dsLatestRun = None, dsTotalTests = 0, dsHostModeTests = 0, dsPodModeTests = 0, dsAvgThroughput = 0, dsAvgRTT = 0,
      dsTotalRetrans = 0\<rparr>"

text \<open>The latest run starts as the zero time, before every time stamp.\<close>

definition addToSummary :: "DestNodeTestResult \<Rightarrow> DestNodeSummary \<Rightarrow> DestNodeSummary" where
  "addToSummary r nd =
     (let total = dsTotalTests nd + 1
      in nd\<lparr>dsTotalTests := total,
            dsHostModeTests := (if trBenchmarkMode r = ''host_network'' then dsHostModeTests nd + 1 else dsHostModeTests nd),
            dsPodModeTests := (if trBenchmarkMode r = ''host_network'' then dsPodModeTests nd else dsPodModeTests nd + 1),
            dsLatestRun := (case dsLatestRun nd of None \<Rightarrow> Some (trTimestamp r) | Some t \<Rightarrow> Some (if t < trTimestamp r then trTimestamp r else t)),
            dsAvgThroughput := fdiv (fadd (fmul (dsAvgThroughput nd) (f64 (sint (total - 1)))) (trThroughputBps r)) (f64 (sint total)),
            dsAvgRTT := (if trProtocol r = ''tcp'' \<and> 0 < trRTTAvg r then
                (if dsAvgRTT nd = 0 then trRTTAvg r else fdiv (fadd (dsAvgRTT nd) (trRTTAvg r)) 2) else dsAvgRTT nd),
            dsTotalRetrans := dsTotalRetrans nd + trRetransmits r\<rparr>)"

definition summarize :: "DestNodeTestResult list \<Rightarrow> (string, DestNodeSummary) gomap" where
  "summarize results =
     fold (\<lambda>r m. AList.update (trDestNode r)
        (addToSummary r (case map_of m (trDestNode r) of None \<Rightarrow> emptySummary (trDestNode r) | Some nd \<Rightarrow> nd)) m) results []"

text \<open>The order in which the map is visited does not matter, since the nodes are sorted by their names.\<close>

definition ListNodes ::
    "((DestNodeSummary \<Rightarrow> DestNodeSummary \<Rightarrow> bool) \<Rightarrow> DestNodeSummary list \<Rightarrow> DestNodeSummary list) \<Rightarrow> DestNodeTestResult list \<Rightarrow> DestNodeSummary list" where
  "ListNodes sortSlice results = sortSlice (\<lambda>a b. dsDestNode a < dsDestNode b) (map snd (summarize results))"

section \<open>Details of a node\<close>

record node_stats_line =
  nsActualDestNode :: string
  nsTotalTests :: nat
  nsAvgThroughput :: rat
  nsAvgRTT :: rat
  nsAvgJitter :: rat
  nsAvgPacketLoss :: rat
  nsTotalRetrans :: int64

text \<open>The sums over the results, added up as floats, and the counts of the averages.\<close>

record stat_sums =
  sumThroughput :: rat
  sumRTT :: rat
  sumJitter :: rat
  sumPacketLoss :: rat
  sumRetrans :: int64
  tcpCount :: int64
  udpCount :: int64

definition addStats :: "DestNodeTestResult \<Rightarrow> stat_sums \<Rightarrow> stat_sums" where
  "addStats r s =
     (let rtt = (trProtocol r = ''tcp'' \<and> 0 < trRTTAvg r); udp = (trProtocol r = ''udp'')
      in s\<lparr>sumThroughput := fadd (sumThroughput s) (trThroughputBps r),
           sumRetrans := sumRetrans s + trRetransmits r,
           sumRTT := (if rtt then fadd (sumRTT s) (trRTTAvg r) else sumRTT s),
           tcpCount := (if rtt then tcpCount s + 1 else tcpCount s),
           sumJitter := (if udp \<and> 0 < trJitterMs r then fadd (sumJitter s) (trJitterMs r) else sumJitter s),
           sumPacketLoss := (if udp then fadd (sumPacketLoss s) (trPacketLossPct r) else sumPacketLoss s),
           udpCount := (if udp then udpCount s + 1 else udpCount s)\<rparr>)"

definition nodeStats :: "string \<Rightarrow> DestNodeTestResult list \<Rightarrow> node_stats_line" where
  "nodeStats node rs =
     (let s = fold addStats rs \<lparr>sumThroughput = 0, sumRTT = 0, sumJitter = 0, sumPacketLoss = 0, sumRetrans = 0, tcpCount = 0, udpCount = 0\<rparr>
      in \<lparr>nsActualDestNode = node, nsTotalTests = length rs, nsAvgThroughput = fdiv (sumThroughput s) (f64 (int (length rs))),
          nsAvgRTT = (if 0 <s tcpCount s then fdiv (sumRTT s) (f64 (sint (tcpCount s))) else 0),
          nsAvgJitter = (if 0 <s udpCount s then fdiv (sumJitter s) (f64 (sint (udpCount s))) else 0),
          nsAvgPacketLoss = (if 0 <s udpCount s then fdiv (sumPacketLoss s) (f64 (sint (udpCount s))) else 0),
          nsTotalRetrans = sumRetrans s\<rparr>)"

definition describeMatches :: "string \<Rightarrow> string \<Rightarrow> DestNodeTestResult \<Rightarrow> bool" where
  "describeMatches node mode r =
     (containsStr (toLower (trDestNode r)) (toLower node) \<and>
      \<not> (mode = ''host'' \<and> trBenchmarkMode r \<noteq> ''host_network'') \<and> \<not> (mode = ''pod'' \<and> trBenchmarkMode r \<noteq> ''pod_network''))"

text \<open>The statistics and the rows by source node, newest first; \<open>None\<close> when there are no results.\<close>

definition DescribeNodeBenchmarks ::
    "((DestNodeTestResult \<Rightarrow> DestNodeTestResult \<Rightarrow> bool) \<Rightarrow> DestNodeTestResult list \<Rightarrow> DestNodeTestResult list) \<Rightarrow> string \<Rightarrow> string \<Rightarrow> bool \<Rightarrow>
     DestNodeTestResult list \<Rightarrow> (node_stats_line \<times> (string \<times> DestNodeTestResult list) list) option" where
  "DescribeNodeBenchmarks sortSlice node mode latest results =
     (case sortSlice newerFirst (filter (describeMatches node mode) results) of
        [] \<Rightarrow> None
      | r # rs \<Rightarrow>
          (let chosen = (if latest then filter (\<lambda>x. \<bar>trTimestamp x - trTimestamp r\<bar> < 60 * 1000000000) (r # rs) else r # rs)
           in Some (nodeStats (trDestNode r) chosen,
                map (\<lambda>sn. (sn, sortSlice newerFirst (filter (\<lambda>x. trSourceNode x = sn) chosen))) (sort (remdups (map trSourceNode chosen))))))"

section \<open>Rows\<close>

definition toUpper :: "string \<Rightarrow> string" where
  "toUpper s = map (\<lambda>c. let n = of_char c :: nat in if 97 \<le> n \<and> n \<le> 122 then char_of (n - 32) else c) s"

text \<open>The columns of a table; \<open>None\<close> is printed as a dash, numbers with two digits.\<close>

record list_row =
  rwNode :: string
  rwMode :: string
  rwProtocol :: string
  rwDirection :: string
  rwThroughput :: "rat \<times> string"
  rwRTT :: "rat option"
  rwJitter :: "rat option"
  rwLoss :: "rat option"
  rwRetrans :: "string option"
  rwTime :: string

definition modeStr :: "string \<Rightarrow> string" where
  "modeStr mode = (if mode = ''pod_network'' then ''pod'' else if mode = ''intra_node'' then ''intra'' else ''host'')"

definition modeShort :: "string \<Rightarrow> string" where
  "modeShort mode = (if mode = ''pod_network'' then ''pod'' else ''host'')"

definition renderRow :: "string \<Rightarrow> string \<Rightarrow> string \<Rightarrow> DestNodeTestResult \<Rightarrow> list_row" where
  "renderRow node mode time r =
     (let tcp = (trProtocol r = ''tcp'')
      in \<lparr>rwNode = node, rwMode = mode, rwProtocol = toUpper (trProtocol r), rwDirection = trDirection r,
          rwThroughput = formatThroughput (trThroughputBps r),
          rwRTT = (if tcp \<and> 0 < trRTTAvg r then Some (trRTTAvg r) else None),
          rwJitter = (if \<not> tcp \<and> 0 < trJitterMs r then Some (trJitterMs r) else None),
          rwLoss = (if \<not> tcp then Some (trPacketLossPct r) else None),
          rwRetrans = (if tcp then Some (FormatInt (trRetransmits r)) else None), rwTime = time\<rparr>)"

text \<open>A row of the list with its age, and one of the details of a node.\<close>

definition listRow :: "int \<Rightarrow> DestNodeTestResult \<Rightarrow> list_row" where
  "listRow t r = renderRow (trDestNode r) (modeStr (trBenchmarkMode r)) (humanDuration (t - trTimestamp r)) r"

definition describeRow :: "(int \<Rightarrow> string) \<Rightarrow> string \<Rightarrow> DestNodeTestResult \<Rightarrow> list_row" where
  "describeRow clockTime sourceNode r = renderRow sourceNode (modeShort (trBenchmarkMode r)) (clockTime (trTimestamp r)) r"

end
