(* ===== verification/Health_Benchmark.thy ===== *)
theory Health_Benchmark
  imports Health_Plugin
begin

text \<open>
  The command \<^verbatim>\<open>create\<close> of \<^verbatim>\<open>kubectl health\<close> (\<^verbatim>\<open>create_benchmark.go\<close>): it sets up servers on all nodes, runs clients over the host
  network, over the pod network and within each node, stores the results and releases what it set up. The text of the script and the
  parts of pods that are the same for all are left out.
\<close>

section \<open>Objects and calls\<close>

datatype hkind = KNamespace | KService | KDaemonSet | KServiceAccount | KRole | KRoleBinding | KConfigMap | KPod

record client_pod =
  cpName :: string
  cpMode :: string
  cpNodeName :: string
  cpHostNetwork :: bool
  cpEnv :: "(string \<times> string) list"

datatype hobject =
    Namespace string
  | Service string string int
  | DaemonSet string string bool int
  | ServiceAccount string
  | Role string
  | RoleBinding string string string
  | ScriptMap string
  | ResultMap string string string string
  | ClientPod client_pod

fun objectKind :: "hobject \<Rightarrow> hkind" where
  "objectKind (Namespace _) = KNamespace"
| "objectKind (Service _ _ _) = KService"
| "objectKind (DaemonSet _ _ _ _) = KDaemonSet"
| "objectKind (ServiceAccount _) = KServiceAccount"
| "objectKind (Role _) = KRole"
| "objectKind (RoleBinding _ _ _) = KRoleBinding"
| "objectKind (ScriptMap _) = KConfigMap"
| "objectKind (ResultMap _ _ _ _) = KConfigMap"
| "objectKind (ClientPod _) = KPod"

fun objectName :: "hobject \<Rightarrow> string" where
  "objectName (Namespace n) = n"
| "objectName (Service n _ _) = n"
| "objectName (DaemonSet n _ _ _) = n"
| "objectName (ServiceAccount n) = n"
| "objectName (Role n) = n"
| "objectName (RoleBinding n _ _) = n"
| "objectName (ScriptMap n) = n"
| "objectName (ResultMap n _ _ _) = n"
| "objectName (ClientPod p) = cpName p"

text \<open>Client pods of the benchmark within nodes are deleted and listed by their labels.\<close>

datatype hcall =
    HGet hkind string
  | HCreate hobject
  | HUpdate hobject
  | HDelete hkind string
  | HDeleteIntra
  | HListNodes
  | HListIntra
  | HListResults
  | HLogs string
  | HNow
  | HSleep int

type_synonym 'a hio = "(hcall, 'a) io"

record pod_state =
  psName :: string
  psNodeName :: string
  psPhase :: string

text \<open>The answers of the server, which may depend on all calls so far; \<open>None\<close> is success where there is no other answer. What a daemon set
  answers depends on the deadline of the context as well: its numbers of ready and of desired pods.\<close>

record hclient =
  hcGet :: "hcall list \<Rightarrow> hkind \<Rightarrow> string \<Rightarrow> api_error option"
  hcGetPod :: "hcall list \<Rightarrow> string \<Rightarrow> api_error + pod_state"
  hcGetDaemonSet :: "hcall list \<Rightarrow> int \<Rightarrow> string \<Rightarrow> api_error + int32 \<times> int32"
  hcCreate :: "hcall list \<Rightarrow> hobject \<Rightarrow> api_error option"
  hcUpdate :: "hcall list \<Rightarrow> hobject \<Rightarrow> api_error option"
  hcDelete :: "hcall list \<Rightarrow> hkind \<Rightarrow> string \<Rightarrow> api_error option"
  hcDeleteIntra :: "hcall list \<Rightarrow> api_error option"
  hcListNodes :: "hcall list \<Rightarrow> api_error + (string \<times> bool) list"
  hcListIntra :: "hcall list \<Rightarrow> api_error + pod_state list"
  hcListResults :: "hcall list \<Rightarrow> api_error + result_map list"
  hcLogs :: "hcall list \<Rightarrow> string \<Rightarrow> api_error + string"
  hcNow :: "hcall list \<Rightarrow> int"
  hcFormatTime :: "string \<Rightarrow> int \<Rightarrow> string"
  hcParseTime :: "string \<Rightarrow> int option"
  hcStartOfDay :: "int \<Rightarrow> int"
  hcUnmarshalResult :: "string \<Rightarrow> IperfTestResult option"
  hcUnmarshalReport :: "string \<Rightarrow> BenchmarkReport option"
  hcMarshalReport :: "BenchmarkReport \<Rightarrow> string"
  hcSort :: "(DestNodeTestResult \<Rightarrow> DestNodeTestResult \<Rightarrow> bool) \<Rightarrow> DestNodeTestResult list \<Rightarrow> DestNodeTestResult list"

abbreviation now :: "hclient \<Rightarrow> int hio" where
  "now cl \<equiv> call HNow (hcNow cl)"

abbreviation sleepSeconds :: "int \<Rightarrow> unit hio" where
  "sleepSeconds s \<equiv> call (HSleep (s * 1000000000)) (\<lambda>_. ())"

abbreviation create :: "hclient \<Rightarrow> hobject \<Rightarrow> api_error option hio" where
  "create cl obj \<equiv> call (HCreate obj) (\<lambda>tr. hcCreate cl tr obj)"

abbreviation delete :: "hclient \<Rightarrow> hkind \<Rightarrow> string \<Rightarrow> api_error option hio" where
  "delete cl k n \<equiv> call (HDelete k n) (\<lambda>tr. hcDelete cl tr k n)"

text \<open>A function returns, fails, or never ends. Messages of errors are left out.\<close>

datatype 'a hres = Ok 'a | Err | Hung

definition andThen :: "'a hres hio \<Rightarrow> ('a \<Rightarrow> 'b hres hio) \<Rightarrow> 'b hres hio" where
  "andThen m f = do { r \<leftarrow> m; case r of Ok a \<Rightarrow> f a | Err \<Rightarrow> ret Err | Hung \<Rightarrow> ret Hung }"

definition okUnless :: "api_error option \<Rightarrow> unit hres" where
  "okUnless e = (case e of None \<Rightarrow> Ok () | Some _ \<Rightarrow> Err)"

text \<open>Get an object and create it if it is not found: the pattern of all functions that set up something.\<close>

definition ensure :: "hclient \<Rightarrow> hobject \<Rightarrow> unit hres hio" where
  "ensure cl obj = do {
     r \<leftarrow> call (HGet (objectKind obj) (objectName obj)) (\<lambda>tr. hcGet cl tr (objectKind obj) (objectName obj));
     case r of
       None \<Rightarrow> ret (Ok ())
     | Some e \<Rightarrow> if e = NotFound then do { c \<leftarrow> create cl obj; ret (okUnless c) } else ret Err
   }"

section \<open>Set-up\<close>

text \<open>The namespace, created on any error of the request; a failure ends the program.\<close>

definition initNamespace :: "hclient \<Rightarrow> unit hres hio" where
  "initNamespace cl = do {
     r \<leftarrow> call (HGet KNamespace ''health-monitoring'') (\<lambda>tr. hcGet cl tr KNamespace ''health-monitoring'');
     case r of None \<Rightarrow> ret (Ok ()) | Some e \<Rightarrow> do { c \<leftarrow> create cl (Namespace ''health-monitoring''); ret (okUnless c) }
   }"

definition hostService :: hobject where
  "hostService = Service ''iperf-hostnetwork'' ''iperf-hostnetwork'' 5201"

definition podService :: hobject where
  "podService = Service ''iperf-podnetwork'' ''iperf-podnetwork'' 5201"

definition CreateIperfHeadlessServices :: "hclient \<Rightarrow> unit hres hio" where
  "CreateIperfHeadlessServices cl = andThen (ensure cl hostService) (\<lambda>_. ensure cl podService)"

definition hostDaemonSet :: hobject where
  "hostDaemonSet = DaemonSet ''iperf-servers-hostnetwork'' ''iperf-hostnetwork'' True 5201"

definition podDaemonSet :: hobject where
  "podDaemonSet = DaemonSet ''iperf-servers-podnetwork'' ''iperf-podnetwork'' False 5201"

definition CreateIperfHostNetworkDaemonSet :: "hclient \<Rightarrow> unit hres hio" where
  "CreateIperfHostNetworkDaemonSet cl = ensure cl hostDaemonSet"

definition CreateIperfPodNetworkDaemonSet :: "hclient \<Rightarrow> unit hres hio" where
  "CreateIperfPodNetworkDaemonSet cl = ensure cl podDaemonSet"

definition CreateIperfRolesAndBindings :: "hclient \<Rightarrow> unit hres hio" where
  "CreateIperfRolesAndBindings cl =
     andThen (ensure cl (ServiceAccount ''iperf-benchmark-sa'')) (\<lambda>_.
     andThen (ensure cl (Role ''iperf-node-pod-reader'')) (\<lambda>_.
     ensure cl (RoleBinding ''iperf-benchmark-binding'' ''iperf-benchmark-sa'' ''iperf-node-pod-reader'')))"

definition scriptMap :: hobject where
  "scriptMap = ScriptMap ''iperf-benchmark-script''"

definition CreateIperfBencharkScriptConfigMap :: "hclient \<Rightarrow> unit hres hio" where
  "CreateIperfBencharkScriptConfigMap cl = do {
     r \<leftarrow> call (HGet KConfigMap (objectName scriptMap)) (\<lambda>tr. hcGet cl tr KConfigMap (objectName scriptMap));
     case r of
       None \<Rightarrow> do { u \<leftarrow> call (HUpdate scriptMap) (\<lambda>tr. hcUpdate cl tr scriptMap); ret (okUnless u) }
     | Some e \<Rightarrow> if e = NotFound then do { c \<leftarrow> create cl scriptMap; ret (okUnless c) } else ret Err
   }"

section \<open>Waiting\<close>

text \<open>Each loop is given the number of its rounds as fuel.\<close>

fun waitDaemonSet :: "nat \<Rightarrow> hclient \<Rightarrow> int \<Rightarrow> string \<Rightarrow> unit hres hio" where
  "waitDaemonSet 0 cl ctx name = ret Hung"
| "waitDaemonSet (Suc n) cl ctx name = do {
     ds \<leftarrow> call (HGet KDaemonSet name) (\<lambda>tr. hcGetDaemonSet cl tr ctx name);
     case ds of
       Inl e \<Rightarrow> ret Err
     | Inr (ready, desired) \<Rightarrow>
         if ready = desired \<and> 0 <s desired then ret (Ok ()) else do { sleepSeconds 2; waitDaemonSet n cl ctx name }
   }"

definition WaitForDaemonSetReady :: "nat \<Rightarrow> hclient \<Rightarrow> string \<Rightarrow> unit hres hio" where
  "WaitForDaemonSetReady fuel cl name = do { t \<leftarrow> now cl; waitDaemonSet fuel cl (t + 120 * 1000000000) name }"

definition GetPodLogs :: "hclient \<Rightarrow> string \<Rightarrow> (api_error + string) hio" where
  "GetPodLogs cl pod = call (HLogs pod) (\<lambda>tr. hcLogs cl tr pod)"

fun waitPod :: "nat \<Rightarrow> hclient \<Rightarrow> int \<Rightarrow> string \<Rightarrow> string hres hio" where
  "waitPod 0 cl ctx pod = ret Hung"
| "waitPod (Suc n) cl ctx pod = do {
     t \<leftarrow> now cl;
     if ctx \<le> t then ret Err
     else do {
       p \<leftarrow> call (HGet KPod pod) (\<lambda>tr. hcGetPod cl tr pod);
       case p of
         Inl e \<Rightarrow> ret Err
       | Inr st \<Rightarrow>
           if psPhase st = ''Succeeded'' \<or> psPhase st = ''Failed'' then do {
             l \<leftarrow> GetPodLogs cl pod;
             ret (case l of Inl e \<Rightarrow> Err | Inr logs \<Rightarrow> Ok logs)
           }
           else if psPhase st = ''Pending'' \<or> psPhase st = ''Running'' then do { sleepSeconds 5; waitPod n cl ctx pod }
           else ret Err
     }
   }"

definition WaitForPodCompletion :: "nat \<Rightarrow> hclient \<Rightarrow> string \<Rightarrow> int \<Rightarrow> string hres hio" where
  "WaitForPodCompletion fuel cl pod timeout = do { t \<leftarrow> now cl; waitPod fuel cl (t + timeout) pod }"

section \<open>Results\<close>

definition CreateBenchmarkResultConfigMap :: "hclient \<Rightarrow> BenchmarkReport \<Rightarrow> string \<Rightarrow> unit hres hio" where
  "CreateBenchmarkResultConfigMap cl report sfx = do {
     t \<leftarrow> now cl;
     c \<leftarrow> create cl (ResultMap (CONFIG_MAP_PREFIX @ sfx @ ''-'' @ hcFormatTime cl ''20060102-150405'' t)
            (brBenchmarkMode report) (brSourceNode report) (hcMarshalReport cl report));
     ret (okUnless c)
   }"

definition GetSourceNodeFromPod :: "hclient \<Rightarrow> string \<Rightarrow> (api_error + string) hio" where
  "GetSourceNodeFromPod cl pod = do {
     p \<leftarrow> call (HGet KPod pod) (\<lambda>tr. hcGetPod cl tr pod);
     ret (map_sum id psNodeName p)
   }"

definition parseLogs :: "hclient \<Rightarrow> string \<Rightarrow> BenchmarkConfig \<Rightarrow> string \<Rightarrow> string \<Rightarrow> BenchmarkReport hio" where
  "parseLogs cl logs config mode sourceNode = do {
     t \<leftarrow> now cl;
     ret (ParseBenchmarkLogs (hcUnmarshalResult cl) (hcFormatTime cl ''RFC3339'' t) logs config mode sourceNode)
   }"

definition listBenchmarks :: "hclient \<Rightarrow> ListFilter \<Rightarrow> (api_error + DestNodeTestResult list) hio" where
  "listBenchmarks cl flt = do {
     cms \<leftarrow> call HListResults (hcListResults cl);
     t \<leftarrow> now cl;
     ret (map_sum id (ListBenchmarksWithFilter (hcSort cl) (hcStartOfDay cl t) flt)
       (getAllDestNodeResults (hcUnmarshalReport cl) (hcParseTime cl) cms))
   }"

definition latestOf :: "string \<Rightarrow> ListFilter" where
  "latestOf mode = \<lparr>lfLatest = True, lfToday = False, lfMode = mode, lfNode = '''', lfLimit = 0\<rparr>"

section \<open>Clients\<close>

text \<open>The variables that differ; the node name of the first two clients is filled in by the cluster.\<close>

definition clientEnv :: "(string \<times> string) list \<Rightarrow> string \<Rightarrow> BenchmarkConfig \<Rightarrow> (string \<times> string) list" where
  "clientEnv mode target config =
     mode @ [(''TARGET_SVC'', target), (''TARGET_PORT'', ''5201''), (''IPERF_PARALLEL'', FormatInt (NumberOfConnections config)),
      (''IPERF_DURATION'', FormatInt (DurationSeconds config)), (''EXCLUDE_NODES'', ExcludeNodes config)]"

definition hostClient :: "BenchmarkConfig \<Rightarrow> client_pod" where
  "hostClient config =
     \<lparr>cpName = ''iperf-client-host'', cpMode = ''host-network'', cpNodeName = '''', cpHostNetwork = True,
      cpEnv = clientEnv [(''BENCHMARK_MODE'', ''host_network'')] ''iperf-hostnetwork'' config\<rparr>"

definition podClient :: "BenchmarkConfig \<Rightarrow> client_pod" where
  "podClient config =
     \<lparr>cpName = ''iperf-client-pod'', cpMode = ''pod-network'', cpNodeName = '''', cpHostNetwork = False,
      cpEnv = clientEnv [(''BENCHMARK_MODE'', ''pod_network'')] ''iperf-podnetwork'' config\<rparr>"

definition intraClient :: "BenchmarkConfig \<Rightarrow> string \<Rightarrow> client_pod" where
  "intraClient config node =
     \<lparr>cpName = ''iperf-intra-node-'' @ node, cpMode = ''intra-node'', cpNodeName = node, cpHostNetwork = False,
      cpEnv = clientEnv [(''BENCHMARK_MODE'', ''intra_node''), (''INTRA_NODE_MODE'', ''true'')] ''iperf-podnetwork'' config @ [(''MY_NODE_NAME'', node)]\<rparr>"

definition replacePod :: "hclient \<Rightarrow> client_pod \<Rightarrow> unit hres hio" where
  "replacePod cl pod = do { _ \<leftarrow> delete cl KPod (cpName pod); sleepSeconds 2; c \<leftarrow> create cl (ClientPod pod); ret (okUnless c) }"

definition CreateIperfHostNetworkBenchmarkPod :: "hclient \<Rightarrow> BenchmarkConfig \<Rightarrow> unit hres hio" where
  "CreateIperfHostNetworkBenchmarkPod cl config = replacePod cl (hostClient config)"

definition CreateIperfPodNetworkBenchmarkPod :: "hclient \<Rightarrow> BenchmarkConfig \<Rightarrow> unit hres hio" where
  "CreateIperfPodNetworkBenchmarkPod cl config = replacePod cl (podClient config)"

definition excludedNodes :: "BenchmarkConfig \<Rightarrow> string set" where
  "excludedNodes config = (if ExcludeNodes config = '''' then {} else set (map trimSpace (splitOn (CHR 0x2C) (ExcludeNodes config))))"

text \<open>The nodes with whether they are cordoned; the result is the number of pods created.\<close>

fun createIntra :: "hclient \<Rightarrow> BenchmarkConfig \<Rightarrow> (string \<times> bool) list \<Rightarrow> nat \<Rightarrow> nat hio" where
  "createIntra cl config [] createdCount = ret createdCount"
| "createIntra cl config ((node, unschedulable) # ns) createdCount =
     (if node \<in> excludedNodes config \<or> unschedulable then createIntra cl config ns createdCount
      else do {
        c \<leftarrow> create cl (ClientPod (intraClient config node));
        createIntra cl config ns (if c = None then Suc createdCount else createdCount)
      })"

definition CreateIntraNodeBenchmarkPods :: "hclient \<Rightarrow> BenchmarkConfig \<Rightarrow> unit hres hio" where
  "CreateIntraNodeBenchmarkPods cl config = do {
     nodes \<leftarrow> call HListNodes (hcListNodes cl);
     case nodes of
       Inl e \<Rightarrow> ret Err
     | Inr ns \<Rightarrow> do {
         _ \<leftarrow> call HDeleteIntra (hcDeleteIntra cl);
         sleepSeconds 2;
         createdCount \<leftarrow> createIntra cl config ns 0;
         ret (if createdCount = 0 then Err else Ok ())
       }
   }"

fun collectIntra :: "hclient \<Rightarrow> BenchmarkConfig \<Rightarrow> pod_state list \<Rightarrow> unit hio" where
  "collectIntra cl config [] = ret ()"
| "collectIntra cl config (p # ps) = do {
     l \<leftarrow> GetPodLogs cl (psName p);
     case l of
       Inl e \<Rightarrow> collectIntra cl config ps
     | Inr logs \<Rightarrow> do {
         report \<leftarrow> parseLogs cl logs config ''intra_node'' (psNodeName p);
         _ \<leftarrow> (if brResults report \<noteq> [] then CreateBenchmarkResultConfigMap cl report (''intra-'' @ psNodeName p) else ret (Ok ()));
         collectIntra cl config ps
       }
   }"

fun waitIntra :: "nat \<Rightarrow> hclient \<Rightarrow> BenchmarkConfig \<Rightarrow> int \<Rightarrow> unit hres hio" where
  "waitIntra 0 cl config ctx = ret Hung"
| "waitIntra (Suc n) cl config ctx = do {
     t \<leftarrow> now cl;
     if ctx \<le> t then ret Err
     else do {
       pods \<leftarrow> call HListIntra (hcListIntra cl);
       case pods of
         Inl e \<Rightarrow> ret Err
       | Inr ps \<Rightarrow>
           if ps = [] then do { sleepSeconds 2; waitIntra n cl config ctx }
           else if list_all (\<lambda>p. psPhase p = ''Succeeded'' \<or> psPhase p = ''Failed'') ps then do { collectIntra cl config ps; ret (Ok ()) }
           else do { sleepSeconds 5; waitIntra n cl config ctx }
     }
   }"

definition WaitForIntraNodeBenchmarkCompletion :: "nat \<Rightarrow> hclient \<Rightarrow> BenchmarkConfig \<Rightarrow> int \<Rightarrow> unit hres hio" where
  "WaitForIntraNodeBenchmarkCompletion fuel cl config timeout = do { t \<leftarrow> now cl; waitIntra fuel cl config (t + timeout) }"

section \<open>The command\<close>

definition releaseCalls :: "hcall list" where
  "releaseCalls =
     [HDelete KPod ''iperf-client-host'', HDelete KPod ''iperf-client-pod'', HDeleteIntra,
      HDelete KDaemonSet ''iperf-servers-hostnetwork'', HDelete KDaemonSet ''iperf-servers-podnetwork'',
      HDelete KService ''iperf-podnetwork'', HDelete KService ''iperf-hostnetwork'']"

definition ReleaseBenchmarkResources :: "hclient \<Rightarrow> unit hio" where
  "ReleaseBenchmarkResources cl = do {
     _ \<leftarrow> delete cl KPod ''iperf-client-host'';
     _ \<leftarrow> delete cl KPod ''iperf-client-pod'';
     _ \<leftarrow> call HDeleteIntra (hcDeleteIntra cl);
     _ \<leftarrow> delete cl KDaemonSet ''iperf-servers-hostnetwork'';
     _ \<leftarrow> delete cl KDaemonSet ''iperf-servers-podnetwork'';
     _ \<leftarrow> delete cl KService ''iperf-podnetwork'';
     _ \<leftarrow> delete cl KService ''iperf-hostnetwork'';
     ret ()
   }"

text \<open>One client: the node it runs on is asked for before it is waited for, the results are stored and listed, errors of which are only printed.\<close>

definition runClient ::
    "nat \<Rightarrow> hclient \<Rightarrow> BenchmarkConfig \<Rightarrow> unit hres hio \<Rightarrow> string \<Rightarrow> string \<Rightarrow> string \<Rightarrow> unit hres hio" where
  "runClient fuel cl config createPod pod mode sfx =
     andThen createPod (\<lambda>_. do {
       src \<leftarrow> GetSourceNodeFromPod cl pod;
       andThen (WaitForPodCompletion fuel cl pod (20 * 60 * 1000000000)) (\<lambda>logs. do {
         report \<leftarrow> parseLogs cl logs config mode (case src of Inl e \<Rightarrow> ''unknown'' | Inr node \<Rightarrow> node);
         _ \<leftarrow> CreateBenchmarkResultConfigMap cl report sfx;
         _ \<leftarrow> listBenchmarks cl (latestOf sfx);
         ret (Ok ())
       })
     })"

definition benchmarkPhases :: "nat \<Rightarrow> hclient \<Rightarrow> BenchmarkConfig \<Rightarrow> unit hres hio" where
  "benchmarkPhases fuel cl config =
     andThen (CreateIperfPodNetworkDaemonSet cl) (\<lambda>_.
     andThen (WaitForDaemonSetReady fuel cl ''iperf-servers-hostnetwork'') (\<lambda>_.
     andThen (WaitForDaemonSetReady fuel cl ''iperf-servers-podnetwork'') (\<lambda>_.
     andThen (CreateIperfRolesAndBindings cl) (\<lambda>_.
     andThen (CreateIperfBencharkScriptConfigMap cl) (\<lambda>_.
     andThen (runClient fuel cl config (CreateIperfHostNetworkBenchmarkPod cl config) ''iperf-client-host'' ''host_network'' ''host'') (\<lambda>_.
     andThen (runClient fuel cl config (CreateIperfPodNetworkBenchmarkPod cl config) ''iperf-client-pod'' ''pod_network'' ''pod'') (\<lambda>_.
     andThen (CreateIntraNodeBenchmarkPods cl config) (\<lambda>_.
     andThen (WaitForIntraNodeBenchmarkCompletion fuel cl config (20 * 60 * 1000000000)) (\<lambda>_. do {
       _ \<leftarrow> listBenchmarks cl (latestOf ''intra'');
       ret (Ok ())
     })))))))))"

text \<open>The release is deferred once the first daemon set is there; it runs when the function returns, with an error or not.\<close>

definition CreateNewBenchmark :: "nat \<Rightarrow> hclient \<Rightarrow> BenchmarkConfig \<Rightarrow> unit hres hio" where
  "CreateNewBenchmark fuel cl config =
     andThen (CreateIperfHeadlessServices cl) (\<lambda>_.
     andThen (CreateIperfHostNetworkDaemonSet cl) (\<lambda>_. do {
       r \<leftarrow> benchmarkPhases fuel cl config;
       case r of
         Hung \<Rightarrow> ret Hung
       | _ \<Rightarrow> do { ReleaseBenchmarkResources cl; ret r }
     }))"

end
