(* ===== verification/Health_Properties.thy ===== *)
theory Health_Properties
  imports Health_Benchmark
begin

text \<open>
  The benchmark command ends, touches only its own objects and releases its pods, daemon sets and services; the listing shows what was
  asked for, in order, and with \<^verbatim>\<open>--latest\<close> the newest result of every kind.
\<close>

section \<open>Composition\<close>

definition returns :: "'a hres hio \<Rightarrow> bool" where
  "returns m \<longleftrightarrow> (\<forall>tr. fst (run_state m tr) \<noteq> Hung)"

lemma returns_ret [simp]: "returns (ret r) = (r \<noteq> Hung)"
  by (simp add: returns_def)

lemma returns_bind: "(\<And>a. returns (f a)) \<Longrightarrow> returns (State_Monad.bind m f)"
  unfolding returns_def by (simp add: split_beta)

lemma returns_andThen: "returns m \<Longrightarrow> (\<And>a. returns (f a)) \<Longrightarrow> returns (andThen m f)"
  unfolding returns_def andThen_def by (auto simp: split_beta split: hres.split)

lemma does_andThen:
  assumes "does P m (\<lambda>_. True)" "\<And>a. does P (f a) (\<lambda>_. True)"
  shows "does P (andThen m f) (\<lambda>_. True)"
  unfolding andThen_def by (rule does_bind [OF assms(1)]) (auto intro: assms(2) does_return split: hres.split)

section \<open>Objects of the benchmark\<close>

text \<open>The objects the command creates.\<close>

definition own_object :: "BenchmarkConfig \<Rightarrow> hobject \<Rightarrow> bool" where
  "own_object config obj \<longleftrightarrow>
     obj \<in> {hostService, podService, hostDaemonSet, podDaemonSet, ServiceAccount ''iperf-benchmark-sa'', Role ''iperf-node-pod-reader'',
       RoleBinding ''iperf-benchmark-binding'' ''iperf-benchmark-sa'' ''iperf-node-pod-reader'', scriptMap,
       ClientPod (hostClient config), ClientPod (podClient config)} \<or>
     (\<exists>node. node \<notin> excludedNodes config \<and> obj = ClientPod (intraClient config node)) \<or>
     (\<exists>name mode source json. obj = ResultMap (CONFIG_MAP_PREFIX @ name) mode source json)"

fun own_call :: "BenchmarkConfig \<Rightarrow> hcall \<Rightarrow> bool" where
  "own_call config (HCreate obj) = own_object config obj"
| "own_call config (HUpdate obj) = (obj = scriptMap)"
| "own_call config (HDelete k n) = (HDelete k n \<in> set releaseCalls)"
| "own_call config _ = True"

text \<open>What the release deletes.\<close>

definition released :: "hobject \<Rightarrow> bool" where
  "released obj \<longleftrightarrow>
     HDelete (objectKind obj) (objectName obj) \<in> set releaseCalls \<or>
     (HDeleteIntra \<in> set releaseCalls \<and> (\<exists>p. obj = ClientPod p \<and> cpMode p = ''intra-node''))"

lemmas object_defs = hostService_def podService_def hostDaemonSet_def podDaemonSet_def scriptMap_def hostClient_def podClient_def intraClient_def

lemma released_objects:
  "released hostService" "released podService" "released hostDaemonSet" "released podDaemonSet"
  "released (ClientPod (hostClient config))" "released (ClientPod (podClient config))" "released (ClientPod (intraClient config node))"
  by (simp_all add: released_def releaseCalls_def object_defs)

lemma own_released: "own_object config obj \<Longrightarrow> objectKind obj \<in> {KPod, KDaemonSet, KService} \<Longrightarrow> released obj"
  unfolding own_object_def by (elim disjE insertE exE conjE emptyE) (simp_all add: released_objects scriptMap_def)

lemma okUnless_returns [simp]: "okUnless e \<noteq> Hung"
  by (simp add: okUnless_def split: option.split)

lemma ensure_does: "P (HGet (objectKind obj) (objectName obj)) \<Longrightarrow> P (HCreate obj) \<Longrightarrow> does P (ensure cl obj) (\<lambda>r. r \<noteq> Hung)"
  unfolding ensure_def
  by (intro does_bind_call) (auto intro!: does_bind_call does_return split: option.split)

lemma ensure_own: "own_object config obj \<Longrightarrow> does (own_call config) (ensure cl obj) (\<lambda>_. True)"
  by (rule does_True [OF ensure_does]) simp_all

lemma own_objects:
  "own_object config hostService" "own_object config podService" "own_object config hostDaemonSet" "own_object config podDaemonSet"
  "own_object config (ServiceAccount ''iperf-benchmark-sa'')" "own_object config (Role ''iperf-node-pod-reader'')"
  "own_object config (RoleBinding ''iperf-benchmark-binding'' ''iperf-benchmark-sa'' ''iperf-node-pod-reader'')" "own_object config scriptMap"
  "own_object config (ClientPod (hostClient config))" "own_object config (ClientPod (podClient config))"
  "own_object config (ResultMap (CONFIG_MAP_PREFIX @ name) mode source json)"
  "node \<notin> excludedNodes config \<Longrightarrow> own_object config (ClientPod (intraClient config node))"
  by (auto simp: own_object_def)

named_theorems own \<open>calls of the functions of the benchmark\<close>

lemma own_setup [own]:
  "does (own_call config) (CreateIperfHeadlessServices cl) (\<lambda>_. True)"
  "does (own_call config) (CreateIperfHostNetworkDaemonSet cl) (\<lambda>_. True)"
  "does (own_call config) (CreateIperfPodNetworkDaemonSet cl) (\<lambda>_. True)"
  "does (own_call config) (CreateIperfRolesAndBindings cl) (\<lambda>_. True)"
  unfolding CreateIperfHeadlessServices_def CreateIperfHostNetworkDaemonSet_def CreateIperfPodNetworkDaemonSet_def CreateIperfRolesAndBindings_def
  by (intro does_andThen ensure_own own_objects)+

lemma own_script [own]: "does (own_call config) (CreateIperfBencharkScriptConfigMap cl) (\<lambda>_. True)"
  unfolding CreateIperfBencharkScriptConfigMap_def
  by (intro does_bind_call) (auto simp: own_objects intro!: does_bind_call does_return split: option.split)

lemma own_waitDaemonSet: "does (own_call config) (waitDaemonSet n cl ctx name) (\<lambda>_. True)"
proof (induction n)
  case (Suc n)
  then show ?case by (auto intro!: does_bind_call does_return split: sum.split)
qed (simp add: does_return)

lemma own_waitPod: "does (own_call config) (waitPod n cl ctx pod) (\<lambda>_. True)"
proof (induction n)
  case (Suc n)
  then show ?case by (auto simp: GetPodLogs_def intro!: does_bind_call does_return split: sum.split)
qed (simp add: does_return)

lemma own_waits [own]:
  "does (own_call config) (WaitForDaemonSetReady fuel cl name) (\<lambda>_. True)"
  "does (own_call config) (WaitForPodCompletion fuel cl pod timeout) (\<lambda>_. True)"
  unfolding WaitForDaemonSetReady_def WaitForPodCompletion_def
  by (auto intro!: does_bind_call own_waitDaemonSet own_waitPod)

lemma own_results [own]:
  "does (own_call config) (CreateBenchmarkResultConfigMap cl report sfx) (\<lambda>_. True)"
  "does (own_call config) (GetSourceNodeFromPod cl pod) (\<lambda>_. True)"
  "does (own_call config) (parseLogs cl logs config' mode source) (\<lambda>_. True)"
  "does (own_call config) (listBenchmarks cl flt) (\<lambda>_. True)"
  unfolding CreateBenchmarkResultConfigMap_def GetSourceNodeFromPod_def parseLogs_def listBenchmarks_def
  by (auto simp: own_objects intro!: does_bind_call does_return)

lemma own_replacePod: "own_object config (ClientPod p) \<Longrightarrow> HDelete KPod (cpName p) \<in> set releaseCalls \<Longrightarrow> does (own_call config) (replacePod cl p) (\<lambda>_. True)"
  unfolding replacePod_def by (auto intro!: does_bind_call does_return)

lemma own_clients [own]:
  "does (own_call config) (CreateIperfHostNetworkBenchmarkPod cl config) (\<lambda>_. True)"
  "does (own_call config) (CreateIperfPodNetworkBenchmarkPod cl config) (\<lambda>_. True)"
  unfolding CreateIperfHostNetworkBenchmarkPod_def CreateIperfPodNetworkBenchmarkPod_def
  by (rule own_replacePod, rule own_objects, simp add: releaseCalls_def hostClient_def podClient_def)+

lemma own_createIntra: "does (own_call config) (createIntra cl config ns k) (\<lambda>_. True)"
  by (induction ns arbitrary: k) (auto simp: own_objects intro!: does_bind_call does_return)

lemma own_intra [own]: "does (own_call config) (CreateIntraNodeBenchmarkPods cl config) (\<lambda>_. True)"
  unfolding CreateIntraNodeBenchmarkPods_def
  by (auto intro!: does_bind_call does_return does_bind [OF own_createIntra] split: sum.split)

lemma own_collectIntra: "does (own_call config) (collectIntra cl config ps) (\<lambda>_. True)"
  by (induction ps) (auto simp: GetPodLogs_def intro!: does_bind_call does_return does_bind [OF own_results(3)] does_bind [OF own_results(1)]
      split: sum.split)

lemma own_waitIntra: "does (own_call config) (waitIntra n cl config ctx) (\<lambda>_. True)"
proof (induction n)
  case (Suc n)
  then show ?case by (auto intro!: does_bind_call does_return does_bind [OF own_collectIntra] split: sum.split)
qed (simp add: does_return)

lemma own_wait_intra [own]: "does (own_call config) (WaitForIntraNodeBenchmarkCompletion fuel cl config timeout) (\<lambda>_. True)"
  unfolding WaitForIntraNodeBenchmarkCompletion_def by (auto intro!: does_bind_call own_waitIntra)

lemma own_runClient:
  "does (own_call config) createPod (\<lambda>_. True) \<Longrightarrow> does (own_call config) (runClient fuel cl config createPod pod mode sfx) (\<lambda>_. True)"
  unfolding runClient_def
  by (intro does_andThen does_bind [OF own_results(1)] does_bind [OF own_results(2)] does_bind [OF own_results(3)] does_bind [OF own_results(4)]
      does_return own TrueI)

lemma own_phases: "does (own_call config) (benchmarkPhases fuel cl config) (\<lambda>_. True)"
  unfolding benchmarkPhases_def
  by (intro does_andThen own own_runClient does_bind [OF own_results(4)] does_return TrueI)

section \<open>The command ends\<close>

text \<open>The clock does not go back, and a pause takes at least the time asked for. A request for a daemon set fails once its context has
  expired.\<close>

definition clock_ok :: "hclient \<Rightarrow> bool" where
  "clock_ok cl \<longleftrightarrow> (\<forall>tr e. hcNow cl tr \<le> hcNow cl (tr @ [e])) \<and> (\<forall>tr d. hcNow cl tr + d \<le> hcNow cl (tr @ [HSleep d]))"

definition expiry_ok :: "hclient \<Rightarrow> bool" where
  "expiry_ok cl \<longleftrightarrow> (\<forall>tr ctx name ds. hcGetDaemonSet cl tr ctx name = Inr ds \<longrightarrow> hcNow cl tr < ctx)"

text \<open>A loop that looks at the clock in every round and pauses for the next runs as many rounds as there are pauses until its deadline.\<close>

lemma poll_bound:
  assumes step: "\<And>n tr. fst (run_state (wait (Suc n)) tr) = Hung \<Longrightarrow>
      hcNow cl tr < ctx \<and> (\<exists>tr'. hcNow cl tr + pause \<le> hcNow cl tr' \<and> fst (run_state (wait n) tr') = Hung)"
  shows "fst (run_state (wait n) tr) = Hung \<Longrightarrow> n = 0 \<or> hcNow cl tr + pause * (int n - 1) < ctx"
proof (induction n arbitrary: tr)
  case (Suc n)
  obtain tr' where tr': "hcNow cl tr < ctx" "hcNow cl tr + pause \<le> hcNow cl tr'" "fst (run_state (wait n) tr') = Hung"
    using step [OF Suc.prems] by blast
  with Suc.IH [of tr'] show ?case by (cases n) (auto simp: algebra_simps)
qed simp

lemma clock_trace: "clock_ok cl \<Longrightarrow> hcNow cl tr \<le> hcNow cl (tr @ evs)"
proof (induction evs arbitrary: tr)
  case (Cons e evs)
  have "hcNow cl tr \<le> hcNow cl (tr @ [e])" using Cons.prems by (simp add: clock_ok_def)
  also have "\<dots> \<le> hcNow cl ((tr @ [e]) @ evs)" by (rule Cons.IH [OF Cons.prems])
  finally show ?case by simp
qed simp

lemma clock_pause: "clock_ok cl \<Longrightarrow> hcNow cl tr + d \<le> hcNow cl (tr @ evs @ [HSleep d])"
  using clock_trace [of cl tr evs] unfolding clock_ok_def by (metis add_right_mono append.assoc order_trans)

lemma waitPod_step:
  assumes "clock_ok cl" "fst (run_state (waitPod (Suc n) cl ctx pod) tr) = Hung"
  shows "hcNow cl tr < ctx \<and> (\<exists>tr'. hcNow cl tr + 5 * 1000000000 \<le> hcNow cl tr' \<and> fst (run_state (waitPod n cl ctx pod) tr') = Hung)"
  using assms(2) clock_pause [OF assms(1), of tr "5 * 1000000000" "[HNow, HGet KPod pod]"]
  by (auto simp: GetPodLogs_def split: if_splits sum.splits)

lemma waitIntra_step:
  assumes "clock_ok cl" "fst (run_state (waitIntra (Suc n) cl config ctx) tr) = Hung"
  shows "hcNow cl tr < ctx \<and> (\<exists>tr'. hcNow cl tr + 2 * 1000000000 \<le> hcNow cl tr' \<and> fst (run_state (waitIntra n cl config ctx) tr') = Hung)"
proof (cases "hcListIntra cl (tr @ [HNow])")
  case (Inr ps)
  have pauses: "hcNow cl tr + 2 * 1000000000 \<le> hcNow cl (tr @ [HNow, HListIntra, HSleep (2 * 1000000000)])"
      "hcNow cl tr + 2 * 1000000000 \<le> hcNow cl (tr @ [HNow, HListIntra, HSleep (5 * 1000000000)])"
    using clock_pause [OF assms(1), of tr "2 * 1000000000" "[HNow, HListIntra]"] clock_pause [OF assms(1), of tr "5 * 1000000000" "[HNow, HListIntra]"]
    by simp_all
  show ?thesis using assms(2) Inr pauses by (auto split: if_splits prod.splits)
qed (use assms(2) in \<open>auto split: if_splits\<close>)

lemma expiry_okD: "expiry_ok cl \<Longrightarrow> hcGetDaemonSet cl tr ctx name = Inr ds \<Longrightarrow> hcNow cl tr < ctx"
  unfolding expiry_ok_def by blast

lemma waitDaemonSet_step:
  assumes "clock_ok cl" "expiry_ok cl" "fst (run_state (waitDaemonSet (Suc n) cl ctx name) tr) = Hung"
  shows "hcNow cl tr < ctx \<and> (\<exists>tr'. hcNow cl tr + 2 * 1000000000 \<le> hcNow cl tr' \<and> fst (run_state (waitDaemonSet n cl ctx name) tr') = Hung)"
  using assms(3) clock_pause [OF assms(1), of tr "2 * 1000000000" "[HGet KDaemonSet name]"]
  by (auto dest: expiry_okD [OF assms(2)] split: if_splits sum.splits prod.splits)

text \<open>600 pauses of two seconds fit into the longest timeout.\<close>

lemma waits_return:
  assumes clock: "clock_ok cl" and fuel: "601 \<le> fuel"
  shows "returns (WaitForPodCompletion fuel cl pod (20 * 60 * 1000000000))"
    and "returns (WaitForIntraNodeBenchmarkCompletion fuel cl config (20 * 60 * 1000000000))"
    and "expiry_ok cl \<Longrightarrow> returns (WaitForDaemonSetReady fuel cl name)"
proof -
  have later: "hcNow cl tr \<le> hcNow cl (tr @ [HNow])" for tr using clock by (simp add: clock_ok_def)
  have "fst (run_state (waitPod fuel cl (hcNow cl tr + 20 * 60 * 1000000000) pod) (tr @ [HNow])) \<noteq> Hung" for tr
    using poll_bound [of "\<lambda>n. waitPod n cl (hcNow cl tr + 20 * 60 * 1000000000) pod", OF waitPod_step [OF clock]] later [of tr] fuel by fastforce
  then show "returns (WaitForPodCompletion fuel cl pod (20 * 60 * 1000000000))" by (simp add: returns_def WaitForPodCompletion_def)
  have "fst (run_state (waitIntra fuel cl config (hcNow cl tr + 20 * 60 * 1000000000)) (tr @ [HNow])) \<noteq> Hung" for tr
    using poll_bound [of "\<lambda>n. waitIntra n cl config (hcNow cl tr + 20 * 60 * 1000000000)", OF waitIntra_step [OF clock]] later [of tr] fuel by fastforce
  then show "returns (WaitForIntraNodeBenchmarkCompletion fuel cl config (20 * 60 * 1000000000))"
    by (simp add: returns_def WaitForIntraNodeBenchmarkCompletion_def)
  assume expiry: "expiry_ok cl"
  have "fst (run_state (waitDaemonSet fuel cl (hcNow cl tr + 120 * 1000000000) name) (tr @ [HNow])) \<noteq> Hung" for tr
    using poll_bound [of "\<lambda>n. waitDaemonSet n cl (hcNow cl tr + 120 * 1000000000) name", OF waitDaemonSet_step [OF clock expiry]] later [of tr] fuel by fastforce
  then show "returns (WaitForDaemonSetReady fuel cl name)" by (simp add: returns_def WaitForDaemonSetReady_def)
qed

lemma ensure_returns: "returns (ensure cl obj)"
  using ensure_does [of "\<lambda>_. True"] unfolding returns_def does_def by blast

lemma setup_returns:
  "returns (CreateIperfHeadlessServices cl)" "returns (CreateIperfHostNetworkDaemonSet cl)" "returns (CreateIperfPodNetworkDaemonSet cl)"
  "returns (CreateIperfRolesAndBindings cl)" "returns (CreateIperfBencharkScriptConfigMap cl)"
  unfolding CreateIperfHeadlessServices_def CreateIperfHostNetworkDaemonSet_def CreateIperfPodNetworkDaemonSet_def CreateIperfRolesAndBindings_def
    CreateIperfBencharkScriptConfigMap_def
  by (auto intro!: returns_andThen ensure_returns returns_bind split: option.split)

lemma clients_return:
  "returns (CreateIperfHostNetworkBenchmarkPod cl config)" "returns (CreateIperfPodNetworkBenchmarkPod cl config)" "returns (CreateIntraNodeBenchmarkPods cl config)"
  unfolding CreateIperfHostNetworkBenchmarkPod_def CreateIperfPodNetworkBenchmarkPod_def replacePod_def CreateIntraNodeBenchmarkPods_def
  by (auto intro!: returns_bind split: sum.split)

lemma phases_return: "clock_ok cl \<Longrightarrow> expiry_ok cl \<Longrightarrow> 601 \<le> fuel \<Longrightarrow> returns (benchmarkPhases fuel cl config)"
  unfolding benchmarkPhases_def runClient_def
  by (intro returns_andThen returns_bind setup_returns clients_return waits_return) simp_all

section \<open>The command releases\<close>

lemma release_run: "snd (run_state (ReleaseBenchmarkResources cl) tr) = tr @ releaseCalls"
  by (simp add: ReleaseBenchmarkResources_def releaseCalls_def)

definition setup_call :: "hcall \<Rightarrow> bool" where
  "setup_call e \<longleftrightarrow> (\<exists>obj \<in> {hostService, podService, hostDaemonSet}. e = HCreate obj \<or> e = HGet (objectKind obj) (objectName obj))"

lemma setup_own: "setup_call e \<Longrightarrow> own_call config e"
  by (auto simp: setup_call_def own_objects)

lemma setup_does:
  "does setup_call (CreateIperfHeadlessServices cl) (\<lambda>_. True)" "does setup_call (CreateIperfHostNetworkDaemonSet cl) (\<lambda>_. True)"
  unfolding CreateIperfHeadlessServices_def CreateIperfHostNetworkDaemonSet_def
  by (intro does_andThen does_True [OF ensure_does], simp_all add: setup_call_def)+

lemma andThen_run: "run_state (andThen m f) tr = (case run_state m tr of (Ok a, tr1) \<Rightarrow> run_state (f a) tr1 | (Err, tr1) \<Rightarrow> (Err, tr1) | (Hung, tr1) \<Rightarrow> (Hung, tr1))"
  by (auto simp: andThen_def split: prod.split hres.split)

lemma benchmark_cases:
  assumes "run_state (CreateNewBenchmark fuel cl config) tr = (r, tr')"
  obtains (early) evs where "tr' = tr @ evs" "\<forall>e \<in> set evs. setup_call e" "r \<noteq> Hung \<longrightarrow> r = Err"
  | (hung) evs where "tr' = tr @ evs" "\<forall>e \<in> set evs. own_call config e" "r = Hung"
  | (late) evs where "tr' = tr @ evs @ releaseCalls" "\<forall>e \<in> set evs. own_call config e" "r \<noteq> Hung"
proof -
  obtain r1 tr1 where r1: "run_state (CreateIperfHeadlessServices cl) tr = (r1, tr1)" by fastforce
  then obtain e1 where e1: "tr1 = tr @ e1" "\<forall>e \<in> set e1. setup_call e" by (elim does_trace [OF setup_does(1)])
  obtain r2 tr2 where r2: "run_state (CreateIperfHostNetworkDaemonSet cl) tr1 = (r2, tr2)" by fastforce
  then obtain e2 where e2: "tr2 = tr1 @ e2" "\<forall>e \<in> set e2. setup_call e" by (elim does_trace [OF setup_does(2)])
  obtain r3 tr3 where r3: "run_state (benchmarkPhases fuel cl config) tr2 = (r3, tr3)" by fastforce
  then obtain e3 where e3: "tr3 = tr2 @ e3" "\<forall>e \<in> set e3. own_call config e" by (elim does_trace [OF own_phases])
  have evs: "\<forall>e \<in> set (e1 @ e2 @ e3). own_call config e" using e1(2) e2(2) e3(2) setup_own by auto
  show thesis
  proof (cases "(\<exists>a. r1 = Ok a) \<and> (\<exists>a. r2 = Ok a)")
    case False
    then show thesis
      using assms r1 r2 e1 e2 early [of e1] early [of "e1 @ e2"] by (cases r1; cases r2) (auto simp: CreateNewBenchmark_def andThen_run)
  next
    case True
    then have run: "(r, tr') = (case r3 of Hung \<Rightarrow> (Hung, tr3) | _ \<Rightarrow> (r3, snd (run_state (ReleaseBenchmarkResources cl) tr3)))"
      using assms r1 r2 r3 by (auto simp: CreateNewBenchmark_def andThen_run split: hres.split prod.splits)
    show thesis
    proof (cases "r3 = Hung")
      case True
      with run hung [of "e1 @ e2 @ e3"] evs e1(1) e2(1) e3(1) show thesis by simp
    next
      case False
      with run late [of "e1 @ e2 @ e3"] evs e1(1) e2(1) e3(1) show thesis by (auto simp: release_run split: hres.splits)
    qed
  qed
qed

lemma benchmark_returns: "clock_ok cl \<Longrightarrow> expiry_ok cl \<Longrightarrow> 601 \<le> fuel \<Longrightarrow> returns (CreateNewBenchmark fuel cl config)"
proof -
  assume h: "clock_ok cl" "expiry_ok cl" "601 \<le> fuel"
  have "returns (State_Monad.bind (benchmarkPhases fuel cl config) (\<lambda>r. case r of Hung \<Rightarrow> ret Hung | _ \<Rightarrow> State_Monad.bind (ReleaseBenchmarkResources cl) (\<lambda>_. ret r)))"
    using phases_return [OF h] unfolding returns_def by (auto split: prod.splits hres.splits) (metis fst_conv)
  then show ?thesis unfolding CreateNewBenchmark_def by (intro returns_andThen setup_returns)
qed

text \<open>\<^bold>\<open>C30\<close> Whatever the server answers, the benchmark command ends, in at most 601 rounds of each of its waiting loops, if pauses take
  the time asked for and requests fail once their context has expired. It creates, updates and deletes objects of the benchmark only.
  Either it fails while it sets up the services and the first daemon set, or its last calls delete every pod, daemon set and service
  it may have created, whether it succeeds or fails.\<close>

theorem benchmark_ends_and_releases:
  assumes "clock_ok cl" and "expiry_ok cl" and "601 \<le> fuel"
    and "run_state (CreateNewBenchmark fuel cl config) tr = (r, tr')"
  shows "r \<noteq> Hung \<and>
    (\<exists>evs. (\<forall>e \<in> set evs. own_call config e) \<and>
      (tr' = tr @ evs @ releaseCalls \<or>
       tr' = tr @ evs \<and> r = Err \<and> (\<forall>obj. HCreate obj \<in> set evs \<longrightarrow> obj \<in> {hostService, podService, hostDaemonSet})) \<and>
      (\<forall>obj. HCreate obj \<in> set evs \<and> objectKind obj \<in> {KPod, KDaemonSet, KService} \<longrightarrow> released obj))"
proof -
  have ret: "r \<noteq> Hung" using benchmark_returns [OF assms(1-3)] assms(4) unfolding returns_def by (metis fst_conv)
  have rel: "\<forall>obj. HCreate obj \<in> set evs \<and> objectKind obj \<in> {KPod, KDaemonSet, KService} \<longrightarrow> released obj"
    if "\<forall>e \<in> set evs. own_call config e" for evs
    using that own_released by fastforce
  from assms(4) show ?thesis
  proof (cases rule: benchmark_cases)
    case (early evs)
    have own_evs: "\<forall>e \<in> set evs. own_call config e" using early(2) setup_own by blast
    moreover have "\<forall>obj. HCreate obj \<in> set evs \<longrightarrow> obj \<in> {hostService, podService, hostDaemonSet}" using early(2) by (fastforce simp: setup_call_def)
    ultimately show ?thesis using ret early rel [OF own_evs] by blast
  next
    case (hung evs)
    with ret show ?thesis by simp
  next
    case (late evs)
    with ret rel [OF late(2)] show ?thesis by blast
  qed
qed

text \<open>A server on which everything succeeds.\<close>

definition ex_now :: "hcall list \<Rightarrow> int" where
  "ex_now tr = sum_list (map (\<lambda>e. case e of HSleep d \<Rightarrow> max d 0 | _ \<Rightarrow> 0) tr)"

definition ex_hclient :: hclient where
  "ex_hclient =
     \<lparr>hcGet = (\<lambda>_ _ _. Some NotFound), hcGetPod = (\<lambda>_ p. Inr \<lparr>psName = p, psNodeName = ''n'', psPhase = ''Succeeded''\<rparr>),
      hcGetDaemonSet = (\<lambda>tr ctx _. if ex_now tr < ctx then Inr (1, 1) else Inl (OtherError ''context deadline exceeded'')),
      hcCreate = (\<lambda>_ _. None), hcUpdate = (\<lambda>_ _. None), hcDelete = (\<lambda>_ _ _. None), hcDeleteIntra = (\<lambda>_. None),
      hcListNodes = (\<lambda>_. Inr [(''n'', False)]), hcListIntra = (\<lambda>_. Inr [\<lparr>psName = ''iperf-intra-node-n'', psNodeName = ''n'', psPhase = ''Succeeded''\<rparr>]),
      hcListResults = (\<lambda>_. Inr []), hcLogs = (\<lambda>_ _. Inr ''''), hcNow = ex_now, hcFormatTime = (\<lambda>_ _. ''''), hcParseTime = (\<lambda>_. None),
      hcStartOfDay = (\<lambda>t. t), hcUnmarshalResult = (\<lambda>_. None), hcUnmarshalReport = (\<lambda>_. None), hcMarshalReport = (\<lambda>_. ''''), hcSort = (\<lambda>_ xs. xs)\<rparr>"

definition ex_bconfig :: BenchmarkConfig where
  "ex_bconfig = \<lparr>NumberOfConnections = 4, DurationSeconds = 10, ExcludeNodes = ''m,n2''\<rparr>"

lemma ex_hclient_ok: "clock_ok ex_hclient" "expiry_ok ex_hclient"
  by (auto simp: clock_ok_def expiry_ok_def ex_hclient_def ex_now_def split: hcall.split if_splits)

lemma ex_run: "fst (run_state (CreateNewBenchmark 601 ex_hclient ex_bconfig) []) = Ok ()"
  by code_simp

theorem benchmark_ends_and_releases_witness:
  "let (r, tr) = run_state (CreateNewBenchmark 601 ex_hclient ex_bconfig) [] in r = Ok () \<and> (\<exists>evs. tr = evs @ releaseCalls)"
proof -
  obtain r tr where run: "run_state (CreateNewBenchmark 601 ex_hclient ex_bconfig) [] = (r, tr)" by fastforce
  then have "r = Ok ()" using ex_run by simp
  moreover have "\<exists>evs. tr = evs @ releaseCalls" using benchmark_ends_and_releases [OF ex_hclient_ok _ run] \<open>r = Ok ()\<close> by auto
  ultimately show ?thesis by (simp add: run)
qed

section \<open>Listing\<close>















text \<open>Insertion sort is such an algorithm.\<close>

fun insertBy :: "('a \<Rightarrow> 'a \<Rightarrow> bool) \<Rightarrow> 'a \<Rightarrow> 'a list \<Rightarrow> 'a list" where
  "insertBy lt x [] = [x]"
| "insertBy lt x (y # ys) = (if lt y x then y # insertBy lt x ys else x # y # ys)"


lemma mset_insertBy [simp]: "mset (insertBy lt x ys) = add_mset x (mset ys)"
  by (induction ys) auto

lemma set_insertBy [simp]: "set (insertBy lt x ys) = insert x (set ys)"
  by (induction ys) auto



definition ex_result :: "string \<Rightarrow> string \<Rightarrow> rat \<Rightarrow> int \<Rightarrow> DestNodeTestResult" where
  "ex_result node mode rtt t =
     \<lparr>trTimestamp = t, trSourceNode = ''s'', trDestNode = node, trBenchmarkMode = mode, trProtocol = ''tcp'', trDirection = ''UL'',
      trThroughputBps = 1000, trRTTAvg = rtt, trJitterMs = 0, trPacketLossPct = 0, trRetransmits = 0\<rparr>"


section \<open>Defects\<close>

text \<open>The average round trip time of a node gives the last result the weight of all others together.\<close>

lemma rtt_average_skewed:
  "dsAvgRTT (fold addToSummary (map (\<lambda>v. ex_result ''n'' ''pod_network'' v 0) [10, 20, 30]) (emptySummary ''n'')) = 45 / 2"
  by code_simp

text \<open>A test within a node is counted as one of the pod network.\<close>

lemma intra_counted_as_pod: "trBenchmarkMode r = ''intra_node'' \<Longrightarrow> dsPodModeTests (addToSummary r nd) = dsPodModeTests nd + 1"
  by (simp add: addToSummary_def Let_def)

text \<open>When the first daemon set cannot be created, the services created before are not deleted.\<close>

lemma services_left_behind:
  "run_state (CreateNewBenchmark fuel (ex_hclient\<lparr>hcCreate := \<lambda>_ obj. if obj = hostDaemonSet then Some (OtherError ''quota'') else None\<rparr>) config) [] =
     (Err, [HGet KService ''iperf-hostnetwork'', HCreate hostService, HGet KService ''iperf-podnetwork'', HCreate podService,
            HGet KDaemonSet ''iperf-servers-hostnetwork'', HCreate hostDaemonSet])"
  by (simp add: CreateNewBenchmark_def andThen_run CreateIperfHeadlessServices_def CreateIperfHostNetworkDaemonSet_def ensure_def ex_hclient_def
      okUnless_def hostService_def podService_def hostDaemonSet_def)

text \<open>The details of a node show a test within a node as one of the host network.\<close>

lemma intra_described_as_host: "trBenchmarkMode r = ''intra_node'' \<Longrightarrow> rwMode (describeRow clockTime node r) = ''host''"
  by (simp add: describeRow_def renderRow_def modeShort_def Let_def)

end
