(* ===== verification/Go_Heap.thy ===== *)
theory Go_Heap
  imports Go_Prelude "HOL-Library.Monad_Syntax"
begin

text \<open>
  Pointers: where a claim depends on what is shared, the objects of a component live in an explicit
  heap. An address is an index into the list of cells, an allocation appends a cell and an
  assignment through a pointer replaces one. A dereference of nil is \<open>None\<close>.

  The interfaces: a \<open>heap_view\<close> relates the object at an address to the value it stands for, and names
  the cells the object consists of (its footprint); a \<open>mutator\<close> implements a function on values by
  assignments inside the footprint; a \<open>cloner\<close> makes a copy out of new cells. Their lemmas say what
  happens to a family of objects with disjoint footprints when one of them changes or is copied.
\<close>

type_synonym addr = nat
type_synonym 'c heap = "'c list"

named_theorems heap_changes \<open>what an operation leaves as it was\<close>

section \<open>Cells\<close>

definition new :: "'c \<Rightarrow> 'c heap \<Rightarrow> addr \<times> 'c heap" where
  "new c h = (length h, h @ [c])"

definition cell :: "'c heap \<Rightarrow> addr \<Rightarrow> 'c option" where
  "cell h a = (if a < length h then Some (h ! a) else None)"

lemma cell_append [simp]: "cell (h @ t) a = (if a < length h then cell h a else cell t (a - length h))"
  by (auto simp: cell_def nth_append)

lemma cell_update [simp]: "cell (h[a := c]) b = (if a = b \<and> a < length h then Some c else cell h b)"
  by (auto simp: cell_def)

lemma cell_single [simp]: "cell [c] a = (if a = 0 then Some c else None)" "cell [] a = None"
  by (auto simp: cell_def)

lemma cell_bound: "cell h a = Some c \<Longrightarrow> a < length h"
  by (simp add: cell_def split: if_splits)

lemma cell_None [simp]: "length h \<le> a \<Longrightarrow> cell h a = None"
  by (simp add: cell_def)

definition same_on :: "addr set \<Rightarrow> 'c heap \<Rightarrow> 'c heap \<Rightarrow> bool" where
  "same_on A h h' \<longleftrightarrow> (\<forall>a \<in> A. cell h' a = cell h a)"

lemma same_on_subset: "same_on B h h' \<Longrightarrow> A \<subseteq> B \<Longrightarrow> same_on A h h'"
  by (auto simp: same_on_def)

text \<open>\<open>changes F h h'\<close>: from \<open>h\<close> to \<open>h'\<close> only the cells in \<open>F\<close> and new cells differ.\<close>

definition changes :: "addr set \<Rightarrow> 'c heap \<Rightarrow> 'c heap \<Rightarrow> bool" where
  "changes F h h' \<longleftrightarrow> length h \<le> length h' \<and> same_on ({..<length h} - F) h h'"

lemma changes_refl [simp, intro]: "changes F h h"
  by (simp add: changes_def same_on_def)

lemma changes_append [heap_changes]: "changes F h (h @ t)"
  by (auto simp: changes_def same_on_def)

lemma changes_update [heap_changes]: "a \<in> F \<Longrightarrow> changes F h (h[a := c])"
  by (auto simp: changes_def same_on_def)

lemma changes_mono: "changes F h h' \<Longrightarrow> F \<inter> {..<length h} \<subseteq> F' \<Longrightarrow> changes F' h h'"
  by (auto simp: changes_def same_on_def)

lemma changes_trans:
  assumes "changes F h h1" "changes F' h1 h2" "F' \<inter> {..<length h} \<subseteq> F"
  shows "changes F h h2"
proof -
  have "cell h2 a = cell h a" if "a < length h" "a \<notin> F" for a
  proof -
    from assms that have "a < length h1" "a \<notin> F'" by (auto simp: changes_def)
    with assms that show ?thesis by (auto simp: changes_def same_on_def)
  qed
  with assms show ?thesis by (auto simp: changes_def same_on_def)
qed

lemma changes_same_on:
  "changes F h h' \<Longrightarrow> A \<subseteq> {..<length h} \<Longrightarrow> A \<inter> F = {} \<Longrightarrow> same_on A h h'"
  by (auto simp: changes_def same_on_def)

lemma changes_length: "changes F h h' \<Longrightarrow> length h \<le> length h'"
  by (simp add: changes_def)

text \<open>A loop over operations on the heap stops where one of them dereferences nil.\<close>

primrec each :: "('a \<Rightarrow> 'h \<Rightarrow> 'h option) \<Rightarrow> 'a list \<Rightarrow> 'h \<Rightarrow> 'h option" where
  "each f [] h = Some h"
| "each f (x # xs) h = f x h \<bind> each f xs"

section \<open>Families of objects\<close>

definition foot_all :: "('c heap \<Rightarrow> addr \<Rightarrow> addr list) \<Rightarrow> 'c heap \<Rightarrow> addr list \<Rightarrow> addr list" where
  "foot_all foot h rs = concat (map (foot h) rs)"

definition rep_all ::
    "('c heap \<Rightarrow> addr \<Rightarrow> 'v \<Rightarrow> bool) \<Rightarrow> ('c heap \<Rightarrow> addr \<Rightarrow> addr list) \<Rightarrow> 'c heap \<Rightarrow> addr list \<Rightarrow> 'v list \<Rightarrow> bool" where
  "rep_all rep foot h rs vs \<longleftrightarrow> list_all2 (rep h) rs vs \<and> distinct (foot_all foot h rs)"

lemma foot_all_simps [simp]:
  "foot_all foot h [] = []"
  "foot_all foot h (r # rs) = foot h r @ foot_all foot h rs"
  "foot_all foot h (rs @ rs') = foot_all foot h rs @ foot_all foot h rs'"
  by (simp_all add: foot_all_def)

lemma rep_all_Nil [simp]: "rep_all rep foot h [] vs \<longleftrightarrow> vs = []"
  by (simp add: rep_all_def)

lemma rep_all_append:
  "length rs = length vs \<Longrightarrow>
   rep_all rep foot h (rs @ rs') (vs @ vs') \<longleftrightarrow>
     rep_all rep foot h rs vs \<and> rep_all rep foot h rs' vs' \<and>
     set (foot_all foot h rs) \<inter> set (foot_all foot h rs') = {}"
  by (auto simp: rep_all_def list_all2_append)

lemma rep_all_Cons:
  "rep_all rep foot h (r # rs) (v # vs) \<longleftrightarrow>
     rep h r v \<and> distinct (foot h r) \<and> rep_all rep foot h rs vs \<and> set (foot h r) \<inter> set (foot_all foot h rs) = {}"
  by (auto simp: rep_all_def)

lemma rep_all_length: "rep_all rep foot h rs vs \<Longrightarrow> length rs = length vs"
  unfolding rep_all_def by (blast dest: list_all2_lengthD)

lemma rep_all_nth: "rep_all rep foot h rs vs \<Longrightarrow> i < length rs \<Longrightarrow> rep h (rs ! i) (vs ! i)"
  by (simp add: rep_all_def list_all2_nthD)

lemma rep_all_split:
  assumes "rep_all rep foot h rs vs" "i < length rs"
  shows "rep_all rep foot h (take i rs) (take i vs)" "rep_all rep foot h (drop (Suc i) rs) (drop (Suc i) vs)"
    "set (foot h (rs ! i)) \<inter> set (foot_all foot h (take i rs)) = {}"
    "set (foot h (rs ! i)) \<inter> set (foot_all foot h (drop (Suc i) rs)) = {}"
    "set (foot_all foot h (take i rs)) \<inter> set (foot_all foot h (drop (Suc i) rs)) = {}"
proof -
  have l: "length rs = length vs" using assms(1) by (rule rep_all_length)
  have "rep_all rep foot h (take i rs @ rs ! i # drop (Suc i) rs) (take i vs @ vs ! i # drop (Suc i) vs)"
    using assms l by (simp add: id_take_nth_drop [symmetric])
  then show "rep_all rep foot h (take i rs) (take i vs)" "rep_all rep foot h (drop (Suc i) rs) (drop (Suc i) vs)"
    "set (foot h (rs ! i)) \<inter> set (foot_all foot h (take i rs)) = {}"
    "set (foot h (rs ! i)) \<inter> set (foot_all foot h (drop (Suc i) rs)) = {}"
    "set (foot_all foot h (take i rs)) \<inter> set (foot_all foot h (drop (Suc i) rs)) = {}"
    using l by (auto simp: rep_all_append rep_all_Cons)
qed

section \<open>Views\<close>

locale heap_view =
  fixes rep :: "'c heap \<Rightarrow> addr \<Rightarrow> 'v \<Rightarrow> bool"
    and foot :: "'c heap \<Rightarrow> addr \<Rightarrow> addr list"
  assumes frame: "rep h a v \<Longrightarrow> same_on (set (foot h a)) h h' \<Longrightarrow> rep h' a v \<and> foot h' a = foot h a"
    and bounded: "rep h a v \<Longrightarrow> set (foot h a) \<subseteq> {..<length h}"
    and disjoint: "rep h a v \<Longrightarrow> distinct (foot h a)"
begin

lemma kept:
  "rep h a v \<Longrightarrow> changes F h h' \<Longrightarrow> set (foot h a) \<inter> F = {} \<Longrightarrow> rep h' a v \<and> foot h' a = foot h a"
  by (rule frame, assumption, rule changes_same_on, assumption, rule bounded)

lemma rep_all_bounded: "rep_all rep foot h rs vs \<Longrightarrow> set (foot_all foot h rs) \<subseteq> {..<length h}"
proof (induction rs arbitrary: vs)
  case (Cons r rs)
  then obtain v vs' where vs: "vs = v # vs'" by (cases vs) (auto dest: rep_all_length)
  with Cons.prems bounded [of h r v] Cons.IH [of vs'] show ?case by (simp add: rep_all_Cons)
qed simp

lemma all_same:
  "rep_all rep foot h rs vs \<Longrightarrow> same_on (set (foot_all foot h rs)) h h' \<Longrightarrow>
   rep_all rep foot h' rs vs \<and> foot_all foot h' rs = foot_all foot h rs"
proof (induction rs arbitrary: vs)
  case (Cons r rs)
  then obtain v vs' where vs: "vs = v # vs'" by (cases vs) (auto dest: rep_all_length)
  with Cons.prems have "rep h r v" "rep_all rep foot h rs vs'" by (simp_all add: rep_all_Cons)
  moreover have "same_on (set (foot h r)) h h'" "same_on (set (foot_all foot h rs)) h h'"
    using Cons.prems(2) by (auto elim: same_on_subset)
  ultimately have "rep h' r v \<and> foot h' r = foot h r"
    "rep_all rep foot h' rs vs' \<and> foot_all foot h' rs = foot_all foot h rs"
    using Cons.IH frame by blast+
  with Cons.prems(1) vs show ?case by (simp add: rep_all_Cons)
qed auto

lemma all_kept:
  "rep_all rep foot h rs vs \<Longrightarrow> changes F h h' \<Longrightarrow> set (foot_all foot h rs) \<inter> F = {} \<Longrightarrow>
   rep_all rep foot h' rs vs \<and> foot_all foot h' rs = foot_all foot h rs"
  by (rule all_same, assumption, rule changes_same_on, assumption, rule rep_all_bounded)

text \<open>One object of a family is replaced by an object whose footprint is new or was its own.\<close>

lemma all_replaced:
  assumes all: "rep_all rep foot h rs vs" and i: "i < length rs"
    and ch: "changes (set (foot h (rs ! i))) h h'"
    and new: "rep h' r' v'" "set (foot h' r') \<subseteq> set (foot h (rs ! i)) \<union> {length h..<length h'}"
  shows "rep_all rep foot h' (rs[i := r']) (vs[i := v'])"
    and "set (foot_all foot h' (rs[i := r'])) \<subseteq> set (foot_all foot h rs) \<union> {length h..<length h'}"
proof -
  note l = rep_all_length [OF all] and sp = rep_all_split [OF all i]
  let ?pre = "take i rs" and ?post = "drop (Suc i) rs"
  from all_kept [OF sp(1) ch] sp(3)
  have pre: "rep_all rep foot h' ?pre (take i vs)" "foot_all foot h' ?pre = foot_all foot h ?pre" by blast+
  from all_kept [OF sp(2) ch] sp(4)
  have post: "rep_all rep foot h' ?post (drop (Suc i) vs)" "foot_all foot h' ?post = foot_all foot h ?post" by blast+
  have pre_b: "set (foot_all foot h ?pre) \<subseteq> {..<length h}" using rep_all_bounded [OF sp(1)] .
  have post_b: "set (foot_all foot h ?post) \<subseteq> {..<length h}" using rep_all_bounded [OF sp(2)] .
  have upd: "rs[i := r'] = ?pre @ r' # ?post" "vs[i := v'] = take i vs @ v' # drop (Suc i) vs"
    using i l by (simp_all add: upd_conv_take_nth_drop)
  have "set (foot h' r') \<inter> set (foot_all foot h ?pre) = {}" "set (foot h' r') \<inter> set (foot_all foot h ?post) = {}"
    using new(2) sp(3,4) pre_b post_b by fastforce+
  then show "rep_all rep foot h' (rs[i := r']) (vs[i := v'])"
    using pre post sp(5) l disjoint [OF new(1)] new(1) unfolding upd
    by (auto simp: rep_all_append rep_all_Cons)
  have "set (foot_all foot h rs) = set (foot_all foot h ?pre) \<union> set (foot h (rs ! i)) \<union> set (foot_all foot h ?post)"
    by (subst id_take_nth_drop [OF i]) auto
  then show "set (foot_all foot h' (rs[i := r'])) \<subseteq> set (foot_all foot h rs) \<union> {length h..<length h'}"
    using new(2) pre(2) post(2) unfolding upd by auto
qed

text \<open>A family grows by an object made of new cells.\<close>

lemma all_grown:
  assumes all: "rep_all rep foot h rs vs" and ch: "changes {} h h'"
    and new: "rep h' r' v'" "set (foot h' r') \<subseteq> {length h..<length h'}"
  shows "rep_all rep foot h' (rs @ [r']) (vs @ [v'])"
proof -
  from all_kept [OF all ch] have "rep_all rep foot h' rs vs" "foot_all foot h' rs = foot_all foot h rs" by auto
  moreover have "set (foot h' r') \<inter> set (foot_all foot h rs) = {}"
    using new(2) rep_all_bounded [OF all] by fastforce
  ultimately show ?thesis
    using new(1) disjoint rep_all_length [OF all] by (auto simp: rep_all_append rep_all_Cons)
qed

end

section \<open>Operations\<close>

locale mutator = heap_view rep foot
  for rep :: "'c heap \<Rightarrow> addr \<Rightarrow> 'v \<Rightarrow> bool" and foot :: "'c heap \<Rightarrow> addr \<Rightarrow> addr list" +
  fixes run :: "'c heap \<Rightarrow> addr \<Rightarrow> 'c heap option"
    and effect :: "'v \<Rightarrow> 'v"
  assumes runs: "rep h a v \<Longrightarrow>
    \<exists>h'. run h a = Some h' \<and> changes (set (foot h a)) h h' \<and> rep h' a (effect v) \<and>
         set (foot h' a) \<subseteq> set (foot h a) \<union> {length h..<length h'}"
begin

text \<open>Of a family of objects, an operation on one changes that one only.\<close>

lemma run_one:
  assumes "rep_all rep foot h rs vs" "i < length rs"
  shows "\<exists>h'. run h (rs ! i) = Some h' \<and> changes (set (foot_all foot h rs)) h h' \<and>
    rep_all rep foot h' rs (vs[i := effect (vs ! i)]) \<and>
    set (foot_all foot h' rs) \<subseteq> set (foot_all foot h rs) \<union> {length h..<length h'}"
proof -
  from runs [OF rep_all_nth [OF assms]] obtain h' where h':
    "run h (rs ! i) = Some h'" "changes (set (foot h (rs ! i))) h h'" "rep h' (rs ! i) (effect (vs ! i))"
    "set (foot h' (rs ! i)) \<subseteq> set (foot h (rs ! i)) \<union> {length h..<length h'}"
    by blast
  have "set (foot h (rs ! i)) \<subseteq> set (foot_all foot h rs)"
    using nth_mem [OF assms(2)] by (auto simp: foot_all_def)
  then have "changes (set (foot_all foot h rs)) h h'"
    using changes_mono [OF h'(2)] by auto
  with h' all_replaced [OF assms h'(2-4)] show ?thesis by simp
qed

end

locale cloner = heap_view rep foot
  for rep :: "'c heap \<Rightarrow> addr \<Rightarrow> 'v \<Rightarrow> bool" and foot :: "'c heap \<Rightarrow> addr \<Rightarrow> addr list" +
  fixes clone :: "'c heap \<Rightarrow> addr \<Rightarrow> (addr \<times> 'c heap) option"
  assumes clones: "rep h a v \<Longrightarrow>
    \<exists>b h'. clone h a = Some (b, h') \<and> changes {} h h' \<and> rep h' b v \<and> set (foot h' b) \<subseteq> {length h..<length h'}"
begin

lemma clone_one:
  assumes "rep_all rep foot h rs vs" "i < length rs"
  shows "\<exists>b h'. clone h (rs ! i) = Some (b, h') \<and> rep_all rep foot h' (rs @ [b]) (vs @ [vs ! i])"
  using clones [OF rep_all_nth [OF assms]] all_grown [OF assms(1)] by blast

end

text \<open>An operation that also returns something.\<close>

locale procedure = mutator rep foot "\<lambda>h a. map_option snd (meth h a)" "\<lambda>v. snd (result v)"
  for rep :: "'c heap \<Rightarrow> addr \<Rightarrow> 'v \<Rightarrow> bool" and foot :: "'c heap \<Rightarrow> addr \<Rightarrow> addr list"
    and meth :: "'c heap \<Rightarrow> addr \<Rightarrow> ('o \<times> 'c heap) option" and result :: "'v \<Rightarrow> 'o \<times> 'v" +
  assumes answers: "rep h a v \<Longrightarrow> map_option fst (meth h a) = Some (fst (result v))"
begin

lemma call_one:
  assumes "rep_all rep foot h rs vs" "i < length rs"
  shows "\<exists>h'. meth h (rs ! i) = Some (fst (result (vs ! i)), h') \<and>
    rep_all rep foot h' rs (vs[i := snd (result (vs ! i))])"
  using run_one [OF assms] answers [OF rep_all_nth [OF assms]] by auto

end

lemma procedureI:
  "mutator rep foot (\<lambda>h a. map_option snd (meth h a)) (\<lambda>v. snd (result v)) \<Longrightarrow>
   (\<And>h a v. rep h a v \<Longrightarrow> map_option fst (meth h a) = Some (fst (result v))) \<Longrightarrow> procedure rep foot meth result"
  by (simp add: procedure_def procedure_axioms_def)

text \<open>Operations one after the other.\<close>

lemma mutator_seq:
  assumes f: "mutator rep foot f g" and f': "mutator rep foot f' g'"
  shows "mutator rep foot (\<lambda>h a. f h a \<bind> (\<lambda>h1. f' h1 a)) (g' \<circ> g)"
proof -
  have view: "heap_view rep foot" using f by (rule mutator.axioms(1))
  have "\<exists>h2. f h a \<bind> (\<lambda>h1. f' h1 a) = Some h2 \<and> changes (set (foot h a)) h h2 \<and> rep h2 a ((g' \<circ> g) v) \<and>
      set (foot h2 a) \<subseteq> set (foot h a) \<union> {length h..<length h2}" if "rep h a v" for h a v
  proof -
    from mutator.runs [OF f that] obtain h1 where h1: "f h a = Some h1" "changes (set (foot h a)) h h1"
      "rep h1 a (g v)" "set (foot h1 a) \<subseteq> set (foot h a) \<union> {length h..<length h1}" by blast
    from mutator.runs [OF f' h1(3)] obtain h2 where h2: "f' h1 a = Some h2" "changes (set (foot h1 a)) h1 h2"
      "rep h2 a (g' (g v))" "set (foot h2 a) \<subseteq> set (foot h1 a) \<union> {length h1..<length h2}" by blast
    have "set (foot h1 a) \<inter> {..<length h} \<subseteq> set (foot h a)" using h1(4) by auto
    with h1(2) h2(2) have "changes (set (foot h a)) h h2" by (rule changes_trans)
    with h1 h2 changes_length [OF h1(2)] changes_length [OF h2(2)] show ?thesis by fastforce
  qed
  with view show ?thesis by (simp add: mutator_def mutator_axioms_def)
qed

lemma mutator_skip: "heap_view rep foot \<Longrightarrow> mutator rep foot (\<lambda>h a. Some h) id"
  by (simp add: mutator_def mutator_axioms_def)

lemma mutator_each:
  assumes "heap_view rep foot" "\<And>x. mutator rep foot (f x) (g x)"
  shows "mutator rep foot (\<lambda>h a. each (\<lambda>x h. f x h a) xs h) (fold g xs)"
proof (induction xs)
  case Nil
  show ?case using mutator_skip [OF assms(1)] by (simp add: id_def)
next
  case (Cons x xs)
  show ?case using mutator_seq [OF assms(2) [of x] Cons] by (simp add: comp_def)
qed

end
