(* ===== verification/Quota_Heap.thy ===== *)
theory Quota_Heap
  imports Capacity_Scheduling Go_Heap "HOL-Library.List_Lexorder" "HOL-Library.Char_ord"
begin

text \<open>
  The elastic quotas of \<^verbatim>\<open>scheduler-plugins/pkg/capacityscheduling\<close> as the objects they are: a map of
  pointers to quotas, each with a set of pods and pointers to resource vectors, each with a map of
  scalar resources. The plugin hands a copy of all of it to every scheduling cycle; the theories on
  values (\<open>Elastic_Quota\<close>, \<open>Capacity_Scheduling\<close>) take for granted that copy and original share nothing.
  Here every operation of the plugin works through pointers, and each is shown to be a \<open>mutator\<close>, a
  \<open>procedure\<close> or a \<open>cloner\<close> (theory \<open>Go_Heap\<close>) that implements the operation on values.
\<close>

section \<open>Objects\<close>

record ResourceObj =
  oMilliCPU :: int64
  oMemory :: int64
  oEphemeralStorage :: int64
  oAllowedPodNumber :: int64
  oScalarResources :: "addr option"

record QuotaObj =
  oNamespace :: string
  oPods :: addr
  oMin :: "addr option"
  oMax :: "addr option"
  oUsed :: "addr option"

datatype qcell =
    ScalarMap "(string, int64) gomap"
  | ResourceCell ResourceObj
  | StringSet "string list"
  | QuotaCell QuotaObj
  | QuotaMap "(string, addr) gomap"

type_synonym qheap = "qcell heap"

text \<open>Dereferences. Go's types fix the kind of cell behind a pointer.\<close>

definition scalars_at :: "qheap \<Rightarrow> addr \<Rightarrow> (string, int64) gomap option" where
  "scalars_at h a = (case cell h a of Some (ScalarMap m) \<Rightarrow> Some m | _ \<Rightarrow> None)"

definition resource_at :: "qheap \<Rightarrow> addr \<Rightarrow> ResourceObj option" where
  "resource_at h a = (case cell h a of Some (ResourceCell r) \<Rightarrow> Some r | _ \<Rightarrow> None)"

definition set_at :: "qheap \<Rightarrow> addr \<Rightarrow> string list option" where
  "set_at h a = (case cell h a of Some (StringSet ks) \<Rightarrow> Some ks | _ \<Rightarrow> None)"

definition quota_at :: "qheap \<Rightarrow> addr \<Rightarrow> QuotaObj option" where
  "quota_at h a = (case cell h a of Some (QuotaCell q) \<Rightarrow> Some q | _ \<Rightarrow> None)"

definition quotas_at :: "qheap \<Rightarrow> addr \<Rightarrow> (string, addr) gomap option" where
  "quotas_at h a = (case cell h a of Some (QuotaMap d) \<Rightarrow> Some d | _ \<Rightarrow> None)"

section \<open>Resources\<close>

text \<open>A nil map reads as empty.\<close>

definition scalarH :: "qheap \<Rightarrow> ResourceObj \<Rightarrow> string \<Rightarrow> int64 option" where
  "scalarH h r n =
     (case oScalarResources r of
        None \<Rightarrow> Some 0
      | Some p \<Rightarrow> map_option (\<lambda>m. case map_of m n of None \<Rightarrow> 0 | Some v \<Rightarrow> v) (scalars_at h p))"

definition SetScalarH :: "string \<Rightarrow> int64 \<Rightarrow> qheap \<Rightarrow> addr \<Rightarrow> qheap option" where
  "SetScalarH n v h a = do {
     r \<leftarrow> resource_at h a;
     case oScalarResources r of
       None \<Rightarrow>
         (let (p, h1) = new (ScalarMap []) h
          in Some (h1[a := ResourceCell (r\<lparr>oScalarResources := Some p\<rparr>), p := ScalarMap [(n, v)]]))
     | Some p \<Rightarrow> do { m \<leftarrow> scalars_at h p; Some (h[p := ScalarMap (AList.update n v m)]) }
   }"

definition ResourceClone :: "qheap \<Rightarrow> addr \<Rightarrow> (addr \<times> qheap) option" where
  "ResourceClone h a = do {
     r \<leftarrow> resource_at h a;
     let (b, h1) = new (ResourceCell (r\<lparr>oScalarResources := None\<rparr>)) h;
     case oScalarResources r of
       None \<Rightarrow> Some (b, h1)
     | Some p \<Rightarrow> do {
         m \<leftarrow> scalars_at h1 p;
         let (q, h2) = new (ScalarMap (fold (\<lambda>(k, v). AList.update k v) m [])) h1;
         Some (b, h2[b := ResourceCell (r\<lparr>oScalarResources := Some q\<rparr>)])
       }
   }"

text \<open>\<^verbatim>\<open>framework.NewResource\<close>: the map of scalars is made when the first one is set.\<close>

definition resource_obj :: "Resource \<Rightarrow> addr option \<Rightarrow> ResourceObj" where
  "resource_obj v p =
     \<lparr>oMilliCPU = rMilliCPU v, oMemory = rMemory v, oEphemeralStorage = rEphemeralStorage v,
      oAllowedPodNumber = rAllowedPodNumber v, oScalarResources = p\<rparr>"

definition NewResourceH :: "(string \<Rightarrow> bool) \<Rightarrow> ResourceList \<Rightarrow> qheap \<Rightarrow> addr \<times> qheap" where
  "NewResourceH sc rl h =
     (let v = NewResource sc rl
      in if rScalar v = [] then new (ResourceCell (resource_obj v None)) h
         else let (p, h1) = new (ScalarMap (rScalar v)) h in new (ResourceCell (resource_obj v (Some p))) h1)"

section \<open>Quotas\<close>

definition newElasticQuotaInfoH ::
    "(string \<Rightarrow> bool) \<Rightarrow> string \<Rightarrow> ResourceList option \<Rightarrow> ResourceList option \<Rightarrow> ResourceList option \<Rightarrow>
     qheap \<Rightarrow> addr \<times> qheap" where
  "newElasticQuotaInfoH sc ns mn mx used h =
     (let mn' = (case mn of None \<Rightarrow> makeResourceListForBound LowerBoundOfMin | Some rl \<Rightarrow> rl);
          mx' = (case mx of None \<Rightarrow> makeResourceListForBound UpperBoundOfMax | Some rl \<Rightarrow> rl);
          (p, h1) = new (StringSet []) h;
          (m, h2) = NewResourceH sc mn' h1;
          (x, h3) = NewResourceH sc mx' h2;
          (u, h4) = NewResourceH sc (case used of None \<Rightarrow> [] | Some rl \<Rightarrow> rl) h3
      in new (QuotaCell \<lparr>oNamespace = ns, oPods = p, oMin = Some m, oMax = Some x, oUsed = Some u\<rparr>) h4)"

definition AddToScalarH :: "(int64 \<Rightarrow> int64 \<Rightarrow> int64) \<Rightarrow> string \<times> int64 \<Rightarrow> qheap \<Rightarrow> addr \<Rightarrow> qheap option" where
  "AddToScalarH opr nv h u = do {
     r \<leftarrow> resource_at h u;
     x \<leftarrow> scalarH h r (fst nv);
     SetScalarH (fst nv) (opr x (snd nv)) h u
   }"

definition reserveUsed :: "(int64 \<Rightarrow> int64 \<Rightarrow> int64) \<Rightarrow> Resource \<Rightarrow> qheap \<Rightarrow> addr \<Rightarrow> qheap option" where
  "reserveUsed opr req h u = do {
     r \<leftarrow> resource_at h u;
     each (\<lambda>nv h. AddToScalarH opr nv h u) (rScalar req)
       (h[u := ResourceCell (r\<lparr>oMemory := opr (oMemory r) (rMemory req),
            oMilliCPU := opr (oMilliCPU r) (rMilliCPU req),
            oEphemeralStorage := opr (oEphemeralStorage r) (rEphemeralStorage req),
            oAllowedPodNumber := opr (oAllowedPodNumber r) (rAllowedPodNumber req)\<rparr>)])
   }"

definition reserveResourceH :: "Resource \<Rightarrow> qheap \<Rightarrow> addr \<Rightarrow> qheap option" where
  "reserveResourceH req h e = do { q \<leftarrow> quota_at h e; u \<leftarrow> oUsed q; reserveUsed (+) req h u }"

definition unreserveResourceH :: "Resource \<Rightarrow> qheap \<Rightarrow> addr \<Rightarrow> qheap option" where
  "unreserveResourceH req h e = do { q \<leftarrow> quota_at h e; u \<leftarrow> oUsed q; reserveUsed (-) req h u }"

definition podsH :: "(string list \<Rightarrow> string list) \<Rightarrow> qheap \<Rightarrow> addr \<Rightarrow> qheap option" where
  "podsH f h e = do { q \<leftarrow> quota_at h e; ks \<leftarrow> set_at h (oPods q); Some (h[oPods q := StringSet (f ks)]) }"

definition hasPodH :: "string \<Rightarrow> qheap \<Rightarrow> addr \<Rightarrow> bool option" where
  "hasPodH key h e = do { q \<leftarrow> quota_at h e; ks \<leftarrow> set_at h (oPods q); Some (key \<in> set ks) }"

definition addPodIfNotPresentH :: "(string \<Rightarrow> bool) \<Rightarrow> Pod \<Rightarrow> qheap \<Rightarrow> addr \<Rightarrow> (bool \<times> qheap) option" where
  "addPodIfNotPresentH sc pod h e =
     (case GetPodKey pod of
        None \<Rightarrow> Some (False, h)
      | Some key \<Rightarrow> do {
          present \<leftarrow> hasPodH key h e;
          if present then Some (True, h)
          else do {
            h1 \<leftarrow> podsH (insertKey key) h e;
            h2 \<leftarrow> reserveResourceH (computePodResourceRequest sc pod) h1 e;
            Some (True, h2)
          }
        })"

definition deletePodIfPresentH :: "(string \<Rightarrow> bool) \<Rightarrow> Pod \<Rightarrow> qheap \<Rightarrow> addr \<Rightarrow> (bool \<times> qheap) option" where
  "deletePodIfPresentH sc pod h e =
     (case GetPodKey pod of
        None \<Rightarrow> Some (False, h)
      | Some key \<Rightarrow> do {
          present \<leftarrow> hasPodH key h e;
          if \<not> present then Some (True, h)
          else do {
            h1 \<leftarrow> podsH (deleteKey key) h e;
            h2 \<leftarrow> unreserveResourceH (computePodResourceRequest sc pod) h1 e;
            Some (True, h2)
          }
        })"

text \<open>A field that holds a pointer or nil.\<close>

definition cloneField :: "addr option \<Rightarrow> qheap \<Rightarrow> (addr option \<times> qheap) option" where
  "cloneField p h =
     (case p of None \<Rightarrow> Some (None, h) | Some a \<Rightarrow> do { (b, h') \<leftarrow> ResourceClone h a; Some (Some b, h') })"

text \<open>\<^verbatim>\<open>sets.String.List\<close> sorts the elements.\<close>

definition ElasticQuotaInfoClone :: "qheap \<Rightarrow> addr \<Rightarrow> (addr \<times> qheap) option" where
  "ElasticQuotaInfoClone h e = do {
     q \<leftarrow> quota_at h e;
     let (s, h1) = new (StringSet []) h;
     (mn, h2) \<leftarrow> cloneField (oMin q) h1;
     (mx, h3) \<leftarrow> cloneField (oMax q) h2;
     (u, h4) \<leftarrow> cloneField (oUsed q) h3;
     ks \<leftarrow> set_at h4 (oPods q);
     let h5 = (if ks = [] then h4 else h4[s := StringSet (fold insertKey (sort ks) [])]);
     Some (new (QuotaCell \<lparr>oNamespace = oNamespace q, oPods = s, oMin = mn, oMax = mx, oUsed = u\<rparr>) h5)
   }"

primrec cloneInto :: "addr \<Rightarrow> (string \<times> addr) list \<Rightarrow> qheap \<Rightarrow> qheap option" where
  "cloneInto d [] h = Some h"
| "cloneInto d (kp # es) h = do {
     (q, h1) \<leftarrow> ElasticQuotaInfoClone h (snd kp);
     m \<leftarrow> quotas_at h1 d;
     cloneInto d es (h1[d := QuotaMap (AList.update (fst kp) q m)])
   }"

definition ElasticQuotaInfosClone :: "qheap \<Rightarrow> addr \<Rightarrow> (addr \<times> qheap) option" where
  "ElasticQuotaInfosClone h c = do {
     d \<leftarrow> quotas_at h c;
     let (b, h1) = new (QuotaMap []) h;
     h2 \<leftarrow> cloneInto b d h1;
     Some (b, h2)
   }"

section \<open>The plugin\<close>

text \<open>\<open>c\<close> is the map of quotas the plugin holds, \<open>s\<close> the one in the cycle state, if there is one.\<close>

definition ReserveH :: "(string \<Rightarrow> bool) \<Rightarrow> Pod \<Rightarrow> qheap \<Rightarrow> addr \<Rightarrow> (Code \<times> qheap) option" where
  "ReserveH sc pod h c = do {
     d \<leftarrow> quotas_at h c;
     case map_of d (podNamespace pod) of
       None \<Rightarrow> Some (Success, h)
     | Some e \<Rightarrow> do { (ok, h1) \<leftarrow> addPodIfNotPresentH sc pod h e; Some (if ok then Success else Error, h1) }
   }"

definition UnreserveH :: "(string \<Rightarrow> bool) \<Rightarrow> Pod \<Rightarrow> qheap \<Rightarrow> addr \<Rightarrow> qheap option" where
  "UnreserveH sc pod h c = do {
     d \<leftarrow> quotas_at h c;
     case map_of d (podNamespace pod) of
       None \<Rightarrow> Some h
     | Some e \<Rightarrow> do { (ok, h1) \<leftarrow> deletePodIfPresentH sc pod h e; Some h1 }
   }"

definition AddPodH :: "(string \<Rightarrow> bool) \<Rightarrow> Pod \<Rightarrow> qheap \<Rightarrow> addr option \<Rightarrow> (Code \<times> qheap) option" where
  "AddPodH sc podToAdd h snapshot =
     (case snapshot of
        None \<Rightarrow> Some (Error, h)
      | Some s \<Rightarrow> do {
          d \<leftarrow> quotas_at h s;
          case map_of d (podNamespace podToAdd) of
            None \<Rightarrow> Some (Success, h)
          | Some e \<Rightarrow> do { (ok, h1) \<leftarrow> addPodIfNotPresentH sc podToAdd h e; Some (Success, h1) }
        })"

definition RemovePodH :: "(string \<Rightarrow> bool) \<Rightarrow> Pod \<Rightarrow> qheap \<Rightarrow> addr option \<Rightarrow> (Code \<times> qheap) option" where
  "RemovePodH sc podToRemove h snapshot =
     (case snapshot of
        None \<Rightarrow> Some (Error, h)
      | Some s \<Rightarrow> do {
          d \<leftarrow> quotas_at h s;
          case map_of d (podNamespace podToRemove) of
            None \<Rightarrow> Some (Success, h)
          | Some e \<Rightarrow> do { (ok, h1) \<leftarrow> deletePodIfPresentH sc podToRemove h e; Some (Success, h1) }
        })"

definition addElasticQuotaH :: "(string \<Rightarrow> bool) \<Rightarrow> ElasticQuota \<Rightarrow> qheap \<Rightarrow> addr \<Rightarrow> qheap option" where
  "addElasticQuotaH sc eq h c = do {
     d \<leftarrow> quotas_at h c;
     if has_key d (quotaNamespace eq) then Some h
     else
       let (e, h1) = newElasticQuotaInfoH sc (quotaNamespace eq) (quotaMin eq) (quotaMax eq) None h
       in Some (h1[c := QuotaMap (AList.update (quotaNamespace eq) e d)])
   }"

text \<open>The new quota takes over the set of pods and the usage of the old one: from here on two quotas
  share them, until the old one leaves the map in the last step.\<close>

definition updateElasticQuotaH ::
    "(string \<Rightarrow> bool) \<Rightarrow> ElasticQuota \<Rightarrow> ElasticQuota \<Rightarrow> qheap \<Rightarrow> addr \<Rightarrow> qheap option" where
  "updateElasticQuotaH sc oldEQ newEQ h c = do {
     let (e, h1) = newElasticQuotaInfoH sc (quotaNamespace newEQ) (quotaMin newEQ) (quotaMax newEQ) None h;
     d \<leftarrow> quotas_at h1 c;
     h2 \<leftarrow> (case map_of d (quotaNamespace oldEQ) of
              None \<Rightarrow> Some h1
            | Some old \<Rightarrow> do {
                qo \<leftarrow> quota_at h1 old;
                q \<leftarrow> quota_at h1 e;
                Some (h1[e := QuotaCell (q\<lparr>oPods := oPods qo, oUsed := oUsed qo\<rparr>)])
              });
     Some (h2[c := QuotaMap (AList.update (quotaNamespace newEQ) e d)])
   }"

definition deleteElasticQuotaH :: "ElasticQuota \<Rightarrow> qheap \<Rightarrow> addr \<Rightarrow> qheap option" where
  "deleteElasticQuotaH eq h c = do {
     d \<leftarrow> quotas_at h c;
     Some (h[c := QuotaMap (AList.delete (quotaNamespace eq) d)])
   }"

definition addPodH :: "(string \<Rightarrow> bool) \<Rightarrow> ElasticQuota list option \<Rightarrow> Pod \<Rightarrow> qheap \<Rightarrow> addr \<Rightarrow> qheap option" where
  "addPodH sc eqList pod h c = do {
     d \<leftarrow> quotas_at h c;
     case map_of d (podNamespace pod) of
       Some e \<Rightarrow> do { (ok, h1) \<leftarrow> addPodIfNotPresentH sc pod h e; Some h1 }
     | None \<Rightarrow>
         (case eqList of
            None \<Rightarrow> Some h
          | Some [] \<Rightarrow> Some h
          | Some (eq # _) \<Rightarrow>
              let (e, h1) = newElasticQuotaInfoH sc (quotaNamespace eq) (quotaMin eq) (quotaMax eq) None h;
                  h2 = h1[c := QuotaMap (AList.update (quotaNamespace eq) e d)]
              in do { (ok, h3) \<leftarrow> addPodIfNotPresentH sc pod h2 e; Some h3 })
   }"

definition deletePodH :: "(string \<Rightarrow> bool) \<Rightarrow> Pod \<Rightarrow> qheap \<Rightarrow> addr \<Rightarrow> qheap option" where
  "deletePodH sc pod h c = do {
     d \<leftarrow> quotas_at h c;
     case map_of d (podNamespace pod) of
       None \<Rightarrow> Some h
     | Some e \<Rightarrow> do { (ok, h1) \<leftarrow> deletePodIfPresentH sc pod h e; Some h1 }
   }"

definition updatePodH :: "(string \<Rightarrow> bool) \<Rightarrow> Pod \<Rightarrow> Pod \<Rightarrow> qheap \<Rightarrow> addr \<Rightarrow> qheap option" where
  "updatePodH sc oldPod newPod h c =
     (if podPhase oldPod = PodSucceeded \<or> podPhase oldPod = PodFailed then Some h
      else if podPhase newPod \<noteq> PodRunning \<and> podPhase newPod \<noteq> PodPending then deletePodH sc newPod h c
      else Some h)"

definition snapshotElasticQuota :: "qheap \<Rightarrow> addr \<Rightarrow> (addr \<times> qheap) option" where
  "snapshotElasticQuota h c = ElasticQuotaInfosClone h c"

definition SnapshotStateClone :: "qheap \<Rightarrow> addr \<Rightarrow> (addr \<times> qheap) option" where
  "SnapshotStateClone h s = ElasticQuotaInfosClone h s"

end
