(* ===== verification/Quota_Heap_Views.thy ===== *)
theory Quota_Heap_Views
  imports Quota_Heap
begin

text \<open>
  What the objects of \<open>Quota_Heap\<close> stand for, and that every operation on them implements its
  counterpart on values inside the object's own cells.
\<close>

lemmas cells_at = scalars_at_def resource_at_def set_at_def quota_at_def quotas_at_def

lemmas at_splits = option.splits qcell.splits

lemma at_iff:
  "scalars_at h a = Some m \<longleftrightarrow> cell h a = Some (ScalarMap m)"
  "resource_at h a = Some r \<longleftrightarrow> cell h a = Some (ResourceCell r)"
  "set_at h a = Some ks \<longleftrightarrow> cell h a = Some (StringSet ks)"
  "quota_at h a = Some q \<longleftrightarrow> cell h a = Some (QuotaCell q)"
  "quotas_at h a = Some d \<longleftrightarrow> cell h a = Some (QuotaMap d)"
  by (auto simp: cells_at split: at_splits)

lemma update_same: "cell h a = Some c \<Longrightarrow> h[a := c] = h"
  by (metis cell_def list_update_id option.distinct(1) option.inject)

section \<open>Resource vectors\<close>

definition foot_resource :: "qheap \<Rightarrow> addr \<Rightarrow> addr list" where
  "foot_resource h a =
     a # (case resource_at h a of None \<Rightarrow> [] | Some r \<Rightarrow> (case oScalarResources r of None \<Rightarrow> [] | Some p \<Rightarrow> [p]))"

definition rep_resource :: "qheap \<Rightarrow> addr \<Rightarrow> Resource \<Rightarrow> bool" where
  "rep_resource h a v =
     (case resource_at h a of
        None \<Rightarrow> False
      | Some r \<Rightarrow>
          oMilliCPU r = rMilliCPU v \<and> oMemory r = rMemory v \<and> oEphemeralStorage r = rEphemeralStorage v \<and>
          oAllowedPodNumber r = rAllowedPodNumber v \<and>
          (case oScalarResources r of
             None \<Rightarrow> rScalar v = []
           | Some p \<Rightarrow> scalars_at h p = Some (rScalar v) \<and> distinct (map fst (rScalar v))))"

text \<open>Every vector in a heap is of one of two forms.\<close>

lemma resource_obj_simps [simp]:
  "resource_obj v p = resource_obj v q \<longleftrightarrow> p = q"
  "oScalarResources (resource_obj v p) = p"
  "(resource_obj v p)\<lparr>oScalarResources := q\<rparr> = resource_obj v q"
  by (simp_all add: resource_obj_def)

lemma rep_resource_iff:
  "rep_resource h a v \<longleftrightarrow>
     cell h a = Some (ResourceCell (resource_obj v None)) \<and> rScalar v = [] \<or>
     (\<exists>p. cell h a = Some (ResourceCell (resource_obj v (Some p))) \<and> cell h p = Some (ScalarMap (rScalar v)) \<and>
          distinct (map fst (rScalar v)))"
proof (cases "resource_at h a")
  case None
  then have "cell h a \<noteq> Some (ResourceCell r)" for r by (metis at_iff(2) option.distinct(1))
  with None show ?thesis by (simp add: rep_resource_def)
next
  case (Some r)
  then have "cell h a = Some (ResourceCell r)" by (simp add: at_iff)
  with Some show ?thesis
    by (cases r) (auto simp: rep_resource_def resource_obj_def at_iff(1) split: option.splits)
qed

lemma rep_resource_nilI:
  "cell h a = Some (ResourceCell (resource_obj v None)) \<Longrightarrow> rScalar v = [] \<Longrightarrow>
   rep_resource h a v \<and> foot_resource h a = [a]"
  by (simp add: rep_resource_iff foot_resource_def resource_at_def)

lemma rep_resource_mapI:
  "cell h a = Some (ResourceCell (resource_obj v (Some p))) \<Longrightarrow> cell h p = Some (ScalarMap (rScalar v)) \<Longrightarrow>
   distinct (map fst (rScalar v)) \<Longrightarrow> rep_resource h a v \<and> foot_resource h a = [a, p]"
  by (auto simp: rep_resource_iff foot_resource_def resource_at_def)

lemma rep_resource_cases:
  assumes "rep_resource h a v"
  obtains (nil) "cell h a = Some (ResourceCell (resource_obj v None))" "rScalar v = []" "foot_resource h a = [a]"
  | (map) p where "cell h a = Some (ResourceCell (resource_obj v (Some p)))" "p \<noteq> a"
      "cell h p = Some (ScalarMap (rScalar v))" "distinct (map fst (rScalar v))" "foot_resource h a = [a, p]"
  using assms unfolding rep_resource_iff
proof (elim disjE exE conjE)
  fix p
  assume "cell h a = Some (ResourceCell (resource_obj v (Some p)))" "cell h p = Some (ScalarMap (rScalar v))"
    "distinct (map fst (rScalar v))"
  then show thesis by (intro map [of p]) (auto simp: foot_resource_def cells_at)
qed (rule nil, auto simp: foot_resource_def cells_at)

lemma rep_resource_view: "heap_view rep_resource foot_resource"
proof
  fix h a v h'
  assume rep: "rep_resource h a v"
  show "rep_resource h' a v \<and> foot_resource h' a = foot_resource h a" if "same_on (set (foot_resource h a)) h h'"
    using rep that
    by (cases rule: rep_resource_cases) (auto simp: rep_resource_iff foot_resource_def same_on_def cells_at)
  show "set (foot_resource h a) \<subseteq> {..<length h}"
    using rep by (cases rule: rep_resource_cases) (auto dest: cell_bound)
  show "distinct (foot_resource h a)"
    using rep by (cases rule: rep_resource_cases) auto
qed

interpretation resource: heap_view rep_resource foot_resource
  by (rule rep_resource_view)

text \<open>Clones and new vectors. The copy of a map with unique keys lists the same entries.\<close>

lemma fold_update_append:
  "distinct (map fst (acc @ m)) \<Longrightarrow> fold (\<lambda>(k, v). AList.update k v) m acc = acc @ m"
proof (induction m arbitrary: acc)
  case (Cons kv m)
  have "AList.update (fst kv) (snd kv) acc = acc @ [kv]"
    using Cons.prems by (subst update_new) (auto simp: map_of_eq_None_iff)
  with Cons show ?case by (cases kv) auto
qed simp

interpretation resource_clone: cloner rep_resource foot_resource ResourceClone
proof
  fix h a v
  assume "rep_resource h a v"
  then show "\<exists>b h'. ResourceClone h a = Some (b, h') \<and> changes {} h h' \<and> rep_resource h' b v \<and>
      set (foot_resource h' b) \<subseteq> {length h..<length h'}"
  proof (cases rule: rep_resource_cases)
    case nil
    then have "ResourceClone h a = Some (length h, h @ [ResourceCell (resource_obj v None)])"
      by (simp add: ResourceClone_def new_def cells_at)
    with nil rep_resource_nilI [of "h @ [ResourceCell (resource_obj v None)]" "length h" v] show ?thesis
      by (simp add: heap_changes)
  next
    case (map p)
    then have "p < length h" by (auto dest: cell_bound)
    with map fold_update_append [of "[]" "rScalar v"]
    have c: "ResourceClone h a =
        Some (length h, h @ [ResourceCell (resource_obj v (Some (Suc (length h)))), ScalarMap (rScalar v)])"
      (is "_ = Some (_, ?h')")
      by (simp add: ResourceClone_def new_def cells_at list_update_append)
    have "rep_resource ?h' (length h) v \<and> foot_resource ?h' (length h) = [length h, Suc (length h)]"
      by (rule rep_resource_mapI) (simp_all add: cell_def nth_append map)
    with c show ?thesis by (simp add: heap_changes)
  qed
qed

lemma distinct_Add: "distinct (map fst (rScalar r)) \<Longrightarrow> distinct (map fst (rScalar (Add sc rl r)))"
  unfolding Add_def
  by (induction rl arbitrary: r) (auto simp: addEntry_def SetScalar_def Let_def distinct_update)

lemma distinct_NewResource: "distinct (map fst (rScalar (NewResource sc rl)))"
  by (simp add: NewResource_def distinct_Add emptyResource_def)

lemma new_resource:
  obtains b h' where "NewResourceH sc rl h = (b, h')" "changes {} h h'" "rep_resource h' b (NewResource sc rl)"
    "set (foot_resource h' b) \<subseteq> {length h..<length h'}"
proof (cases "rScalar (NewResource sc rl) = []")
  case True
  let ?v = "NewResource sc rl"
  let ?h' = "h @ [ResourceCell (resource_obj ?v None)]"
  have "rep_resource ?h' (length h) ?v \<and> foot_resource ?h' (length h) = [length h]"
    using True by (intro rep_resource_nilI) simp_all
  with True show thesis
    by (intro that [of "length h" ?h']) (simp_all add: NewResourceH_def new_def heap_changes)
next
  case False
  let ?v = "NewResource sc rl"
  let ?h' = "h @ [ScalarMap (rScalar ?v), ResourceCell (resource_obj ?v (Some (length h)))]"
  have "rep_resource ?h' (Suc (length h)) ?v \<and> foot_resource ?h' (Suc (length h)) = [Suc (length h), length h]"
    by (rule rep_resource_mapI) (simp_all add: cell_def nth_append distinct_NewResource)
  with False show thesis
    by (intro that [of "Suc (length h)" ?h']) (simp_all add: NewResourceH_def new_def Let_def heap_changes)
qed

text \<open>The operations on vectors.\<close>

lemma mutator_SetScalar: "mutator rep_resource foot_resource (SetScalarH n v) (SetScalar n v)"
proof
  fix h a w
  assume "rep_resource h a w"
  then show "\<exists>h'. SetScalarH n v h a = Some h' \<and> changes (set (foot_resource h a)) h h' \<and>
      rep_resource h' a (SetScalar n v w) \<and>
      set (foot_resource h' a) \<subseteq> set (foot_resource h a) \<union> {length h..<length h'}"
  proof (cases rule: rep_resource_cases)
    case nil
    have a: "a < length h" using nil(1) by (rule cell_bound)
    let ?h' = "h[a := ResourceCell (resource_obj w (Some (length h)))] @ [ScalarMap [(n, v)]]"
    have "SetScalarH n v h a = Some ?h'"
      using nil a by (simp add: SetScalarH_def new_def resource_at_def list_update_append)
    moreover have "rep_resource ?h' a (SetScalar n v w) \<and> foot_resource ?h' a = [a, length h]"
      using nil a by (intro rep_resource_mapI) (simp_all add: SetScalar_def resource_obj_def)
    moreover have "changes {a} h ?h'" using a by (auto simp: changes_def same_on_def)
    ultimately show ?thesis using nil by simp
  next
    case (map p)
    have p: "p < length h" using map(3) by (rule cell_bound)
    let ?h' = "h[p := ScalarMap (AList.update n v (rScalar w))]"
    have "SetScalarH n v h a = Some ?h'"
      using map by (simp add: SetScalarH_def resource_at_def scalars_at_def)
    moreover have "rep_resource ?h' a (SetScalar n v w) \<and> foot_resource ?h' a = [a, p]"
      using map p by (intro rep_resource_mapI) (simp_all add: SetScalar_def resource_obj_def distinct_update)
    ultimately show ?thesis using map by (simp add: changes_update)
  qed
qed

lemma scalarH_rep: "rep_resource h a w \<Longrightarrow> \<exists>r. resource_at h a = Some r \<and> scalarH h r n = Some (scalar w n)"
  by (erule rep_resource_cases) (auto simp: resource_at_def scalarH_def scalar_def scalars_at_def)

lemma mutator_AddToScalar:
  "mutator rep_resource foot_resource (AddToScalarH opr nv)
     (\<lambda>r. SetScalar (fst nv) (opr (scalar r (fst nv)) (snd nv)) r)"
proof
  fix h a w
  assume rep: "rep_resource h a w"
  from scalarH_rep [OF rep] obtain r where "resource_at h a = Some r" "scalarH h r (fst nv) = Some (scalar w (fst nv))"
    by blast
  then have "AddToScalarH opr nv h a = SetScalarH (fst nv) (opr (scalar w (fst nv)) (snd nv)) h a"
    by (simp add: AddToScalarH_def)
  then show "\<exists>h'. AddToScalarH opr nv h a = Some h' \<and> changes (set (foot_resource h a)) h h' \<and>
      rep_resource h' a (SetScalar (fst nv) (opr (scalar w (fst nv)) (snd nv)) w) \<and>
      set (foot_resource h' a) \<subseteq> set (foot_resource h a) \<union> {length h..<length h'}"
    using mutator.runs [OF mutator_SetScalar rep] by simp
qed

definition used_after :: "(int64 \<Rightarrow> int64 \<Rightarrow> int64) \<Rightarrow> Resource \<Rightarrow> Resource \<Rightarrow> Resource" where
  "used_after opr req u =
     fold (\<lambda>nv r. SetScalar (fst nv) (opr (scalar r (fst nv)) (snd nv)) r) (rScalar req)
       (u\<lparr>rMemory := opr (rMemory u) (rMemory req), rMilliCPU := opr (rMilliCPU u) (rMilliCPU req),
          rEphemeralStorage := opr (rEphemeralStorage u) (rEphemeralStorage req),
          rAllowedPodNumber := opr (rAllowedPodNumber u) (rAllowedPodNumber req)\<rparr>)"

lemma reserveResource_used: "reserveResource req e = e\<lparr>eqUsed := used_after (+) req (eqUsed e)\<rparr>"
  "unreserveResource req e = e\<lparr>eqUsed := used_after (-) req (eqUsed e)\<rparr>"
  by (simp_all add: reserveResource_def unreserveResource_def used_after_def Let_def case_prod_unfold)

text \<open>An assignment to the plain fields of a vector.\<close>

lemma mutator_fields:
  assumes "\<And>v p. f (resource_obj v p) = resource_obj (g v) p" "\<And>v. rScalar (g v) = rScalar v"
  shows "mutator rep_resource foot_resource
    (\<lambda>h a. do { r \<leftarrow> resource_at h a; Some (h[a := ResourceCell (f r)]) }) g"
proof
  fix h a w
  assume rep: "rep_resource h a w"
  then obtain p where p: "resource_at h a = Some (resource_obj w p)" and a: "a < length h" "a \<in> set (foot_resource h a)"
    by (cases rule: rep_resource_cases) (auto simp: resource_at_def dest: cell_bound)
  let ?h' = "h[a := ResourceCell (f (resource_obj w p))]"
  have "rep_resource ?h' a (g w) \<and> foot_resource ?h' a = foot_resource h a"
    using rep
  proof (cases rule: rep_resource_cases)
    case nil
    with a p assms rep_resource_nilI [of ?h' a "g w"] show ?thesis by (simp add: resource_at_def)
  next
    case (map q)
    with a p assms rep_resource_mapI [of ?h' a "g w" q] show ?thesis by (auto simp: resource_at_def)
  qed
  with p a show "\<exists>h'. do { r \<leftarrow> resource_at h a; Some (h[a := ResourceCell (f r)]) } = Some h' \<and>
      changes (set (foot_resource h a)) h h' \<and> rep_resource h' a (g w) \<and>
      set (foot_resource h' a) \<subseteq> set (foot_resource h a) \<union> {length h..<length h'}"
    by (simp add: changes_update)
qed

lemma mutator_reserveUsed: "mutator rep_resource foot_resource (reserveUsed opr req) (used_after opr req)"
  using mutator_seq [OF mutator_fields
      [of "\<lambda>r. r\<lparr>oMemory := opr (oMemory r) (rMemory req), oMilliCPU := opr (oMilliCPU r) (rMilliCPU req),
            oEphemeralStorage := opr (oEphemeralStorage r) (rEphemeralStorage req),
            oAllowedPodNumber := opr (oAllowedPodNumber r) (rAllowedPodNumber req)\<rparr>"
          "\<lambda>u. u\<lparr>rMemory := opr (rMemory u) (rMemory req), rMilliCPU := opr (rMilliCPU u) (rMilliCPU req),
            rEphemeralStorage := opr (rEphemeralStorage u) (rEphemeralStorage req),
            rAllowedPodNumber := opr (rAllowedPodNumber u) (rAllowedPodNumber req)\<rparr>"]
      mutator_each [of _ _ "AddToScalarH opr", OF rep_resource_view mutator_AddToScalar, of "rScalar req"]]
  by (simp add: resource_obj_def reserveUsed_def [abs_def] used_after_def [abs_def] comp_def)

section \<open>Quotas\<close>

text \<open>A field that may be nil.\<close>

definition foot_field :: "qheap \<Rightarrow> addr option \<Rightarrow> addr list" where
  "foot_field h p = (case p of None \<Rightarrow> [] | Some a \<Rightarrow> foot_resource h a)"

definition rep_field :: "qheap \<Rightarrow> addr option \<Rightarrow> Resource option \<Rightarrow> bool" where
  "rep_field h = rel_option (rep_resource h)"

lemma field_simps' [simp]:
  "foot_field h None = []" "foot_field h (Some a) = foot_resource h a"
  "rep_field h None v \<longleftrightarrow> v = None" "rep_field h (Some a) v \<longleftrightarrow> (\<exists>w. v = Some w \<and> rep_resource h a w)"
  "rep_field h p None \<longleftrightarrow> p = None" "rep_field h p (Some w) \<longleftrightarrow> (\<exists>a. p = Some a \<and> rep_resource h a w)"
  by (auto simp: foot_field_def rep_field_def rel_option_iff split: option.splits)

lemma field_kept:
  "rep_field h p v \<Longrightarrow> same_on (set (foot_field h p)) h h' \<Longrightarrow> rep_field h' p v \<and> foot_field h' p = foot_field h p"
  by (cases p) (auto dest: resource.frame)

lemma field_bounded: "rep_field h p v \<Longrightarrow> set (foot_field h p) \<subseteq> {..<length h}"
  by (cases p) (auto dest: resource.bounded)

lemma field_disjoint: "rep_field h p v \<Longrightarrow> distinct (foot_field h p)"
  by (cases p) (auto dest: resource.disjoint)

lemma clone_field:
  assumes "rep_field h p v"
  obtains b h' where "cloneField p h = Some (b, h')" "changes {} h h'" "rep_field h' b v"
    "set (foot_field h' b) \<subseteq> {length h..<length h'}"
proof (cases p)
  case None
  with assms show thesis by (intro that [of None h]) (simp_all add: cloneField_def)
next
  case (Some a)
  with assms obtain w where "v = Some w" "rep_resource h a w" by auto
  with Some resource_clone.clones [of h a w] show thesis
    by (auto simp: cloneField_def intro!: that)
qed

definition foot_quota :: "qheap \<Rightarrow> addr \<Rightarrow> addr list" where
  "foot_quota h a =
     a # (case quota_at h a of
            None \<Rightarrow> []
          | Some q \<Rightarrow> oPods q # foot_field h (oMin q) @ foot_field h (oMax q) @ foot_field h (oUsed q))"

definition rep_quota :: "qheap \<Rightarrow> addr \<Rightarrow> ElasticQuotaInfo \<Rightarrow> bool" where
  "rep_quota h a e =
     (case quota_at h a of
        None \<Rightarrow> False
      | Some q \<Rightarrow>
          oNamespace q = eqNamespace e \<and>
          (case set_at h (oPods q) of None \<Rightarrow> False | Some ks \<Rightarrow> set ks = set (eqPods e)) \<and>
          rep_field h (oMin q) (eqMin e) \<and> rep_field h (oMax q) (eqMax e) \<and> rep_field h (oUsed q) (Some (eqUsed e)) \<and>
          distinct (foot_quota h a))"

lemma foot_quota_at:
  "cell h a = Some (QuotaCell q) \<Longrightarrow>
   foot_quota h a = a # oPods q # foot_field h (oMin q) @ foot_field h (oMax q) @ foot_field h (oUsed q)"
  by (simp add: foot_quota_def quota_at_def)

lemma rep_quota_iff:
  "rep_quota h a e \<longleftrightarrow>
     (\<exists>q ks. cell h a = Some (QuotaCell q) \<and> oNamespace q = eqNamespace e \<and>
        cell h (oPods q) = Some (StringSet ks) \<and> set ks = set (eqPods e) \<and> rep_field h (oMin q) (eqMin e) \<and>
        rep_field h (oMax q) (eqMax e) \<and> rep_field h (oUsed q) (Some (eqUsed e)) \<and> distinct (foot_quota h a))"
  by (auto simp: rep_quota_def at_iff [symmetric] simp del: field_simps' split: option.splits)

lemma rep_quotaE:
  assumes "rep_quota h a e"
  obtains q ks u where "cell h a = Some (QuotaCell q)" "oNamespace q = eqNamespace e"
    "cell h (oPods q) = Some (StringSet ks)" "set ks = set (eqPods e)" "rep_field h (oMin q) (eqMin e)"
    "rep_field h (oMax q) (eqMax e)" "oUsed q = Some u" "rep_resource h u (eqUsed e)"
    "foot_quota h a = a # oPods q # foot_field h (oMin q) @ foot_field h (oMax q) @ foot_resource h u"
    "distinct (foot_quota h a)"
  using assms unfolding rep_quota_iff by (auto simp: foot_quota_at)

lemma rep_quotaI:
  assumes "cell h a = Some (QuotaCell q)" "oNamespace q = eqNamespace e" "cell h (oPods q) = Some (StringSet ks)"
    "set ks = set (eqPods e)" "rep_field h (oMin q) (eqMin e)" "rep_field h (oMax q) (eqMax e)"
    "rep_field h (oUsed q) (Some (eqUsed e))"
    "distinct (a # oPods q # foot_field h (oMin q) @ foot_field h (oMax q) @ foot_field h (oUsed q))"
  shows "rep_quota h a e"
  using assms unfolding rep_quota_iff foot_quota_at [OF assms(1)] by blast

lemma rep_quota_view: "heap_view rep_quota foot_quota"
proof
  fix h a v h'
  assume rep: "rep_quota h a v"
  then obtain q ks u where q: "cell h a = Some (QuotaCell q)" "oNamespace q = eqNamespace v"
    "cell h (oPods q) = Some (StringSet ks)" "set ks = set (eqPods v)" "rep_field h (oMin q) (eqMin v)"
    "rep_field h (oMax q) (eqMax v)" "oUsed q = Some u" "rep_resource h u (eqUsed v)"
    "foot_quota h a = a # oPods q # foot_field h (oMin q) @ foot_field h (oMax q) @ foot_resource h u"
    "distinct (foot_quota h a)" by (rule rep_quotaE)
  show "set (foot_quota h a) \<subseteq> {..<length h}" "distinct (foot_quota h a)"
    using q field_bounded [OF q(5)] field_bounded [OF q(6)] resource.bounded [OF q(8)] by (auto dest: cell_bound)
  assume same: "same_on (set (foot_quota h a)) h h'"
  then have "same_on (set (foot_field h (oMin q))) h h'" "same_on (set (foot_field h (oMax q))) h h'"
    "same_on (set (foot_resource h u)) h h'" and cells: "cell h' a = cell h a" "cell h' (oPods q) = cell h (oPods q)"
    using q(9) by (auto simp: same_on_def)
  with q have "rep_field h' (oMin q) (eqMin v) \<and> foot_field h' (oMin q) = foot_field h (oMin q)"
    "rep_field h' (oMax q) (eqMax v) \<and> foot_field h' (oMax q) = foot_field h (oMax q)"
    "rep_resource h' u (eqUsed v) \<and> foot_resource h' u = foot_resource h u"
    using field_kept resource.frame by blast+
  with q cells show "rep_quota h' a v \<and> foot_quota h' a = foot_quota h a"
    using foot_quota_at [of h' a q] by (auto intro!: rep_quotaI)
qed

interpretation quota: heap_view rep_quota foot_quota
  by (rule rep_quota_view)

text \<open>An operation on the usage, and one on the set of pods.\<close>

lemma mutator_used:
  assumes f: "mutator rep_resource foot_resource f g"
  shows "mutator rep_quota foot_quota (\<lambda>h e. do { q \<leftarrow> quota_at h e; u \<leftarrow> oUsed q; f h u })
    (\<lambda>e. e\<lparr>eqUsed := g (eqUsed e)\<rparr>)"
proof
  fix h a v
  assume rep: "rep_quota h a v"
  then obtain q ks u where q: "cell h a = Some (QuotaCell q)" "oNamespace q = eqNamespace v"
    "cell h (oPods q) = Some (StringSet ks)" "set ks = set (eqPods v)" "rep_field h (oMin q) (eqMin v)"
    "rep_field h (oMax q) (eqMax v)" "oUsed q = Some u" "rep_resource h u (eqUsed v)"
    and foot: "foot_quota h a = a # oPods q # foot_field h (oMin q) @ foot_field h (oMax q) @ foot_resource h u"
    and dis: "distinct (foot_quota h a)" by (rule rep_quotaE)
  from mutator.runs [OF f q(8)] obtain h' where h': "f h u = Some h'" "changes (set (foot_resource h u)) h h'"
    "rep_resource h' u (g (eqUsed v))" "set (foot_resource h' u) \<subseteq> set (foot_resource h u) \<union> {length h..<length h'}"
    by blast
  note b = quota.bounded [OF rep]
  have same: "same_on (set (a # oPods q # foot_field h (oMin q) @ foot_field h (oMax q))) h h'"
    using b dis unfolding foot by (intro changes_same_on [OF h'(2)]) auto
  then have cells: "cell h' a = cell h a" "cell h' (oPods q) = cell h (oPods q)" by (auto simp: same_on_def)
  from field_kept [OF q(5)] field_kept [OF q(6)] same_on_subset [OF same]
  have mm: "rep_field h' (oMin q) (eqMin v)" "foot_field h' (oMin q) = foot_field h (oMin q)"
    "rep_field h' (oMax q) (eqMax v)" "foot_field h' (oMax q) = foot_field h (oMax q)" by auto
  have foot': "foot_quota h' a = a # oPods q # foot_field h (oMin q) @ foot_field h (oMax q) @ foot_resource h' u"
    using cells q(1,7) mm by (simp add: foot_quota_at)
  have "set (foot_resource h' u) \<inter> set (a # oPods q # foot_field h (oMin q) @ foot_field h (oMax q)) = {}"
    using h'(4) b dis unfolding foot by fastforce
  then have "distinct (foot_quota h' a)"
    using dis resource.disjoint [OF h'(3)] unfolding foot foot' by auto
  then have "rep_quota h' a (v\<lparr>eqUsed := g (eqUsed v)\<rparr>)"
    using q cells mm h'(3) unfolding foot' by (intro rep_quotaI [of h' a q _ ks]) auto
  moreover have "changes (set (foot_quota h a)) h h'" by (rule changes_mono [OF h'(2)]) (auto simp: foot)
  moreover have "set (foot_quota h' a) \<subseteq> set (foot_quota h a) \<union> {length h..<length h'}"
    using h'(4) unfolding foot foot' by auto
  ultimately show "\<exists>h'. do { q \<leftarrow> quota_at h a; u \<leftarrow> oUsed q; f h u } = Some h' \<and> changes (set (foot_quota h a)) h h' \<and>
      rep_quota h' a (v\<lparr>eqUsed := g (eqUsed v)\<rparr>) \<and> set (foot_quota h' a) \<subseteq> set (foot_quota h a) \<union> {length h..<length h'}"
    using q(1,7) h'(1) by (auto simp: quota_at_def)
qed

lemma mutator_pods:
  assumes f: "\<And>ks ps. set ks = set ps \<Longrightarrow> set (f ks) = set (g ps)"
  shows "mutator rep_quota foot_quota (podsH f) (\<lambda>e. e\<lparr>eqPods := g (eqPods e)\<rparr>)"
proof
  fix h a v
  assume rep: "rep_quota h a v"
  then obtain q ks u where q: "cell h a = Some (QuotaCell q)" "oNamespace q = eqNamespace v"
    "cell h (oPods q) = Some (StringSet ks)" "set ks = set (eqPods v)" "rep_field h (oMin q) (eqMin v)"
    "rep_field h (oMax q) (eqMax v)" "oUsed q = Some u" "rep_resource h u (eqUsed v)"
    and foot: "foot_quota h a = a # oPods q # foot_field h (oMin q) @ foot_field h (oMax q) @ foot_resource h u"
    and dis: "distinct (foot_quota h a)" by (rule rep_quotaE)
  let ?h' = "h[oPods q := StringSet (f ks)]"
  have b: "oPods q < length h" using q(3) by (rule cell_bound)
  have same: "same_on (- {oPods q}) h ?h'" by (simp add: same_on_def)
  have "same_on (set (foot_field h (oMin q))) h ?h'" "same_on (set (foot_field h (oMax q))) h ?h'"
    "same_on (set (foot_resource h u)) h ?h'"
    using dis unfolding foot by (auto intro: same_on_subset [OF same])
  from field_kept [OF q(5) this(1)] field_kept [OF q(6) this(2)] resource.frame [OF q(8) this(3)]
  have mm: "rep_field ?h' (oMin q) (eqMin v)" "foot_field ?h' (oMin q) = foot_field h (oMin q)"
    "rep_field ?h' (oMax q) (eqMax v)" "foot_field ?h' (oMax q) = foot_field h (oMax q)"
    "rep_resource ?h' u (eqUsed v)" "foot_resource ?h' u = foot_resource h u" by auto
  have cell: "cell ?h' a = Some (QuotaCell q)" using q dis foot by auto
  then have foot': "foot_quota ?h' a = foot_quota h a" using mm q(7) foot by (simp add: foot_quota_at)
  have "rep_quota ?h' a (v\<lparr>eqPods := g (eqPods v)\<rparr>)"
    using q cell mm b f [OF q(4)] dis foot by (intro rep_quotaI [of ?h' a q _ "f ks"]) auto
  with foot foot' q show "\<exists>h'. podsH f h a = Some h' \<and> changes (set (foot_quota h a)) h h' \<and>
      rep_quota h' a (v\<lparr>eqPods := g (eqPods v)\<rparr>) \<and> set (foot_quota h' a) \<subseteq> set (foot_quota h a) \<union> {length h..<length h'}"
    by (auto simp: podsH_def quota_at_def set_at_def changes_update)
qed

lemma hasPodH_rep: "rep_quota h a e \<Longrightarrow> hasPodH key h a = Some (key \<in> set (eqPods e))"
  by (erule rep_quotaE) (simp add: hasPodH_def quota_at_def set_at_def)

lemma set_insertKey [simp]: "set (insertKey k ks) = insert k (set ks)"
  by (auto simp: insertKey_def)

lemma set_deleteKey [simp]: "set (deleteKey k ks) = set ks - {k}"
  by (auto simp: deleteKey_def)

lemma mutator_insertPod:
  "mutator rep_quota foot_quota (\<lambda>h e. podsH (insertKey key) h e \<bind> (\<lambda>h1. reserveResourceH req h1 e))
     (\<lambda>e. reserveResource req (e\<lparr>eqPods := insertKey key (eqPods e)\<rparr>))"
  using mutator_seq [OF mutator_pods [of "insertKey key" "insertKey key"] mutator_used [OF mutator_reserveUsed [of "(+)" req]]]
  by (simp add: reserveResourceH_def reserveResource_used comp_def)

lemma mutator_dropPod:
  "mutator rep_quota foot_quota (\<lambda>h e. podsH (deleteKey key) h e \<bind> (\<lambda>h1. unreserveResourceH req h1 e))
     (\<lambda>e. unreserveResource req (e\<lparr>eqPods := deleteKey key (eqPods e)\<rparr>))"
  using mutator_seq [OF mutator_pods [of "deleteKey key" "deleteKey key"] mutator_used [OF mutator_reserveUsed [of "(-)" req]]]
  by (simp add: unreserveResourceH_def reserveResource_used comp_def)

interpretation add_pod: procedure rep_quota foot_quota "addPodIfNotPresentH sc pod" "addPodIfNotPresent sc pod" for sc pod
proof
  fix h a v
  assume rep: "rep_quota h a v"
  show "map_option fst (addPodIfNotPresentH sc pod h a) = Some (fst (addPodIfNotPresent sc pod v))"
  proof (cases "GetPodKey pod")
    case (Some key)
    with mutator.runs [OF mutator_insertPod [of key "computePodResourceRequest sc pod"] rep] show ?thesis
      by (auto simp: addPodIfNotPresentH_def addPodIfNotPresent_def hasPodH_rep [OF rep] bind_eq_Some_conv)
  qed (simp add: addPodIfNotPresentH_def addPodIfNotPresent_def)
  show "\<exists>h'. map_option snd (addPodIfNotPresentH sc pod h a) = Some h' \<and> changes (set (foot_quota h a)) h h' \<and>
      rep_quota h' a (snd (addPodIfNotPresent sc pod v)) \<and>
      set (foot_quota h' a) \<subseteq> set (foot_quota h a) \<union> {length h..<length h'}"
  proof (cases "GetPodKey pod")
    case (Some key)
    with rep mutator.runs [OF mutator_insertPod [of key "computePodResourceRequest sc pod"] rep] show ?thesis
      by (auto simp: addPodIfNotPresentH_def addPodIfNotPresent_def hasPodH_rep [OF rep] bind_eq_Some_conv)
  qed (simp add: addPodIfNotPresentH_def addPodIfNotPresent_def rep)
qed

interpretation delete_pod: procedure rep_quota foot_quota "deletePodIfPresentH sc pod" "deletePodIfPresent sc pod" for sc pod
proof
  fix h a v
  assume rep: "rep_quota h a v"
  show "map_option fst (deletePodIfPresentH sc pod h a) = Some (fst (deletePodIfPresent sc pod v))"
  proof (cases "GetPodKey pod")
    case (Some key)
    with mutator.runs [OF mutator_dropPod [of key "computePodResourceRequest sc pod"] rep] show ?thesis
      by (auto simp: deletePodIfPresentH_def deletePodIfPresent_def hasPodH_rep [OF rep] bind_eq_Some_conv)
  qed (simp add: deletePodIfPresentH_def deletePodIfPresent_def)
  show "\<exists>h'. map_option snd (deletePodIfPresentH sc pod h a) = Some h' \<and> changes (set (foot_quota h a)) h h' \<and>
      rep_quota h' a (snd (deletePodIfPresent sc pod v)) \<and>
      set (foot_quota h' a) \<subseteq> set (foot_quota h a) \<union> {length h..<length h'}"
  proof (cases "GetPodKey pod")
    case (Some key)
    with rep mutator.runs [OF mutator_dropPod [of key "computePodResourceRequest sc pod"] rep] show ?thesis
      by (auto simp: deletePodIfPresentH_def deletePodIfPresent_def hasPodH_rep [OF rep] bind_eq_Some_conv)
  qed (simp add: deletePodIfPresentH_def deletePodIfPresent_def rep)
qed

text \<open>New quotas and clones: every part comes from a later stretch of the heap than the part before.\<close>

lemma field_later:
  "rep_field h p v \<Longrightarrow> changes F h h' \<Longrightarrow> set (foot_field h p) \<inter> F = {} \<Longrightarrow>
   rep_field h' p v \<and> foot_field h' p = foot_field h p"
  by (rule field_kept, assumption, rule changes_same_on, assumption, rule field_bounded)

lemma quota_of_new_parts:
  assumes mn: "rep_field h2 mn (eqMin e)" "set (foot_field h2 mn) \<subseteq> {length h1..<length h2}" "changes {} h2 h3"
    and mx: "rep_field h3 mx (eqMax e)" "set (foot_field h3 mx) \<subseteq> {length h2..<length h3}" "changes {} h3 h4"
    and u: "rep_field h4 u (Some (eqUsed e))" "set (foot_field h4 u) \<subseteq> {length h3..<length h4}" "changes {s} h4 h5"
    and s: "cell h5 s = Some (StringSet ks)" "set ks = set (eqPods e)" "s < length h1" "l \<le> s"
    and q: "q = \<lparr>oNamespace = eqNamespace e, oPods = s, oMin = mn, oMax = mx, oUsed = u\<rparr>"
    and len: "length h1 \<le> length h2" "length h5 = length h4"
  shows "rep_quota (h5 @ [QuotaCell q]) (length h5) e \<and>
    set (foot_quota (h5 @ [QuotaCell q]) (length h5)) \<subseteq> {l..<Suc (length h5)}"
proof -
  let ?h = "h5 @ [QuotaCell q]"
  have l: "length h1 \<le> length h2" "length h2 \<le> length h3" "length h3 \<le> length h4" "length h5 = length h4"
    using changes_length [OF mn(3)] changes_length [OF mx(3)] len by auto
  have ch: "changes {s} h4 ?h" using changes_trans [OF u(3) changes_append [of "{}"]] by simp
  then have ch3: "changes {s} h3 ?h" using mx(3) changes_mono [OF mx(3)] changes_trans by blast
  then have ch2: "changes {s} h2 ?h" using changes_mono [OF mn(3)] changes_trans by blast
  have ns: "s \<notin> set (foot_field h2 mn)" "s \<notin> set (foot_field h3 mx)" "s \<notin> set (foot_field h4 u)"
    using mn(2) mx(2) u(2) s(3) l by auto
  from ns field_later [OF mn(1) ch2] field_later [OF mx(1) ch3] field_later [OF u(1) ch]
  have f: "rep_field ?h mn (eqMin e)" "foot_field ?h mn = foot_field h2 mn" "rep_field ?h mx (eqMax e)"
    "foot_field ?h mx = foot_field h3 mx" "rep_field ?h u (Some (eqUsed e))" "foot_field ?h u = foot_field h4 u" by auto
  have c: "cell ?h (length h5) = Some (QuotaCell q)" by simp
  have cs: "cell ?h (oPods q) = Some (StringSet ks)" using s cell_bound [OF s(1)] q by simp
  have parts: "oPods q = s" "oMin q = mn" "oMax q = mx" "oUsed q = u" "oNamespace q = eqNamespace e" using q by simp_all
  have "distinct (length h5 # s # foot_field h2 mn @ foot_field h3 mx @ foot_field h4 u)"
    using mn(2) mx(2) u(2) s(3) l ns field_disjoint [OF mn(1)] field_disjoint [OF mx(1)] field_disjoint [OF u(1)]
    by fastforce
  then have "rep_quota ?h (length h5) e"
    using f s(2) cs parts by (intro rep_quotaI [OF c parts(5) cs s(2)]) simp_all
  moreover have "set (foot_quota ?h (length h5)) \<subseteq> {l..<Suc (length h5)}"
    unfolding foot_quota_at [OF c] parts f using mn(2) mx(2) u(2) s(3,4) l by fastforce
  ultimately show ?thesis by blast
qed

interpretation quota_clone: cloner rep_quota foot_quota ElasticQuotaInfoClone
proof
  fix h a v
  assume rep: "rep_quota h a v"
  then obtain q ks u where q: "cell h a = Some (QuotaCell q)" "oNamespace q = eqNamespace v"
    "cell h (oPods q) = Some (StringSet ks)" "set ks = set (eqPods v)" "rep_field h (oMin q) (eqMin v)"
    "rep_field h (oMax q) (eqMax v)" "oUsed q = Some u" "rep_resource h u (eqUsed v)" by (rule rep_quotaE)
  let ?h1 = "h @ [StringSet []]"
  have ch1: "changes {} h ?h1" by (rule changes_append)
  have "rep_field ?h1 (oMin q) (eqMin v)" using field_later [OF q(5) ch1] by simp
  from clone_field [OF this] obtain mn h2 where mn: "cloneField (oMin q) ?h1 = Some (mn, h2)" "changes {} ?h1 h2"
    "rep_field h2 mn (eqMin v)" "set (foot_field h2 mn) \<subseteq> {length ?h1..<length h2}" by blast
  have ch2: "changes {} h h2" using ch1 mn(2) by (rule changes_trans) simp
  have "rep_field h2 (oMax q) (eqMax v)" using field_later [OF q(6) ch2] by simp
  from clone_field [OF this] obtain mx h3 where mx: "cloneField (oMax q) h2 = Some (mx, h3)" "changes {} h2 h3"
    "rep_field h3 mx (eqMax v)" "set (foot_field h3 mx) \<subseteq> {length h2..<length h3}" by blast
  have ch3: "changes {} h h3" using ch2 mx(2) by (rule changes_trans) simp
  have "rep_field h3 (oUsed q) (Some (eqUsed v))" using field_later [OF _ ch3, of "oUsed q" "Some (eqUsed v)"] q(7,8) by simp
  from clone_field [OF this] obtain u' h4 where u': "cloneField (oUsed q) h3 = Some (u', h4)" "changes {} h3 h4"
    "rep_field h4 u' (Some (eqUsed v))" "set (foot_field h4 u') \<subseteq> {length h3..<length h4}" by blast
  have ch4: "changes {} h h4" using ch3 u'(2) by (rule changes_trans) simp
  have s4: "cell h4 (oPods q) = Some (StringSet ks)" "cell h4 (length h) = Some (StringSet [])"
    using ch4 changes_trans [OF changes_trans [OF mn(2) mx(2)] u'(2)] q(3) cell_bound [OF q(3)]
    by (auto simp: changes_def same_on_def)
  define ks' where "ks' = (if ks = [] then [] else fold insertKey (sort ks) [])"
  have "set (fold insertKey xs acc) = set xs \<union> set acc" for xs acc :: "string list"
    by (induction xs arbitrary: acc) auto
  then have ks': "set ks' = set ks" by (simp add: ks'_def)
  define h5 where "h5 = (if ks = [] then h4 else h4[length h := StringSet (fold insertKey (sort ks) [])])"
  have h5: "h5 = h4[length h := StringSet ks']"
    using s4(2) update_same [OF s4(2)] by (simp add: h5_def ks'_def)
  let ?q = "\<lparr>oNamespace = oNamespace q, oPods = length h, oMin = mn, oMax = mx, oUsed = u'\<rparr>"
  let ?h' = "h5 @ [QuotaCell ?q]"
  have "ElasticQuotaInfoClone h a = Some (length h5, ?h')"
    using q(1) mn(1) mx(1) u'(1) s4(1)
    by (simp add: ElasticQuotaInfoClone_def quota_at_def set_at_def new_def h5_def [symmetric])
  moreover have "rep_quota ?h' (length h5) v \<and> set (foot_quota ?h' (length h5)) \<subseteq> {length h..<Suc (length h5)}"
  proof (rule quota_of_new_parts [OF mn(3,4) mx(2) mx(3,4) u'(2) u'(3,4)])
    show "changes {length h} h4 h5" unfolding h5 by (simp add: changes_update)
    show "cell h5 (length h) = Some (StringSet ks')" using s4(2) unfolding h5 by (auto dest: cell_bound)
  qed (use ks' q(2,4) changes_length [OF mn(2)] in \<open>simp_all add: h5\<close>)
  moreover have "changes {} h ?h'"
    by (rule changes_trans [OF _ changes_append [of "{}"]])
      (use ch4 in \<open>auto simp: changes_def same_on_def h5\<close>)
  ultimately show "\<exists>b h'. ElasticQuotaInfoClone h a = Some (b, h') \<and> changes {} h h' \<and> rep_quota h' b v \<and>
      set (foot_quota h' b) \<subseteq> {length h..<length h'}" by fastforce
qed

lemma new_quota:
  obtains b h' where "newElasticQuotaInfoH sc ns mn mx us h = (b, h')" "changes {} h h'"
    "rep_quota h' b (newElasticQuotaInfo sc ns mn mx us)" "set (foot_quota h' b) \<subseteq> {length h..<length h'}"
proof -
  let ?e = "newElasticQuotaInfo sc ns mn mx us"
  let ?h1 = "h @ [StringSet []]"
  obtain m h2 where m: "NewResourceH sc (case mn of None \<Rightarrow> makeResourceListForBound LowerBoundOfMin | Some rl \<Rightarrow> rl) ?h1 = (m, h2)"
    "changes {} ?h1 h2" "rep_resource h2 m (the (eqMin ?e))" "set (foot_resource h2 m) \<subseteq> {length ?h1..<length h2}"
    using new_resource [of sc _ ?h1] by (auto simp: newElasticQuotaInfo_def Let_def)
  obtain x h3 where x: "NewResourceH sc (case mx of None \<Rightarrow> makeResourceListForBound UpperBoundOfMax | Some rl \<Rightarrow> rl) h2 = (x, h3)"
    "changes {} h2 h3" "rep_resource h3 x (the (eqMax ?e))" "set (foot_resource h3 x) \<subseteq> {length h2..<length h3}"
    using new_resource [of sc _ h2] by (auto simp: newElasticQuotaInfo_def Let_def)
  obtain u h4 where u: "NewResourceH sc (case us of None \<Rightarrow> [] | Some rl \<Rightarrow> rl) h3 = (u, h4)"
    "changes {} h3 h4" "rep_resource h4 u (eqUsed ?e)" "set (foot_resource h4 u) \<subseteq> {length h3..<length h4}"
    using new_resource [of sc _ h3] by (auto simp: newElasticQuotaInfo_def Let_def)
  have e: "eqMin ?e = Some (the (eqMin ?e))" "eqMax ?e = Some (the (eqMax ?e))" "eqNamespace ?e = ns" "eqPods ?e = []"
    by (simp_all add: newElasticQuotaInfo_def Let_def)
  have ch: "changes {} ?h1 h4" using changes_trans [OF changes_trans [OF m(2) x(2)] u(2)] by simp
  let ?q = "\<lparr>oNamespace = ns, oPods = length h, oMin = Some m, oMax = Some x, oUsed = Some u\<rparr>"
  let ?h' = "h4 @ [QuotaCell ?q]"
  have "rep_quota ?h' (length h4) ?e \<and> set (foot_quota ?h' (length h4)) \<subseteq> {length h..<Suc (length h4)}"
  proof (rule quota_of_new_parts [where ks = "[]" and s = "length h" and ?h1.0 = ?h1 and ?h2.0 = h2 and ?h3.0 = h3 and ?h4.0 = h4])
    show "cell h4 (length h) = Some (StringSet [])" using ch by (auto simp: changes_def same_on_def)
    show "rep_field h2 (Some m) (eqMin ?e)" using m(3) by (subst e) simp
    show "rep_field h3 (Some x) (eqMax ?e)" using x(3) by (subst e) simp
  qed (use m x u e changes_length [OF m(2)] in simp_all)
  moreover have "newElasticQuotaInfoH sc ns mn mx us h = (length h4, ?h')"
    using m(1) x(1) u(1) by (simp add: newElasticQuotaInfoH_def new_def)
  moreover have "changes {} h ?h'"
    using changes_trans [OF changes_trans [OF changes_append [of "{}"] ch] changes_append [of "{}"]] by simp
  ultimately show thesis using that by fastforce
qed

end
