(* ===== verification/Quota_Heap_Maps.thy ===== *)
theory Quota_Heap_Maps
  imports Quota_Heap_Views
begin

text \<open>
  The map of quotas as one object: its cell and everything its pointers reach. The event handlers,
  the reservations and the dry run of \<open>Quota_Heap\<close> are operations on that object, and a snapshot is its clone.
\<close>

section \<open>Maps with unique keys\<close>

lemma map_of_index:
  assumes "map_of m k = Some v"
  obtains i where "i < length m" "m ! i = (k, v)"
  using map_of_SomeD [OF assms] by (auto simp: in_set_conv_nth)

lemma update_index:
  "distinct (map fst m) \<Longrightarrow> i < length m \<Longrightarrow> fst (m ! i) = k \<Longrightarrow> AList.update k v m = m[i := (k, v)]"
proof (induction m arbitrary: i)
  case (Cons x m)
  show ?case
  proof (cases i)
    case (Suc j)
    with Cons.prems have "m ! j \<in> set m" "fst (m ! j) = k" by simp_all
    with Cons.prems(1) have "fst x \<noteq> k" by force
    with Cons Suc show ?thesis by (cases x) simp
  qed (use Cons.prems in \<open>cases x, simp\<close>)
qed simp

lemma map_of_nth: "distinct (map fst m) \<Longrightarrow> i < length m \<Longrightarrow> map_of m (fst (m ! i)) = Some (snd (m ! i))"
  by simp

lemma map_of_keys: "map fst m = map fst m' \<Longrightarrow> map_of m k = None \<longleftrightarrow> map_of m' k = None"
  by (metis map_of_eq_None_iff list.set_map)

section \<open>The view\<close>

definition foot_quotas :: "qheap \<Rightarrow> addr \<Rightarrow> addr list" where
  "foot_quotas h c =
     c # (case quotas_at h c of None \<Rightarrow> [] | Some d \<Rightarrow> foot_all foot_quota h (map snd d))"

definition rep_quotas :: "qheap \<Rightarrow> addr \<Rightarrow> ElasticQuotaInfos \<Rightarrow> bool" where
  "rep_quotas h c es =
     (case quotas_at h c of
        None \<Rightarrow> False
      | Some d \<Rightarrow>
          map fst d = map fst es \<and> distinct (map fst d) \<and>
          rep_all rep_quota foot_quota h (map snd d) (map snd es) \<and> distinct (foot_quotas h c))"

lemma foot_quotas_at: "cell h c = Some (QuotaMap d) \<Longrightarrow> foot_quotas h c = c # foot_all foot_quota h (map snd d)"
  by (simp add: foot_quotas_def quotas_at_def)

lemma rep_quotasE:
  assumes "rep_quotas h c es"
  obtains d where "cell h c = Some (QuotaMap d)" "map fst d = map fst es" "distinct (map fst d)"
    "rep_all rep_quota foot_quota h (map snd d) (map snd es)" "c \<notin> set (foot_all foot_quota h (map snd d))"
    "foot_quotas h c = c # foot_all foot_quota h (map snd d)" "c < length h"
  using assms by (auto simp: rep_quotas_def at_iff foot_quotas_at dest: cell_bound split: option.splits)

lemma rep_quotasI:
  assumes "cell h c = Some (QuotaMap d)" "map fst d = map fst es" "distinct (map fst d)"
    "rep_all rep_quota foot_quota h (map snd d) (map snd es)" "c \<notin> set (foot_all foot_quota h (map snd d))"
  shows "rep_quotas h c es"
  using assms foot_quotas_at [OF assms(1)] by (auto simp: rep_quotas_def quotas_at_def rep_all_def)

lemma rep_quotas_view: "heap_view rep_quotas foot_quotas"
proof
  fix h c es h'
  assume "rep_quotas h c es"
  then obtain d where d: "cell h c = Some (QuotaMap d)" "map fst d = map fst es" "distinct (map fst d)"
    "rep_all rep_quota foot_quota h (map snd d) (map snd es)" "c \<notin> set (foot_all foot_quota h (map snd d))"
    "foot_quotas h c = c # foot_all foot_quota h (map snd d)" "c < length h" by (rule rep_quotasE)
  show "set (foot_quotas h c) \<subseteq> {..<length h}" "distinct (foot_quotas h c)"
    using d quota.rep_all_bounded [OF d(4)] by (auto simp: rep_all_def)
  assume "same_on (set (foot_quotas h c)) h h'"
  then have c: "cell h' c = Some (QuotaMap d)" and same: "same_on (set (foot_all foot_quota h (map snd d))) h h'"
    using d by (auto simp: same_on_def)
  from quota.all_same [OF d(4) same] c d foot_quotas_at [OF c]
  show "rep_quotas h' c es \<and> foot_quotas h' c = foot_quotas h c"
    by (auto intro!: rep_quotasI)
qed

interpretation quotas: heap_view rep_quotas foot_quotas
  by (rule rep_quotas_view)

section \<open>Operations on one quota\<close>

lemma lookup_index:
  assumes rep: "rep_quotas h c es" and d: "cell h c = Some (QuotaMap d)" and k: "map_of d k = Some p"
  obtains i where "i < length d" "d ! i = (k, p)" "fst (es ! i) = k" "map_of es k = Some (snd (es ! i))"
    "rep_quota h p (snd (es ! i))" "length es = length d"
proof -
  from rep d have m: "map fst d = map fst es" "distinct (map fst d)"
    "rep_all rep_quota foot_quota h (map snd d) (map snd es)" by (auto elim!: rep_quotasE)
  from k obtain i where i: "i < length d" "d ! i = (k, p)" by (rule map_of_index)
  have len: "length d = length es" using m(1) by (rule map_eq_imp_length_eq)
  have key: "fst (es ! i) = k" using arg_cong [OF m(1), of "\<lambda>l. l ! i"] i len by simp
  have v: "map_of es k = Some (snd (es ! i))" using map_of_nth [of es i] key m(1,2) i len by simp
  have "rep_quota h p (snd (es ! i))" using rep_all_nth [OF m(3), of i] i len by simp
  then show thesis using that [OF i key v] len by simp
qed

lemma mutator_lookup:
  assumes f: "mutator rep_quota foot_quota f g"
  shows "mutator rep_quotas foot_quotas
    (\<lambda>h c. do { d \<leftarrow> quotas_at h c; case map_of d ns of None \<Rightarrow> Some h | Some e \<Rightarrow> f h e })
    (\<lambda>es. case map_of es ns of None \<Rightarrow> es | Some e \<Rightarrow> AList.update ns (g e) es)"
    (is "mutator _ _ ?run ?effect")
proof
  fix h c es
  assume rep: "rep_quotas h c es"
  then obtain d where d: "cell h c = Some (QuotaMap d)" "map fst d = map fst es" "distinct (map fst d)"
    "rep_all rep_quota foot_quota h (map snd d) (map snd es)" "c \<notin> set (foot_all foot_quota h (map snd d))"
    "foot_quotas h c = c # foot_all foot_quota h (map snd d)" "c < length h" by (rule rep_quotasE)
  show "\<exists>h'. ?run h c = Some h' \<and> changes (set (foot_quotas h c)) h h' \<and> rep_quotas h' c (?effect es) \<and>
      set (foot_quotas h' c) \<subseteq> set (foot_quotas h c) \<union> {length h..<length h'}"
  proof (cases "map_of d ns")
    case None
    with d map_of_keys [OF d(2), of ns] rep show ?thesis by (auto simp: quotas_at_def)
  next
    case (Some p)
    obtain i where i: "i < length d" "d ! i = (ns, p)" and key: "fst (es ! i) = ns"
      and es: "map_of es ns = Some (snd (es ! i))" and len: "length es = length d"
      by (rule lookup_index [OF rep d(1) Some])
    have dis: "distinct (map fst es)" using d(2,3) by simp
    from mutator.run_one [OF f d(4), of i] i len obtain h' where h': "f h p = Some h'"
      "changes (set (foot_all foot_quota h (map snd d))) h h'"
      "rep_all rep_quota foot_quota h' (map snd d) ((map snd es)[i := g (snd (es ! i))])"
      "set (foot_all foot_quota h' (map snd d)) \<subseteq> set (foot_all foot_quota h (map snd d)) \<union> {length h..<length h'}"
      by auto
    have c: "cell h' c = Some (QuotaMap d)" using d(1,5,7) h'(2) by (auto simp: changes_def same_on_def)
    have eff: "?effect es = es[i := (ns, g (snd (es ! i)))]" using es update_index [OF dis _ key] i len by simp
    have "rep_quotas h' c (?effect es)"
    proof (rule rep_quotasI [OF c])
      show "map fst d = map fst (?effect es)" unfolding eff using d(2) key len i
        by (metis map_update list_update_id fst_conv nth_map)
      show "rep_all rep_quota foot_quota h' (map snd d) (map snd (?effect es))"
        unfolding eff using h'(3) by (simp add: map_update)
      show "c \<notin> set (foot_all foot_quota h' (map snd d))" using h'(4) d(5,7) by auto
    qed (rule d(3))
    moreover have "changes (set (foot_quotas h c)) h h'" by (rule changes_mono [OF h'(2)]) (auto simp: d(6))
    ultimately show ?thesis using Some d(1,6) h'(1,4) foot_quotas_at [OF c] by (auto simp: quotas_at_def)
  qed
qed

section \<open>Operations on the map\<close>

text \<open>A quota made of new cells and of cells of the quota it replaces is put into the map.\<close>

lemma put_quota:
  assumes rep: "rep_quotas h c es" and d: "cell h c = Some (QuotaMap d)" and ch: "changes {} h h1"
    and b: "rep_quota h1 b e"
      "set (foot_quota h1 b) \<subseteq> (case map_of d ns of None \<Rightarrow> {} | Some p \<Rightarrow> set (foot_quota h p)) \<union> {length h..<length h1}"
  defines "h' \<equiv> h1[c := QuotaMap (AList.update ns b d)]"
  shows "rep_quotas h' c (AList.update ns e es)" "changes (set (foot_quotas h c)) h h'"
    "set (foot_quotas h' c) \<subseteq> set (foot_quotas h c) \<union> {length h..<length h'}"
proof -
  from rep d have m: "map fst d = map fst es" "distinct (map fst d)" "c < length h"
    "rep_all rep_quota foot_quota h (map snd d) (map snd es)" "c \<notin> set (foot_all foot_quota h (map snd d))"
    and foot: "foot_quotas h c = c # foot_all foot_quota h (map snd d)"
    by (auto elim!: rep_quotasE)
  let ?d' = "AList.update ns b d" and ?es' = "AList.update ns e es"
  have *: "rep_all rep_quota foot_quota h1 (map snd ?d') (map snd ?es') \<and>
      set (foot_all foot_quota h1 (map snd ?d')) \<subseteq> set (foot_all foot_quota h (map snd d)) \<union> {length h..<length h1} \<and>
      map fst ?d' = map fst ?es'"
  proof (cases "map_of d ns")
    case None
    then have "map_of d ns = None" "map_of es ns = None" using map_of_keys [OF m(1), of ns] by auto
    moreover from this None b quota.all_grown [OF m(4) ch, of b e] quota.all_kept [OF m(4) ch]
    show ?thesis using m(1) by (auto simp: update_new)
  next
    case (Some p)
    obtain i where i: "i < length d" "d ! i = (ns, p)" and key: "fst (es ! i) = ns" and len: "length es = length d"
      by (rule lookup_index [OF rep d Some])
    have upd: "?d' = d[i := (ns, b)]" "?es' = es[i := (ns, e)]"
      using update_index [OF m(2) i(1), of ns b] update_index [of es i ns e] i len key m(1,2) by auto
    have "changes (set (foot_quota h (map snd d ! i))) h h1" by (rule changes_mono [OF ch]) simp
    from quota.all_replaced [OF m(4) _ this b(1)] i b(2) Some
    have "rep_all rep_quota foot_quota h1 ((map snd d)[i := b]) ((map snd es)[i := e])"
      "set (foot_all foot_quota h1 ((map snd d)[i := b])) \<subseteq> set (foot_all foot_quota h (map snd d)) \<union> {length h..<length h1}"
      by auto
    moreover have "map fst ?d' = map fst ?es'" using m(1) unfolding upd by (simp add: map_update)
    ultimately show ?thesis unfolding upd by (simp add: map_update)
  qed
  have cn: "c \<notin> set (foot_all foot_quota h1 (map snd ?d'))" using * m(3,5) by auto
  have ch': "changes {c} h1 h'" unfolding h'_def by (rule changes_update) simp
  from quota.all_kept [OF _ ch'] * cn
  have h': "rep_all rep_quota foot_quota h' (map snd ?d') (map snd ?es')"
    "foot_all foot_quota h' (map snd ?d') = foot_all foot_quota h1 (map snd ?d')" by auto
  have c: "cell h' c = Some (QuotaMap ?d')" using m(3) changes_length [OF ch] by (simp add: h'_def)
  have len: "length h' = length h1" by (simp add: h'_def)
  show "rep_quotas h' c ?es'"
    by (rule rep_quotasI [OF c _ distinct_update [OF m(2)] h'(1)]) (use * cn h'(2) in auto)
  show "changes (set (foot_quotas h c)) h h'"
    by (rule changes_trans [OF changes_mono [OF ch] ch']) (auto simp: foot)
  show "set (foot_quotas h' c) \<subseteq> set (foot_quotas h c) \<union> {length h..<length h'}"
    using * h'(2) len unfolding foot_quotas_at [OF c] foot by auto
qed



lemma mutator_addElasticQuota: "mutator rep_quotas foot_quotas (addElasticQuotaH sc eq) (addElasticQuota sc eq)"
proof
  fix h c es
  assume rep: "rep_quotas h c es"
  then obtain d where d: "cell h c = Some (QuotaMap d)" "map fst d = map fst es" by (auto elim!: rep_quotasE)
  let ?ns = "quotaNamespace eq"
  obtain b h1 where b: "newElasticQuotaInfoH sc ?ns (quotaMin eq) (quotaMax eq) None h = (b, h1)" "changes {} h h1"
    "rep_quota h1 b (newElasticQuotaInfo sc ?ns (quotaMin eq) (quotaMax eq) None)"
    "set (foot_quota h1 b) \<subseteq> {length h..<length h1}"
    by (rule new_quota)
  have "set (foot_quota h1 b) \<subseteq> (case map_of d ?ns of None \<Rightarrow> {} | Some p \<Rightarrow> set (foot_quota h p)) \<union> {length h..<length h1}"
    using b(4) by blast
  from put_quota [OF rep d(1) b(2,3) this]
  show "\<exists>h'. addElasticQuotaH sc eq h c = Some h' \<and> changes (set (foot_quotas h c)) h h' \<and>
      rep_quotas h' c (addElasticQuota sc eq es) \<and> set (foot_quotas h' c) \<subseteq> set (foot_quotas h c) \<union> {length h..<length h'}"
    using rep d(1) b(1) map_of_keys [OF d(2), of ?ns]
    by (cases "map_of d ?ns") (auto simp: addElasticQuotaH_def addElasticQuota_def quotas_at_def)
qed

text \<open>A new quota takes over the pods and the usage of an old one.\<close>

lemma take_over:
  assumes old: "rep_quota h a v" "cell h a = Some (QuotaCell qo)"
    and new: "rep_quota h b w" "cell h b = Some (QuotaCell q)"
    and dis: "set (foot_quota h a) \<inter> set (foot_quota h b) = {}"
  defines "h' \<equiv> h[b := QuotaCell (q\<lparr>oPods := oPods qo, oUsed := oUsed qo\<rparr>)]"
  shows "rep_quota h' b (w\<lparr>eqPods := eqPods v, eqUsed := eqUsed v\<rparr>)"
    "set (foot_quota h' b) \<subseteq> set (foot_quota h a) \<union> set (foot_quota h b)"
proof -
  from old obtain ks u where o: "cell h (oPods qo) = Some (StringSet ks)" "set ks = set (eqPods v)"
      "oUsed qo = Some u" "rep_resource h u (eqUsed v)" "distinct (foot_quota h a)"
    and fo: "foot_quota h a = a # oPods qo # foot_field h (oMin qo) @ foot_field h (oMax qo) @ foot_resource h u"
    by (auto elim!: rep_quotaE)
  from new obtain u' where n: "oNamespace q = eqNamespace w" "rep_field h (oMin q) (eqMin w)" "rep_field h (oMax q) (eqMax w)"
      "distinct (foot_quota h b)"
    and fn: "foot_quota h b = b # oPods q # foot_field h (oMin q) @ foot_field h (oMax q) @ foot_resource h u'"
    by (auto elim!: rep_quotaE)
  let ?q = "q\<lparr>oPods := oPods qo, oUsed := oUsed qo\<rparr>"
  have c: "cell h' b = Some (QuotaCell ?q)" using cell_bound [OF new(2)] by (simp add: h'_def)
  have ch: "changes {b} h h'" unfolding h'_def by (rule changes_update) simp
  have nb: "b \<notin> set (foot_field h (oMin q))" "b \<notin> set (foot_field h (oMax q))" "b \<notin> set (foot_resource h u)" "b \<noteq> oPods qo"
    using n(4) dis unfolding fo fn by auto
  from nb field_later [OF n(2) ch] field_later [OF n(3) ch] resource.kept [OF o(4) ch]
  have f: "rep_field h' (oMin q) (eqMin w)" "foot_field h' (oMin q) = foot_field h (oMin q)"
    "rep_field h' (oMax q) (eqMax w)" "foot_field h' (oMax q) = foot_field h (oMax q)"
    "rep_resource h' u (eqUsed v)" "foot_resource h' u = foot_resource h u" by auto
  have "distinct (b # oPods qo # foot_field h (oMin q) @ foot_field h (oMax q) @ foot_resource h u)"
    using o(5) n(4) dis nb unfolding fo fn by auto
  then show "rep_quota h' b (w\<lparr>eqPods := eqPods v, eqUsed := eqUsed v\<rparr>)"
    using f o n nb by (intro rep_quotaI [OF c, where ks = ks]) (simp_all add: h'_def)
  show "set (foot_quota h' b) \<subseteq> set (foot_quota h a) \<union> set (foot_quota h b)"
    unfolding foot_quota_at [OF c] fo fn using f o(3) by auto
qed

text \<open>The namespace of a quota never changes.\<close>

lemma mutator_updateElasticQuota:
  assumes ns: "quotaNamespace oldEQ = quotaNamespace newEQ"
  shows "mutator rep_quotas foot_quotas (updateElasticQuotaH sc oldEQ newEQ) (updateElasticQuota sc oldEQ newEQ)"
proof
  fix h c es
  assume rep: "rep_quotas h c es"
  then obtain d where d: "cell h c = Some (QuotaMap d)" "map fst d = map fst es" "distinct (map fst d)"
    "rep_all rep_quota foot_quota h (map snd d) (map snd es)" by (auto elim!: rep_quotasE)
  let ?ns = "quotaNamespace newEQ"
  let ?w = "newElasticQuotaInfo sc ?ns (quotaMin newEQ) (quotaMax newEQ) None"
  obtain b h1 where b: "newElasticQuotaInfoH sc ?ns (quotaMin newEQ) (quotaMax newEQ) None h = (b, h1)" "changes {} h h1"
    "rep_quota h1 b ?w" "set (foot_quota h1 b) \<subseteq> {length h..<length h1}"
    by (rule new_quota)
  have d1: "cell h1 c = Some (QuotaMap d)" using d(1) b(2) cell_bound [OF d(1)] by (auto simp: changes_def same_on_def)
  show "\<exists>h'. updateElasticQuotaH sc oldEQ newEQ h c = Some h' \<and> changes (set (foot_quotas h c)) h h' \<and>
      rep_quotas h' c (updateElasticQuota sc oldEQ newEQ es) \<and>
      set (foot_quotas h' c) \<subseteq> set (foot_quotas h c) \<union> {length h..<length h'}"
  proof (cases "map_of d ?ns")
    case None
    with b(4) put_quota [OF rep d(1) b(2,3), of ?ns] show ?thesis
      using b(1) d1 ns map_of_keys [OF d(2), of ?ns]
      by (auto simp: updateElasticQuotaH_def updateElasticQuota_def quotas_at_def)
  next
    case (Some p)
    obtain i where es: "map_of es ?ns = Some (snd (es ! i))" and p: "rep_quota h p (snd (es ! i))"
      by (rule lookup_index [OF rep d(1) Some])
    from quota.kept [OF p b(2)] have p1: "rep_quota h1 p (snd (es ! i))" "foot_quota h1 p = foot_quota h p" by simp_all
    obtain qo where qo: "cell h1 p = Some (QuotaCell qo)" using p1(1) by (rule rep_quotaE)
    obtain q where q: "cell h1 b = Some (QuotaCell q)" using b(3) by (rule rep_quotaE)
    have dis: "set (foot_quota h1 p) \<inter> set (foot_quota h1 b) = {}"
      using b(4) quota.bounded [OF p] p1(2) by fastforce
    define h2 where "h2 = h1[b := QuotaCell (q\<lparr>oPods := oPods qo, oUsed := oUsed qo\<rparr>)]"
    note t = take_over [OF p1(1) qo b(3) q dis, folded h2_def]
    have bh: "length h \<le> b" using b(4) foot_quota_at [OF q] by auto
    then have ch2: "changes {} h h2"
      unfolding h2_def using b(2) by (auto simp: changes_def same_on_def)
    have l2: "length h2 = length h1" by (simp add: h2_def)
    have "set (foot_quota h2 b) \<subseteq> (case map_of d ?ns of None \<Rightarrow> {} | Some p \<Rightarrow> set (foot_quota h p)) \<union> {length h..<length h2}"
      using t(2) b(4) p1(2) Some l2 by auto
    note put = put_quota [OF rep d(1) ch2 t(1) this]
    have "updateElasticQuotaH sc oldEQ newEQ h c = Some (h2[c := QuotaMap (AList.update ?ns b d)])"
      using b(1) d1 ns Some qo q by (simp add: updateElasticQuotaH_def quotas_at_def quota_at_def h2_def)
    moreover have "updateElasticQuota sc oldEQ newEQ es =
        AList.update ?ns (?w\<lparr>eqPods := eqPods (snd (es ! i)), eqUsed := eqUsed (snd (es ! i))\<rparr>) es"
      using ns es by (simp add: updateElasticQuota_def)
    ultimately show ?thesis using put by auto
  qed
qed

lemma rep_all_delete:
  "map fst d = map fst es \<Longrightarrow> rep_all rep foot h (map snd d) (map snd es) \<Longrightarrow>
   rep_all rep foot h (map snd (AList.delete k d)) (map snd (AList.delete k es)) \<and>
   set (foot_all foot h (map snd (AList.delete k d))) \<subseteq> set (foot_all foot h (map snd d)) \<and>
   map fst (AList.delete k d) = map fst (AList.delete k es)"
proof (induction d arbitrary: es)
  case (Cons x d)
  then obtain y es' where es: "es = y # es'" "fst y = fst x" "map fst d = map fst es'" by (cases es) auto
  with Cons.prems have "rep_all rep foot h (map snd d) (map snd es')" by (simp add: rep_all_Cons)
  with Cons.IH [of es'] Cons.prems es show ?case by (auto simp: AList.delete_eq rep_all_Cons)
qed (auto simp: AList.delete_eq)

lemma mutator_deleteElasticQuota: "mutator rep_quotas foot_quotas (deleteElasticQuotaH eq) (deleteElasticQuota eq)"
proof
  fix h c es
  assume rep: "rep_quotas h c es"
  then obtain d where d: "cell h c = Some (QuotaMap d)" "map fst d = map fst es" "distinct (map fst d)"
    "rep_all rep_quota foot_quota h (map snd d) (map snd es)" "c \<notin> set (foot_all foot_quota h (map snd d))"
    "foot_quotas h c = c # foot_all foot_quota h (map snd d)" "c < length h" by (rule rep_quotasE)
  let ?d' = "AList.delete (quotaNamespace eq) d" and ?es' = "AList.delete (quotaNamespace eq) es"
  let ?h' = "h[c := QuotaMap ?d']"
  note del = rep_all_delete [OF d(2,4), of "quotaNamespace eq"]
  have c: "cell ?h' c = Some (QuotaMap ?d')" using d(7) by simp
  have ch: "changes {c} h ?h'" by (rule changes_update) simp
  from quota.all_kept [OF _ ch, of "map snd ?d'" "map snd ?es'"] del d(5)
  have "rep_all rep_quota foot_quota ?h' (map snd ?d') (map snd ?es')"
    and f: "foot_all foot_quota ?h' (map snd ?d') = foot_all foot_quota h (map snd ?d')" by auto
  then have "rep_quotas ?h' c ?es'"
    by (intro rep_quotasI [OF c _ distinct_delete [OF d(3)]]) (use del d(5) in auto)
  with d(1,6) del f show "\<exists>h'. deleteElasticQuotaH eq h c = Some h' \<and> changes (set (foot_quotas h c)) h h' \<and>
      rep_quotas h' c (deleteElasticQuota eq es) \<and> set (foot_quotas h' c) \<subseteq> set (foot_quotas h c) \<union> {length h..<length h'}"
    by (auto simp: deleteElasticQuotaH_def deleteElasticQuota_def quotas_at_def foot_quotas_at [OF c] changes_update)
qed

section \<open>The plugin's operations\<close>

abbreviation on_quotas :: "(qheap \<Rightarrow> addr \<Rightarrow> qheap option) \<Rightarrow> (ElasticQuotaInfos \<Rightarrow> ElasticQuotaInfos) \<Rightarrow> bool" where
  "on_quotas \<equiv> mutator rep_quotas foot_quotas"

lemmas mutator_lookup_add = mutator_lookup [OF add_pod.mutator_axioms]
lemmas mutator_lookup_delete = mutator_lookup [OF delete_pod.mutator_axioms]

text \<open>The forms in which the operations call a procedure of a quota.\<close>

lemma drop_result: "(x \<bind> (\<lambda>(ok, h). Some h)) = map_option snd x"
  by (cases x) auto

lemma mutator_Unreserve: "on_quotas (UnreserveH sc pod) (Unreserve sc pod)"
  using mutator_lookup_delete [of sc pod "podNamespace pod"]
  unfolding UnreserveH_def [abs_def] Unreserve_def [abs_def] drop_result .

lemma mutator_deletePod: "on_quotas (deletePodH sc pod) (deletePod sc pod)"
  using mutator_lookup_delete [of sc pod "podNamespace pod"]
  unfolding deletePodH_def [abs_def] deletePod_def [abs_def] drop_result .

lemma mutator_updatePod: "on_quotas (updatePodH sc oldPod newPod) (updatePod sc oldPod newPod)"
proof (cases "podPhase oldPod \<noteq> PodSucceeded \<and> podPhase oldPod \<noteq> PodFailed \<and>
    podPhase newPod \<noteq> PodRunning \<and> podPhase newPod \<noteq> PodPending")
  case True
  then have "updatePodH sc oldPod newPod = deletePodH sc newPod" "updatePod sc oldPod newPod = deletePod sc newPod"
    by (auto simp: fun_eq_iff updatePodH_def updatePod_def)
  then show ?thesis using mutator_deletePod by simp
next
  case False
  then have "updatePodH sc oldPod newPod = (\<lambda>h c. Some h)" "updatePod sc oldPod newPod = id"
    by (auto simp: fun_eq_iff updatePodH_def updatePod_def)
  then show ?thesis using mutator_skip [OF rep_quotas_view] by simp
qed

lemma mutator_addPod: "on_quotas (addPodH sc eqList pod) (addPod sc eqList pod)"
proof
  fix h c es
  assume rep: "rep_quotas h c es"
  then obtain d where d: "cell h c = Some (QuotaMap d)" "map fst d = map fst es" by (auto elim!: rep_quotasE)
  note known = mutator.runs [OF mutator_lookup_add [of sc pod "podNamespace pod"] rep]
  have keys: "map_of d k = None \<longleftrightarrow> map_of es k = None" for k using d(2) by (rule map_of_keys)
  show "\<exists>h'. addPodH sc eqList pod h c = Some h' \<and> changes (set (foot_quotas h c)) h h' \<and>
      rep_quotas h' c (addPod sc eqList pod es) \<and> set (foot_quotas h' c) \<subseteq> set (foot_quotas h c) \<union> {length h..<length h'}"
  proof (cases "map_of d (podNamespace pod)")
    case (Some p)
    moreover from this obtain e where "map_of es (podNamespace pod) = Some e" using keys [of "podNamespace pod"] by auto
    ultimately show ?thesis using known d(1) by (simp add: addPodH_def addPod_def quotas_at_def drop_result)
  next
    case None
    with keys have none: "map_of es (podNamespace pod) = None" by simp
    show ?thesis
    proof (cases "\<exists>eq rest. eqList = Some (eq # rest)")
      case False
      with None none rep d(1) show ?thesis
        by (auto simp: addPodH_def addPod_def quotas_at_def split: option.splits list.splits)
    next
      case True
      then obtain eq rest where eq: "eqList = Some (eq # rest)" by blast
      let ?ns = "quotaNamespace eq" and ?w = "newElasticQuotaInfo sc (quotaNamespace eq) (quotaMin eq) (quotaMax eq) None"
      obtain b h1 where b: "newElasticQuotaInfoH sc ?ns (quotaMin eq) (quotaMax eq) None h = (b, h1)" "changes {} h h1"
        "rep_quota h1 b ?w" "set (foot_quota h1 b) \<subseteq> {length h..<length h1}"
        by (rule new_quota)
      then have "set (foot_quota h1 b) \<subseteq> (case map_of d ?ns of None \<Rightarrow> {} | Some p \<Rightarrow> set (foot_quota h p)) \<union> {length h..<length h1}"
        by blast
      note put = put_quota [OF rep d(1) b(2,3) this]
      let ?h2 = "h1[c := QuotaMap (AList.update ?ns b d)]"
      from mutator.runs [OF mutator_lookup_add [of sc pod ?ns] put(1)] obtain h3 where h3:
        "map_option snd (addPodIfNotPresentH sc pod ?h2 b) = Some h3" "changes (set (foot_quotas ?h2 c)) ?h2 h3"
        "rep_quotas h3 c (AList.update ?ns (snd (addPodIfNotPresent sc pod ?w)) es)"
        "set (foot_quotas h3 c) \<subseteq> set (foot_quotas ?h2 c) \<union> {length ?h2..<length h3}"
        using cell_bound [OF d(1)] changes_length [OF b(2)] by (auto simp: quotas_at_def)
      have "changes (set (foot_quotas h c)) h h3"
        by (rule changes_trans [OF put(2) h3(2)]) (use put(3) in auto)
      moreover have "addPodH sc eqList pod h c = Some h3"
        using None eq d(1) b(1) h3(1) by (simp add: addPodH_def quotas_at_def drop_result)
      moreover have "addPod sc eqList pod es = AList.update ?ns (snd (addPodIfNotPresent sc pod ?w)) es"
        using none eq by (simp add: addPod_def)
      moreover have "set (foot_quotas h3 c) \<subseteq> set (foot_quotas h c) \<union> {length h..<length h3}"
        using put(3) h3(4) changes_length [OF h3(2)] changes_length [OF put(2)] by fastforce
      ultimately show ?thesis using h3(3) by simp
    qed
  qed
qed

text \<open>What a reservation and the dry run change is the same, on the live quotas and on a snapshot.\<close>

lemma reserve_effect:
  "map_option snd (ReserveH sc pod h c) =
     do { d \<leftarrow> quotas_at h c;
          case map_of d (podNamespace pod) of None \<Rightarrow> Some h | Some e \<Rightarrow> map_option snd (addPodIfNotPresentH sc pod h e) }"
  "snd (Reserve sc pod es) =
     (case map_of es (podNamespace pod) of None \<Rightarrow> es
      | Some e \<Rightarrow> AList.update (podNamespace pod) (snd (addPodIfNotPresent sc pod e)) es)"
proof -
  show "map_option snd (ReserveH sc pod h c) =
     do { d \<leftarrow> quotas_at h c;
          case map_of d (podNamespace pod) of None \<Rightarrow> Some h | Some e \<Rightarrow> map_option snd (addPodIfNotPresentH sc pod h e) }"
    by (cases "quotas_at h c")
      (auto simp: ReserveH_def map_option_case split: option.splits bind_splits)
qed (auto simp: Reserve_def split: option.splits prod.splits)

lemma reserve_status:
  assumes rep: "rep_quotas h c es"
  shows "map_option fst (ReserveH sc pod h c) = Some (fst (Reserve sc pod es))"
proof -
  obtain d where d: "cell h c = Some (QuotaMap d)" "map fst d = map fst es" "distinct (map fst d)"
    "rep_all rep_quota foot_quota h (map snd d) (map snd es)" using rep by (rule rep_quotasE)
  show ?thesis
  proof (cases "map_of d (podNamespace pod)")
    case None
    with d(1) map_of_keys [OF d(2), of "podNamespace pod"] show ?thesis
      by (simp add: ReserveH_def Reserve_def quotas_at_def)
  next
    case (Some p)
    obtain i where e: "map_of es (podNamespace pod) = Some (snd (es ! i))" "rep_quota h p (snd (es ! i))"
      by (rule lookup_index [OF rep d(1) Some])
    from add_pod.answers [OF e(2), of sc pod] Some e d(1) show ?thesis
      by (auto simp: ReserveH_def Reserve_def quotas_at_def split: prod.splits)
  qed
qed

interpretation live_reserve: procedure rep_quotas foot_quotas "ReserveH sc pod" "Reserve sc pod" for sc pod
  using mutator_lookup_add [of sc pod "podNamespace pod"] reserve_status
  by (intro procedureI) (simp_all add: reserve_effect)

text \<open>The dry run, on a cycle state that holds a snapshot.\<close>

definition on_snapshot ::
    "(CycleState \<Rightarrow> Code \<times> CycleState) \<Rightarrow> ElasticQuotaInfos \<Rightarrow> Code \<times> ElasticQuotaInfos" where
  "on_snapshot f es =
     (let (code, cs) = f \<lparr>csSnapshot = Some es, csPreFilter = None\<rparr>
      in (code, case csSnapshot cs of None \<Rightarrow> es | Some es' \<Rightarrow> es'))"

lemma dry_run_results:
  "on_snapshot (AddPod sc pod) es = (Success,
     case map_of es (podNamespace pod) of None \<Rightarrow> es
     | Some e \<Rightarrow> AList.update (podNamespace pod) (snd (addPodIfNotPresent sc pod e)) es)"
  "on_snapshot (RemovePod sc pod) es = (Success,
     case map_of es (podNamespace pod) of None \<Rightarrow> es
     | Some e \<Rightarrow> AList.update (podNamespace pod) (snd (deletePodIfPresent sc pod e)) es)"
  by (simp_all add: on_snapshot_def AddPod_def RemovePod_def split: option.splits)

lemma always_success:
  assumes m: "on_quotas f g" and meth: "\<And>h s. meth h s = map_option (Pair Success) (f h s)"
    and result: "\<And>es. result es = (Success, g es)"
  shows "procedure rep_quotas foot_quotas meth result"
proof (rule procedureI)
  have "map_option snd (meth h s) = f h s" for h s by (cases "f h s") (simp_all add: meth)
  then show "on_quotas (\<lambda>h s. map_option snd (meth h s)) (\<lambda>es. snd (result es))" using m by (simp add: result)
  show "map_option fst (meth h s) = Some (fst (result es))" if "rep_quotas h s es" for h s es
    using mutator.runs [OF m that] by (auto simp: meth result)
qed

lemma succeed: "(x \<bind> (\<lambda>(ok, h). Some (Success, h))) = map_option (Pair Success) (map_option snd x)"
  by (cases x) auto

interpretation dry_add: procedure rep_quotas foot_quotas "\<lambda>h s. AddPodH sc pod h (Some s)" "on_snapshot (AddPod sc pod)" for sc pod
proof (rule always_success [OF mutator_lookup_add [of sc pod "podNamespace pod"]])
  show "AddPodH sc pod h (Some s) = map_option (Pair Success) (do { d \<leftarrow> quotas_at h s;
      case map_of d (podNamespace pod) of None \<Rightarrow> Some h | Some e \<Rightarrow> map_option snd (addPodIfNotPresentH sc pod h e) })" for h s
    by (cases "quotas_at h s") (simp_all add: AddPodH_def succeed split: option.splits)
qed (rule dry_run_results)

interpretation dry_remove: procedure rep_quotas foot_quotas "\<lambda>h s. RemovePodH sc pod h (Some s)" "on_snapshot (RemovePod sc pod)" for sc pod
proof (rule always_success [OF mutator_lookup_delete [of sc pod "podNamespace pod"]])
  show "RemovePodH sc pod h (Some s) = map_option (Pair Success) (do { d \<leftarrow> quotas_at h s;
      case map_of d (podNamespace pod) of None \<Rightarrow> Some h | Some e \<Rightarrow> map_option snd (deletePodIfPresentH sc pod h e) })" for h s
    by (cases "quotas_at h s") (simp_all add: RemovePodH_def succeed split: option.splits)
qed (rule dry_run_results)

section \<open>Snapshots\<close>

lemma clone_into:
  assumes "rep_all rep_quota foot_quota h (map snd d) vs" "set (foot_all foot_quota h (map snd d)) \<subseteq> {..<b}"
    "cell h b = Some (QuotaMap acc)" "rep_all rep_quota foot_quota h (map snd acc) ws"
    "set (foot_all foot_quota h (map snd acc)) \<subseteq> {Suc b..<length h}" "distinct (map fst (acc @ d))"
  shows "\<exists>h' acc'. cloneInto b d h = Some h' \<and> changes {b} h h' \<and> cell h' b = Some (QuotaMap acc') \<and>
    map fst acc' = map fst (acc @ d) \<and> rep_all rep_quota foot_quota h' (map snd acc') (ws @ vs) \<and>
    set (foot_all foot_quota h' (map snd acc')) \<subseteq> {Suc b..<length h'}"
  using assms
proof (induction d arbitrary: h vs acc ws)
  case Nil
  then show ?case by auto
next
  case (Cons kp d)
  then obtain v vs' where vs: "vs = v # vs'" by (cases vs) (auto dest: rep_all_length)
  with Cons.prems have kp: "rep_quota h (snd kp) v" and d: "rep_all rep_quota foot_quota h (map snd d) vs'"
    "set (foot_all foot_quota h (map snd d)) \<subseteq> {..<b}" by (simp_all add: rep_all_Cons)
  have bb: "b < length h" using Cons.prems(3) by (rule cell_bound)
  from quota_clone.clones [OF kp] obtain q h1 where q: "ElasticQuotaInfoClone h (snd kp) = Some (q, h1)" "changes {} h h1"
    "rep_quota h1 q v" "set (foot_quota h1 q) \<subseteq> {length h..<length h1}" by blast
  let ?acc = "acc @ [(fst kp, q)]"
  let ?h2 = "h1[b := QuotaMap ?acc]"
  have b1: "cell h1 b = Some (QuotaMap acc)" using q(2) bb Cons.prems(3) by (auto simp: changes_def same_on_def)
  have upd: "AList.update (fst kp) q acc = ?acc" using Cons.prems(6) by (intro update_new) (auto simp: map_of_eq_None_iff)
  have ch2: "changes {b} h1 ?h2" by (rule changes_update) simp
  have ch: "changes {b} h ?h2" by (rule changes_trans [OF changes_mono [OF q(2)] ch2]) auto
  have d2: "rep_all rep_quota foot_quota ?h2 (map snd d) vs'" "foot_all foot_quota ?h2 (map snd d) = foot_all foot_quota h (map snd d)"
    using quota.all_kept [OF d(1) ch] d(2) by auto
  have all1: "rep_all rep_quota foot_quota h1 (map snd ?acc) (ws @ [v])"
    using quota.all_grown [OF Cons.prems(4) q(2-4)] by simp
  have "foot_all foot_quota h1 (map snd acc) = foot_all foot_quota h (map snd acc)"
    using quota.all_kept [OF Cons.prems(4) q(2)] by simp
  then have in1: "set (foot_all foot_quota h1 (map snd ?acc)) \<subseteq> {Suc b..<length h1}"
    using q(4) Cons.prems(5) bb changes_length [OF q(2)] by fastforce
  then have all2: "rep_all rep_quota foot_quota ?h2 (map snd ?acc) (ws @ [v])"
    "foot_all foot_quota ?h2 (map snd ?acc) = foot_all foot_quota h1 (map snd ?acc)"
    using quota.all_kept [OF all1 ch2] by fastforce+
  have "\<exists>h' acc'. cloneInto b d ?h2 = Some h' \<and> changes {b} ?h2 h' \<and> cell h' b = Some (QuotaMap acc') \<and>
      map fst acc' = map fst (?acc @ d) \<and> rep_all rep_quota foot_quota h' (map snd acc') ((ws @ [v]) @ vs') \<and>
      set (foot_all foot_quota h' (map snd acc')) \<subseteq> {Suc b..<length h'}"
  proof (rule Cons.IH [OF d2(1) _ _ all2(1)])
    show "cell ?h2 b = Some (QuotaMap ?acc)" using b1 by (simp add: cell_bound)
  qed (use d d2(2) all2(2) in1 Cons.prems(6) in auto)
  then obtain h' acc' where h': "cloneInto b d ?h2 = Some h'" "changes {b} ?h2 h'" "cell h' b = Some (QuotaMap acc')"
    "map fst acc' = map fst (acc @ kp # d)" "rep_all rep_quota foot_quota h' (map snd acc') (ws @ v # vs')"
    "set (foot_all foot_quota h' (map snd acc')) \<subseteq> {Suc b..<length h'}" by auto
  moreover have "cloneInto b (kp # d) h = Some h'" using q(1) b1 upd h'(1) by (simp add: quotas_at_def)
  moreover have "changes {b} h h'" using ch h'(2) by (rule changes_trans) simp
  ultimately show ?case unfolding vs by blast
qed

interpretation snapshot: cloner rep_quotas foot_quotas snapshotElasticQuota
proof
  fix h c es
  assume rep: "rep_quotas h c es"
  then obtain d where d: "cell h c = Some (QuotaMap d)" "map fst d = map fst es" "distinct (map fst d)"
    "rep_all rep_quota foot_quota h (map snd d) (map snd es)" by (rule rep_quotasE)
  let ?h1 = "h @ [QuotaMap []]"
  have ch: "changes {} h ?h1" by (rule changes_append)
  from quota.all_kept [OF d(4) ch] quota.rep_all_bounded [OF d(4)]
  have "rep_all rep_quota foot_quota ?h1 (map snd d) (map snd es)" "set (foot_all foot_quota ?h1 (map snd d)) \<subseteq> {..<length h}"
    by auto
  from clone_into [OF this, of "[]" "[]"] d(3) obtain h' d' where h': "cloneInto (length h) d ?h1 = Some h'"
    "changes {length h} ?h1 h'" "cell h' (length h) = Some (QuotaMap d')" "map fst d' = map fst d"
    "rep_all rep_quota foot_quota h' (map snd d') (map snd es)"
    "set (foot_all foot_quota h' (map snd d')) \<subseteq> {Suc (length h)..<length h'}" by auto
  have "rep_quotas h' (length h) es"
    by (rule rep_quotasI [OF h'(3) _ _ h'(5)]) (use d h'(4,6) in auto)
  moreover have "changes {} h h'" by (rule changes_trans [OF ch h'(2)]) simp
  moreover have "set (foot_quotas h' (length h)) \<subseteq> {length h..<length h'}"
    using h'(6) cell_bound [OF h'(3)] by (auto simp: foot_quotas_at [OF h'(3)])
  ultimately show "\<exists>b h'. snapshotElasticQuota h c = Some (b, h') \<and> changes {} h h' \<and> rep_quotas h' b es \<and>
      set (foot_quotas h' b) \<subseteq> {length h..<length h'}"
    using d(1) h'(1) by (auto simp: snapshotElasticQuota_def ElasticQuotaInfosClone_def new_def quotas_at_def)
qed

end
