(* ===== verification/Quota_Heap_Properties.thy ===== *)
theory Quota_Heap_Properties
  imports Quota_Heap_Maps Capacity_Properties
begin

text \<open>
  The plugin with its scheduling cycles, on the heap and on values. Events and reservations work on
  the plugin's own quotas, \<open>PreFilter\<close> takes snapshots, the framework clones cycle states, and the dry
  runs of preemption change the snapshot of one cycle, in any order. The run on the heap never
  dereferences nil, returns the same statuses and leaves exactly the values of the run in which
  the plugin and every cycle have quotas of their own.
\<close>

datatype quota_op =
    OpReserve Pod
  | OpUnreserve Pod
  | OpAddQuota ElasticQuota
  | OpUpdateQuota ElasticQuota ElasticQuota
  | OpDeleteQuota ElasticQuota
  | OpAddPod "ElasticQuota list option" Pod
  | OpUpdatePod Pod Pod
  | OpDeletePod Pod
  | OpSnapshot
  | OpClone nat
  | OpDryAdd nat Pod
  | OpDryRemove nat Pod

section \<open>On the heap\<close>

text \<open>The plugin's map is the first root, the snapshots of the cycles follow.\<close>

record quota_heap =
  qhHeap :: qheap
  qhLive :: addr
  qhCycles :: "addr list"

text \<open>The operations that report nothing count as successful.\<close>

definition silent :: "qheap option \<Rightarrow> (Code \<times> qheap) option" where
  "silent r = map_option (Pair Success) r"

fun live_op :: "(string \<Rightarrow> bool) \<Rightarrow> quota_op \<Rightarrow> (qheap \<Rightarrow> addr \<Rightarrow> (Code \<times> qheap) option) option" where
  "live_op sc (OpReserve pod) = Some (ReserveH sc pod)"
| "live_op sc (OpUnreserve pod) = Some (\<lambda>h c. silent (UnreserveH sc pod h c))"
| "live_op sc (OpAddQuota eq) = Some (\<lambda>h c. silent (addElasticQuotaH sc eq h c))"
| "live_op sc (OpUpdateQuota old upd) = Some (\<lambda>h c. silent (updateElasticQuotaH sc old upd h c))"
| "live_op sc (OpDeleteQuota eq) = Some (\<lambda>h c. silent (deleteElasticQuotaH eq h c))"
| "live_op sc (OpAddPod eqs pod) = Some (\<lambda>h c. silent (addPodH sc eqs pod h c))"
| "live_op sc (OpUpdatePod old upd) = Some (\<lambda>h c. silent (updatePodH sc old upd h c))"
| "live_op sc (OpDeletePod pod) = Some (\<lambda>h c. silent (deletePodH sc pod h c))"
| "live_op sc _ = None"

definition snapshot_of :: "'a list \<Rightarrow> nat \<Rightarrow> 'a option" where
  "snapshot_of cs i = (if i < length cs then Some (cs ! i) else None)"

definition heap_step :: "(string \<Rightarrow> bool) \<Rightarrow> quota_op \<Rightarrow> quota_heap \<Rightarrow> (Code \<times> quota_heap) option" where
  "heap_step sc op s =
     (let h = qhHeap s; cs = qhCycles s
      in case op of
           OpSnapshot \<Rightarrow> do { (b, h') \<leftarrow> snapshotElasticQuota h (qhLive s); Some (Success, s\<lparr>qhHeap := h', qhCycles := cs @ [b]\<rparr>) }
         | OpClone i \<Rightarrow>
             (case snapshot_of cs i of
                None \<Rightarrow> Some (Error, s)
              | Some c \<Rightarrow> do { (b, h') \<leftarrow> SnapshotStateClone h c; Some (Success, s\<lparr>qhHeap := h', qhCycles := cs @ [b]\<rparr>) })
         | OpDryAdd i pod \<Rightarrow> do { (code, h') \<leftarrow> AddPodH sc pod h (snapshot_of cs i); Some (code, s\<lparr>qhHeap := h'\<rparr>) }
         | OpDryRemove i pod \<Rightarrow> do { (code, h') \<leftarrow> RemovePodH sc pod h (snapshot_of cs i); Some (code, s\<lparr>qhHeap := h'\<rparr>) }
         | _ \<Rightarrow> do { f \<leftarrow> live_op sc op; (code, h') \<leftarrow> f h (qhLive s); Some (code, s\<lparr>qhHeap := h'\<rparr>) })"

primrec heap_run :: "(string \<Rightarrow> bool) \<Rightarrow> quota_op list \<Rightarrow> quota_heap \<Rightarrow> (Code list \<times> quota_heap) option" where
  "heap_run sc [] s = Some ([], s)"
| "heap_run sc (op # ops) s = do {
     (code, s1) \<leftarrow> heap_step sc op s;
     (codes, s2) \<leftarrow> heap_run sc ops s1;
     Some (code # codes, s2)
   }"

definition heap_start :: quota_heap where
  "heap_start = \<lparr>qhHeap = [QuotaMap []], qhLive = 0, qhCycles = []\<rparr>"

section \<open>On values\<close>

type_synonym quota_values = "ElasticQuotaInfos \<times> ElasticQuotaInfos list"

fun value_op :: "(string \<Rightarrow> bool) \<Rightarrow> quota_op \<Rightarrow> ElasticQuotaInfos \<Rightarrow> Code \<times> ElasticQuotaInfos" where
  "value_op sc (OpReserve pod) = Reserve sc pod"
| "value_op sc (OpUnreserve pod) = (\<lambda>es. (Success, Unreserve sc pod es))"
| "value_op sc (OpAddQuota eq) = (\<lambda>es. (Success, addElasticQuota sc eq es))"
| "value_op sc (OpUpdateQuota old upd) = (\<lambda>es. (Success, updateElasticQuota sc old upd es))"
| "value_op sc (OpDeleteQuota eq) = (\<lambda>es. (Success, deleteElasticQuota eq es))"
| "value_op sc (OpAddPod eqs pod) = (\<lambda>es. (Success, addPod sc eqs pod es))"
| "value_op sc (OpUpdatePod old upd) = (\<lambda>es. (Success, updatePod sc old upd es))"
| "value_op sc (OpDeletePod pod) = (\<lambda>es. (Success, deletePod sc pod es))"
| "value_op sc _ = Pair Success"

definition dry_value ::
    "(ElasticQuotaInfos \<Rightarrow> Code \<times> ElasticQuotaInfos) \<Rightarrow> nat \<Rightarrow> ElasticQuotaInfos list \<Rightarrow> Code \<times> ElasticQuotaInfos list" where
  "dry_value f i snaps =
     (if i < length snaps then (fst (f (snaps ! i)), snaps[i := snd (f (snaps ! i))]) else (Error, snaps))"

definition value_step :: "(string \<Rightarrow> bool) \<Rightarrow> quota_op \<Rightarrow> quota_values \<Rightarrow> Code \<times> quota_values" where
  "value_step sc op s =
     (case op of
        OpSnapshot \<Rightarrow> (Success, fst s, snd s @ [fst s])
      | OpClone i \<Rightarrow> if i < length (snd s) then (Success, fst s, snd s @ [snd s ! i]) else (Error, s)
      | OpDryAdd i pod \<Rightarrow> map_prod id (Pair (fst s)) (dry_value (on_snapshot (AddPod sc pod)) i (snd s))
      | OpDryRemove i pod \<Rightarrow> map_prod id (Pair (fst s)) (dry_value (on_snapshot (RemovePod sc pod)) i (snd s))
      | _ \<Rightarrow> map_prod id (\<lambda>es. (es, snd s)) (value_op sc op (fst s)))"

primrec value_run :: "(string \<Rightarrow> bool) \<Rightarrow> quota_op list \<Rightarrow> quota_values \<Rightarrow> Code list \<times> quota_values" where
  "value_run sc [] s = ([], s)"
| "value_run sc (op # ops) s =
     (let (code, s1) = value_step sc op s; (codes, s2) = value_run sc ops s1 in (code # codes, s2))"

section \<open>Simulation\<close>

text \<open>The relation: the maps of quotas on the heap stand for the values and share no cell.\<close>

definition separate :: "quota_heap \<Rightarrow> quota_values \<Rightarrow> bool" where
  "separate s v = rep_all rep_quotas foot_quotas (qhHeap s) (qhLive s # qhCycles s) (fst v # snd v)"

text \<open>An update keeps the namespace of the quota.\<close>

fun op_ok :: "quota_op \<Rightarrow> bool" where
  "op_ok (OpUpdateQuota old upd) = (quotaNamespace old = quotaNamespace upd)"
| "op_ok _ = True"

lemma silent_method:
  "on_quotas f g \<Longrightarrow> procedure rep_quotas foot_quotas (\<lambda>h c. silent (f h c)) (\<lambda>es. (Success, g es))"
  by (rule always_success) (simp_all add: silent_def)

lemma live_method:
  assumes "live_op sc op = Some f" "op_ok op"
  shows "procedure rep_quotas foot_quotas f (value_op sc op)"
proof -
  note methods = live_reserve.procedure_axioms [of sc] silent_method [OF mutator_Unreserve [of sc]]
    silent_method [OF mutator_addElasticQuota [of sc]] silent_method [OF mutator_deleteElasticQuota]
    silent_method [OF mutator_addPod [of sc]] silent_method [OF mutator_updatePod [of sc]]
    silent_method [OF mutator_deletePod [of sc]]
  show ?thesis
  proof (cases op)
    case (OpUpdateQuota old upd)
    with assms silent_method [OF mutator_updateElasticQuota [of old upd sc]] show ?thesis by auto
  qed (use assms methods in auto)
qed

lemma live_simulation:
  assumes "separate s v" "live_op sc op = Some f" "op_ok op"
  shows "\<exists>h'. f (qhHeap s) (qhLive s) = Some (fst (value_op sc op (fst v)), h') \<and>
    separate (s\<lparr>qhHeap := h'\<rparr>) (snd (value_op sc op (fst v)), snd v)"
  using procedure.call_one [OF live_method [OF assms(2,3)], of "qhHeap s" "qhLive s # qhCycles s" "fst v # snd v" 0] assms(1)
  by (auto simp: separate_def)

lemma dry_simulation:
  assumes m: "procedure rep_quotas foot_quotas (\<lambda>h c. f h (Some c)) g" and sep: "separate s v"
    and none: "\<And>h. f h None = Some (Error, h)"
  shows "\<exists>h'. f (qhHeap s) (snapshot_of (qhCycles s) i) = Some (fst (dry_value g i (snd v)), h') \<and>
    separate (s\<lparr>qhHeap := h'\<rparr>) (fst v, snd (dry_value g i (snd v)))"
proof -
  have len: "length (qhCycles s) = length (snd v)" using rep_all_length [OF sep [unfolded separate_def]] by simp
  show ?thesis
  proof (cases "i < length (snd v)")
    case True
    with len procedure.call_one [OF m, of "qhHeap s" "qhLive s # qhCycles s" "fst v # snd v" "Suc i"] sep show ?thesis
      by (auto simp: separate_def snapshot_of_def dry_value_def)
  next
    case False
    with len sep none show ?thesis by (simp add: separate_def snapshot_of_def dry_value_def)
  qed
qed

lemma clone_simulation:
  assumes "separate s v" "i < length (fst v # snd v)"
  shows "\<exists>b h'. snapshotElasticQuota (qhHeap s) ((qhLive s # qhCycles s) ! i) = Some (b, h') \<and>
    separate (s\<lparr>qhHeap := h', qhCycles := qhCycles s @ [b]\<rparr>) (fst v, snd v @ [(fst v # snd v) ! i])"
  using snapshot.clone_one [of "qhHeap s" "qhLive s # qhCycles s" "fst v # snd v" i] assms
    rep_all_length [OF assms(1) [unfolded separate_def]]
  by (auto simp: separate_def)

lemma step_simulation:
  assumes sep: "separate s v" and ok: "op_ok op"
  shows "\<exists>s'. heap_step sc op s = Some (fst (value_step sc op v), s') \<and> separate s' (snd (value_step sc op v))"
proof (cases op)
  case OpSnapshot
  with clone_simulation [OF sep, of 0] show ?thesis by (auto simp: heap_step_def value_step_def)
next
  case (OpClone i)
  have "length (qhCycles s) = length (snd v)" using rep_all_length [OF sep [unfolded separate_def]] by simp
  with OpClone clone_simulation [OF sep, of "Suc i"] sep show ?thesis
    by (auto simp: heap_step_def value_step_def snapshot_of_def SnapshotStateClone_def snapshotElasticQuota_def)
next
  case (OpDryAdd i pod)
  with dry_simulation [OF dry_add.procedure_axioms [of sc pod] sep, of i] show ?thesis
    by (auto simp: heap_step_def value_step_def AddPodH_def)
next
  case (OpDryRemove i pod)
  with dry_simulation [OF dry_remove.procedure_axioms [of sc pod] sep, of i] show ?thesis
    by (auto simp: heap_step_def value_step_def RemovePodH_def)
qed (use live_simulation [OF sep _ ok, of sc] in \<open>auto simp: heap_step_def value_step_def\<close>)

lemma run_simulation:
  "separate s v \<Longrightarrow> list_all op_ok ops \<Longrightarrow>
   \<exists>s'. heap_run sc ops s = Some (fst (value_run sc ops v), s') \<and> separate s' (snd (value_run sc ops v))"
proof (induction ops arbitrary: s v)
  case (Cons op ops)
  then obtain s1 where s1: "heap_step sc op s = Some (fst (value_step sc op v), s1)" "separate s1 (snd (value_step sc op v))"
    using step_simulation by fastforce
  with Cons.IH [OF s1(2)] Cons.prems(2) show ?case by (auto simp: split_beta)
qed simp

lemma separate_start: "separate heap_start ([], [])"
  by (simp add: separate_def heap_start_def rep_all_Cons foot_quotas_at cell_def rep_quotas_def quotas_at_def)

text \<open>
  C19. Snapshots are isolated from the plugin's quotas and from each other. Start the plugin and let
  quota and pod events, reservations, snapshots, clones of cycle states and dry-run changes come in any
  order: working through pointers never hits nil, every call returns the status it returns on
  values, and afterwards the map of the plugin and the map of every scheduling cycle stand for
  exactly the values of a run in which each had its own, and no two of them share a cell.
\<close>

theorem snapshots_are_isolated:
  assumes "list_all op_ok ops"
  shows "\<exists>s. heap_run sc ops heap_start = Some (fst (value_run sc ops ([], [])), s) \<and>
    rep_quotas (qhHeap s) (qhLive s) (fst (snd (value_run sc ops ([], [])))) \<and>
    list_all2 (rep_quotas (qhHeap s)) (qhCycles s) (snd (snd (value_run sc ops ([], [])))) \<and>
    distinct (foot_all foot_quotas (qhHeap s) (qhLive s # qhCycles s))"
  using run_simulation [OF separate_start assms, of sc] by (auto simp: separate_def rep_all_def)

definition ex_history :: "quota_op list" where
  "ex_history =
     [OpAddQuota ex_quota, OpReserve (ex_quota_pod ''a''), OpSnapshot, OpDryRemove 0 (ex_quota_pod ''a''),
      OpClone 0, OpDryAdd 1 (ex_quota_pod ''b''), OpUpdateQuota ex_quota ex_quota]"

theorem snapshots_are_isolated_witness:
  "\<exists>s live snaps. heap_run ex_scalar ex_history heap_start = Some (replicate 7 Success, s) \<and>
     rep_quotas (qhHeap s) (qhLive s) live \<and> list_all2 (rep_quotas (qhHeap s)) (qhCycles s) snaps \<and>
     map (eqPods \<circ> snd) live = [[''a'']] \<and> map (map (eqPods \<circ> snd)) snaps = [[[]], [[''b'']]]"
proof -
  let ?v = "value_run ex_scalar ex_history ([], [])"
  have ok: "list_all op_ok ex_history" by (simp add: ex_history_def)
  have "fst ?v = replicate 7 Success" "map (eqPods \<circ> snd) (fst (snd ?v)) = [[''a'']]"
    "map (map (eqPods \<circ> snd)) (snd (snd ?v)) = [[[]], [[''b'']]]"
    by code_simp+
  moreover from snapshots_are_isolated [OF ok, of ex_scalar] obtain s where
    "heap_run ex_scalar ex_history heap_start = Some (fst ?v, s)" "rep_quotas (qhHeap s) (qhLive s) (fst (snd ?v))"
    "list_all2 (rep_quotas (qhHeap s)) (qhCycles s) (snd (snd ?v))" by blast
  ultimately show ?thesis
    by (intro exI [of _ s] exI [of _ "fst (snd ?v)"] exI [of _ "snd (snd ?v)"]) simp
qed

end
