(* ===== verification/Capacity_Events.thy ===== *)
theory Capacity_Events
  imports Capacity_Properties
begin

text \<open>
  How events reach the capacity plugin: \<open>New\<close> of \<^verbatim>\<open>capacity_scheduling.go\<close> registers its handlers
  behind filters with two informers, and each informer calls them from its own goroutine. Modelled
  are the filters, the filtering handler of client-go, the type assertions of the handlers (\<open>None\<close> is
  a panic), and the two halves of \<open>addElasticQuota\<close>, the first of which runs without the lock. Then
  the candidates the preemption evaluator asks the plugin for.
\<close>

section \<open>Filtered delivery\<close>

text \<open>What an informer hands over: an object, a tombstone for an object whose deletion it missed (of
  the expected type or not), or an object of another type.\<close>

datatype 'a delivery = Object 'a | DeletedFinalStateUnknown "'a option" | OtherObject

fun eqFilter :: "ElasticQuota delivery \<Rightarrow> bool" where
  "eqFilter (Object _) = True"
| "eqFilter (DeletedFinalStateUnknown t) = (t \<noteq> None)"
| "eqFilter OtherObject = False"

fun podFilter :: "Pod delivery \<Rightarrow> bool" where
  "podFilter (Object p) = assignedPod p"
| "podFilter (DeletedFinalStateUnknown (Some p)) = assignedPod p"
| "podFilter (DeletedFinalStateUnknown None) = False"
| "podFilter OtherObject = False"

text \<open>\<^verbatim>\<open>obj.(*T)\<close>: a tombstone is not of the type.\<close>

fun asserted :: "'a delivery \<Rightarrow> 'a option" where
  "asserted (Object a) = Some a"
| "asserted _ = None"

text \<open>\<^verbatim>\<open>cache.FilteringResourceEventHandler\<close> around three handlers.\<close>

definition FilteredAdd :: "('d \<Rightarrow> bool) \<Rightarrow> ('d \<Rightarrow> 's \<Rightarrow> 's option) \<Rightarrow> 'd \<Rightarrow> 's \<Rightarrow> 's option" where
  "FilteredAdd flt add obj s = (if \<not> flt obj then Some s else add obj s)"

definition FilteredUpdate ::
    "('d \<Rightarrow> bool) \<Rightarrow> ('d \<Rightarrow> 's \<Rightarrow> 's option) \<Rightarrow> ('d \<Rightarrow> 'd \<Rightarrow> 's \<Rightarrow> 's option) \<Rightarrow> ('d \<Rightarrow> 's \<Rightarrow> 's option) \<Rightarrow>
     'd \<Rightarrow> 'd \<Rightarrow> 's \<Rightarrow> 's option" where
  "FilteredUpdate flt add upd del oldObj newObj s =
     (if flt newObj \<and> flt oldObj then upd oldObj newObj s
      else if flt newObj then add newObj s
      else if flt oldObj then del oldObj s
      else Some s)"

definition FilteredDelete :: "('d \<Rightarrow> bool) \<Rightarrow> ('d \<Rightarrow> 's \<Rightarrow> 's option) \<Rightarrow> 'd \<Rightarrow> 's \<Rightarrow> 's option" where
  "FilteredDelete flt del obj s = (if \<not> flt obj then Some s else del obj s)"

datatype informer_event =
    QuotaAdded "ElasticQuota delivery"
  | QuotaUpdated "ElasticQuota delivery" "ElasticQuota delivery"
  | QuotaDeleted "ElasticQuota delivery"
  | PodAdded "Pod delivery"
  | PodUpdated "Pod delivery" "Pod delivery"
  | PodDeleted "Pod delivery"

text \<open>The handlers as \<open>New\<close> registers them. \<open>list\<close> answers the listing of the quotas of a namespace.\<close>

definition onPodAdd ::
    "(string \<Rightarrow> bool) \<Rightarrow> (string \<Rightarrow> ElasticQuota list option) \<Rightarrow> Pod delivery \<Rightarrow> ElasticQuotaInfos \<Rightarrow> ElasticQuotaInfos option" where
  "onPodAdd sc list d s = map_option (\<lambda>p. addPod sc (list (podNamespace p)) p s) (asserted d)"

definition onPodUpdate ::
    "(string \<Rightarrow> bool) \<Rightarrow> Pod delivery \<Rightarrow> Pod delivery \<Rightarrow> ElasticQuotaInfos \<Rightarrow> ElasticQuotaInfos option" where
  "onPodUpdate sc d d' s =
     (case (asserted d, asserted d') of (Some p, Some p') \<Rightarrow> Some (updatePod sc p p' s) | _ \<Rightarrow> None)"

definition onPodDelete :: "(string \<Rightarrow> bool) \<Rightarrow> Pod delivery \<Rightarrow> ElasticQuotaInfos \<Rightarrow> ElasticQuotaInfos option" where
  "onPodDelete sc d s = map_option (\<lambda>p. deletePod sc p s) (asserted d)"

definition onQuotaAdd :: "(string \<Rightarrow> bool) \<Rightarrow> ElasticQuota delivery \<Rightarrow> ElasticQuotaInfos \<Rightarrow> ElasticQuotaInfos option" where
  "onQuotaAdd sc d s = map_option (\<lambda>q. addElasticQuota sc q s) (asserted d)"

definition onQuotaUpdate ::
    "(string \<Rightarrow> bool) \<Rightarrow> ElasticQuota delivery \<Rightarrow> ElasticQuota delivery \<Rightarrow> ElasticQuotaInfos \<Rightarrow> ElasticQuotaInfos option" where
  "onQuotaUpdate sc d d' s =
     (case (asserted d, asserted d') of (Some q, Some q') \<Rightarrow> Some (updateElasticQuota sc q q' s) | _ \<Rightarrow> None)"

definition onQuotaDelete :: "ElasticQuota delivery \<Rightarrow> ElasticQuotaInfos \<Rightarrow> ElasticQuotaInfos option" where
  "onQuotaDelete d s = map_option (\<lambda>q. deleteElasticQuota q s) (asserted d)"

fun deliver ::
    "(string \<Rightarrow> bool) \<Rightarrow> (string \<Rightarrow> ElasticQuota list option) \<Rightarrow> informer_event \<Rightarrow> ElasticQuotaInfos \<Rightarrow> ElasticQuotaInfos option" where
  "deliver sc list (QuotaAdded d) s = FilteredAdd eqFilter (onQuotaAdd sc) d s"
| "deliver sc list (QuotaUpdated d d') s =
     FilteredUpdate eqFilter (onQuotaAdd sc) (onQuotaUpdate sc) onQuotaDelete d d' s"
| "deliver sc list (QuotaDeleted d) s = FilteredDelete eqFilter onQuotaDelete d s"
| "deliver sc list (PodAdded d) s = FilteredAdd podFilter (onPodAdd sc list) d s"
| "deliver sc list (PodUpdated d d') s =
     FilteredUpdate podFilter (onPodAdd sc list) (onPodUpdate sc) (onPodDelete sc) d d' s"
| "deliver sc list (PodDeleted d) s = FilteredDelete podFilter (onPodDelete sc) d s"

text \<open>What a running informer delivers: objects of its type whose requests and namespaces do not change, and a
  tombstone only as a deletion.\<close>

fun orderly :: "(Pod \<Rightarrow> bool) \<Rightarrow> informer_event \<Rightarrow> bool" where
  "orderly ok (QuotaAdded (Object q)) = True"
| "orderly ok (QuotaUpdated (Object q) (Object q')) = (quotaNamespace q = quotaNamespace q')"
| "orderly ok (QuotaDeleted (Object q)) = True"
| "orderly ok (PodAdded (Object p)) = ok p"
| "orderly ok (PodUpdated (Object p) (Object p')) = (ok p \<and> ok p')"
| "orderly ok (PodDeleted (Object p)) = ok p"
| "orderly ok _ = False"

text \<open>Delivery is safe without tombstones: no handler panics, and what it does is one of the events of the
  step relation of \<open>Capacity_Invariants\<close>, or nothing.\<close>

lemma delivered_event_is_step:
  assumes "orderly (honest sc req) ev"
  shows "\<exists>s'. deliver sc list ev s = Some s' \<and> (cap_step sc req)\<^sup>*\<^sup>* s s'"
  using assms
  by (cases "(honest sc req, ev)" rule: orderly.cases)
    (auto simp: FilteredAdd_def FilteredUpdate_def FilteredDelete_def onPodAdd_def onPodUpdate_def onPodDelete_def
      onQuotaAdd_def onQuotaUpdate_def onQuotaDelete_def intro: cap_step.intros)

text \<open>A pod is charged when its update shows that it was assigned to a node.\<close>

lemma assignment_is_charged:
  "\<not> assignedPod p \<Longrightarrow> assignedPod p' \<Longrightarrow>
   deliver sc list (PodUpdated (Object p) (Object p')) s = Some (addPod sc (list (podNamespace p')) p' s)"
  by (simp add: FilteredUpdate_def onPodAdd_def)

section \<open>Defects\<close>

text \<open>The tombstone of a quota or of an assigned pod passes the filter and fails the type assertion.\<close>

lemma capacity_tombstones_panic:
  "deliver sc list (QuotaDeleted (DeletedFinalStateUnknown (Some q))) s = None"
  "assignedPod p \<Longrightarrow> deliver sc list (PodDeleted (DeletedFinalStateUnknown (Some p))) s = None"
  by (simp_all add: FilteredDelete_def onQuotaDelete_def onPodDelete_def)

text \<open>\<open>addElasticQuota\<close> in two parts: it looks the quota up without the lock and stores the new record under it.\<close>

definition addElasticQuota_check :: "(string \<Rightarrow> bool) \<Rightarrow> ElasticQuota \<Rightarrow> ElasticQuotaInfos \<Rightarrow> ElasticQuotaInfo option" where
  "addElasticQuota_check sc eq infos =
     (if has_key infos (quotaNamespace eq) then None
      else Some (newElasticQuotaInfo sc (quotaNamespace eq) (quotaMin eq) (quotaMax eq) None))"

definition addElasticQuota_store :: "ElasticQuota \<Rightarrow> ElasticQuotaInfo \<Rightarrow> ElasticQuotaInfos \<Rightarrow> ElasticQuotaInfos" where
  "addElasticQuota_store eq e infos = AList.update (quotaNamespace eq) e infos"

lemma addElasticQuota_parts:
  "addElasticQuota sc eq infos =
     (case addElasticQuota_check sc eq infos of None \<Rightarrow> infos | Some e \<Rightarrow> addElasticQuota_store eq e infos)"
  by (simp add: addElasticQuota_def addElasticQuota_check_def addElasticQuota_store_def)

text \<open>When the pod informer charges the first pod of the namespace between the two parts, the record that holds
  the pod is overwritten by an empty one.\<close>

lemma add_quota_race_loses_pod:
  assumes "map_of s (podNamespace p) = None" "quotaNamespace eq = podNamespace p" "podUID p \<noteq> ''''"
    "list (podNamespace p) = Some [eq]" "assignedPod p"
  shows "\<exists>e s1 e1. addElasticQuota_check sc eq s = Some e \<and>
    deliver sc list (PodAdded (Object p)) s = Some s1 \<and> map_of s1 (podNamespace p) = Some e1 \<and> podUID p \<in> set (eqPods e1) \<and>
    map_of (addElasticQuota_store eq e s1) (podNamespace p) = Some e \<and> eqPods e = []"
proof -
  have "podUID p \<in> set (eqPods (snd (addPodIfNotPresent sc p e)))" for e
    using assms(3) by (auto simp: addPodIfNotPresent_def GetPodKey_def insertKey_def)
  with assms show ?thesis
    by (auto simp: addElasticQuota_check_def addElasticQuota_store_def FilteredAdd_def onPodAdd_def addPod_def newElasticQuotaInfo_def)
qed

section \<open>Candidates\<close>

text \<open>The preemptor considers every node, and the victims of a node are those of the last candidate of its name.\<close>

definition capGetOffsetAndNumCandidates :: "int32 \<Rightarrow> int32 \<times> int32" where
  "capGetOffsetAndNumCandidates n = (0, n)"

record 'v candidate =
  candVictims :: 'v
  candName :: string

definition capCandidatesToVictimsMap :: "'v candidate list \<Rightarrow> (string, 'v) gomap" where
  "capCandidatesToVictimsMap candidates = fold (\<lambda>c m. AList.update (candName c) (candVictims c) m) candidates []"

lemma candidates_lookup:
  "map_of (capCandidatesToVictimsMap cs) n = map_option candVictims (find (\<lambda>c. candName c = n) (rev cs))"
proof -
  have "map_of (fold (\<lambda>c m. AList.update (candName c) (candVictims c) m) cs m) n =
      (case find (\<lambda>c. candName c = n) (rev cs) of None \<Rightarrow> map_of m n | Some c \<Rightarrow> Some (candVictims c))" for m
    by (induction cs rule: rev_induct) auto
  then show ?thesis by (auto simp: capCandidatesToVictimsMap_def split: option.split)
qed

end
