(* ===== verification/Reservation_Lifecycle.thy ===== *)
theory Reservation_Lifecycle
  imports Vaclab_Properties
begin

text \<open>
  A reservation from the scheduler's decision to the end of the pod: the scheduler reads the amounts
  off the pod and adds a request to the node's object; the operator recomputes the object from the
  pods it finds, first the pending one by name, then the running one on the node. Which requests
  survive, and with which amounts.
\<close>

section \<open>The operator's view of one pod\<close>

definition is_live :: "Pod \<Rightarrow> bool" where
  "is_live p \<longleftrightarrow> podDeletionTimestamp p = None \<and> podPhase p \<noteq> PodSucceeded \<and> podPhase p \<noteq> PodFailed"

lemma podsWithBw_snoc: "podsWithBw cfg (pods @ [p]) = podsWithBw_step cfg p (podsWithBw cfg pods)"
  by (simp add: podsWithBw_def)

lemma podsWithBw_find:
  assumes "p \<in> set pods" "\<forall>q \<in> set pods. podUID q = podUID p \<longrightarrow> q = p" "is_live p" "hasBandwidthAnnotation cfg p"
  shows "map_of (podsWithBw cfg pods) (podUID p) = Some p"
  using assms(1,2)
proof (induction pods rule: rev_induct)
  case (snoc q pods)
  show ?case
  proof (cases "q = p")
    case True
    with assms(3,4) show ?thesis by (simp add: podsWithBw_snoc podsWithBw_step_def is_live_def)
  next
    case False
    with snoc.prems have "podUID q \<noteq> podUID p" "p \<in> set pods" by auto
    with snoc show ?thesis by (simp add: podsWithBw_snoc podsWithBw_step_def)
  qed
qed simp

lemma podsWithBw_absent:
  assumes "\<forall>q \<in> set pods. podUID q = u \<longrightarrow> \<not> hasBandwidthAnnotation cfg q"
  shows "map_of (podsWithBw cfg pods) u = None"
proof (rule ccontr)
  assume "map_of (podsWithBw cfg pods) u \<noteq> None"
  then obtain p where p: "map_of (podsWithBw cfg pods) u = Some p" by auto
  then have "podUID p = u" using keyed_podsWithBw [of cfg pods] by (simp add: keyed_by_uid_def)
  with p assms podsWithBw_live [OF p] show False by blast
qed

text \<open>The two stages of a pod in which its bandwidth is held: found by its name and pending, or found on the node with the
  annotations \<open>ann\<close>.\<close>

inductive holds_bandwidth :: "client \<Rightarrow> BandwidthConfig \<Rightarrow> Pod list \<Rightarrow> Pod \<Rightarrow> (string, string) gomap option \<Rightarrow> Pod \<Rightarrow> bool"
  for cl cfg pods pod ann where
  pending: "map_of (podsWithBw cfg pods) (podUID pod) = None \<Longrightarrow>
    clGetPod cl [] (podName pod) (podNamespace pod) = Inr p \<Longrightarrow> podUID p = podUID pod \<Longrightarrow> podPhase p = PodPending \<Longrightarrow>
    holds_bandwidth cl cfg pods pod ann p"
| running: "p \<in> set pods \<Longrightarrow> \<forall>q \<in> set pods. podUID q = podUID pod \<longrightarrow> q = p \<Longrightarrow> podUID p = podUID pod \<Longrightarrow>
    is_live p \<Longrightarrow> podAnnotations p = ann \<Longrightarrow> holds_bandwidth cl cfg pods pod ann p"

section \<open>What a synchronisation keeps\<close>

text \<open>The synchronised object has a request of the pod with these amounts, and an account of it: both directions charged to the
  local datapath, and to the network unless the whole workload is on the node.\<close>

definition held :: "Bandwidth \<Rightarrow> string \<Rightarrow> int64 \<Rightarrow> int64 \<Rightarrow> bool" where
  "held bw uid ul dl \<longleftrightarrow>
     (\<exists>q \<in> set (specRequests (bwSpec bw)). \<exists>v \<in> set (stReservations (bwStatus bw)).
        reqPodUid q = uid \<and> reqBandwidth q = BandwidthDefinition ul dl \<and> resPodUid v = uid \<and>
        resBandwidth v = Capacity (BandwidthDefinition ul dl)
          (if reqLinkLocal q then BandwidthDefinition 0 0 else BandwidthDefinition ul dl))"

lemma synced_held:
  assumes "r \<in> set (specRequests (bwSpec bw))" "resolve cl (podsWithBw cfg pods) r = Some (p, b)"
    "amounts pq cfg r p b = (ul, dl)"
  shows "held (synced_object cl pq cfg pods bw) (podUID p) ul dl"
proof -
  from kept_member [OF assms, of "specNode (bwSpec bw)"] obtain l where
    k: "(requestFor p l ul dl, reservationFor p ul dl (if l then 0 else ul) (if l then 0 else dl))
      \<in> set (kept cl pq cfg (specNode (bwSpec bw)) (podsWithBw cfg pods) (specRequests (bwSpec bw)))" by blast
  have "requestFor p l ul dl \<in> set (specRequests (bwSpec (synced_object cl pq cfg pods bw)))"
    "reservationFor p ul dl (if l then 0 else ul) (if l then 0 else dl) \<in> set (stReservations (bwStatus (synced_object cl pq cfg pods bw)))"
    using imageI [OF k, of fst] imageI [OF k, of snd] by (simp_all add: synced_object_def Let_def)
  then show ?thesis
    unfolding held_def by (elim rev_bexI) (simp add: requestFor_def reservationFor_def Let_def)
qed

text \<open>Amounts that are not zero come from an annotation.\<close>

lemma annotated_has:
  "annotated pq (annotations p) (cfgEgress cfg) \<noteq> 0 \<or> annotated pq (annotations p) (cfgIngress cfg) \<noteq> 0 \<Longrightarrow>
   hasBandwidthAnnotation cfg p"
  by (auto simp: annotated_def annotations_def hasBandwidthAnnotation_def annotation_def split: option.splits)

lemma holds_resolve:
  assumes q: "quantity_M pq" "defaults_ok hc" and keys: "hcEgress hc = cfgEgress cfg" "hcIngress hc = cfgIngress cfg"
    and ex: "ExtractPodBandwidthRequirement pq hc pod = (ul, dl, pod')" "ul \<noteq> 0 \<or> dl \<noteq> 0"
    and h: "holds_bandwidth cl cfg pods pod (podAnnotations pod') p"
    and r: "r = schedRequest (podName pod) (podNamespace pod) (podUID pod) ul dl"
  shows "podUID p = podUID pod \<and> (\<exists>b. resolve cl (podsWithBw cfg pods) r = Some (p, b) \<and> amounts pq cfg r p b = (ul, dl))"
  using h
proof cases
  case pending
  then show ?thesis by (intro conjI exI [of _ True]) (simp_all add: resolve_def r schedRequest_def amounts_def)
next
  case running
  have a: "annotations p = annotations pod'" using running(5) by (simp add: annotations_def)
  with extract_annotated [OF q ex(1)] keys have amt: "annotated pq (annotations p) (cfgEgress cfg) = ul"
    "annotated pq (annotations p) (cfgIngress cfg) = dl" by simp_all
  with ex(2) have "hasBandwidthAnnotation cfg p" by (intro annotated_has) auto
  from podsWithBw_find [OF running(1) running(2) [folded running(3)] running(4) this]
  have "map_of (podsWithBw cfg pods) (podUID pod) = Some p" unfolding running(3) .
  with amt running(3) show ?thesis
    by (intro conjI exI [of _ False]) (simp_all add: resolve_def r schedRequest_def amounts_def operator_annotated)
qed

lemma PreFilter_stores:
  assumes "fst (run_state (PreFilter cl pq hc st pod) tr) = (Success, st', pod')"
  obtains s where "getPreFilterState st' = Some s"
    "ExtractPodBandwidthRequirement pq hc pod = (pfsUlMbps s, pfsDlMbps s, pod')"
  using assms
  by (auto simp: PreFilter_def ListBandwidths_def Let_def split: prod.splits if_splits sum.splits intro: that)

section \<open>Defaults are not persisted\<close>

text \<open>
  \<^verbatim>\<open>ExtractPodBandwidthRequirement\<close> writes the defaults into the scheduler's copy of the pod; the binding that is sent
  to the server names the pod and the node only. So a pod created without bandwidth annotations still has none when it runs, and
  the first synchronisation after it left the pending phase drops what the scheduler reserved for it.
\<close>

theorem default_reservation_dropped:
  assumes "\<not> hasBandwidthAnnotation cfg pod" "\<forall>q \<in> set pods. podUID q = podUID pod \<longrightarrow> podAnnotations q = podAnnotations pod"
    and "\<forall>p. clGetPod cl [] (podName pod) (podNamespace pod) = Inr p \<longrightarrow> podPhase p \<noteq> PodPending"
    and "distinct (map reqPodUid (specRequests (bwSpec bw)))"
    and "schedRequest (podName pod) (podNamespace pod) (podUID pod) ul dl \<in> set (specRequests (bwSpec bw))"
  shows "podUID pod \<notin> reqPodUid ` set (specRequests (bwSpec (synced_object cl pq cfg pods bw)))"
proof
  let ?m = "podsWithBw cfg pods" and ?r = "schedRequest (podName pod) (podNamespace pod) (podUID pod) ul dl"
  assume "podUID pod \<in> reqPodUid ` set (specRequests (bwSpec (synced_object cl pq cfg pods bw)))"
  then obtain q where "q \<in> set (specRequests (bwSpec (synced_object cl pq cfg pods bw)))" "reqPodUid q = podUID pod"
    by (metis imageE)
  then obtain req p b where req: "req \<in> set (specRequests (bwSpec bw))" "resolve cl ?m req = Some (p, b)" "podUID p = podUID pod"
    using kept_source [of q cl pq cfg "specNode (bwSpec bw)" ?m "specRequests (bwSpec bw)"] by auto
  then have "reqPodUid req = reqPodUid ?r" using resolve_uid [OF keyed_podsWithBw] by (metis schedRequest_def BandwidthRequest.select_convs(3))
  with assms(4,5) req(1) have r: "req = ?r" by (metis distinct_map inj_onD)
  have "map_of ?m (podUID pod) = None"
    by (rule podsWithBw_absent) (use assms(1,2) in \<open>auto simp: hasBandwidthAnnotation_def annotation_def\<close>)
  with req(2) r assms(3) show False
    by (auto simp: resolve_def schedRequest_def split: sum.splits if_splits)
qed

end
