(* ===== verification/Operator_Watch.thy ===== *)
theory Operator_Watch
  imports Operator_Properties
begin

text \<open>
  What makes the operator recompute an object: \<open>SetupWithManager\<close> of \<^verbatim>\<open>bandwidth_controller.go\<close> indexes pods by their node and
  maps events on nodes and pods to requests for reconciliation. The question is whether an event that can change what a
  synchronisation computes for a node also enqueues that node.
\<close>

section \<open>Index and watches\<close>

definition nodeNameIndex :: "Pod \<Rightarrow> string list" where
  "nodeNameIndex pod = (if podNodeName pod = '''' then [] else [podNodeName pod])"

definition nodeToRequests :: "Node \<Rightarrow> string list" where
  "nodeToRequests n = [nodeName n]"

definition podToRequests :: "Pod \<Rightarrow> string list" where
  "podToRequests p = (if podNodeName p = '''' then [] else [podNodeName p])"

text \<open>\<^verbatim>\<open>EnqueueRequestsFromMapFunc\<close>: the requests of the objects of an event, each once.\<close>

definition mapAndEnqueue :: "('o \<Rightarrow> string list) \<Rightarrow> 'o \<Rightarrow> string list \<Rightarrow> string list" where
  "mapAndEnqueue toRequests obj reqs = fold (\<lambda>r reqs. if r \<in> set reqs then reqs else reqs @ [r]) (toRequests obj) reqs"

datatype cluster_event =
    BandwidthEvent Bandwidth
  | NodeEvent Node
  | PodCreated Pod
  | PodUpdated Pod Pod
  | PodDeleted Pod

fun enqueued :: "cluster_event \<Rightarrow> string list" where
  "enqueued (BandwidthEvent bw) = [bwName bw]"
| "enqueued (NodeEvent n) = mapAndEnqueue nodeToRequests n []"
| "enqueued (PodCreated p) = mapAndEnqueue podToRequests p []"
| "enqueued (PodUpdated p p') = mapAndEnqueue podToRequests p' (mapAndEnqueue podToRequests p [])"
| "enqueued (PodDeleted p) = mapAndEnqueue podToRequests p []"

lemma set_mapAndEnqueue [simp]: "set (mapAndEnqueue f obj reqs) = set reqs \<union> set (f obj)"
proof -
  have "set (fold (\<lambda>r reqs. if r \<in> set reqs then reqs else reqs @ [r]) xs reqs) = set reqs \<union> set xs" for xs :: "string list"
    by (induction xs arbitrary: reqs) auto
  then show ?thesis by (simp add: mapAndEnqueue_def)
qed

text \<open>A pod is listed for exactly the node its events enqueue.\<close>

lemma index_is_watched: "n \<in> set (nodeNameIndex p) \<longleftrightarrow> n \<in> set (podToRequests p)"
  by (simp add: nodeNameIndex_def podToRequests_def)

section \<open>Events on the pods of a cluster\<close>

fun touched :: "cluster_event \<Rightarrow> Pod set" where
  "touched (PodCreated p) = {p}"
| "touched (PodUpdated p p') = {p, p'}"
| "touched (PodDeleted p) = {p}"
| "touched _ = {}"

fun after :: "cluster_event \<Rightarrow> Pod list \<Rightarrow> Pod list" where
  "after (PodCreated p) pods = pods @ [p]"
| "after (PodUpdated p p') pods = map (\<lambda>q. if q = p then p' else q) pods"
| "after (PodDeleted p) pods = filter (\<lambda>q. q \<noteq> p) pods"
| "after _ pods = pods"

text \<open>A selection to which none of the touched pods belongs is not changed.\<close>

lemma filter_after: "\<forall>q \<in> touched ev. \<not> P q \<Longrightarrow> filter P (after ev pods) = filter P pods"
proof (cases ev)
  case (PodUpdated p p')
  assume "\<forall>q \<in> touched ev. \<not> P q"
  with PodUpdated have "\<not> P p" "\<not> P p'" by simp_all
  then have "filter P (map (\<lambda>q. if q = p then p' else q) pods) = filter P pods" by (induction pods) auto
  with PodUpdated show ?thesis by simp
next
  case (PodDeleted p)
  assume "\<forall>q \<in> touched ev. \<not> P q"
  with PodDeleted have "\<not> P p" by simp
  then have "filter P (filter (\<lambda>q. q \<noteq> p) pods) = filter P pods" by (induction pods) auto
  with PodDeleted show ?thesis by simp
qed auto

lemma find_filter: "find P xs = (case filter P xs of [] \<Rightarrow> None | x # _ \<Rightarrow> Some x)"
  by (induction xs) auto

lemma find_after: "\<forall>q \<in> touched ev. \<not> P q \<Longrightarrow> find P (after ev pods) = find P pods"
  using filter_after [of ev P pods] find_filter [of P pods] find_filter [of P "after ev pods"] by simp

section \<open>What a node's object depends on\<close>

definition is_sibling :: "Pod \<Rightarrow> Pod \<Rightarrow> bool" where
  "is_sibling p q \<longleftrightarrow> podNamespace q = podNamespace p \<and> podDeletionTimestamp q = None \<and>
     EqualFold (wrUID (GetWorkloadRefFromPod q)) (wrUID (GetWorkloadRefFromPod p)) \<and>
     EqualFold (wrKind (GetWorkloadRefFromPod q)) (wrKind (GetWorkloadRefFromPod p))"

text \<open>The pending pod a request was made for.\<close>

definition awaited :: "BandwidthRequest \<Rightarrow> Pod \<Rightarrow> bool" where
  "awaited req q \<longleftrightarrow> podName q = reqPodName req \<and> podNamespace q = reqNamespace req \<and> podUID q = reqPodUid req \<and>
     podPhase q = PodPending"

text \<open>A server that answers from a list of pods, by the index of the operator, by name and by namespace, and whose nodes stay the same during
  a run. No two pods have the same name and namespace.\<close>

definition serves :: "client \<Rightarrow> Pod list \<Rightarrow> bool" where
  "serves cl pods \<longleftrightarrow>
     (\<forall>tr n. clListPodsOnNode cl tr n = Inr (filter (\<lambda>p. n \<in> set (nodeNameIndex p)) pods)) \<and>
     (\<forall>tr ns. clListPodsInNamespace cl tr ns = Inr (filter (\<lambda>p. podNamespace p = ns) pods)) \<and>
     (\<forall>tr n ns. clGetPod cl tr n ns =
        (case find (\<lambda>p. podName p = n \<and> podNamespace p = ns) pods of None \<Rightarrow> Inl NotFound | Some p \<Rightarrow> Inr p)) \<and>
     (\<forall>tr. clGetNode cl tr = clGetNode cl []) \<and>
     distinct (map (\<lambda>p. (podName p, podNamespace p)) pods)"

lemma serves_quiescent: "serves cl pods \<Longrightarrow> quiescent cl"
  unfolding serves_def quiescent_def by (intro allI conjI) (blast, (intro ext, simp)+)

lemma serves_known: "serves cl pods \<Longrightarrow> known_pods cl (podsWithBw cfg (filter P pods)) (set pods)"
  by (auto simp: serves_def known_pods_def find_Some_iff dest: podsWithBw_subset split: option.splits)

lemma find_unique:
  assumes "distinct (map f xs)"
  shows "(case find (\<lambda>x. f x = k) xs of None \<Rightarrow> None | Some x \<Rightarrow> if P x then Some x else None) = find (\<lambda>x. f x = k \<and> P x) xs"
  using assms
proof (induction xs)
  case (Cons a xs)
  have "find (\<lambda>x. f x = k \<and> P x) xs = None" if "f a = k"
    using that Cons.prems by (auto simp: find_None_iff image_iff)
  then show ?case using Cons by simp
qed simp

lemma resolve_serves:
  assumes "serves cl pods"
  shows "resolve cl m req =
    (case map_of m (reqPodUid req) of Some p \<Rightarrow> Some (p, False) | None \<Rightarrow> map_option (\<lambda>p. (p, True)) (find (awaited req) pods))"
proof -
  have "find (awaited req) pods =
      (case find (\<lambda>p. (podName p, podNamespace p) = (reqPodName req, reqNamespace req)) pods of
         None \<Rightarrow> None | Some p \<Rightarrow> if podUID p = reqPodUid req \<and> podPhase p = PodPending then Some p else None)"
  proof -
    have "awaited req = (\<lambda>p. (podName p, podNamespace p) = (reqPodName req, reqNamespace req) \<and>
        podUID p = reqPodUid req \<and> podPhase p = PodPending)" by (auto simp: awaited_def)
    then show ?thesis using assms by (simp only: serves_def find_unique)
  qed
  then show ?thesis
    using assms by (auto simp: resolve_def serves_def split: option.splits)
qed

lemma all_local_serves:
  assumes "serves cl pods"
  shows "all_local cl node p \<longleftrightarrow>
     \<not> standalone p \<and> filter (is_sibling p) pods \<noteq> [] \<and> list_all (\<lambda>q. EqualFold (podNodeName q) node) (filter (is_sibling p) pods)"
proof -
  have "live_siblings (GetWorkloadRefFromPod p) (filter (\<lambda>q. podNamespace q = podNamespace p) pods) = filter (is_sibling p) pods"
    by (auto simp: live_siblings_def is_sibling_def intro!: filter_cong)
  then show ?thesis using assms by (simp add: all_local_def Let_def serves_def)
qed

lemma kept_cong:
  assumes "\<And>req. req \<in> set reqs \<Longrightarrow> resolve cl' pods' req = resolve cl pods req"
    and "\<And>req p b. req \<in> set reqs \<Longrightarrow> resolve cl pods req = Some (p, b) \<Longrightarrow> all_local cl' node p = all_local cl node p"
  shows "kept cl' pq cfg node pods' reqs = kept cl pq cfg node pods reqs"
  using assms
proof (induction reqs)
  case (Cons req reqs)
  have "kept cl' pq cfg node pods' reqs = kept cl pq cfg node pods reqs"
    by (rule Cons.IH) (use Cons.prems in \<open>auto intro: Cons.prems(2)\<close>)
  moreover have "resolve cl' pods' req = resolve cl pods req" by (simp add: Cons.prems(1))
  ultimately show ?case using Cons.prems(2) [of req] by (cases "resolve cl pods req") (auto simp: Let_def split_beta)
qed simp

lemma not_enqueued_elsewhere: "n \<notin> set (enqueued ev) \<Longrightarrow> q \<in> touched ev \<Longrightarrow> n \<notin> set (nodeNameIndex q)"
  by (cases ev) (auto simp: index_is_watched)

lemma listed_after: "n \<notin> set (enqueued ev) \<Longrightarrow> filter (\<lambda>p. n \<in> set (nodeNameIndex p)) (after ev pods) = filter (\<lambda>p. n \<in> set (nodeNameIndex p)) pods"
  by (intro filter_after) (simp add: not_enqueued_elsewhere)

lemma set_after: "set (after ev pods) \<subseteq> set pods \<union> touched ev"
  by (cases ev) auto

lemma owners_consistent_subset: "owners_consistent K \<Longrightarrow> K' \<subseteq> K \<Longrightarrow> owners_consistent K'"
  unfolding owners_consistent_def by blast

text \<open>An event that touches no pending pod of a request and no sibling of a pod with a request leaves what is computed as it is.\<close>

lemma synced_after:
  fixes bw :: Bandwidth
  defines "n \<equiv> specNode (bwSpec bw)" and "reqs \<equiv> specRequests (bwSpec bw)"
  assumes s: "serves cl pods" "serves cl' (after ev pods)" and n: "n \<notin> set (enqueued ev)"
    and awaited: "\<forall>q \<in> touched ev. \<forall>req \<in> set reqs. \<not> awaited req q"
    and siblings: "\<forall>q \<in> touched ev. \<forall>p \<in> set pods. podUID p \<in> reqPodUid ` set reqs \<longrightarrow> \<not> is_sibling p q"
  shows "synced_object cl' pq cfg (filter (\<lambda>p. n \<in> set (nodeNameIndex p)) pods) bw =
    synced_object cl pq cfg (filter (\<lambda>p. n \<in> set (nodeNameIndex p)) pods) bw"
proof -
  let ?m = "podsWithBw cfg (filter (\<lambda>p. n \<in> set (nodeNameIndex p)) pods)"
  have res: "resolve cl' ?m req = resolve cl ?m req" if "req \<in> set reqs" for req
  proof -
    have "find (awaited req) (after ev pods) = find (awaited req) pods" using awaited that by (intro find_after) simp
    then show ?thesis by (simp add: resolve_serves [OF s(1)] resolve_serves [OF s(2)] split: option.split)
  qed
  have loc: "all_local cl' n p = all_local cl n p" if "req \<in> set reqs" "resolve cl ?m req = Some (p, b)" for req p b
  proof -
    have "p \<in> set pods" using resolve_known [OF serves_known [OF s(1)] that(2)] .
    moreover have "podUID p = reqPodUid req" using resolve_uid [OF keyed_podsWithBw that(2)] .
    ultimately have "\<forall>q \<in> touched ev. \<not> is_sibling p q" using siblings that(1) by auto
    then show ?thesis by (simp add: all_local_serves [OF s(1)] all_local_serves [OF s(2)] filter_after)
  qed
  have "kept cl' pq cfg n ?m reqs = kept cl pq cfg n ?m reqs" by (rule kept_cong [OF res loc])
  then show ?thesis by (simp add: synced_object_def n_def reqs_def)
qed

section \<open>Properties\<close>

text \<open>
  C6. What the watches cover. When a synchronisation of a node's object would write nothing, and then an event on a pod happens that
  does not enqueue the node, touches no pending pod for which the object has a request, and touches no sibling of a pod with a request,
  then a synchronisation after the event would still write nothing: no reconciliation is missed. The two exceptions are real:
  the deletion of a pending pod that has no node yet (\<open>pending_deletion_missed\<close>) and siblings on other nodes (\<open>sibling_event_missed\<close>).
\<close>

theorem unwatched_events_harmless:
  assumes s: "serves cl pods" "serves cl' (after ev pods)" "clGetNode cl' [] = clGetNode cl []" "\<And>tr. clRange cl' tr [] = []"
    and K: "owners_consistent (set pods \<union> touched ev)"
    and n: "specNode (bwSpec bw) \<notin> set (enqueued ev)"
    and awaited: "\<forall>q \<in> touched ev. \<forall>req \<in> set (specRequests (bwSpec bw)). \<not> awaited req q"
    and siblings: "\<forall>q \<in> touched ev. \<forall>p \<in> set pods. podUID p \<in> reqPodUid ` set (specRequests (bwSpec bw)) \<longrightarrow> \<not> is_sibling p q"
    and idle: "writes (snd (run_state (SyncFromSpecAndPods cl pq cfg bw) [])) = []"
  shows "writes (snd (run_state (SyncFromSpecAndPods cl' pq cfg bw) [])) = []"
proof -
  let ?b = "setDefaultBandwidthValues cfg bw"
  let ?pods = "filter (\<lambda>p. specNode (bwSpec bw) \<in> set (nodeNameIndex p)) pods"
  note q = serves_quiescent [OF s(1)] serves_quiescent [OF s(2)]
  have K1: "owners_consistent (set pods)" and K2: "owners_consistent (set (after ev pods))"
    using K set_after [of ev pods] by (auto elim: owners_consistent_subset)
  have l: "clListPodsOnNode cl [] (specNode (bwSpec bw)) = Inr ?pods" "clListPodsOnNode cl' [] (specNode (bwSpec bw)) = Inr ?pods"
    using s(1,2) listed_after [OF n] by (simp_all add: serves_def)
  have known: "known_pods cl' (podsWithBw cfg ?pods) (set (after ev pods))"
    using serves_known [OF s(2)] listed_after [OF n] by metis
  obtain nd where nd: "clGetNode cl [] (specNode (bwSpec bw)) = Inr nd" "EqualFold (bwName bw) (nodeName nd)"
    using idle_found [OF q(1) idle] .
  have "\<not> differs ?b (synced_object cl pq cfg ?pods ?b)"
    by (rule idle_same [OF q(1) K1 serves_known [OF s(1)] l(1) idle])
  moreover have "synced_object cl' pq cfg ?pods ?b = synced_object cl pq cfg ?pods ?b"
    using synced_after [OF s(1,2), of ?b pq cfg] n awaited siblings by simp
  ultimately have "reads (SyncFromSpecAndPods cl' pq cfg bw) (\<lambda>r. r = (noRequeue, None))"
    using nd s(3) by (intro same_idle [OF q(2) K2 known s(4) _ nd(2) l(2)]) simp_all
  then show ?thesis using reads_writes(1) by fastforce
qed

text \<open>A server with these nodes and pods, which looks pods up by the index of the operator.\<close>

definition indexed_client :: "Node list \<Rightarrow> Pod list \<Rightarrow> client" where
  "indexed_client nodes pods = (static_client [] nodes pods)\<lparr>clListPodsOnNode := (\<lambda>_ n. Inr (filter (\<lambda>p. n \<in> set (nodeNameIndex p)) pods))\<rparr>"

lemma indexed_serves:
  "distinct (map (\<lambda>p. (podName p, podNamespace p)) pods) \<Longrightarrow> serves (indexed_client nodes pods) pods"
  by (simp add: serves_def indexed_client_def static_client_def Let_def)

text \<open>An object that accounts for one request.\<close>

definition ex_settled :: "bool \<Rightarrow> Bandwidth" where
  "ex_settled linkLocal =
     (let cap = Capacity (BandwidthDefinition 20000 20000) (BandwidthDefinition 1000 1000);
          used = Capacity (BandwidthDefinition 20 30) (if linkLocal then 0 else BandwidthDefinition 20 30)
      in (newBandwidth ''n'')\<lparr>
        bwSpec := \<lparr>specNode = ''n'', specCapacity = cap, specRequests = [(ex_request ''a'')\<lparr>reqLinkLocal := linkLocal\<rparr>], specStatus = StEmpty\<rparr>,
        bwStatus := \<lparr>stStatus = StCreated, stErrorReason = '''', stUsed = used, stRemaining = cap - used,
          stReservations = [reservationFor (ex_pod ''a'' ''n'') 20 30 (if linkLocal then 0 else 20) (if linkLocal then 0 else 30)],
          stCapacity = cap, stUpdatedAt = 0\<rparr>\<rparr>)"

definition ex_stranger :: Pod where
  "ex_stranger = (ex_pod ''b'' ''m'')\<lparr>podOwners := [\<lparr>orKind = ''S'', orName = ''v'', orUID = ''z'', orController = Some True\<rparr>]\<rparr>"

lemmas watch_defs = indexed_client_def nodeNameIndex_def ex_settled_def ex_stranger_def ex_defs run_defs

lemma ex_idle:
  "writes (snd (run_state (SyncFromSpecAndPods (indexed_client [\<lparr>nodeName = ''n''\<rparr>] [ex_pod ''a'' ''n'']) (\<lambda>_. None) ex_cfg (ex_settled True)) [])) = []"
  by (simp add: watch_defs)

theorem unwatched_events_harmless_witness:
  "writes (snd (run_state (SyncFromSpecAndPods (indexed_client [\<lparr>nodeName = ''n''\<rparr>] [ex_pod ''a'' ''n'', ex_stranger]) (\<lambda>_. None) ex_cfg
     (ex_settled True)) [])) = []"
proof (rule unwatched_events_harmless [OF _ _ _ _ _ _ _ _ ex_idle])
  show "serves (indexed_client [\<lparr>nodeName = ''n''\<rparr>] [ex_pod ''a'' ''n'']) [ex_pod ''a'' ''n'']" by (rule indexed_serves) simp
  show "serves (indexed_client [\<lparr>nodeName = ''n''\<rparr>] [ex_pod ''a'' ''n'', ex_stranger]) (after (PodCreated ex_stranger) [ex_pod ''a'' ''n''])"
    using indexed_serves [of "[ex_pod ''a'' ''n'', ex_stranger]"] by (simp add: ex_stranger_def ex_pod_def)
  show "owners_consistent (set [ex_pod ''a'' ''n''] \<union> touched (PodCreated ex_stranger))"
    by (simp add: owners_consistent_def ex_stranger_def ex_pod_def GetWorkloadRefFromPod_def ownerRef_def)
  show "\<forall>q \<in> touched (PodCreated ex_stranger). \<forall>p \<in> set [ex_pod ''a'' ''n'']. podUID p \<in> reqPodUid ` set (specRequests (bwSpec (ex_settled True))) \<longrightarrow>
      \<not> is_sibling p q"
    by (simp add: is_sibling_def ex_stranger_def ex_pod_def GetWorkloadRefFromPod_def ownerRef_def EqualFold_def fold_char_def)
qed (simp_all add: indexed_client_def static_client_def Let_def podToRequests_def awaited_def ex_settled_def ex_stranger_def ex_pod_def ex_request_def)

text \<open>
  Siblings are one exception: a workload starts a second pod on another node, which enqueues that node only (and the search for
  related nodes, which should cover it, returns none), although the first node's pod now uses the network. Until something else
  happens on that node its object says that the network is free.
\<close>

theorem sibling_event_missed:
  "''n'' \<notin> set (enqueued (PodCreated (ex_pod ''b'' ''m'')))"
  "writes (snd (run_state (SyncFromSpecAndPods (indexed_client [\<lparr>nodeName = ''n''\<rparr>] [ex_pod ''a'' ''n'']) (\<lambda>_. None) ex_cfg (ex_settled True)) [])) = []"
  "writes (snd (run_state (SyncFromSpecAndPods (indexed_client [\<lparr>nodeName = ''n''\<rparr>] (after (PodCreated (ex_pod ''b'' ''m'')) [ex_pod ''a'' ''n'']))
     (\<lambda>_. None) ex_cfg (ex_settled True)) [])) \<noteq> []"
  by (simp add: podToRequests_def ex_pod_def, rule ex_idle, simp add: watch_defs)

text \<open>
  A pending pod without a node is the other: bandwidth was reserved for it, its deletion enqueues nothing, and the
  request stays in the object until something else happens on that node.
\<close>

definition ex_unbound :: Pod where
  "ex_unbound = (ex_pod ''a'' '''')\<lparr>podPhase := PodPending\<rparr>"

theorem pending_deletion_missed:
  "''n'' \<notin> set (enqueued (PodDeleted ex_unbound))"
  "writes (snd (run_state (SyncFromSpecAndPods (indexed_client [\<lparr>nodeName = ''n''\<rparr>] [ex_unbound]) (\<lambda>_. None) ex_cfg (ex_settled False)) [])) = []"
  "writes (snd (run_state (SyncFromSpecAndPods (indexed_client [\<lparr>nodeName = ''n''\<rparr>] (after (PodDeleted ex_unbound) [ex_unbound]))
     (\<lambda>_. None) ex_cfg (ex_settled False)) [])) \<noteq> []"
  by (simp_all add: ex_unbound_def podToRequests_def watch_defs)

end
