(* ===== verification/Spec2Isabelle.thy ===== *)
theory Spec2Isabelle
  imports Operator_Lifecycle Vaclab_Properties Capacity_Properties Coscheduling_Properties Pod_State QOS_Sort
    Network_Properties Pod_Group_Properties Quota_Controller_Properties
    Preemption_Toleration_Properties Sys_Sched_Properties Node_Resources
    Numa_Filter_Properties Numa_Score_Properties Numa_Plugin Trimaran_Properties Plugin_Config Health_Properties
    Quota_Heap_Properties Capacity_Events Reservation_Lifecycle Operator_Watch
begin

text \<open>
  \<^bold>\<open>A verification library for vaclab-k8s-plugins\<close>

  The repository adds network bandwidth as a schedulable resource to Kubernetes. It has two parts
  that meet in one custom resource per node, \<^verbatim>\<open>Bandwidth\<close>: its spec lists the requests of pods, its
  status the used and the remaining amounts of the local and of the network datapath.

  \<^item> The \<^emph>\<open>operator\<close> (\<^verbatim>\<open>bandwidth-operator/\<close>) creates the object of each node and recomputes, at every
    reconciliation, requests and accounts from the pods of the cluster. A pod whose workload runs
    on a single node uses the local datapath only, so the account of one node depends on pods of others.
  \<^item> The \<^emph>\<open>scheduler plugin\<close> (\<^verbatim>\<open>scheduler-plugins/pkg/vaclabscheduling/\<close>) reads the status to filter and
    score nodes and adds a request to the spec when a pod is reserved on a node.

  The scheduler binary contains further plugins; those for elastic quotas, pod groups, pod states,
  quality of service, network topology, preemption toleration, system calls, allocatable resources, NUMA
  topology and measured load are covered here as well, and so are the configuration of the plugins, the controllers of pod
  groups and elastic quotas, and the plugin \<^verbatim>\<open>kubectl health\<close> (\<^verbatim>\<open>kubectl-plugins/health/\<close>), which measures the network of a cluster.

  \<^bold>\<open>Theories and sources\<close>

  \<^item> \<^verbatim>\<open>Go_Prelude\<close>: Go's integers (\<open>int64\<close> is a 64-bit word with signed readings), strings, maps, and
    the state monad over the trace of external calls, with its rules (\<open>does\<close>, \<open>does_then\<close>, \<open>emits\<close>).
    \<^verbatim>\<open>K8s_Objects\<close>: pods, containers, quantities, API errors. \<^verbatim>\<open>Go_Float\<close>: floats as exact rationals that are
    rounded to nearest even after each operation. \<^verbatim>\<open>Go_Heap\<close>: objects behind pointers, in an explicit heap, with the contracts
    of views, mutating operations and clones (locales \<open>heap_view\<close>, \<open>mutator\<close>, \<open>procedure\<close>, \<open>cloner\<close>).
  \<^item> \<^verbatim>\<open>Bandwidth_API\<close>: \<^verbatim>\<open>api/v1/bandwidth_types.go\<close> and the client of the API server.
  \<^item> \<^verbatim>\<open>Operator_Helpers\<close>, \<^verbatim>\<open>Operator_Sync\<close>, \<^verbatim>\<open>Operator_Reconcile\<close>: \<^verbatim>\<open>internal/controller/helpers.go\<close>,
    \<^verbatim>\<open>setup_bandwidth.go\<close>, \<^verbatim>\<open>bandwidth_controller.go\<close>, one definition per function or loop body.
    \<^verbatim>\<open>Operator_Invariants\<close> shows that every object sent to the server is a balanced account;
    \<^verbatim>\<open>Operator_Refinement\<close> states what a synchronisation should compute (\<open>synced_object\<close>) and that the
    loop with its caches computes it on a cluster that does not change; \<^verbatim>\<open>Operator_Effects\<close> bounds the
    writes of a synchronisation, first to its own object and then to those of nodes it notifies, and \<^verbatim>\<open>Operator_Writes\<close> says
    what its writes to its own object carry and when it makes them. The properties are in \<^verbatim>\<open>Operator_Properties\<close> and \<^verbatim>\<open>Operator_Lifecycle\<close>; \<^verbatim>\<open>Operator_Watch\<close> has
    the watches of \<^verbatim>\<open>SetupWithManager\<close> and which events they catch.
  \<^item> \<^verbatim>\<open>Sched_Framework\<close>: status codes, scores, and the contracts of score normalisers and inverters
    (locales \<open>score_scaler\<close>, \<open>score_normalizer\<close>, \<open>score_inverter\<close>), interpreted on the normalisation of the vaclab,
    pod state, allocatable, network overhead and system call plugins.
  \<^item> \<^verbatim>\<open>Ledger\<close>: the contract of a list of requests with one entry per pod (locale \<open>ledger\<close>), interpreted
    on the requests of a \<^verbatim>\<open>Bandwidth\<close> object in \<^verbatim>\<open>Vaclab_Invariants\<close>.
  \<^item> \<^verbatim>\<open>Vaclab_Bandwidth\<close>, \<^verbatim>\<open>Vaclab_Scheduling\<close>: \<^verbatim>\<open>bandwidth_resource.go\<close> and \<^verbatim>\<open>vaclab_scheduling.go\<close> with the
    arguments and defaults of \<^verbatim>\<open>apis/config\<close>; properties in \<^verbatim>\<open>Vaclab_Properties\<close>. \<^verbatim>\<open>Reservation_Lifecycle\<close> follows a
    reservation from the scheduler through the operator's synchronisations, with the property below (C11).
  \<^item> \<^verbatim>\<open>Resources\<close>: resource vectors (\<^verbatim>\<open>framework.Resource\<close>, \<^verbatim>\<open>pkg/util/resource.go\<close>).
  \<^item> \<^verbatim>\<open>Elastic_Quota\<close>, \<^verbatim>\<open>Capacity_Scheduling\<close>: \<^verbatim>\<open>pkg/capacityscheduling\<close>. The contract of a usage account is
    the locale \<open>usage_account\<close> of \<^verbatim>\<open>Usage_Account\<close>, interpreted in \<^verbatim>\<open>Capacity_Invariants\<close> on the quotas,
    where the event handlers and extension points form one step relation (\<open>cap_step\<close>) and the
    invariant \<open>quotas_ok\<close> holds in every reachable state; properties in \<^verbatim>\<open>Capacity_Properties\<close>. There the quotas are values;
    \<^verbatim>\<open>Quota_Heap\<close> has the same operations, and the clones and snapshots of the quotas, through pointers. \<^verbatim>\<open>Quota_Heap_Views\<close>
    and \<^verbatim>\<open>Quota_Heap_Maps\<close> interpret the locales of \<^verbatim>\<open>Go_Heap\<close> on vectors, quotas and maps of quotas, and
    \<^verbatim>\<open>Quota_Heap_Properties\<close> shows that the plugin on the heap simulates the plugin on values. \<^verbatim>\<open>Capacity_Events\<close>: the filters
    and handlers registered with the informers, and the interleaving of two of them.
  \<^item> \<^verbatim>\<open>Coscheduling\<close>: \<^verbatim>\<open>pkg/coscheduling\<close> and \<^verbatim>\<open>pkg/util/podgroup.go\<close>, with the two expiring caches of
    the group manager; its queue order fulfils the locale \<open>queue_order\<close> of \<^verbatim>\<open>Queue_Order\<close>; properties in
    \<^verbatim>\<open>Coscheduling_Properties\<close>.
  \<^item> \<^verbatim>\<open>Pod_State\<close>, \<^verbatim>\<open>QOS_Sort\<close>: \<^verbatim>\<open>pkg/podstate\<close> and \<^verbatim>\<open>pkg/qos\<close>, each with its properties.
  \<^item> \<^verbatim>\<open>Network_Util\<close>, \<^verbatim>\<open>Network_Overhead\<close>, \<^verbatim>\<open>Topological_Sort\<close>: \<^verbatim>\<open>pkg/networkaware\<close>. \<^verbatim>\<open>Network_Refinement\<close> states what
    filter and score should be, by plain lookup in the topology, and that the cost maps and binary searches
    of the code compute it; properties in \<^verbatim>\<open>Network_Properties\<close>.
  \<^item> \<^verbatim>\<open>Pod_Group_Controller\<close>, \<^verbatim>\<open>Quota_Controller\<close>: \<^verbatim>\<open>pkg/controllers\<close>. The reconciliations of a pod group are
    a step relation on its status (\<open>pg_step\<close>); properties in \<^verbatim>\<open>Pod_Group_Properties\<close> and \<^verbatim>\<open>Quota_Controller_Properties\<close>.
  \<^item> \<^verbatim>\<open>Preemption_Base\<close>, \<^verbatim>\<open>Preemption_Toleration\<close>: what the preempting plugins share, and
    \<^verbatim>\<open>pkg/preemptiontoleration\<close>; properties in \<^verbatim>\<open>Preemption_Toleration_Properties\<close>.
  \<^item> \<^verbatim>\<open>Sys_Sched\<close>: \<^verbatim>\<open>pkg/sysched\<close>; its event handlers form the step relation \<open>sys_step\<close> of
    \<^verbatim>\<open>Sys_Sched_Properties\<close>. \<^verbatim>\<open>Node_Resources\<close>: \<^verbatim>\<open>pkg/noderesources\<close> with its properties.
  \<^item> \<^verbatim>\<open>Numa_Resources\<close>, \<^verbatim>\<open>Numa_Filter\<close>, \<^verbatim>\<open>Numa_Score\<close>, \<^verbatim>\<open>Numa_Cache\<close>, \<^verbatim>\<open>Numa_Plugin\<close>: \<^verbatim>\<open>pkg/noderesourcetopology\<close>. The three
    caches fulfil the locale \<open>nrt_cache\<close> of \<^verbatim>\<open>Numa_Cache_Properties\<close>, and so does the cache of the plugin, whichever
    is configured; \<^verbatim>\<open>Combin\<close> is the vendored enumeration of combinations the scores use. Properties in
    \<^verbatim>\<open>Numa_Filter_Properties\<close>, \<^verbatim>\<open>Numa_Score_Properties\<close> and \<^verbatim>\<open>Numa_Cache_Properties\<close>.
  \<^item> \<^verbatim>\<open>Trimaran\<close>, \<^verbatim>\<open>Trimaran_Plugins\<close>: \<^verbatim>\<open>pkg/trimaran\<close>, the metrics, the statistics, the cache of pods bound recently and the
    scores of its three plugins; properties in \<^verbatim>\<open>Trimaran_Properties\<close>.
  \<^item> \<^verbatim>\<open>Plugin_Config\<close>: \<^verbatim>\<open>apis/config\<close>, the versioned and internal arguments of all plugins, their defaults and conversions, with its
    properties.
  \<^item> \<^verbatim>\<open>Health_Plugin\<close>, \<^verbatim>\<open>Health_Benchmark\<close>: \<^verbatim>\<open>kubectl-plugins/health/k3sutils\<close>, the reports and their listing (\<^verbatim>\<open>list_benchmark.go\<close>) and
    the command that runs a benchmark (\<^verbatim>\<open>create_benchmark.go\<close>); properties in \<^verbatim>\<open>Health_Properties\<close>.

  \<^bold>\<open>How the code is read\<close>

  \<^item> A function that talks to the API server, the clock or the event recorder is a computation
    over the trace of calls; the server's answer is an arbitrary function of the trace (record
    \<open>client\<close>), so concurrent writers and failing calls are covered without any assumption. Where a
    property needs more of the server, a predicate says so (\<open>quiescent\<close>: the answers do not change;
    \<open>keeps\<close>: an update is stored; \<open>names_kept\<close>: an object is returned under the name asked for or sent; \<open>status_subresource\<close>: an update leaves the status alone), and a
    concrete client shows that it can hold.
  \<^item> Goroutines that are awaited before the function goes on appear as a sequence in an arbitrary
    order chosen by the client (\<open>clSchedule\<close>); so does the iteration over a map (\<open>clRange\<close>).
  \<^item> Amounts of bandwidth and of resources are 64-bit words and wrap around; statements that read
    them as integers carry the bounds they need. Times are integers in nanoseconds.
  \<^item> Loops are structural recursions or folds and need no fuel; the binary searches of the network plugins are
    partial functions, proved to return on every list. The retries of the operator's bootstrap are bounded by the
    constants of the code. The waiting loops of \<^verbatim>\<open>kubectl health\<close> take fuel; 601 rounds are enough, since the shortest pause
    is two seconds and the longest timeout twenty minutes (C30).
  \<^item> A nil dereference, an index out of range or a division by zero is a value of the result type (a panic).
  \<^item> Log messages, event texts and status messages are left out; status codes are kept.
  \<^item> Parameters: \<^verbatim>\<open>resource.ParseQuantity\<close> (\<open>parse_quantity\<close>), the filter plugins and sorts that victim
    selection calls, \<^verbatim>\<open>IsScalarResourceName\<close>, the listers and snapshots of the framework, the client of the load
    watcher, \<^verbatim>\<open>math.Pow\<close>, \<^verbatim>\<open>math.Sqrt\<close> and the incomplete beta function, \<^verbatim>\<open>sort.Slice\<close>, JSON and formats of time.

  \<^bold>\<open>What is shown\<close>

  The accounts the operator writes always balance, it writes its own object before it turns to others, its loop refines the specification, it converges
  and writes nothing once settled, what it writes holds bandwidth for exactly the pods that still need it, it creates each node's object
  once, and but for siblings and pods that have no node yet its watches miss no event (C1--C6, C8, C9). The requests of a node's object are
  those of the scheduler's last decision on each pod, the operator holds what the scheduler reserved as long as the pod is pending or runs, an admitted
  pod fits what is left, and scores are normalised correctly (C10--C12, C14--C16). The usage of an elastic
  quota is at all times the sum over its pods, admission keeps to maximum and aggregate minimum in every resource the code compares, and
  victims may be evicted (C17, C18, C21, C23); the snapshots of scheduling cycles are isolated from the live quotas and from
  each other (C19). Pod groups are checked, released and backed off as a whole, and queued as a block unless
  another has the same time and priority (C24--C27).
  The network plugins terminate, refine the lookup specification and invert costs, and the exact cases of their panics are
  known (C31, C32, C34, C20). A pod
  group goes through its phases as its pods do, and a quota records what its running pods request, overhead apart (C35, C36). Preemption
  under toleration takes a minimal set of victims (C37), and the system call plugin keeps an exact account and
  prefers less exposure (C38). The NUMA filter accepts a node only if the containers can be placed, the score counts
  the fewest NUMA nodes a pod needs, and the cache hands out exactly what is left if every outstanding pod is charged
  to every zone (C39, C7, C40). The load-aware plugins keep their scores in range and in the intended order in spite of
  rounding, and remember the pods the metrics do not show yet (C13, C22, C33). Decoded arguments of plugins
  survive a round trip, those of the load-aware plugins are in range, and when the repository's validators accept them is known (C29). A benchmark ends and releases what it set up (C30), and its listing shows the latest
  results (C28). \<^verbatim>\<open>Vaclab_Properties\<close>, \<^verbatim>\<open>Pod_State\<close>, \<^verbatim>\<open>QOS_Sort\<close>, \<^verbatim>\<open>Capacity_Properties\<close> and
  \<^verbatim>\<open>Node_Resources\<close> have further theorems of their own
  (\<open>operator_reads_reserved_amounts\<close>, \<open>unreserve_restores_quota\<close>, \<open>pod_state_normalization\<close>, \<open>qos_class_of_pod\<close>, \<open>qos_queue_order\<close>, \<open>pod_request_is_effective_request\<close>, \<open>allocatable_rating_order\<close>).
  C20 pins down a defect; further defects are
  theorems next to the components they concern (\<open>siblings_search\<close>, \<open>sibling_event_missed\<close>, \<open>pending_deletion_missed\<close>, \<open>single_sync_status_stale\<close>, \<open>filter_ignores_reservations\<close>,
  \<open>default_reservation_dropped\<close>, \<open>capacity_tombstones_panic\<close>, \<open>add_quota_race_loses_pod\<close>,
  \<open>reprieve_removes_twice\<close>, \<open>same_time_interleaves\<close>, \<open>sysched_tombstone_panics\<close>, \<open>vaclab_defaults_not_applied\<close>, \<open>rtt_average_skewed\<close>, \<open>services_left_behind\<close>, \<open>node_64_panics\<close>, \<open>sparse_ids_panic\<close>, \<open>stale_entries_kept\<close>,
  \<open>tombstone_panics\<close>, \<open>target_above_100\<close>, \<open>scalar_without_limit_panics\<close>, \<open>tiny_deviation_infinite_shape\<close>,
  \<open>many_nodes_negative\<close>, \<open>resync_forgets_pending_pod\<close>, \<open>flush_forgets_reserve\<close>, \<open>topological_order_cyclic\<close>, \<open>phase_ignores_namespace\<close>,
  \<open>overhead_not_counted\<close>, \<open>toleration_overflows\<close>, \<open>annotations_not_merged\<close>, \<open>pods_confused_by_name\<close>,
  \<open>unconfined_rated_best\<close>, \<open>weights_overflow_panic\<close>).

  \<^bold>\<open>Not modelled\<close>

  Entry points, flags and metrics of the binaries, and what \<^verbatim>\<open>kubectl health\<close> prints and the shell script it runs in pods;
  generated clients and deep copies; vendored libraries beyond the functions named above; the cross-node preemption
  plugin, whose files are commented out.
\<close>

section \<open>The scheduler and the operator\<close>

text \<open>
  C11. What the scheduler reserves is what the operator keeps. Let \<open>PreFilter\<close> accept a pod and store the amounts it read
  off the annotations, or took from the defaults. Then \<open>Reserve\<close> writes the node's object with a request of these amounts, and
  when the operator recomputes the object, while the pod is pending, or while it runs on the node with the annotations
  \<open>PreFilter\<close> left on it, the object still holds the request with the same amounts, and accounts for them.
\<close>

theorem reserved_bandwidth_is_held:
  assumes cfg: "quantity_M pq" "defaults_ok hc" "hcEgress hc = cfgEgress cfg" "hcIngress hc = cfgIngress cfg"
    and pre: "fst (run_state (Vaclab_Scheduling.PreFilter cl pq hc st0 pod) tr0) = (Success, st, pod')"
    and s: "Vaclab_Scheduling.getPreFilterState st = Some s" "pfsUlMbps s \<noteq> 0 \<or> pfsDlMbps s \<noteq> 0"
    and bw: "clGetBandwidth cl tr node = Inr bw"
    and r: "r = schedRequest (podName pod) (podNamespace pod) (podUID pod) (pfsUlMbps s) (pfsDlMbps s)"
    and bw': "bw' = withRequests (addRequest r (specRequests (bwSpec bw))) bw"
    and op: "quiescent ocl" "owners_consistent K" "known_pods ocl (podsWithBw cfg pods) K"
    and stage: "holds_bandwidth ocl cfg pods pod (podAnnotations pod') p"
  shows "writes (snd (run_state (Vaclab_Scheduling.Reserve cl st pod node) tr)) = writes tr @ [CUpdate bw'] \<and>
    held (applyAccount (fst (run_state (sync_loop ocl pq cfg (specNode (bwSpec bw')) (podsWithBw cfg pods) existing
        (specRequests (bwSpec bw')) empty_sync_acc) t)) bw') (podUID pod) (pfsUlMbps s) (pfsDlMbps s)"
proof
  show "writes (snd (run_state (Vaclab_Scheduling.Reserve cl st pod node) tr)) = writes tr @ [CUpdate bw']"
    using s bw by (auto simp: Vaclab_Scheduling.Reserve_def AddBandwidthRequest_def r bw' split: sum.split)
  obtain s' where "Vaclab_Scheduling.getPreFilterState st = Some s'"
    "ExtractPodBandwidthRequirement pq hc pod = (pfsUlMbps s', pfsDlMbps s', pod')"
    using pre by (rule PreFilter_stores)
  with s(1) have ex: "ExtractPodBandwidthRequirement pq hc pod = (pfsUlMbps s, pfsDlMbps s, pod')" by simp
  obtain b where b: "resolve ocl (podsWithBw cfg pods) r = Some (p, b)" "amounts pq cfg r p b = (pfsUlMbps s, pfsDlMbps s)"
    and uid: "podUID p = podUID pod"
    using holds_resolve [OF cfg ex s(2) stage r] by blast
  have "r \<in> set (specRequests (bwSpec bw'))" by (simp add: bw' withRequests_def addRequest_def)
  from synced_held [OF this b] reads_writes(2) [OF sync_loop_synced [OF op, of pq bw' existing], of t] uid
  show "held (applyAccount (fst (run_state (sync_loop ocl pq cfg (specNode (bwSpec bw')) (podsWithBw cfg pods) existing
        (specRequests (bwSpec bw')) empty_sync_acc) t)) bw') (podUID pod) (pfsUlMbps s) (pfsDlMbps s)"
    by simp
qed

definition ex_running :: client where
  "ex_running = static_client [ex_idle] [\<lparr>nodeName = ''n''\<rparr>] [ex_pod ''a'' ''n'']"

theorem reserved_bandwidth_is_held_witness:
  "held (applyAccount (fst (run_state (sync_loop ex_running ex_pq ex_cfg ''n'' (podsWithBw ex_cfg [ex_pod ''a'' ''n'']) []
      [schedRequest ''a'' ''d'' ''a'' 20 30] empty_sync_acc) []))
    (withRequests [schedRequest ''a'' ''d'' ''a'' 20 30] ex_idle)) ''a'' 20 30"
proof -
  let ?pod = "ex_pending ''a''" and ?pods = "[ex_pod ''a'' ''n'']" and ?r = "schedRequest ''a'' ''d'' ''a'' 20 30"
  let ?s = "\<lparr>pfsUlMbps = 20, pfsDlMbps = 30, pfsOwnerUID = ''o'', pfsOwnerKind = ''S'', pfsHasWorkload = True\<rparr>"
  let ?st = "AList.update stateKey (PreFilterData ?s) []" and ?bw = "withRequests [?r] ex_idle"
  have ids: "podName ?pod = ''a''" "podNamespace ?pod = ''d''" "podUID ?pod = ''a''"
    by (simp_all add: ex_pending_def ex_pod_def)
  have ex: "ExtractPodBandwidthRequirement ex_pq ex_hc ?pod = (20, 30, ?pod)"
    by (simp add: ExtractPodBandwidthRequirement_def GetBandwidthFromPodAnnotations_def parseBandwidthValue_def ex_pending_def ex_pod_def
        zero_pod_def ex_hc_def Atoi_def ParseInt_def parse_digits_def digit_val_def Let_def)
  have w: "workloadInfo (podOwners ?pod) = (''o'', ''S'', True)"
    by (simp add: workloadInfo_def controllerOwner_def ex_pending_def ex_pod_def)
  have f: "feasibleOn 20 30 ex_idle" by (simp add: feasibleOn_def Let_def sle_sint)
  have l: "clListBandwidths ex_cluster tr = Inr [ex_idle]" for tr by (simp add: ex_cluster_def)
  have pre: "fst (run_state (Vaclab_Scheduling.PreFilter ex_cluster ex_pq ex_hc [] ?pod) []) = (Success, ?st, ?pod)"
    by (simp add: Vaclab_Scheduling.PreFilter_def ex w f l ListBandwidths_def sless_sint Let_def)
  have d: "defaults_ok ex_hc" by (simp add: defaults_ok_def ex_hc_def)
  have keys: "hcEgress ex_hc = cfgEgress ex_cfg" "hcIngress ex_hc = cfgIngress ex_cfg" by (simp_all add: ex_hc_def ex_cfg_def)
  have k: "known_pods ex_running (podsWithBw ex_cfg ?pods) (set ?pods)"
    using static_known [of "[ex_idle]" "[\<lparr>nodeName = ''n''\<rparr>]" ?pods ex_cfg "\<lambda>_. True"] by (simp add: ex_running_def)
  have stage: "holds_bandwidth ex_running ex_cfg ?pods ?pod (podAnnotations ?pod) (ex_pod ''a'' ''n'')"
    by (rule holds_bandwidth.running) (simp_all add: ex_pending_def ex_pod_def is_live_def zero_pod_def)
  have q: "quiescent ex_running" "owners_consistent (set ?pods)" by (simp_all add: ex_running_def owners_consistent_def)
  have b: "?bw = withRequests (addRequest ?r (specRequests (bwSpec ex_idle))) ex_idle" by (simp add: addRequest_def)
  have fields: "specNode (bwSpec ?bw) = ''n''" "specRequests (bwSpec ?bw) = [?r]" by (simp_all add: withRequests_def)
  have amt: "pfsUlMbps ?s \<noteq> 0 \<or> pfsDlMbps ?s \<noteq> 0" by simp
  have r: "?r = schedRequest (podName ?pod) (podNamespace ?pod) (podUID ?pod) (pfsUlMbps ?s) (pfsDlMbps ?s)" by (simp add: ids)
  have "held (applyAccount (fst (run_state (sync_loop ex_running ex_pq ex_cfg (specNode (bwSpec ?bw)) (podsWithBw ex_cfg ?pods) []
      (specRequests (bwSpec ?bw)) empty_sync_acc) [])) ?bw) (podUID ?pod) (pfsUlMbps ?s) (pfsDlMbps ?s)"
    by (rule conjunct2 [OF reserved_bandwidth_is_held
          [OF ex_pq_M d keys pre getPreFilterState_update amt ex_cluster_bw [of "[]"] r b q k stage]])
  then show ?thesis unfolding fields ids by (simp only: preFilterState.select_convs)
qed

end
